(* ===== verification/Prelude.thy ===== *)
theory Prelude
  imports Main "HOL-Library.Char_ord" "HOL-Library.List_Lexorder"
begin

text \<open>
  Shared vocabulary of the development: Rust's \<open>Result\<close> with the \<open>?\<close> operator and the loops that
  thread it, Rust's ordered map \<open>BTreeMap<String, V>\<close> as a strictly sorted association list, and the
  collections of facts the component proofs use.
\<close>

named_theorems ok_simps \<open>when a computation that returns Result succeeds\<close>
named_theorems bmap_simps \<open>laws of the ordered map\<close>

section \<open>Result\<close>

text \<open>\<open>Inl\<close> is Rust's \<open>Err\<close>, \<open>Inr\<close> is \<open>Ok\<close>; \<^term>\<open>and_then\<close> is the \<open>?\<close> operator.\<close>

definition and_then :: "'e + 'a \<Rightarrow> ('a \<Rightarrow> 'e + 'b) \<Rightarrow> 'e + 'b" where
  "and_then r k = (case r of Inl e \<Rightarrow> Inl e | Inr a \<Rightarrow> k a)"

definition is_ok :: "'e + 'a \<Rightarrow> bool" where
  "is_ok r = (case r of Inl _ \<Rightarrow> False | Inr _ \<Rightarrow> True)"

definition guard_ok :: "bool \<Rightarrow> 'e \<Rightarrow> 'e + unit" where
  "guard_ok b e = (if b then Inr () else Inl e)"

fun each_ok :: "('a \<Rightarrow> 'e + unit) \<Rightarrow> 'a list \<Rightarrow> 'e + unit" where
  "each_ok f [] = Inr ()"
| "each_ok f (x # xs) = and_then (f x) (\<lambda>_. each_ok f xs)"

fun fold_ok :: "('s \<Rightarrow> 'a \<Rightarrow> 'e + 's) \<Rightarrow> 's \<Rightarrow> 'a list \<Rightarrow> 'e + 's" where
  "fold_ok f s [] = Inr s"
| "fold_ok f s (x # xs) = and_then (f s x) (\<lambda>s'. fold_ok f s' xs)"

fun map_ok :: "('a \<Rightarrow> 'e + 'b) \<Rightarrow> 'a list \<Rightarrow> 'e + 'b list" where
  "map_ok f [] = Inr []"
| "map_ok f (x # xs) = and_then (f x) (\<lambda>y. and_then (map_ok f xs) (\<lambda>ys. Inr (y # ys)))"

definition ok_or :: "'e \<Rightarrow> 'a option \<Rightarrow> 'e + 'a" where
  "ok_or e x = (case x of None \<Rightarrow> Inl e | Some a \<Rightarrow> Inr a)"

lemma and_then_simps [simp]:
  "and_then (Inl e) k = Inl e"
  "and_then (Inr a) k = k a"
  by (simp_all add: and_then_def)

lemma is_ok_simps [simp]:
  "is_ok (Inr a)"
  "\<not> is_ok (Inl e)"
  by (simp_all add: is_ok_def)

lemma is_ok_iff: "is_ok r \<longleftrightarrow> (\<exists>a. r = Inr a)"
  by (cases r) simp_all

lemma and_then_ok [ok_simps]:
  "and_then r k = Inr b \<longleftrightarrow> (\<exists>a. r = Inr a \<and> k a = Inr b)"
  by (cases r) simp_all

lemma guard_ok_ok [ok_simps]: "guard_ok b e = Inr u \<longleftrightarrow> b"
  by (simp add: guard_ok_def)

lemma guard_ok_simps [simp]:
  "guard_ok True e = Inr ()"
  "guard_ok False e = Inl e"
  by (simp_all add: guard_ok_def)

lemma ok_or_ok [ok_simps]: "ok_or e x = Inr a \<longleftrightarrow> x = Some a"
  by (cases x) (simp_all add: ok_or_def)

lemma ok_or_simps [simp]:
  "ok_or e None = Inl e"
  "ok_or e (Some a) = Inr a"
  by (simp_all add: ok_or_def)

lemma each_ok_ok [ok_simps]: "each_ok f xs = Inr u \<longleftrightarrow> (\<forall>x \<in> set xs. f x = Inr ())"
proof (induction xs)
  case (Cons x xs)
  show ?case
  proof (cases "f x")
    case (Inr a)
    then show ?thesis using Cons.IH by simp
  qed simp
qed simp

lemma map_ok_ok [ok_simps]:
  "map_ok f xs = Inr ys \<longleftrightarrow> list_all2 (\<lambda>x y. f x = Inr y) xs ys"
proof (induction xs arbitrary: ys)
  case Nil
  show ?case by simp (metis)
next
  case (Cons x xs)
  show ?case
  proof (cases "f x")
    case (Inr y)
    then show ?thesis
      by (simp add: and_then_ok Cons.IH list_all2_Cons1) metis
  qed (simp add: list_all2_Cons1)
qed

lemma fold_ok_append:
  "fold_ok f s (xs @ ys) = and_then (fold_ok f s xs) (\<lambda>s'. fold_ok f s' ys)"
proof (induction xs arbitrary: s)
  case (Cons x xs)
  then show ?case by (cases "f s x") simp_all
qed simp

lemma fold_ok_invariant:
  assumes "fold_ok f s xs = Inr s'" "P s"
    and "\<And>s x t. P s \<Longrightarrow> x \<in> set xs \<Longrightarrow> f s x = Inr t \<Longrightarrow> P t"
  shows "P s'"
  using assms
proof (induction xs arbitrary: s)
  case (Cons x xs)
  from Cons.prems(1) obtain t where t: "f s x = Inr t" and rest: "fold_ok f t xs = Inr s'"
    by (auto simp: and_then_ok)
  have "P t" by (rule Cons.prems(3) [OF Cons.prems(2) _ t]) simp
  then show ?case
  proof (rule Cons.IH [OF rest])
    fix s x t
    assume "P s" "x \<in> set xs" "f s x = Inr t"
    then show "P t" using Cons.prems(3) by (meson list.set_intros(2))
  qed
qed simp

section \<open>Ordered maps\<close>

text \<open>
  \<open>BTreeMap<String, V>\<close>, and \<open>serde_json::Map\<close> (the workspace builds it without its insertion-order feature, so
  it is a \<open>BTreeMap\<close>): an association list whose keys ascend strictly in the byte order of
  strings. Iteration is the order of the list.
\<close>

type_synonym 'v bmap = "(string \<times> 'v) list"

definition bget :: "'v bmap \<Rightarrow> string \<Rightarrow> 'v option" where
  "bget m k = map_of m k"

fun binsert :: "string \<Rightarrow> 'v \<Rightarrow> 'v bmap \<Rightarrow> 'v bmap" where
  "binsert k v [] = [(k, v)]"
| "binsert k v ((k', v') # m) =
     (if k = k' then (k, v) # m
      else if k < k' then (k, v) # (k', v') # m
      else (k', v') # binsert k v m)"

definition bremove :: "string \<Rightarrow> 'v bmap \<Rightarrow> 'v bmap" where
  "bremove k m = filter (\<lambda>(k', _). k' \<noteq> k) m"

definition bkeys :: "'v bmap \<Rightarrow> string list" where
  "bkeys m = map fst m"

definition bmap_ok :: "'v bmap \<Rightarrow> bool" where
  "bmap_ok m = sorted_wrt (<) (map fst m)"

text \<open>\<open>extend\<close>: insert every entry of the second map into the first, in its order.\<close>

definition bextend :: "'v bmap \<Rightarrow> 'v bmap \<Rightarrow> 'v bmap" where
  "bextend m m' = fold (\<lambda>(k, v) acc. binsert k v acc) m' m"

lemma bget_binsert [bmap_simps]: "bget (binsert k v m) k' = (if k' = k then Some v else bget m k')"
  by (induction m) (auto simp: bget_def)

lemma fst_set_binsert: "fst ` set (binsert k v m) = insert k (fst ` set m)"
proof (induction m)
  case (Cons p m)
  obtain k' v' where "p = (k', v')" by (cases p)
  with Cons show ?case
    by (cases "k = k'"; cases "k < k'") (simp_all add: insert_commute)
qed simp

lemma binsert_ok [bmap_simps]: "bmap_ok m \<Longrightarrow> bmap_ok (binsert k v m)"
  unfolding bmap_ok_def
proof (induction m)
  case (Cons p m)
  obtain k' v' where [simp]: "p = (k', v')" by (cases p)
  have "fst ` set (binsert k v m) = insert k (fst ` set m)" by (rule fst_set_binsert)
  then have set_eq: "set (map fst (binsert k v m)) = insert k (set (map fst m))" by simp
  have all: "\<forall>x \<in> set (map fst m). k' < x" and srt: "sorted_wrt (<) (map fst m)"
    using Cons.prems by simp_all
  show ?case
  proof (cases "k = k' \<or> k < k'")
    case True
    with all srt show ?thesis by (force intro: less_trans)
  next
    case False
    then have "k' < k" by auto
    with False all srt Cons.IH set_eq show ?thesis by simp
  qed
qed simp

lemma bget_bremove [bmap_simps]: "bget (bremove k m) k' = (if k' = k then None else bget m k')"
  by (induction m) (auto simp: bget_def bremove_def)

lemma bremove_ok [bmap_simps]: "bmap_ok m \<Longrightarrow> bmap_ok (bremove k m)"
  unfolding bmap_ok_def bremove_def by (induction m) auto

lemma bget_empty [simp]: "bget [] k = None"
  by (simp add: bget_def)

lemma bmap_ok_empty [simp]: "bmap_ok []"
  by (simp add: bmap_ok_def)

lemma bmap_ok_distinct: "bmap_ok m \<Longrightarrow> distinct (map fst m)"
  unfolding bmap_ok_def using strict_sorted_iff by blast

section \<open>The map interface\<close>

text \<open>
  What a client of a keyed store relies on: reading after a write, and that a write keeps the
  store's invariant. The ordered map and the JSON documents of theory \<open>ResolveLaws\<close> both provide it.
\<close>

locale keyed_store =
  fixes lookup :: "'m \<Rightarrow> 'k \<Rightarrow> 'v option"
    and update :: "'k \<Rightarrow> 'v \<Rightarrow> 'm \<Rightarrow> 'm"
    and okstore :: "'m \<Rightarrow> bool"
  assumes lookup_update: "okstore m \<Longrightarrow> lookup (update k v m) k' = (if k' = k then Some v else lookup m k')"
    and update_keeps: "okstore m \<Longrightarrow> okstore (update k v m)"
begin

lemma lookup_hit: "okstore m \<Longrightarrow> lookup (update k v m) k = Some v"
  by (simp add: lookup_update)

lemma lookup_miss: "okstore m \<Longrightarrow> k' \<noteq> k \<Longrightarrow> lookup (update k v m) k' = lookup m k'"
  by (simp add: lookup_update)

lemma store_all_keeps: "okstore m \<Longrightarrow> okstore (fold (\<lambda>(k, v). update k v) ps m)"
  by (induction ps arbitrary: m) (auto simp: update_keeps)

lemma lookup_store_all:
  "okstore m \<Longrightarrow> distinct (map fst ps) \<Longrightarrow>
   lookup (fold (\<lambda>(k, v). update k v) ps m) k =
     (case map_of ps k of Some v \<Rightarrow> Some v | None \<Rightarrow> lookup m k)"
proof (induction ps arbitrary: m)
  case (Cons p ps)
  obtain k' v' where p: "p = (k', v')" by (cases p)
  have "k' \<notin> fst ` set ps" using Cons.prems p by auto
  then have none: "map_of ps k' = None" by (simp add: map_of_eq_None_iff)
  show ?case using Cons p none
    by (auto simp: lookup_update update_keeps split: option.split)
qed simp

end

interpretation btree: keyed_store bget binsert bmap_ok
  by unfold_locales (auto simp: bmap_simps)

lemma bget_extend [bmap_simps]:
  "bmap_ok m \<Longrightarrow> bmap_ok m' \<Longrightarrow>
   bget (bextend m m') k = (case bget m' k of Some v \<Rightarrow> Some v | None \<Rightarrow> bget m k)"
  unfolding bextend_def using btree.lookup_store_all [OF _ bmap_ok_distinct] by (simp add: bget_def)

lemma bextend_ok [bmap_simps]: "bmap_ok m \<Longrightarrow> bmap_ok (bextend m m')"
  unfolding bextend_def by (rule btree.store_all_keeps)

end
