(* ===== verification/RustStr.thy ===== *)
theory RustStr
  imports Prelude "HOL-Library.Sublist"
begin

text \<open>
  The part of Rust's string and integer-parsing library the program uses, on byte strings
  (lists of \<^typ>\<open>char\<close>): prefixes, searching, splitting, \<open>str::parse::<usize>\<close> and the decimal printing of
  unsigned integers.
\<close>

named_theorems str_simps \<open>facts about strings of the standard library\<close>

definition strip_prefix :: "string \<Rightarrow> string \<Rightarrow> string option" where
  "strip_prefix p s = (if prefix p s then Some (drop (length p) s) else None)"

definition strip_suffix :: "string \<Rightarrow> string \<Rightarrow> string option" where
  "strip_suffix p s = (if suffix p s then Some (take (length s - length p) s) else None)"

text \<open>\<open>s.find(pred)\<close> followed by the slices before and after: the text up to the first match and the
  rest from the match on.\<close>

definition before_match :: "(char \<Rightarrow> bool) \<Rightarrow> string \<Rightarrow> string" where
  "before_match P s = takeWhile (\<lambda>c. \<not> P c) s"

definition from_match :: "(char \<Rightarrow> bool) \<Rightarrow> string \<Rightarrow> string" where
  "from_match P s = dropWhile (\<lambda>c. \<not> P c) s"

definition digit_val :: "char \<Rightarrow> nat option" where
  "digit_val c =
     (let n = (of_char c :: nat) in if 48 \<le> n \<and> n \<le> 57 then Some (n - 48) else None)"

definition digit_char :: "nat \<Rightarrow> char" where
  "digit_char d = char_of (48 + d)"

fun digits_value :: "nat \<Rightarrow> string \<Rightarrow> nat option" where
  "digits_value acc [] = Some acc"
| "digits_value acc (c # cs) =
     (case digit_val c of None \<Rightarrow> None | Some d \<Rightarrow> digits_value (acc * 10 + d) cs)"

text \<open>\<open>str::parse::<usize>\<close> on a 64-bit target: an optional \<open>+\<close>, then at least one digit, and nothing
  else; a value of \<open>2 ^ 64\<close> or more overflows.\<close>

definition parse_usize :: "string \<Rightarrow> nat option" where
  "parse_usize s =
     (let ds = (case s of [] \<Rightarrow> [] | c # cs \<Rightarrow> if c = CHR ''+'' then cs else s)
      in if ds = [] then None
         else case digits_value 0 ds of
                None \<Rightarrow> None
              | Some n \<Rightarrow> if n < 2 ^ 64 then Some n else None)"

fun show_nat :: "nat \<Rightarrow> string" where
  "show_nat n = (if n < 10 then [digit_char n] else show_nat (n div 10) @ [digit_char (n mod 10)])"

declare show_nat.simps [simp del]

definition show_int :: "int \<Rightarrow> string" where
  "show_int i = (if i < 0 then CHR ''-'' # show_nat (nat (- i)) else show_nat (nat i))"

definition is_upper :: "char \<Rightarrow> bool" where
  "is_upper c \<longleftrightarrow> (let n = (of_char c :: nat) in 65 \<le> n \<and> n \<le> 90)"

definition is_lower :: "char \<Rightarrow> bool" where
  "is_lower c \<longleftrightarrow> (let n = (of_char c :: nat) in 97 \<le> n \<and> n \<le> 122)"

definition is_digit :: "char \<Rightarrow> bool" where
  "is_digit c \<longleftrightarrow> (let n = (of_char c :: nat) in 48 \<le> n \<and> n \<le> 57)"

definition to_lower :: "char \<Rightarrow> char" where
  "to_lower c = (if is_upper c then char_of ((of_char c :: nat) + 32) else c)"

text \<open>\<open>to_lowercase\<close> of an ASCII text, and \<open>contains\<close> of a pattern.\<close>

definition lower_text :: "string \<Rightarrow> string" where
  "lower_text s = map to_lower s"

fun contains_text :: "string \<Rightarrow> string \<Rightarrow> bool" where
  "contains_text p [] = (p = [])"
| "contains_text p (c # s) = (prefix p (c # s) \<or> contains_text p s)"

text \<open>\<open>str::trim\<close>: the code points with the Unicode property White_Space, in UTF-8.\<close>

definition white_space :: "string list" where
  "white_space =
     map (\<lambda>b. [char_of (b :: nat)]) [9, 10, 11, 12, 13, 32] @
     [[CHR 0xC2, CHR 0x85], [CHR 0xC2, CHR 0xA0], [CHR 0xE1, CHR 0x9A, CHR 0x80]] @
     map (\<lambda>b. [CHR 0xE2, CHR 0x80, char_of (b :: nat)])
       [0x80, 0x81, 0x82, 0x83, 0x84, 0x85, 0x86, 0x87, 0x88, 0x89, 0x8A, 0xA8, 0xA9, 0xAF] @
     [[CHR 0xE2, CHR 0x81, CHR 0x9F], [CHR 0xE3, CHR 0x80, CHR 0x80]]"

function drop_spaces :: "string list \<Rightarrow> string \<Rightarrow> string" where
  "drop_spaces ws s =
     (case find (\<lambda>w. w \<noteq> [] \<and> prefix w s) ws of
        None \<Rightarrow> s
      | Some w \<Rightarrow> drop_spaces ws (drop (length w) s))"
  by pat_completeness auto

termination
  by (relation "measure (\<lambda>(ws, s). length s)")
    (auto simp: find_Some_iff prefix_def)

definition trim_text :: "string \<Rightarrow> string" where
  "trim_text s = rev (drop_spaces (map rev white_space) (rev (drop_spaces white_space s)))"

section \<open>Laws\<close>

declare drop_spaces.simps [simp del]

lemma strip_prefix_some: "strip_prefix p s = Some r \<longleftrightarrow> s = p @ r"
  by (auto simp: strip_prefix_def prefix_def)

lemma before_match_from [simp]: "before_match P s @ from_match P s = s"
  by (simp add: before_match_def from_match_def)

lemma length_from_match: "length (from_match P s) \<le> length s"
  by (simp add: from_match_def length_dropWhile_le)

lemma from_match_head: "from_match P s = c # r \<Longrightarrow> P c"
  unfolding from_match_def by (metis (full_types) dropWhile_eq_Cons_conv)

lemma before_match_none: "c \<in> set (before_match P s) \<Longrightarrow> \<not> P c"
  unfolding before_match_def by (auto dest: set_takeWhileD)

lemma before_match_append: "\<forall>c \<in> set s. \<not> P c \<Longrightarrow> P d \<Longrightarrow> before_match P (s @ d # t) = s"
  by (induction s) (auto simp: before_match_def)

lemma from_match_append: "\<forall>c \<in> set s. \<not> P c \<Longrightarrow> P d \<Longrightarrow> from_match P (s @ d # t) = d # t"
  by (induction s) (auto simp: from_match_def)

lemma digit_val_char [simp]: "d < 10 \<Longrightarrow> digit_val (digit_char d) = Some d"
  by (simp add: digit_val_def digit_char_def)

lemma digit_char_eval:
  "digit_char 0 = CHR ''0''" "digit_char 1 = CHR ''1''" "digit_char 2 = CHR ''2''" "digit_char 3 = CHR ''3''"
  "digit_char 4 = CHR ''4''" "digit_char 5 = CHR ''5''" "digit_char 6 = CHR ''6''" "digit_char 7 = CHR ''7''"
  "digit_char 8 = CHR ''8''" "digit_char 9 = CHR ''9''"
  by code_simp+

lemma digits_value_append:
  "digits_value a (xs @ ys) = Option.bind (digits_value a xs) (\<lambda>b. digits_value b ys)"
  by (induction xs arbitrary: a) (auto split: option.split)

lemma show_nat_nonempty [simp]: "show_nat n \<noteq> []"
  by (subst show_nat.simps) simp

lemma digits_value_show [simp]: "digits_value 0 (show_nat n) = Some n"
proof (induction n rule: show_nat.induct)
  case (1 n)
  then show ?case
    by (subst show_nat.simps) (simp add: digits_value_append)
qed

lemma show_nat_digits: "c \<in> set (show_nat n) \<Longrightarrow> digit_val c \<noteq> None"
proof (induction n rule: show_nat.induct)
  case (1 n)
  from "1.prems" have "c \<in> set (if n < 10 then [digit_char n] else show_nat (n div 10) @ [digit_char (n mod 10)])"
    by (subst (asm) show_nat.simps)
  then show ?case using "1.IH" by (auto split: if_splits)
qed

lemma digit_not_special:
  assumes "digit_val c \<noteq> None"
  shows "c \<noteq> CHR ''+''" "c \<noteq> CHR '']''" "c \<noteq> CHR ''[''" "c \<noteq> CHR ''.''" "c \<noteq> CHR ''-''"
  using assms by (auto simp: digit_val_def)

lemma parse_usize_show [str_simps]: "parse_usize (show_nat n) = (if n < 2 ^ 64 then Some n else None)"
proof -
  obtain c cs where s: "show_nat n = c # cs" by (cases "show_nat n") auto
  with show_nat_digits [of c n] have "digit_val c \<noteq> None" by simp
  then have "c \<noteq> CHR ''+''" by (rule digit_not_special)
  moreover have "digits_value 0 (c # cs) = Some n" using digits_value_show [of n] s by simp
  ultimately show ?thesis unfolding parse_usize_def s by simp
qed

lemma parse_usize_bound: "parse_usize s = Some n \<Longrightarrow> n < 2 ^ 64"
  by (auto simp: parse_usize_def Let_def split: option.splits if_splits list.splits)

lemma parse_usize_nonempty: "parse_usize s = Some n \<Longrightarrow> s \<noteq> []"
  by (auto simp: parse_usize_def)

end
