(* ===== verification/Json.thy ===== *)
theory Json
  imports RustStr
begin

text \<open>
  \<open>serde_json::Value\<close> and the accessors the program calls on it. An integer number is kept as an
  \<^typ>\<open>int\<close> (the crate holds \<open>-2^63 .. 2^64-1\<close>); any other number is a float, kept as the shortest decimal text the
  crate prints for it. An object is an ordered map. Printing a compound value as JSON text and
  parsing JSON text are functions of the crate, so they are parameters of the definitions that need
  them.
\<close>

datatype json =
    JNull
  | JBool bool
  | JInt int
  | JFloat string
  | JStr string
  | JArr "json list"
  | JObj "(string \<times> json) list"

definition json_key :: "json \<Rightarrow> string \<Rightarrow> json option" where
  "json_key v k = (case v of JObj m \<Rightarrow> bget m k | _ \<Rightarrow> None)"

definition json_index :: "json \<Rightarrow> nat \<Rightarrow> json option" where
  "json_index v i = (case v of JArr xs \<Rightarrow> if i < length xs then Some (xs ! i) else None | _ \<Rightarrow> None)"

definition as_str :: "json \<Rightarrow> string option" where
  "as_str v = (case v of JStr s \<Rightarrow> Some s | _ \<Rightarrow> None)"

definition i64_range :: "int \<Rightarrow> bool" where
  "i64_range i \<longleftrightarrow> - (2 ^ 63) \<le> i \<and> i < 2 ^ 63"

definition as_i64 :: "json \<Rightarrow> int option" where
  "as_i64 v = (case v of JInt i \<Rightarrow> if i64_range i then Some i else None | _ \<Rightarrow> None)"

definition as_u64 :: "json \<Rightarrow> nat option" where
  "as_u64 v = (case v of JInt i \<Rightarrow> if 0 \<le> i \<and> i < 2 ^ 64 then Some (nat i) else None | _ \<Rightarrow> None)"

definition as_bool :: "json \<Rightarrow> bool option" where
  "as_bool v = (case v of JBool b \<Rightarrow> Some b | _ \<Rightarrow> None)"

definition as_array :: "json \<Rightarrow> json list option" where
  "as_array v = (case v of JArr xs \<Rightarrow> Some xs | _ \<Rightarrow> None)"

definition as_object :: "json \<Rightarrow> json bmap option" where
  "as_object v = (case v of JObj m \<Rightarrow> Some m | _ \<Rightarrow> None)"

definition is_null :: "json \<Rightarrow> bool" where
  "is_null v = (v = JNull)"

fun json_ok :: "json \<Rightarrow> bool" where
  "json_ok (JInt i) = (- (2 ^ 63) \<le> i \<and> i < 2 ^ 64)"
| "json_ok (JArr xs) = list_all json_ok xs"
| "json_ok (JObj m) = (bmap_ok m \<and> list_all (\<lambda>p. json_ok (snd p)) m)"
| "json_ok _ = True"

text \<open>\<open>json!({ ... })\<close> with the given entries.\<close>

definition json_obj :: "(string \<times> json) list \<Rightarrow> json" where
  "json_obj ps = JObj (fold (\<lambda>(k, v) m. binsert k v m) ps [])"

lemma json_key_simps [simp]:
  "json_key (JObj m) k = bget m k"
  "json_key JNull k = None"
  "json_key (JArr xs) k = None"
  "json_key (JStr s) k = None"
  by (simp_all add: json_key_def)

lemma json_key_some: "json_key v k = Some w \<Longrightarrow> \<exists>m. v = JObj m \<and> bget m k = Some w"
  by (cases v) (simp_all add: json_key_def)

lemma json_index_some: "json_index v i = Some w \<Longrightarrow> \<exists>xs. v = JArr xs \<and> i < length xs \<and> xs ! i = w"
  by (cases v) (auto simp: json_index_def split: if_splits)

lemma json_ok_key: "json_ok v \<Longrightarrow> json_key v k = Some w \<Longrightarrow> json_ok w"
  by (cases v) (force simp: json_key_def bget_def list_all_iff dest: map_of_SomeD)+

lemma json_ok_index: "json_ok v \<Longrightarrow> json_index v i = Some w \<Longrightarrow> json_ok w"
  by (cases v) (auto simp: json_index_def list_all_iff split: if_splits)

lemma as_i64_range: "as_i64 v = Some i \<Longrightarrow> i64_range i"
  by (cases v) (auto simp: as_i64_def split: if_splits)

end
