(* ===== verification/Schema.thy ===== *)
theory Schema
  imports Json
begin

text \<open>
  The catalogue types of \<open>ags-protocol/src/catalogue.rs\<close> that the workflow engine reads: operations, their
  parameters and their request bodies.
\<close>

datatype mutation_class = ReadOnly | Mutating | Diagnostic

datatype http_method = Get | Post | Put | Patch | Delete

datatype parameter_location = PathParam | QueryParam | HeaderParam | BodyParam | FormDataParam

datatype value_type =
    VString
  | VInteger
  | VBoolean
  | VNumber
  | VEnum "string list"
  | VArray value_type

datatype body_field_type =
    BString
  | BInteger
  | BBoolean
  | BNumber
  | BEnum "string list"
  | BArray body_field_type
  | BObject
  | BReference string

datatype body_field = BodyField
  (bf_name: string)
  (bf_type: body_field_type)
  (bf_required: bool)
  (bf_description: "string option")
  (bf_children: "body_field list")
  (bf_default: "json option")

record body_schema =
  bs_definition_name :: string
  bs_fields :: "body_field list"
  bs_is_array :: bool
  bs_item_type :: "body_field_type option"

record parameter_schema =
  p_name :: string
  p_location :: parameter_location
  p_required :: bool
  p_value_type :: value_type
  p_is_file :: bool
  p_description :: "string option"
  p_default :: "json option"

text \<open>The remaining fields of an operation (summary, response, permissions, scope, version flags) are
  texts for display that the modelled code does not read.\<close>

record operation_schema =
  op_id :: string
  op_name :: string
  op_mutation_class :: mutation_class
  op_http_method :: http_method
  op_path_template :: string
  op_parameters :: "parameter_schema list"
  op_request_body :: "body_schema option"

record scope_entry =
  se_scope :: string
  se_contracts :: "operation_schema list"

record method_schema =
  ms_name :: string
  ms_default_scope :: "string option"
  ms_scopes :: "scope_entry list"

record resource_schema =
  rs_name :: string
  rs_methods :: "method_schema list"

record service_schema =
  sv_name :: string
  sv_resources :: "resource_schema list"

definition required_parameters :: "operation_schema \<Rightarrow> parameter_schema list" where
  "required_parameters op = filter (\<lambda>p. p_required p \<and> p_location p \<noteq> BodyParam) (op_parameters op)"

definition required_body_fields :: "operation_schema \<Rightarrow> body_field list" where
  "required_body_fields op =
     (case op_request_body op of None \<Rightarrow> [] | Some b \<Rightarrow> filter bf_required (bs_fields b))"

end
