(* ===== verification/NestedPath.thy ===== *)
theory NestedPath
  imports Schema
begin

text \<open>
  \<open>ags-runtime/src/runtime/workflows/nested_path.rs\<close>: the parser of nested field paths such as
  \<open>data.items[0].id\<close> and their resolution against the request-body schema of an operation.
\<close>

section \<open>Parsing\<close>

datatype path_segment = Key string | Index nat

datatype field_path_error =
    PathEmpty
  | UnbalancedBrackets string nat
  | InvalidIndex string nat
  | EmptyKey string nat

text \<open>
  The loop of \<open>FieldPath::parse\<close>. \<open>i\<close> is the byte position, \<open>cur\<close> the slice from \<open>start\<close> to \<open>i\<close>, \<open>segs\<close> the segments pushed so
  far and the last argument the bytes from \<open>i\<close> on.
\<close>

definition push_key :: "string \<Rightarrow> path_segment list \<Rightarrow> path_segment list" where
  "push_key cur segs = (if cur = [] then segs else segs @ [Key cur])"

definition parse_finish :: "string \<Rightarrow> string \<Rightarrow> path_segment list \<Rightarrow> field_path_error + path_segment list" where
  "parse_finish inp cur segs =
     (if inp \<noteq> [] \<and> last inp = CHR ''.'' then Inl (EmptyKey inp (length inp - 1))
      else let segs' = push_key cur segs
           in if segs' = [] then Inl PathEmpty else Inr segs')"

function (sequential) parse_loop ::
  "string \<Rightarrow> nat \<Rightarrow> string \<Rightarrow> path_segment list \<Rightarrow> string \<Rightarrow> field_path_error + path_segment list" where
  "parse_loop inp i cur segs [] = parse_finish inp cur segs"
| "parse_loop inp i cur segs (c # rest) =
     (if c = CHR ''.'' then
        if cur = [] then Inl (EmptyKey inp i)
        else parse_loop inp (i + 1) [] (segs @ [Key cur]) rest
      else if c = CHR ''['' then
        let idx = before_match (\<lambda>b. b = CHR '']'') rest
        in case from_match (\<lambda>b. b = CHR '']'') rest of
             [] \<Rightarrow> Inl (UnbalancedBrackets inp i)
           | _ # after \<Rightarrow>
               (case parse_usize idx of
                  None \<Rightarrow> Inl (InvalidIndex inp (i + 1))
                | Some n \<Rightarrow>
                    let j = i + 1 + length idx + 1;
                        segs' = push_key cur segs @ [Index n]
                    in case after of
                         d # after' \<Rightarrow>
                           if d = CHR ''.'' then parse_loop inp (j + 1) [] segs' after'
                           else parse_loop inp j [] segs' after
                       | [] \<Rightarrow> parse_loop inp j [] segs' [])
      else parse_loop inp (i + 1) (cur @ [c]) segs rest)"
  by pat_completeness auto
termination
proof (relation "measure (\<lambda>(_, _, _, _, rest). length rest)"; clarsimp?)
  fix rest a list d after'
  assume "from_match (\<lambda>b. b = CHR '']'') rest = a # d # after'"
  then show "length after' < Suc (length rest)"
    using length_from_match [of "\<lambda>b. b = CHR '']''" rest] by simp
next
  fix rest a d after'
  assume "from_match (\<lambda>b. b = CHR '']'') rest = a # d # after'"
  then show "length after' < length rest"
    using length_from_match [of "\<lambda>b. b = CHR '']''" rest] by simp
qed

definition field_path_parse :: "string \<Rightarrow> field_path_error + path_segment list" where
  "field_path_parse inp = (if inp = [] then Inl PathEmpty else parse_loop inp 0 [] [] inp)"

section \<open>Printing and the round trip\<close>

fun path_tail :: "path_segment list \<Rightarrow> string" where
  "path_tail [] = []"
| "path_tail (Key k # r) = CHR ''.'' # k @ path_tail r"
| "path_tail (Index n # r) = CHR ''['' # show_nat n @ CHR '']'' # path_tail r"

text \<open>The wire form of a path, as the documentation of the module writes it.\<close>

fun path_show :: "path_segment list \<Rightarrow> string" where
  "path_show (Key k # r) = k @ path_tail r"
| "path_show [] = []"
| "path_show (Index n # r) = path_tail (Index n # r)"

definition key_char :: "char \<Rightarrow> bool" where
  "key_char c \<longleftrightarrow> c \<noteq> CHR ''.'' \<and> c \<noteq> CHR ''[''"

fun segment_ok :: "path_segment \<Rightarrow> bool" where
  "segment_ok (Key k) = (k \<noteq> [] \<and> list_all key_char k)"
| "segment_ok (Index n) = (n < 2 ^ 64)"

definition path_ok :: "path_segment list \<Rightarrow> bool" where
  "path_ok p \<longleftrightarrow> p \<noteq> [] \<and> list_all segment_ok p"

declare parse_loop.simps(2) [simp del]

lemma push_key_ok:
  "list_all segment_ok segs \<Longrightarrow> list_all key_char cur \<Longrightarrow> list_all segment_ok (push_key cur segs)"
  by (simp add: push_key_def)

lemma parse_loop_bracket:
  assumes "from_match (\<lambda>b. b = CHR '']'') rest = e # after"
    and "parse_usize (before_match (\<lambda>b. b = CHR '']'') rest) = Some n"
    and "j = i + 1 + length (before_match (\<lambda>b. b = CHR '']'') rest) + 1"
  shows "parse_loop inp i cur segs (CHR ''['' # rest) =
    (case after of
       d # after' \<Rightarrow>
         if d = CHR ''.'' then parse_loop inp (j + 1) [] (push_key cur segs @ [Index n]) after'
         else parse_loop inp j [] (push_key cur segs @ [Index n]) after
     | [] \<Rightarrow> parse_loop inp j [] (push_key cur segs @ [Index n]) [])"
  unfolding parse_loop.simps(2) by (cases after) (simp_all add: assms Let_def)

lemma parse_loop_bracket_ok:
  assumes "parse_loop inp i cur segs (CHR ''['' # rest) = Inr p"
  obtains e after n where "from_match (\<lambda>b. b = CHR '']'') rest = e # after"
    and "parse_usize (before_match (\<lambda>b. b = CHR '']'') rest) = Some n"
  using assms unfolding parse_loop.simps(2) by (auto simp: Let_def split: list.splits option.splits)

lemma parse_finish_ok:
  "parse_finish inp cur segs = Inr p \<Longrightarrow> list_all key_char cur \<Longrightarrow> list_all segment_ok segs \<Longrightarrow> path_ok p"
  by (auto simp: parse_finish_def path_ok_def push_key_ok Let_def split: if_splits)

lemma parse_loop_ok:
  "parse_loop inp i cur segs rest = Inr p \<Longrightarrow> list_all key_char cur \<Longrightarrow>
   list_all segment_ok segs \<Longrightarrow> path_ok p"
proof (induction inp i cur segs rest rule: parse_loop.induct)
  case (1 inp i cur segs)
  then show ?case by (simp add: parse_finish_ok)
next
  case (2 inp i cur segs c rest)
  consider (dot) "c = CHR ''.''" | (bracket) "c = CHR ''[''" | (other) "key_char c"
    by (auto simp: key_char_def)
  then show ?case
  proof cases
    case dot
    with "2.prems"(1) have "cur \<noteq> []" "parse_loop inp (i + 1) [] (segs @ [Key cur]) rest = Inr p"
      by (auto simp: parse_loop.simps(2) split: if_splits)
    with dot "2.prems" show ?thesis by (intro "2.IH"(1)) auto
  next
    case other
    then have "parse_loop inp i cur segs (c # rest) = parse_loop inp (i + 1) (cur @ [c]) segs rest"
      by (simp add: parse_loop.simps(2) key_char_def)
    with other "2.prems" show ?thesis by (intro "2.IH"(5)) (auto simp: key_char_def)
  next
    case bracket
    from "2.prems"(1) bracket obtain e after n where
      m: "from_match (\<lambda>b. b = CHR '']'') rest = e # after"
      and n: "parse_usize (before_match (\<lambda>b. b = CHR '']'') rest) = Some n"
      by (auto elim: parse_loop_bracket_ok)
    have segs': "list_all segment_ok (push_key cur segs @ [Index n])"
      using "2.prems"(2,3) push_key_ok parse_usize_bound [OF n] by simp
    note step = "2.prems"(1) [unfolded bracket parse_loop_bracket [OF m n refl]]
    show ?thesis
    proof (cases after)
      case Nil
      with step segs' show ?thesis by (auto intro: parse_finish_ok)
    next
      case (Cons d after')
      note ih = "2.IH"(3,4) [OF _ bracket refl m n refl refl]
      show ?thesis
      proof (cases "d = CHR ''.''")
        case True
        with step Cons segs' show ?thesis by (intro ih(1)) (auto simp: bracket)
      next
        case False
        with step Cons segs' show ?thesis by (intro ih(2)) (auto simp: bracket)
      qed
    qed
  qed
qed

lemma parse_loop_key:
  "list_all key_char k \<Longrightarrow>
   parse_loop inp i cur segs (k @ rest) = parse_loop inp (i + length k) (cur @ k) segs rest"
  by (induction k arbitrary: i cur) (auto simp: key_char_def parse_loop.simps(2))

lemma parse_loop_dot:
  "cur \<noteq> [] \<Longrightarrow> parse_loop inp i cur segs (CHR ''.'' # rest) = parse_loop inp (i + 1) [] (segs @ [Key cur]) rest"
  by (simp add: parse_loop.simps(2))

lemma parse_loop_index:
  assumes "n < 2 ^ 64" "j = i + 1 + length (show_nat n) + 1"
  shows "parse_loop inp i cur segs (CHR ''['' # show_nat n @ CHR '']'' # after) =
    (case after of
       d # after' \<Rightarrow>
         if d = CHR ''.'' then parse_loop inp (j + 1) [] (push_key cur segs @ [Index n]) after'
         else parse_loop inp j [] (push_key cur segs @ [Index n]) after
     | [] \<Rightarrow> parse_loop inp j [] (push_key cur segs @ [Index n]) [])"
proof -
  have nb: "\<forall>c \<in> set (show_nat n). \<not> c = CHR '']''"
    using show_nat_digits digit_not_special(2) by blast
  show ?thesis
    by (rule parse_loop_bracket)
      (use assms nb in \<open>simp_all add: before_match_append from_match_append parse_usize_show\<close>)
qed

lemma parse_loop_tail:
  assumes "inp \<noteq> []" "last inp \<noteq> CHR ''.''" "list_all segment_ok r"
    and "push_key cur segs @ r \<noteq> []" "cur = [] \<Longrightarrow> \<forall>k r'. r \<noteq> Key k # r'"
  shows "parse_loop inp i cur segs (path_tail r) = Inr (push_key cur segs @ r)"
  using assms(3-5)
proof (induction r arbitrary: i cur segs rule: length_induct)
  case (1 r)
  show ?case
  proof (cases r)
    case Nil
    with 1 assms(1,2) show ?thesis by (simp add: parse_finish_def)
  next
    case (Cons s r')
    show ?thesis
    proof (cases s)
      case (Key k)
      with Cons 1(2,4) have "cur \<noteq> []" "k \<noteq> []" "list_all key_char k" "list_all segment_ok r'" by auto
      then show ?thesis using 1(1) Cons Key
        by (simp add: parse_loop_dot parse_loop_key push_key_def)
    next
      case (Index n)
      with Cons 1(2) have n: "n < 2 ^ 64" and ok: "list_all segment_ok r'" by auto
      let ?segs = "push_key cur segs @ [Index n]"
      show ?thesis
      proof (cases r')
        case Nil
        then show ?thesis using Cons Index n assms(1,2)
          by (simp add: parse_loop_index [OF _ refl] parse_finish_def push_key_def)
      next
        case next': (Cons s' r'')
        show ?thesis
        proof (cases s')
          case (Key k)
          with next' ok have "k \<noteq> []" "list_all key_char k" "list_all segment_ok r''" by auto
          then show ?thesis using 1(1) Cons Index n next' Key
            by (simp add: parse_loop_index [OF _ refl] parse_loop_key push_key_def)
        next
          case idx: (Index m)
          have "parse_loop inp j [] ?segs (path_tail r') = Inr (push_key [] ?segs @ r')" for j
            by (rule 1(1) [rule_format]) (use Cons ok next' idx in auto)
          then have "parse_loop inp j [] ?segs (path_tail r') = Inr (?segs @ r')" for j
            by (simp add: push_key_def)
          then show ?thesis using Cons Index n next' idx
            by (simp add: parse_loop_index [OF _ refl])
        qed
      qed
    qed
  qed
qed

lemma last_path_tail: "list_all segment_ok p \<Longrightarrow> p \<noteq> [] \<Longrightarrow> last (path_tail p) \<noteq> CHR ''.''"
proof (induction p rule: path_tail.induct)
  case (2 k r)
  then have "last k \<in> set k" "list_all key_char k" by auto
  then have "last k \<noteq> CHR ''.''" by (auto simp: list_all_iff key_char_def)
  with 2 show ?case by (cases r rule: path_tail.cases) auto
next
  case (3 n r)
  then show ?case by (cases r rule: path_tail.cases) auto
qed simp

lemma path_show_last:
  assumes "path_ok p"
  shows "path_show p \<noteq> []" "last (path_show p) \<noteq> CHR ''.''"
proof -
  have "path_show p \<noteq> [] \<and> last (path_show p) \<noteq> CHR ''.''"
  proof (cases p rule: path_show.cases)
    case (1 k r)
    with assms have k: "k \<noteq> []" "list_all key_char k" and r: "list_all segment_ok r"
      by (auto simp: path_ok_def)
    then have "last k \<in> set k" by simp
    with k have "last k \<noteq> CHR ''.''" by (auto simp: list_all_iff key_char_def)
    with k 1 r last_path_tail [of r] show ?thesis
      by (cases r rule: path_tail.cases) auto
  next
    case 2
    with assms show ?thesis by (simp add: path_ok_def)
  next
    case (3 n r)
    with assms last_path_tail [of p] show ?thesis by (simp add: path_ok_def)
  qed
  then show "path_show p \<noteq> []" "last (path_show p) \<noteq> CHR ''.''" by auto
qed

lemma parse_show:
  assumes "path_ok p"
  shows "field_path_parse (path_show p) = Inr p"
proof (cases p rule: path_show.cases)
  case (1 k r)
  with assms have "k \<noteq> []" "list_all key_char k" "list_all segment_ok r" by (auto simp: path_ok_def)
  with 1 path_show_last [OF assms] show ?thesis
    by (simp add: field_path_parse_def parse_loop_key parse_loop_tail push_key_def)
next
  case 2
  with assms show ?thesis by (simp add: path_ok_def)
next
  case (3 n r)
  with assms path_show_last [OF assms] parse_loop_tail [of "path_show p" p "[]" "[]" 0]
  show ?thesis by (simp add: field_path_parse_def path_ok_def push_key_def)
qed

lemma parse_gives_ok: "field_path_parse s = Inr p \<Longrightarrow> path_ok p"
  by (auto simp: field_path_parse_def split: if_splits dest: parse_loop_ok)

section \<open>Resolution against the body schema\<close>

datatype path_resolution = SchemaLeaf body_field | StructuralOnly

datatype path_resolve_error =
    UnknownSegment string string
  | SegmentUnderNonObject string string

definition is_reference :: "body_field_type \<Rightarrow> bool" where
  "is_reference t = (case t of BReference _ \<Rightarrow> True | _ \<Rightarrow> False)"

definition has_children_type :: "body_field_type \<Rightarrow> bool" where
  "has_children_type t = (case t of BObject \<Rightarrow> True | BArray _ \<Rightarrow> True | _ \<Rightarrow> False)"

definition find_field :: "body_field list \<Rightarrow> string \<Rightarrow> body_field option" where
  "find_field fs name = find (\<lambda>f. bf_name f = name) fs"

text \<open>
  The loop of \<open>resolve_against_schema\<close>: the current parent label, the fields in scope and the segments
  left. \<^term>\<open>None\<close> is the \<open>unreachable!\<close> after the loop.
\<close>

fun resolve_walk ::
  "string \<Rightarrow> body_field list \<Rightarrow> path_segment list \<Rightarrow> (path_resolve_error + path_resolution) option" where
  "resolve_walk parent fs [] = None"
| "resolve_walk parent fs (Key name # rest) =
     (case find_field fs name of
        None \<Rightarrow> Some (Inl (UnknownSegment parent name))
      | Some f \<Rightarrow>
          if rest = [] then Some (Inr (SchemaLeaf f))
          else if bf_type f = BObject \<and> bf_children f = [] then Some (Inr StructuralOnly)
          else if is_reference (bf_type f) then Some (Inr StructuralOnly)
          else if \<not> has_children_type (bf_type f) then Some (Inl (SegmentUnderNonObject parent name))
          else resolve_walk (bf_name f) (bf_children f) rest)"
| "resolve_walk parent fs (Index n # rest) =
     (if rest = [] then Some (Inr StructuralOnly)
      else if fs = [] then Some (Inr StructuralOnly)
      else resolve_walk parent fs rest)"

definition resolve_against_schema ::
  "path_segment list \<Rightarrow> body_field list \<Rightarrow> (path_resolve_error + path_resolution) option" where
  "resolve_against_schema p root_fields = resolve_walk ''<root>'' root_fields p"

text \<open>What a schema leaf means: following only the keys of the path through the children.\<close>

fun path_keys :: "path_segment list \<Rightarrow> string list" where
  "path_keys [] = []"
| "path_keys (Key k # p) = k # path_keys p"
| "path_keys (Index _ # p) = path_keys p"

fun field_at :: "body_field list \<Rightarrow> string list \<Rightarrow> body_field option" where
  "field_at fs [] = None"
| "field_at fs (k # ks) =
     (case find_field fs k of
        None \<Rightarrow> None
      | Some f \<Rightarrow> if ks = [] then Some f else field_at (bf_children f) ks)"

lemma resolve_walk_total: "p \<noteq> [] \<Longrightarrow> resolve_walk parent fs p \<noteq> None"
  by (induction parent fs p rule: resolve_walk.induct) (auto split: option.split)

lemma path_keys_empty_walk:
  "path_keys p = [] \<Longrightarrow> resolve_walk parent fs p \<noteq> Some (Inr (SchemaLeaf f))"
  by (induction parent fs p rule: resolve_walk.induct) auto

lemma resolve_walk_leaf:
  "resolve_walk parent fs p = Some (Inr (SchemaLeaf f)) \<Longrightarrow> field_at fs (path_keys p) = Some f"
proof (induction parent fs p rule: resolve_walk.induct)
  case (2 parent fs name rest)
  then show ?case
    by (auto split: option.splits if_splits simp: path_keys_empty_walk)
qed (auto split: if_splits)

section \<open>Properties\<close>

text \<open>The parser of nested field paths and the wire form agree: a path is read back from its wire
  form exactly when it is well formed (non-empty, no empty key, no dot or bracket in a key, every index a
  64-bit number), so every path the parser accepts is such a path.\<close>

theorem field_path_roundtrip: "field_path_parse (path_show p) = Inr p \<longleftrightarrow> path_ok p"
  using parse_show parse_gives_ok by blast

text \<open>Resolving a parsed path against a body schema never reaches the code's \<open>unreachable!\<close>, and a schema
  leaf it answers is the field found by following the keys of the path from the root.\<close>

theorem resolve_against_schema_sound:
  assumes "field_path_parse s = Inr p"
  shows "resolve_against_schema p fs \<noteq> None \<and>
    (\<forall>f. resolve_against_schema p fs = Some (Inr (SchemaLeaf f)) \<longrightarrow> field_at fs (path_keys p) = Some f)"
  using parse_gives_ok [OF assms] resolve_walk_total resolve_walk_leaf
  unfolding resolve_against_schema_def path_ok_def by blast

lemma parse_example: "field_path_parse ''data.items[0].id'' = Inr [Key ''data'', Key ''items'', Index 0, Key ''id'']"
  using parse_show [of "[Key ''data'', Key ''items'', Index 0, Key ''id'']"]
  by (simp add: path_ok_def key_char_def show_nat.simps digit_char_eval)

theorem resolve_against_schema_sound_witness:
  "field_path_parse ''data.items[0].id'' = Inr [Key ''data'', Key ''items'', Index 0, Key ''id''] \<and>
   resolve_against_schema [Key ''data'', Key ''items'', Index 0, Key ''id'']
     [BodyField ''data'' BObject True None
        [BodyField ''items'' (BArray BObject) True None [BodyField ''id'' BString True None [] None] None] None] \<noteq> None"
  using parse_example resolve_against_schema_sound [OF parse_example] by simp

end
