(* ===== verification/JsonPath.thy ===== *)
theory JsonPath
  imports NestedPath
begin

text \<open>
  \<open>ags-runtime/src/runtime/workflows/jsonpath.rs\<close>: the JSONPath subset of transforms and captures, its
  compile-time validity check, and their common meaning through an explicit list of segments.
\<close>

definition name_end :: "char \<Rightarrow> bool" where
  "name_end c \<longleftrightarrow> c = CHR ''.'' \<or> c = CHR ''[''"

definition is_close :: "char \<Rightarrow> bool" where
  "is_close c \<longleftrightarrow> c = CHR '']''"

lemma length_after_match:
  "from_match P s = e # r \<Longrightarrow> length r < length s"
  using length_from_match [of P s] by simp

text \<open>The loop of \<open>apply_jsonpath_subset\<close>: the cursor and the remaining expression.\<close>

function (sequential) jp_walk :: "json \<Rightarrow> string \<Rightarrow> json option" where
  "jp_walk cursor [] = Some cursor"
| "jp_walk cursor (c # r) =
     (if c = CHR ''.'' then
        let name = before_match name_end r
        in if name = [] then None
           else case json_key cursor name of
                  None \<Rightarrow> None
                | Some v \<Rightarrow> jp_walk v (from_match name_end r)
      else if c = CHR ''['' then
        case from_match is_close r of
          [] \<Rightarrow> None
        | _ # after \<Rightarrow>
            (case parse_usize (before_match is_close r) of
               None \<Rightarrow> None
             | Some i \<Rightarrow>
                 (case json_index cursor i of
                    None \<Rightarrow> None
                  | Some v \<Rightarrow> jp_walk v after))
      else None)"
  by pat_completeness auto
termination
  by (relation "measure (length \<circ> snd)")
    (auto simp: less_Suc_eq_le length_from_match dest: length_after_match)

definition apply_jsonpath_subset :: "json \<Rightarrow> string \<Rightarrow> json option" where
  "apply_jsonpath_subset v expression =
     (if expression = ''$'' then Some v
      else case strip_prefix ''$'' expression of
             None \<Rightarrow> None
           | Some r \<Rightarrow> jp_walk v r)"

definition wild_char :: "char \<Rightarrow> bool" where
  "wild_char c \<longleftrightarrow> c = CHR ''*'' \<or> c = CHR ''?'' \<or> c = CHR ''@'' \<or> c = CHR ''$''"

function (sequential) jp_valid_rest :: "string \<Rightarrow> bool" where
  "jp_valid_rest [] = True"
| "jp_valid_rest (c # r) =
     (if c = CHR ''.'' then
        let name = before_match name_end r
        in if name = [] \<or> list_ex wild_char name then False
           else jp_valid_rest (from_match name_end r)
      else if c = CHR ''['' then
        case from_match is_close r of
          [] \<Rightarrow> False
        | _ # after \<Rightarrow>
            if parse_usize (before_match is_close r) = None then False else jp_valid_rest after
      else False)"
  by pat_completeness auto
termination
  by (relation "measure length")
    (auto simp: less_Suc_eq_le length_from_match dest: length_after_match)

definition jsonpath_is_valid :: "string \<Rightarrow> bool" where
  "jsonpath_is_valid expression =
     (if expression = ''$'' then True
      else case strip_prefix ''$'' expression of
             None \<Rightarrow> False
           | Some r \<Rightarrow> r \<noteq> [] \<and> jp_valid_rest r)"

section \<open>The meaning of an expression\<close>

text \<open>A specification: an expression denotes a list of segments, and a value is descended segment by
  segment.\<close>

function (sequential) jp_segments :: "string \<Rightarrow> path_segment list option" where
  "jp_segments [] = Some []"
| "jp_segments (c # r) =
     (if c = CHR ''.'' then
        if before_match name_end r = [] then None
        else map_option (Cons (Key (before_match name_end r))) (jp_segments (from_match name_end r))
      else if c = CHR ''['' then
        case from_match is_close r of
          [] \<Rightarrow> None
        | _ # after \<Rightarrow>
            (case parse_usize (before_match is_close r) of
               None \<Rightarrow> None
             | Some i \<Rightarrow> map_option (Cons (Index i)) (jp_segments after))
      else None)"
  by pat_completeness auto
termination
  by (relation "measure length")
    (auto simp: less_Suc_eq_le length_from_match dest: length_after_match)

definition jsonpath_segments :: "string \<Rightarrow> path_segment list option" where
  "jsonpath_segments e = (case strip_prefix ''$'' e of None \<Rightarrow> None | Some r \<Rightarrow> jp_segments r)"

fun json_descend :: "json \<Rightarrow> path_segment list \<Rightarrow> json option" where
  "json_descend v [] = Some v"
| "json_descend v (Key k # p) = (case json_key v k of None \<Rightarrow> None | Some w \<Rightarrow> json_descend w p)"
| "json_descend v (Index i # p) = (case json_index v i of None \<Rightarrow> None | Some w \<Rightarrow> json_descend w p)"

fun clean_segment :: "path_segment \<Rightarrow> bool" where
  "clean_segment (Key k) = (\<not> list_ex wild_char k)"
| "clean_segment (Index _) = True"

lemma jp_walk_descend: "jp_walk v r = Option.bind (jp_segments r) (json_descend v)"
proof (induction v r rule: jp_walk.induct)
  case (2 cursor c r)
  then show ?case
    by (auto simp: Let_def Option.bind_map_option comp_def split: option.split list.split)
qed simp

lemma jp_valid_segments: "jp_valid_rest r \<longleftrightarrow> (\<exists>p. jp_segments r = Some p \<and> list_all clean_segment p)"
proof (induction r rule: jp_valid_rest.induct)
  case (2 c r)
  then show ?case
    by (auto simp: Let_def split: option.splits list.splits)
qed simp

lemma json_descend_append: "json_descend v (p @ q) = Option.bind (json_descend v p) (\<lambda>w. json_descend w q)"
  by (induction v p rule: json_descend.induct) (auto split: option.split)

lemma json_descend_ok: "json_ok v \<Longrightarrow> json_descend v p = Some w \<Longrightarrow> json_ok w"
  by (induction v p rule: json_descend.induct)
    (auto split: option.splits dest: json_ok_key json_ok_index)

section \<open>Properties\<close>

text \<open>Evaluating a JSONPath expression is reading it as a list of segments and descending the value along
  them: there is no value when the expression is malformed or a segment is missing, and nothing else.\<close>

theorem apply_jsonpath_descends:
  "apply_jsonpath_subset v e = Option.bind (jsonpath_segments e) (json_descend v)"
  by (auto simp: apply_jsonpath_subset_def jsonpath_segments_def jp_walk_descend strip_prefix_def split: option.split)

text \<open>The compile-time validity check accepts exactly the expressions that denote a segment list without
  wildcard characters in its keys, so a validated expression can only miss at run time because the data
  does.\<close>

theorem jsonpath_valid_iff:
  "jsonpath_is_valid e \<longleftrightarrow> (\<exists>p. jsonpath_segments e = Some p \<and> list_all clean_segment p)"
proof (cases "e = ''$''")
  case True
  then show ?thesis by (simp add: jsonpath_is_valid_def jsonpath_segments_def strip_prefix_def)
next
  case False
  have "strip_prefix ''$'' e = Some r \<Longrightarrow> r \<noteq> []" for r
    using False by (auto simp: strip_prefix_some)
  with False show ?thesis
    by (auto simp: jsonpath_is_valid_def jsonpath_segments_def jp_valid_segments split: option.split)
qed

end
