(* ===== verification/WfTypes.thy ===== *)
theory WfTypes
  imports JsonPath
begin

text \<open>
  The data of the workflow engine: errors (\<open>ags-protocol/src/error.rs\<close>), workflow definitions and their
  compiled form (\<open>ags-protocol/src/workflow.rs\<close>), requests and results (\<open>request.rs\<close>, \<open>result.rs\<close>,
  \<open>output_views.rs\<close>) and the run options of \<open>ags-runtime/src/runtime/workflows/mod.rs\<close>.
\<close>

section \<open>Errors\<close>

datatype runtime_error_kind =
    NotAuthenticated
  | Forbidden
  | NotFound
  | Validation
  | Rejected
  | Upstream nat "string option"
  | Network
  | ResponseTooLarge
  | Internal

datatype suggestion_kind = Fix | Next | Info

record error_details =
  ed_code :: "string option"
  ed_reason :: "string option"
  ed_detail :: "string option"
  ed_suggestion_kind :: "suggestion_kind option"
  ed_tip :: "string option"

text \<open>The execution trace of an error is diagnostic output that no modelled code reads; it is left out.\<close>

record runtime_error =
  re_kind :: runtime_error_kind
  re_message :: string
  re_details :: "error_details option"
  re_hint :: "string option"

definition internal_error :: "string \<Rightarrow> runtime_error" where
  "internal_error msg = \<lparr>re_kind = Internal, re_message = msg, re_details = None, re_hint = None\<rparr>"

definition network_error :: "string \<Rightarrow> runtime_error" where
  "network_error msg =
     \<lparr>re_kind = Network, re_message = msg, re_details = None,
      re_hint = Some ''Check network connectivity and retry.''\<rparr>"

definition validation_error :: "string \<Rightarrow> runtime_error" where
  "validation_error msg = \<lparr>re_kind = Validation, re_message = msg, re_details = None, re_hint = None\<rparr>"

definition telemetry_class :: "runtime_error_kind \<Rightarrow> string" where
  "telemetry_class k =
     (case k of
        NotAuthenticated \<Rightarrow> ''auth''
      | Forbidden \<Rightarrow> ''permission''
      | NotFound \<Rightarrow> ''not_found''
      | Validation \<Rightarrow> ''usage''
      | Rejected \<Rightarrow> ''rejected''
      | Upstream _ _ \<Rightarrow> ''upstream''
      | ResponseTooLarge \<Rightarrow> ''upstream''
      | Network \<Rightarrow> ''network''
      | Internal \<Rightarrow> ''internal'')"

text \<open>A text in single quotes, as the messages print names.\<close>

definition quoted :: "string \<Rightarrow> string" where
  "quoted s = CHR 0x27 # s @ [CHR 0x27]"

type_synonym 'a rt = "runtime_error + 'a"

section \<open>Workflow definitions\<close>

datatype step_field_location = LocPath | LocQuery | LocHeader | LocBody | LocFormData

record operation_reference =
  or_service :: string
  or_operation :: string

record literal_binding =
  lit_value :: json
  lit_sensitive :: bool

datatype arithmetic_op = Mul | Add

datatype arithmetic_operand = OperandInput string | OperandInteger int

record arithmetic_transform =
  ar_op :: arithmetic_op
  ar_operand :: arithmetic_operand

datatype transform_kind = TJsonPath string | TArithmetic arithmetic_transform

datatype reference_target = FromWorkflow string | FromStep string

record reference_binding =
  rb_from :: reference_target
  rb_output :: "string option"
  rb_transform :: "transform_kind option"

datatype binding_source =
    Literal literal_binding
  | Reference reference_binding
  | Format string
  | Mirror string

record step_input_binding =
  sib_field :: string
  sib_source :: binding_source
  sib_show_in_review :: bool
  sib_description :: "string option"

record step_output_capture =
  soc_name :: string
  soc_path :: string
  soc_default :: "json option"
  soc_sensitive :: bool

datatype auto_derive_scope = ScopeWorkflow string | ScopeStepLocal string

record auto_derived_field =
  adf_field :: string
  adf_schema :: json
  adf_required :: bool
  adf_sensitive :: bool
  adf_description :: "string option"
  adf_scope :: auto_derive_scope
  adf_location :: step_field_location

record option_filter =
  of_path :: string
  of_equals :: json

datatype label_detail = LdPath string | LdByInput string "string bmap"

datatype option_parameter_binding =
    FromInput string
  | FromInputOptional string
  | OptLiteral json

record options_source =
  os_operation :: operation_reference
  os_parameters :: "option_parameter_binding bmap"
  os_items_path :: string
  os_value :: string
  os_label :: "string option"
  os_label_detail :: "label_detail option"
  os_fallback_description :: "string option"
  os_filter :: "option_filter option"

record file_picker_spec =
  fp_extensions :: "string list option"
  fp_start_dir :: "string option"

record workflow_input_spec =
  wi_name :: string
  wi_description :: "string option"
  wi_schema :: "json option"
  wi_required :: bool
  wi_default :: "json option"
  wi_sensitive :: bool
  wi_options_source :: "options_source option"
  wi_file_picker :: "file_picker_spec option"
  wi_location :: step_field_location

record workflow_input_needed =
  wn_id :: nat
  wn_label :: string
  wn_description :: "string option"
  wn_schema :: json
  wn_default :: "json option"
  wn_required :: bool
  wn_sensitive :: bool
  wn_scope :: auto_derive_scope
  wn_location :: step_field_location

record workflow_output_alias =
  oa_name :: string
  oa_from_step_id :: string
  oa_output :: string
  oa_sensitive :: bool
  oa_section :: "string option"
  oa_label :: "string option"
  oa_item_fields :: "string list option"

record workflow_briefing =
  br_overview :: string
  br_prerequisites :: "string list"
  br_creates :: "string list"

record completion_resource =
  cr_label :: string
  cr_value :: string

record completion_step =
  cs_description :: string
  cs_command :: string

record workflow_completion =
  wc_created :: "completion_resource list"
  wc_next_steps :: "completion_step list"

datatype step_kind = Api | Local

record step_definition =
  sd_id :: string
  sd_description :: "string option"
  sd_kind :: step_kind
  sd_action :: "string option"
  sd_operation :: "operation_reference option"
  sd_dependencies :: "string list"
  sd_confirm :: bool
  sd_is_optional :: bool
  sd_continue_on_failure :: bool
  sd_skip_if_exists :: bool
  sd_is_reviewed :: "bool option"
  sd_inputs :: "step_input_binding list"
  sd_outputs :: "step_output_capture list"

record workflow_definition =
  wd_id :: string
  wd_name :: string
  wd_protocol_version :: "string option"
  wd_intent :: "string option"
  wd_description :: "string option"
  wd_briefing :: "workflow_briefing option"
  wd_inputs :: "workflow_input_spec list"
  wd_is_reviewed_by_default :: bool
  wd_steps :: "step_definition list"
  wd_outputs :: "workflow_output_alias list"
  wd_completion :: "workflow_completion option"

text \<open>A compiled step is the step with its index and the fields derived from its operation.\<close>

record compiled_step = step_definition +
  cs_index :: nat
  cs_auto_derived :: "auto_derived_field list"

record compiled_workflow =
  cw_id :: string
  cw_name :: string
  cw_intent :: "string option"
  cw_description :: "string option"
  cw_briefing :: "workflow_briefing option"
  cw_inputs :: "workflow_input_spec list"
  cw_is_reviewed_by_default :: bool
  cw_steps :: "compiled_step list"
  cw_outputs :: "workflow_output_alias list"
  cw_completion :: "workflow_completion option"

section \<open>Requests and results\<close>

datatype form_part =
    TextPart string string
  | FilePart string string string

datatype request_body = JsonBody json | Multipart "form_part list"

datatype output_format = Human | JsonFormat

datatype verbosity = Quiet | Normal | Verbose

datatype output_destination = Stdout | ToFile string

datatype pagination_hint = AutoPages | FirstPageOnly | AllPages | LimitItems nat

record command_request =
  rq_service :: string
  rq_operation_id :: string
  rq_namespace :: "string option"
  rq_path_params :: "string bmap"
  rq_query_params :: "string bmap"
  rq_header_params :: "string bmap"
  rq_form_params :: "string bmap"
  rq_body :: "request_body option"
  rq_output_format :: output_format
  rq_pagination :: pagination_hint
  rq_verbosity :: verbosity
  rq_output :: "output_destination option"

record run_options =
  ro_dry_run :: bool
  ro_assume_yes :: bool
  ro_no_input :: bool
  ro_review_steps :: bool
  ro_pickers_available :: bool
  ro_output_format :: output_format
  ro_output :: "output_destination option"
  ro_verbosity :: verbosity
  ro_pagination :: pagination_hint
  ro_explicit_body :: "json option"
  ro_is_bundled_workflow :: bool

definition default_run_options :: run_options where
  "default_run_options =
     \<lparr>ro_dry_run = False, ro_assume_yes = False, ro_no_input = False, ro_review_steps = False,
      ro_pickers_available = False, ro_output_format = Human, ro_output = None,
      ro_verbosity = Normal, ro_pagination = AutoPages, ro_explicit_body = None,
      ro_is_bundled_workflow = False\<rparr>"

end
