(* ===== verification/Context.thy ===== *)
theory Context
  imports WfTypes
begin

text \<open>
  \<open>WorkflowContext\<close> of \<open>ags-runtime/src/runtime/workflows/mod.rs\<close>: what the executor keeps across the steps of a
  run, and the binding of a step's declared outputs.
\<close>

section \<open>State\<close>

datatype field_value =
    FvText string
  | FvNumber string
  | FvBool bool
  | FvList "string list"
  | FvNull

datatype heading_style = Named | Identified | Bare

record result_field =
  rf_label :: string
  rf_value :: field_value

record field_group =
  fg_heading :: string
  fg_fields :: "result_field list"

record entity_result =
  er_kind :: string
  er_identifier :: "string option"
  er_heading_style :: heading_style
  er_fields :: "result_field list"
  er_sections :: "field_group list"

record column_spec =
  col_label :: string
  col_key :: string

record page_info =
  pi_current_page :: nat
  pi_total_pages :: "nat option"
  pi_total_items :: "nat option"
  pi_has_next :: bool

record collection_result =
  clr_kind :: string
  clr_columns :: "column_spec list"
  clr_rows :: "field_value list list"
  clr_page_info :: "page_info option"
  clr_notes :: "string list"

datatype command_result =
    Entity entity_result
  | Collection collection_result
  | EmptyResult string string
  | Raw json

datatype api_body = ShapedBody command_result | TextBody string | EmptyBody

text \<open>The success line, the execution trace and the version flag of an \<open>ApiOutput\<close> are only rendered.\<close>

record api_output =
  ao_operation :: operation_schema
  ao_resource_name :: string
  ao_body :: api_body
  ao_raw_body :: "json option"

record binary_written_output =
  bw_destination :: output_destination
  bw_bytes_written :: nat
  bw_content_type :: string

datatype provenance = Captured | Missing | Skipped

record workflow_context =
  ctx_step_outputs :: "api_output bmap"
  ctx_local_step_bodies :: "json bmap"
  ctx_captures :: "json bmap bmap"
  ctx_provenances :: "provenance bmap bmap"
  ctx_binary_outputs :: "binary_written_output bmap"

record workflow_output_item =
  woi_name :: string
  woi_section :: "string option"
  woi_label :: "string option"
  woi_value :: json
  woi_provenance :: provenance
  woi_item_fields :: "string list option"

definition new_context :: workflow_context where
  "new_context =
     \<lparr>ctx_step_outputs = [], ctx_local_step_bodies = [], ctx_captures = [], ctx_provenances = [],
      ctx_binary_outputs = []\<rparr>"

section \<open>Operations\<close>

definition store_step_output :: "string \<Rightarrow> api_output \<Rightarrow> workflow_context \<Rightarrow> workflow_context" where
  "store_step_output sid out ctx = ctx\<lparr>ctx_step_outputs := binsert sid out (ctx_step_outputs ctx)\<rparr>"

definition step_output :: "workflow_context \<Rightarrow> string \<Rightarrow> api_output option" where
  "step_output ctx sid = bget (ctx_step_outputs ctx) sid"

definition store_local_step_body :: "string \<Rightarrow> json \<Rightarrow> workflow_context \<Rightarrow> workflow_context" where
  "store_local_step_body sid v ctx =
     ctx\<lparr>ctx_local_step_bodies := binsert sid v (ctx_local_step_bodies ctx)\<rparr>"

definition store_binary_output :: "string \<Rightarrow> binary_written_output \<Rightarrow> workflow_context \<Rightarrow> workflow_context" where
  "store_binary_output sid out ctx = ctx\<lparr>ctx_binary_outputs := binsert sid out (ctx_binary_outputs ctx)\<rparr>"

definition binary_output :: "workflow_context \<Rightarrow> string \<Rightarrow> binary_written_output option" where
  "binary_output ctx sid = bget (ctx_binary_outputs ctx) sid"

definition step_body_json :: "workflow_context \<Rightarrow> string \<Rightarrow> json option" where
  "step_body_json ctx sid =
     (case bget (ctx_local_step_bodies ctx) sid of
        Some v \<Rightarrow> Some v
      | None \<Rightarrow>
          (case bget (ctx_step_outputs ctx) sid of
             None \<Rightarrow> None
           | Some out \<Rightarrow>
               (case ao_raw_body out of
                  Some raw \<Rightarrow> Some raw
                | None \<Rightarrow>
                    (case ao_body out of
                       EmptyBody \<Rightarrow> None
                     | ShapedBody _ \<Rightarrow> None
                     | TextBody s \<Rightarrow> Some (JStr s)))))"

definition entry_or_default :: "'v bmap bmap \<Rightarrow> string \<Rightarrow> 'v bmap" where
  "entry_or_default m k = (case bget m k of None \<Rightarrow> [] | Some e \<Rightarrow> e)"

text \<open>
  The value one capture binds. The loops below update the step's entry capture by capture, and an
  error leaves what was bound before it in place, as the source's in-place updates do.
\<close>

definition capture_value :: "json option \<Rightarrow> step_output_capture \<Rightarrow> (json \<times> provenance) option" where
  "capture_value body c =
     (case Option.bind body (\<lambda>b. apply_jsonpath_subset b (soc_path c)) of
        Some v \<Rightarrow> Some (v, Captured)
      | None \<Rightarrow> (case soc_default c of Some d \<Rightarrow> Some (d, Missing) | None \<Rightarrow> None))"

definition skipped_value :: "step_output_capture \<Rightarrow> (json \<times> provenance) option" where
  "skipped_value c = map_option (\<lambda>d. (d, Skipped)) (soc_default c)"

fun bind_loop ::
  "(step_output_capture \<Rightarrow> (json \<times> provenance) option) \<Rightarrow> (step_output_capture \<Rightarrow> runtime_error) \<Rightarrow>
   step_output_capture list \<Rightarrow> json bmap \<Rightarrow> provenance bmap \<Rightarrow> (json bmap \<times> provenance bmap) \<times> unit rt" where
  "bind_loop val err [] e p = ((e, p), Inr ())"
| "bind_loop val err (c # cs) e p =
     (case val c of
        None \<Rightarrow> ((e, p), Inl (err c))
      | Some (v, q) \<Rightarrow> bind_loop val err cs (binsert (soc_name c) v e) (binsert (soc_name c) q p))"

definition bind_entry ::
  "(step_output_capture \<Rightarrow> (json \<times> provenance) option) \<Rightarrow> (step_output_capture \<Rightarrow> runtime_error) \<Rightarrow>
   string \<Rightarrow> step_output_capture list \<Rightarrow> workflow_context \<Rightarrow> workflow_context \<times> unit rt" where
  "bind_entry val err sid cs ctx =
     (case bind_loop val err cs (entry_or_default (ctx_captures ctx) sid)
             (entry_or_default (ctx_provenances ctx) sid) of
        ((e, p), r) \<Rightarrow>
          (ctx\<lparr>ctx_captures := binsert sid e (ctx_captures ctx),
               ctx_provenances := binsert sid p (ctx_provenances ctx)\<rparr>, r))"

definition bind_step_outputs ::
  "string \<Rightarrow> step_output_capture list \<Rightarrow> json option \<Rightarrow> workflow_context \<Rightarrow> workflow_context \<times> unit rt" where
  "bind_step_outputs sid captures body ctx =
     bind_entry (capture_value body)
       (\<lambda>c. internal_error (''step '' @ quoted sid @ '' output '' @ quoted (soc_name c) @
              '' did not resolve (path '' @ quoted (soc_path c) @ '') and has no default''))
       sid captures ctx"

definition bind_skipped_outputs ::
  "string \<Rightarrow> step_output_capture list \<Rightarrow> workflow_context \<Rightarrow> workflow_context \<times> unit rt" where
  "bind_skipped_outputs sid captures ctx =
     bind_entry skipped_value
       (\<lambda>c. internal_error (''step '' @ quoted sid @ '' output '' @ quoted (soc_name c) @
              '' has no default for skipped binding''))
       sid captures ctx"

definition inject_step_captures_for_dry_run :: "string \<Rightarrow> json bmap \<Rightarrow> workflow_context \<Rightarrow> workflow_context" where
  "inject_step_captures_for_dry_run sid captures ctx =
     ctx\<lparr>ctx_captures := binsert sid captures (ctx_captures ctx)\<rparr>"

definition resolve_step_reference :: "workflow_context \<Rightarrow> string \<Rightarrow> string \<Rightarrow> json option" where
  "resolve_step_reference ctx sid name = Option.bind (bget (ctx_captures ctx) sid) (\<lambda>m. bget m name)"

definition resolve_workflow_outputs :: "workflow_context \<Rightarrow> workflow_output_alias list \<Rightarrow> json bmap" where
  "resolve_workflow_outputs ctx aliases =
     fold (\<lambda>a m. case resolve_step_reference ctx (oa_from_step_id a) (oa_output a) of
                   None \<Rightarrow> m
                 | Some v \<Rightarrow> binsert (oa_name a) v m) aliases []"

definition capture_with_provenance :: "workflow_context \<Rightarrow> string \<Rightarrow> string \<Rightarrow> (json \<times> provenance) option" where
  "capture_with_provenance ctx sid name =
     Option.bind (Option.bind (bget (ctx_captures ctx) sid) (\<lambda>m. bget m name)) (\<lambda>v.
       Option.bind (Option.bind (bget (ctx_provenances ctx) sid) (\<lambda>m. bget m name)) (\<lambda>p. Some (v, p)))"

definition resolve_workflow_output_view :: "workflow_context \<Rightarrow> workflow_output_alias list \<Rightarrow> workflow_output_item list" where
  "resolve_workflow_output_view ctx aliases =
     List.map_filter (\<lambda>a. map_option (\<lambda>(v, p).
         \<lparr>woi_name = oa_name a, woi_section = oa_section a, woi_label = oa_label a, woi_value = v,
          woi_provenance = p, woi_item_fields = oa_item_fields a\<rparr>)
       (capture_with_provenance ctx (oa_from_step_id a) (oa_output a))) aliases"

section \<open>The binding loop\<close>

text \<open>The outputs a step is known to have bound.\<close>

definition bound_outputs :: "workflow_context \<Rightarrow> string \<Rightarrow> string list \<Rightarrow> bool" where
  "bound_outputs ctx sid names \<longleftrightarrow> (\<forall>n \<in> set names. resolve_step_reference ctx sid n \<noteq> None)"

lemma bind_loop_ok_iff:
  "snd (bind_loop val err cs e p) = Inr () \<longleftrightarrow> (\<forall>c \<in> set cs. val c \<noteq> None)"
  by (induction val err cs e p rule: bind_loop.induct) (auto split: option.splits)

lemma bind_loop_keeps:
  "bget e n \<noteq> None \<Longrightarrow> bget (fst (fst (bind_loop val err cs e p))) n \<noteq> None"
  by (induction val err cs e p rule: bind_loop.induct) (auto split: option.splits simp: bget_binsert)

lemma bind_loop_binds:
  "snd (bind_loop val err cs e p) = Inr () \<Longrightarrow> c \<in> set cs \<Longrightarrow>
   bget (fst (fst (bind_loop val err cs e p))) (soc_name c) \<noteq> None"
proof (induction val err cs e p rule: bind_loop.induct)
  case (2 val err c' cs e p)
  then obtain v q where v: "val c' = Some (v, q)" by (auto split: option.splits)
  have "bget (fst (fst (bind_loop val err cs (binsert (soc_name c') v e) (binsert (soc_name c') q p)))) (soc_name c') \<noteq> None"
    by (rule bind_loop_keeps) (simp add: bget_binsert)
  with 2 v show ?case by auto
qed simp

lemma bind_loop_frame:
  "n \<notin> soc_name ` set cs \<Longrightarrow>
   bget (fst (fst (bind_loop val err cs e p))) n = bget e n \<and>
   bget (snd (fst (bind_loop val err cs e p))) n = bget p n"
  by (induction val err cs e p rule: bind_loop.induct) (auto split: option.splits simp: bget_binsert)

lemma bind_loop_value:
  "snd (bind_loop val err cs e p) = Inr () \<Longrightarrow> distinct (map soc_name cs) \<Longrightarrow> c \<in> set cs \<Longrightarrow>
   val c = Some (v, q) \<Longrightarrow>
   bget (fst (fst (bind_loop val err cs e p))) (soc_name c) = Some v \<and>
   bget (snd (fst (bind_loop val err cs e p))) (soc_name c) = Some q"
proof (induction val err cs e p rule: bind_loop.induct)
  case (2 val err c' cs e p)
  show ?case
  proof (cases "c = c'")
    case True
    with 2 show ?thesis by (simp add: bind_loop_frame bget_binsert)
  next
    case False
    with 2 show ?thesis by (auto split: option.splits)
  qed
qed simp

lemma bind_entry_parts:
  "bind_entry val err sid cs ctx = (ctx', r) \<Longrightarrow>
   (\<exists>e p. bind_loop val err cs (entry_or_default (ctx_captures ctx) sid)
            (entry_or_default (ctx_provenances ctx) sid) = ((e, p), r) \<and>
      ctx' = ctx\<lparr>ctx_captures := binsert sid e (ctx_captures ctx),
                 ctx_provenances := binsert sid p (ctx_provenances ctx)\<rparr>)"
  by (auto simp: bind_entry_def split: prod.splits)

lemma bind_entry_ok_iff:
  "snd (bind_entry val err sid cs ctx) = Inr () \<longleftrightarrow> (\<forall>c \<in> set cs. val c \<noteq> None)"
  using bind_loop_ok_iff [of val err cs "entry_or_default (ctx_captures ctx) sid"
      "entry_or_default (ctx_provenances ctx) sid"]
  by (auto simp: bind_entry_def split: prod.splits)

lemma bind_entry_binds:
  assumes "bind_entry val err sid cs ctx = (ctx', Inr ())" "c \<in> set cs"
  shows "resolve_step_reference ctx' sid (soc_name c) \<noteq> None"
proof -
  from bind_entry_parts [OF assms(1)] obtain e p where
    l: "bind_loop val err cs (entry_or_default (ctx_captures ctx) sid) (entry_or_default (ctx_provenances ctx) sid) = ((e, p), Inr ())"
    and c: "ctx' = ctx\<lparr>ctx_captures := binsert sid e (ctx_captures ctx), ctx_provenances := binsert sid p (ctx_provenances ctx)\<rparr>"
    by blast
  from bind_loop_binds [of val err cs "entry_or_default (ctx_captures ctx) sid" "entry_or_default (ctx_provenances ctx) sid" c] l assms(2)
  show ?thesis by (simp add: resolve_step_reference_def c bget_binsert)
qed

lemma bind_entry_value:
  assumes "bind_entry val err sid cs ctx = (ctx', Inr ())" "distinct (map soc_name cs)" "c \<in> set cs"
    and "val c = Some (v, q)"
  shows "capture_with_provenance ctx' sid (soc_name c) = Some (v, q)"
proof -
  from bind_entry_parts [OF assms(1)] obtain e p where
    l: "bind_loop val err cs (entry_or_default (ctx_captures ctx) sid) (entry_or_default (ctx_provenances ctx) sid) = ((e, p), Inr ())"
    and c: "ctx' = ctx\<lparr>ctx_captures := binsert sid e (ctx_captures ctx), ctx_provenances := binsert sid p (ctx_provenances ctx)\<rparr>"
    by blast
  from bind_loop_value [of val err cs "entry_or_default (ctx_captures ctx) sid" "entry_or_default (ctx_provenances ctx) sid" c v q]
    assms(2-4) l
  show ?thesis by (simp add: capture_with_provenance_def c bget_binsert)
qed

lemma bind_entry_frame:
  assumes "bind_entry val err sid cs ctx = (ctx', r)" "sid' \<noteq> sid"
  shows "resolve_step_reference ctx' sid' n = resolve_step_reference ctx sid' n"
  using bind_entry_parts [OF assms(1)] assms(2)
  by (auto simp: resolve_step_reference_def bget_binsert)

lemma bind_entry_keeps:
  assumes "bind_entry val err sid cs ctx = (ctx', r)" "resolve_step_reference ctx sid' n \<noteq> None"
  shows "resolve_step_reference ctx' sid' n \<noteq> None"
proof (cases "sid' = sid")
  case True
  from bind_entry_parts [OF assms(1)] obtain e p where
    l: "bind_loop val err cs (entry_or_default (ctx_captures ctx) sid) (entry_or_default (ctx_provenances ctx) sid) = ((e, p), r)"
    and c: "ctx' = ctx\<lparr>ctx_captures := binsert sid e (ctx_captures ctx), ctx_provenances := binsert sid p (ctx_provenances ctx)\<rparr>"
    by blast
  from assms(2) True have "bget (entry_or_default (ctx_captures ctx) sid) n \<noteq> None"
    by (cases "bget (ctx_captures ctx) sid") (auto simp: resolve_step_reference_def entry_or_default_def)
  from bind_loop_keeps [OF this, of val err cs "entry_or_default (ctx_provenances ctx) sid"] l
  show ?thesis by (simp add: True resolve_step_reference_def c bget_binsert)
next
  case False
  with assms bind_entry_frame show ?thesis by metis
qed

section \<open>Properties\<close>

text \<open>Binding a step's outputs succeeds exactly when each capture finds a value in the body or has a default;
  binding a skipped step succeeds exactly when each capture has a default.\<close>

theorem outputs_bind_iff:
  "(snd (bind_step_outputs sid cs body ctx) = Inr () \<longleftrightarrow>
      list_all (\<lambda>c. (\<exists>b v. body = Some b \<and> apply_jsonpath_subset b (soc_path c) = Some v) \<or>
                    (\<exists>d. soc_default c = Some d)) cs) \<and>
   (snd (bind_skipped_outputs sid cs ctx) = Inr () \<longleftrightarrow> list_all (\<lambda>c. \<exists>d. soc_default c = Some d) cs)"
proof -
  have "capture_value body c \<noteq> None \<longleftrightarrow>
      (\<exists>b v. body = Some b \<and> apply_jsonpath_subset b (soc_path c) = Some v) \<or> (\<exists>d. soc_default c = Some d)" for c
    by (cases body) (auto simp: capture_value_def split: option.splits)
  moreover have "skipped_value c \<noteq> None \<longleftrightarrow> (\<exists>d. soc_default c = Some d)" for c
    by (auto simp: skipped_value_def)
  ultimately show ?thesis
    by (simp add: bind_step_outputs_def bind_skipped_outputs_def bind_entry_ok_iff list_all_iff)
qed

text \<open>After a successful binding every output of the step holds the value found in the body, marked captured,
  or its default, marked missing; after a skip it holds the default, marked skipped. The outputs of every other
  step stay as they were.\<close>

theorem outputs_bound_as_declared:
  assumes "bind_step_outputs sid cs body ctx = (ctx1, Inr ())" "bind_skipped_outputs sid cs ctx = (ctx2, Inr ())"
    and "distinct (map soc_name cs)"
  shows "(\<forall>c \<in> set cs. capture_with_provenance ctx1 sid (soc_name c) =
            (case Option.bind body (\<lambda>b. apply_jsonpath_subset b (soc_path c)) of
               Some v \<Rightarrow> Some (v, Captured)
             | None \<Rightarrow> map_option (\<lambda>d. (d, Missing)) (soc_default c)) \<and>
          capture_with_provenance ctx2 sid (soc_name c) = map_option (\<lambda>d. (d, Skipped)) (soc_default c)) \<and>
    (\<forall>sid' n. sid' \<noteq> sid \<longrightarrow>
       resolve_step_reference ctx1 sid' n = resolve_step_reference ctx sid' n \<and>
       resolve_step_reference ctx2 sid' n = resolve_step_reference ctx sid' n)"
proof (intro conjI ballI allI impI)
  fix c assume c: "c \<in> set cs"
  have "snd (bind_step_outputs sid cs body ctx) = Inr ()" "snd (bind_skipped_outputs sid cs ctx) = Inr ()"
    by (simp_all add: assms(1,2))
  with c have "capture_value body c \<noteq> None" "skipped_value c \<noteq> None"
    by (simp_all add: bind_step_outputs_def bind_skipped_outputs_def bind_entry_ok_iff)
  then obtain v q w r where vals: "capture_value body c = Some (v, q)" "skipped_value c = Some (w, r)" by auto
  from bind_entry_value [OF assms(1) [unfolded bind_step_outputs_def] assms(3) c vals(1)]
  show "capture_with_provenance ctx1 sid (soc_name c) =
      (case Option.bind body (\<lambda>b. apply_jsonpath_subset b (soc_path c)) of
         Some v \<Rightarrow> Some (v, Captured)
       | None \<Rightarrow> map_option (\<lambda>d. (d, Missing)) (soc_default c))"
    using vals(1) by (auto simp: capture_value_def split: option.splits)
  from bind_entry_value [OF assms(2) [unfolded bind_skipped_outputs_def] assms(3) c vals(2)]
  show "capture_with_provenance ctx2 sid (soc_name c) = map_option (\<lambda>d. (d, Skipped)) (soc_default c)"
    using vals(2) by (auto simp: skipped_value_def)
next
  fix sid' n assume "sid' \<noteq> sid"
  then show "resolve_step_reference ctx1 sid' n = resolve_step_reference ctx sid' n"
      "resolve_step_reference ctx2 sid' n = resolve_step_reference ctx sid' n"
    using bind_entry_frame [OF assms(1) [unfolded bind_step_outputs_def]]
      bind_entry_frame [OF assms(2) [unfolded bind_skipped_outputs_def]] by simp_all
qed

theorem outputs_bound_as_declared_witness:
  "\<exists>ctx1 ctx2. capture_with_provenance ctx1 ''a'' ''id'' = Some (JInt 7, Captured) \<and>
     capture_with_provenance ctx2 ''a'' ''id'' = Some (JInt 0, Skipped)"
proof -
  let ?c = "\<lparr>soc_name = ''id'', soc_path = ''$.id'', soc_default = Some (JInt 0), soc_sensitive = False\<rparr>"
  let ?body = "JObj [(''id'', JInt 7)]"
  let ?ctx1 = "fst (bind_step_outputs ''a'' [?c] (Some ?body) new_context)"
  let ?ctx2 = "fst (bind_skipped_outputs ''a'' [?c] new_context)"
  have path: "apply_jsonpath_subset ?body ''$.id'' = Some (JInt 7)"
    by code_simp
  have ok: "snd (bind_step_outputs ''a'' [?c] (Some ?body) new_context) = Inr ()"
      "snd (bind_skipped_outputs ''a'' [?c] new_context) = Inr ()"
    by (simp_all add: bind_step_outputs_def bind_skipped_outputs_def bind_entry_ok_iff capture_value_def
        skipped_value_def path)
  have "capture_with_provenance ?ctx1 ''a'' (soc_name ?c) = Some (JInt 7, Captured) \<and>
      capture_with_provenance ?ctx2 ''a'' (soc_name ?c) = Some (JInt 0, Skipped)"
    using outputs_bound_as_declared [of "''a''" "[?c]" "Some ?body" new_context ?ctx1 ?ctx2] ok path
    by (simp add: prod_eq_iff)
  then show ?thesis by auto
qed

end
