(* ===== verification/Template.thy ===== *)
theory Template
  imports WfTypes
begin

text \<open>
  Text rendering: \<open>format_placeholders\<close> of \<open>workflows/compile.rs\<close> and \<open>interpolate_template\<close>, \<open>shell_quote\<close>,
  \<open>json_to_param_string\<close> and \<open>resolve_completion\<close> of \<open>workflows/resolve.rs\<close>. Their common meaning is a list of
  template pieces; a quoted value is read back by a POSIX word reader.
\<close>

definition open_brace :: char where "open_brace = CHR 0x7B"
definition close_brace :: char where "close_brace = CHR 0x7D"

definition is_close_brace :: "char \<Rightarrow> bool" where
  "is_close_brace c \<longleftrightarrow> c = close_brace"

fun starts_with_char :: "char \<Rightarrow> string \<Rightarrow> bool" where
  "starts_with_char c [] = False"
| "starts_with_char c (d # _) = (c = d)"

lemma length_after_brace:
  "from_match is_close_brace s = e # r \<Longrightarrow> length r < length s"
  by (rule length_after_match)

section \<open>Placeholders of a template\<close>

text \<open>The loop of \<open>format_placeholders\<close>: the names found so far and the bytes left.\<close>

function (sequential) scan_placeholders :: "string \<Rightarrow> string list \<Rightarrow> string \<Rightarrow> string list rt" where
  "scan_placeholders template found [] = Inr found"
| "scan_placeholders template found (c # rest) =
     (if c = open_brace \<and> starts_with_char open_brace rest then scan_placeholders template found (tl rest)
      else if c = close_brace \<and> starts_with_char close_brace rest then scan_placeholders template found (tl rest)
      else if c = open_brace then
        case from_match is_close_brace rest of
          [] \<Rightarrow> Inl (internal_error (''Format template '' @ quoted template @ '' has an unclosed `{`''))
        | _ # after \<Rightarrow>
            if before_match is_close_brace rest = [] then
              Inl (internal_error (''Format template '' @ quoted template @ '' has an empty `{}` placeholder''))
            else scan_placeholders template
                   (if before_match is_close_brace rest \<in> set found then found
                    else found @ [before_match is_close_brace rest]) after
      else scan_placeholders template found rest)"
  by pat_completeness auto
termination
  by (relation "measure (\<lambda>(_, _, rest). length rest)") (auto dest: length_after_brace)

definition format_placeholders :: "string \<Rightarrow> string list rt" where
  "format_placeholders template = scan_placeholders template [] template"

text \<open>\<open>format_placeholders(..).unwrap_or_default()\<close>\<close>

definition placeholders_or_empty :: "string \<Rightarrow> string list" where
  "placeholders_or_empty template =
     (case format_placeholders template of Inl _ \<Rightarrow> [] | Inr ns \<Rightarrow> ns)"

section \<open>Rendering values\<close>

fun join_with :: "string \<Rightarrow> string list \<Rightarrow> string" where
  "join_with sep [] = []"
| "join_with sep [s] = s"
| "join_with sep (s # ss) = s @ sep @ join_with sep ss"

text \<open>\<open>object_text\<close> is the crate's printing of an object as JSON text.\<close>

fun json_to_param_string :: "(json bmap \<Rightarrow> string) \<Rightarrow> json \<Rightarrow> string" where
  "json_to_param_string object_text (JStr s) = s"
| "json_to_param_string object_text (JInt i) = show_int i"
| "json_to_param_string object_text (JFloat t) = t"
| "json_to_param_string object_text (JBool b) = (if b then ''true'' else ''false'')"
| "json_to_param_string object_text (JArr items) =
     join_with '','' (map (json_to_param_string object_text) items)"
| "json_to_param_string object_text JNull = ''null''"
| "json_to_param_string object_text (JObj m) = object_text m"

definition safe_char :: "char \<Rightarrow> bool" where
  "safe_char c \<longleftrightarrow>
     (let n = (of_char c :: nat)
      in (48 \<le> n \<and> n \<le> 57) \<or> (65 \<le> n \<and> n \<le> 90) \<or> (97 \<le> n \<and> n \<le> 122)
         \<or> c = CHR ''.'' \<or> c = CHR ''_'' \<or> c = CHR ''-'')"

definition quote_char :: char where "quote_char = CHR 0x27"
definition backslash :: char where "backslash = CHR 0x5C"

fun escape_quotes :: "string \<Rightarrow> string" where
  "escape_quotes [] = []"
| "escape_quotes (c # s) =
     (if c = quote_char then [quote_char, backslash, quote_char, quote_char] else [c]) @ escape_quotes s"

definition shell_quote :: "string \<Rightarrow> string" where
  "shell_quote s =
     (if s \<noteq> [] \<and> list_all safe_char s then s
      else quote_char # escape_quotes s @ [quote_char])"

datatype quote_mode = Plain | ShellQuoted

definition render_value :: "(json bmap \<Rightarrow> string) \<Rightarrow> quote_mode \<Rightarrow> json \<Rightarrow> string" where
  "render_value object_text mode v =
     (case mode of
        Plain \<Rightarrow> json_to_param_string object_text v
      | ShellQuoted \<Rightarrow> shell_quote (json_to_param_string object_text v))"

text \<open>The loop of \<open>interpolate_template\<close>.\<close>

function (sequential) interpolate_loop ::
  "(json bmap \<Rightarrow> string) \<Rightarrow> json bmap \<Rightarrow> quote_mode \<Rightarrow> string \<Rightarrow> string \<Rightarrow> string option" where
  "interpolate_loop object_text vals mode out [] = Some out"
| "interpolate_loop object_text vals mode out (c # rest) =
     (if c = open_brace \<and> starts_with_char open_brace rest then
        interpolate_loop object_text vals mode (out @ [open_brace]) (tl rest)
      else if c = close_brace \<and> starts_with_char close_brace rest then
        interpolate_loop object_text vals mode (out @ [close_brace]) (tl rest)
      else if c = open_brace then
        case from_match is_close_brace rest of
          [] \<Rightarrow> None
        | _ # after \<Rightarrow>
            (case bget vals (before_match is_close_brace rest) of
               None \<Rightarrow> None
             | Some v \<Rightarrow>
                 interpolate_loop object_text vals mode (out @ render_value object_text mode v) after)
      else interpolate_loop object_text vals mode (out @ [c]) rest)"
  by pat_completeness auto
termination
  by (relation "measure (\<lambda>(_, _, _, _, rest). length rest)") (auto dest: length_after_brace)

definition interpolate_template ::
  "(json bmap \<Rightarrow> string) \<Rightarrow> string \<Rightarrow> json bmap \<Rightarrow> quote_mode \<Rightarrow> string option" where
  "interpolate_template object_text template vals mode =
     interpolate_loop object_text vals mode [] template"

record workflow_completion_view =
  wv_created :: "completion_resource list"
  wv_next_steps :: "completion_step list"

definition unwrap_text :: "string option \<Rightarrow> string" where
  "unwrap_text x = (case x of None \<Rightarrow> [] | Some s \<Rightarrow> s)"

definition resolve_completion ::
  "(json bmap \<Rightarrow> string) \<Rightarrow> workflow_completion option \<Rightarrow> json bmap \<Rightarrow> workflow_completion_view option" where
  "resolve_completion object_text completion supplied =
     map_option (\<lambda>c.
       \<lparr>wv_created = map (\<lambda>r.
           \<lparr>cr_label = cr_label r,
            cr_value = unwrap_text (interpolate_template object_text (cr_value r) supplied Plain)\<rparr>)
           (wc_created c),
        wv_next_steps = map (\<lambda>s.
           \<lparr>cs_description = cs_description s,
            cs_command = unwrap_text (interpolate_template object_text (cs_command s) supplied ShellQuoted)\<rparr>)
           (wc_next_steps c)\<rparr>) completion"

section \<open>The pieces of a template\<close>

datatype piece = Chr char | Hole string

function (sequential) template_pieces :: "string \<Rightarrow> piece list option" where
  "template_pieces [] = Some []"
| "template_pieces (c # rest) =
     (if c = open_brace \<and> starts_with_char open_brace rest then
        map_option (Cons (Chr open_brace)) (template_pieces (tl rest))
      else if c = close_brace \<and> starts_with_char close_brace rest then
        map_option (Cons (Chr close_brace)) (template_pieces (tl rest))
      else if c = open_brace then
        case from_match is_close_brace rest of
          [] \<Rightarrow> None
        | _ # after \<Rightarrow> map_option (Cons (Hole (before_match is_close_brace rest))) (template_pieces after)
      else map_option (Cons (Chr c)) (template_pieces rest))"
  by pat_completeness auto
termination
  by (relation "measure length") (auto dest: length_after_brace)

fun holes :: "piece list \<Rightarrow> string list" where
  "holes [] = []"
| "holes (Chr _ # ps) = holes ps"
| "holes (Hole n # ps) = n # holes ps"

fun add_new :: "string list \<Rightarrow> string list \<Rightarrow> string list" where
  "add_new found [] = found"
| "add_new found (n # ns) = add_new (if n \<in> set found then found else found @ [n]) ns"

fun render_pieces ::
  "(json bmap \<Rightarrow> string) \<Rightarrow> json bmap \<Rightarrow> quote_mode \<Rightarrow> piece list \<Rightarrow> string option" where
  "render_pieces object_text vals mode [] = Some []"
| "render_pieces object_text vals mode (Chr c # ps) =
     map_option (Cons c) (render_pieces object_text vals mode ps)"
| "render_pieces object_text vals mode (Hole n # ps) =
     (case bget vals n of
        None \<Rightarrow> None
      | Some v \<Rightarrow> map_option (append (render_value object_text mode v)) (render_pieces object_text vals mode ps))"

lemma set_add_new: "set (add_new found ns) = set found \<union> set ns"
  by (induction found ns rule: add_new.induct) auto

lemma distinct_add_new: "distinct found \<Longrightarrow> distinct (add_new found ns)"
  by (induction found ns rule: add_new.induct) auto

lemma scan_gives_pieces:
  "scan_placeholders t found s = Inr ns \<Longrightarrow>
   \<exists>ps. template_pieces s = Some ps \<and> [] \<notin> set (holes ps) \<and> ns = add_new found (holes ps)"
proof (induction t found s rule: scan_placeholders.induct)
  case (2 t found c rest)
  consider (escape) "(c = open_brace \<and> starts_with_char open_brace rest) \<or> (c = close_brace \<and> starts_with_char close_brace rest)"
    | (hole) "c = open_brace" "\<not> starts_with_char open_brace rest" "c \<noteq> close_brace"
    | (plain) "c \<noteq> open_brace" "\<not> (c = close_brace \<and> starts_with_char close_brace rest)"
    by (auto simp: open_brace_def close_brace_def)
  then show ?case
  proof cases
    case escape
    then have "scan_placeholders t found (tl rest) = Inr ns" using "2.prems" by (auto split: if_splits)
    then obtain ps where "template_pieces (tl rest) = Some ps" "[] \<notin> set (holes ps)" "ns = add_new found (holes ps)"
      using "2.IH"(1,2) escape by blast
    with escape show ?thesis by auto
  next
    case hole
    let ?n = "before_match is_close_brace rest"
    from hole "2.prems" obtain e after where m: "from_match is_close_brace rest = e # after" and n: "?n \<noteq> []"
      and "scan_placeholders t (if ?n \<in> set found then found else found @ [?n]) after = Inr ns"
      by (auto split: list.splits if_splits)
    then obtain ps where "template_pieces after = Some ps" "[] \<notin> set (holes ps)"
      "ns = add_new (if ?n \<in> set found then found else found @ [?n]) (holes ps)"
      using "2.IH"(3) [OF _ _ hole(1) m n] hole by blast
    with hole m n show ?thesis by simp
  next
    case plain
    then have "scan_placeholders t found rest = Inr ns" using "2.prems" by (auto split: if_splits)
    then obtain ps where "template_pieces rest = Some ps" "[] \<notin> set (holes ps)" "ns = add_new found (holes ps)"
      using "2.IH"(4) plain by blast
    with plain show ?thesis by auto
  qed
qed simp

lemma interpolate_loop_pieces:
  "interpolate_loop ot vals mode out s =
   map_option (append out) (Option.bind (template_pieces s) (render_pieces ot vals mode))"
proof (induction ot vals mode out s rule: interpolate_loop.induct)
  case (2 ot vals mode out c rest)
  then show ?case
    by (auto simp: Option.bind_map_option comp_def option.map_comp Option.map_option_bind
        split: list.split option.split bind_splits)
qed simp

lemma render_pieces_some:
  "render_pieces ot vals mode ps \<noteq> None \<longleftrightarrow> (\<forall>n \<in> set (holes ps). bget vals n \<noteq> None)"
  by (induction ps rule: holes.induct) (auto split: option.split)

section \<open>Reading a quoted word back\<close>

text \<open>
  A POSIX shell reading one word made of unquoted safe characters, backslash escapes and
  single-quoted runs; the flag says whether it is inside quotes. Anything a shell would expand, or
  that would end the word, is rejected.
\<close>

fun shell_word :: "bool \<Rightarrow> string \<Rightarrow> string option" where
  "shell_word True [] = None"
| "shell_word False [] = Some []"
| "shell_word True (c # s) =
     (if c = quote_char then shell_word False s else map_option (Cons c) (shell_word True s))"
| "shell_word False (c # s) =
     (if c = quote_char then shell_word True s
      else if c = backslash then (case s of [] \<Rightarrow> None | d # s' \<Rightarrow> map_option (Cons d) (shell_word False s'))
      else if safe_char c then map_option (Cons c) (shell_word False s)
      else None)"

lemma safe_not_special: "safe_char c \<Longrightarrow> c \<noteq> quote_char \<and> c \<noteq> backslash"
  by (auto simp: safe_char_def quote_char_def backslash_def)

lemma shell_word_safe: "list_all safe_char s \<Longrightarrow> shell_word False s = Some s"
  by (induction s) (auto dest: safe_not_special)

lemma shell_word_escaped: "shell_word True (escape_quotes s @ [quote_char]) = Some s"
  by (induction s) (auto simp: quote_char_def backslash_def)

lemma shell_word_quote: "shell_word False (shell_quote s) = Some s"
  by (simp add: shell_quote_def shell_word_safe shell_word_escaped)

section \<open>Properties\<close>

text \<open>For a template the compiler accepts, interpolation yields a text exactly when every placeholder the
  compiler saw is supplied: the two scanners of the code agree on what a placeholder is.\<close>

theorem interpolate_defined_iff:
  assumes "format_placeholders template = Inr names"
  shows "interpolate_template object_text template vals mode \<noteq> None \<longleftrightarrow>
    (\<forall>n \<in> set names. bget vals n \<noteq> None)"
proof -
  from assms obtain ps where ps: "template_pieces template = Some ps" and names: "names = add_new [] (holes ps)"
    unfolding format_placeholders_def by (blast dest: scan_gives_pieces)
  show ?thesis
    using render_pieces_some [of object_text vals mode ps]
    by (simp add: interpolate_template_def interpolate_loop_pieces ps names set_add_new)
qed

lemma placeholders_example: "format_placeholders ''ns {namespace}, {{raw}} {id}{id}'' = Inr [''namespace'', ''id'']"
  by code_simp

theorem interpolate_defined_iff_witness:
  "(interpolate_template (\<lambda>m. ''{}'') ''ns {namespace}, {{raw}} {id}{id}''
     [(''id'', JInt 7), (''namespace'', JStr ''demo'')] Plain \<noteq> None) \<and>
   interpolate_template (\<lambda>m. ''{}'') ''ns {namespace}, {{raw}} {id}{id}'' [(''id'', JInt 7)] Plain = None"
  using interpolate_defined_iff [OF placeholders_example,
      of "\<lambda>m. ''{}''" "[(''id'', JInt 7), (''namespace'', JStr ''demo'')]" Plain]
    interpolate_defined_iff [OF placeholders_example, of "\<lambda>m. ''{}''" "[(''id'', JInt 7)]" Plain]
  by (simp add: bget_def)


end
