(* ===== verification/Kebab.thy ===== *)
theory Kebab
  imports RustStr
begin

text \<open>
  \<open>to_kebab_case\<close> of \<open>ags-runtime/src/support/strings.rs\<close>, which mints every label and flag name from an API field
  name. The three regular expressions are written out as the left-to-right, non-overlapping
  replacements they denote. Names are ASCII (identifiers of the API catalogue), so \<open>to_lowercase\<close> is the ASCII
  one.
\<close>

text \<open>\<open>str::replace\<close> for a non-empty pattern.\<close>

function (sequential) str_replace :: "string \<Rightarrow> string \<Rightarrow> string \<Rightarrow> string" where
  "str_replace p r [] = []"
| "str_replace p r (c # s) =
     (if p \<noteq> [] \<and> prefix p (c # s) then r @ str_replace p r (drop (length p) (c # s))
      else c # str_replace p r s)"
  by pat_completeness auto
termination
  by (relation "measure (\<lambda>(_, _, s). length s)") (auto simp: neq_Nil_conv)

definition acronym_replacements :: "(string \<times> string) list" where
  "acronym_replacements =
     [(''IDs'', ''Ids''), (''URLs'', ''Urls''), (''APIs'', ''Apis''), (''QoS'', ''Qos''), (''S2S'', ''S2s'')]"

text \<open>\<open>([a-z]{3})(by|for|from|with)([A-Z])\<close>: the connector after three lower-case letters, if one matches.\<close>

definition connectors :: "string list" where
  "connectors = [''by'', ''for'', ''from'', ''with'']"

definition connector_at :: "string \<Rightarrow> string option" where
  "connector_at s =
     (if length s \<ge> 3 \<and> list_all is_lower (take 3 s) then
        find (\<lambda>w. prefix w (drop 3 s) \<and>
                  (case drop (3 + length w) s of [] \<Rightarrow> False | c # _ \<Rightarrow> is_upper c)) connectors
      else None)"

function (sequential) split_connectors :: "string \<Rightarrow> string" where
  "split_connectors [] = []"
| "split_connectors (c # s) =
     (case connector_at (c # s) of
        Some w \<Rightarrow>
          take 3 (c # s) @ ''-'' @ w @ ''-'' @ take 1 (drop (3 + length w) (c # s)) @
          split_connectors (drop (4 + length w) (c # s))
      | None \<Rightarrow> c # split_connectors s)"
  by pat_completeness auto
termination
  by (relation "measure length") auto

text \<open>\<open>([a-z0-9])([A-Z])\<close>\<close>

fun split_lower_upper :: "string \<Rightarrow> string" where
  "split_lower_upper (a # b # s) =
     (if (is_lower a \<or> is_digit a) \<and> is_upper b then a # CHR ''-'' # b # split_lower_upper s
      else a # split_lower_upper (b # s))"
| "split_lower_upper s = s"

text \<open>\<open>([A-Z]+)([A-Z][a-z])\<close>: a run of capitals followed by a lower-case letter is cut before its last
  capital.\<close>

lemma shorter_after_run: "length (tl (dropWhile P (c # s))) < Suc (length s)"
  using length_dropWhile_le [of P "c # s"] by (simp only: length_tl list.size)

function (sequential) split_acronyms :: "string \<Rightarrow> string" where
  "split_acronyms [] = []"
| "split_acronyms (c # s) =
     (let run = takeWhile is_upper (c # s); after = dropWhile is_upper (c # s)
      in if length run \<ge> 2 \<and> after \<noteq> [] \<and> is_lower (hd after)
         then butlast run @ ''-'' @ [last run, hd after] @ split_acronyms (tl after)
         else c # split_acronyms s)"
  by pat_completeness auto
termination
  by (relation "measure length") (simp_all only: in_measure shorter_after_run length_Cons lessI wf_measure)

definition to_kebab_case :: "string \<Rightarrow> string" where
  "to_kebab_case name =
     map to_lower (split_acronyms (split_lower_upper (split_connectors
       (fold (\<lambda>(p, r) s. str_replace p r s) acronym_replacements
         (map (\<lambda>c. if c = CHR ''_'' then CHR ''-'' else c) name)))))"

section \<open>Kebab case is a normal form\<close>

definition kebab_text :: "string \<Rightarrow> bool" where
  "kebab_text s \<longleftrightarrow> (\<forall>c \<in> set s. \<not> is_upper c \<and> c \<noteq> CHR ''_'')"

lemma to_lower_not_upper: "\<not> is_upper (to_lower c)"
proof (cases "is_upper c")
  case True
  define n where "n = (of_char c :: nat)"
  from True have "65 \<le> n" "n \<le> 90" by (simp_all add: is_upper_def n_def Let_def)
  then show ?thesis using True by (simp add: to_lower_def is_upper_def Let_def n_def [symmetric])
qed (simp add: to_lower_def)

lemma str_replace_upper_id:
  "\<forall>c \<in> set s. \<not> is_upper c \<Longrightarrow> \<exists>c \<in> set p. is_upper c \<Longrightarrow> str_replace p r s = s"
proof (induction s)
  case (Cons c s)
  have "\<not> prefix p (c # s)" using Cons.prems set_mono_prefix [of p "c # s"] by blast
  with Cons show ?case by simp
qed simp

lemma acronyms_id:
  assumes "\<forall>c \<in> set s. \<not> is_upper c"
  shows "fold (\<lambda>(p, r) s. str_replace p r s) acronym_replacements s = s"
proof -
  have id: "str_replace p r s = s" if "list_ex is_upper p" for p r
    using that assms by (intro str_replace_upper_id) (auto simp: list_ex_iff)
  have "list_ex is_upper ''IDs''" "list_ex is_upper ''URLs''" "list_ex is_upper ''APIs''"
    "list_ex is_upper ''QoS''" "list_ex is_upper ''S2S''"
    by (simp_all add: is_upper_def)
  then show ?thesis unfolding acronym_replacements_def by (simp only: fold.simps id_apply o_apply prod.case id)
qed

lemma connector_at_upper: "\<forall>c \<in> set s. \<not> is_upper c \<Longrightarrow> connector_at s = None"
proof -
  assume no: "\<forall>c \<in> set s. \<not> is_upper c"
  have "\<not> (case drop k s of [] \<Rightarrow> False | c # _ \<Rightarrow> is_upper c)" for k
  proof (cases "drop k s")
    case (Cons d ds)
    then have "d \<in> set s" by (metis in_set_dropD list.set_intros(1))
    with no Cons show ?thesis by simp
  qed simp
  then show "connector_at s = None" by (simp add: connector_at_def find_None_iff)
qed

lemma split_connectors_id: "\<forall>c \<in> set s. \<not> is_upper c \<Longrightarrow> split_connectors s = s"
proof (induction s)
  case (Cons c s)
  then have "connector_at (c # s) = None" by (intro connector_at_upper) simp
  with Cons show ?case by simp
qed simp

lemma split_lower_upper_id: "\<forall>c \<in> set s. \<not> is_upper c \<Longrightarrow> split_lower_upper s = s"
  by (induction s rule: split_lower_upper.induct) auto

lemma split_acronyms_id: "\<forall>c \<in> set s. \<not> is_upper c \<Longrightarrow> split_acronyms s = s"
  by (induction s) auto

lemma to_lower_id: "\<not> is_upper c \<Longrightarrow> to_lower c = c"
  by (simp add: to_lower_def)

lemma to_kebab_id: "kebab_text s \<Longrightarrow> to_kebab_case s = s"
proof -
  assume k: "kebab_text s"
  then have no: "\<forall>c \<in> set s. \<not> is_upper c" by (simp add: kebab_text_def)
  from k have "map (\<lambda>c. if c = CHR ''_'' then CHR ''-'' else c) s = s"
    by (intro map_idI) (auto simp: kebab_text_def)
  with no show ?thesis
    by (simp add: to_kebab_case_def acronyms_id split_connectors_id split_lower_upper_id
        split_acronyms_id to_lower_id map_idI)
qed

lemma split_connectors_set: "set (split_connectors s) \<subseteq> insert (CHR ''-'') (set s)"
proof (induction s rule: split_connectors.induct)
  case (2 c s)
  show ?case
  proof (cases "connector_at (c # s)")
    case None
    with 2 show ?thesis by auto
  next
    case (Some w)
    then have "prefix w (drop 3 (c # s))"
      by (auto simp: connector_at_def find_Some_iff split: if_splits)
    then have w: "set w \<subseteq> set (c # s)" by (meson order_trans set_drop_subset set_mono_prefix)
    have parts: "set (take 3 (c # s)) \<subseteq> set (c # s)" "set (take 1 (drop (3 + length w) (c # s))) \<subseteq> set (c # s)"
      "set (drop (4 + length w) (c # s)) \<subseteq> set (c # s)"
      by (meson order_trans set_drop_subset set_take_subset)+
    have "set (split_connectors (c # s)) =
      set (take 3 (c # s)) \<union> {CHR ''-''} \<union> set w \<union> set (take 1 (drop (3 + length w) (c # s))) \<union>
      set (split_connectors (drop (4 + length w) (c # s)))"
      using Some by (auto simp del: take_Suc_Cons drop_Suc_Cons)
    also have "\<dots> \<subseteq> insert (CHR ''-'') (set (c # s))"
      using "2.IH"(2) [OF Some] w parts by blast
    finally show ?thesis .
  qed
qed simp

lemma split_lower_upper_set: "set (split_lower_upper s) \<subseteq> insert (CHR ''-'') (set s)"
  by (induction s rule: split_lower_upper.induct) auto

lemma set_run_parts: "set (takeWhile P xs) \<subseteq> set xs" "set (dropWhile P xs) \<subseteq> set xs" "set (tl xs) \<subseteq> set xs"
  by (auto dest: set_takeWhileD set_dropWhileD list.set_sel(2) simp: list.set_sel(2)) (metis list.sel(2) list.set_sel(2))

lemma set_cut:
  "run \<noteq> [] \<Longrightarrow> after \<noteq> [] \<Longrightarrow>
   set (butlast run @ sep @ [last run, hd after] @ t) \<subseteq> set sep \<union> set run \<union> set after \<union> set t"
  by (auto dest: in_set_butlastD)

lemma split_acronyms_set: "set (split_acronyms s) \<subseteq> insert (CHR ''-'') (set s)"
proof (induction s rule: split_acronyms.induct)
  case (2 c s)
  let ?run = "takeWhile is_upper (c # s)" and ?after = "dropWhile is_upper (c # s)"
  show ?case
  proof (cases "length ?run \<ge> 2 \<and> ?after \<noteq> [] \<and> is_lower (hd ?after)")
    case True
    have "split_acronyms (c # s) = butlast ?run @ ''-'' @ [last ?run, hd ?after] @ split_acronyms (tl ?after)"
      using True by (subst split_acronyms.simps(2)) (simp only: Let_def if_True simp_thms)
    moreover have "set \<dots> \<subseteq> set ''-'' \<union> set ?run \<union> set ?after \<union> set (split_acronyms (tl ?after))"
      using True by (intro set_cut) (auto simp only: list.size not_numeral_le_zero)
    ultimately have "set (split_acronyms (c # s)) \<subseteq>
        set ''-'' \<union> set ?run \<union> set ?after \<union> set (split_acronyms (tl ?after))"
      by (simp only:)
    moreover note "2.IH"(1) [OF refl refl True] set_run_parts(1,2) [of is_upper "c # s"] set_run_parts(3) [of ?after]
    moreover have "set ''-'' = {CHR ''-''}" by simp
    ultimately show ?thesis by blast
  next
    case False
    then have "split_acronyms (c # s) = c # split_acronyms s"
      by (subst split_acronyms.simps(2)) (simp only: Let_def if_False)
    with "2.IH"(2) [OF refl refl False] show ?thesis by auto
  qed
qed simp

lemma str_replace_set: "set (str_replace p r s) \<subseteq> set r \<union> set s"
proof (induction p r s rule: str_replace.induct)
  case (2 p r c s)
  then show ?case using set_drop_subset [of "length p" "c # s"] by auto
qed simp

lemma to_kebab_text: "kebab_text (to_kebab_case name)"
proof -
  let ?n = "map (\<lambda>c. if c = CHR ''_'' then CHR ''-'' else c) name"
  let ?a = "fold (\<lambda>(p, r) s. str_replace p r s) acronym_replacements ?n"
  have n: "CHR ''_'' \<notin> set ?n" by auto
  have step: "CHR ''_'' \<notin> set (str_replace p r s)" if "CHR ''_'' \<notin> set r" "CHR ''_'' \<notin> set s" for p r s
    using that str_replace_set [of p r s] by auto
  have "CHR ''_'' \<notin> set ?a"
    unfolding acronym_replacements_def using n by (simp add: step)
  then have no: "CHR ''_'' \<notin> set (split_acronyms (split_lower_upper (split_connectors ?a)))"
    using split_acronyms_set [of "split_lower_upper (split_connectors ?a)"]
      split_lower_upper_set [of "split_connectors ?a"] split_connectors_set [of ?a] by auto
  have lower: "to_lower c \<noteq> CHR ''_''" if "c \<noteq> CHR ''_''" for c
  proof
    assume eq: "to_lower c = CHR ''_''"
    define m where "m = (of_char c :: nat)"
    show False
    proof (cases "is_upper c")
      case True
      then have "65 \<le> m" "m \<le> 90" by (simp_all add: is_upper_def m_def Let_def)
      moreover from eq True have "(of_char (char_of (m + 32) :: char) :: nat) = of_char CHR ''_''"
        by (simp add: to_lower_def m_def)
      ultimately show False by simp
    qed (use eq that in \<open>simp add: to_lower_def\<close>)
  qed
  show ?thesis
    unfolding kebab_text_def to_kebab_case_def
  proof (intro ballI conjI)
    fix c
    assume "c \<in> set (map to_lower (split_acronyms (split_lower_upper (split_connectors ?a))))"
    then obtain d where d: "d \<in> set (split_acronyms (split_lower_upper (split_connectors ?a)))" and c: "c = to_lower d"
      by (simp only: set_map) (elim imageE, simp only: simp_thms)
    from c show "\<not> is_upper c" by (simp only: to_lower_not_upper simp_thms)
    from d no have "d \<noteq> CHR ''_''" by metis
    with c lower show "c \<noteq> CHR ''_''" by (simp only: simp_thms)
  qed
qed

section \<open>Properties\<close>

text \<open>A kebab-case name has no capital and no underscore, and converting it again changes nothing, so
  labels and flags minted from an already converted name stay the same.\<close>

theorem to_kebab_normal_form:
  "kebab_text (to_kebab_case name) \<and> to_kebab_case (to_kebab_case name) = to_kebab_case name"
  using to_kebab_text to_kebab_id by blast

end
