(* ===== verification/Resolve.thy ===== *)
theory Resolve
  imports Context Template Kebab
begin

text \<open>
  \<open>ags-runtime/src/runtime/workflows/resolve.rs\<close> up to the assembled request, with the catalogue lookups of
  \<open>auto_derive.rs\<close> it uses: how each field of a step's request gets its value.
\<close>

section \<open>The outside world\<close>

text \<open>
  What the code calls outside the repository: the printing of a JSON value as compact text
  (\<open>serde_json\<close>), the file system as seen by a form upload (whether a path names a regular file, \<^term>\<open>None\<close>
  when it cannot be read, and its file name) and whether an environment variable is set.
\<close>

record externs =
  ex_json_text :: "json \<Rightarrow> string"
  ex_is_file :: "string \<Rightarrow> bool option"
  ex_file_name :: "string \<Rightarrow> string option"
  ex_env_set :: "string \<Rightarrow> bool"

definition ex_object_text :: "externs \<Rightarrow> json bmap \<Rightarrow> string" where
  "ex_object_text X m = ex_json_text X (JObj m)"

section \<open>Finding the operation\<close>

definition resource_operations :: "resource_schema \<Rightarrow> operation_schema list" where
  "resource_operations r = concat (map se_contracts (concat (map ms_scopes (rs_methods r))))"

definition find_operation :: "service_schema \<Rightarrow> string \<Rightarrow> operation_schema option" where
  "find_operation schema oid = find (\<lambda>op. op_id op = oid) (concat (map resource_operations (sv_resources schema)))"

definition find_operation_or_error :: "service_schema \<Rightarrow> operation_reference \<Rightarrow> string \<Rightarrow> operation_schema rt" where
  "find_operation_or_error schema op who =
     ok_or (internal_error (who @ '' references unknown operation '' @
              quoted (or_service op @ ''.'' @ or_operation op)))
       (find_operation schema (or_operation op))"

section \<open>Field names\<close>

definition is_nested_field :: "string \<Rightarrow> bool" where
  "is_nested_field f \<longleftrightarrow> CHR ''.'' \<in> set f \<or> CHR ''['' \<in> set f"

text \<open>\<open>field.split(['.', '[']).next()\<close>\<close>

definition field_root :: "string \<Rightarrow> string" where
  "field_root f = before_match name_end f"

definition bindings_by_field :: "step_input_binding list \<Rightarrow> binding_source bmap" where
  "bindings_by_field bs = fold (\<lambda>b m. binsert (sib_field b) (sib_source b) m) bs []"

section \<open>Resolving one binding\<close>

definition sat_i64 :: "int \<Rightarrow> int" where
  "sat_i64 i = max (- (2 ^ 63)) (min (2 ^ 63 - 1) i)"

definition operand_value :: "json bmap \<Rightarrow> arithmetic_operand \<Rightarrow> int" where
  "operand_value supplied operand =
     (case operand of
        OperandInteger n \<Rightarrow> n
      | OperandInput name \<Rightarrow>
          (case Option.bind (bget supplied name) as_i64 of None \<Rightarrow> 0 | Some n \<Rightarrow> n))"

definition apply_optional_transform :: "json \<Rightarrow> transform_kind option \<Rightarrow> json bmap \<Rightarrow> json" where
  "apply_optional_transform v transform supplied =
     (case transform of
        Some (TJsonPath path) \<Rightarrow>
          (case apply_jsonpath_subset v path of None \<Rightarrow> v | Some w \<Rightarrow> w)
      | Some (TArithmetic arith) \<Rightarrow>
          (case as_i64 v of
             None \<Rightarrow> v
           | Some lhs \<Rightarrow>
               let rhs = operand_value supplied (ar_operand arith)
               in JInt (case ar_op arith of Mul \<Rightarrow> sat_i64 (lhs * rhs) | Add \<Rightarrow> sat_i64 (lhs + rhs)))
      | None \<Rightarrow> v)"

text \<open>The arms of \<open>resolve_binding\<close> for a source that is not a mirror.\<close>

definition resolve_direct ::
  "externs \<Rightarrow> workflow_context \<Rightarrow> json bmap \<Rightarrow> binding_source \<Rightarrow> json option rt" where
  "resolve_direct X ctx supplied source =
     (case source of
        Literal lit \<Rightarrow> Inr (Some (lit_value lit))
      | Reference r \<Rightarrow>
          (case rb_from r of
             FromWorkflow input \<Rightarrow>
               (case bget supplied input of
                  None \<Rightarrow> Inr None
                | Some raw \<Rightarrow> Inr (Some (apply_optional_transform raw (rb_transform r) supplied)))
           | FromStep sid \<Rightarrow>
               (case rb_output r of
                  None \<Rightarrow> Inl (internal_error (''binding from step '' @ quoted sid @ '' is missing `output:`''))
                | Some name \<Rightarrow>
                    (case resolve_step_reference ctx sid name of
                       Some raw \<Rightarrow> Inr (Some (apply_optional_transform raw (rb_transform r) supplied))
                     | None \<Rightarrow>
                         Inl (internal_error (''step output '' @
                           quoted (''step/'' @ sid @ ''/'' @ name) @
                           '' was not produced and has no default'')))))
      | Format template \<Rightarrow>
          Inr (map_option JStr (interpolate_template (ex_object_text X) template supplied Plain))
      | Mirror target \<Rightarrow> Inl (internal_error (''mirror target '' @ quoted target @ '' is itself a mirror'')))"

definition resolve_binding ::
  "externs \<Rightarrow> workflow_context \<Rightarrow> json bmap \<Rightarrow> binding_source bmap \<Rightarrow> json bmap \<Rightarrow> binding_source \<Rightarrow>
   json option rt" where
  "resolve_binding X ctx supplied bindings step_local source =
     (case source of
        Mirror target \<Rightarrow>
          (case bget step_local target of
             Some edited \<Rightarrow> Inr (Some edited)
           | None \<Rightarrow>
               (case bget bindings target of
                  None \<Rightarrow> Inl (internal_error (''mirror target '' @ quoted target @ '' is not bound in this step''))
                | Some (Mirror _) \<Rightarrow> Inl (internal_error (''mirror target '' @ quoted target @ '' is itself a mirror''))
                | Some src \<Rightarrow> resolve_direct X ctx supplied src))
      | _ \<Rightarrow> resolve_direct X ctx supplied source)"

definition resolve_field_value ::
  "externs \<Rightarrow> string \<Rightarrow> binding_source bmap \<Rightarrow> workflow_context \<Rightarrow> json bmap \<Rightarrow> json bmap \<Rightarrow> string list \<Rightarrow>
   json option rt" where
  "resolve_field_value X field_name bindings ctx supplied step_local input_names =
     (case bget step_local field_name of
        Some v \<Rightarrow> Inr (Some v)
      | None \<Rightarrow>
          (case bget bindings field_name of
             Some source \<Rightarrow> resolve_binding X ctx supplied bindings step_local source
           | None \<Rightarrow>
               if field_name \<in> set input_names then
                 (case bget supplied field_name of Some v \<Rightarrow> Inr (Some v) | None \<Rightarrow> Inr None)
               else Inr None))"

section \<open>Merging nested bindings into the body\<close>

definition obj_of :: "json \<Rightarrow> json bmap" where
  "obj_of v = (case v of JObj m \<Rightarrow> m | _ \<Rightarrow> [])"

definition arr_of :: "json \<Rightarrow> json list" where
  "arr_of v = (case v of JArr xs \<Rightarrow> xs | _ \<Rightarrow> [])"

text \<open>Extend the array with nulls until index \<open>i\<close> exists.\<close>

definition pad_to :: "nat \<Rightarrow> json list \<Rightarrow> json list" where
  "pad_to i xs = xs @ replicate (Suc i - length xs) JNull"

fun merge_nested_binding :: "json \<Rightarrow> path_segment list \<Rightarrow> json \<Rightarrow> json" where
  "merge_nested_binding body [] v = body"
| "merge_nested_binding body (Key name # rest) v =
     (let m = obj_of body
      in if rest = [] then JObj (binsert name v m)
         else JObj (binsert name
                (merge_nested_binding (case bget m name of Some w \<Rightarrow> w | None \<Rightarrow> JObj []) rest v) m))"
| "merge_nested_binding body (Index i # rest) v =
     (let xs = pad_to i (arr_of body)
      in if rest = [] then JArr (xs[i := v])
         else JArr (xs[i := merge_nested_binding (xs ! i) rest v]))"

section \<open>Parameters, body and form\<close>

record request_build_ctx =
  bc_bindings :: "binding_source bmap"
  bc_input_names :: "string list"
  bc_nested_roots :: "string list"

definition request_build_ctx_of :: "'a step_definition_scheme \<Rightarrow> workflow_input_spec list \<Rightarrow> request_build_ctx" where
  "request_build_ctx_of step specs =
     \<lparr>bc_bindings = bindings_by_field (sd_inputs step),
      bc_input_names = map wi_name specs,
      bc_nested_roots = map (\<lambda>b. field_root (sib_field b))
        (filter (\<lambda>b. is_nested_field (sib_field b)) (sd_inputs step))\<rparr>"

record param_maps =
  pm_path :: "string bmap"
  pm_query :: "string bmap"
  pm_header :: "string bmap"

definition insert_param :: "parameter_location \<Rightarrow> string \<Rightarrow> string \<Rightarrow> param_maps \<Rightarrow> param_maps" where
  "insert_param loc name s pm =
     (case loc of
        PathParam \<Rightarrow> pm\<lparr>pm_path := binsert name s (pm_path pm)\<rparr>
      | QueryParam \<Rightarrow> pm\<lparr>pm_query := binsert name s (pm_query pm)\<rparr>
      | HeaderParam \<Rightarrow> pm\<lparr>pm_header := binsert name s (pm_header pm)\<rparr>
      | _ \<Rightarrow> pm)"

definition non_body_param_step ::
  "externs \<Rightarrow> string \<Rightarrow> request_build_ctx \<Rightarrow> workflow_context \<Rightarrow> json bmap \<Rightarrow> json bmap \<Rightarrow>
   param_maps \<Rightarrow> parameter_schema \<Rightarrow> param_maps rt" where
  "non_body_param_step X sid bc ctx supplied step_local pm param =
     (if p_location param = BodyParam \<or> p_location param = FormDataParam then Inr pm
      else and_then (resolve_field_value X (p_name param) (bc_bindings bc) ctx supplied step_local (bc_input_names bc))
        (\<lambda>resolved. case resolved of
           Some v \<Rightarrow> Inr (insert_param (p_location param) (p_name param)
                       (json_to_param_string (ex_object_text X) v) pm)
         | None \<Rightarrow>
             if p_required param then
               Inl (validation_error (''step '' @ quoted sid @ '' is missing required parameter '' @
                      quoted (p_name param)))
             else Inr pm))"

definition resolve_non_body_params ::
  "externs \<Rightarrow> operation_schema \<Rightarrow> string \<Rightarrow> request_build_ctx \<Rightarrow> workflow_context \<Rightarrow> json bmap \<Rightarrow> json bmap \<Rightarrow>
   param_maps rt" where
  "resolve_non_body_params X op sid bc ctx supplied step_local =
     fold_ok (non_body_param_step X sid bc ctx supplied step_local)
       \<lparr>pm_path = [], pm_query = [], pm_header = []\<rparr> (op_parameters op)"

definition empty_body_default_operation :: string where
  "empty_body_default_operation = ''csm/admin/apps/v2/list''"

text \<open>Pass 1 of \<open>assemble_body\<close>: the top-level fields of the schema.\<close>

definition body_field_step ::
  "externs \<Rightarrow> string \<Rightarrow> request_build_ctx \<Rightarrow> workflow_context \<Rightarrow> json bmap \<Rightarrow> json bmap \<Rightarrow>
   json bmap \<Rightarrow> body_field \<Rightarrow> json bmap rt" where
  "body_field_step X sid bc ctx supplied step_local obj f =
     and_then (resolve_field_value X (bf_name f) (bc_bindings bc) ctx supplied step_local (bc_input_names bc))
       (\<lambda>resolved. case resolved of
          Some v \<Rightarrow> Inr (binsert (bf_name f) v obj)
        | None \<Rightarrow>
            if bf_required f \<and> bf_name f \<notin> set (bc_nested_roots bc) then
              Inl (validation_error (''step '' @ quoted sid @ '' is missing required body field '' @
                     quoted (bf_name f)))
            else Inr obj)"

text \<open>Pass 2: the nested bindings, each overridden by a step-local edit of the same path.\<close>

definition nested_binding_step ::
  "externs \<Rightarrow> request_build_ctx \<Rightarrow> workflow_context \<Rightarrow> json bmap \<Rightarrow> json bmap \<Rightarrow>
   json \<Rightarrow> step_input_binding \<Rightarrow> json rt" where
  "nested_binding_step X bc ctx supplied step_local body b =
     (if \<not> is_nested_field (sib_field b) then Inr body
      else case field_path_parse (sib_field b) of
             Inl _ \<Rightarrow> Inr body
           | Inr path \<Rightarrow>
               if length path \<le> 1 then Inr body
               else and_then
                 (case bget step_local (sib_field b) of
                    Some v \<Rightarrow> Inr (Some v)
                  | None \<Rightarrow> resolve_binding X ctx supplied (bc_bindings bc) step_local (sib_source b))
                 (\<lambda>resolved. case resolved of
                    Some v \<Rightarrow> Inr (merge_nested_binding body path v)
                  | None \<Rightarrow> Inr body))"

definition finish_body :: "operation_schema \<Rightarrow> json \<Rightarrow> json option" where
  "finish_body op body =
     (let obj = obj_of body;
          is_array = (case op_request_body op of None \<Rightarrow> False | Some b \<Rightarrow> bs_is_array b)
      in if obj = [] then
           if op_request_body op \<noteq> None \<and> \<not> is_array \<and> op_id op = empty_body_default_operation
           then Some (JObj obj) else None
         else if is_array then Some (JArr [JObj obj])
         else Some (JObj obj))"

definition assemble_body ::
  "externs \<Rightarrow> operation_schema \<Rightarrow> 'a step_definition_scheme \<Rightarrow> workflow_context \<Rightarrow> json bmap \<Rightarrow> json bmap \<Rightarrow>
   request_build_ctx \<Rightarrow> run_options \<Rightarrow> json option rt" where
  "assemble_body X op step ctx supplied step_local bc opts =
     (case ro_explicit_body opts of
        Some explicit \<Rightarrow> Inr (Some explicit)
      | None \<Rightarrow>
          and_then
            (fold_ok (body_field_step X (sd_id step) bc ctx supplied step_local) []
               (case op_request_body op of None \<Rightarrow> [] | Some b \<Rightarrow> bs_fields b))
            (\<lambda>obj. and_then
               (fold_ok (nested_binding_step X bc ctx supplied step_local) (JObj obj) (sd_inputs step))
               (\<lambda>body. Inr (finish_body op body))))"

definition validate_and_build_file_part :: "externs \<Rightarrow> string \<Rightarrow> string \<Rightarrow> form_part rt" where
  "validate_and_build_file_part X field_name raw_path =
     (case ex_is_file X raw_path of
        None \<Rightarrow> Inl (validation_error (''form field '' @ quoted field_name @ '': file '' @ quoted raw_path @
                       '' does not exist or is not readable''))
      | Some False \<Rightarrow> Inl (validation_error (''form field '' @ quoted field_name @ '': '' @ quoted raw_path @
                       '' is not a regular file''))
      | Some True \<Rightarrow> Inr (FilePart field_name raw_path
                       (case ex_file_name X raw_path of Some n \<Rightarrow> n | None \<Rightarrow> ''upload'')))"

definition form_param_step ::
  "externs \<Rightarrow> string \<Rightarrow> request_build_ctx \<Rightarrow> workflow_context \<Rightarrow> json bmap \<Rightarrow> json bmap \<Rightarrow>
   form_part list \<Rightarrow> parameter_schema \<Rightarrow> form_part list rt" where
  "form_param_step X sid bc ctx supplied step_local parts param =
     (if p_location param \<noteq> FormDataParam then Inr parts
      else and_then (resolve_field_value X (p_name param) (bc_bindings bc) ctx supplied step_local (bc_input_names bc))
        (\<lambda>resolved. case resolved of
           None \<Rightarrow>
             if p_required param then
               Inl (validation_error (''step '' @ quoted sid @ '' is missing required form field '' @
                      quoted (p_name param)))
             else Inr parts
         | Some v \<Rightarrow>
             if p_is_file param then
               and_then (validate_and_build_file_part X (p_name param) (json_to_param_string (ex_object_text X) v))
                 (\<lambda>part. Inr (parts @ [part]))
             else Inr (parts @ [TextPart (p_name param) (json_to_param_string (ex_object_text X) v)])))"

definition resolve_form_data_params ::
  "externs \<Rightarrow> operation_schema \<Rightarrow> string \<Rightarrow> request_build_ctx \<Rightarrow> workflow_context \<Rightarrow> json bmap \<Rightarrow> json bmap \<Rightarrow>
   form_part list option rt" where
  "resolve_form_data_params X op sid bc ctx supplied step_local =
     and_then (fold_ok (form_param_step X sid bc ctx supplied step_local) [] (op_parameters op))
       (\<lambda>parts. Inr (if parts = [] then None else Some parts))"

definition assemble_command_request ::
  "externs \<Rightarrow> 'a step_definition_scheme \<Rightarrow> workflow_context \<Rightarrow> json bmap \<Rightarrow> json bmap \<Rightarrow> workflow_input_spec list \<Rightarrow>
   service_schema \<Rightarrow> string option \<Rightarrow> run_options \<Rightarrow> command_request rt" where
  "assemble_command_request X step ctx supplied step_local specs schema ns opts =
     and_then (ok_or (internal_error (''step '' @ quoted (sd_id step) @
                '': API step reached assemble_command_request without an operation'')) (sd_operation step))
     (\<lambda>op_ref. and_then (find_operation_or_error schema op_ref (''step '' @ quoted (sd_id step)))
     (\<lambda>op. let bc = request_build_ctx_of step specs in
       and_then (resolve_non_body_params X op (sd_id step) bc ctx supplied step_local)
     (\<lambda>pm. and_then (resolve_form_data_params X op (sd_id step) bc ctx supplied step_local)
     (\<lambda>form. and_then
        (case form of
           Some parts \<Rightarrow> Inr (Some (Multipart parts))
         | None \<Rightarrow> and_then (assemble_body X op step ctx supplied step_local bc opts)
                     (\<lambda>body. Inr (map_option JsonBody body)))
     (\<lambda>body. Inr
        \<lparr>rq_service = or_service op_ref, rq_operation_id = or_operation op_ref, rq_namespace = ns,
         rq_path_params = pm_path pm, rq_query_params = pm_query pm, rq_header_params = pm_header pm,
         rq_form_params = [], rq_body = body, rq_output_format = ro_output_format opts,
         rq_pagination = ro_pagination opts, rq_verbosity = ro_verbosity opts,
         rq_output = ro_output opts\<rparr>)))))"

end
