(* ===== verification/AutoDerive.thy ===== *)
theory AutoDerive
  imports Resolve
begin

text \<open>
  \<open>ags-runtime/src/runtime/workflows/auto_derive.rs\<close>: JSON schemas of parameters and body fields, and the
  fields a step needs beyond its bindings.
\<close>

section \<open>Schemas\<close>

definition typed :: "string \<Rightarrow> json" where
  "typed t = json_obj [(''type'', JStr t)]"

definition enum_schema :: "string list \<Rightarrow> json" where
  "enum_schema vs = json_obj [(''type'', JStr ''string''), (''enum'', JArr (map JStr vs))]"

definition array_schema :: "json \<Rightarrow> json" where
  "array_schema items = json_obj [(''type'', JStr ''array''), (''items'', items)]"

fun value_type_schema :: "value_type \<Rightarrow> json" where
  "value_type_schema VString = typed ''string''"
| "value_type_schema VInteger = typed ''integer''"
| "value_type_schema VNumber = typed ''number''"
| "value_type_schema VBoolean = typed ''boolean''"
| "value_type_schema (VArray inner) = array_schema (value_type_schema inner)"
| "value_type_schema (VEnum vs) = enum_schema vs"

definition parameter_schema :: "parameter_schema \<Rightarrow> json" where
  "parameter_schema param =
     (case p_value_type param of
        VString \<Rightarrow> typed ''string''
      | VInteger \<Rightarrow> typed ''integer''
      | VNumber \<Rightarrow> typed ''number''
      | VBoolean \<Rightarrow> typed ''boolean''
      | VArray inner \<Rightarrow> array_schema (value_type_schema inner)
      | VEnum vs \<Rightarrow> enum_schema vs)"

fun body_field_type_schema :: "body_field_type \<Rightarrow> json" where
  "body_field_type_schema BString = typed ''string''"
| "body_field_type_schema BInteger = typed ''integer''"
| "body_field_type_schema BNumber = typed ''number''"
| "body_field_type_schema BBoolean = typed ''boolean''"
| "body_field_type_schema (BEnum vs) = enum_schema vs"
| "body_field_type_schema (BArray inner) = array_schema (body_field_type_schema inner)"
| "body_field_type_schema BObject = typed ''object''"
| "body_field_type_schema (BReference name) = json_obj [(''type'', JStr ''object''), (''$ref'', JStr name)]"

text \<open>The description of a child is inserted into its schema when the schema is an object.\<close>

definition with_description :: "string option \<Rightarrow> json \<Rightarrow> json" where
  "with_description d v =
     (case v of
        JObj m \<Rightarrow> (case d of None \<Rightarrow> v | Some t \<Rightarrow> JObj (binsert ''description'' (JStr t) m))
      | _ \<Rightarrow> v)"

text \<open>\<open>object_schema\<close>, given the schemas of the children.\<close>

definition object_of :: "body_field list \<Rightarrow> json list \<Rightarrow> json" where
  "object_of children schemas =
     (if children = [] then typed ''object''
      else
        let props = fold (\<lambda>(c, s) m. binsert (bf_name c) (with_description (bf_description c) s) m)
                      (zip children schemas) [];
            required = map bf_name (filter bf_required children);
            base = json_obj [(''type'', JStr ''object''), (''properties'', JObj props)]
        in if required = [] then base
           else JObj (binsert ''required'' (JArr (map JStr required)) (obj_of base)))"

fun body_field_schema :: "body_field \<Rightarrow> json" where
  "body_field_schema (BodyField n t r d children df) =
     (case t of
        BString \<Rightarrow> typed ''string''
      | BInteger \<Rightarrow> typed ''integer''
      | BNumber \<Rightarrow> typed ''number''
      | BBoolean \<Rightarrow> typed ''boolean''
      | BEnum vs \<Rightarrow> enum_schema vs
      | BObject \<Rightarrow> object_of children (map body_field_schema children)
      | BReference _ \<Rightarrow> object_of children (map body_field_schema children)
      | BArray inner \<Rightarrow>
          array_schema
            (if children = [] then body_field_type_schema inner
             else object_of children (map body_field_schema children)))"

definition object_schema :: "body_field list \<Rightarrow> json" where
  "object_schema children = object_of children (map body_field_schema children)"

definition operation_field_schema :: "operation_schema \<Rightarrow> string \<Rightarrow> json option" where
  "operation_field_schema op name =
     (case find (\<lambda>p. p_name p = name \<and> p_location p \<noteq> BodyParam) (op_parameters op) of
        Some param \<Rightarrow> Some (parameter_schema param)
      | None \<Rightarrow>
          (case op_request_body op of
             None \<Rightarrow> None
           | Some body \<Rightarrow> map_option body_field_schema (find_field (bs_fields body) name)))"

section \<open>Derived fields\<close>

definition bound_fields :: "step_input_binding list \<Rightarrow> string list" where
  "bound_fields bs = concat (map (\<lambda>b.
     sib_field b # (if field_root (sib_field b) \<noteq> sib_field b then [field_root (sib_field b)] else [])) bs)"

definition derive_scope :: "string list \<Rightarrow> string \<Rightarrow> auto_derive_scope" where
  "derive_scope input_names name =
     (if name \<in> set input_names then ScopeWorkflow name else ScopeStepLocal name)"

definition location_of_parameter :: "parameter_location \<Rightarrow> step_field_location" where
  "location_of_parameter l =
     (case l of
        PathParam \<Rightarrow> LocPath
      | QueryParam \<Rightarrow> LocQuery
      | HeaderParam \<Rightarrow> LocHeader
      | FormDataParam \<Rightarrow> LocFormData
      | BodyParam \<Rightarrow> LocBody)"

definition derived_parameter :: "string list \<Rightarrow> parameter_schema \<Rightarrow> auto_derived_field" where
  "derived_parameter input_names p =
     \<lparr>adf_field = p_name p, adf_schema = parameter_schema p, adf_required = True, adf_sensitive = False,
      adf_description = p_description p, adf_scope = derive_scope input_names (p_name p),
      adf_location = location_of_parameter (p_location p)\<rparr>"

definition derived_body_field :: "string list \<Rightarrow> body_field \<Rightarrow> auto_derived_field" where
  "derived_body_field input_names f =
     \<lparr>adf_field = bf_name f, adf_schema = body_field_schema f, adf_required = True, adf_sensitive = False,
      adf_description = bf_description f, adf_scope = derive_scope input_names (bf_name f),
      adf_location = LocBody\<rparr>"

definition derived_fields :: "operation_schema \<Rightarrow> step_input_binding list \<Rightarrow> string list \<Rightarrow> auto_derived_field list" where
  "derived_fields op bs input_names =
     map (derived_parameter input_names)
       (filter (\<lambda>p. p_name p \<notin> set (bound_fields bs)) (required_parameters op)) @
     map (derived_body_field input_names)
       (filter (\<lambda>f. bf_name f \<notin> set (bound_fields bs)) (required_body_fields op))"

definition auto_derive_step ::
  "'a step_definition_scheme \<Rightarrow> service_schema \<Rightarrow> workflow_input_spec list \<Rightarrow> auto_derived_field list rt" where
  "auto_derive_step step schema inputs =
     and_then (ok_or (internal_error (''step '' @ quoted (sd_id step) @
                '': API step reached auto_derive_step without an operation'')) (sd_operation step))
     (\<lambda>op_ref. and_then (find_operation_or_error schema op_ref (''step '' @ quoted (sd_id step)))
     (\<lambda>op. Inr (derived_fields op (sd_inputs step) (map wi_name inputs))))"

section \<open>Laws\<close>

lemma bound_fields_set: "set (bound_fields bs) = sib_field ` set bs \<union> (field_root \<circ> sib_field) ` set bs"
  by (induction bs) (auto simp: bound_fields_def)

lemma bget_fold_binsert:
  "bget (fold (\<lambda>(k, v) m. binsert k v m) ps m) k = (case map_of (rev ps) k of None \<Rightarrow> bget m k | Some v \<Rightarrow> Some v)"
  by (induction ps arbitrary: m) (auto simp: bget_binsert map_add_def split: option.splits)

lemma bget_json_obj: "bget (obj_of (json_obj ps)) k = map_of (rev ps) k"
  by (simp add: json_obj_def obj_of_def bget_fold_binsert split: option.split)

lemma json_obj_key: "json_key (json_obj ps) k = map_of (rev ps) k"
  by (simp add: json_obj_def bget_fold_binsert split: option.split)

text \<open>Every schema is an object with a \<open>type\<close> of text.\<close>

definition has_type :: "json \<Rightarrow> bool" where
  "has_type v \<longleftrightarrow> (\<exists>t. json_key v ''type'' = Some (JStr t))"

lemma has_type_simps [simp]:
  "has_type (typed t)" "has_type (enum_schema vs)" "has_type (array_schema i)"
  by (simp_all add: has_type_def typed_def enum_schema_def array_schema_def json_obj_key)

lemma has_type_object: "has_type (object_of children schemas)"
  by (auto simp: object_of_def Let_def has_type_def typed_def json_obj_key bget_binsert bget_json_obj)

lemma has_type_body_field_type: "has_type (body_field_type_schema t)"
  by (cases t rule: body_field_type_schema.cases) (simp_all add: has_type_def [of "json_obj _"] json_obj_key)

lemma has_type_body_field: "has_type (body_field_schema f)"
  by (cases f rule: body_field_schema.cases)
    (simp add: has_type_object split: body_field_type.split)

lemma has_type_parameter: "has_type (parameter_schema p)"
  by (simp add: parameter_schema_def split: value_type.split)

end
