(* ===== verification/StepFields.thy ===== *)
theory StepFields
  imports AutoDerive
begin

text \<open>
  The interactive half of \<open>ags-runtime/src/runtime/workflows/resolve.rs\<close>: which inputs a step still needs
  (\<open>compute_needed_inputs\<close>), the value of a field together with its provenance (\<open>resolve_field_with_source\<close>), the
  review plan of a step (\<open>resolve_step_fields\<close>) and the inputs of a local step
  (\<open>resolve_local_step_bindings\<close>).
\<close>

section \<open>Inputs to gather\<close>

text \<open>\<open>visit_binding_workflow_inputs\<close> of \<open>compile.rs\<close>: the names in the order they are visited.\<close>

definition transform_inputs :: "transform_kind option \<Rightarrow> string list" where
  "transform_inputs t =
     (case t of
        Some (TArithmetic arith) \<Rightarrow> (case ar_operand arith of OperandInput name \<Rightarrow> [name] | OperandInteger _ \<Rightarrow> [])
      | _ \<Rightarrow> [])"

definition source_inputs :: "binding_source \<Rightarrow> string list" where
  "source_inputs source =
     (case source of
        Reference r \<Rightarrow>
          (case rb_from r of FromWorkflow input \<Rightarrow> [input] | FromStep _ \<Rightarrow> []) @ transform_inputs (rb_transform r)
      | Format template \<Rightarrow> placeholders_or_empty template
      | Literal _ \<Rightarrow> []
      | Mirror _ \<Rightarrow> [])"

definition visit_binding_workflow_inputs :: "'a step_definition_scheme \<Rightarrow> string list" where
  "visit_binding_workflow_inputs step = concat (map (\<lambda>b. source_inputs (sib_source b)) (sd_inputs step))"

definition workflow_input_needed_of ::
  "workflow_input_spec list \<Rightarrow> nat \<Rightarrow> string \<Rightarrow> workflow_input_needed" where
  "workflow_input_needed_of specs n name =
     (let spec = find (\<lambda>s. wi_name s = name) (rev specs)
      in \<lparr>wn_id = n mod 2 ^ 32,
          wn_label = to_kebab_case name,
          wn_description = Option.bind spec wi_description,
          wn_schema = (case Option.bind spec wi_schema of Some s \<Rightarrow> s | None \<Rightarrow> typed ''string''),
          wn_default = Option.bind spec wi_default,
          wn_required = (case spec of Some s \<Rightarrow> wi_required s | None \<Rightarrow> True),
          wn_sensitive = (case spec of Some s \<Rightarrow> wi_sensitive s | None \<Rightarrow> False),
          wn_scope = ScopeWorkflow name,
          wn_location = (case spec of Some s \<Rightarrow> wi_location s | None \<Rightarrow> LocBody)\<rparr>)"

type_synonym needed_state = "workflow_input_needed list \<times> string list"

definition push_workflow_input ::
  "json bmap \<Rightarrow> workflow_input_spec list \<Rightarrow> string \<Rightarrow> needed_state \<Rightarrow> needed_state" where
  "push_workflow_input supplied specs name st =
     (case st of (needed, seen) \<Rightarrow>
        if bget supplied name \<noteq> None then (needed, seen)
        else if name \<in> set seen then (needed, seen)
        else (needed @ [workflow_input_needed_of specs (length needed) name], seen @ [name]))"

definition push_derived ::
  "string \<Rightarrow> json bmap \<Rightarrow> workflow_input_spec list \<Rightarrow> auto_derived_field \<Rightarrow> needed_state \<Rightarrow> needed_state" where
  "push_derived sid supplied specs f st =
     (case adf_scope f of
        ScopeWorkflow name \<Rightarrow> push_workflow_input supplied specs name st
      | ScopeStepLocal field_name \<Rightarrow>
          (case st of (needed, seen) \<Rightarrow>
             (needed @
              [\<lparr>wn_id = length needed mod 2 ^ 32,
                wn_label = sid @ ''.'' @ to_kebab_case field_name,
                wn_description = adf_description f, wn_schema = adf_schema f, wn_default = None,
                wn_required = adf_required f, wn_sensitive = adf_sensitive f,
                wn_scope = ScopeStepLocal field_name, wn_location = adf_location f\<rparr>], seen)))"

definition compute_needed_inputs ::
  "compiled_step \<Rightarrow> json bmap \<Rightarrow> workflow_input_spec list \<Rightarrow> workflow_input_needed list" where
  "compute_needed_inputs step supplied specs =
     fst (fold (push_derived (sd_id step) supplied specs) (cs_auto_derived step)
           (fold (push_workflow_input supplied specs) (visit_binding_workflow_inputs step) ([], [])))"

section \<open>Values with provenance\<close>

datatype step_field_source =
    SrcWorkflowInput string
  | SrcDefault string
  | SrcPriorOutput
  | SrcLiteral
  | SrcUnset
  | SrcDerived "string list"

type_synonym field_resolution = "json option \<times> step_field_source \<times> string option"

definition push_unique :: "string \<Rightarrow> string list \<Rightarrow> string list" where
  "push_unique name sources = (if name \<in> set sources then sources else sources @ [name])"

text \<open>The result says whether the binding is a pure literal.\<close>

definition collect_binding_sources :: "binding_source \<Rightarrow> string list \<Rightarrow> string list \<times> bool" where
  "collect_binding_sources source sources =
     (case source of
        Literal _ \<Rightarrow> (sources, True)
      | Reference r \<Rightarrow>
          (case rb_from r of
             FromWorkflow input \<Rightarrow>
               (fold push_unique (transform_inputs (rb_transform r)) (push_unique input sources), False)
           | FromStep _ \<Rightarrow> (sources, False))
      | Format template \<Rightarrow> (fold push_unique (placeholders_or_empty template) sources, False)
      | Mirror _ \<Rightarrow> (sources, False))"

definition classify_binding_source :: "binding_source \<Rightarrow> transform_kind option \<Rightarrow> step_field_source" where
  "classify_binding_source source transform =
     (case source of
        Format template \<Rightarrow> SrcDerived (placeholders_or_empty template)
      | Reference r \<Rightarrow>
          (case rb_from r of
             FromWorkflow input \<Rightarrow>
               (case transform of
                  Some (TArithmetic arith) \<Rightarrow>
                    SrcDerived (input # (case ar_operand arith of OperandInput name \<Rightarrow> [name] | OperandInteger _ \<Rightarrow> []))
                | _ \<Rightarrow> SrcWorkflowInput input)
           | FromStep _ \<Rightarrow> SrcPriorOutput)
      | Literal _ \<Rightarrow> SrcLiteral
      | Mirror _ \<Rightarrow> SrcLiteral)"

record synth_state =
  sy_value :: json
  sy_sources :: "string list"
  sy_has_nested :: bool
  sy_all_literal :: bool

definition synthesize_step ::
  "externs \<Rightarrow> string \<Rightarrow> workflow_context \<Rightarrow> json bmap \<Rightarrow> binding_source bmap \<Rightarrow> json bmap \<Rightarrow>
   synth_state \<Rightarrow> step_input_binding \<Rightarrow> synth_state rt" where
  "synthesize_step X field_name ctx supplied bindings step_local st b =
     (case field_path_parse (sib_field b) of
        Inl _ \<Rightarrow> Inr st
      | Inr path \<Rightarrow>
          if length path \<le> 1 \<or> hd path \<noteq> Key field_name then Inr st
          else and_then (resolve_binding X ctx supplied bindings step_local (sib_source b))
            (\<lambda>resolved.
               case collect_binding_sources (sib_source b) (sy_sources st) of (sources, literal) \<Rightarrow>
                 Inr \<lparr>sy_value = (case resolved of
                                  Some v \<Rightarrow> merge_nested_binding (sy_value st) (tl path) v
                                | None \<Rightarrow> sy_value st),
                      sy_sources = sources, sy_has_nested = True,
                      sy_all_literal = (sy_all_literal st \<and> literal)\<rparr>))"

definition synthesize_nested_field ::
  "externs \<Rightarrow> string \<Rightarrow> step_input_binding list \<Rightarrow> workflow_context \<Rightarrow> json bmap \<Rightarrow> binding_source bmap \<Rightarrow>
   json bmap \<Rightarrow> field_resolution option rt" where
  "synthesize_nested_field X field_name step_bindings ctx supplied bindings step_local =
     and_then (fold_ok (synthesize_step X field_name ctx supplied bindings step_local)
                \<lparr>sy_value = JNull, sy_sources = [], sy_has_nested = False, sy_all_literal = True\<rparr> step_bindings)
       (\<lambda>st. Inr
          (if \<not> sy_has_nested st then None
           else Some
             (if sy_value st = JNull then None else Some (sy_value st),
              if sy_all_literal st \<or> sy_sources st = [] then SrcLiteral else SrcDerived (sy_sources st),
              None)))"

definition source_of_input :: "string list \<Rightarrow> string \<Rightarrow> step_field_source" where
  "source_of_input default_names name =
     (if name \<in> set default_names then SrcDefault name else SrcWorkflowInput name)"

text \<open>The provenance of a field that has a binding of its own.\<close>

definition binding_resolution :: "string list \<Rightarrow> binding_source \<Rightarrow> json option \<Rightarrow> field_resolution" where
  "binding_resolution default_names source v =
     (case source of
        Mirror _ \<Rightarrow> (v, SrcLiteral, None)
      | Literal _ \<Rightarrow> (v, SrcLiteral, None)
      | Reference r \<Rightarrow>
          (case rb_from r of
             FromWorkflow _ \<Rightarrow>
               let src = (if v \<noteq> None \<or> rb_transform r \<noteq> None then
                            (case classify_binding_source source (rb_transform r) of
                               SrcWorkflowInput name \<Rightarrow> source_of_input default_names name
                             | other \<Rightarrow> other)
                          else SrcUnset)
               in (v, src, (case src of
                              SrcWorkflowInput name \<Rightarrow> Some name
                            | SrcDefault name \<Rightarrow> Some name
                            | _ \<Rightarrow> None))
           | FromStep _ \<Rightarrow> (v, SrcPriorOutput, None))
      | Format _ \<Rightarrow> (v, classify_binding_source source None, None))"

definition resolve_field_with_source ::
  "externs \<Rightarrow> string \<Rightarrow> binding_source bmap \<Rightarrow> step_input_binding list \<Rightarrow> workflow_context \<Rightarrow> json bmap \<Rightarrow>
   json bmap \<Rightarrow> string list \<Rightarrow> string list \<Rightarrow> field_resolution rt" where
  "resolve_field_with_source X field_name bindings step_bindings ctx supplied step_local input_names default_names =
     (case bget step_local field_name of
        Some v \<Rightarrow> Inr (Some v, SrcLiteral, None)
      | None \<Rightarrow>
          (case bget bindings field_name of
             Some source \<Rightarrow>
               and_then (resolve_binding X ctx supplied bindings step_local source)
                 (\<lambda>v. Inr (binding_resolution default_names source v))
           | None \<Rightarrow>
               if field_name \<in> set input_names then
                 (case bget supplied field_name of
                    Some v \<Rightarrow> Inr (Some v, source_of_input default_names field_name, Some field_name)
                  | None \<Rightarrow> Inr (None, SrcUnset, Some field_name))
               else and_then (synthesize_nested_field X field_name step_bindings ctx supplied bindings step_local)
                 (\<lambda>r. Inr (case r of Some res \<Rightarrow> res | None \<Rightarrow> (None, SrcUnset, None)))))"

section \<open>The review plan of a step\<close>

record step_field =
  sf_id :: nat
  sf_field :: string
  sf_label :: string
  sf_description :: "string option"
  sf_location :: step_field_location
  sf_schema :: json
  sf_value :: json
  sf_source :: step_field_source
  sf_required :: bool
  sf_workflow_input :: "string option"
  sf_body_overflow :: bool
  sf_show_in_review :: bool

record step_field_plan =
  sp_step_index :: nat
  sp_step_label :: string
  sp_step_description :: "string option"
  sp_fields :: "step_field list"
  sp_optional :: bool

text \<open>\<open>split_once('.')\<close>, else \<open>split_once('[')\<close>, else the whole field.\<close>

definition review_root :: "string \<Rightarrow> string" where
  "review_root f =
     (if CHR ''.'' \<in> set f then before_match (\<lambda>c. c = CHR ''.'') f
      else if CHR ''['' \<in> set f then before_match (\<lambda>c. c = CHR ''['') f
      else f)"

definition review_root_step :: "step_input_binding \<Rightarrow> bool bmap \<times> string list \<Rightarrow> bool bmap \<times> string list" where
  "review_root_step b st =
     (case st of (shown, roots) \<Rightarrow>
        let root = review_root (sib_field b);
            entry = (case bget shown root of Some s \<Rightarrow> s | None \<Rightarrow> False)
        in (binsert root (if is_nested_field (sib_field b) then entry else entry \<or> sib_show_in_review b) shown,
            roots @ [root]))"

definition build_review_roots :: "step_input_binding list \<Rightarrow> bool bmap \<times> string list" where
  "build_review_roots bs = fold review_root_step bs ([], [])"

definition full_bindings_by_field :: "step_input_binding list \<Rightarrow> step_input_binding bmap" where
  "full_bindings_by_field bs =
     fold (\<lambda>b m. binsert (sib_field b) b m) (filter (\<lambda>b. \<not> is_nested_field (sib_field b)) bs) []"

definition is_arithmetic :: "transform_kind option \<Rightarrow> bool" where
  "is_arithmetic t = (case t of Some (TArithmetic _) \<Rightarrow> True | _ \<Rightarrow> False)"

definition find_workflow_input_description ::
  "string \<Rightarrow> step_input_binding bmap \<Rightarrow> workflow_input_spec list \<Rightarrow> string option" where
  "find_workflow_input_description field_name full specs =
     (case bget full field_name of
        None \<Rightarrow> None
      | Some b \<Rightarrow>
          (case sib_source b of
             Reference r \<Rightarrow>
               (case rb_from r of
                  FromWorkflow input \<Rightarrow>
                    if is_arithmetic (rb_transform r) then None
                    else Option.bind (find (\<lambda>s. wi_name s = input) specs) wi_description
                | FromStep _ \<Rightarrow> None)
           | _ \<Rightarrow> None))"

definition or_else :: "'a option \<Rightarrow> 'a option \<Rightarrow> 'a option" where
  "or_else x y = (case x of Some v \<Rightarrow> Some v | None \<Rightarrow> y)"

record plan_ctx =
  pc_bindings :: "binding_source bmap"
  pc_full :: "step_input_binding bmap"
  pc_shown :: "bool bmap"
  pc_roots :: "string list"
  pc_input_names :: "string list"
  pc_default_names :: "string list"
  pc_specs :: "workflow_input_spec list"
  pc_step_bindings :: "step_input_binding list"

record plan_state =
  ps_fields :: "step_field list"
  ps_seen :: "string list"
  ps_next_id :: nat

text \<open>The \<open>push\<close> closure: one field per name.\<close>

definition push_field ::
  "externs \<Rightarrow> plan_ctx \<Rightarrow> workflow_context \<Rightarrow> json bmap \<Rightarrow> json bmap \<Rightarrow> string \<Rightarrow> string option \<Rightarrow>
   step_field_location \<Rightarrow> json \<Rightarrow> bool \<Rightarrow> bool \<Rightarrow> plan_state \<Rightarrow> plan_state rt" where
  "push_field X pc ctx supplied step_local name description location schema required shown st =
     (if name \<in> set (ps_seen st) then Inr st
      else and_then
        (resolve_field_with_source X name (pc_bindings pc) (pc_step_bindings pc) ctx supplied step_local
           (pc_input_names pc) (pc_default_names pc))
        (\<lambda>(v, src, wf_input). Inr
           \<lparr>ps_fields = ps_fields st @
              [\<lparr>sf_id = ps_next_id st, sf_field = name, sf_label = to_kebab_case name,
                sf_description = description, sf_location = location, sf_schema = schema,
                sf_value = (case v of Some w \<Rightarrow> w | None \<Rightarrow> JNull), sf_source = src,
                sf_required = required, sf_workflow_input = wf_input, sf_body_overflow = False,
                sf_show_in_review = shown\<rparr>],
            ps_seen = ps_seen st @ [name], ps_next_id = ps_next_id st + 1\<rparr>))"

definition shown_in_review :: "plan_ctx \<Rightarrow> string \<Rightarrow> bool" where
  "shown_in_review pc name = (case bget (pc_shown pc) name of Some s \<Rightarrow> s | None \<Rightarrow> False)"

definition push_parameter ::
  "externs \<Rightarrow> plan_ctx \<Rightarrow> workflow_context \<Rightarrow> json bmap \<Rightarrow> json bmap \<Rightarrow>
   plan_state \<Rightarrow> parameter_schema \<Rightarrow> plan_state rt" where
  "push_parameter X pc ctx supplied step_local st param =
     (if p_location param = BodyParam then Inr st
      else push_field X pc ctx supplied step_local (p_name param)
        (if p_is_file param then Some ''Path to local file to upload''
         else or_else (find_workflow_input_description (p_name param) (pc_full pc) (pc_specs pc))
                (p_description param))
        (location_of_parameter (p_location param)) (parameter_schema param) (p_required param)
        (shown_in_review pc (p_name param)) st)"

definition shown_individually :: "plan_ctx \<Rightarrow> body_field \<Rightarrow> bool" where
  "shown_individually pc f \<longleftrightarrow>
     bget (pc_bindings pc) (bf_name f) \<noteq> None \<or> bf_name f \<in> set (pc_roots pc) \<or>
     bf_name f \<in> set (pc_input_names pc) \<or> bf_required f"

text \<open>A body field is pushed, or joins the names and properties of the overflow field.\<close>

definition push_body_field ::
  "externs \<Rightarrow> plan_ctx \<Rightarrow> workflow_context \<Rightarrow> json bmap \<Rightarrow> json bmap \<Rightarrow>
   plan_state \<times> string list \<times> json bmap \<Rightarrow> body_field \<Rightarrow> (plan_state \<times> string list \<times> json bmap) rt" where
  "push_body_field X pc ctx supplied step_local acc f =
     (case acc of (st, names, props) \<Rightarrow>
        if shown_individually pc f then
          and_then
            (push_field X pc ctx supplied step_local (bf_name f)
               (or_else (find_workflow_input_description (bf_name f) (pc_full pc) (pc_specs pc))
                  (bf_description f))
               LocBody (body_field_schema f) (bf_required f) (shown_in_review pc (bf_name f)) st)
            (\<lambda>st'. Inr (st', names, props))
        else if bf_name f \<notin> set (ps_seen st) then
          Inr (st, names @ [bf_name f], binsert (bf_name f) (body_field_schema f) props)
        else Inr acc)"

definition overflow_field :: "nat \<Rightarrow> string list \<Rightarrow> json bmap \<Rightarrow> step_field" where
  "overflow_field n names props =
     \<lparr>sf_id = n, sf_field = [], sf_label = ''Additional Parameters'',
      sf_description = Some (''Optional body fields you can add: '' @ join_with '', '' names),
      sf_location = LocBody,
      sf_schema = json_obj [(''type'', JStr ''object''), (''properties'', JObj props)],
      sf_value = JObj [], sf_source = SrcUnset, sf_required = False, sf_workflow_input = None,
      sf_body_overflow = True, sf_show_in_review = False\<rparr>"

definition add_overflow :: "plan_state \<times> string list \<times> json bmap \<Rightarrow> plan_state" where
  "add_overflow acc =
     (case acc of (st, names, props) \<Rightarrow>
        if props = [] then st
        else st\<lparr>ps_fields := ps_fields st @ [overflow_field (ps_next_id st) names props],
                ps_next_id := ps_next_id st + 1\<rparr>)"

fun last_key :: "path_segment list \<Rightarrow> string option" where
  "last_key [] = None"
| "last_key (Key k # p) = or_else (last_key p) (Some k)"
| "last_key (Index _ # p) = last_key p"

definition literal_schema :: "json \<Rightarrow> json" where
  "literal_schema v =
     (case v of
        JBool _ \<Rightarrow> typed ''boolean''
      | JInt i \<Rightarrow> if i64_range i then typed ''integer'' else typed ''number''
      | JFloat _ \<Rightarrow> typed ''number''
      | JStr _ \<Rightarrow> typed ''string''
      | JArr _ \<Rightarrow> typed ''array''
      | JObj _ \<Rightarrow> typed ''object''
      | JNull \<Rightarrow> typed ''string'')"

definition nested_literal_row :: "json bmap \<Rightarrow> nat \<Rightarrow> step_input_binding \<Rightarrow> step_field option" where
  "nested_literal_row step_local n b =
     (if \<not> is_nested_field (sib_field b) \<or> \<not> sib_show_in_review b then None
      else case sib_source b of
             Literal lit \<Rightarrow>
               (case field_path_parse (sib_field b) of
                  Inl _ \<Rightarrow> None
                | Inr path \<Rightarrow> Some
                    \<lparr>sf_id = n, sf_field = sib_field b,
                     sf_label = (case last_key path of Some k \<Rightarrow> k | None \<Rightarrow> field_root (sib_field b)),
                     sf_description = sib_description b, sf_location = LocBody,
                     sf_schema = literal_schema (lit_value lit),
                     sf_value = (case bget step_local (sib_field b) of Some v \<Rightarrow> v | None \<Rightarrow> lit_value lit),
                     sf_source = SrcLiteral, sf_required = False, sf_workflow_input = None,
                     sf_body_overflow = False, sf_show_in_review = True\<rparr>)
           | _ \<Rightarrow> None)"

definition push_nested_literal :: "json bmap \<Rightarrow> step_input_binding \<Rightarrow> plan_state \<Rightarrow> plan_state" where
  "push_nested_literal step_local b st =
     (case nested_literal_row step_local (ps_next_id st) b of
        None \<Rightarrow> st
      | Some f \<Rightarrow> st\<lparr>ps_fields := ps_fields st @ [f], ps_next_id := ps_next_id st + 1\<rparr>)"

definition plan_ctx_of :: "compiled_step \<Rightarrow> workflow_input_spec list \<Rightarrow> string list \<Rightarrow> plan_ctx" where
  "plan_ctx_of step specs default_names =
     \<lparr>pc_bindings = bindings_by_field (sd_inputs step),
      pc_full = full_bindings_by_field (sd_inputs step),
      pc_shown = fst (build_review_roots (sd_inputs step)),
      pc_roots = snd (build_review_roots (sd_inputs step)),
      pc_input_names = map wi_name specs, pc_default_names = default_names, pc_specs = specs,
      pc_step_bindings = sd_inputs step\<rparr>"

definition plan_fields ::
  "externs \<Rightarrow> plan_ctx \<Rightarrow> operation_schema \<Rightarrow> workflow_context \<Rightarrow> json bmap \<Rightarrow> json bmap \<Rightarrow> plan_state rt" where
  "plan_fields X pc op ctx supplied step_local =
     and_then (fold_ok (push_parameter X pc ctx supplied step_local)
                \<lparr>ps_fields = [], ps_seen = [], ps_next_id = 0\<rparr> (op_parameters op))
     (\<lambda>st. case op_request_body op of
        None \<Rightarrow> Inr st
      | Some body \<Rightarrow>
          and_then (fold_ok (push_body_field X pc ctx supplied step_local) (st, [], []) (bs_fields body))
            (\<lambda>acc. Inr (add_overflow acc)))"

definition resolve_step_fields ::
  "externs \<Rightarrow> compiled_step \<Rightarrow> workflow_context \<Rightarrow> json bmap \<Rightarrow> json bmap \<Rightarrow> workflow_input_spec list \<Rightarrow>
   service_schema \<Rightarrow> string list \<Rightarrow> step_field_plan rt" where
  "resolve_step_fields X step ctx supplied step_local specs schema default_names =
     and_then (ok_or (internal_error (''step '' @ quoted (sd_id step) @
                '': API step reached resolve_step_fields without an operation'')) (sd_operation step))
     (\<lambda>op_ref. and_then (find_operation_or_error schema op_ref (''step '' @ quoted (sd_id step)))
     (\<lambda>op. and_then (plan_fields X (plan_ctx_of step specs default_names) op ctx supplied step_local)
     (\<lambda>st. Inr
        \<lparr>sp_step_index = cs_index step, sp_step_label = sd_id step,
         sp_step_description = sd_description step,
         sp_fields = ps_fields (fold (push_nested_literal step_local) (sd_inputs step) st),
         sp_optional = sd_is_optional step\<rparr>)))"

section \<open>Local steps\<close>

definition local_binding_step ::
  "externs \<Rightarrow> workflow_context \<Rightarrow> json bmap \<Rightarrow> binding_source bmap \<Rightarrow> json bmap \<Rightarrow> step_input_binding \<Rightarrow>
   json bmap rt" where
  "local_binding_step X ctx supplied bindings resolved b =
     and_then (resolve_binding X ctx supplied bindings [] (sib_source b))
       (\<lambda>v. Inr (case v of Some w \<Rightarrow> binsert (sib_field b) w resolved | None \<Rightarrow> resolved))"

definition resolve_local_step_bindings ::
  "externs \<Rightarrow> 'a step_definition_scheme \<Rightarrow> workflow_context \<Rightarrow> json bmap \<Rightarrow> json bmap rt" where
  "resolve_local_step_bindings X step ctx supplied =
     fold_ok (local_binding_step X ctx supplied (bindings_by_field (sd_inputs step))) [] (sd_inputs step)"

end
