(* ===== verification/Compile.thy ===== *)
theory Compile
  imports StepFields
begin

text \<open>
  \<open>ags-runtime/src/runtime/workflows/compile.rs\<close>: every validation rule of a workflow definition, the
  resolution of input schemas and \<open>compile_workflow\<close>. The catalogue is a function from service names to
  schemas (\<open>Catalogue::get_or_load\<close> caches what it loads; the content of the spec files is not
  modelled).
\<close>

type_synonym catalogue = "string \<Rightarrow> service_schema rt"

definition step_text :: "'a step_definition_scheme \<Rightarrow> string" where
  "step_text step = ''step '' @ quoted (sd_id step)"

definition input_text :: "'a step_definition_scheme \<Rightarrow> step_input_binding \<Rightarrow> string" where
  "input_text step b = step_text step @ '' input '' @ quoted (sib_field b)"

definition each_step :: "workflow_definition \<Rightarrow> (step_definition \<Rightarrow> unit rt) \<Rightarrow> unit rt" where
  "each_step def check = each_ok check (wd_steps def)"

definition each_binding ::
  "workflow_definition \<Rightarrow> (step_definition \<Rightarrow> step_input_binding \<Rightarrow> unit rt) \<Rightarrow> unit rt" where
  "each_binding def check = each_step def (\<lambda>step. each_ok (check step) (sd_inputs step))"

section \<open>Steps and dependencies\<close>

fun unique_ids :: "string \<Rightarrow> string list \<Rightarrow> string list \<Rightarrow> unit rt" where
  "unique_ids wid seen [] = Inr ()"
| "unique_ids wid seen (i # ids) =
     (if i \<in> set seen then
        Inl (internal_error (''workflow '' @ quoted wid @ '' has duplicate step id '' @ quoted i))
      else unique_ids wid (i # seen) ids)"

definition validate_unique_step_ids :: "workflow_definition \<Rightarrow> unit rt" where
  "validate_unique_step_ids def = unique_ids (wd_id def) [] (map sd_id (wd_steps def))"

definition reject_flag :: "step_definition \<Rightarrow> string \<times> bool \<Rightarrow> unit rt" where
  "reject_flag step fv =
     (case fv of (flag, v) \<Rightarrow>
        guard_ok (\<not> v) (internal_error (step_text step @ '': '' @ quoted flag @
          '' is not supported on kind '' @ quoted ''local'' @ '' steps'' @
          (if flag = ''skip_if_exists''
           then '' (it responds to HTTP 409, which local actions do not produce)'' else []))))"

definition validate_step_kind :: "step_definition \<Rightarrow> unit rt" where
  "validate_step_kind step =
     (case sd_kind step of
        Api \<Rightarrow>
          and_then (guard_ok (sd_operation step \<noteq> None) (internal_error (step_text step @ '': kind '' @
                      quoted ''api'' @ '' requires an '' @ quoted ''operation'' @ '' field'')))
            (\<lambda>_. guard_ok (sd_action step = None) (internal_error (step_text step @ '': kind '' @
                      quoted ''api'' @ '' must not have an '' @ quoted ''action'' @ '' field'')))
      | Local \<Rightarrow>
          and_then (guard_ok (sd_action step \<noteq> None) (internal_error (step_text step @ '': kind '' @
                      quoted ''local'' @ '' requires an '' @ quoted ''action'' @ '' field'')))
            (\<lambda>_. and_then (guard_ok (sd_operation step = None) (internal_error (step_text step @ '': kind '' @
                      quoted ''local'' @ '' must not have an '' @ quoted ''operation'' @ '' field'')))
            (\<lambda>_. each_ok (reject_flag step)
               [(''confirm'', sd_confirm step), (''is_optional'', sd_is_optional step),
                (''continue_on_failure'', sd_continue_on_failure step),
                (''skip_if_exists'', sd_skip_if_exists step)])))"

definition validate_step_kinds :: "workflow_definition \<Rightarrow> unit rt" where
  "validate_step_kinds def = each_step def validate_step_kind"

text \<open>The index of a step by its id; a repeated id keeps the last one.\<close>

definition step_positions :: "'a step_definition_scheme list \<Rightarrow> nat bmap" where
  "step_positions steps = fold (\<lambda>(i, s) m. binsert (sd_id s) i m) (enumerate 0 steps) []"

definition outputs_by_step :: "'a step_definition_scheme list \<Rightarrow> string list bmap" where
  "outputs_by_step steps = fold (\<lambda>s m. binsert (sd_id s) (map soc_name (sd_outputs s)) m) steps []"

definition validate_dependency :: "nat bmap \<Rightarrow> nat \<Rightarrow> step_definition \<Rightarrow> string \<Rightarrow> unit rt" where
  "validate_dependency positions i step dep =
     (case bget positions dep of
        Some j \<Rightarrow> guard_ok (j < i) (internal_error (step_text step @ '' depends on '' @ quoted dep @
                    '' which is not declared earlier''))
      | None \<Rightarrow> Inl (internal_error (step_text step @ '' depends on unknown step '' @ quoted dep)))"

definition validate_dependencies :: "workflow_definition \<Rightarrow> unit rt" where
  "validate_dependencies def =
     each_ok (\<lambda>(i, step). each_ok (validate_dependency (step_positions (wd_steps def)) i step)
                (sd_dependencies step))
       (enumerate 0 (wd_steps def))"

definition validate_output_reference ::
  "nat bmap \<Rightarrow> string list bmap \<Rightarrow> nat \<Rightarrow> step_definition \<Rightarrow> step_input_binding \<Rightarrow> unit rt" where
  "validate_output_reference positions outputs i step b =
     (case sib_source b of
        Reference r \<Rightarrow>
          (case rb_from r of
             FromStep sid \<Rightarrow>
               (case bget positions sid of
                  None \<Rightarrow> Inl (internal_error (input_text step b @ '' references unknown step '' @ quoted sid))
                | Some j \<Rightarrow>
                    if j \<ge> i then Inl (internal_error (input_text step b @ '' references step '' @ quoted sid @
                      '' which is not declared earlier''))
                    else case rb_output r of
                      None \<Rightarrow> Inl (internal_error (input_text step b @ '' references step '' @ quoted sid @
                        '' without naming an output''))
                    | Some name \<Rightarrow>
                        guard_ok (case bget outputs sid of None \<Rightarrow> False | Some names \<Rightarrow> name \<in> set names)
                          (internal_error (input_text step b @ '' references undeclared output '' @
                             quoted name @ '' of step '' @ quoted sid)))
           | FromWorkflow _ \<Rightarrow> Inr ())
      | _ \<Rightarrow> Inr ())"

definition validate_step_output_references :: "workflow_definition \<Rightarrow> unit rt" where
  "validate_step_output_references def =
     each_ok (\<lambda>(i, step).
         each_ok (validate_output_reference (step_positions (wd_steps def)) (outputs_by_step (wd_steps def)) i step)
           (sd_inputs step))
       (enumerate 0 (wd_steps def))"

section \<open>Bindings\<close>

definition declared_inputs :: "workflow_definition \<Rightarrow> string list" where
  "declared_inputs def = map wi_name (wd_inputs def)"

definition validate_workflow_reference :: "string list \<Rightarrow> step_definition \<Rightarrow> step_input_binding \<Rightarrow> unit rt" where
  "validate_workflow_reference declared step b =
     (case sib_source b of
        Reference r \<Rightarrow>
          (case rb_from r of
             FromWorkflow input \<Rightarrow>
               and_then (guard_ok (input \<in> set declared) (internal_error (input_text step b @
                   '' references undeclared workflow input '' @ quoted input)))
                 (\<lambda>_. guard_ok (rb_output r = None) (internal_error (input_text step b @
                   '' may not name an `output:` when targeting a workflow input'')))
           | FromStep _ \<Rightarrow> Inr ())
      | _ \<Rightarrow> Inr ())"

definition validate_workflow_references :: "workflow_definition \<Rightarrow> unit rt" where
  "validate_workflow_references def = each_binding def (validate_workflow_reference (declared_inputs def))"

definition validate_template :: "string list \<Rightarrow> (string \<Rightarrow> runtime_error) \<Rightarrow> string \<Rightarrow> unit rt" where
  "validate_template declared err template =
     and_then (format_placeholders template)
       (each_ok (\<lambda>name. guard_ok (name \<in> set declared) (err name)))"

definition validate_format_binding :: "string list \<Rightarrow> step_definition \<Rightarrow> step_input_binding \<Rightarrow> unit rt" where
  "validate_format_binding declared step b =
     (case sib_source b of
        Format template \<Rightarrow>
          validate_template declared
            (\<lambda>name. internal_error (''Format template '' @ quoted template @
               '' references undeclared workflow input '' @ quoted name)) template
      | _ \<Rightarrow> Inr ())"

definition validate_format_bindings :: "workflow_definition \<Rightarrow> unit rt" where
  "validate_format_bindings def = each_binding def (validate_format_binding (declared_inputs def))"

definition is_path_prefix :: "string \<Rightarrow> string \<Rightarrow> bool" where
  "is_path_prefix p other \<longleftrightarrow> length other > length p \<and> prefix p other \<and> name_end (other ! length p)"

definition is_mirror :: "binding_source \<Rightarrow> bool" where
  "is_mirror s = (case s of Mirror _ \<Rightarrow> True | _ \<Rightarrow> False)"

definition validate_mirror_binding :: "step_definition \<Rightarrow> step_input_binding \<Rightarrow> unit rt" where
  "validate_mirror_binding step b =
     (case sib_source b of
        Mirror target \<Rightarrow>
          if target = sib_field b then Inl (internal_error (input_text step b @ '' mirrors itself''))
          else if sib_show_in_review b then
            Inl (internal_error (input_text step b @ '' is a mirror binding and must not set '' @
              ''show_in_review (the mirrored target field owns the review row; edit it there instead)''))
          else (case bget (bindings_by_field (sd_inputs step)) target of
             None \<Rightarrow>
               Inl (internal_error
                 (case find (\<lambda>f. is_path_prefix target f \<or> is_path_prefix f target) (map sib_field (sd_inputs step)) of
                    Some candidate \<Rightarrow> input_text step b @ '' mirrors '' @ quoted target @
                      '', which is not bound in that step (did you mean '' @ quoted candidate @ ''?)''
                  | None \<Rightarrow> input_text step b @ '' mirrors '' @ quoted target @
                      '', which is not bound in that step''))
           | Some src \<Rightarrow>
               guard_ok (\<not> is_mirror src) (internal_error (input_text step b @ '' mirrors '' @ quoted target @
                 '', which is itself a mirror; mirrors must target a non-mirror binding'')))
      | _ \<Rightarrow> Inr ())"

definition validate_mirror_bindings :: "workflow_definition \<Rightarrow> unit rt" where
  "validate_mirror_bindings def = each_binding def validate_mirror_binding"

definition validate_completion :: "workflow_definition \<Rightarrow> unit rt" where
  "validate_completion def =
     (case wd_completion def of
        None \<Rightarrow> Inr ()
      | Some c \<Rightarrow>
          and_then (guard_ok (\<not> length (wd_steps def) < 2) (internal_error (''workflow '' @ quoted (wd_id def) @
              '' declares a completion, which requires at least two steps; single-step workflows do not surface one'')))
          (\<lambda>_. and_then (guard_ok (\<not> (wc_created c = [] \<and> wc_next_steps c = []))
              (internal_error (''workflow '' @ quoted (wd_id def) @ '' declares a completion with no content; '' @
                 ''at least one of `created` or `next_steps` must be non-empty'')))
          (\<lambda>_. each_ok
              (validate_template (declared_inputs def)
                 (\<lambda>name. internal_error (''workflow '' @ quoted (wd_id def) @
                    '' completion references undeclared workflow input '' @ quoted name)))
              (map cr_value (wc_created c) @ map cs_command (wc_next_steps c)))))"

definition schema_type :: "json option \<Rightarrow> string option" where
  "schema_type schema = Option.bind (Option.bind schema (\<lambda>s. json_key s ''type'')) as_str"

definition is_integer_schema :: "json option \<Rightarrow> bool" where
  "is_integer_schema schema \<longleftrightarrow> schema_type schema = Some ''integer''"

definition schema_type_name :: "json option \<Rightarrow> string" where
  "schema_type_name schema = (case schema_type schema of Some t \<Rightarrow> t | None \<Rightarrow> ''<unspecified>'')"

definition input_specs_by_name :: "workflow_input_spec list \<Rightarrow> workflow_input_spec bmap" where
  "input_specs_by_name specs = fold (\<lambda>s m. binsert (wi_name s) s m) specs []"

text \<open>One side of an arithmetic transform; \<open>role\<close> and \<open>ending\<close> are the words of the messages.\<close>

definition validate_integer_input ::
  "workflow_input_spec bmap \<Rightarrow> string \<Rightarrow> string \<Rightarrow> string \<Rightarrow> string \<Rightarrow> unit rt" where
  "validate_integer_input specs field_name role ending name =
     (case bget specs name of
        None \<Rightarrow> Inl (internal_error (''Arithmetic transform on field '' @ quoted field_name @
                 '' references undeclared workflow input '' @ quoted name @ ending))
      | Some spec \<Rightarrow>
          guard_ok (is_integer_schema (wi_schema spec))
            (internal_error (''Arithmetic transform on field '' @ quoted field_name @
               '' requires an integer-typed '' @ role @ '' input ('' @ quoted name @ '' is '' @
               schema_type_name (wi_schema spec) @ '')'')))"

definition validate_arithmetic_binding :: "workflow_input_spec bmap \<Rightarrow> step_definition \<Rightarrow> step_input_binding \<Rightarrow> unit rt" where
  "validate_arithmetic_binding specs step b =
     (case sib_source b of
        Reference r \<Rightarrow>
          (case rb_transform r of
             Some (TArithmetic arith) \<Rightarrow>
               (case rb_from r of
                  FromStep _ \<Rightarrow> Inl (internal_error (''Arithmetic transform on field '' @ quoted (sib_field b) @
                     '' requires a workflow-input source (step references not supported)''))
                | FromWorkflow src \<Rightarrow>
                    and_then (validate_integer_input specs (sib_field b) ''source'' [] src)
                      (\<lambda>_. case ar_operand arith of
                         OperandInput name \<Rightarrow>
                           validate_integer_input specs (sib_field b) ''operand'' '' as operand'' name
                       | OperandInteger _ \<Rightarrow> Inr ()))
           | _ \<Rightarrow> Inr ())
      | _ \<Rightarrow> Inr ())"

definition validate_arithmetic_bindings :: "workflow_definition \<Rightarrow> unit rt" where
  "validate_arithmetic_bindings def =
     each_binding def (validate_arithmetic_binding (input_specs_by_name (wd_inputs def)))"

definition binding_sensitive :: "step_input_binding \<Rightarrow> bool" where
  "binding_sensitive b = (case sib_source b of Literal lit \<Rightarrow> lit_sensitive lit | _ \<Rightarrow> False)"

definition has_sensitive :: "workflow_definition \<Rightarrow> bool" where
  "has_sensitive def \<longleftrightarrow>
     list_ex wi_sensitive (wd_inputs def) \<or> list_ex oa_sensitive (wd_outputs def) \<or>
     list_ex (\<lambda>step. list_ex soc_sensitive (sd_outputs step) \<or> list_ex binding_sensitive (sd_inputs step))
       (wd_steps def)"

definition validate_no_sensitive :: "workflow_definition \<Rightarrow> unit rt" where
  "validate_no_sensitive def =
     guard_ok (\<not> has_sensitive def) (internal_error (''workflow '' @ quoted (wd_id def) @
       '' declares a sensitive value, which is not yet supported''))"

definition skippable :: "'a step_definition_scheme \<Rightarrow> bool" where
  "skippable step \<longleftrightarrow> sd_is_optional step \<or> sd_continue_on_failure step \<or> sd_skip_if_exists step"

definition validate_skippable_outputs_have_defaults :: "workflow_definition \<Rightarrow> unit rt" where
  "validate_skippable_outputs_have_defaults def =
     each_step def (\<lambda>step.
       if \<not> skippable step then Inr ()
       else each_ok (\<lambda>out. guard_ok (soc_default out \<noteq> None)
              (internal_error (step_text step @ '' is skippable but its output '' @ quoted (soc_name out) @
                 '' has no default''))) (sd_outputs step))"

definition validate_no_cycles :: "workflow_definition \<Rightarrow> unit rt" where
  "validate_no_cycles def = Inr ()"

section \<open>Input schemas\<close>

definition infer_schema_from_value :: "json \<Rightarrow> json" where
  "infer_schema_from_value v =
     (case v of
        JNull \<Rightarrow> typed ''null''
      | JBool _ \<Rightarrow> typed ''boolean''
      | JInt _ \<Rightarrow> typed ''integer''
      | JFloat _ \<Rightarrow> typed ''number''
      | JStr _ \<Rightarrow> typed ''string''
      | JArr _ \<Rightarrow> typed ''array''
      | JObj _ \<Rightarrow> typed ''object'')"

definition use_sites_of_step :: "string \<Rightarrow> step_definition \<Rightarrow> operation_schema \<Rightarrow> json list" where
  "use_sites_of_step name step op =
     List.map_filter (\<lambda>b. case sib_source b of
         Reference r \<Rightarrow>
           if rb_from r = FromWorkflow name then operation_field_schema op (sib_field b) else None
       | _ \<Rightarrow> None) (sd_inputs step) @
     (if name \<in> set (map sib_field (sd_inputs step)) then []
      else case operation_field_schema op name of None \<Rightarrow> [] | Some s \<Rightarrow> [s])"

definition collect_use_site_schemas ::
  "workflow_input_spec \<Rightarrow> workflow_definition \<Rightarrow> catalogue \<Rightarrow> json list rt" where
  "collect_use_site_schemas input def cat =
     fold_ok (\<lambda>sites step.
       case sd_operation step of
         None \<Rightarrow> Inr sites
       | Some op_ref \<Rightarrow>
           and_then (cat (or_service op_ref)) (\<lambda>schema.
           and_then (find_operation_or_error schema op_ref (step_text step)) (\<lambda>op.
             Inr (sites @ use_sites_of_step (wi_name input) step op)))) [] (wd_steps def)"

definition reconcile_use_site_schemas :: "string \<Rightarrow> json list \<Rightarrow> json option rt" where
  "reconcile_use_site_schemas name candidates =
     (case candidates of
        [] \<Rightarrow> Inr None
      | first # others \<Rightarrow>
          and_then (each_ok (\<lambda>other. guard_ok (other = first) (internal_error (''workflow input '' @ quoted name @
              '' has conflicting schemas across use sites; declare an explicit `schema:` to disambiguate''))) others)
            (\<lambda>_. Inr (Some first)))"

fun format_references :: "string \<Rightarrow> step_input_binding list \<Rightarrow> bool rt" where
  "format_references name [] = Inr False"
| "format_references name (b # bs) =
     (case sib_source b of
        Format template \<Rightarrow>
          and_then (format_placeholders template) (\<lambda>ns.
            if name \<in> set ns then Inr True else format_references name bs)
      | _ \<Rightarrow> format_references name bs)"

definition input_referenced_by_format :: "workflow_input_spec \<Rightarrow> workflow_definition \<Rightarrow> bool rt" where
  "input_referenced_by_format input def =
     format_references (wi_name input) (concat (map sd_inputs (wd_steps def)))"

definition resolve_input_schema ::
  "workflow_definition \<Rightarrow> catalogue \<Rightarrow> workflow_input_spec \<Rightarrow> workflow_input_spec rt" where
  "resolve_input_schema def cat input =
     (if wi_schema input \<noteq> None then Inr input
      else and_then (collect_use_site_schemas input def cat) (\<lambda>candidates.
        and_then (reconcile_use_site_schemas (wi_name input) candidates) (\<lambda>resolved.
          case resolved of
            Some schema \<Rightarrow> Inr (input\<lparr>wi_schema := Some schema\<rparr>)
          | None \<Rightarrow>
              (case wi_default input of
                 Some d \<Rightarrow> Inr (input\<lparr>wi_schema := Some (infer_schema_from_value d)\<rparr>)
               | None \<Rightarrow>
                   and_then (input_referenced_by_format input def) (\<lambda>referenced.
                     if referenced then Inr (input\<lparr>wi_schema := Some (typed ''string'')\<rparr>)
                     else Inl (internal_error (''workflow input '' @ quoted (wi_name input) @
                       '' has no resolvable schema; bind it to a step field, declare a schema, or provide a default'')))))))"

definition resolve_input_schemas :: "workflow_definition \<Rightarrow> catalogue \<Rightarrow> workflow_input_spec list rt" where
  "resolve_input_schemas def cat = map_ok (resolve_input_schema def cat) (wd_inputs def)"

end
