(* ===== verification/Compiler.thy ===== *)
theory Compiler
  imports Compile
begin

text \<open>
  The second half of \<open>compile.rs\<close>: field paths and leaf collisions, option sources and file pickers, the
  registry of local actions (\<open>local_actions/mod.rs\<close>) and \<open>compile_workflow\<close> itself.
\<close>

section \<open>Field paths\<close>

definition path_error_text :: "field_path_error \<Rightarrow> string" where
  "path_error_text e =
     (case e of
        PathEmpty \<Rightarrow> ''Field path is empty''
      | UnbalancedBrackets p i \<Rightarrow> ''Field path '' @ quoted p @ '' has unbalanced brackets at byte '' @ show_nat i
      | InvalidIndex p i \<Rightarrow> ''Field path '' @ quoted p @ '' has invalid index at byte '' @ show_nat i
      | EmptyKey p i \<Rightarrow> ''Field path '' @ quoted p @ '' has empty key segment at byte '' @ show_nat i)"

definition path_resolve_error_text :: "path_resolve_error \<Rightarrow> string" where
  "path_resolve_error_text e =
     (case e of
        UnknownSegment parent seg \<Rightarrow> ''Path segment '' @ quoted seg @ '' not found under '' @ quoted parent
      | SegmentUnderNonObject parent seg \<Rightarrow>
          ''Path segment '' @ quoted seg @ '' addresses a non-object field '' @ quoted parent)"

definition validate_nested_path :: "body_field list \<Rightarrow> step_input_binding \<Rightarrow> unit rt" where
  "validate_nested_path root_fields b =
     (case field_path_parse (sib_field b) of
        Inl e \<Rightarrow> Inl (internal_error (''Binding field '' @ quoted (sib_field b) @ '' is not a valid path: '' @
                   path_error_text e))
      | Inr path \<Rightarrow>
          if length path > 1 then
            (case resolve_against_schema path root_fields of
               Some (Inl e) \<Rightarrow> Inl (internal_error (''Binding field '' @ quoted (sib_field b) @
                 '' could not be resolved against the operation schema: '' @ path_resolve_error_text e))
             | _ \<Rightarrow> Inr ())
          else Inr ())"

definition validate_nested_paths :: "workflow_definition \<Rightarrow> catalogue \<Rightarrow> unit rt" where
  "validate_nested_paths def cat =
     each_step def (\<lambda>step.
       case sd_operation step of
         None \<Rightarrow> Inr ()
       | Some op_ref \<Rightarrow>
           and_then (cat (or_service op_ref)) (\<lambda>schema.
           and_then (find_operation_or_error schema op_ref (step_text step)) (\<lambda>op.
             each_ok (validate_nested_path (case op_request_body op of None \<Rightarrow> [] | Some b \<Rightarrow> bs_fields b))
               (sd_inputs step))))"

text \<open>\<open>walk_value_leaves\<close>: the dotted path of every leaf of a literal, empty containers included.\<close>

fun walk_value_leaves :: "json \<Rightarrow> string \<Rightarrow> string list"
  and walk_entries :: "(string \<times> json) list \<Rightarrow> string \<Rightarrow> string list"
  and walk_items :: "json list \<Rightarrow> nat \<Rightarrow> string \<Rightarrow> string list" where
  "walk_value_leaves (JObj m) path = (if m = [] then [path] else walk_entries m path)"
| "walk_value_leaves (JArr xs) path = (if xs = [] then [path] else walk_items xs 0 path)"
| "walk_value_leaves v path = [path]"
| "walk_entries [] path = []"
| "walk_entries ((k, v) # m) path = walk_value_leaves v (path @ ''.'' @ k) @ walk_entries m path"
| "walk_items [] i path = []"
| "walk_items (v # xs) i path = walk_value_leaves v (path @ ''['' @ show_nat i @ '']'') @ walk_items xs (i + 1) path"

definition binding_claimed_leaves :: "step_input_binding \<Rightarrow> string list" where
  "binding_claimed_leaves b =
     (case sib_source b of
        Literal lit \<Rightarrow>
          (let out = walk_value_leaves (lit_value lit) (sib_field b)
           in if out = [] then [sib_field b] else out)
      | _ \<Rightarrow> [sib_field b])"

definition em_dash :: string where
  "em_dash = [CHR 0xE2, CHR 0x80, CHR 0x94]"

definition claim_leaf :: "string \<Rightarrow> string \<Rightarrow> string bmap \<Rightarrow> string \<Rightarrow> string bmap rt" where
  "claim_leaf sid field_name claimed leaf =
     (case bget claimed leaf of
        Some existing \<Rightarrow> Inl (internal_error (''Step '' @ quoted sid @ '': leaf '' @ quoted leaf @
          '' is bound by both binding '' @ quoted existing @ '' and binding '' @ quoted field_name @ '' '' @
          em_dash @ '' each leaf must be bound at most once across literal-base and nested bindings''))
      | None \<Rightarrow> Inr (binsert leaf field_name claimed))"

definition claim_binding :: "string \<Rightarrow> string bmap \<Rightarrow> step_input_binding \<Rightarrow> string bmap rt" where
  "claim_binding sid claimed b = fold_ok (claim_leaf sid (sib_field b)) claimed (binding_claimed_leaves b)"

definition validate_leaf_collisions :: "workflow_definition \<Rightarrow> unit rt" where
  "validate_leaf_collisions def =
     each_step def (\<lambda>step.
       and_then (fold_ok (claim_binding (sd_id step)) [] (sd_inputs step)) (\<lambda>_. Inr ()))"

section \<open>Option sources and file pickers\<close>

definition is_string_schema :: "json option \<Rightarrow> bool" where
  "is_string_schema schema \<longleftrightarrow> schema_type schema = Some ''string''"

definition http_method_text :: "http_method \<Rightarrow> string" where
  "http_method_text m =
     (case m of Get \<Rightarrow> ''GET'' | Post \<Rightarrow> ''POST'' | Put \<Rightarrow> ''PUT'' | Patch \<Rightarrow> ''PATCH'' | Delete \<Rightarrow> ''DELETE'')"

definition literal_matches_schema_type :: "json \<Rightarrow> json \<Rightarrow> bool" where
  "literal_matches_schema_type v schema =
     (case Option.bind (json_key schema ''type'') as_str of
        None \<Rightarrow> True
      | Some expected \<Rightarrow>
          if expected = ''string'' then (case v of JStr _ \<Rightarrow> True | _ \<Rightarrow> False)
          else if expected = ''integer'' then (case v of JInt _ \<Rightarrow> True | _ \<Rightarrow> False)
          else if expected = ''number'' then (case v of JInt _ \<Rightarrow> True | JFloat _ \<Rightarrow> True | _ \<Rightarrow> False)
          else if expected = ''boolean'' then (case v of JBool _ \<Rightarrow> True | _ \<Rightarrow> False)
          else if expected = ''array'' then (case v of JArr _ \<Rightarrow> True | _ \<Rightarrow> False)
          else if expected = ''object'' then (case v of JObj _ \<Rightarrow> True | _ \<Rightarrow> False)
          else True)"

definition spec_text :: "workflow_input_spec \<Rightarrow> string" where
  "spec_text input = ''input '' @ quoted (wi_name input)"

definition validate_option_parameter ::
  "workflow_input_spec \<Rightarrow> options_source \<Rightarrow> operation_schema \<Rightarrow> string list \<Rightarrow> string \<times> option_parameter_binding \<Rightarrow> unit rt" where
  "validate_option_parameter input source op declared pb =
     (case pb of (param_name, binding) \<Rightarrow>
        and_then (ok_or (internal_error (spec_text input @ '' options_source binds unknown parameter '' @
                    quoted param_name @ '' on operation '' @ quoted (or_operation (os_operation source))))
                   (operation_field_schema op param_name))
          (\<lambda>schema.
             let declared_input = (\<lambda>name. guard_ok (name \<in> set declared)
                   (internal_error (spec_text input @ '' options_source FromInput('' @ quoted name @
                      '') references an undeclared workflow input'')))
             in case binding of
                  OptLiteral v \<Rightarrow> guard_ok (literal_matches_schema_type v schema)
                    (internal_error (spec_text input @ '' options_source Literal for parameter '' @
                       quoted param_name @ '' is type-incompatible with the operation field schema''))
                | FromInput name \<Rightarrow> declared_input name
                | FromInputOptional name \<Rightarrow> declared_input name))"

definition validate_projection :: "workflow_input_spec \<Rightarrow> string \<Rightarrow> string \<Rightarrow> unit rt" where
  "validate_projection input label path =
     guard_ok (jsonpath_is_valid path) (internal_error (spec_text input @ '' options_source '' @ label @ '' '' @
       quoted path @ '' is not a valid JSONPath subset expression''))"

definition single_segment_path :: "string \<Rightarrow> bool" where
  "single_segment_path p =
     (case strip_prefix ''$.'' p of None \<Rightarrow> False | Some k \<Rightarrow> k \<noteq> [] \<and> \<not> list_ex name_end k)"

definition validate_options_source ::
  "string list \<Rightarrow> catalogue \<Rightarrow> workflow_input_spec \<Rightarrow> unit rt" where
  "validate_options_source declared cat input =
     (case wi_options_source input of
        None \<Rightarrow> Inr ()
      | Some source \<Rightarrow>
          and_then (guard_ok (is_string_schema (wi_schema input)) (internal_error (spec_text input @
              '' declares an options_source but is not string-typed; '' @
              ''options_source attaches only to {\"type\":\"string\"} inputs'')))
          (\<lambda>_. and_then (cat (or_service (os_operation source)))
          (\<lambda>schema. and_then (find_operation_or_error schema (os_operation source) (spec_text input @ '' options_source''))
          (\<lambda>op. and_then (guard_ok (op_http_method op = Get) (internal_error (spec_text input @
              '' options_source operation '' @ quoted (or_operation (os_operation source)) @ '' is '' @
              http_method_text (op_http_method op) @
              '', not GET; a dynamic-enum fetch must never run a mutating operation'')))
          (\<lambda>_. and_then (each_ok (validate_option_parameter input source op declared) (os_parameters source))
          (\<lambda>_. and_then (validate_projection input ''items_path'' (os_items_path source))
          (\<lambda>_. and_then (validate_projection input ''value'' (os_value source))
          (\<lambda>_. and_then (case os_label source of None \<Rightarrow> Inr () | Some l \<Rightarrow> validate_projection input ''label'' l)
          (\<lambda>_. and_then (case os_filter source of None \<Rightarrow> Inr () | Some f \<Rightarrow> validate_projection input ''filter path'' (of_path f))
          (\<lambda>_. guard_ok (os_items_path source = ''$'' \<or> single_segment_path (os_items_path source))
              (internal_error (spec_text input @ '' options_source items_path '' @ quoted (os_items_path source) @
                 '' must be `$` (root array) or a single-segment path like `$.images` '' @
                 ''(nested item-array paths are not supported in v1)''))))))))))))"

definition validate_options_sources ::
  "workflow_definition \<Rightarrow> workflow_input_spec list \<Rightarrow> catalogue \<Rightarrow> unit rt" where
  "validate_options_sources def resolved cat = each_ok (validate_options_source (declared_inputs def) cat) resolved"

definition validate_file_picker :: "workflow_input_spec \<Rightarrow> unit rt" where
  "validate_file_picker input =
     (case wi_file_picker input of
        None \<Rightarrow> Inr ()
      | Some picker \<Rightarrow>
          and_then (guard_ok (is_string_schema (wi_schema input)) (internal_error (spec_text input @
              '' declares a file_picker but is not string-typed; '' @
              ''file_picker attaches only to {\"type\":\"string\"} inputs'')))
          (\<lambda>_. and_then (guard_ok (wi_options_source input = None) (internal_error (spec_text input @
              '' declares both a file_picker and an options_source; '' @
              ''these are alternate value-resolution mechanisms and cannot combine'')))
          (\<lambda>_. and_then (each_ok (\<lambda>ext. guard_ok (\<not> (ext = [] \<or> starts_with_char (CHR ''.'') ext))
                (internal_error (spec_text input @ '' file_picker extension '' @ quoted ext @
                  '' must be non-empty and must not start with '' @ quoted ''.'' @
                  '' (write \"png\", not \".png\")'')))
              (case fp_extensions picker of None \<Rightarrow> [] | Some exts \<Rightarrow> exts))
          (\<lambda>_. guard_ok (fp_start_dir picker \<noteq> Some []) (internal_error (spec_text input @
              '' file_picker start_dir must not be empty when present''))))))"

definition validate_file_pickers :: "workflow_input_spec list \<Rightarrow> unit rt" where
  "validate_file_pickers resolved = each_ok validate_file_picker resolved"

section \<open>Local actions\<close>

record local_action_input =
  la_name :: string
  la_required :: bool

text \<open>The registry: each known action and the inputs its handler declares.\<close>

definition local_action_lookup :: "string \<Rightarrow> local_action_input list option" where
  "local_action_lookup name =
     (if name = ''docker-login'' then Some
        [\<lparr>la_name = ''registry'', la_required = True\<rparr>, \<lparr>la_name = ''username'', la_required = True\<rparr>,
         \<lparr>la_name = ''password'', la_required = True\<rparr>]
      else if name = ''ams/upload-image'' then Some
        [\<lparr>la_name = ''path'', la_required = True\<rparr>, \<lparr>la_name = ''executable'', la_required = True\<rparr>,
         \<lparr>la_name = ''imageName'', la_required = True\<rparr>, \<lparr>la_name = ''targetArchitecture'', la_required = False\<rparr>]
      else None)"

definition known_action_names :: "string list" where
  "known_action_names = [''ams/upload-image'', ''docker-login'']"

definition check_local_binding :: "step_definition \<Rightarrow> string \<Rightarrow> local_action_input list \<Rightarrow> step_input_binding \<Rightarrow> unit rt" where
  "check_local_binding step action declared b =
     guard_ok (list_ex (\<lambda>input. la_name input = field_root (sib_field b)) declared)
       (internal_error (step_text step @ '' binds '' @ quoted (sib_field b) @ '', which local action '' @
          quoted action @ '' does not accept''))"

definition check_local_required :: "step_definition \<Rightarrow> string \<Rightarrow> local_action_input \<Rightarrow> unit rt" where
  "check_local_required step action input =
     guard_ok (list_ex (\<lambda>b. sib_field b = la_name input \<or> prefix (la_name input @ ''.'') (sib_field b)) (sd_inputs step))
       (internal_error (step_text step @ '' leaves required input '' @ quoted (la_name input) @
          '' of local action '' @ quoted action @ '' unbound''))"

section \<open>Compilation\<close>

definition derive_fields_of_step ::
  "catalogue \<Rightarrow> workflow_input_spec list \<Rightarrow> step_definition \<Rightarrow> auto_derived_field list rt" where
  "derive_fields_of_step cat resolved step =
     (case sd_kind step of
        Api \<Rightarrow>
          and_then (ok_or (internal_error (step_text step @
              '': API step reached compile_workflow without an operation'')) (sd_operation step))
          (\<lambda>op_ref. and_then (cat (or_service op_ref)) (\<lambda>schema. auto_derive_step step schema resolved))
      | Local \<Rightarrow>
          and_then (ok_or (internal_error (step_text step @
              '': local step reached compile_workflow without an action'')) (sd_action step))
          (\<lambda>action. and_then (ok_or (internal_error (step_text step @ '': unknown local action '' @ quoted action @
              ''; known actions: '' @ join_with '', '' known_action_names)) (local_action_lookup action))
          (\<lambda>declared. and_then (each_ok (check_local_binding step action declared) (sd_inputs step))
          (\<lambda>_. and_then (each_ok (check_local_required step action) (filter la_required declared))
          (\<lambda>_. Inr [])))))"

definition compile_step ::
  "catalogue \<Rightarrow> workflow_input_spec list \<Rightarrow> nat \<times> step_definition \<Rightarrow> compiled_step rt" where
  "compile_step cat resolved is =
     (case is of (i, step) \<Rightarrow>
        and_then (derive_fields_of_step cat resolved step)
          (\<lambda>derived. Inr (step_definition.extend step \<lparr>cs_index = i, cs_auto_derived = derived\<rparr>)))"

definition validate_definition :: "workflow_definition \<Rightarrow> unit rt" where
  "validate_definition def =
     and_then (validate_unique_step_ids def) (\<lambda>_.
     and_then (validate_step_kinds def) (\<lambda>_.
     and_then (validate_dependencies def) (\<lambda>_.
     and_then (validate_step_output_references def) (\<lambda>_.
     and_then (validate_workflow_references def) (\<lambda>_.
     and_then (validate_format_bindings def) (\<lambda>_.
     and_then (validate_mirror_bindings def) (\<lambda>_.
     and_then (validate_completion def) (\<lambda>_.
     and_then (validate_arithmetic_bindings def) (\<lambda>_.
     and_then (validate_no_sensitive def) (\<lambda>_.
     and_then (validate_skippable_outputs_have_defaults def) (\<lambda>_.
     validate_no_cycles def)))))))))))"

definition compile_workflow :: "workflow_definition \<Rightarrow> catalogue \<Rightarrow> compiled_workflow rt" where
  "compile_workflow def cat =
     and_then (validate_definition def) (\<lambda>_.
     and_then (resolve_input_schemas def cat) (\<lambda>resolved.
     and_then (validate_options_sources def resolved cat) (\<lambda>_.
     and_then (validate_file_pickers resolved) (\<lambda>_.
     and_then (validate_nested_paths def cat) (\<lambda>_.
     and_then (validate_leaf_collisions def) (\<lambda>_.
     and_then (map_ok (compile_step cat resolved) (enumerate 0 (wd_steps def))) (\<lambda>steps.
       Inr \<lparr>cw_id = wd_id def, cw_name = wd_name def, cw_intent = wd_intent def,
            cw_description = wd_description def, cw_briefing = wd_briefing def, cw_inputs = resolved,
            cw_is_reviewed_by_default = wd_is_reviewed_by_default def, cw_steps = steps,
            cw_outputs = wd_outputs def, cw_completion = wd_completion def\<rparr>)))))))"

end
