(* ===== verification/Display.thy ===== *)
theory Display
  imports Compiler
begin

text \<open>
  Text shown to a user: \<open>strip_terminal_control_sequences\<close> of \<open>ags-runtime/src/support/strings.rs\<close> and
  \<open>format_capture_value\<close> of \<open>workflows/executor.rs\<close>. The regular expression of the escape sequences is written
  out as a matcher at the escape character.
\<close>

definition esc :: char where "esc = CHR 0x1B"
definition bel :: char where "bel = CHR 0x07"

definition is_letter :: "char \<Rightarrow> bool" where
  "is_letter c \<longleftrightarrow> is_upper c \<or> is_lower c"

definition csi_param :: "char \<Rightarrow> bool" where
  "csi_param c \<longleftrightarrow> is_digit c \<or> c = CHR '';''"

text \<open>The length of the escape sequence a text starts with, if it starts with one.\<close>

definition ansi_match :: "string \<Rightarrow> nat option" where
  "ansi_match s =
     (case s of
        e # k # r \<Rightarrow>
          if e \<noteq> esc then None
          else if k = CHR ''['' then
            (case dropWhile csi_param r of
               c # _ \<Rightarrow> if is_letter c then Some (3 + length (takeWhile csi_param r)) else None
             | [] \<Rightarrow> None)
          else if k = CHR '']'' then
            (let body = takeWhile (\<lambda>c. c \<noteq> bel \<and> c \<noteq> esc) r
             in case dropWhile (\<lambda>c. c \<noteq> bel \<and> c \<noteq> esc) r of
                  [] \<Rightarrow> None
                | c # rest \<Rightarrow>
                    if c = bel then Some (3 + length body)
                    else (case rest of d # _ \<Rightarrow> if d = backslash then Some (4 + length body) else None
                                     | [] \<Rightarrow> None))
          else None
      | _ \<Rightarrow> None)"

function (sequential) strip_ansi :: "string \<Rightarrow> string" where
  "strip_ansi [] = []"
| "strip_ansi (c # s) =
     (case ansi_match (c # s) of
        Some n \<Rightarrow> strip_ansi (drop (n - 1) s)
      | None \<Rightarrow> c # strip_ansi s)"
  by pat_completeness auto
termination
  by (relation "measure length") auto

definition printable :: "char \<Rightarrow> bool" where
  "printable c \<longleftrightarrow>
     (let n = (of_char c :: nat) in n = 10 \<or> n = 9 \<or> (32 \<le> n \<and> n \<noteq> 127))"

definition strip_terminal_control_sequences :: "string \<Rightarrow> string" where
  "strip_terminal_control_sequences s = filter printable (strip_ansi s)"

section \<open>Capture values\<close>

text \<open>Counting and cutting characters of a UTF-8 text: continuation bytes belong to the byte before them.\<close>

definition continuation_byte :: "char \<Rightarrow> bool" where
  "continuation_byte c \<longleftrightarrow> (let n = (of_char c :: nat) in 128 \<le> n \<and> n < 192)"

definition char_count :: "string \<Rightarrow> nat" where
  "char_count s = length (filter (\<lambda>c. \<not> continuation_byte c) s)"

fun take_chars :: "nat \<Rightarrow> string \<Rightarrow> string" where
  "take_chars n [] = []"
| "take_chars n (c # s) =
     (if continuation_byte c then c # take_chars n s
      else case n of 0 \<Rightarrow> [] | Suc m \<Rightarrow> c # take_chars m s)"

definition ellipsis :: string where
  "ellipsis = [CHR 0xE2, CHR 0x80, CHR 0xA6]"

definition capture_text :: "externs \<Rightarrow> json \<Rightarrow> string" where
  "capture_text X v =
     (case v of
        JNull \<Rightarrow> em_dash
      | JStr s \<Rightarrow> strip_terminal_control_sequences s
      | JBool b \<Rightarrow> if b then ''true'' else ''false''
      | JInt i \<Rightarrow> show_int i
      | JFloat t \<Rightarrow> t
      | other \<Rightarrow> ex_json_text X other)"

definition format_capture_value :: "externs \<Rightarrow> json \<Rightarrow> string" where
  "format_capture_value X v =
     (let raw = capture_text X v
      in if char_count raw \<le> 40 then raw else take_chars 39 raw @ ellipsis)"

lemma char_count_take: "char_count (take_chars n s) \<le> n"
proof (induction n s rule: take_chars.induct)
  case (2 n c s)
  then show ?case by (cases n) (auto simp: char_count_def)
qed (simp add: char_count_def)

section \<open>Properties\<close>

text \<open>A text stripped for display contains no control byte other than newline and tab, in particular no
  escape, so no sequence that starts with one survives; and a captured value shows at most forty characters.\<close>

theorem display_is_clean:
  "(\<forall>c \<in> set (strip_terminal_control_sequences s). (of_char c :: nat) = 10 \<or> (of_char c :: nat) = 9 \<or>
      (32 \<le> (of_char c :: nat) \<and> (of_char c :: nat) \<noteq> 127)) \<and>
   esc \<notin> set (strip_terminal_control_sequences s) \<and>
   char_count (format_capture_value X v) \<le> 40"
proof (intro conjI)
  show "\<forall>c \<in> set (strip_terminal_control_sequences s). (of_char c :: nat) = 10 \<or> (of_char c :: nat) = 9 \<or>
      (32 \<le> (of_char c :: nat) \<and> (of_char c :: nat) \<noteq> 127)"
    by (auto simp: strip_terminal_control_sequences_def printable_def Let_def)
  show "esc \<notin> set (strip_terminal_control_sequences s)"
    by (auto simp: strip_terminal_control_sequences_def printable_def esc_def Let_def)
  have "char_count (take_chars 39 t @ ellipsis) \<le> 40" for t
    using char_count_take [of 39 t] by (simp add: char_count_def ellipsis_def continuation_byte_def)
  then show "char_count (format_capture_value X v) \<le> 40"
    by (simp add: format_capture_value_def Let_def)
qed

definition plain_externs :: externs where
  "plain_externs = \<lparr>ex_json_text = \<lambda>_. ''{}'', ex_is_file = \<lambda>_. Some True, ex_file_name = \<lambda>_. None,
     ex_env_set = \<lambda>_. False\<rparr>"

theorem display_is_clean_witness:
  "char_count (format_capture_value plain_externs (JStr (replicate 60 CHR ''x''))) \<le> 40 \<and>
   (esc \<notin> set (strip_terminal_control_sequences (esc # ''[31mred'')))"
  using display_is_clean [of "esc # ''[31mred''" plain_externs "JStr (replicate 60 CHR ''x'')"] by blast

text \<open>The C1 form of the same introducer (U+009B, two bytes in UTF-8) is not a control byte and passes.\<close>

lemma c1_control_survives:
  "strip_terminal_control_sequences [CHR 0xC2, CHR 0x9B, CHR ''3'', CHR ''1'', CHR ''m''] =
   [CHR 0xC2, CHR 0x9B, CHR ''3'', CHR ''1'', CHR ''m'']"
  by code_simp

end
