(* ===== verification/Telemetry.thy ===== *)
theory Telemetry
  imports StepFields
begin

text \<open>
  \<open>ags-runtime/src/runtime/workflows/telemetry_fields.rs\<close>: what a failed step may report of its inputs, and the
  redaction of sensitive values.
\<close>

definition max_input_field_value_bytes :: nat where
  "max_input_field_value_bytes = 2048"

definition oversized_value_marker :: string where
  "oversized_value_marker = ''<oversized-value-omitted>''"

definition nested_redacted_marker :: string where
  "nested_redacted_marker = ''<redacted>''"

definition sensitive_name_needles :: "string list" where
  "sensitive_name_needles =
     [''secret'', ''password'', ''token'', ''key'', ''credential'', ''auth'', ''passwd'', ''pwd'', ''bearer'',
      ''signature'', ''session'', ''cookie'', ''salt'', ''private'']"

definition is_sensitive_name :: "string \<Rightarrow> bool" where
  "is_sensitive_name name \<longleftrightarrow> list_ex (\<lambda>needle. contains_text needle (lower_text name)) sensitive_name_needles"

definition schema_marks_sensitive :: "json \<Rightarrow> bool" where
  "schema_marks_sensitive schema \<longleftrightarrow>
     Option.bind (json_key schema ''writeOnly'') as_bool = Some True \<or>
     Option.bind (json_key schema ''format'') as_str = Some ''password''"

fun redact_all_leaves :: "json \<Rightarrow> json"
  and redact_all_entries :: "(string \<times> json) list \<Rightarrow> (string \<times> json) list"
  and redact_all_items :: "json list \<Rightarrow> json list" where
  "redact_all_leaves (JObj m) = JObj (redact_all_entries m)"
| "redact_all_leaves (JArr xs) = JArr (redact_all_items xs)"
| "redact_all_leaves v = JStr nested_redacted_marker"
| "redact_all_entries [] = []"
| "redact_all_entries ((k, v) # m) = (k, redact_all_leaves v) # redact_all_entries m"
| "redact_all_items [] = []"
| "redact_all_items (v # xs) = redact_all_leaves v # redact_all_items xs"

fun redact_nested :: "json \<Rightarrow> json"
  and redact_entries :: "(string \<times> json) list \<Rightarrow> (string \<times> json) list"
  and redact_items :: "json list \<Rightarrow> json list" where
  "redact_nested (JObj m) = JObj (redact_entries m)"
| "redact_nested (JArr xs) = JArr (redact_items xs)"
| "redact_nested v = v"
| "redact_entries [] = []"
| "redact_entries ((k, v) # m) =
     (k, if is_sensitive_name k then redact_all_leaves v else redact_nested v) # redact_entries m"
| "redact_items [] = []"
| "redact_items (v # xs) = redact_nested v # redact_items xs"

definition cap_value_size :: "externs \<Rightarrow> json \<Rightarrow> json" where
  "cap_value_size X v =
     (if length (ex_json_text X v) > max_input_field_value_bytes then JStr oversized_value_marker else v)"

definition redact_field_value :: "externs \<Rightarrow> string \<Rightarrow> json \<Rightarrow> json \<Rightarrow> json option" where
  "redact_field_value X name schema v =
     (if is_sensitive_name name \<or> schema_marks_sensitive schema then None
      else Some (cap_value_size X (redact_nested v)))"

definition source_label :: "step_field_source \<Rightarrow> string list \<Rightarrow> string" where
  "source_label src flag_names =
     (case src of
        SrcWorkflowInput name \<Rightarrow> if name \<in> set flag_names then ''flag'' else ''prompt''
      | SrcDefault _ \<Rightarrow> ''default''
      | SrcPriorOutput \<Rightarrow> ''prior_output''
      | SrcLiteral \<Rightarrow> ''literal''
      | SrcUnset \<Rightarrow> ''unset''
      | SrcDerived _ \<Rightarrow> ''derived'')"

record step_input_field =
  if_field :: string
  if_location :: step_field_location
  if_source :: string
  if_required :: bool
  if_value :: "json option"

definition env_telemetry_no_input_values :: string where
  "env_telemetry_no_input_values = ''AGS_TELEMETRY_NO_INPUT_VALUES''"

definition build_step_input_fields :: "externs \<Rightarrow> step_field list \<Rightarrow> string list \<Rightarrow> bool \<Rightarrow> step_input_field list" where
  "build_step_input_fields X fs flag_names bundled =
     (let transmit = bundled \<and> \<not> ex_env_set X env_telemetry_no_input_values
      in map (\<lambda>f.
           \<lparr>if_field = sf_field f, if_location = sf_location f, if_source = source_label (sf_source f) flag_names,
            if_required = sf_required f,
            if_value = (if transmit then redact_field_value X (sf_field f) (sf_schema f) (sf_value f) else None)\<rparr>)
         fs)"

section \<open>Redaction\<close>

definition is_scalar :: "json \<Rightarrow> bool" where
  "is_scalar v = (case v of JObj _ \<Rightarrow> False | JArr _ \<Rightarrow> False | _ \<Rightarrow> True)"

definition sensitive_segment :: "path_segment \<Rightarrow> bool" where
  "sensitive_segment s = (case s of Key k \<Rightarrow> is_sensitive_name k | Index _ \<Rightarrow> False)"

lemma bget_redact_all: "bget (redact_all_entries m) k = map_option redact_all_leaves (bget m k)"
  by (induction m) (auto simp: bget_def)

lemma bget_redact: "bget (redact_entries m) k =
    map_option (if is_sensitive_name k then redact_all_leaves else redact_nested) (bget m k)"
  by (induction m) (auto simp: bget_def)

lemma redact_all_items_map: "redact_all_items xs = map redact_all_leaves xs"
  by (induction xs) auto

lemma redact_items_map: "redact_items xs = map redact_nested xs"
  by (induction xs) auto

lemma json_key_redact_all: "json_key (redact_all_leaves v) k = map_option redact_all_leaves (json_key v k)"
  by (cases v) (simp_all add: json_key_def bget_redact_all)

lemma json_index_redact_all: "json_index (redact_all_leaves v) i = map_option redact_all_leaves (json_index v i)"
  by (cases v) (simp_all add: json_index_def redact_all_items_map)

lemma json_key_redact: "json_key (redact_nested v) k =
    map_option (if is_sensitive_name k then redact_all_leaves else redact_nested) (json_key v k)"
  by (cases v) (simp_all add: json_key_def bget_redact)

lemma json_index_redact: "json_index (redact_nested v) i = map_option redact_nested (json_index v i)"
  by (cases v) (simp_all add: json_index_def redact_items_map)

lemma scalar_redact_all: "is_scalar (redact_all_leaves v) \<Longrightarrow> redact_all_leaves v = JStr nested_redacted_marker"
  by (cases v) (simp_all add: is_scalar_def)

lemma descend_redact_all: "json_descend (redact_all_leaves v) p = map_option redact_all_leaves (json_descend v p)"
  by (induction v p rule: json_descend.induct)
    (auto simp: json_key_redact_all json_index_redact_all split: option.split)

lemma descend_redact: "json_descend (redact_nested v) p =
    map_option (if list_ex sensitive_segment p then redact_all_leaves else redact_nested) (json_descend v p)"
proof (induction v p rule: json_descend.induct)
  case (2 v k p)
  then show ?case
    by (cases "json_key v k") (auto simp: json_key_redact sensitive_segment_def descend_redact_all)
next
  case (3 v i p)
  then show ?case
    by (cases "json_index v i") (auto simp: json_index_redact sensitive_segment_def)
qed simp

section \<open>Properties\<close>

text \<open>C11. Redaction keeps the shape of a value and hides everything below a sensitive key: a path reaches
  something in the redacted value exactly when it did before, a scalar reached through a key whose name is
  sensitive is the marker, and a scalar reached through none is unchanged.\<close>

theorem redaction_hides_sensitive_paths:
  "(json_descend (redact_nested v) p = None \<longleftrightarrow> json_descend v p = None) \<and>
   (\<forall>w. json_descend (redact_nested v) p = Some w \<and> is_scalar w \<longrightarrow>
      (if list_ex sensitive_segment p then w = JStr nested_redacted_marker else json_descend v p = Some w))"
proof (intro conjI allI impI)
  show "json_descend (redact_nested v) p = None \<longleftrightarrow> json_descend v p = None"
    by (simp add: descend_redact)
next
  fix w
  assume w: "json_descend (redact_nested v) p = Some w \<and> is_scalar w"
  then obtain u where u: "json_descend v p = Some u"
    and eq: "w = (if list_ex sensitive_segment p then redact_all_leaves u else redact_nested u)"
    by (auto simp: descend_redact)
  show "if list_ex sensitive_segment p then w = JStr nested_redacted_marker else json_descend v p = Some w"
  proof (cases "list_ex sensitive_segment p")
    case True
    with w eq scalar_redact_all show ?thesis by auto
  next
    case False
    with w eq have "redact_nested u = u" by (cases u) (auto simp: is_scalar_def)
    with False u eq show ?thesis by simp
  qed
qed

text \<open>The input fields of a failed step carry no value at all for a workflow that is not bundled, nor when the
  operator switch is set, nor for a field whose name or schema is sensitive; every other field of the plan is
  reported in order with its redacted, size-capped value.\<close>

theorem input_fields_withheld:
  "length (build_step_input_fields X fs flags bundled) = length fs \<and>
   (\<forall>i < length fs. if_field (build_step_input_fields X fs flags bundled ! i) = sf_field (fs ! i) \<and>
      if_value (build_step_input_fields X fs flags bundled ! i) =
        (if \<not> bundled \<or> ex_env_set X ''AGS_TELEMETRY_NO_INPUT_VALUES'' \<or> is_sensitive_name (sf_field (fs ! i)) \<or>
            schema_marks_sensitive (sf_schema (fs ! i)) then None
         else Some (cap_value_size X (redact_nested (sf_value (fs ! i))))))"
  by (simp add: build_step_input_fields_def redact_field_value_def env_telemetry_no_input_values_def)

text \<open>The vocabulary at work: a container named \<open>session\<close> goes dark as a whole.\<close>

lemma redact_example:
  "redact_nested (JObj [(''name'', JStr ''a''), (''session'', JObj [(''id'', JInt 1), (''region'', JStr ''us'')])]) =
   JObj [(''name'', JStr ''a''),
         (''session'', JObj [(''id'', JStr ''<redacted>''), (''region'', JStr ''<redacted>'')])]"
  by code_simp

theorem redaction_hides_sensitive_paths_witness:
  "json_descend (redact_nested (JObj [(''name'', JStr ''a''),
      (''session'', JObj [(''id'', JInt 1), (''region'', JStr ''us'')])])) [Key ''session'', Key ''id''] =
     Some (JStr ''<redacted>'') \<and>
   json_descend (redact_nested (JObj [(''name'', JStr ''a''),
      (''session'', JObj [(''id'', JInt 1), (''region'', JStr ''us'')])])) [Key ''name''] = Some (JStr ''a'')"
  using redaction_hides_sensitive_paths [of "JObj [(''name'', JStr ''a''),
      (''session'', JObj [(''id'', JInt 1), (''region'', JStr ''us'')])]" "[Key ''name'']"]
  unfolding redact_example by (simp add: bget_def)

theorem input_fields_withheld_witness:
  "if_value (build_step_input_fields
     \<lparr>ex_json_text = \<lambda>_. [], ex_is_file = \<lambda>_. None, ex_file_name = \<lambda>_. None, ex_env_set = \<lambda>_. False\<rparr>
     [\<lparr>sf_id = 0, sf_field = ''name'', sf_label = [], sf_description = None, sf_location = LocBody,
       sf_schema = JObj [], sf_value = JStr ''a'', sf_source = SrcLiteral, sf_required = True,
       sf_workflow_input = None, sf_body_overflow = False, sf_show_in_review = False\<rparr>] [] False ! 0) = None"
  using input_fields_withheld [of
     "\<lparr>ex_json_text = \<lambda>_. [], ex_is_file = \<lambda>_. None, ex_file_name = \<lambda>_. None, ex_env_set = \<lambda>_. False\<rparr>"
     "[\<lparr>sf_id = 0, sf_field = ''name'', sf_label = [], sf_description = None, sf_location = LocBody,
       sf_schema = JObj [], sf_value = JStr ''a'', sf_source = SrcLiteral, sf_required = True,
       sf_workflow_input = None, sf_body_overflow = False, sf_show_in_review = False\<rparr>]" "[]" False]
  by simp

end
