(* ===== verification/ExecTypes.thy ===== *)
theory ExecTypes
  imports Display Telemetry Context
begin

text \<open>
  The data the executor exchanges with a frontend and with the runtime: previews, gather and review
  results, run facts and lifecycle events (\<open>ags-protocol/src/workflow.rs\<close>, \<open>event.rs\<close>, \<open>output.rs\<close>,
  \<open>result.rs\<close>), the record of functions that stands for both of them, and the state of a run.
\<close>

section \<open>Outcomes and facts\<close>

datatype step_outcome = StepSuccess | StepFailed | StepCancelled | StepSkipped

datatype run_outcome = RunSuccess | RunFailed | RunCancelled

datatype run_mode = ReviewInputSteps | ReviewEveryStep | RunWithoutStopping

datatype step_outcome_reason =
    AlreadyExists | ToleratedFailure | DeclinedAtReview | DeclinedAtConfirm | DeclinedAfterFailure
  | SchemaLoad | GatherStage | Assembly | Preview | ConfirmStage | Dispatch | Capture | FrontendContract
  | AtBriefing | AtInputGather | AtReview | AtConfirm | AtFailureGate
  | NoInput

definition reason_label :: "step_outcome_reason \<Rightarrow> string" where
  "reason_label r =
     (case r of
        AlreadyExists \<Rightarrow> ''already_exists''
      | ToleratedFailure \<Rightarrow> ''tolerated_failure''
      | DeclinedAtReview \<Rightarrow> ''declined_at_review''
      | DeclinedAtConfirm \<Rightarrow> ''declined_at_confirm''
      | DeclinedAfterFailure \<Rightarrow> ''declined_after_failure''
      | SchemaLoad \<Rightarrow> ''schema_load''
      | GatherStage \<Rightarrow> ''gather''
      | Assembly \<Rightarrow> ''assembly''
      | Preview \<Rightarrow> ''preview''
      | ConfirmStage \<Rightarrow> ''confirm''
      | Dispatch \<Rightarrow> ''dispatch''
      | Capture \<Rightarrow> ''capture''
      | FrontendContract \<Rightarrow> ''frontend_contract''
      | AtBriefing \<Rightarrow> ''at_briefing''
      | AtInputGather \<Rightarrow> ''at_input_gather''
      | AtReview \<Rightarrow> ''at_review''
      | AtConfirm \<Rightarrow> ''at_confirm''
      | AtFailureGate \<Rightarrow> ''at_failure_gate''
      | NoInput \<Rightarrow> ''no_input'')"

record step_error_facts =
  ef_class :: string
  ef_http_status :: "nat option"
  ef_code :: "string option"
  ef_input_fields :: "step_input_field list"

definition from_error :: "runtime_error \<Rightarrow> step_error_facts" where
  "from_error e =
     (let (status, kind_code) = (case re_kind e of Upstream s c \<Rightarrow> (Some s, c) | _ \<Rightarrow> (None, None))
      in \<lparr>ef_class = telemetry_class (re_kind e), ef_http_status = status,
          ef_code = (case kind_code of Some c \<Rightarrow> Some c | None \<Rightarrow> Option.bind (re_details e) ed_code),
          ef_input_fields = []\<rparr>)"

text \<open>Wall-clock durations are not modelled.\<close>

record run_facts =
  rf_run_mode :: "run_mode option"
  rf_reason :: "step_outcome_reason option"
  rf_started :: nat
  rf_succeeded :: nat
  rf_failed :: nat
  rf_skipped :: nat
  rf_cancelled :: nat
  rf_last_step :: "nat option"
  rf_from_flag :: nat
  rf_from_prompt :: nat
  rf_from_default :: nat
  rf_edited :: nat

definition default_run_facts :: run_facts where
  "default_run_facts =
     \<lparr>rf_run_mode = None, rf_reason = None, rf_started = 0, rf_succeeded = 0, rf_failed = 0, rf_skipped = 0,
      rf_cancelled = 0, rf_last_step = None, rf_from_flag = 0, rf_from_prompt = 0, rf_from_default = 0,
      rf_edited = 0\<rparr>"

section \<open>The frontend port\<close>

record collect_outcome =
  co_inputs :: "json bmap"
  co_run_mode :: run_mode

datatype supplied_source = FromFlag | FromDefault

record supplied_input_view =
  siv_label :: string
  siv_value :: json
  siv_schema :: json
  siv_description :: "string option"
  siv_source :: supplied_source
  siv_location :: step_field_location

record gather_result =
  gr_slot_values :: "(nat \<times> json) list"
  gr_input_overrides :: "json bmap"

datatype step_confirm_outcome = ConfirmProceed | ConfirmSkip | ConfirmCancel

datatype step_review_outcome = ReviewProceed "(nat \<times> json) list" | ReviewSkip | ReviewCancel

datatype step_failure_action = FailureRetry | FailureSkip | FailureCancel

section \<open>Previews and outputs\<close>

record command_preview =
  cp_service :: string
  cp_operation_id :: string
  cp_summary :: string
  cp_http_method :: http_method
  cp_url :: string
  cp_mutation_class :: mutation_class
  cp_confirmation_required :: bool
  cp_warnings :: "string list"

record dry_run_result =
  dr_http_method :: http_method
  dr_url :: string
  dr_headers :: "(string \<times> string) list"
  dr_query :: "(string \<times> string) list"
  dr_body :: "request_body option"

record step_preview =
  spv_workflow_name :: string
  spv_step_id :: string
  spv_step_label :: string
  spv_step_index :: nat
  spv_step_total :: nat
  spv_command :: command_preview

datatype step_dry_run_action = DryRequest dry_run_result | DryLocal string json

record step_dry_run_preview =
  sdp_step_id :: string
  sdp_step_index :: nat
  sdp_action :: step_dry_run_action
  sdp_synthesised_outputs :: "json bmap"

text \<open>\<open>CommandOutput\<close>: the variants a workflow run reads or builds; every other variant by its discriminant.\<close>

datatype command_output =
    OutService api_output
  | OutWorkflow string "json bmap" "string list" "workflow_completion_view option" "workflow_output_item list option"
  | OutWorkflowDryRun string "step_dry_run_preview list"
  | OutDryRun dry_run_result
  | OutBinaryWritten binary_written_output
  | OutOther nat

definition discriminant :: "command_output \<Rightarrow> nat" where
  "discriminant out =
     (case out of
        OutService _ \<Rightarrow> 3
      | OutWorkflow _ _ _ _ _ \<Rightarrow> 5
      | OutWorkflowDryRun _ _ \<Rightarrow> 6
      | OutDryRun _ \<Rightarrow> 8
      | OutBinaryWritten _ \<Rightarrow> 24
      | OutOther n \<Rightarrow> n)"

section \<open>Events and effects\<close>

datatype progress_event =
    ProgressStarted string
  | ProgressPage nat "nat option"
  | ProgressMessage string
  | ProgressFinished

record step_finished =
  fin_index :: nat
  fin_id :: string
  fin_summary :: string
  fin_captures :: "(string \<times> string) list"
  fin_outcome :: step_outcome
  fin_reason :: "step_outcome_reason option"
  fin_attempts :: nat
  fin_error :: "step_error_facts option"

datatype workflow_event =
    WorkflowStarted compiled_workflow
  | StepStarted nat string
  | StepFinished step_finished
  | WorkflowFinished run_outcome run_facts
  | Progress "nat option" progress_event

text \<open>
  Everything the executor does to the outside, in order: the events it emits, the questions it asks (with
  the answer where an invariant needs it) and the commands it has the runtime carry out. The number is
  the index of the step on whose behalf it happens.
\<close>

datatype effect =
    Emitted workflow_event
  | AskedBriefing
  | AskedInputs
  | AskedGather nat
  | AskedReview nat "runtime_error + step_review_outcome"
  | AskedConfirm nat "runtime_error + step_confirm_outcome"
  | AskedFailure nat
  | PreviewedCommand nat
  | DryRanCommand nat
  | RanCommand nat command_request
  | RanAction nat bool

section \<open>The world\<close>

text \<open>
  The frontend and the runtime as functions on one world state \<open>'w\<close>. A command returns the progress events
  it reported; they reach the frontend before the executor goes on.
\<close>

record 'w env =
  env_externs :: externs
  env_catalogue :: catalogue
  env_namespace :: "string option"
  env_options :: run_options
  env_on_event :: "workflow_event \<Rightarrow> 'w \<Rightarrow> 'w"
  env_present_briefing :: "workflow_briefing \<Rightarrow> string \<Rightarrow> 'w \<Rightarrow> bool rt \<times> 'w"
  env_collect_inputs :: "workflow_input_spec list \<Rightarrow> json bmap \<Rightarrow> 'w \<Rightarrow> collect_outcome option rt \<times> 'w"
  env_gather_inputs :: "workflow_input_needed list \<Rightarrow> compiled_step \<Rightarrow> supplied_input_view list \<Rightarrow> 'w \<Rightarrow> gather_result rt \<times> 'w"
  env_confirm_step :: "compiled_step \<Rightarrow> step_preview \<Rightarrow> 'w \<Rightarrow> step_confirm_outcome rt \<times> 'w"
  env_review_step :: "step_field_plan \<Rightarrow> 'w \<Rightarrow> step_review_outcome rt \<times> 'w"
  env_resolve_failure :: "compiled_step \<Rightarrow> runtime_error \<Rightarrow> bool \<Rightarrow> 'w \<Rightarrow> step_failure_action rt \<times> 'w"
  env_run_command :: "command_request \<Rightarrow> 'w \<Rightarrow> (progress_event list \<times> command_output rt) \<times> 'w"
  env_preview_command :: "command_request \<Rightarrow> 'w \<Rightarrow> command_preview rt \<times> 'w"
  env_dry_run_command :: "command_request \<Rightarrow> 'w \<Rightarrow> dry_run_result rt \<times> 'w"
  env_run_action :: "string \<Rightarrow> json bmap \<Rightarrow> bool \<Rightarrow> 'w \<Rightarrow> (progress_event list \<times> json rt) \<times> 'w"

record 'w run_state =
  st_world :: 'w
  st_log :: "effect list"
  st_ctx :: workflow_context
  st_supplied :: "json bmap"
  st_summaries :: "string list"
  st_previews :: "step_dry_run_preview list"
  st_facts :: run_facts
  st_pending :: "runtime_error option"

definition logged :: "effect \<Rightarrow> 'w run_state \<Rightarrow> 'w run_state" where
  "logged e st = st\<lparr>st_log := st_log st @ [e]\<rparr>"

definition emit :: "'w env \<Rightarrow> workflow_event \<Rightarrow> 'w run_state \<Rightarrow> 'w run_state" where
  "emit E ev st = logged (Emitted ev) (st\<lparr>st_world := env_on_event E ev (st_world st)\<rparr>)"

definition ask :: "('w \<Rightarrow> 'a \<times> 'w) \<Rightarrow> ('a \<Rightarrow> effect) \<Rightarrow> 'w run_state \<Rightarrow> 'a \<times> 'w run_state" where
  "ask call mk st = (case call (st_world st) of (r, w) \<Rightarrow> (r, logged (mk r) (st\<lparr>st_world := w\<rparr>)))"

text \<open>\<open>ProgressAdapter\<close>: every progress event of a command is forwarded with the index of the step.\<close>

definition forward_progress :: "'w env \<Rightarrow> nat \<Rightarrow> progress_event list \<Rightarrow> 'w run_state \<Rightarrow> 'w run_state" where
  "forward_progress E i evs st = fold (\<lambda>ev. emit E (Progress (Some i) ev)) evs st"

definition perform ::
  "'w env \<Rightarrow> nat \<Rightarrow> ('w \<Rightarrow> (progress_event list \<times> 'a) \<times> 'w) \<Rightarrow> effect \<Rightarrow> 'w run_state \<Rightarrow> 'a \<times> 'w run_state" where
  "perform E i call eff st =
     (case ask call (\<lambda>_. eff) st of ((evs, r), st') \<Rightarrow> (r, forward_progress E i evs st'))"

end
