(* ===== verification/Executor.thy ===== *)
theory Executor
  imports ExecTypes
begin

text \<open>
  The helpers of \<open>ags-runtime/src/runtime/workflows/executor.rs\<close> and \<open>dry_run.rs\<close>: review gating, step
  bookkeeping, failure disposition, previews, the final output, the non-interactive precheck and the
  ordering of gathered inputs.
\<close>

section \<open>Review\<close>

definition resolved_step_review :: "compiled_step \<Rightarrow> compiled_workflow \<Rightarrow> bool" where
  "resolved_step_review step compiled =
     (case sd_is_reviewed step of Some b \<Rightarrow> b | None \<Rightarrow> cw_is_reviewed_by_default compiled)"

definition plan_has_reviewable_fields :: "step_field_plan \<Rightarrow> bool" where
  "plan_has_reviewable_fields plan \<longleftrightarrow>
     list_ex (\<lambda>f. sf_show_in_review f \<or> (sf_required f \<and> sf_source f = SrcUnset)) (sp_fields plan)"

definition should_pause_for_review :: "run_mode \<Rightarrow> bool \<Rightarrow> bool \<Rightarrow> bool \<Rightarrow> step_field_plan \<Rightarrow> bool" where
  "should_pause_for_review mode review_steps step_reviewed force_pause plan \<longleftrightarrow>
     (if \<not> review_steps \<or> \<not> step_reviewed \<or> mode = RunWithoutStopping then False
      else if force_pause then True
      else case mode of
        ReviewEveryStep \<Rightarrow> True
      | ReviewInputSteps \<Rightarrow> plan_has_reviewable_fields plan
      | RunWithoutStopping \<Rightarrow> False)"

definition edit_step :: "step_field_plan \<Rightarrow> nat \<times> json \<Rightarrow> json bmap \<Rightarrow> json bmap" where
  "edit_step plan edit step_local =
     (case edit of (i, v) \<Rightarrow>
        case map_of (rev (map (\<lambda>f. (sf_id f, f)) (sp_fields plan))) i of
          None \<Rightarrow> step_local
        | Some f \<Rightarrow>
            if sf_body_overflow f then (case as_object v of None \<Rightarrow> step_local | Some m \<Rightarrow> bextend step_local m)
            else binsert (sf_field f) v step_local)"

definition apply_step_review_edits :: "step_field_plan \<Rightarrow> (nat \<times> json) list \<Rightarrow> json bmap \<Rightarrow> json bmap" where
  "apply_step_review_edits plan edits step_local = fold (edit_step plan) edits step_local"

section \<open>Step bookkeeping\<close>

definition tally_step_outcome :: "step_outcome \<Rightarrow> run_facts \<Rightarrow> run_facts" where
  "tally_step_outcome outcome facts =
     (case outcome of
        StepSuccess \<Rightarrow> facts\<lparr>rf_succeeded := rf_succeeded facts + 1\<rparr>
      | StepFailed \<Rightarrow> facts\<lparr>rf_failed := rf_failed facts + 1\<rparr>
      | StepSkipped \<Rightarrow> facts\<lparr>rf_skipped := rf_skipped facts + 1\<rparr>
      | StepCancelled \<Rightarrow> facts\<lparr>rf_cancelled := rf_cancelled facts + 1\<rparr>)"

text \<open>Summary, tally and event, in this order; the success path passes its captures.\<close>

definition finish_step ::
  "'w env \<Rightarrow> compiled_step \<Rightarrow> string \<Rightarrow> (string \<times> string) list \<Rightarrow> step_outcome \<Rightarrow> step_outcome_reason option \<Rightarrow>
   nat \<Rightarrow> step_error_facts option \<Rightarrow> 'w run_state \<Rightarrow> 'w run_state" where
  "finish_step E step summary captures outcome reason attempts error st =
     emit E (StepFinished
         \<lparr>fin_index = cs_index step, fin_id = sd_id step, fin_summary = summary, fin_captures = captures,
          fin_outcome = outcome, fin_reason = reason, fin_attempts = attempts, fin_error = error\<rparr>)
       (st\<lparr>st_summaries := st_summaries st @ [summary],
           st_facts := tally_step_outcome outcome (st_facts st)\<rparr>)"

definition finish_step_terminal ::
  "'w env \<Rightarrow> compiled_step \<Rightarrow> string \<Rightarrow> step_outcome \<Rightarrow> step_outcome_reason option \<Rightarrow> nat \<Rightarrow>
   step_error_facts option \<Rightarrow> 'w run_state \<Rightarrow> 'w run_state" where
  "finish_step_terminal E step summary = finish_step E step summary []"

definition skip_step ::
  "'w env \<Rightarrow> compiled_step \<Rightarrow> step_outcome_reason \<Rightarrow> string option \<Rightarrow> nat \<Rightarrow> step_error_facts option \<Rightarrow>
   'w run_state \<Rightarrow> unit rt \<times> 'w run_state" where
  "skip_step E step reason tail attempts error st =
     (case bind_skipped_outputs (sd_id step) (sd_outputs step) (st_ctx st) of (ctx, r) \<Rightarrow>
        let st1 = st\<lparr>st_ctx := ctx\<rparr> in
        case r of
          Inl e \<Rightarrow> (Inl e, st1)
        | Inr _ \<Rightarrow>
            (Inr (), finish_step_terminal E step
               (case tail of
                  Some t \<Rightarrow> sd_id step @ '' skipped '' @ em_dash @ '' '' @ t
                | None \<Rightarrow> sd_id step @ '' skipped'')
               StepSkipped (Some reason) attempts error st1))"

definition step_input_fields_on_failure ::
  "'w env \<Rightarrow> compiled_step \<Rightarrow> workflow_context \<Rightarrow> json bmap \<Rightarrow> json bmap \<Rightarrow> workflow_input_spec list \<Rightarrow>
   service_schema \<Rightarrow> string list \<Rightarrow> string list \<Rightarrow> bool \<Rightarrow> step_input_field list" where
  "step_input_fields_on_failure E step ctx supplied step_local specs schema default_names flag_names bundled =
     (case resolve_step_fields (env_externs E) step ctx supplied step_local specs schema default_names of
        Inl _ \<Rightarrow> []
      | Inr plan \<Rightarrow> build_step_input_fields (env_externs E) (sp_fields plan) flag_names bundled)"

definition supplied_view ::
  "json bmap \<Rightarrow> string list \<Rightarrow> string list \<Rightarrow> workflow_input_spec \<Rightarrow> supplied_input_view option" where
  "supplied_view supplied flag_names default_added spec =
     Option.bind (bget supplied (wi_name spec)) (\<lambda>v.
       if is_null v then None
       else map_option (\<lambda>src.
           \<lparr>siv_label = wi_name spec, siv_value = v,
            siv_schema = (case wi_schema spec of Some s \<Rightarrow> s | None \<Rightarrow> JNull),
            siv_description = wi_description spec, siv_source = src, siv_location = wi_location spec\<rparr>)
         (if wi_name spec \<in> set flag_names then Some FromFlag
          else if wi_name spec \<in> set default_added then Some FromDefault
          else None))"

definition build_supplied_views ::
  "compiled_workflow \<Rightarrow> json bmap \<Rightarrow> string list \<Rightarrow> string list \<Rightarrow> supplied_input_view list" where
  "build_supplied_views compiled supplied flag_names default_added =
     List.map_filter (supplied_view supplied flag_names default_added) (cw_inputs compiled)"

definition capture_shown :: "step_field \<Rightarrow> bool" where
  "capture_shown f =
     (case sf_source f of
        SrcPriorOutput \<Rightarrow> False
      | SrcLiteral \<Rightarrow> sf_show_in_review f
      | SrcWorkflowInput _ \<Rightarrow> True
      | SrcDefault _ \<Rightarrow> True
      | SrcDerived _ \<Rightarrow> True
      | SrcUnset \<Rightarrow> False)"

definition build_step_captures ::
  "'w env \<Rightarrow> compiled_step \<Rightarrow> workflow_context \<Rightarrow> json bmap \<Rightarrow> json bmap \<Rightarrow> workflow_input_spec list \<Rightarrow>
   service_schema \<Rightarrow> string list \<Rightarrow> (string \<times> string) list" where
  "build_step_captures E step ctx supplied step_local specs schema default_names =
     (case resolve_step_fields (env_externs E) step ctx supplied step_local specs schema default_names of
        Inl _ \<Rightarrow> []
      | Inr plan \<Rightarrow>
          map (\<lambda>f. (sf_label f, format_capture_value (env_externs E) (sf_value f)))
            (filter capture_shown (filter (\<lambda>f. \<not> sf_body_overflow f) (sp_fields plan))))"

definition format_step_summary :: "compiled_step \<Rightarrow> json option \<Rightarrow> string" where
  "format_step_summary step body = sd_id step @ '' ok''"

section \<open>Failures\<close>

definition reason_detail :: "runtime_error \<Rightarrow> string option" where
  "reason_detail e =
     (case map_option trim_text (Option.bind (re_details e) ed_reason) of
        Some r \<Rightarrow> if r = [] then None else Some r
      | None \<Rightarrow> None)"

definition error_reason_tail :: "runtime_error \<Rightarrow> string" where
  "error_reason_tail e = (case reason_detail e of Some r \<Rightarrow> r | None \<Rightarrow> re_message e)"

definition has_phrase :: "string \<Rightarrow> bool" where
  "has_phrase s = contains_text ''already exists'' (lower_text s)"

definition is_conflict :: "runtime_error \<Rightarrow> bool" where
  "is_conflict e =
     (case re_kind e of
        Upstream status _ \<Rightarrow>
          status = 409 \<and>
          (has_phrase (re_message e) \<or>
           (case re_details e of
              None \<Rightarrow> False
            | Some d \<Rightarrow>
                (case ed_reason d of None \<Rightarrow> False | Some r \<Rightarrow> has_phrase r) \<or>
                (case ed_detail d of None \<Rightarrow> False | Some r \<Rightarrow> has_phrase r)))
      | _ \<Rightarrow> False)"

definition is_safely_skippable :: "compiled_step \<Rightarrow> bool" where
  "is_safely_skippable step = list_all (\<lambda>out. soc_default out \<noteq> None) (sd_outputs step)"

datatype failure_disposition =
    DispSkip step_outcome_reason "string option"
  | DispRetry
  | DispFatal step_outcome_reason

definition decide_step_failure ::
  "'w env \<Rightarrow> compiled_step \<Rightarrow> runtime_error \<Rightarrow> bool \<Rightarrow> step_outcome_reason \<Rightarrow> 'w run_state \<Rightarrow>
   failure_disposition rt \<times> 'w run_state" where
  "decide_step_failure E step err no_input stage st =
     (if sd_continue_on_failure step then (Inr (DispSkip ToleratedFailure (Some (error_reason_tail err))), st)
      else if sd_skip_if_exists step \<and> is_conflict err then
        (Inr (DispSkip AlreadyExists (Some ''already exists'')), st)
      else if no_input then (Inr (DispFatal stage), st)
      else
        let safe = is_safely_skippable step in
        case ask (env_resolve_failure E step err safe) (\<lambda>_. AskedFailure (cs_index step)) st of
          (Inl e, st') \<Rightarrow> (Inl e, st')
        | (Inr FailureRetry, st') \<Rightarrow> (Inr DispRetry, st')
        | (Inr FailureSkip, st') \<Rightarrow>
            (Inr (if safe then DispSkip DeclinedAfterFailure None else DispFatal FrontendContract), st')
        | (Inr FailureCancel, st') \<Rightarrow> (Inr (DispFatal AtFailureGate), st'))"

section \<open>Previews and final output\<close>

definition build_step_preview ::
  "'w env \<Rightarrow> compiled_workflow \<Rightarrow> compiled_step \<Rightarrow> command_request \<Rightarrow> 'w run_state \<Rightarrow> step_preview rt \<times> 'w run_state" where
  "build_step_preview E compiled step request st =
     (case ask (env_preview_command E request) (\<lambda>_. PreviewedCommand (cs_index step)) st of
        (r, st') \<Rightarrow>
          (and_then r (\<lambda>command. Inr
             \<lparr>spv_workflow_name = cw_name compiled, spv_step_id = sd_id step,
              spv_step_label = (case sd_description step of Some d \<Rightarrow> d | None \<Rightarrow> sd_id step),
              spv_step_index = cs_index step, spv_step_total = length (cw_steps compiled),
              spv_command = command\<rparr>), st'))"

definition placeholder_for_body_path :: "string \<Rightarrow> string \<Rightarrow> json option \<Rightarrow> json" where
  "placeholder_for_body_path step_id output_name dflt =
     (case dflt of
        Some d \<Rightarrow> d
      | None \<Rightarrow> JStr (''<placeholder-'' @ step_id @ ''-'' @ output_name @ ''>''))"

definition synthesise_dry_run_outputs :: "catalogue \<Rightarrow> compiled_step \<Rightarrow> json bmap rt" where
  "synthesise_dry_run_outputs cat step =
     and_then (ok_or (internal_error (step_text step @
        '': API step reached synthesise_dry_run_outputs without an operation'')) (sd_operation step))
     (\<lambda>op_ref. and_then (cat (or_service op_ref))
     (\<lambda>schema. and_then (find_operation_or_error schema op_ref (step_text step))
     (\<lambda>_. Inr (fold (\<lambda>c m. binsert (soc_name c)
                   (placeholder_for_body_path (sd_id step) (soc_name c) (soc_default c)) m) (sd_outputs step) []))))"

definition build_step_dry_run_preview ::
  "'w env \<Rightarrow> compiled_step \<Rightarrow> command_request \<Rightarrow> json bmap \<Rightarrow> 'w run_state \<Rightarrow> step_dry_run_preview rt \<times> 'w run_state" where
  "build_step_dry_run_preview E step request synthesised st =
     (case ask (env_dry_run_command E request) (\<lambda>_. DryRanCommand (cs_index step)) st of
        (r, st') \<Rightarrow>
          (and_then r (\<lambda>command. Inr
             \<lparr>sdp_step_id = sd_id step, sdp_step_index = cs_index step, sdp_action = DryRequest command,
              sdp_synthesised_outputs = synthesised\<rparr>), st'))"

definition build_local_dry_run_preview :: "compiled_step \<Rightarrow> string \<Rightarrow> json \<Rightarrow> json bmap \<Rightarrow> step_dry_run_preview" where
  "build_local_dry_run_preview step action produced synthesised =
     \<lparr>sdp_step_id = sd_id step, sdp_step_index = cs_index step, sdp_action = DryLocal action produced,
      sdp_synthesised_outputs = synthesised\<rparr>"

definition dry_run_output :: "compiled_workflow \<Rightarrow> step_dry_run_preview list \<Rightarrow> command_output" where
  "dry_run_output compiled previews =
     (case (length (cw_steps compiled) = 1, previews) of
        (True, p # _) \<Rightarrow>
          (case sdp_action p of
             DryRequest command \<Rightarrow> OutDryRun command
           | DryLocal _ _ \<Rightarrow> OutWorkflowDryRun (cw_id compiled) previews)
      | _ \<Rightarrow> OutWorkflowDryRun (cw_id compiled) previews)"

definition build_final_output :: "'w env \<Rightarrow> compiled_workflow \<Rightarrow> 'w run_state \<Rightarrow> command_output option" where
  "build_final_output E compiled st =
     (if ro_dry_run (env_options E) then Some (dry_run_output compiled (st_previews st))
      else
        case cw_steps compiled of
          [] \<Rightarrow> None
        | step # rest \<Rightarrow>
            if rest = [] \<and> cw_outputs compiled = [] then
              (case binary_output (st_ctx st) (sd_id step) of
                 Some binary \<Rightarrow> Some (OutBinaryWritten binary)
               | None \<Rightarrow> map_option OutService (step_output (st_ctx st) (sd_id step)))
            else
              Some (OutWorkflow (cw_id compiled)
                (resolve_workflow_outputs (st_ctx st) (cw_outputs compiled))
                (st_summaries st)
                (resolve_completion (ex_object_text (env_externs E)) (cw_completion compiled) (st_supplied st))
                (if list_ex (\<lambda>a. oa_section a \<noteq> None \<or> oa_label a \<noteq> None) (cw_outputs compiled)
                 then Some (resolve_workflow_output_view (st_ctx st) (cw_outputs compiled))
                 else None)))"

end
