(* ===== verification/Precheck.thy ===== *)
theory Precheck
  imports Executor
begin

text \<open>
  What the executor computes before its first step: the \<open>--no-input\<close> precheck and its error, and the
  order and selection of the inputs gathered up front (\<open>executor.rs\<close>, second half).
\<close>

section \<open>The non-interactive precheck\<close>

datatype no_input_violation =
    MissingInput string string
  | ConfirmRequired string
  | StepLocalGather string string

definition precheck_entry ::
  "compiled_step \<Rightarrow> workflow_input_needed \<Rightarrow> no_input_violation list \<times> json bmap \<Rightarrow> no_input_violation list \<times> json bmap" where
  "precheck_entry step entry st =
     (case st of (issues, sim) \<Rightarrow>
        case wn_scope entry of
          ScopeWorkflow name \<Rightarrow> (issues @ [MissingInput name (sd_id step)], binsert name JNull sim)
        | ScopeStepLocal field_name \<Rightarrow> (issues @ [StepLocalGather (sd_id step) field_name], sim))"

definition precheck_step ::
  "workflow_input_spec list \<Rightarrow> bool \<Rightarrow> bool \<Rightarrow> compiled_step \<Rightarrow> no_input_violation list \<times> json bmap \<Rightarrow>
   no_input_violation list \<times> json bmap" where
  "precheck_step specs dry_run assume_yes step st =
     (case fold (precheck_entry step) (compute_needed_inputs step (snd st) specs) st of
        (issues, sim) \<Rightarrow>
          (if sd_confirm step \<and> \<not> dry_run \<and> \<not> assume_yes then issues @ [ConfirmRequired (sd_id step)] else issues, sim))"

definition no_input_precheck ::
  "compiled_workflow \<Rightarrow> json bmap \<Rightarrow> bool \<Rightarrow> bool \<Rightarrow> no_input_violation list" where
  "no_input_precheck compiled supplied dry_run assume_yes =
     fst (fold (precheck_step (cw_inputs compiled) dry_run assume_yes) (cw_steps compiled) ([], supplied))"

definition no_input_violation_code :: "no_input_violation \<Rightarrow> string" where
  "no_input_violation_code v =
     (case v of
        MissingInput _ _ \<Rightarrow> ''no_input.missing_input''
      | ConfirmRequired _ \<Rightarrow> ''no_input.confirm_required''
      | StepLocalGather _ _ \<Rightarrow> ''no_input.step_local_gather'')"

definition violation_line :: "bool \<Rightarrow> no_input_violation \<Rightarrow> string" where
  "violation_line single v =
     (case v of
        MissingInput name first_seen \<Rightarrow>
          if single then ''input '' @ quoted name @ '' is required''
          else ''workflow input '' @ quoted name @ '' is required (first referenced by step '' @ quoted first_seen @ '')''
      | ConfirmRequired step \<Rightarrow>
          if single then ''confirmation is required''
          else ''step '' @ quoted step @ '' requires confirmation; cannot run under --no-input''
      | StepLocalGather step field_name \<Rightarrow>
          if single then ''field '' @ quoted field_name @ '' is unbound; cannot gather under --no-input''
          else ''step '' @ quoted step @ '' field '' @ quoted field_name @ '' is unbound; cannot gather under --no-input'')"

text \<open>At most three lines and a tail, but a tail never stands for a single line.\<close>

definition cap_lines :: "string list \<Rightarrow> string list" where
  "cap_lines ls =
     (if length ls > 3 + 1 then take 3 ls @ [''(+ '' @ show_nat (length ls - 3) @ '' more)''] else ls)"

definition newline :: string where
  "newline = [CHR 0x0A]"

definition no_input_violations_to_error :: "no_input_violation list \<Rightarrow> bool \<Rightarrow> runtime_error" where
  "no_input_violations_to_error violations single =
     \<lparr>re_kind = Validation,
      re_message =
        (if single then ''This command cannot run non-interactively:''
         else ''Cannot run this workflow non-interactively:'') @ newline @ ''  '' @
        join_with (newline @ ''  '') (cap_lines (map (violation_line single) violations)),
      re_details = Some
        \<lparr>ed_code = (case violations of [] \<Rightarrow> None | v # _ \<Rightarrow> Some (no_input_violation_code v)),
         ed_reason = Some ''The run is non-interactive (--no-input, or stdin and stderr are not terminals).'',
         ed_detail = None, ed_suggestion_kind = None, ed_tip = None\<rparr>,
      re_hint = Some (''Pass the missing inputs as --<name> flags (use --yes to skip confirmations), or '' @
        ''run interactively with stdin and stderr attached to a terminal.'')\<rparr>"

section \<open>Inputs gathered up front\<close>

definition usize_max :: nat where
  "usize_max = 2 ^ 64 - 1"

text \<open>The inputs a step uses: those its bindings visit and those its derived fields take from the workflow.\<close>

definition step_uses :: "compiled_step \<Rightarrow> string list" where
  "step_uses step =
     visit_binding_workflow_inputs step @
     List.map_filter (\<lambda>f. case adf_scope f of ScopeWorkflow n \<Rightarrow> Some n | ScopeStepLocal _ \<Rightarrow> None)
       (cs_auto_derived step)"

fun first_use :: "compiled_step list \<Rightarrow> nat \<Rightarrow> string \<Rightarrow> nat" where
  "first_use [] i name = usize_max"
| "first_use (step # steps) i name = (if name \<in> set (step_uses step) then i else first_use steps (i + 1) name)"

definition parameter_input :: "option_parameter_binding \<Rightarrow> string option" where
  "parameter_input b =
     (case b of FromInput n \<Rightarrow> Some n | FromInputOptional n \<Rightarrow> Some n | OptLiteral _ \<Rightarrow> None)"

definition picker_parameters :: "workflow_input_spec \<Rightarrow> string list" where
  "picker_parameters spec =
     (case wi_options_source spec of
        None \<Rightarrow> []
      | Some source \<Rightarrow> List.map_filter (\<lambda>(_, b). parameter_input b) (os_parameters source))"

text \<open>The use keys by name; a picker pulls its dependencies up to its own key.\<close>

definition pull_dependency :: "nat \<Rightarrow> string \<Rightarrow> nat bmap \<Rightarrow> nat bmap" where
  "pull_dependency picker_use dep key =
     (case bget key dep of None \<Rightarrow> key | Some slot \<Rightarrow> binsert dep (min slot picker_use) key)"

definition pull_picker :: "workflow_input_spec \<Rightarrow> nat bmap \<Rightarrow> nat bmap" where
  "pull_picker spec key =
     (let picker_use = (case bget key (wi_name spec) of Some k \<Rightarrow> k | None \<Rightarrow> usize_max)
      in fold (pull_dependency picker_use) (picker_parameters spec) key)"

definition use_keys :: "workflow_input_spec list \<Rightarrow> compiled_step list \<Rightarrow> nat bmap" where
  "use_keys inputs steps =
     fold pull_picker inputs
       (fold (\<lambda>spec m. binsert (wi_name spec) (first_use steps 0 (wi_name spec)) m) inputs [])"

definition order_inputs_by_first_use ::
  "workflow_input_spec list \<Rightarrow> compiled_step list \<Rightarrow> workflow_input_spec list" where
  "order_inputs_by_first_use inputs steps =
     (let key = use_keys inputs steps
      in sort_key (\<lambda>spec. case bget key (wi_name spec) of Some k \<Rightarrow> k | None \<Rightarrow> usize_max) inputs)"

definition picker_referenced :: "workflow_input_spec list \<Rightarrow> string list" where
  "picker_referenced inputs =
     concat (map (\<lambda>spec. picker_parameters spec @
       (case Option.bind (wi_options_source spec) os_label_detail of
          Some (LdByInput input _) \<Rightarrow> [input]
        | _ \<Rightarrow> [])) inputs)"

definition picker_support_input_names :: "workflow_input_spec list \<Rightarrow> compiled_step list \<Rightarrow> string list" where
  "picker_support_input_names inputs steps =
     filter (\<lambda>n. \<not> list_ex (\<lambda>step. n \<in> set (step_uses step)) steps) (picker_referenced inputs)"

definition plain_description :: "workflow_input_spec \<Rightarrow> workflow_input_spec" where
  "plain_description spec =
     (case Option.bind (wi_options_source spec) os_fallback_description of
        Some d \<Rightarrow> spec\<lparr>wi_description := Some d\<rparr>
      | None \<Rightarrow> spec)"

definition gather_inputs_for_surface ::
  "workflow_input_spec list \<Rightarrow> compiled_step list \<Rightarrow> bool \<Rightarrow> workflow_input_spec list" where
  "gather_inputs_for_surface inputs steps pickers_available =
     (let ordered = order_inputs_by_first_use inputs steps
      in if pickers_available then ordered
         else
           let support = picker_support_input_names inputs steps
           in map plain_description (filter (\<lambda>spec. wi_name spec \<notin> set support) ordered))"

end
