(* ===== verification/ExecRun.thy ===== *)
theory ExecRun
  imports Precheck Compiler
begin

text \<open>
  \<open>Executor::execute\<close> of \<open>executor.rs\<close>: the phases before the first step, the step loop for local and API
  steps with its gates and retry loops, and the finalisation. Every question to the frontend and every
  command of the runtime goes through the record \<open>env\<close>; \<open>?\<close> that leaves \<open>execute\<close> is the flow \<open>Escape\<close>.
\<close>

section \<open>Synthesised commands\<close>

text \<open>\<open>is_synthesised_single_command\<close> of \<open>synthesised.rs\<close>.\<close>

definition synthesised_id_prefix :: string where
  "synthesised_id_prefix = ''synth(''"

definition is_synthesised_single_command :: "string \<Rightarrow> bool" where
  "is_synthesised_single_command wid = prefix synthesised_id_prefix wid"

section \<open>Control flow\<close>

datatype step_flow = Continue | Stop run_outcome | Escape runtime_error | OutOfFuel

type_synonym ('w, 'a) phase = "'w run_state \<Rightarrow> (step_flow + 'a) \<times> 'w run_state"

definition then_phase :: "('w, 'a) phase \<Rightarrow> ('a \<Rightarrow> ('w, 'b) phase) \<Rightarrow> ('w, 'b) phase" where
  "then_phase p k st =
     (case p st of
        (Inl fl, st') \<Rightarrow> (Inl fl, st')
      | (Inr a, st') \<Rightarrow> k a st')"

text \<open>What stays fixed during the step loop.\<close>

record 'w run_consts =
  rx_env :: "'w env"
  rx_compiled :: compiled_workflow
  rx_flags :: "string list"
  rx_defaults :: "string list"
  rx_mode :: run_mode

definition rx_options :: "'w run_consts \<Rightarrow> run_options" where
  "rx_options R = env_options (rx_env R)"

definition failure_facts ::
  "'w run_consts \<Rightarrow> compiled_step \<Rightarrow> service_schema \<Rightarrow> json bmap \<Rightarrow> 'w run_state \<Rightarrow> runtime_error \<Rightarrow> step_error_facts" where
  "failure_facts R step schema step_local st err =
     (from_error err)\<lparr>ef_input_fields :=
        step_input_fields_on_failure (rx_env R) step (st_ctx st) (st_supplied st) step_local
          (cw_inputs (rx_compiled R)) schema (rx_defaults R) (rx_flags R) (ro_is_bundled_workflow (rx_options R))\<rparr>"

text \<open>The early exits of a step: a failure with its error, a cancellation, a skip.\<close>

definition fail_step ::
  "'w run_consts \<Rightarrow> compiled_step \<Rightarrow> step_outcome_reason \<Rightarrow> step_error_facts option \<Rightarrow> runtime_error \<Rightarrow> ('w, 'a) phase" where
  "fail_step R step reason facts err st =
     (Inl (Stop RunFailed),
      (finish_step_terminal (rx_env R) step (sd_id step @ '' failed'') StepFailed (Some reason) 0 facts st)
        \<lparr>st_pending := Some err\<rparr>)"

definition cancel_step :: "'w run_consts \<Rightarrow> compiled_step \<Rightarrow> step_outcome_reason \<Rightarrow> ('w, 'a) phase" where
  "cancel_step R step reason st =
     (Inl (Stop RunCancelled),
      finish_step_terminal (rx_env R) step (sd_id step @ '' cancelled'') StepCancelled (Some reason) 0 None st)"

definition leave_skipped ::
  "'w run_consts \<Rightarrow> compiled_step \<Rightarrow> step_outcome_reason \<Rightarrow> string option \<Rightarrow> nat \<Rightarrow> step_error_facts option \<Rightarrow> ('w, 'a) phase" where
  "leave_skipped R step reason tail attempts facts st =
     (case skip_step (rx_env R) step reason tail attempts facts st of
        (Inl e, st') \<Rightarrow> (Inl (Escape e), st')
      | (Inr _, st') \<Rightarrow> (Inl Continue, st'))"

definition escape :: "runtime_error \<Rightarrow> ('w, 'a) phase" where
  "escape e st = (Inl (Escape e), st)"

definition return :: "'a \<Rightarrow> ('w, 'a) phase" where
  "return a st = (Inr a, st)"

section \<open>Attempts and the retry loop\<close>

datatype attempt = AttemptOk string | AttemptFailed runtime_error step_outcome_reason

record step_end =
  se_outcome :: step_outcome
  se_summary :: string
  se_reason :: "step_outcome_reason option"
  se_facts :: "step_error_facts option"
  se_attempts :: nat

definition u32_saturating_succ :: "nat \<Rightarrow> nat" where
  "u32_saturating_succ n = min (n + 1) (2 ^ 32 - 1)"

fun retry_loop ::
  "'w run_consts \<Rightarrow> compiled_step \<Rightarrow> ('w run_state \<Rightarrow> attempt \<times> 'w run_state) \<Rightarrow>
   ('w run_state \<Rightarrow> runtime_error \<Rightarrow> step_error_facts) \<Rightarrow> nat \<Rightarrow> nat \<Rightarrow> ('w, step_end) phase" where
  "retry_loop R step try_once facts_of 0 attempts st = (Inl OutOfFuel, st)"
| "retry_loop R step try_once facts_of (Suc fuel) attempts st =
     (let n = u32_saturating_succ attempts in
      case try_once st of
        (AttemptOk summary, st1) \<Rightarrow>
          (Inr \<lparr>se_outcome = StepSuccess, se_summary = summary, se_reason = None, se_facts = None, se_attempts = n\<rparr>, st1)
      | (AttemptFailed err stage, st1) \<Rightarrow>
          (case decide_step_failure (rx_env R) step err (ro_no_input (rx_options R)) stage st1 of
             (Inl e, st2) \<Rightarrow> (Inl (Escape e), st2)
           | (Inr DispRetry, st2) \<Rightarrow> retry_loop R step try_once facts_of fuel n st2
           | (Inr (DispSkip reason tail), st2) \<Rightarrow> leave_skipped R step reason tail n (Some (facts_of st2 err)) st2
           | (Inr (DispFatal reason), st2) \<Rightarrow>
               (Inr \<lparr>se_outcome = StepFailed, se_summary = sd_id step @ '' failed'', se_reason = Some reason,
                     se_facts = Some (facts_of st2 err), se_attempts = n\<rparr>, st2\<lparr>st_pending := Some err\<rparr>)))"

text \<open>The common tail of a step: record the summary, tally, emit \<open>StepFinished\<close> and stop after a failure.\<close>

definition close_step ::
  "'w run_consts \<Rightarrow> compiled_step \<Rightarrow> ('w run_state \<Rightarrow> (string \<times> string) list) \<Rightarrow> step_end \<Rightarrow> ('w, 'a) phase" where
  "close_step R step captures_of t st =
     (Inl (if se_outcome t = StepFailed then Stop RunFailed else Continue),
      finish_step (rx_env R) step (se_summary t)
        (if se_outcome t = StepSuccess then captures_of st else [])
        (se_outcome t) (se_reason t) (se_attempts t) (se_facts t) st)"

section \<open>Local steps\<close>

definition store_and_bind :: "compiled_step \<Rightarrow> workflow_context \<Rightarrow> workflow_context \<times> unit rt" where
  "store_and_bind step ctx = bind_step_outputs (sd_id step) (sd_outputs step) (step_body_json ctx (sd_id step)) ctx"

definition local_inputs :: "'w run_consts \<Rightarrow> compiled_step \<Rightarrow> ('w, json bmap) phase" where
  "local_inputs R step st =
     (case resolve_local_step_bindings (env_externs (rx_env R)) step (st_ctx st) (st_supplied st) of
        Inl e \<Rightarrow> fail_step R step Assembly None e st
      | Inr resolved \<Rightarrow> return (bextend (st_supplied st) resolved) st)"

definition bound_captures :: "compiled_step \<Rightarrow> workflow_context \<Rightarrow> json bmap" where
  "bound_captures step ctx =
     fold (\<lambda>c m. case resolve_step_reference ctx (sd_id step) (soc_name c) of
                   None \<Rightarrow> m | Some v \<Rightarrow> binsert (soc_name c) v m) (sd_outputs step) []"

definition null_captures :: "compiled_step \<Rightarrow> json bmap" where
  "null_captures step = fold (\<lambda>c m. binsert (soc_name c) JNull m) (sd_outputs step) []"

definition local_dry_run :: "'w run_consts \<Rightarrow> compiled_step \<Rightarrow> string \<Rightarrow> json bmap \<Rightarrow> ('w, 'a) phase" where
  "local_dry_run R step action inputs st =
     (case perform (rx_env R) (cs_index step) (env_run_action (rx_env R) action inputs True)
             (RanAction (cs_index step) True) st of
        (Inl e, st1) \<Rightarrow> fail_step R step Dispatch (Some (from_error e)) e st1
      | (Inr produced, st1) \<Rightarrow>
          let ctx = fst (store_and_bind step (store_local_step_body (sd_id step) produced (st_ctx st1)));
              preview = build_local_dry_run_preview step action produced (bound_captures step ctx);
              st2 = st1\<lparr>st_previews := st_previews st1 @ [preview],
                        st_ctx := inject_step_captures_for_dry_run (sd_id step) (null_captures step) ctx\<rparr>
          in (Inl Continue,
              finish_step_terminal (rx_env R) step (sd_id step @ '' dry-run'') StepSuccess None 1 None st2))"

definition try_action ::
  "'w run_consts \<Rightarrow> compiled_step \<Rightarrow> string \<Rightarrow> json bmap \<Rightarrow> 'w run_state \<Rightarrow> attempt \<times> 'w run_state" where
  "try_action R step action inputs st =
     (case perform (rx_env R) (cs_index step) (env_run_action (rx_env R) action inputs False)
             (RanAction (cs_index step) False) st of
        (Inl e, st1) \<Rightarrow> (AttemptFailed e Dispatch, st1)
      | (Inr body, st1) \<Rightarrow>
          (case store_and_bind step (store_local_step_body (sd_id step) body (st_ctx st1)) of
             (ctx, Inl e) \<Rightarrow> (AttemptFailed e Capture, st1\<lparr>st_ctx := ctx\<rparr>)
           | (ctx, Inr _) \<Rightarrow> (AttemptOk (sd_id step @ '' ok''), st1\<lparr>st_ctx := ctx\<rparr>)))"

definition run_local_step :: "'w run_consts \<Rightarrow> nat \<Rightarrow> compiled_step \<Rightarrow> ('w, 'a) phase" where
  "run_local_step R fuel step =
     (case sd_action step of
        None \<Rightarrow> escape (internal_error (step_text step @ '': local step reached executor without an action''))
      | Some action \<Rightarrow>
          if local_action_lookup action = None then
            escape (internal_error (step_text step @ '': unknown local action '' @ quoted action))
          else
            then_phase (local_inputs R step) (\<lambda>inputs.
              if ro_dry_run (rx_options R) then local_dry_run R step action inputs
              else
                then_phase (retry_loop R step (try_action R step action inputs) (\<lambda>_. from_error) fuel 0)
                  (close_step R step (\<lambda>_. []))))"

section \<open>API steps\<close>

definition load_schema :: "'w run_consts \<Rightarrow> compiled_step \<Rightarrow> ('w, service_schema) phase" where
  "load_schema R step st =
     (case sd_operation step of
        None \<Rightarrow> escape (internal_error (step_text step @ '': API step reached executor without an operation'')) st
      | Some op_ref \<Rightarrow>
          (case env_catalogue (rx_env R) (or_service op_ref) of
             Inl e \<Rightarrow> fail_step R step SchemaLoad (Some (from_error e)) e st
           | Inr schema \<Rightarrow> return schema st))"

text \<open>A failure reported with the resolved input fields of the step.\<close>

definition fail_with_fields ::
  "'w run_consts \<Rightarrow> compiled_step \<Rightarrow> service_schema \<Rightarrow> json bmap \<Rightarrow> step_outcome_reason \<Rightarrow> runtime_error \<Rightarrow> ('w, 'a) phase" where
  "fail_with_fields R step schema step_local reason err st =
     fail_step R step reason (Some (failure_facts R step schema step_local st err)) err st"

definition skip_not_allowed :: "compiled_step \<Rightarrow> runtime_error" where
  "skip_not_allowed step = internal_error (''frontend returned Skip for non-optional step '' @ quoted (sd_id step))"

definition takes_review_path :: "'w run_consts \<Rightarrow> compiled_step \<Rightarrow> bool" where
  "takes_review_path R step \<longleftrightarrow>
     ro_review_steps (rx_options R) \<and>
     (resolved_step_review step (rx_compiled R) \<or> (sd_is_optional step \<and> \<not> sd_confirm step)) \<and>
     rx_mode R \<noteq> RunWithoutStopping"

definition review_phase :: "'w run_consts \<Rightarrow> compiled_step \<Rightarrow> service_schema \<Rightarrow> ('w, json bmap) phase" where
  "review_phase R step schema st =
     (case resolve_step_fields (env_externs (rx_env R)) step (st_ctx st) (st_supplied st) []
             (cw_inputs (rx_compiled R)) schema (rx_defaults R) of
        Inl e \<Rightarrow> escape e st
      | Inr plan \<Rightarrow>
          if should_pause_for_review (rx_mode R) True True (sd_is_optional step \<and> \<not> sd_confirm step) plan then
            (case ask (env_review_step (rx_env R) plan) (AskedReview (cs_index step)) st of
               (Inr (ReviewProceed edits), st1) \<Rightarrow> return (apply_step_review_edits plan edits []) st1
             | (Inr ReviewSkip, st1) \<Rightarrow>
                 if sd_is_optional step then leave_skipped R step DeclinedAtReview None 0 None st1
                 else fail_with_fields R step schema [] FrontendContract (skip_not_allowed step) st1
             | (Inr ReviewCancel, st1) \<Rightarrow> cancel_step R step AtReview st1
             | (Inl e, st1) \<Rightarrow> fail_with_fields R step schema [] GatherStage e st1)
          else return [] st)"

definition gather_entry :: "gather_result \<Rightarrow> workflow_input_needed \<Rightarrow> json bmap \<times> json bmap \<Rightarrow> json bmap \<times> json bmap" where
  "gather_entry g entry st =
     (case st of (supplied, step_local) \<Rightarrow>
        case map_of (gr_slot_values g) (wn_id entry) of
          None \<Rightarrow> (supplied, step_local)
        | Some v \<Rightarrow>
            (case wn_scope entry of
               ScopeWorkflow name \<Rightarrow> (binsert name v supplied, step_local)
             | ScopeStepLocal field_name \<Rightarrow> (supplied, binsert field_name v step_local)))"

definition apply_gather :: "workflow_input_needed list \<Rightarrow> gather_result \<Rightarrow> json bmap \<Rightarrow> json bmap \<times> json bmap" where
  "apply_gather needed g supplied =
     (case fold (gather_entry g) needed (supplied, []) of
        (supplied', step_local) \<Rightarrow> (bextend supplied' (gr_input_overrides g), step_local))"

definition gather_phase :: "'w run_consts \<Rightarrow> compiled_step \<Rightarrow> service_schema \<Rightarrow> ('w, json bmap) phase" where
  "gather_phase R step schema st =
     (let needed = compute_needed_inputs step (st_supplied st) (cw_inputs (rx_compiled R)) in
      if needed = [] then return [] st
      else
        (case ask (env_gather_inputs (rx_env R) needed step
                     (build_supplied_views (rx_compiled R) (st_supplied st) (rx_flags R) (rx_defaults R)))
                (\<lambda>_. AskedGather (cs_index step)) st of
           (Inl e, st1) \<Rightarrow> fail_with_fields R step schema [] GatherStage e st1
         | (Inr g, st1) \<Rightarrow>
             (case apply_gather needed g (st_supplied st1) of
                (supplied, step_local) \<Rightarrow> return step_local (st1\<lparr>st_supplied := supplied\<rparr>))))"

definition assemble_phase ::
  "'w run_consts \<Rightarrow> compiled_step \<Rightarrow> service_schema \<Rightarrow> json bmap \<Rightarrow> ('w, command_request) phase" where
  "assemble_phase R step schema step_local st =
     (case assemble_command_request (env_externs (rx_env R)) step (st_ctx st) (st_supplied st) step_local
             (cw_inputs (rx_compiled R)) schema (env_namespace (rx_env R)) (rx_options R) of
        Inl e \<Rightarrow> fail_with_fields R step schema step_local Assembly e st
      | Inr request \<Rightarrow> return request st)"

definition confirm_gate ::
  "'w run_consts \<Rightarrow> compiled_step \<Rightarrow> service_schema \<Rightarrow> json bmap \<Rightarrow> command_request \<Rightarrow> ('w, unit) phase" where
  "confirm_gate R step schema step_local request st =
     (if sd_confirm step \<and> \<not> ro_assume_yes (rx_options R) \<and> \<not> ro_dry_run (rx_options R) then
        (case build_step_preview (rx_env R) (rx_compiled R) step request st of
           (Inl e, st1) \<Rightarrow> fail_with_fields R step schema step_local Preview e st1
         | (Inr preview, st1) \<Rightarrow>
             (case ask (env_confirm_step (rx_env R) step preview) (AskedConfirm (cs_index step)) st1 of
                (Inr ConfirmProceed, st2) \<Rightarrow> return () st2
              | (Inr ConfirmSkip, st2) \<Rightarrow>
                  if sd_is_optional step then leave_skipped R step DeclinedAtConfirm None 0 None st2
                  else fail_with_fields R step schema step_local FrontendContract (skip_not_allowed step) st2
              | (Inr ConfirmCancel, st2) \<Rightarrow> cancel_step R step AtConfirm st2
              | (Inl e, st2) \<Rightarrow> fail_with_fields R step schema step_local ConfirmStage e st2))
      else return () st)"

definition preview_failed ::
  "'w run_consts \<Rightarrow> compiled_step \<Rightarrow> service_schema \<Rightarrow> json bmap \<Rightarrow> runtime_error \<Rightarrow> ('w, step_end) phase" where
  "preview_failed R step schema step_local e st =
     return \<lparr>se_outcome = StepFailed, se_summary = sd_id step @ '' failed'', se_reason = Some Preview,
             se_facts = Some (failure_facts R step schema step_local st e), se_attempts = 1\<rparr>
       (st\<lparr>st_pending := Some e\<rparr>)"

definition api_dry_run ::
  "'w run_consts \<Rightarrow> compiled_step \<Rightarrow> service_schema \<Rightarrow> json bmap \<Rightarrow> command_request \<Rightarrow> ('w, step_end) phase" where
  "api_dry_run R step schema step_local request st =
     (case synthesise_dry_run_outputs (env_catalogue (rx_env R)) step of
        Inl e \<Rightarrow> preview_failed R step schema step_local e st
      | Inr synthesised \<Rightarrow>
          let st1 = st\<lparr>st_ctx := inject_step_captures_for_dry_run (sd_id step) synthesised (st_ctx st)\<rparr> in
          (case build_step_dry_run_preview (rx_env R) step request synthesised st1 of
             (Inl e, st2) \<Rightarrow> preview_failed R step schema step_local e st2
           | (Inr preview, st2) \<Rightarrow>
               return \<lparr>se_outcome = StepSuccess, se_summary = sd_id step @ '' dry-run'', se_reason = None,
                       se_facts = None, se_attempts = 1\<rparr>
                 (st2\<lparr>st_previews := st_previews st2 @ [preview]\<rparr>)))"

definition unexpected_envelope :: "compiled_step \<Rightarrow> command_output \<Rightarrow> runtime_error" where
  "unexpected_envelope step out =
     internal_error (step_text step @ '' dispatch returned unexpected envelope Discriminant('' @
       show_nat (discriminant out) @ '')'')"

definition try_dispatch ::
  "'w run_consts \<Rightarrow> compiled_step \<Rightarrow> command_request \<Rightarrow> 'w run_state \<Rightarrow> attempt \<times> 'w run_state" where
  "try_dispatch R step request st =
     (case perform (rx_env R) (cs_index step) (env_run_command (rx_env R) request)
             (RanCommand (cs_index step) request) st of
        (Inl e, st1) \<Rightarrow> (AttemptFailed e Dispatch, st1)
      | (Inr out, st1) \<Rightarrow>
          (case out of
             OutService api \<Rightarrow>
               let ctx0 = store_step_output (sd_id step) api (st_ctx st1) in
               (case store_and_bind step ctx0 of
                  (ctx, Inl e) \<Rightarrow> (AttemptFailed e Capture, st1\<lparr>st_ctx := ctx\<rparr>)
                | (ctx, Inr _) \<Rightarrow>
                    (AttemptOk (format_step_summary step (step_body_json ctx0 (sd_id step))), st1\<lparr>st_ctx := ctx\<rparr>))
           | OutBinaryWritten binary \<Rightarrow>
               (AttemptOk (sd_id step @ '' ok''),
                st1\<lparr>st_ctx := store_binary_output (sd_id step) binary (st_ctx st1)\<rparr>)
           | other \<Rightarrow> (AttemptFailed (unexpected_envelope step other) FrontendContract, st1)))"

definition step_captures ::
  "'w run_consts \<Rightarrow> compiled_step \<Rightarrow> service_schema \<Rightarrow> json bmap \<Rightarrow> 'w run_state \<Rightarrow> (string \<times> string) list" where
  "step_captures R step schema step_local st =
     build_step_captures (rx_env R) step (st_ctx st) (st_supplied st) step_local
       (cw_inputs (rx_compiled R)) schema (rx_defaults R)"

definition run_api_step :: "'w run_consts \<Rightarrow> nat \<Rightarrow> compiled_step \<Rightarrow> ('w, 'a) phase" where
  "run_api_step R fuel step =
     then_phase (load_schema R step) (\<lambda>schema.
     then_phase (if takes_review_path R step then review_phase R step schema else gather_phase R step schema) (\<lambda>step_local.
     then_phase (assemble_phase R step schema step_local) (\<lambda>request.
     then_phase (confirm_gate R step schema step_local request) (\<lambda>_.
     then_phase
       (if ro_dry_run (rx_options R) then api_dry_run R step schema step_local request
        else retry_loop R step (try_dispatch R step request) (failure_facts R step schema step_local) fuel 0)
       (close_step R step (step_captures R step schema step_local))))))"

section \<open>The step loop\<close>

definition begin_step :: "'w run_consts \<Rightarrow> compiled_step \<Rightarrow> 'w run_state \<Rightarrow> 'w run_state" where
  "begin_step R step st =
     (let st1 = emit (rx_env R) (StepStarted (cs_index step) (sd_id step)) st
      in st1\<lparr>st_facts := (st_facts st1)\<lparr>rf_started := rf_started (st_facts st1) + 1,
                                       rf_last_step := Some (cs_index step)\<rparr>\<rparr>)"

definition run_step :: "'w run_consts \<Rightarrow> nat \<Rightarrow> compiled_step \<Rightarrow> 'w run_state \<Rightarrow> step_flow \<times> 'w run_state" where
  "run_step R fuel step st =
     (case (case sd_kind step of Local \<Rightarrow> run_local_step R fuel step | Api \<Rightarrow> run_api_step R fuel step)
         (begin_step R step st) :: (step_flow + unit) \<times> 'w run_state of
        (Inl fl, st') \<Rightarrow> (fl, st')
      | (Inr _, st') \<Rightarrow> (Continue, st'))"

fun run_steps :: "'w run_consts \<Rightarrow> nat \<Rightarrow> compiled_step list \<Rightarrow> 'w run_state \<Rightarrow> step_flow \<times> 'w run_state" where
  "run_steps R fuel [] st = (Continue, st)"
| "run_steps R fuel (step # steps) st =
     (case run_step R fuel step st of
        (Continue, st') \<Rightarrow> run_steps R fuel steps st'
      | (fl, st') \<Rightarrow> (fl, st'))"

section \<open>The whole run\<close>

datatype run_result =
    Finished run_outcome "command_output option" "runtime_error option"
  | Raised runtime_error
  | Exhausted

definition initial_state :: "json bmap \<Rightarrow> 'w \<Rightarrow> 'w run_state" where
  "initial_state supplied w =
     \<lparr>st_world = w, st_log = [], st_ctx = new_context, st_supplied = supplied, st_summaries = [],
      st_previews = [], st_facts = default_run_facts, st_pending = None\<rparr>"

definition seed_default :: "workflow_input_spec \<Rightarrow> json bmap \<times> string list \<Rightarrow> json bmap \<times> string list" where
  "seed_default spec st =
     (case st of (supplied, added) \<Rightarrow>
        case (bget supplied (wi_name spec), wi_default spec) of
          (None, Some d) \<Rightarrow> (binsert (wi_name spec) d supplied, added @ [wi_name spec])
        | _ \<Rightarrow> (supplied, added))"

definition seed_defaults :: "workflow_input_spec list \<Rightarrow> json bmap \<Rightarrow> json bmap \<times> string list" where
  "seed_defaults specs supplied = fold seed_default specs (supplied, [])"

definition briefing_phase :: "'w env \<Rightarrow> compiled_workflow \<Rightarrow> 'w run_state \<Rightarrow> run_outcome \<times> 'w run_state" where
  "briefing_phase E compiled st =
     (case cw_briefing compiled of
        None \<Rightarrow> (RunSuccess, st)
      | Some briefing \<Rightarrow>
          if ro_assume_yes (env_options E) then (RunSuccess, st)
          else
            (case ask (env_present_briefing E briefing (cw_name compiled)) (\<lambda>_. AskedBriefing) st of
               (Inr True, st1) \<Rightarrow> (RunSuccess, st1)
             | (Inr False, st1) \<Rightarrow>
                 (RunCancelled, st1\<lparr>st_facts := (st_facts st1)\<lparr>rf_reason := Some AtBriefing\<rparr>\<rparr>)
             | (Inl e, st1) \<Rightarrow> (RunFailed, st1\<lparr>st_pending := Some e\<rparr>)))"

definition collect_phase ::
  "'w env \<Rightarrow> compiled_workflow \<Rightarrow> 'w run_state \<Rightarrow> (run_outcome \<times> run_mode) \<times> 'w run_state" where
  "collect_phase E compiled st =
     (if \<not> ro_review_steps (env_options E) then ((RunSuccess, ReviewInputSteps), st)
      else
        (case ask (env_collect_inputs E
                     (gather_inputs_for_surface (cw_inputs compiled) (cw_steps compiled)
                        (ro_pickers_available (env_options E))) (st_supplied st))
                (\<lambda>_. AskedInputs) st of
           (Inr (Some c), st1) \<Rightarrow>
             ((RunSuccess, co_run_mode c),
              st1\<lparr>st_supplied := bextend (fold (\<lambda>spec. bremove (wi_name spec)) (cw_inputs compiled) (st_supplied st1))
                                   (co_inputs c),
                  st_facts := (st_facts st1)\<lparr>rf_run_mode := Some (co_run_mode c)\<rparr>\<rparr>)
         | (Inr None, st1) \<Rightarrow>
             ((RunCancelled, ReviewInputSteps), st1\<lparr>st_facts := (st_facts st1)\<lparr>rf_reason := Some AtInputGather\<rparr>\<rparr>)
         | (Inl e, st1) \<Rightarrow> ((RunFailed, ReviewInputSteps), st1\<lparr>st_pending := Some e\<rparr>)))"

definition count_provenance ::
  "json bmap \<Rightarrow> json bmap \<Rightarrow> string list \<Rightarrow> string list \<Rightarrow> workflow_input_spec \<Rightarrow> run_facts \<Rightarrow> run_facts" where
  "count_provenance before supplied flags defaults spec facts =
     (case bget supplied (wi_name spec) of
        None \<Rightarrow> facts
      | Some current \<Rightarrow>
          let f1 = (if wi_name spec \<in> set flags then facts\<lparr>rf_from_flag := rf_from_flag facts + 1\<rparr>
                    else if wi_name spec \<in> set defaults then facts\<lparr>rf_from_default := rf_from_default facts + 1\<rparr>
                    else facts\<lparr>rf_from_prompt := rf_from_prompt facts + 1\<rparr>)
          in if bget before (wi_name spec) \<noteq> Some current then f1\<lparr>rf_edited := rf_edited f1 + 1\<rparr> else f1)"

definition finalise :: "'w env \<Rightarrow> compiled_workflow \<Rightarrow> run_outcome \<Rightarrow> 'w run_state \<Rightarrow> run_result \<times> 'w run_state" where
  "finalise E compiled outcome st =
     (let out = (if outcome = RunSuccess then build_final_output E compiled st else None);
          st1 = emit E (WorkflowFinished outcome (st_facts st)) st
      in (Finished outcome out (st_pending st1), st1))"

definition loop_phase ::
  "'w env \<Rightarrow> compiled_workflow \<Rightarrow> string list \<Rightarrow> string list \<Rightarrow> run_mode \<Rightarrow> nat \<Rightarrow> 'w run_state \<Rightarrow> run_result \<times> 'w run_state" where
  "loop_phase E compiled flags defaults mode fuel st =
     (case run_steps \<lparr>rx_env = E, rx_compiled = compiled, rx_flags = flags, rx_defaults = defaults, rx_mode = mode\<rparr>
             fuel (cw_steps compiled) st of
        (Continue, st1) \<Rightarrow> finalise E compiled RunSuccess st1
      | (Stop outcome, st1) \<Rightarrow> finalise E compiled outcome st1
      | (Escape e, st1) \<Rightarrow> (Raised e, st1)
      | (OutOfFuel, st1) \<Rightarrow> (Exhausted, st1))"

definition execute ::
  "'w env \<Rightarrow> compiled_workflow \<Rightarrow> json bmap \<Rightarrow> nat \<Rightarrow> 'w \<Rightarrow> run_result \<times> 'w run_state" where
  "execute E compiled pre_supplied fuel w =
     (let flags = bkeys pre_supplied;
          seeded = seed_defaults (cw_inputs compiled) pre_supplied;
          supplied = fst seeded; defaults = snd seeded;
          violations = no_input_precheck compiled supplied (ro_dry_run (env_options E)) (ro_assume_yes (env_options E))
      in if ro_no_input (env_options E) \<and> violations \<noteq> [] then
           (Raised (no_input_violations_to_error violations (is_synthesised_single_command (cw_id compiled))),
            initial_state supplied w)
         else
           let st0 = emit E (WorkflowStarted compiled) (initial_state supplied w);
               (outcome1, st1) = briefing_phase E compiled st0;
               ((outcome2, mode), st2) =
                 (if outcome1 = RunSuccess then collect_phase E compiled st1 else ((outcome1, ReviewInputSteps), st1));
               st3 = st2\<lparr>st_facts := fold (count_provenance supplied (st_supplied st2) flags defaults)
                            (cw_inputs compiled) (st_facts st2)\<rparr>
           in if outcome2 = RunSuccess then loop_phase E compiled flags defaults mode fuel st3
              else finalise E compiled outcome2 st3)"

end
