(* ===== verification/ExecLaws.thy ===== *)
theory ExecLaws
  imports ExecRun
begin

text \<open>
  What one step of a run does to the state: a phase extends the log by effects it is allowed, and a step
  either closes with exactly one \<open>StepFinished\<close>, tallied and summarised once, or escapes without one.
\<close>

named_theorems phase_rules \<open>what each phase of a step does\<close>

section \<open>Extensions of the log\<close>

definition ext :: "(effect \<Rightarrow> bool) \<Rightarrow> 'w run_state \<Rightarrow> 'w run_state \<Rightarrow> bool" where
  "ext A st st' \<longleftrightarrow>
     (\<exists>mid. st_log st' = st_log st @ mid \<and> list_all A mid) \<and>
     st_facts st' = st_facts st \<and> st_summaries st' = st_summaries st"

lemma ext_refl [simp]: "ext A st st"
  by (simp add: ext_def)

lemma ext_same:
  "st_log st' = st_log st \<Longrightarrow> st_facts st' = st_facts st \<Longrightarrow> st_summaries st' = st_summaries st \<Longrightarrow> ext A st st'"
  by (simp add: ext_def)

lemma ext_trans: "ext A st st1 \<Longrightarrow> ext A st1 st2 \<Longrightarrow> ext A st st2"
  by (auto simp: ext_def)

lemma ext_mono: "ext A st st' \<Longrightarrow> (\<And>e. A e \<Longrightarrow> B e) \<Longrightarrow> ext B st st'"
  by (auto simp: ext_def list_all_iff)

lemma logged_fields [simp]:
  "st_log (logged e st) = st_log st @ [e]" "st_world (logged e st) = st_world st" "st_ctx (logged e st) = st_ctx st"
  "st_supplied (logged e st) = st_supplied st" "st_summaries (logged e st) = st_summaries st"
  "st_previews (logged e st) = st_previews st" "st_facts (logged e st) = st_facts st"
  "st_pending (logged e st) = st_pending st"
  by (simp_all add: logged_def)

lemma emit_fields [simp]:
  "st_log (emit E ev st) = st_log st @ [Emitted ev]" "st_ctx (emit E ev st) = st_ctx st"
  "st_supplied (emit E ev st) = st_supplied st" "st_summaries (emit E ev st) = st_summaries st"
  "st_previews (emit E ev st) = st_previews st" "st_facts (emit E ev st) = st_facts st"
  "st_pending (emit E ev st) = st_pending st"
  by (simp_all add: emit_def)

text \<open>The part of a state that asking and progress leave alone.\<close>

definition same_data :: "'w run_state \<Rightarrow> 'w run_state \<Rightarrow> bool" where
  "same_data st st' \<longleftrightarrow>
     st_ctx st' = st_ctx st \<and> st_supplied st' = st_supplied st \<and> st_summaries st' = st_summaries st \<and>
     st_previews st' = st_previews st \<and> st_facts st' = st_facts st \<and> st_pending st' = st_pending st"

lemma ask_spec:
  assumes "ask call mk st = (r, st')"
  shows "same_data st st'" "st_log st' = st_log st @ [mk r]"
  using assms by (auto simp: ask_def same_data_def split: prod.splits)

lemma forward_progress_spec:
  "same_data st (forward_progress E i evs st) \<and>
   st_log (forward_progress E i evs st) = st_log st @ map (\<lambda>ev. Emitted (Progress (Some i) ev)) evs"
  unfolding forward_progress_def
  by (induction evs arbitrary: st) (simp_all add: same_data_def)

lemma perform_spec:
  assumes "perform E i call eff st = (r, st')"
  shows "same_data st st'"
    "\<exists>evs. st_log st' = st_log st @ eff # map (\<lambda>ev. Emitted (Progress (Some i) ev)) evs"
proof -
  obtain evs st1 where a: "ask call (\<lambda>_. eff) st = ((evs, r), st1)" and st': "st' = forward_progress E i evs st1"
    using assms by (auto simp: perform_def split: prod.splits)
  note s = ask_spec [OF a] and f = forward_progress_spec [of st1 E i evs]
  show "same_data st st'" using s(1) f by (simp add: same_data_def st')
  show "\<exists>evs. st_log st' = st_log st @ eff # map (\<lambda>ev. Emitted (Progress (Some i) ev)) evs"
    using s(2) f by (auto simp: st')
qed

lemma ask_ext:
  "ask call mk st = (r, st') \<Longrightarrow> A (mk r) \<Longrightarrow> ext A st st' \<and> same_data st st'"
  using ask_spec [of call mk st r st'] by (auto simp: ext_def same_data_def)

lemma perform_ext:
  "perform E i call eff st = (r, st') \<Longrightarrow> A eff \<Longrightarrow> (\<And>ev. A (Emitted (Progress (Some i) ev))) \<Longrightarrow>
   ext A st st' \<and> same_data st st'"
  using perform_spec [of E i call eff st r st'] by (auto simp: ext_def same_data_def list_all_iff)

section \<open>Closing a step\<close>

definition closes :: "(effect \<Rightarrow> bool) \<Rightarrow> compiled_step \<Rightarrow> step_outcome \<Rightarrow> 'w run_state \<Rightarrow> 'w run_state \<Rightarrow> bool" where
  "closes A step oc st st' \<longleftrightarrow>
     (\<exists>mid fin. st_log st' = st_log st @ mid @ [Emitted (StepFinished fin)] \<and> list_all A mid \<and>
        fin_index fin = cs_index step \<and> fin_id fin = sd_id step \<and> fin_outcome fin = oc \<and>
        st_summaries st' = st_summaries st @ [fin_summary fin]) \<and>
     st_facts st' = tally_step_outcome oc (st_facts st) \<and>
     (if oc = StepFailed then st_pending st' \<noteq> None else st_pending st' = st_pending st)"

lemma closes_mono: "closes A step oc st st' \<Longrightarrow> (\<And>e. A e \<Longrightarrow> B e) \<Longrightarrow> closes B step oc st st'"
  unfolding closes_def list_all_iff by metis

lemma ext_closes:
  "ext A st st1 \<Longrightarrow> st_pending st1 = st_pending st \<Longrightarrow> closes A step oc st1 st' \<Longrightarrow> closes A step oc st st'"
  unfolding ext_def closes_def by (auto simp: list_all_iff)

lemma finish_step_closes:
  assumes "ext A st st1" "if oc = StepFailed then p \<noteq> None else p = st_pending st"
  shows "closes A step oc st ((finish_step E step summary captures oc reason attempts error st1)\<lparr>st_pending := p\<rparr>)"
  using assms by (auto simp: ext_def closes_def finish_step_def)

lemma finish_step_closes_plain:
  assumes "ext A st st1" "if oc = StepFailed then st_pending st1 \<noteq> None else st_pending st1 = st_pending st"
  shows "closes A step oc st (finish_step E step summary captures oc reason attempts error st1)"
  using assms by (auto simp: ext_def closes_def finish_step_def)

text \<open>
  The result of a phase: a value after an extension (\<open>Q\<close> relates the pending error before and after), or a
  flow, which closed the step in the matching way or left it open.
\<close>

definition phase_spec ::
  "(effect \<Rightarrow> bool) \<Rightarrow> compiled_step \<Rightarrow> ('a \<Rightarrow> runtime_error option \<Rightarrow> runtime_error option \<Rightarrow> bool) \<Rightarrow>
   'w run_state \<Rightarrow> (step_flow + 'a) \<times> 'w run_state \<Rightarrow> bool" where
  "phase_spec A step Q st r =
     (case r of
        (Inr a, st') \<Rightarrow> ext A st st' \<and> Q a (st_pending st) (st_pending st')
      | (Inl Continue, st') \<Rightarrow> closes A step StepSuccess st st' \<or> closes A step StepSkipped st st'
      | (Inl (Stop RunFailed), st') \<Rightarrow> closes A step StepFailed st st'
      | (Inl (Stop RunCancelled), st') \<Rightarrow> closes A step StepCancelled st st'
      | (Inl (Stop RunSuccess), st') \<Rightarrow> False
      | (Inl (Escape e), st') \<Rightarrow> ext A st st'
      | (Inl OutOfFuel, st') \<Rightarrow> ext A st st')"

abbreviation keeps :: "'a \<Rightarrow> runtime_error option \<Rightarrow> runtime_error option \<Rightarrow> bool" where
  "keeps a p p' \<equiv> p' = p"

abbreviation never :: "'a \<Rightarrow> runtime_error option \<Rightarrow> runtime_error option \<Rightarrow> bool" where
  "never a p p' \<equiv> False"

definition end_ok :: "step_end \<Rightarrow> runtime_error option \<Rightarrow> runtime_error option \<Rightarrow> bool" where
  "end_ok t p p' \<longleftrightarrow>
     (case se_outcome t of StepSuccess \<Rightarrow> p' = p | StepFailed \<Rightarrow> p' \<noteq> None | _ \<Rightarrow> False)"

lemma phase_spec_mono:
  "phase_spec A step Q st r \<Longrightarrow> (\<And>e. A e \<Longrightarrow> B e) \<Longrightarrow> phase_spec B step Q st r"
  unfolding phase_spec_def
  by (auto split: prod.splits sum.splits step_flow.splits run_outcome.splits intro: ext_mono closes_mono)

lemma phase_spec_ext:
  assumes "ext A st st1" "st_pending st1 = st_pending st" "phase_spec A step Q st1 r"
  shows "phase_spec A step Q st r"
  using assms unfolding phase_spec_def
  by (auto split: prod.splits sum.splits step_flow.splits run_outcome.splits intro: ext_trans ext_closes)

lemma phase_then:
  assumes "phase_spec A step keeps st (p st)"
    and "\<And>a st1. ext A st st1 \<Longrightarrow> p st = (Inr a, st1) \<Longrightarrow> phase_spec A step Q st1 (k a st1)"
  shows "phase_spec A step Q st (then_phase p k st)"
proof (cases "p st")
  case (Pair r st1)
  show ?thesis
  proof (cases r)
    case (Inl fl)
    with assms(1) Pair show ?thesis
      by (simp add: then_phase_def phase_spec_def split: step_flow.splits run_outcome.splits)
  next
    case (Inr a)
    with assms(1) Pair have "ext A st st1" "st_pending st1 = st_pending st" by (simp_all add: phase_spec_def)
    with assms(2) Pair Inr show ?thesis by (simp add: then_phase_def phase_spec_ext)
  qed
qed

lemma phase_close:
  assumes "phase_spec A step end_ok st (p st)"
  shows "phase_spec A step never st (then_phase p (close_step R step captures) st)"
proof (cases "p st")
  case (Pair r st1)
  show ?thesis
  proof (cases r)
    case (Inl fl)
    with assms Pair show ?thesis
      by (simp add: then_phase_def phase_spec_def split: step_flow.splits run_outcome.splits)
  next
    case (Inr t)
    with assms Pair have e: "ext A st st1" and q: "end_ok t (st_pending st) (st_pending st1)"
      by (simp_all add: phase_spec_def)
    have "closes A step (se_outcome t) st
        (finish_step (rx_env R) step (se_summary t) (if se_outcome t = StepSuccess then captures st1 else [])
           (se_outcome t) (se_reason t) (se_attempts t) (se_facts t) st1)"
      using q by (intro finish_step_closes_plain [OF e]) (auto simp: end_ok_def split: step_outcome.splits)
    then show ?thesis
      using q Pair Inr
      by (auto simp: then_phase_def close_step_def phase_spec_def end_ok_def split: step_outcome.splits)
  qed
qed

lemma return_spec [phase_rules]: "ext A st st1 \<Longrightarrow> st_pending st1 = st_pending st \<Longrightarrow> phase_spec A step keeps st (return a st1)"
  by (simp add: phase_spec_def return_def)

lemma escape_spec [phase_rules]: "ext A st st1 \<Longrightarrow> phase_spec A step Q st (escape e st1)"
  by (simp add: phase_spec_def escape_def)

lemma fail_step_spec [phase_rules]: "ext A st st1 \<Longrightarrow> phase_spec A step Q st (fail_step R step reason facts err st1)"
  unfolding fail_step_def phase_spec_def finish_step_terminal_def by (simp add: finish_step_closes)

lemma fail_with_fields_spec [phase_rules]:
  "ext A st st1 \<Longrightarrow> phase_spec A step Q st (fail_with_fields R step schema loc reason err st1)"
  unfolding fail_with_fields_def by (rule fail_step_spec)

lemma finish_terminal_closes:
  assumes "ext A st st1" "oc \<noteq> StepFailed" "st_pending st1 = st_pending st"
  shows "closes A step oc st (finish_step_terminal E step summary oc reason attempts error st1)"
  using assms(2,3) by (simp add: finish_step_terminal_def finish_step_closes_plain [OF assms(1)])

lemma cancel_step_spec [phase_rules]:
  "ext A st st1 \<Longrightarrow> st_pending st1 = st_pending st \<Longrightarrow> phase_spec A step Q st (cancel_step R step reason st1)"
  unfolding cancel_step_def phase_spec_def by (simp add: finish_terminal_closes)

lemma leave_skipped_spec [phase_rules]:
  assumes "ext A st st1" "st_pending st1 = st_pending st"
  shows "phase_spec A step Q st (leave_skipped R step reason tail attempts facts st1)"
proof -
  have "ext A st (st1\<lparr>st_ctx := ctx\<rparr>)" for ctx using assms(1) by (simp add: ext_def)
  then show ?thesis using assms(2)
    by (auto simp: leave_skipped_def skip_step_def phase_spec_def Let_def finish_terminal_closes
        split: prod.splits sum.splits)
qed

lemma step_end_spec [phase_rules]:
  "ext A st st' \<Longrightarrow> se_outcome t = StepSuccess \<Longrightarrow> st_pending st' = st_pending st \<Longrightarrow>
   phase_spec A step end_ok st (Inr t, st')"
  "ext A st st' \<Longrightarrow> se_outcome t = StepFailed \<Longrightarrow> st_pending st' \<noteq> None \<Longrightarrow>
   phase_spec A step end_ok st (Inr t, st')"
  by (simp_all add: phase_spec_def end_ok_def)

lemma escape_flow_spec [phase_rules]: "ext A st st' \<Longrightarrow> phase_spec A step Q st (Inl (Escape e), st')"
  by (simp add: phase_spec_def)

section \<open>The phases\<close>

lemma load_schema_spec [phase_rules]: "phase_spec A step keeps st (load_schema R step st)"
  unfolding load_schema_def by (auto intro: phase_rules split: option.split sum.split)

lemma review_phase_spec [phase_rules]:
  assumes "\<And>r. A (AskedReview (cs_index step) r)"
  shows "phase_spec A step keeps st (review_phase R step schema st)"
proof (cases "resolve_step_fields (env_externs (rx_env R)) step (st_ctx st) (st_supplied st) []
    (cw_inputs (rx_compiled R)) schema (rx_defaults R)")
  case (Inr plan)
  obtain r st1 where a: "ask (env_review_step (rx_env R) plan) (AskedReview (cs_index step)) st = (r, st1)"
    by (meson surj_pair)
  then have "ext A st st1" "st_pending st1 = st_pending st"
    using ask_ext [OF a, of A] assms by (simp_all add: same_data_def)
  with a Inr show ?thesis
    by (auto simp: review_phase_def intro: phase_rules split: sum.split step_review_outcome.split)
qed (auto simp: review_phase_def intro: phase_rules)

lemma gather_phase_spec [phase_rules]:
  assumes "compute_needed_inputs step (st_supplied st) (cw_inputs (rx_compiled R)) \<noteq> [] \<Longrightarrow> A (AskedGather (cs_index step))"
  shows "phase_spec A step keeps st (gather_phase R step schema st)"
proof (cases "compute_needed_inputs step (st_supplied st) (cw_inputs (rx_compiled R)) = []")
  case False
  let ?needed = "compute_needed_inputs step (st_supplied st) (cw_inputs (rx_compiled R))"
  let ?views = "build_supplied_views (rx_compiled R) (st_supplied st) (rx_flags R) (rx_defaults R)"
  obtain r st1 where a: "ask (env_gather_inputs (rx_env R) ?needed step ?views) (\<lambda>_. AskedGather (cs_index step)) st = (r, st1)"
    by (meson surj_pair)
  then have e: "ext A st st1" "st_pending st1 = st_pending st"
    using ask_ext [OF a, of A] assms [OF False] by (simp_all add: same_data_def)
  then have "ext A st (st1\<lparr>st_supplied := m\<rparr>)" for m by (simp add: ext_def)
  with a e False show ?thesis
    by (auto simp: gather_phase_def Let_def intro: phase_rules split: sum.split prod.split)
qed (auto simp: gather_phase_def intro: phase_rules)

lemma assemble_phase_spec [phase_rules]: "phase_spec A step keeps st (assemble_phase R step schema loc st)"
  unfolding assemble_phase_def by (auto intro: phase_rules split: sum.split)

definition needs_confirm :: "'w run_consts \<Rightarrow> compiled_step \<Rightarrow> bool" where
  "needs_confirm R step \<longleftrightarrow> sd_confirm step \<and> \<not> ro_assume_yes (rx_options R) \<and> \<not> ro_dry_run (rx_options R)"

lemma confirm_gate_spec [phase_rules]:
  assumes "needs_confirm R step \<Longrightarrow> A (PreviewedCommand (cs_index step))"
    and "\<And>r. needs_confirm R step \<Longrightarrow> A (AskedConfirm (cs_index step) r)"
  shows "phase_spec A step keeps st (confirm_gate R step schema loc request st)"
proof (cases "needs_confirm R step")
  case True
  obtain r st1 where b: "build_step_preview (rx_env R) (rx_compiled R) step request st = (r, st1)" by (meson surj_pair)
  then obtain q where "ask (env_preview_command (rx_env R) request) (\<lambda>_. PreviewedCommand (cs_index step)) st = (q, st1)"
    by (auto simp: build_step_preview_def split: prod.splits)
  from ask_ext [OF this, of A] have e1: "ext A st st1" "st_pending st1 = st_pending st"
    using assms(1) [OF True] by (simp_all add: same_data_def)
  show ?thesis
  proof (cases r)
    case (Inl e)
    with b e1 True show ?thesis by (auto simp: confirm_gate_def needs_confirm_def intro: phase_rules)
  next
    case (Inr preview)
    obtain c st2 where a: "ask (env_confirm_step (rx_env R) step preview) (AskedConfirm (cs_index step)) st1 = (c, st2)"
      by (meson surj_pair)
    from ask_ext [OF a, of A] have "ext A st st2" "st_pending st2 = st_pending st"
      using assms(2) [OF True] e1 by (auto simp: same_data_def intro: ext_trans)
    with a b Inr True show ?thesis
      by (auto simp: confirm_gate_def needs_confirm_def intro: phase_rules split: sum.split step_confirm_outcome.split)
  qed
qed (auto simp: confirm_gate_def needs_confirm_def intro: phase_rules)

lemma preview_failed_spec [phase_rules]:
  "ext A st st1 \<Longrightarrow> phase_spec A step end_ok st (preview_failed R step schema loc e st1)"
  unfolding preview_failed_def return_def by (rule step_end_spec(2)) (simp_all add: ext_def)

lemma api_dry_run_spec [phase_rules]:
  assumes "A (DryRanCommand (cs_index step))"
  shows "phase_spec A step end_ok st (api_dry_run R step schema loc request st)"
proof (cases "synthesise_dry_run_outputs (env_catalogue (rx_env R)) step")
  case (Inr synthesised)
  let ?st1 = "st\<lparr>st_ctx := inject_step_captures_for_dry_run (sd_id step) synthesised (st_ctx st)\<rparr>"
  obtain r st2 where b: "build_step_dry_run_preview (rx_env R) step request synthesised ?st1 = (r, st2)" by (meson surj_pair)
  then obtain q where "ask (env_dry_run_command (rx_env R) request) (\<lambda>_. DryRanCommand (cs_index step)) ?st1 = (q, st2)"
    by (auto simp: build_step_dry_run_preview_def split: prod.splits)
  from ask_ext [OF this, of A] have "ext A ?st1 st2" "st_pending st2 = st_pending st"
    using assms by (simp_all add: same_data_def)
  then have e: "ext A st st2" "st_pending st2 = st_pending st" by (simp_all add: ext_def)
  then have "ext A st (st2\<lparr>st_previews := ps\<rparr>)" for ps by (simp add: ext_def)
  with b Inr e show ?thesis
    by (auto simp: api_dry_run_def Let_def return_def intro: phase_rules split: sum.split)
qed (auto simp: api_dry_run_def intro: phase_rules)

lemma decide_spec:
  assumes "decide_step_failure E step err no_input stage st = (r, st')" "\<not> no_input \<Longrightarrow> A (AskedFailure (cs_index step))"
  shows "ext A st st' \<and> same_data st st'"
proof -
  have id: "ext A st st \<and> same_data st st" by (simp add: same_data_def)
  show ?thesis
  proof (cases "sd_continue_on_failure step \<or> (sd_skip_if_exists step \<and> is_conflict err) \<or> no_input")
    case True
    with assms(1) id show ?thesis by (auto simp: decide_step_failure_def split: if_splits)
  next
    case False
    obtain q st1 where a: "ask (env_resolve_failure E step err (is_safely_skippable step))
        (\<lambda>_. AskedFailure (cs_index step)) st = (q, st1)" by (meson surj_pair)
    with assms(1) False have "st' = st1"
      by (auto simp: decide_step_failure_def Let_def split: if_splits sum.splits step_failure_action.splits)
    with ask_ext [OF a, of A] assms(2) False show ?thesis by simp
  qed
qed

lemma retry_loop_spec [phase_rules]:
  assumes attempt: "\<And>st a st'. try_once st = (a, st') \<Longrightarrow> ext A st st' \<and> st_pending st' = st_pending st"
    and ask: "\<not> ro_no_input (rx_options R) \<Longrightarrow> A (AskedFailure (cs_index step))"
  shows "phase_spec A step end_ok st (retry_loop R step try_once facts_of fuel n st)"
proof (induction fuel arbitrary: n st)
  case 0
  show ?case by (simp add: phase_spec_def)
next
  case (Suc fuel)
  obtain a st1 where t: "try_once st = (a, st1)" by (meson surj_pair)
  note e1 = attempt [OF t]
  show ?case
  proof (cases a)
    case (AttemptOk summary)
    with t e1 show ?thesis by (simp add: Let_def phase_spec_def end_ok_def)
  next
    case (AttemptFailed err stage)
    obtain d st2 where d: "decide_step_failure (rx_env R) step err (ro_no_input (rx_options R)) stage st1 = (d, st2)"
      by (meson surj_pair)
    from decide_spec [OF d, of A] ask have e2: "ext A st1 st2" "st_pending st2 = st_pending st1"
      by (auto simp: same_data_def)
    with e1 have e: "ext A st st2" "st_pending st2 = st_pending st" by (auto intro: ext_trans)
    have "ext A st (st2\<lparr>st_pending := Some err\<rparr>)" using e(1) by (simp add: ext_def)
    moreover have "phase_spec A step end_ok st (retry_loop R step try_once facts_of fuel (u32_saturating_succ n) st2)"
      using phase_spec_ext [OF e Suc.IH] .
    moreover have "phase_spec A step end_ok st (leave_skipped R step reason tail k facts st2)" for reason tail k facts
      using leave_skipped_spec [OF e] .
    ultimately show ?thesis
      using t d AttemptFailed e
      by (auto simp: Let_def intro: phase_rules split: sum.split failure_disposition.split)
  qed
qed

lemma try_action_spec:
  assumes "try_action R step action inputs st = (a, st')" "A (RanAction (cs_index step) False)"
    and "\<And>ev. A (Emitted (Progress (Some (cs_index step)) ev))"
  shows "ext A st st' \<and> st_pending st' = st_pending st"
proof -
  obtain r st1 where p: "perform (rx_env R) (cs_index step) (env_run_action (rx_env R) action inputs False)
      (RanAction (cs_index step) False) st = (r, st1)" by (meson surj_pair)
  from perform_ext [OF p, of A] assms(2,3) have "ext A st st1" "st_pending st1 = st_pending st"
    by (auto simp: same_data_def)
  with p assms(1) show ?thesis
    by (auto simp: try_action_def ext_def split: sum.splits prod.splits)
qed

lemma try_dispatch_spec:
  assumes "try_dispatch R step request st = (a, st')" "A (RanCommand (cs_index step) request)"
    and "\<And>ev. A (Emitted (Progress (Some (cs_index step)) ev))"
  shows "ext A st st' \<and> st_pending st' = st_pending st"
proof -
  obtain r st1 where p: "perform (rx_env R) (cs_index step) (env_run_command (rx_env R) request)
      (RanCommand (cs_index step) request) st = (r, st1)" by (meson surj_pair)
  from perform_ext [OF p, of A] assms(2,3) have "ext A st st1" "st_pending st1 = st_pending st"
    by (auto simp: same_data_def)
  with p assms(1) show ?thesis
    by (auto simp: try_dispatch_def ext_def Let_def split: sum.splits prod.splits command_output.splits)
qed

section \<open>A whole step\<close>

text \<open>What the executor may do on behalf of a step, given the options of the run.\<close>

definition step_effect :: "'w run_consts \<Rightarrow> compiled_step \<Rightarrow> effect \<Rightarrow> bool" where
  "step_effect R step e =
     (case e of
        Emitted ev \<Rightarrow> (case ev of Progress (Some i) _ \<Rightarrow> i = cs_index step | _ \<Rightarrow> False)
      | AskedBriefing \<Rightarrow> False
      | AskedInputs \<Rightarrow> False
      | AskedGather i \<Rightarrow> i = cs_index step \<and> sd_kind step = Api \<and> \<not> takes_review_path R step
      | AskedReview i _ \<Rightarrow> i = cs_index step \<and> sd_kind step = Api \<and> takes_review_path R step
      | AskedConfirm i _ \<Rightarrow> i = cs_index step \<and> sd_kind step = Api \<and> needs_confirm R step
      | AskedFailure i \<Rightarrow> i = cs_index step \<and> \<not> ro_no_input (rx_options R) \<and> \<not> ro_dry_run (rx_options R)
      | PreviewedCommand i \<Rightarrow> i = cs_index step \<and> sd_kind step = Api \<and> needs_confirm R step
      | DryRanCommand i \<Rightarrow> i = cs_index step \<and> sd_kind step = Api \<and> ro_dry_run (rx_options R)
      | RanCommand i _ \<Rightarrow> i = cs_index step \<and> sd_kind step = Api \<and> \<not> ro_dry_run (rx_options R)
      | RanAction i dry \<Rightarrow> i = cs_index step \<and> sd_kind step = Local \<and> dry = ro_dry_run (rx_options R))"

lemma local_inputs_spec [phase_rules]: "phase_spec A step keeps st (local_inputs R step st)"
  unfolding local_inputs_def by (auto intro: phase_rules split: sum.split)

lemma local_dry_run_spec [phase_rules]:
  assumes "A (RanAction (cs_index step) True)" "\<And>ev. A (Emitted (Progress (Some (cs_index step)) ev))"
  shows "phase_spec A step Q st (local_dry_run R step action inputs st)"
proof -
  obtain r st1 where p: "perform (rx_env R) (cs_index step) (env_run_action (rx_env R) action inputs True)
      (RanAction (cs_index step) True) st = (r, st1)" by (meson surj_pair)
  from perform_ext [OF p, of A] assms have e: "ext A st st1" "st_pending st1 = st_pending st"
    by (auto simp: same_data_def)
  show ?thesis
  proof (cases r)
    case (Inl err)
    with p e show ?thesis by (auto simp: local_dry_run_def intro: phase_rules)
  next
    case (Inr produced)
    have "ext A st (st1\<lparr>st_previews := ps, st_ctx := ctx\<rparr>)" for ps ctx
      using e(1) by (simp add: ext_def)
    with p Inr e show ?thesis
      by (auto simp: local_dry_run_def Let_def phase_spec_def intro!: finish_terminal_closes)
  qed
qed

lemma run_local_step_spec:
  assumes "sd_kind step = Local"
  shows "phase_spec (step_effect R step) step never st (run_local_step R fuel step st)"
proof (cases "sd_action step")
  case (Some action)
  show ?thesis
  proof (cases "local_action_lookup action")
    case (Some declared)
    have dry: "phase_spec (step_effect R step) step never st1 (local_dry_run R step action inputs st1)"
      if "ro_dry_run (rx_options R)" for inputs st1
      using that assms by (intro phase_rules) (simp_all add: step_effect_def)
    have live: "phase_spec (step_effect R step) step never st1
        (then_phase (retry_loop R step (try_action R step action inputs) (\<lambda>_. from_error) fuel 0)
          (close_step R step (\<lambda>_. [])) st1)" if "\<not> ro_dry_run (rx_options R)" for inputs st1
    proof (intro phase_close retry_loop_spec)
      show "ext (step_effect R step) st st' \<and> st_pending st' = st_pending st"
        if "try_action R step action inputs st = (a, st')" for st a st'
        using try_action_spec [OF that] \<open>\<not> ro_dry_run (rx_options R)\<close> assms by (simp add: step_effect_def)
    qed (use that in \<open>simp add: step_effect_def\<close>)
    show ?thesis
      unfolding run_local_step_def using \<open>sd_action step = Some action\<close> Some
      by (auto intro!: phase_then phase_rules dry live)
  qed (auto simp: run_local_step_def Some intro: phase_rules)
qed (auto simp: run_local_step_def intro: phase_rules)

lemma dispatch_phase_spec:
  assumes "A (RanCommand (cs_index step) request) \<or> ro_dry_run (rx_options R)"
    and "ro_dry_run (rx_options R) \<Longrightarrow> A (DryRanCommand (cs_index step))"
    and "\<And>ev. A (Emitted (Progress (Some (cs_index step)) ev))"
    and "\<not> ro_dry_run (rx_options R) \<Longrightarrow> \<not> ro_no_input (rx_options R) \<Longrightarrow> A (AskedFailure (cs_index step))"
  shows "phase_spec A step end_ok st
    ((if ro_dry_run (rx_options R) then api_dry_run R step schema loc request
      else retry_loop R step (try_dispatch R step request) (failure_facts R step schema loc) fuel 0) st)"
proof (cases "ro_dry_run (rx_options R)")
  case True
  with assms(2) show ?thesis by (auto intro: phase_rules)
next
  case False
  have "ext A st st' \<and> st_pending st' = st_pending st" if "try_dispatch R step request st = (a, st')" for st a st'
    using try_dispatch_spec [OF that] assms(1,3) False by blast
  with False assms(4) show ?thesis by (auto intro!: retry_loop_spec)
qed

lemma run_api_step_spec:
  assumes "sd_kind step = Api"
  shows "phase_spec (step_effect R step) step never st (run_api_step R fuel step st)"
proof -
  have inputs: "phase_spec (step_effect R step) step keeps st1
      ((if takes_review_path R step then review_phase R step schema else gather_phase R step schema) st1)" for schema st1
    using assms by (auto intro!: phase_rules simp: step_effect_def)
  have gate: "phase_spec (step_effect R step) step keeps st1 (confirm_gate R step schema loc request st1)" for schema loc request st1
    using assms by (intro phase_rules) (simp_all add: step_effect_def)
  have last: "phase_spec (step_effect R step) step end_ok st1
      ((if ro_dry_run (rx_options R) then api_dry_run R step schema loc request
        else retry_loop R step (try_dispatch R step request) (failure_facts R step schema loc) fuel 0) st1)"
    for schema loc request st1
    using assms by (intro dispatch_phase_spec) (simp_all add: step_effect_def)
  show ?thesis
    unfolding run_api_step_def
    by (intro phase_then phase_close load_schema_spec inputs assemble_phase_spec gate last)
qed

section \<open>The step loop\<close>

definition step_begin_end :: "compiled_step \<Rightarrow> step_outcome \<Rightarrow> effect list \<Rightarrow> bool" where
  "step_begin_end step oc seg \<longleftrightarrow> (\<exists>mid fin. seg = Emitted (StepStarted (cs_index step) (sd_id step)) # mid @ [Emitted (StepFinished fin)] \<and>
     fin_index fin = cs_index step \<and> fin_outcome fin = oc)"

definition goes_on :: "step_outcome \<Rightarrow> bool" where
  "goes_on oc \<longleftrightarrow> oc = StepSuccess \<or> oc = StepSkipped"

definition flow_outcome :: "step_flow \<Rightarrow> step_outcome \<Rightarrow> bool" where
  "flow_outcome fl oc =
     (case fl of
        Continue \<Rightarrow> goes_on oc
      | Stop RunFailed \<Rightarrow> oc = StepFailed
      | Stop RunCancelled \<Rightarrow> oc = StepCancelled
      | _ \<Rightarrow> False)"

lemma begin_step_fields [simp]:
  "st_log (begin_step R step st) = st_log st @ [Emitted (StepStarted (cs_index step) (sd_id step))]"
  "st_summaries (begin_step R step st) = st_summaries st" "st_pending (begin_step R step st) = st_pending st"
  "st_facts (begin_step R step st) = (st_facts st)\<lparr>rf_started := rf_started (st_facts st) + 1, rf_last_step := Some (cs_index step)\<rparr>"
  "st_ctx (begin_step R step st) = st_ctx st" "st_supplied (begin_step R step st) = st_supplied st"
  by (simp_all add: begin_step_def Let_def)

lemma run_step_phase:
  assumes "run_step R fuel step st = (fl, st')"
  shows "phase_spec (step_effect R step) step never (begin_step R step st) (Inl fl :: step_flow + unit, st')"
proof -
  have "phase_spec (step_effect R step) step never (begin_step R step st)
      ((case sd_kind step of Local \<Rightarrow> run_local_step R fuel step | Api \<Rightarrow> run_api_step R fuel step) (begin_step R step st)
         :: (step_flow + unit) \<times> _)"
    by (cases "sd_kind step") (simp_all add: run_local_step_spec run_api_step_spec)
  with assms show ?thesis
    by (auto simp: run_step_def phase_spec_def split: prod.splits sum.splits)
qed

text \<open>A step that ends closes with one outcome; one that escapes leaves only allowed effects.\<close>

lemma run_step_closes:
  assumes "run_step R fuel step st = (fl, st')"
  shows "case fl of
      Continue \<Rightarrow> \<exists>oc. flow_outcome fl oc \<and> closes (step_effect R step) step oc (begin_step R step st) st'
    | Stop _ \<Rightarrow> \<exists>oc. flow_outcome fl oc \<and> closes (step_effect R step) step oc (begin_step R step st) st'
    | _ \<Rightarrow> ext (step_effect R step) (begin_step R step st) st'"
  using run_step_phase [OF assms]
  by (auto simp: phase_spec_def flow_outcome_def goes_on_def split: step_flow.splits run_outcome.splits)

section \<open>Relations a step keeps\<close>

text \<open>
  A step touches the context only at its own id and the supplied inputs only by a gather it needs. A
  relation on states that tolerates these two kinds of change is kept by the whole step.
\<close>

definition frame_ctx :: "string \<Rightarrow> workflow_context \<Rightarrow> workflow_context \<Rightarrow> bool" where
  "frame_ctx sid ctx ctx' \<longleftrightarrow>
     (\<forall>sid' n. sid' \<noteq> sid \<longrightarrow> resolve_step_reference ctx' sid' n = resolve_step_reference ctx sid' n)"

lemma frame_ctx_refl [simp]: "frame_ctx sid ctx ctx"
  by (simp add: frame_ctx_def)

lemma frame_ctx_trans: "frame_ctx sid a b \<Longrightarrow> frame_ctx sid b c \<Longrightarrow> frame_ctx sid a c"
  by (simp add: frame_ctx_def)

lemma frame_ctx_ops [simp]:
  "frame_ctx sid ctx (store_step_output sid out ctx)"
  "frame_ctx sid ctx (store_local_step_body sid v ctx)"
  "frame_ctx sid ctx (store_binary_output sid b ctx)"
  "frame_ctx sid ctx (inject_step_captures_for_dry_run sid m ctx)"
  by (simp_all add: frame_ctx_def store_step_output_def store_local_step_body_def store_binary_output_def
      inject_step_captures_for_dry_run_def resolve_step_reference_def bget_binsert)

lemma frame_ctx_bind:
  "bind_step_outputs sid cs body ctx = (ctx', r) \<Longrightarrow> frame_ctx sid ctx ctx'"
  "bind_skipped_outputs sid cs ctx = (ctx', r) \<Longrightarrow> frame_ctx sid ctx ctx'"
  unfolding bind_step_outputs_def bind_skipped_outputs_def frame_ctx_def
  by (intro allI impI, erule (1) bind_entry_frame)+

locale step_relation =
  fixes R :: "'w run_consts" and step :: compiled_step and T :: "'w run_state \<Rightarrow> 'w run_state \<Rightarrow> bool"
  assumes trans: "T a b \<Longrightarrow> T b c \<Longrightarrow> T a c"
    and step_own: "st_supplied st' = st_supplied st \<Longrightarrow> frame_ctx (sd_id step) (st_ctx st) (st_ctx st') \<Longrightarrow> T st st'"
    and gathers: "compute_needed_inputs step (st_supplied st) (cw_inputs (rx_compiled R)) \<noteq> [] \<Longrightarrow>
      T st (st\<lparr>st_supplied := m\<rparr>)"
begin

lemma same: "same_data st st' \<Longrightarrow> T st st'"
  by (rule step_own) (simp_all add: same_data_def)

lemma kept: "st_supplied st' = st_supplied st \<Longrightarrow> st_ctx st' = st_ctx st \<Longrightarrow> T st st'"
  by (rule step_own) simp_all

lemma then_kept:
  assumes "T st (snd (p st))" "\<And>a st1. p st = (Inr a, st1) \<Longrightarrow> T st1 (snd (k a st1))"
  shows "T st (snd (then_phase p k st))"
proof (cases "p st")
  case (Pair r st1)
  with assms show ?thesis by (cases r) (auto simp: then_phase_def intro: trans)
qed

lemma exits:
  "T st (snd (fail_step R step reason facts err st))"
  "T st (snd (cancel_step R step reason st))"
  "T st (snd (fail_with_fields R step schema loc reason err st))"
  "T st (snd (escape e st))"
  "T st (snd (return a st))"
  "T st (snd (close_step R step caps t st))"
  by (rule kept; simp add: fail_step_def cancel_step_def fail_with_fields_def escape_def return_def close_step_def
      finish_step_terminal_def finish_step_def)+

lemma skips: "T st (snd (leave_skipped R step reason tail n facts st))"
proof -
  obtain ctx r where b: "bind_skipped_outputs (sd_id step) (sd_outputs step) (st_ctx st) = (ctx, r)" by (meson surj_pair)
  note f = frame_ctx_bind(2) [OF b]
  show ?thesis
    by (rule step_own)
      (use b f in \<open>auto simp: leave_skipped_def skip_step_def Let_def finish_step_terminal_def finish_step_def
        split: sum.split\<close>)
qed

lemma after: "T st st1 \<Longrightarrow> T st1 (snd r) \<Longrightarrow> T st (snd r)"
  by (rule trans)

lemma asks: "ask call mk st = (r, st1) \<Longrightarrow> T st st1"
  by (rule same) (erule ask_spec(1))

lemma performs: "perform E i call eff st = (r, st1) \<Longrightarrow> T st st1"
  by (rule same) (erule perform_spec(1))

lemma load_kept: "T st (snd (load_schema R step st))"
  by (auto simp: load_schema_def exits split: option.split sum.split)

lemma review_kept: "T st (snd (review_phase R step schema st))"
proof (cases "resolve_step_fields (env_externs (rx_env R)) step (st_ctx st) (st_supplied st) []
    (cw_inputs (rx_compiled R)) schema (rx_defaults R)")
  case (Inr plan)
  obtain r st1 where a: "ask (env_review_step (rx_env R) plan) (AskedReview (cs_index step)) st = (r, st1)"
    by (meson surj_pair)
  note t = after [OF asks [OF a]]
  show ?thesis using a Inr
    by (auto simp: review_phase_def intro: t exits skips split: sum.split step_review_outcome.split)
qed (simp add: review_phase_def exits)

lemma gather_kept: "T st (snd (gather_phase R step schema st))"
proof (cases "compute_needed_inputs step (st_supplied st) (cw_inputs (rx_compiled R)) = []")
  case False
  let ?needed = "compute_needed_inputs step (st_supplied st) (cw_inputs (rx_compiled R))"
  let ?views = "build_supplied_views (rx_compiled R) (st_supplied st) (rx_flags R) (rx_defaults R)"
  obtain r st1 where a: "ask (env_gather_inputs (rx_env R) ?needed step ?views) (\<lambda>_. AskedGather (cs_index step)) st = (r, st1)"
    by (meson surj_pair)
  have sup: "st_supplied st1 = st_supplied st" using ask_spec(1) [OF a] by (simp add: same_data_def)
  have g: "T st (st1\<lparr>st_supplied := m\<rparr>)" for m
    using asks [OF a] gathers [of st1 m] False sup by (auto intro: trans)
  show ?thesis using a False
    by (auto simp: gather_phase_def Let_def return_def intro: after [OF asks [OF a]] exits g split: sum.split prod.split)
qed (simp add: gather_phase_def exits)

lemma assemble_kept: "T st (snd (assemble_phase R step schema loc st))"
  by (auto simp: assemble_phase_def exits split: sum.split)

lemma gate_kept: "T st (snd (confirm_gate R step schema loc request st))"
proof -
  obtain r st1 where b: "build_step_preview (rx_env R) (rx_compiled R) step request st = (r, st1)" by (meson surj_pair)
  then obtain q where "ask (env_preview_command (rx_env R) request) (\<lambda>_. PreviewedCommand (cs_index step)) st = (q, st1)"
    by (auto simp: build_step_preview_def split: prod.splits)
  note t1 = asks [OF this]
  have t2: "T st (snd (case ask (env_confirm_step (rx_env R) step preview) (AskedConfirm (cs_index step)) st1 of
        (Inr ConfirmProceed, st2) \<Rightarrow> return () st2
      | (Inr ConfirmSkip, st2) \<Rightarrow>
          if sd_is_optional step then leave_skipped R step DeclinedAtConfirm None 0 None st2
          else fail_with_fields R step schema loc FrontendContract (skip_not_allowed step) st2
      | (Inr ConfirmCancel, st2) \<Rightarrow> cancel_step R step AtConfirm st2
      | (Inl e, st2) \<Rightarrow> fail_with_fields R step schema loc ConfirmStage e st2))" for preview
  proof -
    obtain c st2 where a: "ask (env_confirm_step (rx_env R) step preview) (AskedConfirm (cs_index step)) st1 = (c, st2)"
      by (meson surj_pair)
    note t = after [OF trans [OF t1 asks [OF a]]]
    show ?thesis using a by (auto intro: t exits skips split: sum.split step_confirm_outcome.split)
  qed
  show ?thesis using b t2 by (auto simp: confirm_gate_def exits intro: after [OF t1] exits split: sum.split)
qed

end

lemma store_and_bind_frame:
  "store_and_bind step ctx = (ctx', r) \<Longrightarrow> frame_ctx (sd_id step) ctx ctx'"
  unfolding store_and_bind_def by (rule frame_ctx_bind(1))

lemma decide_same: "decide_step_failure E step err no_input stage st = (r, st') \<Longrightarrow> same_data st st'"
  using decide_spec [of E step err no_input stage st r st' "\<lambda>_. True"] by simp

context step_relation
begin

lemma preview_failed_kept: "T st (snd (preview_failed R step schema loc e st))"
  by (rule kept) (simp_all add: preview_failed_def return_def)

lemma dry_run_kept: "T st (snd (api_dry_run R step schema loc request st))"
proof (cases "synthesise_dry_run_outputs (env_catalogue (rx_env R)) step")
  case (Inr synthesised)
  let ?st1 = "st\<lparr>st_ctx := inject_step_captures_for_dry_run (sd_id step) synthesised (st_ctx st)\<rparr>"
  have i: "T st ?st1" by (rule step_own) simp_all
  obtain r st2 where b: "build_step_dry_run_preview (rx_env R) step request synthesised ?st1 = (r, st2)" by (meson surj_pair)
  then obtain q where "ask (env_dry_run_command (rx_env R) request) (\<lambda>_. DryRanCommand (cs_index step)) ?st1 = (q, st2)"
    by (auto simp: build_step_dry_run_preview_def split: prod.splits)
  note t = trans [OF trans [OF i asks [OF this]]]
  have "T st2 (st2\<lparr>st_previews := ps\<rparr>)" for ps
    by (rule kept) simp_all
  with b Inr show ?thesis
    by (auto simp: api_dry_run_def Let_def return_def intro!: t preview_failed_kept split: sum.split)
qed (simp add: api_dry_run_def preview_failed_kept)

lemma try_action_kept: "try_action R step action inputs st = (a, st') \<Longrightarrow> T st st'"
proof -
  assume t: "try_action R step action inputs st = (a, st')"
  obtain r st1 where p: "perform (rx_env R) (cs_index step) (env_run_action (rx_env R) action inputs False)
      (RanAction (cs_index step) False) st = (r, st1)" by (meson surj_pair)
  have "T st1 st'"
  proof (cases r)
    case (Inr body)
    obtain ctx q where b: "store_and_bind step (store_local_step_body (sd_id step) body (st_ctx st1)) = (ctx, q)" by (meson surj_pair)
    have f: "frame_ctx (sd_id step) (st_ctx st1) ctx"
      by (rule frame_ctx_trans [OF _ store_and_bind_frame [OF b]]) simp
    have "st' = st1\<lparr>st_ctx := ctx\<rparr>" using t p Inr b by (auto simp: try_action_def split: sum.splits)
    with f show ?thesis by (intro step_own) simp_all
  qed (use t p in \<open>auto simp: try_action_def intro: kept\<close>)
  with performs [OF p] show "T st st'" by (rule trans)
qed

lemma try_dispatch_kept: "try_dispatch R step request st = (a, st') \<Longrightarrow> T st st'"
proof -
  assume t: "try_dispatch R step request st = (a, st')"
  obtain r st1 where p: "perform (rx_env R) (cs_index step) (env_run_command (rx_env R) request)
      (RanCommand (cs_index step) request) st = (r, st1)" by (meson surj_pair)
  have "T st1 st'"
  proof (cases "\<exists>api. r = Inr (OutService api)")
    case True
    then obtain api where api: "r = Inr (OutService api)" by blast
    obtain ctx q where b: "store_and_bind step (store_step_output (sd_id step) api (st_ctx st1)) = (ctx, q)" by (meson surj_pair)
    have f: "frame_ctx (sd_id step) (st_ctx st1) ctx"
      by (rule frame_ctx_trans [OF _ store_and_bind_frame [OF b]]) simp
    have "st' = st1\<lparr>st_ctx := ctx\<rparr>" using t p api b by (auto simp: try_dispatch_def Let_def split: sum.splits)
    with f show ?thesis by (intro step_own) simp_all
  next
    case False
    with t p show ?thesis
      by (cases r) (auto simp: try_dispatch_def Let_def intro!: kept step_own split: command_output.splits)
  qed
  with performs [OF p] show "T st st'" by (rule trans)
qed

lemma retry_kept:
  assumes "\<And>st a st'. try_once st = (a, st') \<Longrightarrow> T st st'"
  shows "T st (snd (retry_loop R step try_once facts_of fuel n st))"
proof (induction fuel arbitrary: n st)
  case (Suc fuel)
  obtain a st1 where t: "try_once st = (a, st1)" by (meson surj_pair)
  show ?case
  proof (cases a)
    case (AttemptFailed err stage)
    obtain d st2 where d: "decide_step_failure (rx_env R) step err (ro_no_input (rx_options R)) stage st1 = (d, st2)"
      by (meson surj_pair)
    note k = trans [OF trans [OF assms [OF t] same [OF decide_same [OF d]]]]
    have "T st2 (st2\<lparr>st_pending := p\<rparr>)" for p by (rule kept) simp_all
    with t d AttemptFailed show ?thesis
      by (auto simp: Let_def intro!: k Suc.IH skips intro: kept split: sum.split failure_disposition.split)
  qed (use t assms [OF t] in \<open>simp add: Let_def\<close>)
qed (simp add: kept)

lemma local_dry_run_kept: "T st (snd (local_dry_run R step action inputs st))"
proof -
  obtain r st1 where p: "perform (rx_env R) (cs_index step) (env_run_action (rx_env R) action inputs True)
      (RanAction (cs_index step) True) st = (r, st1)" by (meson surj_pair)
  note t = trans [OF performs [OF p]]
  show ?thesis
  proof (cases r)
    case (Inl e)
    with p show ?thesis by (auto simp: local_dry_run_def intro: t exits)
  next
    case (Inr produced)
    obtain ctx q where b: "store_and_bind step (store_local_step_body (sd_id step) produced (st_ctx st1)) = (ctx, q)" by (meson surj_pair)
    have f: "frame_ctx (sd_id step) (st_ctx st1) ctx"
      by (rule frame_ctx_trans [OF _ store_and_bind_frame [OF b]]) simp
    have "frame_ctx (sd_id step) (st_ctx st1) (inject_step_captures_for_dry_run (sd_id step) (null_captures step) ctx)"
      by (rule frame_ctx_trans [OF f]) simp
    then show ?thesis using p Inr b
      by (auto simp: local_dry_run_def Let_def finish_step_terminal_def finish_step_def intro!: t step_own)
  qed
qed

lemma local_inputs_kept: "T st (snd (local_inputs R step st))"
  by (auto simp: local_inputs_def exits split: sum.split)

lemma local_body_kept:
  "T st (snd (then_phase (local_inputs R step) (\<lambda>inputs.
      if ro_dry_run (rx_options R) then local_dry_run R step action inputs
      else then_phase (retry_loop R step (try_action R step action inputs) (\<lambda>_. from_error) fuel 0)
             (close_step R step (\<lambda>_. []))) st))"
proof (rule then_kept [OF local_inputs_kept])
  fix inputs st1
  show "T st1 (snd ((if ro_dry_run (rx_options R) then local_dry_run R step action inputs
    else then_phase (retry_loop R step (try_action R step action inputs) (\<lambda>_. from_error) fuel 0)
           (close_step R step (\<lambda>_. []))) st1))"
  proof (cases "ro_dry_run (rx_options R)")
    case False
    show ?thesis unfolding if_not_P [OF False]
      by (rule then_kept) (rule retry_kept, erule try_action_kept, rule exits)
  qed (simp add: local_dry_run_kept)
qed

lemma local_step_kept: "T st (snd (run_local_step R fuel step st))"
proof (cases "sd_action step")
  case (Some action)
  then show ?thesis
    by (cases "local_action_lookup action") (simp_all add: run_local_step_def exits local_body_kept)
qed (simp add: run_local_step_def exits)

lemma api_step_kept: "T st (snd (run_api_step R fuel step st))"
  unfolding run_api_step_def
proof (intro then_kept load_kept assemble_kept gate_kept exits)
  fix schema st1
  show "T st1 (snd ((if takes_review_path R step then review_phase R step schema else gather_phase R step schema) st1))"
    by (simp add: review_kept gather_kept)
  fix loc request st2
  show "T st2 (snd ((if ro_dry_run (rx_options R) then api_dry_run R step schema loc request
      else retry_loop R step (try_dispatch R step request) (failure_facts R step schema loc) fuel 0) st2))"
  proof (cases "ro_dry_run (rx_options R)")
    case False
    show ?thesis unfolding if_not_P [OF False] by (rule retry_kept) (erule try_dispatch_kept)
  qed (simp add: dry_run_kept)
qed

lemma step_kept: "T st (snd (run_step R fuel step st))"
proof -
  have b: "T st (begin_step R step st)" by (rule kept) simp_all
  obtain r st' where r: "(case sd_kind step of Local \<Rightarrow> run_local_step R fuel step | Api \<Rightarrow> run_api_step R fuel step)
      (begin_step R step st) = (r :: step_flow + unit, st')" by (meson surj_pair)
  have "T (begin_step R step st) (snd (r, st'))"
    unfolding r [symmetric] by (cases "sd_kind step") (simp_all add: api_step_kept local_step_kept)
  then have "T st st'" using trans [OF b] by simp
  moreover have "snd (run_step R fuel step st) = st'"
    using r by (cases r) (simp_all add: run_step_def)
  ultimately show ?thesis by simp
qed

end

text \<open>The two relations of interest: the outputs of other steps, and the inputs when nothing is missing.\<close>

definition other_outputs_kept :: "compiled_step \<Rightarrow> 'w run_state \<Rightarrow> 'w run_state \<Rightarrow> bool" where
  "other_outputs_kept step st st' \<longleftrightarrow> frame_ctx (sd_id step) (st_ctx st) (st_ctx st')"

definition inputs_kept :: "'w run_consts \<Rightarrow> compiled_step \<Rightarrow> 'w run_state \<Rightarrow> 'w run_state \<Rightarrow> bool" where
  "inputs_kept R step st st' \<longleftrightarrow>
     (compute_needed_inputs step (st_supplied st) (cw_inputs (rx_compiled R)) = [] \<longrightarrow> st_supplied st' = st_supplied st)"

interpretation outputs: step_relation R step "other_outputs_kept step" for R step
  by unfold_locales (auto simp: other_outputs_kept_def intro: frame_ctx_trans)

interpretation inputs: step_relation R step "inputs_kept R step" for R step
  by unfold_locales (auto simp: inputs_kept_def)

end
