(* ===== verification/ResolveLaws.thy ===== *)
theory ResolveLaws
  imports StepFields
begin

text \<open>
  The laws of theories \<open>Resolve\<close> and \<open>StepFields\<close>: nested merging as a store of paths, the bounds of arithmetic
  transforms, the agreement of the displayed and the dispatched value of a field, and the completeness
  of the gather list with respect to request assembly.
\<close>

section \<open>Nested merging\<close>

text \<open>Two paths that part at segments of the same kind write to different places.\<close>

fun diverging :: "path_segment list \<Rightarrow> path_segment list \<Rightarrow> bool" where
  "diverging (Key a # p) (Key b # q) = (if a = b then diverging p q else True)"
| "diverging (Index i # p) (Index j # q) = (if i = j then diverging p q else True)"
| "diverging _ _ = False"

lemma diverging_Key: "diverging (Key a # p) q \<longleftrightarrow> (\<exists>b q'. q = Key b # q' \<and> (a = b \<longrightarrow> diverging p q'))"
  by (cases "(Key a # p, q)" rule: diverging.cases) auto

lemma diverging_Index: "diverging (Index i # p) q \<longleftrightarrow> (\<exists>j q'. q = Index j # q' \<and> (i = j \<longrightarrow> diverging p q'))"
  by (cases "(Index i # p, q)" rule: diverging.cases) auto

lemma pad_to_length: "i < length (pad_to i xs)"
  by (simp add: pad_to_def)

lemma pad_to_nth: "j < length xs \<Longrightarrow> pad_to i xs ! j = xs ! j"
  by (simp add: pad_to_def nth_append)

lemma pad_to_le: "length xs \<le> length (pad_to i xs)"
  by (simp add: pad_to_def)

lemma merge_get: "p \<noteq> [] \<Longrightarrow> json_descend (merge_nested_binding body p v) p = Some v"
proof (induction body p v rule: merge_nested_binding.induct)
  case (2 body name rest v)
  then show ?case by (cases "rest = []") (simp_all add: Let_def bget_binsert)
next
  case (3 body i rest v)
  then show ?case
    by (cases "rest = []") (simp_all add: Let_def json_index_def pad_to_length)
qed simp

lemma merge_frame:
  "diverging p q \<Longrightarrow> json_descend body q = Some w \<Longrightarrow>
   json_descend (merge_nested_binding body p v) q = Some w"
proof (induction body p v arbitrary: q rule: merge_nested_binding.induct)
  case (2 body name rest v)
  from "2.prems"(1) obtain b q' where q: "q = Key b # q'" and d': "name = b \<longrightarrow> diverging rest q'"
    unfolding diverging_Key by blast
  from "2.prems"(2) q obtain u where u: "json_key body b = Some u" "json_descend u q' = Some w"
    by (auto split: option.splits)
  then obtain m where m: "body = JObj m" "bget m b = Some u" "json_descend u q' = Some w"
    using json_key_some by blast
  show ?case
  proof (cases "b = name")
    case True
    with d' have d: "diverging rest q'" by simp
    then have "rest \<noteq> []" by (cases rest) auto
    with "2.IH" [OF refl _ d] m True q show ?thesis
      by (simp add: Let_def bget_binsert obj_of_def)
  next
    case False
    with m q show ?thesis by (simp add: Let_def bget_binsert obj_of_def)
  qed
next
  case (3 body i rest v)
  from "3.prems"(1) obtain j q' where q: "q = Index j # q'" and d': "i = j \<longrightarrow> diverging rest q'"
    unfolding diverging_Index by blast
  from "3.prems"(2) q obtain u where u: "json_index body j = Some u" "json_descend u q' = Some w"
    by (auto split: option.splits)
  then obtain xs where m: "body = JArr xs" "j < length xs" "json_descend (xs ! j) q' = Some w"
    using json_index_some by blast
  have len: "j < length (pad_to i xs)" using m(2) pad_to_le [of xs i] by linarith
  show ?case
  proof (cases "j = i")
    case True
    with d' have d: "diverging rest q'" by simp
    then have "rest \<noteq> []" by (cases rest) auto
    with "3.IH" [OF refl _ d] m True q len show ?thesis
      by (simp add: Let_def json_index_def arr_of_def pad_to_nth)
  next
    case False
    with m q len show ?thesis by (simp add: Let_def json_index_def arr_of_def pad_to_nth)
  qed
qed simp

text \<open>A request body is a keyed store under merging of one-segment paths.\<close>

definition is_object :: "json \<Rightarrow> bool" where
  "is_object v = (case v of JObj _ \<Rightarrow> True | _ \<Rightarrow> False)"

definition body_set :: "string \<Rightarrow> json \<Rightarrow> json \<Rightarrow> json" where
  "body_set k v body = merge_nested_binding body [Key k] v"

interpretation body_store: keyed_store json_key body_set is_object
proof unfold_locales
  fix m k k' and v :: json
  assume "is_object m"
  then show "json_key (body_set k v m) k' = (if k' = k then Some v else json_key m k')"
    by (cases m) (simp_all add: is_object_def body_set_def obj_of_def bget_binsert)
next
  fix m k v
  show "is_object (body_set k v m)"
    by (simp add: is_object_def body_set_def Let_def)
qed

section \<open>Arithmetic\<close>

lemma sat_i64_range: "i64_range (sat_i64 i)"
  by (simp add: sat_i64_def i64_range_def)

lemma sat_i64_exact: "i64_range i \<Longrightarrow> sat_i64 i = i"
  by (simp add: sat_i64_def i64_range_def)

section \<open>Field values\<close>

lemma binding_resolution_value: "fst (binding_resolution default_names source v) = v"
  by (simp add: binding_resolution_def Let_def split: binding_source.split reference_target.split)

lemma bget_bindings_by_field:
  "bget (bindings_by_field bs) n = Some s \<Longrightarrow> \<exists>b \<in> set bs. sib_field b = n \<and> sib_source b = s"
proof -
  have "bget (fold (\<lambda>b m. binsert (sib_field b) (sib_source b) m) bs m) n = Some s \<Longrightarrow>
        bget m n = Some s \<or> (\<exists>b \<in> set bs. sib_field b = n \<and> sib_source b = s)" for m
    by (induction bs arbitrary: m) (fastforce simp: bget_binsert split: if_splits)+
  then show "bget (bindings_by_field bs) n = Some s \<Longrightarrow> \<exists>b \<in> set bs. sib_field b = n \<and> sib_source b = s"
    unfolding bindings_by_field_def by fastforce
qed

lemma bget_bindings_none:
  "bget (bindings_by_field bs) n = None \<longleftrightarrow> n \<notin> sib_field ` set bs"
proof -
  have "bget (fold (\<lambda>b m. binsert (sib_field b) (sib_source b) m) bs m) n = None \<longleftrightarrow>
        bget m n = None \<and> n \<notin> sib_field ` set bs" for m
    by (induction bs arbitrary: m) (auto simp: bget_binsert)
  then show ?thesis by (simp add: bindings_by_field_def)
qed

section \<open>The gather list\<close>

definition workflow_scope :: "auto_derive_scope \<Rightarrow> string option" where
  "workflow_scope s = (case s of ScopeWorkflow n \<Rightarrow> Some n | ScopeStepLocal _ \<Rightarrow> None)"

definition local_scope :: "auto_derive_scope \<Rightarrow> string option" where
  "local_scope s = (case s of ScopeWorkflow _ \<Rightarrow> None | ScopeStepLocal n \<Rightarrow> Some n)"

definition needed_inputs :: "workflow_input_needed list \<Rightarrow> string list" where
  "needed_inputs needed = List.map_filter (\<lambda>e. workflow_scope (wn_scope e)) needed"

definition needed_locals :: "workflow_input_needed list \<Rightarrow> string list" where
  "needed_locals needed = List.map_filter (\<lambda>e. local_scope (wn_scope e)) needed"

text \<open>Every workflow input the step refers to: through a binding, or through a derived field.\<close>

definition referenced_inputs :: "compiled_step \<Rightarrow> string list" where
  "referenced_inputs step =
     visit_binding_workflow_inputs step @
     List.map_filter (\<lambda>f. workflow_scope (adf_scope f)) (cs_auto_derived step)"

definition needed_inv :: "json bmap \<Rightarrow> needed_state \<Rightarrow> string list \<Rightarrow> string list \<Rightarrow> bool" where
  "needed_inv supplied st visited locals \<longleftrightarrow>
     map wn_id (fst st) = map (\<lambda>i. i mod 2 ^ 32) [0..<length (fst st)] \<and>
     needed_inputs (fst st) = snd st \<and> distinct (snd st) \<and>
     set (snd st) = {n \<in> set visited. bget supplied n = None} \<and> needed_locals (fst st) = locals"

lemma map_filter_Cons:
  "List.map_filter f (x # xs) = (case f x of None \<Rightarrow> [] | Some y \<Rightarrow> [y]) @ List.map_filter f xs"
  by (simp add: map_filter_simps split: option.split)

lemma needed_append [simp]:
  "needed_inputs (xs @ ys) = needed_inputs xs @ needed_inputs ys"
  "needed_locals (xs @ ys) = needed_locals xs @ needed_locals ys"
  by (simp_all add: needed_inputs_def needed_locals_def map_filter_def)

lemma needed_single [simp]:
  "needed_inputs [e] = (case workflow_scope (wn_scope e) of None \<Rightarrow> [] | Some n \<Rightarrow> [n])"
  "needed_locals [e] = (case local_scope (wn_scope e) of None \<Rightarrow> [] | Some n \<Rightarrow> [n])"
  by (simp_all add: needed_inputs_def needed_locals_def map_filter_def split: option.split)

lemma needed_of_simps [simp]:
  "wn_id (workflow_input_needed_of specs n name) = n mod 2 ^ 32"
  "wn_scope (workflow_input_needed_of specs n name) = ScopeWorkflow name"
  by (simp_all add: workflow_input_needed_of_def Let_def)

lemma push_workflow_input_inv:
  assumes "needed_inv supplied st visited locals"
  shows "needed_inv supplied (push_workflow_input supplied specs name st) (visited @ [name]) locals"
proof -
  obtain needed seen where st: "st = (needed, seen)" by (cases st)
  consider (supplied) "bget supplied name \<noteq> None" | (seen) "bget supplied name = None" "name \<in> set seen"
    | (new) "bget supplied name = None" "name \<notin> set seen" by blast
  then show ?thesis
  proof cases
    case supplied
    then have "push_workflow_input supplied specs name st = st" by (simp add: push_workflow_input_def st)
    with assms supplied show ?thesis by (auto simp: needed_inv_def)
  next
    case seen
    then have "push_workflow_input supplied specs name st = st" by (simp add: push_workflow_input_def st)
    with assms seen show ?thesis by (auto simp: needed_inv_def st)
  next
    case new
    then have "push_workflow_input supplied specs name st =
      (needed @ [workflow_input_needed_of specs (length needed) name], seen @ [name])"
      by (simp add: push_workflow_input_def st)
    with assms new show ?thesis
      by (auto simp: needed_inv_def st workflow_scope_def local_scope_def)
  qed
qed

lemma push_derived_inv:
  assumes "needed_inv supplied st visited locals"
  shows "needed_inv supplied (push_derived sid supplied specs f st)
    (visited @ (case workflow_scope (adf_scope f) of None \<Rightarrow> [] | Some n \<Rightarrow> [n]))
    (locals @ (case local_scope (adf_scope f) of None \<Rightarrow> [] | Some n \<Rightarrow> [n]))"
proof (cases "adf_scope f")
  case (ScopeWorkflow n)
  with push_workflow_input_inv [OF assms] show ?thesis
    by (simp add: push_derived_def workflow_scope_def local_scope_def)
next
  case (ScopeStepLocal n)
  obtain needed seen where st: "st = (needed, seen)" by (cases st)
  from assms ScopeStepLocal show ?thesis
    by (simp add: push_derived_def st needed_inv_def workflow_scope_def local_scope_def)
qed

lemma compute_needed_inv:
  "needed_inv supplied
     (fold (push_derived (sd_id step) supplied specs) (cs_auto_derived step)
       (fold (push_workflow_input supplied specs) (visit_binding_workflow_inputs step) ([], [])))
     (referenced_inputs step) (List.map_filter (\<lambda>f. local_scope (adf_scope f)) (cs_auto_derived step))"
proof -
  have visits: "needed_inv supplied st vis loc \<Longrightarrow>
      needed_inv supplied (fold (push_workflow_input supplied specs) ns st) (vis @ ns) loc" for st vis loc ns
  proof (induction ns arbitrary: st vis)
    case (Cons n ns)
    from Cons.IH [OF push_workflow_input_inv [OF Cons.prems]] show ?case by simp
  qed simp
  have derived: "needed_inv supplied st vis loc \<Longrightarrow>
      needed_inv supplied (fold (push_derived sid supplied specs) fs st)
        (vis @ List.map_filter (\<lambda>f. workflow_scope (adf_scope f)) fs)
        (loc @ List.map_filter (\<lambda>f. local_scope (adf_scope f)) fs)" for st vis loc sid fs
  proof (induction fs arbitrary: st vis loc)
    case (Cons f fs)
    from Cons.IH [OF push_derived_inv [OF Cons.prems]] show ?case
      by (simp only: map_filter_Cons append_assoc fold.simps o_apply)
  qed (simp add: map_filter_simps)
  have "needed_inv supplied ([], []) [] []"
    by (simp add: needed_inv_def needed_inputs_def needed_locals_def map_filter_simps)
  from derived [OF visits [OF this]] show ?thesis
    by (simp add: referenced_inputs_def)
qed

lemma compute_needed_empty:
  "compute_needed_inputs step supplied specs = [] \<longleftrightarrow>
   (\<forall>n \<in> set (referenced_inputs step). bget supplied n \<noteq> None) \<and>
   List.map_filter (\<lambda>f. local_scope (adf_scope f)) (cs_auto_derived step) = []"
proof -
  define st where "st = fold (push_derived (sd_id step) supplied specs) (cs_auto_derived step)
       (fold (push_workflow_input supplied specs) (visit_binding_workflow_inputs step) ([], []))"
  have inv: "needed_inv supplied st (referenced_inputs step)
      (List.map_filter (\<lambda>f. local_scope (adf_scope f)) (cs_auto_derived step))"
    unfolding st_def by (rule compute_needed_inv)
  have all: "fst st = [] \<longleftrightarrow> needed_inputs (fst st) = [] \<and> needed_locals (fst st) = []"
  proof (cases "fst st")
    case (Cons e es)
    then show ?thesis
      by (cases "wn_scope e") (simp_all add: needed_inputs_def needed_locals_def map_filter_simps workflow_scope_def local_scope_def)
  qed (simp add: needed_inputs_def needed_locals_def map_filter_simps)
  have "snd st = [] \<longleftrightarrow> (\<forall>n \<in> set (referenced_inputs step). bget supplied n \<noteq> None)"
    using inv unfolding needed_inv_def by (metis (mono_tags, lifting) empty_Collect_eq set_empty)
  with all inv show ?thesis
    unfolding compute_needed_inputs_def st_def [symmetric] needed_inv_def by simp
qed

section \<open>Assembly after the gather\<close>

text \<open>A step whose needed inputs are all available: every derived field has its value, and every binding
  of the step resolves.\<close>

definition field_available :: "json bmap \<Rightarrow> json bmap \<Rightarrow> auto_derived_field \<Rightarrow> bool" where
  "field_available supplied step_local f =
     (case adf_scope f of
        ScopeWorkflow n \<Rightarrow> bget supplied n \<noteq> None
      | ScopeStepLocal n \<Rightarrow> bget step_local n \<noteq> None)"

definition binding_resolves ::
  "externs \<Rightarrow> workflow_context \<Rightarrow> json bmap \<Rightarrow> step_input_binding list \<Rightarrow> json bmap \<Rightarrow> step_input_binding \<Rightarrow> bool" where
  "binding_resolves X ctx supplied bs step_local b =
     (case resolve_binding X ctx supplied (bindings_by_field bs) step_local (sib_source b) of
        Inr (Some _) \<Rightarrow> True
      | _ \<Rightarrow> False)"

lemma binding_resolvesD:
  "binding_resolves X ctx supplied bs loc b \<Longrightarrow>
   \<exists>v. resolve_binding X ctx supplied (bindings_by_field bs) loc (sib_source b) = Inr (Some v)"
  by (simp add: binding_resolves_def split: sum.splits option.splits)

lemma field_value_total:
  assumes "\<forall>b \<in> set bs. binding_resolves X ctx supplied bs loc b"
  shows "\<exists>v. resolve_field_value X n (bindings_by_field bs) ctx supplied loc names = Inr v"
proof (cases "bget loc n")
  case None
  show ?thesis
  proof (cases "bget (bindings_by_field bs) n")
    case (Some src)
    then obtain b where "b \<in> set bs" "sib_source b = src" using bget_bindings_by_field by blast
    with assms Some None binding_resolvesD show ?thesis
      unfolding resolve_field_value_def by fastforce
  qed (simp add: resolve_field_value_def None split: option.split)
qed (simp add: resolve_field_value_def)

lemma field_root_flat: "\<not> is_nested_field f \<Longrightarrow> field_root f = f"
  by (auto simp: field_root_def is_nested_field_def before_match_def name_end_def takeWhile_eq_all_conv)

lemma field_value_bound:
  assumes "\<forall>b \<in> set bs. binding_resolves X ctx supplied bs loc b" "n \<in> sib_field ` set bs"
  shows "\<exists>v. resolve_field_value X n (bindings_by_field bs) ctx supplied loc names = Inr (Some v)"
proof (cases "bget loc n")
  case None
  from assms(2) obtain src where src: "bget (bindings_by_field bs) n = Some src"
    using bget_bindings_none by fastforce
  then obtain b where "b \<in> set bs" "sib_source b = src" using bget_bindings_by_field by blast
  with assms(1) src None binding_resolvesD show ?thesis
    unfolding resolve_field_value_def by fastforce
qed (simp add: resolve_field_value_def)

lemma field_value_derived:
  assumes "field_available supplied loc f" "adf_scope f = derive_scope names n" "n \<notin> sib_field ` set bs"
  shows "\<exists>v. resolve_field_value X n (bindings_by_field bs) ctx supplied loc names = Inr (Some v)"
proof (cases "bget loc n")
  case None
  with assms(1,2) have "n \<in> set names" "bget supplied n \<noteq> None"
    by (auto simp: field_available_def derive_scope_def split: if_splits)
  moreover have "bget (bindings_by_field bs) n = None" using assms(3) bget_bindings_none by blast
  ultimately show ?thesis using None by (auto simp: resolve_field_value_def)
qed (simp add: resolve_field_value_def)

lemma parameter_value:
  assumes res: "\<forall>b \<in> set bs. binding_resolves X ctx supplied bs loc b"
    and avail: "\<forall>f \<in> set (derived_fields op bs names). field_available supplied loc f"
    and roots: "\<forall>b \<in> set bs. is_nested_field (sib_field b) \<longrightarrow> field_root (sib_field b) \<noteq> p_name p"
    and p: "p \<in> set (op_parameters op)" "p_required p" "p_location p \<noteq> BodyParam"
  shows "\<exists>v. resolve_field_value X (p_name p) (bindings_by_field bs) ctx supplied loc names = Inr (Some v)"
proof (cases "p_name p \<in> sib_field ` set bs")
  case True
  with res show ?thesis by (rule field_value_bound)
next
  case False
  have "p_name p \<notin> set (bound_fields bs)"
    using False roots field_root_flat by (auto simp: bound_fields_set image_iff) metis
  with p have "derived_parameter names p \<in> set (derived_fields op bs names)"
    by (auto simp: derived_fields_def required_parameters_def)
  with avail have "field_available supplied loc (derived_parameter names p)" by blast
  moreover have "adf_scope (derived_parameter names p) = derive_scope names (p_name p)"
    by (simp add: derived_parameter_def)
  ultimately show ?thesis using False field_value_derived by blast
qed

lemma body_field_value:
  assumes res: "\<forall>b \<in> set bs. binding_resolves X ctx supplied bs loc b"
    and avail: "\<forall>f \<in> set (derived_fields op bs names). field_available supplied loc f"
    and f: "f \<in> set (required_body_fields op)"
    and not_root: "\<forall>b \<in> set bs. is_nested_field (sib_field b) \<longrightarrow> field_root (sib_field b) \<noteq> bf_name f"
  shows "\<exists>v. resolve_field_value X (bf_name f) (bindings_by_field bs) ctx supplied loc names = Inr (Some v)"
proof (cases "bf_name f \<in> sib_field ` set bs")
  case True
  with res show ?thesis by (rule field_value_bound)
next
  case False
  have "bf_name f \<notin> set (bound_fields bs)"
    using False not_root field_root_flat by (auto simp: bound_fields_set image_iff) metis
  with f have "derived_body_field names f \<in> set (derived_fields op bs names)"
    by (auto simp: derived_fields_def)
  with avail have "field_available supplied loc (derived_body_field names f)" by blast
  moreover have "adf_scope (derived_body_field names f) = derive_scope names (bf_name f)"
    by (simp add: derived_body_field_def)
  ultimately show ?thesis using False field_value_derived by blast
qed

lemma fold_ok_total:
  assumes "\<And>s x. x \<in> set xs \<Longrightarrow> \<exists>t. f s x = Inr t"
  shows "\<exists>t. fold_ok f s xs = Inr t"
  using assms
proof (induction xs arbitrary: s)
  case (Cons x xs)
  from Cons.prems obtain t where "f s x = Inr t" by fastforce
  moreover obtain u where "fold_ok f t xs = Inr u" using Cons by fastforce
  ultimately show ?case by simp
qed simp

lemma non_body_params_total:
  assumes res: "\<forall>b \<in> set (sd_inputs step). binding_resolves X ctx supplied (sd_inputs step) loc b"
    and avail: "\<forall>f \<in> set (derived_fields op (sd_inputs step) (map wi_name specs)). field_available supplied loc f"
    and roots: "\<forall>b \<in> set (sd_inputs step). is_nested_field (sib_field b) \<longrightarrow>
      (\<forall>p \<in> set (op_parameters op). field_root (sib_field b) \<noteq> p_name p)"
  shows "\<exists>pm. resolve_non_body_params X op sid (request_build_ctx_of step specs) ctx supplied loc = Inr pm"
  unfolding resolve_non_body_params_def
proof (rule fold_ok_total)
  fix pm p
  assume p: "p \<in> set (op_parameters op)"
  show "\<exists>t. non_body_param_step X sid (request_build_ctx_of step specs) ctx supplied loc pm p = Inr t"
  proof (cases "p_location p = BodyParam \<or> p_location p = FormDataParam")
    case False
    obtain v where v: "resolve_field_value X (p_name p) (bindings_by_field (sd_inputs step)) ctx supplied loc (map wi_name specs) = Inr v"
      using field_value_total [OF res] by blast
    have "p_required p \<Longrightarrow> v \<noteq> None"
      using parameter_value [OF res avail _ p] roots p False v by fastforce
    with False v show ?thesis
      by (auto simp: non_body_param_step_def request_build_ctx_of_def split: option.split)
  qed (auto simp: non_body_param_step_def)
qed

lemma form_params_total:
  assumes res: "\<forall>b \<in> set (sd_inputs step). binding_resolves X ctx supplied (sd_inputs step) loc b"
    and avail: "\<forall>f \<in> set (derived_fields op (sd_inputs step) (map wi_name specs)). field_available supplied loc f"
    and roots: "\<forall>b \<in> set (sd_inputs step). is_nested_field (sib_field b) \<longrightarrow>
      (\<forall>p \<in> set (op_parameters op). field_root (sib_field b) \<noteq> p_name p)"
    and files: "\<forall>path. ex_is_file X path = Some True"
  shows "\<exists>parts. resolve_form_data_params X op sid (request_build_ctx_of step specs) ctx supplied loc = Inr parts"
proof -
  have "\<exists>t. fold_ok (form_param_step X sid (request_build_ctx_of step specs) ctx supplied loc) [] (op_parameters op) = Inr t"
  proof (rule fold_ok_total)
    fix parts p
    assume p: "p \<in> set (op_parameters op)"
    show "\<exists>t. form_param_step X sid (request_build_ctx_of step specs) ctx supplied loc parts p = Inr t"
    proof (cases "p_location p = FormDataParam")
      case True
      obtain v where v: "resolve_field_value X (p_name p) (bindings_by_field (sd_inputs step)) ctx supplied loc (map wi_name specs) = Inr v"
        using field_value_total [OF res] by blast
      have "p_required p \<Longrightarrow> v \<noteq> None"
        using parameter_value [OF res avail _ p] roots p True v by fastforce
      with True v files show ?thesis
        by (auto simp: form_param_step_def request_build_ctx_of_def validate_and_build_file_part_def split: option.split)
    qed (simp add: form_param_step_def)
  qed
  then show ?thesis by (auto simp: resolve_form_data_params_def)
qed

lemma body_total:
  assumes res: "\<forall>b \<in> set (sd_inputs step). binding_resolves X ctx supplied (sd_inputs step) loc b"
    and avail: "\<forall>f \<in> set (derived_fields op (sd_inputs step) (map wi_name specs)). field_available supplied loc f"
  shows "\<exists>body. assemble_body X op step ctx supplied loc (request_build_ctx_of step specs) opts = Inr body"
proof (cases "ro_explicit_body opts")
  case None
  let ?bc = "request_build_ctx_of step specs"
  let ?fs = "case op_request_body op of None \<Rightarrow> [] | Some b \<Rightarrow> bs_fields b"
  have obj: "\<exists>t. fold_ok (body_field_step X (sd_id step) ?bc ctx supplied loc) [] ?fs = Inr t"
  proof (rule fold_ok_total)
    fix obj f
    assume f: "f \<in> set ?fs"
    obtain v where v: "resolve_field_value X (bf_name f) (bindings_by_field (sd_inputs step)) ctx supplied loc (map wi_name specs) = Inr v"
      using field_value_total [OF res] by blast
    have "bf_required f \<Longrightarrow> bf_name f \<notin> set (bc_nested_roots ?bc) \<Longrightarrow> v \<noteq> None"
    proof -
      assume req: "bf_required f" and nr: "bf_name f \<notin> set (bc_nested_roots ?bc)"
      from f req have "f \<in> set (required_body_fields op)"
        by (auto simp: required_body_fields_def split: option.splits)
      moreover from nr have "\<forall>b \<in> set (sd_inputs step). is_nested_field (sib_field b) \<longrightarrow>
          field_root (sib_field b) \<noteq> bf_name f"
        by (auto simp: request_build_ctx_of_def image_iff)
      ultimately show "v \<noteq> None" using body_field_value [OF res avail] v by fastforce
    qed
    with v show "\<exists>t. body_field_step X (sd_id step) ?bc ctx supplied loc obj f = Inr t"
      by (auto simp: body_field_step_def request_build_ctx_of_def split: option.split)
  qed
  have nested: "\<exists>t. fold_ok (nested_binding_step X ?bc ctx supplied loc) body (sd_inputs step) = Inr t" for body
  proof (rule fold_ok_total)
    fix body b
    assume "b \<in> set (sd_inputs step)"
    with res obtain v where "resolve_binding X ctx supplied (bindings_by_field (sd_inputs step)) loc (sib_source b) = Inr (Some v)"
      using binding_resolvesD by blast
    then show "\<exists>t. nested_binding_step X ?bc ctx supplied loc body b = Inr t"
      by (auto simp: nested_binding_step_def request_build_ctx_of_def split: sum.split option.split)
  qed
  from obj obtain o1 where o1: "fold_ok (body_field_step X (sd_id step) ?bc ctx supplied loc) [] ?fs = Inr o1" by blast
  from nested [of "JObj o1"] obtain o2
    where "fold_ok (nested_binding_step X ?bc ctx supplied loc) (JObj o1) (sd_inputs step) = Inr o2" by blast
  with o1 None show ?thesis by (simp add: assemble_body_def)
qed (simp add: assemble_body_def)

section \<open>Properties\<close>

text \<open>Merging a nested binding is a store of paths: the written path reads back the value, and everything
  at a path that parts from it is still there.\<close>

theorem merge_nested_binding_store:
  assumes "p \<noteq> []"
  shows "json_descend (merge_nested_binding body p v) p = Some v \<and>
    (\<forall>q w. diverging p q \<and> json_descend body q = Some w \<longrightarrow>
       json_descend (merge_nested_binding body p v) q = Some w)"
  using merge_get [OF assms] merge_frame by blast

theorem merge_nested_binding_store_witness:
  "json_descend (merge_nested_binding (JObj [(''a'', JInt 1)]) [Key ''b'', Index 1, Key ''c''] (JStr ''x'')) [Key ''a''] =
     Some (JInt 1)"
proof -
  have "diverging [Key ''b'', Index 1, Key ''c''] [Key ''a'']" "json_descend (JObj [(''a'', JInt 1)]) [Key ''a''] = Some (JInt 1)"
    by (simp_all add: bget_def)
  then show ?thesis
    using merge_nested_binding_store [of "[Key ''b'', Index 1, Key ''c'']" "JObj [(''a'', JInt 1)]" "JStr ''x''"] by blast
qed

text \<open>An arithmetic transform of an integer stays a 64-bit signed integer: it is the exact product or sum
  whenever that fits, and otherwise saturates.\<close>

theorem arithmetic_saturates:
  assumes "as_i64 v = Some lhs"
  shows "\<exists>r. apply_optional_transform v (Some (TArithmetic t)) supplied = JInt r \<and> i64_range r \<and>
    (let exact = (case ar_op t of Mul \<Rightarrow> lhs * operand_value supplied (ar_operand t)
                               | Add \<Rightarrow> lhs + operand_value supplied (ar_operand t))
     in if i64_range exact then r = exact else r = (if exact < 0 then - (2 ^ 63) else 2 ^ 63 - 1))"
proof -
  have sat: "i64_range (sat_i64 e) \<and>
      (if i64_range e then sat_i64 e = e else sat_i64 e = (if e < 0 then - (2 ^ 63) else 2 ^ 63 - 1))" for e
    by (simp add: sat_i64_def i64_range_def)
  show ?thesis
    using assms sat by (cases "ar_op t") (auto simp: apply_optional_transform_def Let_def)
qed

theorem arithmetic_saturates_witness:
  "\<exists>r. apply_optional_transform (JInt (2 ^ 62)) (Some (TArithmetic \<lparr>ar_op = Mul, ar_operand = OperandInteger 4\<rparr>)) [] =
     JInt r \<and> r = 2 ^ 63 - 1"
  using arithmetic_saturates [of "JInt (2 ^ 62)" "2 ^ 62" "\<lparr>ar_op = Mul, ar_operand = OperandInteger 4\<rparr>" "[]"]
  by (simp add: as_i64_def i64_range_def operand_value_def)


text \<open>C13. The gather list of a step asks for each workflow input exactly once, precisely those the step refers to
  and the run does not have, and for every step-local field; slots are numbered in order.\<close>

theorem compute_needed_inputs_exact:
  "distinct (needed_inputs (compute_needed_inputs step supplied specs)) \<and>
   set (needed_inputs (compute_needed_inputs step supplied specs)) =
     {n \<in> set (referenced_inputs step). bget supplied n = None} \<and>
   needed_locals (compute_needed_inputs step supplied specs) =
     List.map_filter (\<lambda>f. local_scope (adf_scope f)) (cs_auto_derived step) \<and>
   map wn_id (compute_needed_inputs step supplied specs) =
     map (\<lambda>i. i mod 2 ^ 32) [0..<length (compute_needed_inputs step supplied specs)]"
  using compute_needed_inv [of supplied step specs]
  unfolding compute_needed_inputs_def needed_inv_def by simp


text \<open>A step that binds its path parameter to a literal and leaves a required query parameter to the gather.\<close>

definition sample_param :: "string \<Rightarrow> parameter_location \<Rightarrow> parameter_schema" where
  "sample_param n l = \<lparr>p_name = n, p_location = l, p_required = True, p_value_type = VString, p_is_file = False,
     p_description = None, p_default = None\<rparr>"

definition sample_operation :: operation_schema where
  "sample_operation = \<lparr>op_id = ''getUser'', op_name = ''get'', op_mutation_class = ReadOnly, op_http_method = Get,
     op_path_template = ''/users/{userId}'',
     op_parameters = [sample_param ''userId'' PathParam, sample_param ''limit'' QueryParam],
     op_request_body = None\<rparr>"

definition sample_schema :: service_schema where
  "sample_schema = \<lparr>sv_name = ''iam'', sv_resources =
     [\<lparr>rs_name = ''users'', rs_methods =
        [\<lparr>ms_name = ''get'', ms_default_scope = None,
          ms_scopes = [\<lparr>se_scope = ''admin'', se_contracts = [sample_operation]\<rparr>]\<rparr>]\<rparr>]\<rparr>"

definition sample_step :: step_definition where
  "sample_step = \<lparr>sd_id = ''main'', sd_description = None, sd_kind = Api, sd_action = None,
     sd_operation = Some \<lparr>or_service = ''iam'', or_operation = ''getUser''\<rparr>, sd_dependencies = [],
     sd_confirm = False, sd_is_optional = False, sd_continue_on_failure = False, sd_skip_if_exists = False,
     sd_is_reviewed = None,
     sd_inputs = [\<lparr>sib_field = ''userId'', sib_source = Literal \<lparr>lit_value = JStr ''u1'', lit_sensitive = False\<rparr>,
                   sib_show_in_review = False, sib_description = None\<rparr>],
     sd_outputs = []\<rparr>"

definition sample_externs :: externs where
  "sample_externs = \<lparr>ex_json_text = \<lambda>_. ''{}'', ex_is_file = \<lambda>_. Some True, ex_file_name = \<lambda>_. None,
     ex_env_set = \<lambda>_. False\<rparr>"

lemma sample_facts:
  "find_operation sample_schema ''getUser'' = Some sample_operation"
  "auto_derive_step sample_step sample_schema [] = Inr [derived_parameter [] (sample_param ''limit'' QueryParam)]"
  by (simp_all add: find_operation_def sample_schema_def resource_operations_def sample_operation_def
      auto_derive_step_def sample_step_def find_operation_or_error_def derived_fields_def bound_fields_def
      field_root_def before_match_def name_end_def required_parameters_def required_body_fields_def sample_param_def)


section \<open>Divergences\<close>

text \<open>
  The review plan takes the root of \<open>items[0].id\<close> to be \<open>items[0]\<close>, where request assembly and derivation take
  \<open>items\<close>, so a body field bound only through an array element is not shown individually.
\<close>

lemma review_root_of_array_element:
  "review_root ''items[0].id'' = ''items[0]'' \<and> field_root ''items[0].id'' = ''items''"
  by code_simp

end
