(* ===== verification/CompileLaws.thy ===== *)
theory CompileLaws
  imports ResolveLaws Compiler
begin

text \<open>
  What a successful compilation promises the executor: every binding of a step is closed (it reads declared
  inputs, outputs of earlier steps or a plain field of its own step), inputs have schemas, skippable
  steps have defaults and no leaf of a body is bound twice.
\<close>

section \<open>Positions and outputs by step id\<close>

lemma fold_binsert_map_of:
  "distinct (map fst ps) \<Longrightarrow> bget (fold (\<lambda>(k, v). binsert k v) ps []) k = map_of ps k"
  using btree.lookup_store_all [of "[]" ps k] by (simp split: option.splits)

lemma map_of_distinct_iff:
  "distinct (map fst ps) \<Longrightarrow> map_of ps k = Some v \<longleftrightarrow> (k, v) \<in> set ps"
  by simp

lemma step_positions_iff:
  assumes "distinct (map sd_id steps)"
  shows "bget (step_positions steps) sid = Some j \<longleftrightarrow> j < length steps \<and> sd_id (steps ! j) = sid"
proof -
  let ?ps = "map (\<lambda>(i, s). (sd_id s, i)) (enumerate 0 steps)"
  have eq: "step_positions steps = fold (\<lambda>(k, v). binsert k v) ?ps []"
    by (simp add: step_positions_def fold_map comp_def case_prod_unfold)
  have "map fst ?ps = map sd_id steps"
    by (simp add: comp_def case_prod_unfold flip: map_map [of sd_id snd, unfolded comp_def])
  then have "distinct (map fst ?ps)" using assms by simp
  then show ?thesis
    by (auto simp: eq fold_binsert_map_of in_set_enumerate_eq image_iff split: prod.split)
qed

lemma outputs_by_step_at:
  assumes "distinct (map sd_id steps)" "j < length steps"
  shows "bget (outputs_by_step steps) (sd_id (steps ! j)) = Some (map soc_name (sd_outputs (steps ! j)))"
proof -
  let ?ps = "map (\<lambda>s. (sd_id s, map soc_name (sd_outputs s))) steps"
  have eq: "outputs_by_step steps = fold (\<lambda>(k, v). binsert k v) ?ps []"
    by (simp add: outputs_by_step_def fold_map comp_def)
  have "distinct (map fst ?ps)" using assms(1) by (simp add: comp_def)
  then show ?thesis using assms(2) by (simp add: eq fold_binsert_map_of)
qed

lemma unique_ids_ok: "unique_ids wid seen ids = Inr u \<longleftrightarrow> distinct ids \<and> set ids \<inter> set seen = {}"
  by (induction wid seen ids rule: unique_ids.induct) auto

section \<open>Closed bindings\<close>

definition binding_closed :: "step_definition list \<Rightarrow> string list \<Rightarrow> nat \<Rightarrow> step_input_binding \<Rightarrow> bool" where
  "binding_closed steps declared i b =
     (case sib_source b of
        Literal lit \<Rightarrow> \<not> lit_sensitive lit
      | Reference r \<Rightarrow>
          (case rb_from r of
             FromWorkflow n \<Rightarrow> n \<in> set declared \<and> rb_output r = None
           | FromStep sid \<Rightarrow>
               (\<exists>j < i. sd_id (steps ! j) = sid \<and>
                  (\<exists>out \<in> set (sd_outputs (steps ! j)). rb_output r = Some (soc_name out))))
      | Format template \<Rightarrow> (\<exists>ns. format_placeholders template = Inr ns \<and> set ns \<subseteq> set declared)
      | Mirror target \<Rightarrow>
          (\<exists>src. bget (bindings_by_field (sd_inputs (steps ! i))) target = Some src \<and> \<not> is_mirror src))"

lemma validate_definition_parts:
  assumes "validate_definition def = Inr u"
  shows "distinct (map sd_id (wd_steps def))" "validate_step_kinds def = Inr ()" "validate_dependencies def = Inr ()"
    "validate_step_output_references def = Inr ()" "validate_workflow_references def = Inr ()"
    "validate_format_bindings def = Inr ()" "validate_mirror_bindings def = Inr ()"
    "validate_no_sensitive def = Inr ()" "validate_skippable_outputs_have_defaults def = Inr ()"
  using assms by (auto simp: validate_definition_def and_then_ok validate_unique_step_ids_def unique_ids_ok)

lemma each_step_enumerate:
  "each_ok f (enumerate 0 xs) = Inr u \<longleftrightarrow> (\<forall>i < length xs. f (i, xs ! i) = Inr ())"
  by (auto simp: each_ok_ok in_set_enumerate_eq split: prod.splits)

lemma validate_binding_closed:
  assumes ok: "validate_definition def = Inr u" and i: "i < length (wd_steps def)"
    and b: "b \<in> set (sd_inputs (wd_steps def ! i))"
  shows "binding_closed (wd_steps def) (declared_inputs def) i b"
proof -
  note parts = validate_definition_parts [OF ok]
  let ?s = "wd_steps def ! i"
  have s: "?s \<in> set (wd_steps def)" using i by simp
  have out: "validate_output_reference (step_positions (wd_steps def)) (outputs_by_step (wd_steps def)) i ?s b = Inr ()"
  proof -
    have "each_ok (validate_output_reference (step_positions (wd_steps def)) (outputs_by_step (wd_steps def)) i ?s)
        (sd_inputs ?s) = Inr ()"
      using parts(4) i unfolding validate_step_output_references_def each_step_enumerate by auto
    with b show ?thesis by (simp add: each_ok_ok)
  qed
  have wf: "validate_workflow_reference (declared_inputs def) ?s b = Inr ()"
    using parts(5) s b by (simp add: validate_workflow_references_def each_binding_def each_step_def each_ok_ok)
  have fmt: "validate_format_binding (declared_inputs def) ?s b = Inr ()"
    using parts(6) s b by (simp add: validate_format_bindings_def each_binding_def each_step_def each_ok_ok)
  have mir: "validate_mirror_binding ?s b = Inr ()"
    using parts(7) s b by (simp add: validate_mirror_bindings_def each_binding_def each_step_def each_ok_ok)
  have sens: "\<not> binding_sensitive b"
    using parts(8) s b by (auto simp: validate_no_sensitive_def guard_ok_ok has_sensitive_def list_ex_iff)
  show ?thesis
  proof (cases "sib_source b")
    case (Literal lit)
    with sens show ?thesis by (simp add: binding_closed_def binding_sensitive_def)
  next
    case (Reference r)
    show ?thesis
    proof (cases "rb_from r")
      case (FromWorkflow n)
      with wf Reference show ?thesis
        by (simp add: binding_closed_def validate_workflow_reference_def and_then_ok guard_ok_ok)
    next
      case (FromStep sid)
      with out Reference obtain j name where
        j: "bget (step_positions (wd_steps def)) sid = Some j" "j < i" "rb_output r = Some name"
        and mem: "case bget (outputs_by_step (wd_steps def)) sid of None \<Rightarrow> False | Some names \<Rightarrow> name \<in> set names"
        by (auto simp: validate_output_reference_def guard_ok_ok split: option.splits if_splits)
      then have at: "j < length (wd_steps def)" "sd_id (wd_steps def ! j) = sid"
        using step_positions_iff [OF parts(1)] by auto
      then have "name \<in> soc_name ` set (sd_outputs (wd_steps def ! j))"
        using mem outputs_by_step_at [OF parts(1) at(1)] by simp
      with j at Reference FromStep show ?thesis by (auto simp: binding_closed_def)
    qed
  next
    case (Format t)
    with fmt show ?thesis
      by (auto simp: binding_closed_def validate_format_binding_def validate_template_def and_then_ok each_ok_ok guard_ok_ok)
  next
    case (Mirror target)
    with mir show ?thesis
      by (auto simp: binding_closed_def validate_mirror_binding_def guard_ok_ok split: option.splits if_splits)
  qed
qed

section \<open>The compiled workflow\<close>

lemma compile_workflow_parts:
  assumes "compile_workflow def cat = Inr cw"
  shows "validate_definition def = Inr ()" "resolve_input_schemas def cat = Inr (cw_inputs cw)"
    "validate_leaf_collisions def = Inr ()" "validate_nested_paths def cat = Inr ()"
    "map_ok (compile_step cat (cw_inputs cw)) (enumerate 0 (wd_steps def)) = Inr (cw_steps cw)"
    "cw_outputs cw = wd_outputs def"
  using assms by (auto simp: compile_workflow_def and_then_ok)

lemma compiled_step_at:
  assumes "compile_workflow def cat = Inr cw"
  shows "length (cw_steps cw) = length (wd_steps def)"
    and "i < length (wd_steps def) \<Longrightarrow>
      \<exists>derived. derive_fields_of_step cat (cw_inputs cw) (wd_steps def ! i) = Inr derived \<and>
        cw_steps cw ! i = step_definition.extend (wd_steps def ! i) \<lparr>cs_index = i, cs_auto_derived = derived\<rparr>"
proof -
  have all: "list_all2 (\<lambda>x y. compile_step cat (cw_inputs cw) x = Inr y) (enumerate 0 (wd_steps def)) (cw_steps cw)"
    using compile_workflow_parts(5) [OF assms] by (simp add: map_ok_ok)
  then show "length (cw_steps cw) = length (wd_steps def)" by (simp add: list_all2_conv_all_nth)
  assume "i < length (wd_steps def)"
  with all have "compile_step cat (cw_inputs cw) (i, wd_steps def ! i) = Inr (cw_steps cw ! i)"
    by (simp add: list_all2_conv_all_nth nth_enumerate_eq)
  then show "\<exists>derived. derive_fields_of_step cat (cw_inputs cw) (wd_steps def ! i) = Inr derived \<and>
      cw_steps cw ! i = step_definition.extend (wd_steps def ! i) \<lparr>cs_index = i, cs_auto_derived = derived\<rparr>"
    by (auto simp: compile_step_def and_then_ok)
qed

lemma compiled_step_fields:
  assumes "compile_workflow def cat = Inr cw" "i < length (wd_steps def)"
  shows "sd_id (cw_steps cw ! i) = sd_id (wd_steps def ! i)"
    "sd_inputs (cw_steps cw ! i) = sd_inputs (wd_steps def ! i)"
    "sd_outputs (cw_steps cw ! i) = sd_outputs (wd_steps def ! i)"
    "cs_index (cw_steps cw ! i) = i"
    "skippable (cw_steps cw ! i) = skippable (wd_steps def ! i)"
    "sd_kind (cw_steps cw ! i) = sd_kind (wd_steps def ! i)"
    "sd_operation (cw_steps cw ! i) = sd_operation (wd_steps def ! i)"
    "sd_action (cw_steps cw ! i) = sd_action (wd_steps def ! i)"
  using compiled_step_at(2) [OF assms] by (auto simp: step_definition.extend_def skippable_def)

lemma resolved_input:
  assumes "resolve_input_schema def cat input = Inr out"
  shows "out = input\<lparr>wi_schema := wi_schema out\<rparr> \<and> wi_schema out \<noteq> None \<and>
    (case wi_schema input of None \<Rightarrow> True | Some s \<Rightarrow> wi_schema out = Some s)"
  using assms by (auto simp: resolve_input_schema_def and_then_ok split: if_splits option.splits)

lemma skippable_defaults:
  assumes "validate_skippable_outputs_have_defaults def = Inr ()" "step \<in> set (wd_steps def)" "skippable step"
    "out \<in> set (sd_outputs step)"
  shows "soc_default out \<noteq> None"
proof -
  let ?check = "\<lambda>step out. guard_ok (soc_default out \<noteq> None)
    (internal_error (step_text step @ '' is skippable but its output '' @ quoted (soc_name out) @ '' has no default''))"
  have "(if \<not> skippable step then Inr () else each_ok (?check step) (sd_outputs step)) = Inr ()"
    using assms(1,2) unfolding validate_skippable_outputs_have_defaults_def each_step_def each_ok_ok by (rule bspec)
  with assms(3,4) have "?check step out = Inr ()" by (simp add: each_ok_ok)
  then show ?thesis by (simp add: guard_ok_ok)
qed

lemma closed_binding_resolves:
  assumes bound: "\<And>j. j < i \<Longrightarrow> bound_outputs ctx (sd_id (steps ! j)) (map soc_name (sd_outputs (steps ! j)))"
    and closed: "\<forall>b \<in> set (sd_inputs (steps ! i)). binding_closed steps declared i b"
    and b: "b \<in> set (sd_inputs (steps ! i))"
  shows "\<exists>v. resolve_binding X ctx supplied (bindings_by_field (sd_inputs (steps ! i))) loc (sib_source b) = Inr v"
proof -
  have direct: "\<exists>v. resolve_direct X ctx supplied (sib_source b') = Inr v"
    if "b' \<in> set (sd_inputs (steps ! i))" "\<not> is_mirror (sib_source b')" for b'
  proof (cases "sib_source b'")
    case (Reference r)
    then show ?thesis
    proof (cases "rb_from r")
      case (FromStep sid)
      with Reference closed that obtain j out where j: "j < i" "sd_id (steps ! j) = sid"
        and out: "out \<in> set (sd_outputs (steps ! j))" "rb_output r = Some (soc_name out)"
        by (fastforce simp: binding_closed_def)
      with bound [OF j(1)] obtain v where "resolve_step_reference ctx sid (soc_name out) = Some v"
        by (auto simp: bound_outputs_def)
      with Reference FromStep out show ?thesis by (simp add: resolve_direct_def)
    qed (simp add: resolve_direct_def split: option.split)
  qed (use that in \<open>simp_all add: resolve_direct_def is_mirror_def\<close>)
  show ?thesis
  proof (cases "sib_source b")
    case (Mirror target)
    with closed b obtain src where src: "bget (bindings_by_field (sd_inputs (steps ! i))) target = Some src" "\<not> is_mirror src"
      by (fastforce simp: binding_closed_def)
    then obtain b' where "b' \<in> set (sd_inputs (steps ! i))" "sib_source b' = src"
      using bget_bindings_by_field by blast
    with direct src have "\<exists>v. resolve_direct X ctx supplied src = Inr v" by blast
    with Mirror src show ?thesis
      by (cases src) (auto simp: resolve_binding_def is_mirror_def split: option.split)
  qed (use direct [OF b] in \<open>simp_all add: resolve_binding_def is_mirror_def\<close>)
qed

section \<open>Leaves\<close>

lemma claim_leaf_ok:
  "claim_leaf sid f claimed l = Inr c \<longleftrightarrow> bget claimed l = None \<and> c = binsert l f claimed"
  by (auto simp: claim_leaf_def split: option.splits)

lemma claim_leaf_fold:
  "fold_ok (claim_leaf sid f) claimed leaves = Inr c \<Longrightarrow>
   distinct leaves \<and> (\<forall>l \<in> set leaves. bget claimed l = None) \<and>
   (\<forall>l. bget c l = (if l \<in> set leaves then Some f else bget claimed l))"
proof (induction leaves arbitrary: claimed)
  case (Cons l leaves)
  then have none: "bget claimed l = None" and rest: "fold_ok (claim_leaf sid f) (binsert l f claimed) leaves = Inr c"
    by (auto simp: claim_leaf_ok and_then_ok)
  show ?case using Cons.IH [OF rest] none by (auto simp: bget_binsert split: if_splits)
qed simp

lemma claim_leaf_fold_ok:
  "distinct leaves \<Longrightarrow> \<forall>l \<in> set leaves. bget claimed l = None \<Longrightarrow>
   \<exists>c. fold_ok (claim_leaf sid f) claimed leaves = Inr c"
proof (induction leaves arbitrary: claimed)
  case (Cons l leaves)
  then have "\<exists>c. fold_ok (claim_leaf sid f) (binsert l f claimed) leaves = Inr c"
    by (intro Cons.IH) (auto simp: bget_binsert)
  moreover have "claim_leaf sid f claimed l = Inr (binsert l f claimed)"
    using Cons.prems by (simp add: claim_leaf_ok)
  ultimately show ?case by simp
qed simp

lemma claims_ok_iff:
  "(\<exists>c. fold_ok (claim_binding sid) claimed bs = Inr c) \<longleftrightarrow>
   distinct (concat (map binding_claimed_leaves bs)) \<and>
   (\<forall>l \<in> set (concat (map binding_claimed_leaves bs)). bget claimed l = None)"
proof (induction bs arbitrary: claimed)
  case (Cons b bs)
  let ?ls = "binding_claimed_leaves b"
  show ?case
  proof (cases "fold_ok (claim_leaf sid (sib_field b)) claimed ?ls")
    case (Inl e)
    then have "\<not> (distinct ?ls \<and> (\<forall>l \<in> set ?ls. bget claimed l = None))"
      using claim_leaf_fold_ok [of ?ls claimed sid "sib_field b"] by (metis sum.distinct(1))
    with Inl show ?thesis by (auto simp: claim_binding_def)
  next
    case (Inr c)
    note facts = claim_leaf_fold [OF Inr]
    have "(\<forall>l \<in> set (concat (map binding_claimed_leaves bs)). bget c l = None) \<longleftrightarrow>
      set ?ls \<inter> set (concat (map binding_claimed_leaves bs)) = {} \<and>
      (\<forall>l \<in> set (concat (map binding_claimed_leaves bs)). bget claimed l = None)"
      using facts by auto
    with Inr facts Cons.IH [of c] show ?thesis by (auto simp: claim_binding_def)
  qed
qed simp

section \<open>Properties\<close>

lemma compiled_ids_distinct: "compile_workflow def cat = Inr cw \<Longrightarrow> distinct (map sd_id (cw_steps cw))"
proof -
  assume ok: "compile_workflow def cat = Inr cw"
  have "map sd_id (cw_steps cw) = map sd_id (wd_steps def)"
    using compiled_step_at(1) [OF ok] compiled_step_fields(1) [OF ok] by (intro nth_equalityI) simp_all
  then show ?thesis using validate_definition_parts(1) [OF compile_workflow_parts(1) [OF ok]] by simp
qed

text \<open>C8. A workflow that compiles is closed: step ids are distinct and steps keep their index, every binding reads
  a declared input, a declared output of an earlier step or a plain field of its own step, dependencies point
  backwards, every input keeps its declaration and has a schema, and a skippable step has a default for each
  of its outputs.\<close>

theorem compile_closes_workflow:
  assumes "compile_workflow def cat = Inr cw"
  shows "distinct (map sd_id (cw_steps cw)) \<and>
    map cs_index (cw_steps cw) = [0..<length (wd_steps def)] \<and>
    (\<forall>i < length (wd_steps def). \<forall>b \<in> set (sd_inputs (cw_steps cw ! i)).
       binding_closed (wd_steps def) (map wi_name (cw_inputs cw)) i b) \<and>
    (\<forall>i < length (wd_steps def). \<forall>dep \<in> set (sd_dependencies (wd_steps def ! i)). \<exists>j < i. sd_id (cw_steps cw ! j) = dep) \<and>
    list_all2 (\<lambda>input out. out = input\<lparr>wi_schema := wi_schema out\<rparr> \<and> wi_schema out \<noteq> None \<and>
        (case wi_schema input of None \<Rightarrow> True | Some s \<Rightarrow> wi_schema out = Some s)) (wd_inputs def) (cw_inputs cw) \<and>
    (\<forall>step \<in> set (cw_steps cw). \<forall>out \<in> set (sd_outputs step). skippable step \<longrightarrow> soc_default out \<noteq> None)"
proof (intro conjI allI impI ballI)
  note ok = compile_workflow_parts [OF assms]
  note parts = validate_definition_parts [OF ok(1)]
  note len = compiled_step_at(1) [OF assms]
  note at = compiled_step_fields [OF assms]
  have ids: "map sd_id (cw_steps cw) = map sd_id (wd_steps def)"
    using len at(1) by (intro nth_equalityI) simp_all
  then show "distinct (map sd_id (cw_steps cw))" using parts(1) by simp
  show "map cs_index (cw_steps cw) = [0..<length (wd_steps def)]"
    using len at(4) by (intro nth_equalityI) simp_all
  have inputs: "list_all2 (\<lambda>input out. resolve_input_schema def cat input = Inr out) (wd_inputs def) (cw_inputs cw)"
    using ok(2) by (simp add: resolve_input_schemas_def map_ok_ok)
  then show "list_all2 (\<lambda>input out. out = input\<lparr>wi_schema := wi_schema out\<rparr> \<and> wi_schema out \<noteq> None \<and>
      (case wi_schema input of None \<Rightarrow> True | Some s \<Rightarrow> wi_schema out = Some s)) (wd_inputs def) (cw_inputs cw)"
    by (rule list_all2_mono) (rule resolved_input)
  have names: "map wi_name (cw_inputs cw) = declared_inputs def"
    using inputs unfolding declared_inputs_def
  proof (induction rule: list_all2_induct)
    case (Cons x xs y ys)
    have "wi_name y = wi_name (x\<lparr>wi_schema := wi_schema y\<rparr>)"
      using resolved_input [OF Cons.hyps(1)] by (metis (no_types))
    with Cons.IH show ?case by simp
  qed simp
  show "binding_closed (wd_steps def) (map wi_name (cw_inputs cw)) i b"
    if "i < length (wd_steps def)" "b \<in> set (sd_inputs (cw_steps cw ! i))" for i b
    using validate_binding_closed [OF ok(1)] that at(2) names by simp
  show "\<exists>j < i. sd_id (cw_steps cw ! j) = dep"
    if i: "i < length (wd_steps def)" and dep: "dep \<in> set (sd_dependencies (wd_steps def ! i))" for i dep
  proof -
    have "each_ok (validate_dependency (step_positions (wd_steps def)) i (wd_steps def ! i))
        (sd_dependencies (wd_steps def ! i)) = Inr ()"
      using parts(3) i unfolding validate_dependencies_def each_step_enumerate by auto
    with dep obtain j where "bget (step_positions (wd_steps def)) dep = Some j" "j < i"
      by (auto simp: each_ok_ok validate_dependency_def guard_ok_ok split: option.splits)
    with i at(1) step_positions_iff [OF parts(1)] show ?thesis by auto
  qed
  show "soc_default out \<noteq> None"
    if "step \<in> set (cw_steps cw)" "out \<in> set (sd_outputs step)" "skippable step" for step out
  proof -
    from that(1) len obtain i where i: "i < length (wd_steps def)" "step = cw_steps cw ! i"
      by (metis in_set_conv_nth)
    with that at(3,5) have "out \<in> set (sd_outputs (wd_steps def ! i))" "skippable (wd_steps def ! i)" by simp_all
    with skippable_defaults [OF parts(9) nth_mem [OF i(1)]] show ?thesis by blast
  qed
qed

lemma compiled_bindings_resolve:
  assumes "compile_workflow def cat = Inr cw" "i < length (cw_steps cw)"
    and "\<forall>j < i. bound_outputs ctx (sd_id (cw_steps cw ! j)) (map soc_name (sd_outputs (cw_steps cw ! j)))"
    and "b \<in> set (sd_inputs (cw_steps cw ! i))"
  shows "\<exists>v. resolve_binding X ctx supplied (bindings_by_field (sd_inputs (cw_steps cw ! i))) loc (sib_source b) = Inr v"
proof -
  note len = compiled_step_at(1) [OF assms(1)]
  note at = compiled_step_fields [OF assms(1)]
  note ok = compile_workflow_parts [OF assms(1)]
  have i: "i < length (wd_steps def)" using assms(2) len by simp
  have "bound_outputs ctx (sd_id (wd_steps def ! j)) (map soc_name (sd_outputs (wd_steps def ! j)))" if "j < i" for j
    using assms(3) that i at by auto
  then have "\<exists>v. resolve_binding X ctx supplied (bindings_by_field (sd_inputs (wd_steps def ! i))) loc (sib_source b) = Inr v"
  proof (rule closed_binding_resolves)
    show "\<forall>b \<in> set (sd_inputs (wd_steps def ! i)). binding_closed (wd_steps def) (declared_inputs def) i b"
      using validate_binding_closed [OF ok(1) i] by blast
    show "b \<in> set (sd_inputs (wd_steps def ! i))" using assms(4) at(2) [OF i] by simp
  qed
  then show ?thesis using at(2) [OF i] by simp
qed

text \<open>C9. In a compiled workflow no binding fails: once the steps before it have bound their outputs, every binding
  of a step resolves without error, whatever the user supplied or edited.\<close>

theorem compiled_bindings_never_fail:
  assumes "compile_workflow def cat = Inr cw" "i < length (cw_steps cw)"
    and "\<forall>j < i. bound_outputs ctx (sd_id (cw_steps cw ! j)) (map soc_name (sd_outputs (cw_steps cw ! j)))"
    and "b \<in> set (sd_inputs (cw_steps cw ! i))"
  shows "\<exists>v. resolve_binding X ctx supplied (bindings_by_field (sd_inputs (cw_steps cw ! i))) loc (sib_source b) = Inr v"
  by (rule compiled_bindings_resolve [OF assms])

text \<open>The leaf check accepts a workflow exactly when, in every step, the leaves claimed by its bindings are
  pairwise distinct.\<close>

theorem leaf_collisions_iff:
  "validate_leaf_collisions def = Inr () \<longleftrightarrow>
   list_all (\<lambda>step. distinct (concat (map binding_claimed_leaves (sd_inputs step)))) (wd_steps def)"
proof -
  have "(\<exists>c. fold_ok (claim_binding (sd_id step)) [] (sd_inputs step) = Inr c) \<longleftrightarrow>
      distinct (concat (map binding_claimed_leaves (sd_inputs step)))" for step :: step_definition
    by (simp add: claims_ok_iff)
  then show ?thesis
    by (simp add: validate_leaf_collisions_def each_step_def each_ok_ok and_then_ok list_all_iff)
qed

section \<open>A workflow that compiles\<close>

definition sample_binding :: "string \<Rightarrow> binding_source \<Rightarrow> step_input_binding" where
  "sample_binding f src = \<lparr>sib_field = f, sib_source = src, sib_show_in_review = False, sib_description = None\<rparr>"

definition sample_first :: step_definition where
  "sample_first = sample_step\<lparr>sd_id := ''a'',
     sd_inputs := [sample_binding ''userId'' (Literal \<lparr>lit_value = JStr ''u1'', lit_sensitive = False\<rparr>)],
     sd_outputs := [\<lparr>soc_name = ''id'', soc_path = ''$.id'', soc_default = None, soc_sensitive = False\<rparr>]\<rparr>"

definition sample_second :: step_definition where
  "sample_second = sample_step\<lparr>sd_id := ''b'', sd_dependencies := [''a''],
     sd_inputs := [sample_binding ''userId''
       (Reference \<lparr>rb_from = FromStep ''a'', rb_output = Some ''id'', rb_transform = None\<rparr>)]\<rparr>"

definition sample_input :: workflow_input_spec where
  "sample_input = \<lparr>wi_name = ''limit'', wi_description = None, wi_schema = None, wi_required = False,
     wi_default = None, wi_sensitive = False, wi_options_source = None, wi_file_picker = None,
     wi_location = LocBody\<rparr>"

definition sample_definition :: workflow_definition where
  "sample_definition = \<lparr>wd_id = ''w'', wd_name = ''w'', wd_protocol_version = None, wd_intent = None,
     wd_description = None, wd_briefing = None, wd_inputs = [sample_input], wd_is_reviewed_by_default = True,
     wd_steps = [sample_first, sample_second], wd_outputs = [], wd_completion = None\<rparr>"

definition sample_catalogue :: catalogue where
  "sample_catalogue service = (if service = ''iam'' then Inr sample_schema
     else Inl (internal_error (''unknown service '' @ quoted service)))"

definition sample_limit :: auto_derived_field where
  "sample_limit = \<lparr>adf_field = ''limit'', adf_schema = JObj [(''type'', JStr ''string'')], adf_required = True,
     adf_sensitive = False, adf_description = None, adf_scope = ScopeWorkflow ''limit'', adf_location = LocQuery\<rparr>"

definition sample_compiled :: compiled_workflow where
  "sample_compiled =
     \<lparr>cw_id = ''w'', cw_name = ''w'', cw_intent = None, cw_description = None, cw_briefing = None,
      cw_inputs = [sample_input\<lparr>wi_schema := Some (JObj [(''type'', JStr ''string'')])\<rparr>],
      cw_is_reviewed_by_default = True,
      cw_steps = [step_definition.extend sample_first (compiled_step.fields 0 [sample_limit]),
                  step_definition.extend sample_second (compiled_step.fields 1 [sample_limit])],
      cw_outputs = [], cw_completion = None\<rparr>"

lemma sample_compiles: "compile_workflow sample_definition sample_catalogue = Inr sample_compiled"
  by code_simp

theorem compile_closes_workflow_witness:
  "distinct (map sd_id (cw_steps sample_compiled)) \<and> map cs_index (cw_steps sample_compiled) = [0..<length (wd_steps sample_definition)]"
  using compile_closes_workflow [OF sample_compiles] by blast

theorem compiled_bindings_never_fail_witness:
  "\<exists>v. resolve_binding sample_externs (inject_step_captures_for_dry_run ''a'' [(''id'', JStr ''u1'')] new_context) []
     (bindings_by_field (sd_inputs (cw_steps sample_compiled ! 1))) []
     (Reference \<lparr>rb_from = FromStep ''a'', rb_output = Some ''id'', rb_transform = None\<rparr>) = Inr v"
proof -
  let ?ctx = "inject_step_captures_for_dry_run ''a'' [(''id'', JStr ''u1'')] new_context"
  let ?src = "Reference \<lparr>rb_from = FromStep ''a'', rb_output = Some ''id'', rb_transform = None\<rparr>"
  note at = compiled_step_fields [OF sample_compiles]
  have first: "sd_id (cw_steps sample_compiled ! 0) = ''a''"
      "map soc_name (sd_outputs (cw_steps sample_compiled ! 0)) = [''id'']"
    by (subst at; simp add: sample_definition_def sample_first_def)+
  have inputs: "sd_inputs (cw_steps sample_compiled ! 1) = [sample_binding ''userId'' ?src]"
    by (subst at; simp add: sample_definition_def sample_second_def)
  have ctx: "\<forall>j < 1. bound_outputs ?ctx (sd_id (cw_steps sample_compiled ! j))
      (map soc_name (sd_outputs (cw_steps sample_compiled ! j)))"
    by (simp add: first bound_outputs_def)
      (simp add: resolve_step_reference_def inject_step_captures_for_dry_run_def new_context_def bget_def)
  have len: "1 < length (cw_steps sample_compiled)"
    using compiled_step_at(1) [OF sample_compiles] by (simp add: sample_definition_def)
  have b: "sample_binding ''userId'' ?src \<in> set (sd_inputs (cw_steps sample_compiled ! 1))"
    using inputs by simp
  show ?thesis
    using compiled_bindings_never_fail [OF sample_compiles len ctx b, of sample_externs "[]" "[]"]
    by (simp add: sample_binding_def)
qed

end
