(* ===== verification/ExecSample.thy ===== *)
theory ExecSample
  imports ExecRun CompileLaws
begin

text \<open>
  A concrete run on which the hypotheses of the execution theorems are met: a workflow with one local step, a
  frontend that agrees to everything and a service that answers every command with a record that has an identifier.
\<close>

definition sample_reply :: command_output where
  "sample_reply = OutService \<lparr>ao_operation = sample_operation, ao_resource_name = ''users'',
     ao_body = EmptyBody, ao_raw_body = Some (JObj [(''id'', JStr ''u1'')])\<rparr>"

definition sample_command_preview :: "command_request \<Rightarrow> command_preview" where
  "sample_command_preview rq = \<lparr>cp_service = rq_service rq, cp_operation_id = rq_operation_id rq, cp_summary = [],
     cp_http_method = Get, cp_url = [], cp_mutation_class = ReadOnly, cp_confirmation_required = False, cp_warnings = []\<rparr>"

definition sample_env :: "run_options \<Rightarrow> unit env" where
  "sample_env opts =
     \<lparr>env_externs = plain_externs, env_catalogue = sample_catalogue, env_namespace = None, env_options = opts,
      env_on_event = \<lambda>_ w. w,
      env_present_briefing = \<lambda>_ _ w. (Inr True, w),
      env_collect_inputs = \<lambda>_ m w. (Inr (Some \<lparr>co_inputs = m, co_run_mode = ReviewInputSteps\<rparr>), w),
      env_gather_inputs = \<lambda>_ _ _ w. (Inr \<lparr>gr_slot_values = [], gr_input_overrides = []\<rparr>, w),
      env_confirm_step = \<lambda>_ _ w. (Inr ConfirmProceed, w),
      env_review_step = \<lambda>_ w. (Inr (ReviewProceed []), w),
      env_resolve_failure = \<lambda>_ _ _ w. (Inr FailureCancel, w),
      env_run_command = \<lambda>_ w. (([], Inr sample_reply), w),
      env_preview_command = \<lambda>rq w. (Inr (sample_command_preview rq), w),
      env_dry_run_command = \<lambda>_ w. (Inl (internal_error ''offline''), w),
      env_run_action = \<lambda>_ _ _ w. (([], Inr JNull), w)\<rparr>"

definition sample_secret :: "string \<Rightarrow> step_input_binding" where
  "sample_secret f = sample_binding f (Literal \<lparr>lit_value = JStr ''x'', lit_sensitive = True\<rparr>)"

definition sample_local :: compiled_step where
  "sample_local = step_definition.extend
     (sample_step\<lparr>sd_id := ''c'', sd_kind := Local, sd_action := Some ''docker-login'', sd_operation := None,
        sd_inputs := [sample_secret ''registry'', sample_secret ''username'', sample_secret ''password'']\<rparr>)
     (compiled_step.fields 0 [])"

definition sample_local_workflow :: compiled_workflow where
  "sample_local_workflow = sample_compiled\<lparr>cw_inputs := [], cw_steps := [sample_local]\<rparr>"

definition sample_consts :: "compiled_workflow \<Rightarrow> run_options \<Rightarrow> unit run_consts" where
  "sample_consts cw opts = \<lparr>rx_env = sample_env opts, rx_compiled = cw, rx_flags = [], rx_defaults = [],
     rx_mode = ReviewInputSteps\<rparr>"

lemma then_phase_Inr: "p st = (Inr a, st1) \<Longrightarrow> then_phase p k st = k a st1"
  by (simp add: then_phase_def)

lemma sample_local_fields:
  "sd_id sample_local = ''c''" "sd_kind sample_local = Local" "sd_action sample_local = Some ''docker-login''"
  "sd_outputs sample_local = []" "cs_index sample_local = 0" "sd_continue_on_failure sample_local = False"
  by (simp_all add: sample_local_def sample_step_def step_definition.defs compiled_step.defs)

lemma sample_local_bindings:
  "resolve_local_step_bindings plain_externs sample_local new_context [] =
   Inr [(''password'', JStr ''x''), (''registry'', JStr ''x''), (''username'', JStr ''x'')]"
  by code_simp

lemma sample_consts_fields [simp]:
  "rx_env (sample_consts cw opts) = sample_env opts" "rx_compiled (sample_consts cw opts) = cw"
  "rx_options (sample_consts cw opts) = opts"
  by (simp_all add: sample_consts_def rx_options_def sample_env_def)

lemma sample_env_fields [simp]:
  "env_externs (sample_env opts) = plain_externs" "env_options (sample_env opts) = opts"
  "env_run_action (sample_env opts) = (\<lambda>_ _ _ w. (([], Inr JNull), w))"
  "env_catalogue (sample_env opts) = sample_catalogue" "env_namespace (sample_env opts) = None"
  "env_run_command (sample_env opts) = (\<lambda>_ w. (([], Inr sample_reply), w))"
  by (simp_all add: sample_env_def)

lemma sample_action:
  "\<exists>st'. try_action (sample_consts cw opts) sample_local action inputs st = (AttemptOk ''c ok'', st') \<and> st_pending st' = st_pending st"
  by (auto simp: try_action_def perform_def ask_def forward_progress_def logged_def store_and_bind_def bind_step_outputs_def sample_local_fields
    bind_entry_def split: sum.split)


lemma sample_step_runs:
  assumes "st_ctx st = new_context" "st_supplied st = []" "\<not> ro_dry_run opts"
  shows "\<exists>st'. run_step (sample_consts cw opts) 1 sample_local st = (Continue, st') \<and> st_pending st' = st_pending st"
proof -
  let ?R = "sample_consts cw opts"
  let ?inputs = "[(''password'', JStr ''x''), (''registry'', JStr ''x''), (''username'', JStr ''x'')]"
  let ?st = "begin_step ?R sample_local st"
  have b: "st_ctx ?st = new_context" "st_supplied ?st = []" "st_pending ?st = st_pending st"
    using assms by (simp_all add: begin_step_def emit_def logged_def)
  obtain st1 where t: "try_action ?R sample_local ''docker-login'' ?inputs ?st = (AttemptOk ''c ok'', st1)"
    and p: "st_pending st1 = st_pending st" using sample_action b(3) by metis
  have e: "bextend [] ?inputs = ?inputs" by code_simp
  have k: "local_action_lookup ''docker-login'' \<noteq> None" by (simp add: local_action_lookup_def)
  have i: "local_inputs ?R sample_local ?st = (Inr ?inputs, ?st)"
    by (simp add: local_inputs_def b sample_local_bindings e return_def)
  have "(run_local_step ?R 1 sample_local ?st :: (step_flow + unit) \<times> _) =
      then_phase (retry_loop ?R sample_local (try_action ?R sample_local ''docker-login'' ?inputs) (\<lambda>_. from_error) 1 0)
        (close_step ?R sample_local (\<lambda>_. [])) ?st"
    by (simp add: run_local_step_def sample_local_fields k then_phase_Inr [of "local_inputs ?R sample_local", OF i] assms(3))
  also have "\<dots> = close_step ?R sample_local (\<lambda>_. [])
      \<lparr>se_outcome = StepSuccess, se_summary = ''c ok'', se_reason = None, se_facts = None, se_attempts = 1\<rparr> st1"
    by (rule then_phase_Inr) (simp add: t Let_def u32_saturating_succ_def)
  finally show ?thesis
    by (simp add: run_step_def sample_local_fields close_step_def finish_step_def emit_def logged_def p)
qed

lemma sample_execution:
  "\<exists>out st. execute (sample_env default_run_options) sample_local_workflow [] 1 () = (Finished RunSuccess out None, st)"
proof -
  let ?E = "sample_env default_run_options"
  let ?st = "emit ?E (WorkflowStarted sample_local_workflow) (initial_state [] ())"
  have s: "st_ctx ?st = new_context" "st_supplied ?st = []" "st_pending ?st = None"
    by (simp_all add: emit_def logged_def initial_state_def)
  have o: "\<not> ro_no_input default_run_options" "\<not> ro_review_steps default_run_options" "\<not> ro_dry_run default_run_options"
    by (simp_all add: default_run_options_def)
  have w: "cw_inputs sample_local_workflow = []" "cw_briefing sample_local_workflow = None" "cw_steps sample_local_workflow = [sample_local]"
    by (simp_all add: sample_local_workflow_def sample_compiled_def)
  from sample_step_runs [OF s(1,2) o(3)] s(3) obtain st' where
    "run_step (sample_consts sample_local_workflow default_run_options) 1 sample_local ?st = (Continue, st')" "st_pending st' = None"
    by metis
  moreover have pend: "st_pending (emit ?E ev st) = st_pending st" for ev st by (simp add: emit_def logged_def)
  ultimately show ?thesis
    by (simp add: execute_def w o seed_defaults_def briefing_phase_def collect_phase_def Let_def loop_phase_def bkeys_def
        sample_consts_def finalise_def pend)
qed

end
