(* ===== verification/ExecProps.thy ===== *)
theory ExecProps
  imports ExecLaws ExecSample
begin

text \<open>
  Properties of whole runs: the lifecycle of events and the run facts, what a run may do under its options,
  confirmation before dispatch, non-interactive runs and the flow of outputs between steps.
\<close>

section \<open>Lifecycle marks\<close>

definition mark_of :: "effect \<Rightarrow> (nat + nat \<times> step_outcome) option" where
  "mark_of e =
     (case e of
        Emitted (StepStarted i _) \<Rightarrow> Some (Inl i)
      | Emitted (StepFinished fin) \<Rightarrow> Some (Inr (fin_index fin, fin_outcome fin))
      | _ \<Rightarrow> None)"

definition marks :: "effect list \<Rightarrow> (nat + nat \<times> step_outcome) list" where
  "marks log = List.map_filter mark_of log"

lemma marks_simps [simp]:
  "marks [] = []"
  "marks (xs @ ys) = marks xs @ marks ys"
  "marks (e # xs) = (case mark_of e of None \<Rightarrow> marks xs | Some m \<Rightarrow> m # marks xs)"
  by (simp_all add: marks_def List.map_filter_def split: option.split)

lemma mark_of_simps [simp]:
  "mark_of (Emitted (StepStarted i s)) = Some (Inl i)"
  "mark_of (Emitted (StepFinished fin)) = Some (Inr (fin_index fin, fin_outcome fin))"
  "mark_of (Emitted (WorkflowStarted c)) = None"
  "mark_of (Emitted (WorkflowFinished o' f)) = None"
  "mark_of AskedBriefing = None" "mark_of AskedInputs = None"
  by (simp_all add: mark_of_def)

lemma step_effect_no_mark: "step_effect R step e \<Longrightarrow> mark_of e = None"
  by (auto simp: step_effect_def mark_of_def split: effect.splits workflow_event.splits)

lemma marks_mid: "list_all (step_effect R step) mid \<Longrightarrow> marks mid = []"
  by (induction mid) (auto simp: step_effect_no_mark)

lemma closes_marks:
  assumes "closes (step_effect R step) step oc st st'"
  shows "marks (st_log st') = marks (st_log st) @ [Inr (cs_index step, oc)]"
proof -
  obtain mid fin where "st_log st' = st_log st @ mid @ [Emitted (StepFinished fin)]"
      "list_all (step_effect R step) mid" "fin_index fin = cs_index step" "fin_outcome fin = oc"
    using assms unfolding closes_def by blast
  then show ?thesis by (simp add: marks_mid)
qed

definition tallied :: "run_facts \<Rightarrow> step_outcome list \<Rightarrow> run_facts \<Rightarrow> bool" where
  "tallied f ocs f' \<longleftrightarrow>
     rf_started f' = rf_started f + length ocs \<and>
     rf_succeeded f' = rf_succeeded f + count_list ocs StepSuccess \<and>
     rf_failed f' = rf_failed f + count_list ocs StepFailed \<and>
     rf_skipped f' = rf_skipped f + count_list ocs StepSkipped \<and>
     rf_cancelled f' = rf_cancelled f + count_list ocs StepCancelled"

lemma tallied_step:
  "tallied f [oc] (tally_step_outcome oc (f\<lparr>rf_started := Suc (rf_started f), rf_last_step := l\<rparr>))"
  by (cases oc) (simp_all add: tallied_def tally_step_outcome_def)

lemma tallied_trans: "tallied f ocs f1 \<Longrightarrow> tallied f1 ocs' f2 \<Longrightarrow> tallied f (ocs @ ocs') f2"
  by (simp add: tallied_def)

definition step_marks :: "compiled_step list \<Rightarrow> step_outcome list \<Rightarrow> (nat + nat \<times> step_outcome) list" where
  "step_marks steps ocs = concat (map2 (\<lambda>s oc. [Inl (cs_index s), Inr (cs_index s, oc)]) steps ocs)"

definition run_ends :: "compiled_step list \<Rightarrow> step_outcome list \<Rightarrow> step_flow \<Rightarrow> bool" where
  "run_ends steps ocs fl \<longleftrightarrow>
     length ocs \<le> length steps \<and> list_all goes_on (butlast ocs) \<and>
     (case fl of
        Continue \<Rightarrow> length ocs = length steps \<and> list_all goes_on ocs
      | Stop _ \<Rightarrow> ocs \<noteq> [] \<and> flow_outcome fl (last ocs)
      | _ \<Rightarrow> False)"

lemma run_steps_trace:
  assumes "run_steps R fuel steps st = (fl, st')" "\<And>e. fl \<noteq> Escape e" "fl \<noteq> OutOfFuel"
  shows "\<exists>ocs. marks (st_log st') = marks (st_log st) @ step_marks steps ocs \<and> run_ends steps ocs fl \<and>
    tallied (st_facts st) ocs (st_facts st') \<and>
    (if fl = Stop RunFailed then st_pending st' \<noteq> None else st_pending st' = st_pending st)"
  using assms
proof (induction steps arbitrary: st)
  case Nil
  then show ?case by (intro exI [of _ "[]"]) (auto simp: step_marks_def run_ends_def tallied_def)
next
  case (Cons step steps)
  obtain fl1 st1 where s: "run_step R fuel step st = (fl1, st1)" by (meson surj_pair)
  note c = run_step_closes [OF s]
  have open_step: "marks (st_log (begin_step R step st)) = marks (st_log st) @ [Inl (cs_index step)]" by simp
  have one: "marks (st_log st1) = marks (st_log st) @ [Inl (cs_index step), Inr (cs_index step, oc)]"
      "tallied (st_facts st) [oc] (st_facts st1)"
    if "closes (step_effect R step) step oc (begin_step R step st) st1" for oc
  proof -
    from closes_marks [OF that] open_step show "marks (st_log st1) = marks (st_log st) @ [Inl (cs_index step), Inr (cs_index step, oc)]"
      by simp
    from that have "st_facts st1 = tally_step_outcome oc (st_facts (begin_step R step st))" by (simp add: closes_def)
    then show "tallied (st_facts st) [oc] (st_facts st1)" by (simp add: tallied_step)
  qed
  show ?case
  proof (cases "fl1 = Continue")
    case True
    with c obtain oc where oc: "goes_on oc" and cl: "closes (step_effect R step) step oc (begin_step R step st) st1"
      by (auto simp: flow_outcome_def)
    from Cons.prems s True have "run_steps R fuel steps st1 = (fl, st')" by simp
    from Cons.IH [OF this Cons.prems(2,3)] obtain ocs where
      m: "marks (st_log st') = marks (st_log st1) @ step_marks steps ocs" and r: "run_ends steps ocs fl"
      and t: "tallied (st_facts st1) ocs (st_facts st')"
      and p: "if fl = Stop RunFailed then st_pending st' \<noteq> None else st_pending st' = st_pending st1" by blast
    have "st_pending st1 = st_pending st" using cl oc by (auto simp: closes_def goes_on_def)
    moreover have "run_ends (step # steps) (oc # ocs) fl"
      using r oc by (auto simp: run_ends_def goes_on_def split: step_flow.splits)
    ultimately show ?thesis
      using m p one [OF cl] tallied_trans [OF one(2) [OF cl] t]
      by (intro exI [of _ "oc # ocs"]) (auto simp: step_marks_def)
  next
    case False
    with Cons.prems s have fl: "fl = fl1" "st' = st1" by (auto split: step_flow.splits)
    with False Cons.prems(2,3) obtain ro where stop: "fl = Stop ro" by (cases fl) auto
    with c fl obtain oc where oc: "flow_outcome fl oc" and cl: "closes (step_effect R step) step oc (begin_step R step st) st1"
      by auto
    have "if fl = Stop RunFailed then st_pending st1 \<noteq> None else st_pending st1 = st_pending st"
      using cl oc stop by (auto simp: closes_def flow_outcome_def split: run_outcome.splits)
    with stop oc one [OF cl] fl show ?thesis
      by (intro exI [of _ "[oc]"]) (auto simp: step_marks_def run_ends_def)
  qed
qed

section \<open>The run\<close>

text \<open>What happens before the step loop: questions only, no step counted, an error exactly for a failed run.\<close>

definition before_loop :: "run_outcome \<Rightarrow> 'w run_state \<Rightarrow> 'w run_state \<Rightarrow> bool" where
  "before_loop oc st st' \<longleftrightarrow>
     (\<exists>mid. st_log st' = st_log st @ mid \<and> set mid \<subseteq> {AskedBriefing, AskedInputs}) \<and>
     tallied (st_facts st) [] (st_facts st') \<and>
     (if oc = RunFailed then st_pending st' \<noteq> None else st_pending st' = st_pending st) \<and>
     st_ctx st' = st_ctx st"

lemma before_loop_trans:
  "before_loop RunSuccess st st1 \<Longrightarrow> before_loop oc st1 st2 \<Longrightarrow> before_loop oc st st2"
  unfolding before_loop_def tallied_def by auto

lemma briefing_spec:
  assumes "briefing_phase E compiled st = (oc, st')"
  shows "before_loop oc st st' \<and> st_supplied st' = st_supplied st \<and>
    (AskedInputs \<in> set (st_log st') \<longrightarrow> AskedInputs \<in> set (st_log st))"
proof (cases "cw_briefing compiled")
  case (Some b)
  obtain r st1 where a: "ask (env_present_briefing E b (cw_name compiled)) (\<lambda>_. AskedBriefing) st = (r, st1)"
    by (meson surj_pair)
  from ask_spec [OF a] assms a Some show ?thesis
    by (auto simp: briefing_phase_def before_loop_def tallied_def same_data_def split: if_splits sum.splits bool.splits)
qed (use assms in \<open>simp add: briefing_phase_def before_loop_def tallied_def\<close>)

lemma collect_spec:
  assumes "collect_phase E compiled st = ((oc, mode), st')"
  shows "before_loop oc st st' \<and>
    (if ro_review_steps (env_options E) then True else oc = RunSuccess \<and> st' = st)"
proof (cases "ro_review_steps (env_options E)")
  case True
  let ?call = "env_collect_inputs E (gather_inputs_for_surface (cw_inputs compiled) (cw_steps compiled)
      (ro_pickers_available (env_options E))) (st_supplied st)"
  obtain r st1 where a: "ask ?call (\<lambda>_. AskedInputs) st = (r, st1)" by (meson surj_pair)
  from ask_spec [OF a] assms a True show ?thesis
    by (auto simp: collect_phase_def before_loop_def tallied_def same_data_def split: sum.splits option.splits)
qed (use assms in \<open>simp add: collect_phase_def before_loop_def tallied_def\<close>)

lemma count_provenance_tallied: "tallied f [] (fold (count_provenance before supplied flags defaults) specs f)"
proof (induction specs arbitrary: f)
  case (Cons spec specs)
  have "tallied f [] (count_provenance before supplied flags defaults spec f)"
    by (simp add: count_provenance_def tallied_def Let_def split: option.split)
  from tallied_trans [OF this Cons.IH] show ?case by simp
qed (simp add: tallied_def)

definition loop_consts :: "'w env \<Rightarrow> compiled_workflow \<Rightarrow> json bmap \<Rightarrow> run_mode \<Rightarrow> 'w run_consts" where
  "loop_consts E compiled pre mode =
     \<lparr>rx_env = E, rx_compiled = compiled, rx_flags = bkeys pre,
      rx_defaults = snd (seed_defaults (cw_inputs compiled) pre), rx_mode = mode\<rparr>"

definition seeded :: "compiled_workflow \<Rightarrow> json bmap \<Rightarrow> json bmap" where
  "seeded compiled pre = fst (seed_defaults (cw_inputs compiled) pre)"

definition started_state :: "'w env \<Rightarrow> compiled_workflow \<Rightarrow> json bmap \<Rightarrow> 'w \<Rightarrow> 'w run_state" where
  "started_state E compiled pre w = emit E (WorkflowStarted compiled) (initial_state (seeded compiled pre) w)"

lemma execute_cases [consumes 1, case_names rejected ran]:
  assumes "execute E compiled pre fuel w = (r, st)"
  obtains
    "ro_no_input (env_options E)"
    "no_input_precheck compiled (seeded compiled pre) (ro_dry_run (env_options E)) (ro_assume_yes (env_options E)) \<noteq> []"
    "\<exists>e. r = Raised e" "st = initial_state (seeded compiled pre) w"
  | oc mode st3 where
    "if ro_no_input (env_options E)
     then no_input_precheck compiled (seeded compiled pre) (ro_dry_run (env_options E)) (ro_assume_yes (env_options E)) = []
     else True"
    "before_loop oc (started_state E compiled pre w) st3"
    "if ro_review_steps (env_options E) then True
     else st_supplied st3 = seeded compiled pre \<and> AskedInputs \<notin> set (st_log st3)"
    "if oc = RunSuccess then loop_phase E compiled (bkeys pre) (snd (seed_defaults (cw_inputs compiled) pre)) mode fuel st3 = (r, st)
     else finalise E compiled oc st3 = (r, st)"
proof (cases "ro_no_input (env_options E) \<and>
    no_input_precheck compiled (seeded compiled pre) (ro_dry_run (env_options E)) (ro_assume_yes (env_options E)) \<noteq> []")
  case True
  with assms that(1) show ?thesis by (auto simp: execute_def seeded_def Let_def)
next
  case False
  let ?S = "started_state E compiled pre w"
  obtain oc1 st1 where b: "briefing_phase E compiled ?S = (oc1, st1)" by (meson surj_pair)
  obtain oc2 mode st2 where c:
    "(if oc1 = RunSuccess then collect_phase E compiled st1 else ((oc1, ReviewInputSteps), st1)) = ((oc2, mode), st2)"
    by (metis surj_pair)
  let ?st3 = "st2\<lparr>st_facts := fold (count_provenance (seeded compiled pre) (st_supplied st2) (bkeys pre)
      (snd (seed_defaults (cw_inputs compiled) pre))) (cw_inputs compiled) (st_facts st2)\<rparr>"
  note bs = briefing_spec [OF b]
  have sup1: "st_supplied st1 = seeded compiled pre" "AskedInputs \<notin> set (st_log st1)"
    using bs by (auto simp: started_state_def initial_state_def)
  have cs: "before_loop oc2 ?S st2"
    "if ro_review_steps (env_options E) then True else st_supplied st2 = st_supplied st1 \<and> st_log st2 = st_log st1"
  proof -
    show "before_loop oc2 ?S st2"
    proof (cases "oc1 = RunSuccess")
      case True
      with c have "collect_phase E compiled st1 = ((oc2, mode), st2)" by simp
      with collect_spec [OF this] bs True before_loop_trans show ?thesis by blast
    qed (use bs c in auto)
    show "if ro_review_steps (env_options E) then True else st_supplied st2 = st_supplied st1 \<and> st_log st2 = st_log st1"
      using c collect_spec [of E compiled st1 oc2 mode st2] by (auto split: if_splits)
  qed
  have "before_loop oc2 ?S ?st3"
    using cs(1) count_provenance_tallied tallied_trans [of _ "[]" _ "[]"] unfolding before_loop_def by auto
  moreover have "if oc2 = RunSuccess then loop_phase E compiled (bkeys pre) (snd (seed_defaults (cw_inputs compiled) pre)) mode fuel ?st3 = (r, st)
     else finalise E compiled oc2 ?st3 = (r, st)"
    using assms False b c unfolding execute_def started_state_def seeded_def Let_def by (auto split: if_splits)
  ultimately show ?thesis using that(2) [of oc2 ?st3 mode] False cs(2) sup1 by (auto split: if_splits)
qed

lemma finalise_spec:
  assumes "finalise E compiled oc st = (r, st')"
  shows "r = Finished oc (if oc = RunSuccess then build_final_output E compiled st else None) (st_pending st) \<and>
    st_log st' = st_log st @ [Emitted (WorkflowFinished oc (st_facts st))] \<and>
    st_facts st' = st_facts st \<and> st_pending st' = st_pending st \<and> st_ctx st' = st_ctx st"
  using assms by (auto simp: finalise_def Let_def)

lemma finalise_outcome: "finalise E compiled oc st = (Finished outcome out err, st') \<Longrightarrow> oc = outcome"
  by (simp add: finalise_def Let_def)

section \<open>Effects of the loop\<close>

definition loop_effect :: "'w run_consts \<Rightarrow> compiled_step list \<Rightarrow> effect \<Rightarrow> bool" where
  "loop_effect R steps e \<longleftrightarrow>
     (case e of
        Emitted (StepStarted i _) \<Rightarrow> i \<in> cs_index ` set steps
      | Emitted (StepFinished fin) \<Rightarrow> fin_index fin \<in> cs_index ` set steps
      | _ \<Rightarrow> (\<exists>step \<in> set steps. step_effect R step e))"

lemma step_effect_loop: "step_effect R step e \<Longrightarrow> step \<in> set steps \<Longrightarrow> loop_effect R steps e"
  by (auto simp: loop_effect_def step_effect_def split: effect.splits workflow_event.splits)

lemma closes_log:
  assumes "closes A step oc st st'"
  obtains mid fin where "st_log st' = st_log st @ mid @ [Emitted (StepFinished fin)]" "list_all A mid"
    "fin_index fin = cs_index step"
  using assms unfolding closes_def by blast

lemma run_step_log:
  assumes "run_step R fuel step st = (fl, st')" "step \<in> set steps"
  shows "\<exists>mid. st_log st' = st_log st @ mid \<and> list_all (loop_effect R steps) mid"
proof -
  have started: "loop_effect R steps (Emitted (StepStarted (cs_index step) (sd_id step)))"
    using assms(2) by (simp add: loop_effect_def)
  have all: "list_all (step_effect R step) mid \<Longrightarrow> list_all (loop_effect R steps) mid" for mid
    unfolding list_all_iff using step_effect_loop [OF _ assms(2)] by blast
  have closed: ?thesis if cl: "closes (step_effect R step) step oc (begin_step R step st) st'" for oc
  proof -
    obtain mid fin where m: "st_log st' = st_log (begin_step R step st) @ mid @ [Emitted (StepFinished fin)]"
        "list_all (step_effect R step) mid" "fin_index fin = cs_index step"
      using cl by (rule closes_log)
    then have "loop_effect R steps (Emitted (StepFinished fin))" using assms(2) by (simp add: loop_effect_def)
    with m all started show ?thesis by auto
  qed
  have opened: ?thesis if "ext (step_effect R step) (begin_step R step st) st'"
    using that all started by (auto simp: ext_def)
  show ?thesis using run_step_closes [OF assms(1)] closed opened by (cases fl) auto
qed

lemma run_steps_log:
  "run_steps R fuel steps st = (fl, st') \<Longrightarrow> set steps \<subseteq> set all \<Longrightarrow>
   \<exists>mid. st_log st' = st_log st @ mid \<and> list_all (loop_effect R all) mid"
proof (induction steps arbitrary: st)
  case (Cons step steps)
  obtain fl1 st1 where s: "run_step R fuel step st = (fl1, st1)" by (meson surj_pair)
  have "step \<in> set all" using Cons.prems(2) by simp
  from run_step_log [OF s this] obtain mid where
    mid: "st_log st1 = st_log st @ mid" "list_all (loop_effect R all) mid" by blast
  show ?case
  proof (cases "fl1 = Continue")
    case True
    with Cons.prems s have "run_steps R fuel steps st1 = (fl, st')" by simp
    from Cons.IH [OF this] Cons.prems(2) mid show ?thesis by fastforce
  next
    case False
    with Cons.prems s have "st' = st1" by (auto split: step_flow.splits)
    with mid show ?thesis by blast
  qed
qed simp

lemma loop_phase_steps:
  assumes "loop_phase E compiled (bkeys pre) (snd (seed_defaults (cw_inputs compiled) pre)) mode fuel st = (r, st')"
  obtains fl st1 where "run_steps (loop_consts E compiled pre mode) fuel (cw_steps compiled) st = (fl, st1)"
    "case fl of Continue \<Rightarrow> finalise E compiled RunSuccess st1 = (r, st')
      | Stop oc \<Rightarrow> finalise E compiled oc st1 = (r, st')
      | Escape e \<Rightarrow> r = Raised e \<and> st' = st1
      | OutOfFuel \<Rightarrow> r = Exhausted \<and> st' = st1"
proof -
  obtain fl st1 where s: "run_steps (loop_consts E compiled pre mode) fuel (cw_steps compiled) st = (fl, st1)"
    by (meson surj_pair)
  show ?thesis using that [OF s] assms s by (auto simp: loop_phase_def loop_consts_def split: step_flow.splits)
qed

definition is_run_event :: "effect \<Rightarrow> bool" where
  "is_run_event e = (case e of Emitted (WorkflowStarted _) \<Rightarrow> True | Emitted (WorkflowFinished _ _) \<Rightarrow> True | _ \<Rightarrow> False)"

lemma loop_effect_no_run_event: "loop_effect R steps e \<Longrightarrow> \<not> is_run_event e"
  by (auto simp: loop_effect_def is_run_event_def step_effect_def split: effect.splits workflow_event.splits)

lemma before_loop_log:
  assumes "before_loop oc (started_state E compiled pre w) st3"
  obtains mid where "st_log st3 = Emitted (WorkflowStarted compiled) # mid"
    "set mid \<subseteq> {AskedBriefing, AskedInputs}" "marks (st_log st3) = []"
    "tallied default_run_facts [] (st_facts st3)"
    "if oc = RunFailed then st_pending st3 \<noteq> None else st_pending st3 = None" "st_ctx st3 = new_context"
proof -
  from assms obtain mid where m: "st_log st3 = Emitted (WorkflowStarted compiled) # mid" "set mid \<subseteq> {AskedBriefing, AskedInputs}"
    and t: "tallied default_run_facts [] (st_facts st3)"
      "if oc = RunFailed then st_pending st3 \<noteq> None else st_pending st3 = None" "st_ctx st3 = new_context"
    by (auto simp: before_loop_def started_state_def initial_state_def)
  have "marks mid = []" using m(2)
  proof (induction mid)
    case (Cons e mid)
    then have "e = AskedBriefing \<or> e = AskedInputs" by auto
    then have "mark_of e = None" by auto
    with Cons show ?case by simp
  qed simp
  with m t that show ?thesis by simp
qed

section \<open>Properties of a run\<close>

text \<open>C1. A run that returns has emitted \<open>WorkflowStarted\<close> first and \<open>WorkflowFinished\<close> last, each once; in between
  the steps start in order, each started step finishes exactly once before the next one starts, and no step
  starts after a failed or cancelled one. The run facts count exactly these outcomes, the run succeeds only if
  every step succeeded or was skipped, and an error is handed out exactly for a failed run.\<close>

theorem run_lifecycle:
  assumes "execute E compiled pre fuel w = (Finished outcome out err, st)"
  shows "\<exists>ocs mid.
    st_log st = Emitted (WorkflowStarted compiled) # mid @ [Emitted (WorkflowFinished outcome (st_facts st))] \<and>
    list_all (\<lambda>e. \<not> is_run_event e) mid \<and>
    marks mid = step_marks (cw_steps compiled) ocs \<and> length ocs \<le> length (cw_steps compiled) \<and>
    list_all goes_on (butlast ocs) \<and> tallied default_run_facts ocs (st_facts st) \<and>
    (case outcome of
       RunSuccess \<Rightarrow> length ocs = length (cw_steps compiled) \<and> list_all goes_on ocs
     | RunFailed \<Rightarrow> ocs = [] \<or> last ocs = StepFailed
     | RunCancelled \<Rightarrow> ocs = [] \<or> last ocs = StepCancelled) \<and>
    (outcome = RunFailed \<longleftrightarrow> err \<noteq> None) \<and> (outcome \<noteq> RunSuccess \<longrightarrow> out = None)"
  using assms
proof (cases rule: execute_cases)
  case (ran oc mode st3)
  from ran(2) obtain mid0 where m0: "st_log st3 = Emitted (WorkflowStarted compiled) # mid0"
      "set mid0 \<subseteq> {AskedBriefing, AskedInputs}" "marks (st_log st3) = []"
      "tallied default_run_facts [] (st_facts st3)"
      "if oc = RunFailed then st_pending st3 \<noteq> None else st_pending st3 = None"
    by (rule before_loop_log)
  have q0: "list_all (\<lambda>e. \<not> is_run_event e) mid0" using m0(2) by (auto simp: list_all_iff is_run_event_def)
  show ?thesis
  proof (cases "oc = RunSuccess")
    case False
    with ran(4) have f: "finalise E compiled oc st3 = (Finished outcome out err, st)" by simp
    from finalise_spec [OF f] m0 q0 False show ?thesis
      by (intro exI [of _ "[]"] exI [of _ mid0]) (auto simp: step_marks_def split: run_outcome.splits)
  next
    case True
    with ran(4) have "loop_phase E compiled (bkeys pre) (snd (seed_defaults (cw_inputs compiled) pre)) mode fuel st3 =
        (Finished outcome out err, st)" by simp
    then obtain fl st1 where s: "run_steps (loop_consts E compiled pre mode) fuel (cw_steps compiled) st3 = (fl, st1)"
      and f: "case fl of Continue \<Rightarrow> finalise E compiled RunSuccess st1 = (Finished outcome out err, st)
        | Stop oc \<Rightarrow> finalise E compiled oc st1 = (Finished outcome out err, st)
        | Escape e \<Rightarrow> Finished outcome out err = Raised e \<and> st = st1
        | OutOfFuel \<Rightarrow> Finished outcome out err = Exhausted \<and> st = st1"
      by (rule loop_phase_steps)
    have nf: "\<And>e. fl \<noteq> Escape e" "fl \<noteq> OutOfFuel" using f by auto
    from run_steps_trace [OF s nf] obtain ocs where
      m: "marks (st_log st1) = step_marks (cw_steps compiled) ocs" and r: "run_ends (cw_steps compiled) ocs fl"
      and t: "tallied (st_facts st3) ocs (st_facts st1)"
      and p: "if fl = Stop RunFailed then st_pending st1 \<noteq> None else st_pending st1 = st_pending st3"
      using m0(3) by auto
    from run_steps_log [OF s order_refl] obtain mid1 where
      l: "st_log st1 = st_log st3 @ mid1" "list_all (loop_effect (loop_consts E compiled pre mode) (cw_steps compiled)) mid1"
      by blast
    have q1: "list_all (\<lambda>e. \<not> is_run_event e) mid1"
      using l(2) loop_effect_no_run_event by (fastforce simp: list_all_iff)
    have pend: "st_pending st3 = None" using m0(5) True by simp
    have fin: "finalise E compiled outcome st1 = (Finished outcome out err, st) \<and>
        (fl = Continue \<and> outcome = RunSuccess \<or> fl = Stop outcome)"
      using f nf by (cases fl) (auto dest: finalise_outcome)
    note fs = finalise_spec [OF conjunct1 [OF fin]]
    have fl: "fl = Continue \<and> outcome = RunSuccess \<or> fl = Stop outcome" using fin by simp
    have "marks (mid0 @ mid1) = step_marks (cw_steps compiled) ocs" using m m0(1) l(1) by simp
    moreover have "tallied default_run_facts ocs (st_facts st)"
      using tallied_trans [OF m0(4) t] fs by simp
    moreover have "st_log st = Emitted (WorkflowStarted compiled) # (mid0 @ mid1) @ [Emitted (WorkflowFinished outcome (st_facts st))]"
      using fs l(1) m0(1) by simp
    moreover have "length ocs \<le> length (cw_steps compiled)" "list_all goes_on (butlast ocs)"
      using r by (simp_all add: run_ends_def)
    moreover have "case outcome of
       RunSuccess \<Rightarrow> length ocs = length (cw_steps compiled) \<and> list_all goes_on ocs
     | RunFailed \<Rightarrow> ocs = [] \<or> last ocs = StepFailed
     | RunCancelled \<Rightarrow> ocs = [] \<or> last ocs = StepCancelled"
      using r fl by (auto simp: run_ends_def flow_outcome_def split: run_outcome.splits)
    moreover have "(outcome = RunFailed \<longleftrightarrow> err \<noteq> None) \<and> (outcome \<noteq> RunSuccess \<longrightarrow> out = None)"
    proof -
      have "fl \<noteq> Stop RunSuccess" using r by (auto simp: run_ends_def flow_outcome_def)
      with fs p pend fl show ?thesis by (auto split: if_splits)
    qed
    ultimately show ?thesis using q0 q1 by (intro exI [of _ ocs] exI [of _ "mid0 @ mid1"]) simp
  qed
qed simp

theorem run_lifecycle_witness:
  "\<exists>out st oc mid. execute (sample_env default_run_options) sample_local_workflow [] 1 () = (Finished RunSuccess out None, st) \<and>
    st_log st = Emitted (WorkflowStarted sample_local_workflow) # mid @ [Emitted (WorkflowFinished RunSuccess (st_facts st))] \<and>
    marks mid = step_marks [sample_local] [oc] \<and> goes_on oc \<and> tallied default_run_facts [oc] (st_facts st)"
proof -
  obtain out st where run: "execute (sample_env default_run_options) sample_local_workflow [] 1 () = (Finished RunSuccess out None, st)"
    using sample_execution by blast
  have steps: "cw_steps sample_local_workflow = [sample_local]" by (simp add: sample_local_workflow_def)
  from run_lifecycle [OF run] obtain ocs mid where
    "st_log st = Emitted (WorkflowStarted sample_local_workflow) # mid @ [Emitted (WorkflowFinished RunSuccess (st_facts st))]"
    "marks mid = step_marks [sample_local] ocs" "tallied default_run_facts ocs (st_facts st)"
    "length ocs = 1" "list_all goes_on ocs"
    by (auto simp: steps)
  then show ?thesis using run by (auto simp: length_Suc_conv)
qed

text \<open>C4. What a run may do is settled by its options: a dry run dispatches no command and runs local actions only
  in dry-run mode, a run without dry run never previews with \<open>dry_run_command\<close>, confirmation is asked only
  without \<open>--yes\<close> and \<open>--dry-run\<close>, the failure gate only when the run is interactive, reviews and the run-start
  form only with \<open>review_steps\<close>, the briefing only without \<open>--yes\<close>.\<close>

definition effect_permitted :: "run_options \<Rightarrow> effect \<Rightarrow> bool" where
  "effect_permitted opts e =
     (case e of
        Emitted _ \<Rightarrow> True
      | AskedBriefing \<Rightarrow> \<not> ro_assume_yes opts
      | AskedInputs \<Rightarrow> ro_review_steps opts
      | AskedGather _ \<Rightarrow> True
      | AskedReview _ _ \<Rightarrow> ro_review_steps opts
      | AskedConfirm _ _ \<Rightarrow> \<not> ro_assume_yes opts \<and> \<not> ro_dry_run opts
      | PreviewedCommand _ \<Rightarrow> \<not> ro_assume_yes opts \<and> \<not> ro_dry_run opts
      | AskedFailure _ \<Rightarrow> \<not> ro_no_input opts \<and> \<not> ro_dry_run opts
      | DryRanCommand _ \<Rightarrow> ro_dry_run opts
      | RanCommand _ _ \<Rightarrow> \<not> ro_dry_run opts
      | RanAction _ dry \<Rightarrow> dry = ro_dry_run opts)"

lemma loop_effect_permitted: "loop_effect R steps e \<Longrightarrow> effect_permitted (rx_options R) e"
  by (auto simp: loop_effect_def step_effect_def effect_permitted_def needs_confirm_def takes_review_path_def
      split: effect.splits workflow_event.splits)

lemma briefing_permitted:
  assumes "briefing_phase E compiled st = (oc, st')"
  shows "\<exists>mid. st_log st' = st_log st @ mid \<and> list_all (effect_permitted (env_options E)) mid"
proof (cases "cw_briefing compiled")
  case (Some b)
  obtain r st1 where a: "ask (env_present_briefing E b (cw_name compiled)) (\<lambda>_. AskedBriefing) st = (r, st1)"
    by (meson surj_pair)
  from ask_spec(2) [OF a] assms a Some show ?thesis
    by (auto simp: briefing_phase_def effect_permitted_def split: if_splits sum.splits bool.splits)
qed (use assms in \<open>simp add: briefing_phase_def\<close>)

lemma collect_permitted:
  assumes "collect_phase E compiled st = ((oc, mode), st')"
  shows "\<exists>mid. st_log st' = st_log st @ mid \<and> list_all (effect_permitted (env_options E)) mid"
proof (cases "ro_review_steps (env_options E)")
  case True
  let ?call = "env_collect_inputs E (gather_inputs_for_surface (cw_inputs compiled) (cw_steps compiled)
      (ro_pickers_available (env_options E))) (st_supplied st)"
  obtain r st1 where a: "ask ?call (\<lambda>_. AskedInputs) st = (r, st1)" by (meson surj_pair)
  from ask_spec(2) [OF a] assms a True show ?thesis
    by (auto simp: collect_phase_def effect_permitted_def split: sum.splits option.splits)
qed (use assms in \<open>simp add: collect_phase_def\<close>)

lemma finalise_permitted:
  assumes "finalise E compiled oc st = (r, st')" "list_all (effect_permitted opts) (st_log st)"
  shows "list_all (effect_permitted opts) (st_log st')"
  using finalise_spec [OF assms(1)] assms(2) by (simp add: effect_permitted_def)

lemma loop_phase_permitted:
  assumes "loop_phase E compiled flags defaults mode fuel st = (r, st')"
    and "list_all (effect_permitted (env_options E)) (st_log st)"
  shows "list_all (effect_permitted (env_options E)) (st_log st')"
proof -
  let ?R = "\<lparr>rx_env = E, rx_compiled = compiled, rx_flags = flags, rx_defaults = defaults, rx_mode = mode\<rparr>"
  obtain fl st1 where s: "run_steps ?R fuel (cw_steps compiled) st = (fl, st1)" by (meson surj_pair)
  from run_steps_log [OF s order_refl] obtain mid where
    "st_log st1 = st_log st @ mid" "list_all (loop_effect ?R (cw_steps compiled)) mid" by blast
  moreover from this(2) have "list_all (effect_permitted (env_options E)) mid"
    using loop_effect_permitted [of ?R] by (fastforce simp: list_all_iff rx_options_def)
  ultimately have "list_all (effect_permitted (env_options E)) (st_log st1)" using assms(2) by simp
  with assms(1) s finalise_permitted show ?thesis
    by (auto simp: loop_phase_def split: step_flow.splits)
qed

theorem run_effects_permitted:
  "list_all (effect_permitted (env_options E)) (st_log (snd (execute E compiled pre fuel w)))"
proof -
  let ?P = "effect_permitted (env_options E)"
  let ?S = "started_state E compiled pre w"
  obtain oc1 st1 where b: "briefing_phase E compiled ?S = (oc1, st1)" by (meson surj_pair)
  obtain oc2 mode st2 where c:
    "(if oc1 = RunSuccess then collect_phase E compiled st1 else ((oc1, ReviewInputSteps), st1)) = ((oc2, mode), st2)"
    by (metis surj_pair)
  have "list_all ?P (st_log ?S)" by (simp add: started_state_def initial_state_def effect_permitted_def)
  then have p1: "list_all ?P (st_log st1)" using briefing_permitted [OF b] by auto
  have p2: "list_all ?P (st_log st2)"
  proof (cases "oc1 = RunSuccess")
    case True
    with c have "collect_phase E compiled st1 = ((oc2, mode), st2)" by simp
    from collect_permitted [OF this] p1 show ?thesis by auto
  qed (use c p1 in auto)
  let ?st3 = "st2\<lparr>st_facts := fold (count_provenance (seeded compiled pre) (st_supplied st2) (bkeys pre)
      (snd (seed_defaults (cw_inputs compiled) pre))) (cw_inputs compiled) (st_facts st2)\<rparr>"
  have p3: "list_all ?P (st_log ?st3)" using p2 by simp
  show ?thesis
  proof (cases "ro_no_input (env_options E) \<and>
      no_input_precheck compiled (seeded compiled pre) (ro_dry_run (env_options E)) (ro_assume_yes (env_options E)) \<noteq> []")
    case True
    then show ?thesis by (simp add: execute_def seeded_def Let_def initial_state_def)
  next
    case False
    then have "execute E compiled pre fuel w =
        (if oc2 = RunSuccess then loop_phase E compiled (bkeys pre) (snd (seed_defaults (cw_inputs compiled) pre)) mode fuel ?st3
         else finalise E compiled oc2 ?st3)"
      using b c unfolding execute_def started_state_def seeded_def Let_def by (auto split: if_splits)
    then show ?thesis
      using loop_phase_permitted [OF _ p3] finalise_permitted [OF _ p3] by (metis prod.collapse)
  qed
qed

end
