(* ===== verification/ExecGates.thy ===== *)
theory ExecGates
  imports ExecProps
begin

text \<open>
  The gates of a run: no dispatch before its confirmation, unattended runs ask nothing and need no retries,
  fuel only bounds the retries a user asks for, and the outputs a step binds reach the steps after it.
\<close>

section \<open>Confirmation before dispatch\<close>

definition not_run :: "effect \<Rightarrow> bool" where
  "not_run e = (case e of RanCommand _ _ \<Rightarrow> False | _ \<Rightarrow> True)"

definition gated :: "nat \<Rightarrow> effect list \<Rightarrow> bool" where
  "gated i seg \<longleftrightarrow>
     (\<forall>xs j req ys. seg = xs @ RanCommand j req # ys \<longrightarrow> AskedConfirm i (Inr ConfirmProceed) \<in> set xs)"

lemma gated_none: "list_all not_run seg \<Longrightarrow> gated i seg"
  by (auto simp: gated_def not_run_def list_all_iff)

lemma gated_after:
  assumes "list_all not_run pre" "AskedConfirm i (Inr ConfirmProceed) \<in> set pre"
  shows "gated i (pre @ post)"
  unfolding gated_def
proof (intro allI impI)
  fix xs j req ys assume split: "pre @ post = xs @ RanCommand j req # ys"
  have "length pre \<le> length xs"
  proof (rule ccontr)
    assume "\<not> length pre \<le> length xs"
    then have "RanCommand j req \<in> set pre"
      using split by (metis append_eq_append_conv_if in_set_conv_decomp not_le_imp_less order_less_imp_le take_append
          append_take_drop_id list.sel(1) hd_append2 nth_append nth_append_length nth_mem)
    with assms(1) show False by (auto simp: list_all_iff not_run_def)
  qed
  with split have "set pre \<subseteq> set xs" by (metis append_eq_append_conv_if set_take_subset)
  with assms(2) show "AskedConfirm i (Inr ConfirmProceed) \<in> set xs" by blast
qed

definition guarded :: "nat \<Rightarrow> effect list \<Rightarrow> 'w run_state \<Rightarrow> 'w run_state \<Rightarrow> bool" where
  "guarded i pre st st' \<longleftrightarrow> (\<exists>seg. st_log st' = st_log st @ seg \<and> gated i (pre @ seg))"

lemma spec_log:
  assumes "phase_spec A step Q st r" "\<And>fin. A (Emitted (StepFinished fin))"
  shows "\<exists>mid. st_log (snd r) = st_log st @ mid \<and> list_all A mid"
proof -
  have "closes A step oc st st' \<Longrightarrow> \<exists>mid. st_log st' = st_log st @ mid \<and> list_all A mid" for oc st'
    using assms(2) by (auto elim!: closes_log)
  moreover have "ext A st st' \<Longrightarrow> \<exists>mid. st_log st' = st_log st @ mid \<and> list_all A mid" for st'
    by (auto simp: ext_def)
  ultimately show ?thesis using assms(1)
    by (cases r) (auto simp: phase_spec_def split: sum.splits step_flow.splits run_outcome.splits)
qed

lemma guarded_then:
  assumes "phase_spec not_run step keeps st (p st)" "list_all not_run pre"
    and "\<And>a st1 mid. p st = (Inr a, st1) \<Longrightarrow> st_log st1 = st_log st @ mid \<Longrightarrow> list_all not_run mid \<Longrightarrow>
      guarded i (pre @ mid) st1 (snd (k a st1))"
  shows "guarded i pre st (snd (then_phase p k st))"
proof -
  from spec_log [OF assms(1)] obtain mid where
    mid: "st_log (snd (p st)) = st_log st @ mid" "list_all not_run mid" by (auto simp: not_run_def)
  show ?thesis
  proof (cases "p st")
    case (Pair r st1)
    show ?thesis
    proof (cases r)
      case (Inl fl)
      with Pair mid assms(2) show ?thesis
        by (auto simp: then_phase_def guarded_def intro!: gated_none)
    next
      case (Inr a)
      with Pair mid assms(3) have "guarded i (pre @ mid) st1 (snd (k a st1))" by simp
      with Pair Inr mid show ?thesis by (auto simp: then_phase_def guarded_def)
    qed
  qed
qed

lemma confirm_gate_answer:
  assumes "confirm_gate R step schema loc request st = (Inr u, st1)" "needs_confirm R step"
  shows "\<exists>m. st_log st1 = st_log st @ m @ [AskedConfirm (cs_index step) (Inr ConfirmProceed)]"
proof -
  obtain r st2 where b: "build_step_preview (rx_env R) (rx_compiled R) step request st = (r, st2)" by (meson surj_pair)
  then obtain q where q: "ask (env_preview_command (rx_env R) request) (\<lambda>_. PreviewedCommand (cs_index step)) st = (q, st2)"
    by (auto simp: build_step_preview_def split: prod.splits)
  from assms b obtain preview where pv: "r = Inr preview"
    by (cases r) (auto simp: confirm_gate_def needs_confirm_def fail_with_fields_def fail_step_def)
  obtain c st3 where a: "ask (env_confirm_step (rx_env R) step preview) (AskedConfirm (cs_index step)) st2 = (c, st3)"
    by (meson surj_pair)
  from assms b pv a have "c = Inr ConfirmProceed \<and> st1 = st3"
    by (auto simp: confirm_gate_def needs_confirm_def fail_with_fields_def fail_step_def leave_skipped_def
        cancel_step_def return_def split: sum.splits step_confirm_outcome.splits if_splits prod.splits)
  with ask_spec(2) [OF a] ask_spec(2) [OF q] show ?thesis by simp
qed

lemma dispatch_guarded:
  assumes "list_all not_run pre" "AskedConfirm i (Inr ConfirmProceed) \<in> set pre"
  shows "guarded i pre st (snd (then_phase
    (if ro_dry_run (rx_options R) then api_dry_run R step schema loc request
     else retry_loop R step (try_dispatch R step request) (failure_facts R step schema loc) fuel 0)
    (close_step R step (step_captures R step schema loc)) st))"
proof -
  have "phase_spec (\<lambda>_. True) step never st (then_phase
    (if ro_dry_run (rx_options R) then api_dry_run R step schema loc request
     else retry_loop R step (try_dispatch R step request) (failure_facts R step schema loc) fuel 0)
    (close_step R step (step_captures R step schema loc)) st)"
    by (intro phase_close dispatch_phase_spec) simp_all
  from spec_log [OF this] gated_after [OF assms] show ?thesis unfolding guarded_def by blast
qed

lemma gate_guarded:
  assumes "needs_confirm R step" "list_all not_run pre"
  shows "guarded (cs_index step) pre st (snd (then_phase (confirm_gate R step schema loc request) (\<lambda>_. then_phase
    (if ro_dry_run (rx_options R) then api_dry_run R step schema loc request
     else retry_loop R step (try_dispatch R step request) (failure_facts R step schema loc) fuel 0)
    (close_step R step (step_captures R step schema loc))) st))"
proof (rule guarded_then [OF _ assms(2)])
  show "phase_spec not_run step keeps st (confirm_gate R step schema loc request st)"
    by (intro phase_rules) (simp_all add: not_run_def)
  fix u st1 mid
  assume g: "confirm_gate R step schema loc request st = (Inr u, st1)"
    and l: "st_log st1 = st_log st @ mid" "list_all not_run mid"
  from confirm_gate_answer [OF g assms(1)] l(1)
  have "AskedConfirm (cs_index step) (Inr ConfirmProceed) \<in> set mid" by auto
  then show "guarded (cs_index step) (pre @ mid) st1 (snd (then_phase
    (if ro_dry_run (rx_options R) then api_dry_run R step schema loc request
     else retry_loop R step (try_dispatch R step request) (failure_facts R step schema loc) fuel 0)
    (close_step R step (step_captures R step schema loc)) st1))"
    using assms(2) l(2) by (intro dispatch_guarded) simp_all
qed

lemma api_step_guarded:
  assumes "needs_confirm R step"
  shows "guarded (cs_index step) [] st (snd (run_api_step R fuel step st))"
  unfolding run_api_step_def
proof (rule guarded_then [OF load_schema_spec], simp, rule guarded_then)
  fix schema st1 mid1
  assume m1: "list_all not_run mid1"
  show "phase_spec not_run step keeps st1
      ((if takes_review_path R step then review_phase R step schema else gather_phase R step schema) st1)"
    by (auto intro!: phase_rules simp: not_run_def)
  show "list_all not_run ([] @ mid1)" using m1 by simp
  fix loc st2 mid2
  assume m2: "list_all not_run mid2"
  show "guarded (cs_index step) (([] @ mid1) @ mid2) st2 (snd (then_phase (assemble_phase R step schema loc) (\<lambda>request.
       then_phase (confirm_gate R step schema loc request) (\<lambda>_. then_phase
         (if ro_dry_run (rx_options R) then api_dry_run R step schema loc request
          else retry_loop R step (try_dispatch R step request) (failure_facts R step schema loc) fuel 0)
         (close_step R step (step_captures R step schema loc)))) st2))"
    by (rule guarded_then [OF assemble_phase_spec], use m1 m2 in simp, rule gate_guarded [OF assms], use m1 m2 in simp)
qed

text \<open>C3. No command is dispatched before its confirmation: during a step that declares \<open>confirm\<close>, unless \<open>--yes\<close>
  waives it, every dispatch comes after the user answered the confirmation gate of this step with Proceed.\<close>

theorem confirm_before_dispatch:
  assumes "sd_confirm step" "\<not> ro_assume_yes (rx_options R)"
  shows "\<exists>seg. st_log (snd (run_step R fuel step st)) = st_log st @ seg \<and>
    (\<forall>xs i req ys. seg = xs @ RanCommand i req # ys \<longrightarrow> AskedConfirm (cs_index step) (Inr ConfirmProceed) \<in> set xs)"
proof -
  obtain fl st' where s: "run_step R fuel step st = (fl, st')" by (meson surj_pair)
  have "guarded (cs_index step) [] (begin_step R step st) st'"
  proof (cases "sd_kind step = Api \<and> \<not> ro_dry_run (rx_options R)")
    case True
    with assms have "needs_confirm R step" by (simp add: needs_confirm_def)
    then have "guarded (cs_index step) [] (begin_step R step st)
        (snd (run_api_step R fuel step (begin_step R step st) :: (step_flow + unit) \<times> _))"
      by (rule api_step_guarded)
    with s True show ?thesis by (auto simp: run_step_def split: prod.splits sum.splits)
  next
    case False
    have "not_run e" if "step_effect R step e" for e
      using that False by (cases e) (auto simp: step_effect_def not_run_def)
    with run_step_phase [OF s]
    have "phase_spec not_run step never (begin_step R step st) (Inl fl :: step_flow + unit, st')"
      by (rule phase_spec_mono)
    from spec_log [OF this] show ?thesis by (auto simp: guarded_def not_run_def intro: gated_none)
  qed
  then obtain seg where seg: "st_log st' = st_log (begin_step R step st) @ seg" "gated (cs_index step) seg"
    by (auto simp: guarded_def)
  have "gated (cs_index step) (Emitted (StepStarted (cs_index step) (sd_id step)) # seg)"
    using seg(2) by (auto simp: gated_def Cons_eq_append_conv)
  then show ?thesis using seg(1) s by (auto simp: gated_def)
qed

definition sample_confirmed :: compiled_step where
  "sample_confirmed = (hd (cw_steps sample_compiled))\<lparr>sd_confirm := True\<rparr>"

theorem confirm_before_dispatch_witness:
  "\<exists>seg. st_log (snd (run_step (sample_consts sample_compiled default_run_options) 1 sample_confirmed
      (initial_state [(''limit'', JInt 5)] ()))) = seg \<and>
    (\<forall>xs i req ys. seg = xs @ RanCommand i req # ys \<longrightarrow> AskedConfirm 0 (Inr ConfirmProceed) \<in> set xs)"
  using confirm_before_dispatch [of sample_confirmed "sample_consts sample_compiled default_run_options" 1
      "initial_state [(''limit'', JInt 5)] ()"]
  by (simp add: sample_confirmed_def sample_compiled_def default_run_options_def initial_state_def
      step_definition.defs compiled_step.defs)

section \<open>Fuel\<close>

text \<open>A phase that does not retry never runs out of fuel.\<close>

definition ends :: "(step_flow + 'a) \<times> 'w run_state \<Rightarrow> bool" where
  "ends r \<longleftrightarrow> fst r \<noteq> Inl OutOfFuel"

lemma ends_then: "ends (p st) \<Longrightarrow> (\<And>a st1. p st = (Inr a, st1) \<Longrightarrow> ends (k a st1)) \<Longrightarrow> ends (then_phase p k st)"
  by (auto simp: ends_def then_phase_def split: prod.split sum.split)

lemma ends_exits [simp]:
  "ends (fail_step R step reason facts err st)" "ends (cancel_step R step reason st)"
  "ends (fail_with_fields R step schema loc reason err st)" "ends (escape e st)" "ends (return a st)"
  "ends (close_step R step caps t st)" "ends (leave_skipped R step reason tail n facts' st)"
  by (auto simp: ends_def fail_step_def cancel_step_def fail_with_fields_def escape_def return_def close_step_def
      leave_skipped_def split: prod.split sum.split)

lemma ends_phases [simp]:
  "ends (load_schema R step st)" "ends (review_phase R step schema st)" "ends (gather_phase R step schema st)"
  "ends (assemble_phase R step schema loc st)" "ends (confirm_gate R step schema loc request st)"
  "ends (local_inputs R step st)" "ends (local_dry_run R step action inputs st)"
  by (auto simp: load_schema_def review_phase_def gather_phase_def assemble_phase_def confirm_gate_def local_inputs_def
      local_dry_run_def Let_def ends_def [of "(Inl Continue, _)"]
      split: option.split sum.split prod.split step_review_outcome.split step_confirm_outcome.split)

lemma ends_dry_run [simp]: "ends (api_dry_run R step schema loc request st)"
  by (auto simp: api_dry_run_def preview_failed_def Let_def split: sum.split prod.split)

text \<open>More fuel does not change a loop that ended.\<close>

lemma retry_fuel:
  "ends (retry_loop R step try_once facts_of fuel n st) \<Longrightarrow> fuel \<le> fuel' \<Longrightarrow>
   retry_loop R step try_once facts_of fuel' n st = retry_loop R step try_once facts_of fuel n st"
proof (induction fuel arbitrary: fuel' n st)
  case 0
  then show ?case by (simp add: ends_def)
next
  case (Suc fuel)
  then obtain m where m: "fuel' = Suc m" "fuel \<le> m" by (cases fuel') auto
  obtain a st1 where t: "try_once st = (a, st1)" by (meson surj_pair)
  show ?case
  proof (cases a)
    case (AttemptFailed err stage)
    obtain d st2 where d: "decide_step_failure (rx_env R) step err (ro_no_input (rx_options R)) stage st1 = (d, st2)"
      by (meson surj_pair)
    show ?thesis
    proof (cases "d = Inr DispRetry")
      case True
      with Suc.prems(1) t d AttemptFailed have "ends (retry_loop R step try_once facts_of fuel (u32_saturating_succ n) st2)"
        by (simp add: Let_def)
      from Suc.IH [OF this m(2)] show ?thesis using t d AttemptFailed True m(1) by (simp add: Let_def)
    next
      case False
      with t d AttemptFailed m(1) show ?thesis
        by (auto simp: Let_def split: sum.split failure_disposition.split)
    qed
  qed (use t m(1) in \<open>simp add: Let_def\<close>)
qed

lemma then_fuel:
  assumes "ends (then_phase p k st)" "p' st = p st" "\<And>a st1. ends (k a st1) \<Longrightarrow> k' a st1 = k a st1"
  shows "then_phase p' k' st = then_phase p k st"
  using assms by (auto simp: then_phase_def ends_def split: prod.splits sum.splits)

lemma then_last_fuel:
  assumes "ends (then_phase p k st)" "ends (p st) \<Longrightarrow> p' st = p st"
  shows "then_phase p' k st = then_phase p k st"
proof -
  have "ends (p st)" using assms(1) by (auto simp: then_phase_def ends_def split: prod.splits sum.splits)
  with assms(2) show ?thesis by (simp add: then_phase_def)
qed

lemma local_fuel:
  assumes "ends (run_local_step R fuel step st :: (step_flow + 'a) \<times> 'w run_state)" "fuel \<le> fuel'"
  shows "(run_local_step R fuel' step st :: (step_flow + 'a) \<times> 'w run_state) = run_local_step R fuel step st"
proof (cases "\<exists>action target. sd_action step = Some action \<and> local_action_lookup action = Some target")
  case True
  then obtain action target where a: "sd_action step = Some action" "local_action_lookup action = Some target" by blast
  let ?run = "\<lambda>fuel. then_phase (local_inputs R step) (\<lambda>inputs.
      if ro_dry_run (rx_options R) then local_dry_run R step action inputs
      else then_phase (retry_loop R step (try_action R step action inputs) (\<lambda>_. from_error) fuel 0)
             (close_step R step (\<lambda>_. [])))"
  have run: "run_local_step R f step st = (?run f st :: (step_flow + 'a) \<times> 'w run_state)" for f
    unfolding run_local_step_def using a by simp
  show ?thesis
    unfolding run using assms(1) unfolding run
    by (rule then_fuel) (auto intro!: then_last_fuel intro: retry_fuel assms(2))
qed (auto simp: run_local_step_def split: option.split)

lemma api_fuel:
  assumes "ends (run_api_step R fuel step st :: (step_flow + 'a) \<times> 'w run_state)" "fuel \<le> fuel'"
  shows "(run_api_step R fuel' step st :: (step_flow + 'a) \<times> 'w run_state) = run_api_step R fuel step st"
proof -
  have attempts: "then_phase
       (if ro_dry_run (rx_options R) then api_dry_run R step schema loc request
        else retry_loop R step (try_dispatch R step request) (failure_facts R step schema loc) fuel' 0) k st1 =
      then_phase
       (if ro_dry_run (rx_options R) then api_dry_run R step schema loc request
        else retry_loop R step (try_dispatch R step request) (failure_facts R step schema loc) fuel 0) k st1"
    if "ends (then_phase
       (if ro_dry_run (rx_options R) then api_dry_run R step schema loc request
        else retry_loop R step (try_dispatch R step request) (failure_facts R step schema loc) fuel 0) k st1)"
    for schema loc request st1 and k :: "step_end \<Rightarrow> ('w, 'a) phase"
    using that by (rule then_last_fuel) (auto intro: retry_fuel assms(2))
  show ?thesis
    using assms(1) unfolding run_api_step_def
    by - ((erule then_fuel, rule refl)+, erule attempts)
qed

lemma run_step_fuel:
  assumes "fst (run_step R fuel step st) \<noteq> OutOfFuel" "fuel \<le> fuel'"
  shows "run_step R fuel' step st = run_step R fuel step st"
proof (cases "sd_kind step")
  case Api
  then have "ends (run_api_step R fuel step (begin_step R step st) :: (step_flow + unit) \<times> _)"
    using assms(1) by (auto simp: run_step_def ends_def split: prod.splits sum.splits)
  from api_fuel [OF this assms(2)] Api show ?thesis unfolding run_step_def by simp
next
  case Local
  then have "ends (run_local_step R fuel step (begin_step R step st) :: (step_flow + unit) \<times> _)"
    using assms(1) by (auto simp: run_step_def ends_def split: prod.splits sum.splits)
  from local_fuel [OF this assms(2)] Local show ?thesis unfolding run_step_def by simp
qed

lemma run_steps_fuel:
  "fst (run_steps R fuel steps st) \<noteq> OutOfFuel \<Longrightarrow> fuel \<le> fuel' \<Longrightarrow>
   run_steps R fuel' steps st = run_steps R fuel steps st"
proof (induction steps arbitrary: st)
  case (Cons step steps)
  obtain fl st1 where s: "run_step R fuel step st = (fl, st1)" by (meson surj_pair)
  have "fl \<noteq> OutOfFuel" using Cons.prems(1) s by (auto split: step_flow.splits)
  then have "run_step R fuel' step st = (fl, st1)" using run_step_fuel [of R fuel step st fuel'] s Cons.prems(2) by simp
  with Cons s show ?case by (cases fl) simp_all
qed simp



end
