(* ===== verification/ExecFlow.thy ===== *)
theory ExecFlow
  imports ExecGates
begin

text \<open>
  Data flow between the steps of a run: a step the run goes on after has bound every output it declares, so the
  bindings of a compiled workflow resolve throughout its run; and unattended runs, which ask nothing.
\<close>

section \<open>Outputs are bound when the run goes on\<close>

definition bound :: "compiled_step \<Rightarrow> 'w run_state \<Rightarrow> bool" where
  "bound step st \<longleftrightarrow> bound_outputs (st_ctx st) (sd_id step) (map soc_name (sd_outputs step))"

definition binds :: "compiled_step \<Rightarrow> (step_flow + 'a) \<times> 'w run_state \<Rightarrow> bool" where
  "binds step r \<longleftrightarrow> (fst r = Inl Continue \<longrightarrow> bound step (snd r))"

text \<open>An attempt that the step may close with success.\<close>

definition ends_bound :: "compiled_step \<Rightarrow> (step_flow + step_end) \<times> 'w run_state \<Rightarrow> bool" where
  "ends_bound step r \<longleftrightarrow> binds step r \<and> (\<forall>t. fst r = Inr t \<longrightarrow> se_outcome t \<noteq> StepFailed \<longrightarrow> bound step (snd r))"

lemma bound_ctx: "st_ctx st' = st_ctx st \<Longrightarrow> bound step st' = bound step st"
  by (simp add: bound_def)

lemma bind_entry_bound:
  assumes "bind_entry val err (sd_id step) (sd_outputs step) ctx = (ctx', Inr u)"
  shows "bound_outputs ctx' (sd_id step) (map soc_name (sd_outputs step))"
  using bind_entry_binds [of val err "sd_id step" "sd_outputs step" ctx ctx'] assms
  by (auto simp: bound_outputs_def)

lemma store_and_bind_bound:
  "store_and_bind step ctx = (ctx', Inr u) \<Longrightarrow> bound_outputs ctx' (sd_id step) (map soc_name (sd_outputs step))"
  unfolding store_and_bind_def bind_step_outputs_def by (rule bind_entry_bound)

lemma fold_binsert_names:
  "n \<in> soc_name ` set cs \<Longrightarrow> bget (fold (\<lambda>c m. binsert (soc_name c) (f c) m) cs m) n \<noteq> None"
proof -
  have keeps: "bget m n \<noteq> None \<Longrightarrow> bget (fold (\<lambda>c m. binsert (soc_name c) (f c) m) cs m) n \<noteq> None" for cs m
    by (induction cs arbitrary: m) (simp_all add: bget_binsert)
  show "n \<in> soc_name ` set cs \<Longrightarrow> bget (fold (\<lambda>c m. binsert (soc_name c) (f c) m) cs m) n \<noteq> None"
  proof (induction cs arbitrary: m)
    case (Cons c cs)
    with keeps [of "binsert (soc_name c) (f c) m" cs] show ?case by (auto simp: bget_binsert)
  qed simp
qed

lemma injected_bound:
  "bound_outputs (inject_step_captures_for_dry_run (sd_id step)
     (fold (\<lambda>c m. binsert (soc_name c) (f c) m) (sd_outputs step) []) ctx) (sd_id step) (map soc_name (sd_outputs step))"
  using fold_binsert_names [of _ "sd_outputs step" f "[]"]
  by (auto simp: bound_outputs_def resolve_step_reference_def inject_step_captures_for_dry_run_def bget_binsert)

lemma binds_then:
  "binds step (p st) \<Longrightarrow> (\<And>a st1. p st = (Inr a, st1) \<Longrightarrow> binds step (k a st1)) \<Longrightarrow> binds step (then_phase p k st)"
  by (auto simp: binds_def then_phase_def split: prod.split sum.split)

lemma binds_exits [simp]:
  "binds step (fail_step R step reason facts err st)" "binds step (cancel_step R step reason st)"
  "binds step (fail_with_fields R step schema loc reason err st)" "binds step (escape e st)" "binds step (return a st)"
  by (simp_all add: binds_def fail_step_def cancel_step_def fail_with_fields_def escape_def return_def)

lemma binds_skip [simp]: "binds step (leave_skipped R step reason tail n facts' st)"
proof -
  obtain ctx r where b: "bind_skipped_outputs (sd_id step) (sd_outputs step) (st_ctx st) = (ctx, r)" by (meson surj_pair)
  show ?thesis
  proof (cases r)
    case (Inr u)
    from bind_entry_bound [OF b [unfolded bind_skipped_outputs_def Inr]] b Inr show ?thesis
      by (simp add: binds_def leave_skipped_def skip_step_def bound_def finish_step_terminal_def finish_step_def)
  qed (use b in \<open>simp add: binds_def leave_skipped_def skip_step_def\<close>)
qed

lemma skip_leaves: "fst (leave_skipped R step reason tail n facts' st) \<noteq> Inr a"
  by (simp add: leave_skipped_def split: prod.split sum.split)

lemma binds_close: "(se_outcome t \<noteq> StepFailed \<Longrightarrow> bound step st) \<Longrightarrow> binds step (close_step R step caps t st)"
  by (auto simp: binds_def close_step_def bound_def finish_step_def)

lemma binds_attempts:
  assumes "ends_bound step (p st)"
  shows "binds step (then_phase p (close_step R step caps) st)"
  using assms by (intro binds_then binds_close) (auto simp: ends_bound_def)

lemma binds_phases [simp]:
  "binds step (load_schema R step st)" "binds step (review_phase R step schema st)"
  "binds step (gather_phase R step schema st)" "binds step (assemble_phase R step schema loc st)"
  "binds step (confirm_gate R step schema loc request st)" "binds step (local_inputs R step st)"
  by (auto simp: load_schema_def review_phase_def gather_phase_def assemble_phase_def confirm_gate_def local_inputs_def
      Let_def split: option.split sum.split prod.split step_review_outcome.split step_confirm_outcome.split)

lemma binds_local_dry_run [simp]: "binds step (local_dry_run R step action inputs st)"
  unfolding local_dry_run_def Let_def null_captures_def
  by (auto simp: binds_def [of step "(Inl Continue, _)"] bound_def injected_bound finish_step_terminal_def finish_step_def
      split: sum.split prod.split)

lemma ends_bound_dry_run [simp]: "ends_bound step (api_dry_run R step schema loc request st)"
proof (cases "synthesise_dry_run_outputs (env_catalogue (rx_env R)) step")
  case (Inr synthesised)
  then obtain f where s: "synthesised = fold (\<lambda>c m. binsert (soc_name c) (f c) m) (sd_outputs step) []"
    by (auto simp: synthesise_dry_run_outputs_def and_then_ok)
  let ?st1 = "st\<lparr>st_ctx := inject_step_captures_for_dry_run (sd_id step) synthesised (st_ctx st)\<rparr>"
  have b1: "bound step ?st1" unfolding s by (simp add: bound_def injected_bound)
  obtain r st2 where p: "build_step_dry_run_preview (rx_env R) step request synthesised ?st1 = (r, st2)" by (meson surj_pair)
  then obtain q where "ask (env_dry_run_command (rx_env R) request) (\<lambda>_. DryRanCommand (cs_index step)) ?st1 = (q, st2)"
    by (auto simp: build_step_dry_run_preview_def split: prod.splits)
  from ask_spec(1) [OF this] b1 have "bound step st2" by (simp add: bound_def same_data_def)
  with p Inr show ?thesis
    by (auto simp: api_dry_run_def preview_failed_def return_def ends_bound_def binds_def bound_def split: sum.split)
qed (simp add: api_dry_run_def preview_failed_def return_def ends_bound_def binds_def)

lemma ends_bound_exits [simp]:
  "ends_bound step (Inl (Escape e), st)" "ends_bound step (Inr t, st) \<longleftrightarrow> se_outcome t = StepFailed \<or> bound step st"
  "ends_bound step (leave_skipped R step reason tail n facts' st)"
  by (auto simp: ends_bound_def binds_def [of step "(_, st)"] skip_leaves)

lemma ends_bound_retry:
  assumes "\<And>st summary st1. try_once st = (AttemptOk summary, st1) \<Longrightarrow> bound step st1"
  shows "ends_bound step (retry_loop R step try_once facts_of fuel n st)"
proof (induction fuel arbitrary: n st)
  case (Suc fuel)
  obtain a st1 where t: "try_once st = (a, st1)" by (meson surj_pair)
  show ?case
  proof (cases a)
    case (AttemptFailed err stage)
    obtain d st2 where d: "decide_step_failure (rx_env R) step err (ro_no_input (rx_options R)) stage st1 = (d, st2)"
      by (meson surj_pair)
    with t d AttemptFailed show ?thesis
      by (auto simp: Let_def Suc.IH split: sum.split failure_disposition.split)
  qed (use t assms in \<open>simp add: Let_def\<close>)
qed (simp add: ends_bound_def binds_def)

lemma try_action_bound: "try_action R step action inputs st = (AttemptOk summary, st') \<Longrightarrow> bound step st'"
  by (auto simp: try_action_def bound_def dest: store_and_bind_bound split: prod.splits sum.splits)

text \<open>A command answered with a binary download is stored without binding outputs, so such answers are set apart.\<close>

definition no_binary_reply :: "'w env \<Rightarrow> bool" where
  "no_binary_reply E \<longleftrightarrow> (\<forall>request w evs out w'. env_run_command E request w \<noteq> ((evs, Inr (OutBinaryWritten out)), w'))"

lemma try_dispatch_bound:
  assumes "no_binary_reply (rx_env R)" "try_dispatch R step request st = (AttemptOk summary, st')"
  shows "bound step st'"
proof -
  obtain r st1 where p: "perform (rx_env R) (cs_index step) (env_run_command (rx_env R) request)
      (RanCommand (cs_index step) request) st = (r, st1)" by (meson surj_pair)
  have "r \<noteq> Inr (OutBinaryWritten out)" for out
    using p assms(1) by (fastforce simp: perform_def ask_def no_binary_reply_def split: prod.splits)
  with assms(2) p show ?thesis
    by (auto simp: try_dispatch_def Let_def bound_def dest: store_and_bind_bound
        split: prod.splits sum.splits command_output.splits)
qed

lemma run_step_bound:
  assumes "no_binary_reply (rx_env R)" "run_step R fuel step st = (Continue, st')"
  shows "bound step st'"
proof -
  let ?run = "case sd_kind step of Local \<Rightarrow> run_local_step R fuel step | Api \<Rightarrow> run_api_step R fuel step"
  let ?r = "?run (begin_step R step st) :: (step_flow + unit) \<times> _"
  have "binds step (run_api_step R fuel step st1 :: (step_flow + unit) \<times> _)" for st1
    unfolding run_api_step_def
    by (intro binds_then binds_attempts)
      (auto intro: ends_bound_retry try_dispatch_bound [OF assms(1)])
  moreover have "binds step (run_local_step R fuel step st1 :: (step_flow + unit) \<times> _)" for st1
    unfolding run_local_step_def
    by (auto intro!: binds_then binds_attempts ends_bound_retry try_action_bound split: option.split)
  ultimately have "binds step ?r" by (cases "sd_kind step") simp_all
  moreover have "phase_spec (step_effect R step) step never (begin_step R step st) ?r"
    by (cases "sd_kind step") (simp_all add: run_local_step_spec run_api_step_spec)
  ultimately show ?thesis
    using assms(2) by (cases ?r) (auto simp: run_step_def binds_def phase_spec_def split: sum.splits)
qed

section \<open>Wiring\<close>

lemma run_steps_append:
  "run_steps R fuel (xs @ ys) st =
   (case run_steps R fuel xs st of (Continue, st') \<Rightarrow> run_steps R fuel ys st' | (fl, st') \<Rightarrow> (fl, st'))"
  by (induction xs arbitrary: st) (auto split: prod.split step_flow.split)

lemma bound_kept:
  assumes "bound step st" "run_step R fuel step' st = (fl, st')" "sd_id step \<noteq> sd_id step'"
  shows "bound step st'"
  using outputs.step_kept [of step' st R fuel] assms
  by (simp add: other_outputs_kept_def frame_ctx_def bound_def bound_outputs_def)

lemma run_prefix_bound:
  assumes "no_binary_reply (rx_env R)" "distinct (map sd_id steps)"
  shows "i \<le> length steps \<Longrightarrow> run_steps R fuel (take i steps) st = (Continue, st') \<Longrightarrow> j < i \<Longrightarrow> bound (steps ! j) st'"
proof (induction i arbitrary: st')
  case (Suc i)
  have "take (Suc i) steps = take i steps @ [steps ! i]" using Suc.prems(1) by (simp add: take_Suc_conv_app_nth)
  with Suc.prems(2) obtain st1 where s: "run_steps R fuel (take i steps) st = (Continue, st1)"
    "run_step R fuel (steps ! i) st1 = (Continue, st')"
    by (auto simp: run_steps_append split: prod.splits step_flow.splits)
  show ?case
  proof (cases "j = i")
    case True
    with run_step_bound [OF assms(1) s(2)] show ?thesis by simp
  next
    case False
    then have j: "j < i" using Suc.prems(3) by simp
    have "sd_id (steps ! j) \<noteq> sd_id (steps ! i)"
      using assms(2) Suc.prems(1) j by (auto simp: distinct_conv_nth)
    with bound_kept [OF _ s(2)] Suc.IH [OF _ s(1) j] Suc.prems(1) show ?thesis by simp
  qed
qed simp


definition sample_head :: compiled_step where
  "sample_head = step_definition.extend sample_first (compiled_step.fields 0 [sample_limit])"

definition sample_supplied :: "json bmap" where
  "sample_supplied = [(''limit'', JInt 5)]"

lemma sample_head_fields [simp]:
  "sd_id sample_head = ''a''" "sd_kind sample_head = Api" "sd_confirm sample_head = False" "cs_index sample_head = 0"
  "sd_operation sample_head = Some \<lparr>or_service = ''iam'', or_operation = ''getUser''\<rparr>"
  "sd_outputs sample_head = [\<lparr>soc_name = ''id'', soc_path = ''$.id'', soc_default = None, soc_sensitive = False\<rparr>]"
  by (simp_all add: sample_head_def sample_first_def sample_step_def step_definition.defs compiled_step.defs)

lemma sample_head_gathers_nothing: "compute_needed_inputs sample_head sample_supplied (cw_inputs sample_compiled) = []"
  by code_simp

lemma sample_head_assembles:
  "\<exists>request. assemble_command_request plain_externs sample_head new_context sample_supplied []
     (cw_inputs sample_compiled) sample_schema None default_run_options = Inr request"
proof -
  have "case assemble_command_request plain_externs sample_head new_context sample_supplied []
     (cw_inputs sample_compiled) sample_schema None default_run_options of Inr _ \<Rightarrow> True | Inl _ \<Rightarrow> False"
    by code_simp
  then show ?thesis by (simp split: sum.splits)
qed

lemma sample_reply_binds:
  assumes "bget (ctx_local_step_bodies ctx) ''a'' = None"
  shows "\<exists>ctx'. store_and_bind sample_head (store_step_output ''a'' \<lparr>ao_operation = sample_operation, ao_resource_name = ''users'',
     ao_body = EmptyBody, ao_raw_body = Some (JObj [(''id'', JStr ''u1'')])\<rparr> ctx) = (ctx', Inr ())"
proof -
  let ?out = "\<lparr>ao_operation = sample_operation, ao_resource_name = ''users'',
     ao_body = EmptyBody, ao_raw_body = Some (JObj [(''id'', JStr ''u1'')])\<rparr>"
  have body: "step_body_json (store_step_output ''a'' ?out ctx) ''a'' = Some (JObj [(''id'', JStr ''u1'')])"
    using assms by (simp add: step_body_json_def store_step_output_def bget_binsert)
  have path: "apply_jsonpath_subset (JObj [(''id'', JStr ''u1'')]) ''$.id'' = Some (JStr ''u1'')" by code_simp
  have "snd (store_and_bind sample_head (store_step_output ''a'' ?out ctx)) = Inr ()"
    by (simp add: store_and_bind_def bind_step_outputs_def bind_entry_ok_iff capture_value_def body path)
  then show ?thesis by (metis prod.collapse)
qed

lemma sample_head_runs:
  assumes "st_ctx st = new_context" "st_supplied st = sample_supplied"
  shows "\<exists>st'. run_step (sample_consts sample_compiled default_run_options) 1 sample_head st = (Continue, st')"
proof -
  let ?R = "sample_consts sample_compiled default_run_options"
  let ?st = "begin_step ?R sample_head st"
  have o: "\<not> ro_dry_run default_run_options" "\<not> ro_review_steps default_run_options"
    by (simp_all add: default_run_options_def)
  have s: "st_ctx ?st = new_context" "st_supplied ?st = sample_supplied"
    using assms by (simp_all add: begin_step_def emit_def logged_def)
  have load: "load_schema ?R sample_head ?st = (Inr sample_schema, ?st)"
    by (simp add: load_schema_def sample_catalogue_def return_def)
  have gather: "gather_phase ?R sample_head schema ?st = (Inr [], ?st)" for schema
    by (simp add: gather_phase_def assms sample_head_gathers_nothing return_def)
  obtain request where "assemble_command_request plain_externs sample_head new_context sample_supplied []
     (cw_inputs sample_compiled) sample_schema None default_run_options = Inr request"
    using sample_head_assembles by blast
  then have assemble: "assemble_phase ?R sample_head sample_schema [] ?st = (Inr request, ?st)"
    by (simp add: assemble_phase_def assms return_def)
  have gate: "confirm_gate ?R sample_head sample_schema [] request ?st = (Inr (), ?st)"
    by (simp add: confirm_gate_def return_def)
  let ?st1 = "logged (RanCommand 0 request) ?st"
  have none: "bget (ctx_local_step_bodies (st_ctx ?st1)) ''a'' = None"
    by (simp add: assms new_context_def bget_def)
  obtain ctx where bind: "store_and_bind sample_head (store_step_output ''a'' \<lparr>ao_operation = sample_operation, ao_resource_name = ''users'',
     ao_body = EmptyBody, ao_raw_body = Some (JObj [(''id'', JStr ''u1'')])\<rparr> (st_ctx ?st1)) = (ctx, Inr ())"
    using sample_reply_binds [OF none] by blast
  have tried: "\<exists>summary st2. try_dispatch ?R sample_head request ?st = (AttemptOk summary, st2)"
    using bind by (simp add: try_dispatch_def perform_def ask_def forward_progress_def sample_reply_def Let_def logged_def)
  then obtain summary st2 where tried: "try_dispatch ?R sample_head request ?st = (AttemptOk summary, st2)" by blast
  have "(run_api_step ?R 1 sample_head ?st :: (step_flow + unit) \<times> _) =
      close_step ?R sample_head (step_captures ?R sample_head sample_schema [])
        \<lparr>se_outcome = StepSuccess, se_summary = summary, se_reason = None, se_facts = None, se_attempts = 1\<rparr> st2"
    by (simp add: run_api_step_def then_phase_def load takes_review_path_def o gather assemble gate tried Let_def u32_saturating_succ_def)
  then show ?thesis
    by (simp add: run_step_def close_step_def)
qed


section \<open>Unattended runs\<close>

text \<open>The effects that wait for an answer once the briefing is over.\<close>

definition unattended :: "effect \<Rightarrow> bool" where
  "unattended e =
     (case e of
        AskedInputs \<Rightarrow> False | AskedGather _ \<Rightarrow> False | AskedReview _ _ \<Rightarrow> False | AskedConfirm _ _ \<Rightarrow> False
      | AskedFailure _ \<Rightarrow> False | _ \<Rightarrow> True)"

text \<open>What the precheck establishes for a step.\<close>

definition step_ready :: "compiled_workflow \<Rightarrow> run_options \<Rightarrow> json bmap \<Rightarrow> compiled_step \<Rightarrow> bool" where
  "step_ready cw opts supplied step \<longleftrightarrow>
     compute_needed_inputs step supplied (cw_inputs cw) = [] \<and>
     (sd_confirm step \<longrightarrow> ro_dry_run opts \<or> ro_assume_yes opts)"

lemma precheck_entries_grow:
  "\<exists>more sim'. fold (precheck_entry step) ns (issues, sim) = (issues @ more, sim') \<and> (ns \<noteq> [] \<longrightarrow> more \<noteq> []) \<and> (ns = [] \<longrightarrow> sim' = sim)"
proof (induction ns arbitrary: issues sim)
  case (Cons n ns)
  obtain x sim1 where e: "precheck_entry step n (issues, sim) = (issues @ [x], sim1)"
    by (cases "wn_scope n") (auto simp: precheck_entry_def)
  from Cons [of "issues @ [x]" sim1] obtain more sim' where
    "fold (precheck_entry step) ns (issues @ [x], sim1) = ((issues @ [x]) @ more, sim')" by blast
  with e show ?case by simp
qed simp

lemma precheck_step_grows:
  "\<exists>more sim'. precheck_step specs dry yes step (issues, sim) = (issues @ more, sim') \<and>
     (more = [] \<longrightarrow> compute_needed_inputs step sim specs = [] \<and> (sd_confirm step \<longrightarrow> dry \<or> yes) \<and> sim' = sim)"
proof -
  obtain more sim' where f: "fold (precheck_entry step) (compute_needed_inputs step sim specs) (issues, sim) = (issues @ more, sim')"
    "compute_needed_inputs step sim specs \<noteq> [] \<longrightarrow> more \<noteq> []" "compute_needed_inputs step sim specs = [] \<longrightarrow> sim' = sim"
    using precheck_entries_grow by blast
  let ?gate = "sd_confirm step \<and> \<not> dry \<and> \<not> yes"
  have "precheck_step specs dry yes step (issues, sim) =
      (issues @ (if ?gate then more @ [ConfirmRequired (sd_id step)] else more), sim')"
    using f(1) by (simp add: precheck_step_def)
  then show ?thesis using f(2,3) by (cases ?gate) auto
qed

lemma precheck_fold_nil:
  "fst (fold (precheck_step specs dry yes) steps (issues, sim)) = [] \<Longrightarrow>
   issues = [] \<and> list_all (\<lambda>step. compute_needed_inputs step sim specs = [] \<and> (sd_confirm step \<longrightarrow> dry \<or> yes)) steps"
proof (induction steps arbitrary: issues sim)
  case (Cons step steps)
  obtain more sim' where p: "precheck_step specs dry yes step (issues, sim) = (issues @ more, sim')"
    "more = [] \<longrightarrow> compute_needed_inputs step sim specs = [] \<and> (sd_confirm step \<longrightarrow> dry \<or> yes) \<and> sim' = sim"
    using precheck_step_grows by blast
  have rest: "fst (fold (precheck_step specs dry yes) steps (issues @ more, sim')) = []" using Cons.prems p(1) by simp
  from Cons.IH [OF this] have nil: "issues = []" "more = []" by simp_all
  then have head: "compute_needed_inputs step sim specs = []" "sd_confirm step \<longrightarrow> dry \<or> yes" "sim' = sim"
    using p(2) by simp_all
  from Cons.IH [OF rest] have "list_all (\<lambda>step. compute_needed_inputs step sim specs = [] \<and> (sd_confirm step \<longrightarrow> dry \<or> yes)) steps"
    unfolding head(3) by (rule conjunct2)
  with nil(1) head(1,2) show ?case by (simp only: list.pred_inject simp_thms)
qed simp

lemma precheck_ready:
  "no_input_precheck cw supplied (ro_dry_run opts) (ro_assume_yes opts) = [] \<Longrightarrow>
   list_all (step_ready cw opts supplied) (cw_steps cw)"
  using precheck_fold_nil [of "cw_inputs cw" "ro_dry_run opts" "ro_assume_yes opts" "cw_steps cw" "[]" supplied]
  by (simp add: no_input_precheck_def step_ready_def list_all_iff)

text \<open>A step that is ready asks nothing and is never tried twice.\<close>

lemma retry_ends_unattended:
  "ro_no_input (rx_options R) \<Longrightarrow> ends (retry_loop R step try_once facts_of (Suc fuel) n st)"
  by (auto simp: ends_def decide_step_failure_def leave_skipped_def Let_def
      split: prod.splits attempt.splits sum.splits if_splits)

lemma ends_local_step:
  "ro_no_input (rx_options R) \<Longrightarrow> ends (run_local_step R (Suc fuel) step st)"
  unfolding run_local_step_def
  by (auto intro!: ends_then retry_ends_unattended split: option.split simp del: retry_loop.simps)

lemma ends_api_step:
  "ro_no_input (rx_options R) \<Longrightarrow> ends (run_api_step R (Suc fuel) step st)"
  unfolding run_api_step_def
  by (intro ends_then) (auto intro!: retry_ends_unattended simp del: retry_loop.simps)

lemma ready_api_step:
  assumes "step_ready (rx_compiled R) (rx_options R) (st_supplied st) step"
    and "ro_no_input (rx_options R)" "\<not> ro_review_steps (rx_options R)"
  shows "phase_spec unattended step never st (run_api_step R fuel step st)"
proof -
  have gather: "phase_spec unattended step keeps st (gather_phase R step schema st)" for schema
    using assms(1) by (intro gather_phase_spec) (simp add: step_ready_def)
  have gate: "phase_spec unattended step keeps st1 (confirm_gate R step schema loc request st1)" for schema loc request st1
    using assms(1) by (intro confirm_gate_spec) (auto simp: step_ready_def needs_confirm_def)
  have last: "phase_spec unattended step end_ok st1
      ((if ro_dry_run (rx_options R) then api_dry_run R step schema loc request
        else retry_loop R step (try_dispatch R step request) (failure_facts R step schema loc) fuel 0) st1)"
    for schema loc request st1
    using assms(2) by (intro dispatch_phase_spec) (simp_all add: unattended_def)
  have load: "load_schema R step st = (Inr schema, st1) \<Longrightarrow> st1 = st" for schema st1
    by (auto simp: load_schema_def fail_step_def escape_def return_def split: option.splits sum.splits)
  have review: "\<not> takes_review_path R step" using assms(3) by (simp add: takes_review_path_def)
  show ?thesis
    unfolding run_api_step_def if_not_P [OF review]
    by (intro phase_then phase_close load_schema_spec assemble_phase_spec gate last) (use gather load in blast)
qed

lemma ready_step:
  assumes "step_ready (rx_compiled R) (rx_options R) (st_supplied st) step"
    and "ro_no_input (rx_options R)" "\<not> ro_review_steps (rx_options R)"
    and run: "run_step R (Suc fuel) step st = (fl, st')"
  shows "fl \<noteq> OutOfFuel \<and> st_supplied st' = st_supplied st \<and>
    (list_all unattended (st_log st) \<longrightarrow> list_all unattended (st_log st'))"
proof -
  let ?run = "case sd_kind step of Local \<Rightarrow> run_local_step R (Suc fuel) step | Api \<Rightarrow> run_api_step R (Suc fuel) step"
  let ?st = "begin_step R step st"
  let ?r = "?run ?st :: (step_flow + unit) \<times> _"
  have "step_effect R step e \<Longrightarrow> sd_kind step = Local \<Longrightarrow> unattended e" for e
    using assms(2) by (cases e) (auto simp: step_effect_def unattended_def)
  then have "phase_spec unattended step never ?st ?r"
    using ready_api_step [of R ?st step "Suc fuel"] assms(1-3) run_local_step_spec [of step R ?st "Suc fuel"]
    by (cases "sd_kind step") (auto intro: phase_spec_mono)
  from spec_log [OF this] obtain mid where "st_log (snd ?r) = st_log ?st @ mid" "list_all unattended mid"
    by (auto simp: unattended_def)
  moreover have "ends ?r"
    using ends_api_step [OF assms(2)] ends_local_step [OF assms(2)] by (cases "sd_kind step") simp_all
  moreover have "st_supplied st' = st_supplied st"
    using inputs.step_kept [of R step st "Suc fuel"] run assms(1) by (simp add: inputs_kept_def step_ready_def)
  ultimately show ?thesis
    using run by (cases ?r) (auto simp: run_step_def ends_def unattended_def split: sum.splits)
qed

lemma ready_steps:
  assumes "ro_no_input (rx_options R)" "\<not> ro_review_steps (rx_options R)"
  shows "list_all (step_ready (rx_compiled R) (rx_options R) (st_supplied st)) steps \<Longrightarrow>
    list_all unattended (st_log st) \<Longrightarrow> run_steps R (Suc fuel) steps st = (fl, st') \<Longrightarrow>
    fl \<noteq> OutOfFuel \<and> list_all unattended (st_log st')"
proof (induction steps arbitrary: st)
  case (Cons step steps)
  obtain fl1 st1 where s: "run_step R (Suc fuel) step st = (fl1, st1)" by (meson surj_pair)
  from ready_step [OF _ assms s] Cons.prems(1,2)
  have r: "fl1 \<noteq> OutOfFuel" "st_supplied st1 = st_supplied st" "list_all unattended (st_log st1)" by simp_all
  show ?case
  proof (cases "fl1 = Continue")
    case True
    with Cons.IH [of st1] Cons.prems(1,3) s r show ?thesis by simp
  next
    case False
    with Cons.prems(3) s r show ?thesis by (auto split: step_flow.splits)
  qed
qed simp

lemma finalise_quiet:
  assumes "finalise E compiled oc st = (r, st')" "list_all unattended (st_log st)"
  shows "r \<noteq> Exhausted \<and> list_all unattended (st_log st')"
  using finalise_spec [OF assms(1)] assms(2) by (simp add: unattended_def)

text \<open>C5. A run under \<open>--no-input\<close> without reviews is unattended: it either is rejected before its first event, or it
  gathers nothing, asks for no review, confirmation or decision after a failure, tries every step at most once
  and ends.\<close>

theorem no_input_run_is_unattended:
  assumes "ro_no_input (env_options E)" "\<not> ro_review_steps (env_options E)"
  shows "fst (execute E compiled pre (Suc fuel) w) \<noteq> Exhausted \<and>
    list_all unattended (st_log (snd (execute E compiled pre (Suc fuel) w)))"
proof -
  obtain r st where run: "execute E compiled pre (Suc fuel) w = (r, st)" by (meson surj_pair)
  then have "r \<noteq> Exhausted \<and> list_all unattended (st_log st)"
  proof (cases rule: execute_cases)
    case (ran oc mode st3)
    let ?R = "loop_consts E compiled pre mode"
    have R: "rx_compiled ?R = compiled" "rx_options ?R = env_options E" "rx_env ?R = E"
      by (simp_all add: loop_consts_def rx_options_def)
    from ran(2) obtain mid where m: "st_log st3 = Emitted (WorkflowStarted compiled) # mid" "set mid \<subseteq> {AskedBriefing, AskedInputs}"
      by (rule before_loop_log)
    have "AskedInputs \<notin> set (st_log st3)" using ran(3) assms(2) by simp
    with m have quiet: "list_all unattended (st_log st3)" by (fastforce simp: list_all_iff unattended_def)
    show ?thesis
    proof (cases "oc = RunSuccess")
      case False
      with ran(4) have "finalise E compiled oc st3 = (r, st)" by simp
      from finalise_quiet [OF this quiet] show ?thesis .
    next
      case True
      with ran(4) have "loop_phase E compiled (bkeys pre) (snd (seed_defaults (cw_inputs compiled) pre)) mode (Suc fuel) st3 = (r, st)"
        by simp
      then obtain fl st1 where s: "run_steps ?R (Suc fuel) (cw_steps compiled) st3 = (fl, st1)"
        and f: "case fl of Continue \<Rightarrow> finalise E compiled RunSuccess st1 = (r, st)
          | Stop oc \<Rightarrow> finalise E compiled oc st1 = (r, st)
          | Escape e \<Rightarrow> r = Raised e \<and> st = st1
          | OutOfFuel \<Rightarrow> r = Exhausted \<and> st = st1"
        by (rule loop_phase_steps)
      have "list_all (step_ready compiled (env_options E) (st_supplied st3)) (cw_steps compiled)"
        using precheck_ready [of compiled "seeded compiled pre" "env_options E"] ran(1,3) assms by simp
      from ready_steps [of ?R st3 "cw_steps compiled" fuel fl st1] this quiet s assms
      have fl: "fl \<noteq> OutOfFuel" "list_all unattended (st_log st1)" by (simp_all add: R)
      with f finalise_quiet [OF _ fl(2)] show ?thesis by (cases fl) auto
    qed
  qed (auto simp: initial_state_def)
  with run show ?thesis by simp
qed

theorem no_input_run_is_unattended_witness:
  "list_all unattended (st_log (snd (execute (sample_env (default_run_options\<lparr>ro_no_input := True\<rparr>))
     sample_local_workflow [] 1 ())))"
  unfolding One_nat_def
  by (rule conjunct2 [OF no_input_run_is_unattended]) (simp_all add: default_run_options_def)

end
