(* ===== verification/DispatchText.thy ===== *)
theory DispatchText
  imports Display Kebab
begin

text \<open>
  The word and display helpers of \<open>ags-runtime/src/support/strings.rs\<close>, and its check and percent-encoding of a value
  for a URL path segment. Case mapping of text that is not ASCII needs the Unicode tables of Rust's library:
  they are the argument \<open>unicode\<close>, which is not asked about ASCII text. A slice of a string at a byte that is not a
  character boundary, or out of range, panics: such a function returns \<^term>\<open>None\<close> there.
\<close>

section \<open>Case mapping\<close>

text \<open>Upper and lower case of a text that has characters outside ASCII, and the test for upper case on such a
  character, given by its UTF-8 bytes.\<close>

record unicode =
  un_lower :: "string \<Rightarrow> string"
  un_upper :: "string \<Rightarrow> string"
  un_is_upper :: "string \<Rightarrow> bool"

definition is_ascii :: "string \<Rightarrow> bool" where
  "is_ascii s \<longleftrightarrow> list_all (\<lambda>c. (of_char c :: nat) < 128) s"

definition to_upper :: "char \<Rightarrow> char" where
  "to_upper c = (if is_lower c then char_of ((of_char c :: nat) - 32) else c)"

definition to_lowercase :: "unicode \<Rightarrow> string \<Rightarrow> string" where
  "to_lowercase U s = (if is_ascii s then lower_text s else un_lower U s)"

definition to_uppercase :: "unicode \<Rightarrow> string \<Rightarrow> string" where
  "to_uppercase U s = (if is_ascii s then map to_upper s else un_upper U s)"

definition char_is_uppercase :: "unicode \<Rightarrow> string \<Rightarrow> bool" where
  "char_is_uppercase U ch = (if is_ascii ch then list_all is_upper ch else un_is_upper U ch)"

text \<open>A case mapping that leaves other characters alone, for examples.\<close>

definition ascii_only :: unicode where
  "ascii_only = \<lparr>un_lower = id, un_upper = id, un_is_upper = \<lambda>_. False\<rparr>"

text \<open>The first character of a UTF-8 text, as its bytes.\<close>

definition first_char :: "string \<Rightarrow> string" where
  "first_char s = (case s of [] \<Rightarrow> [] | c # r \<Rightarrow> c # takeWhile continuation_byte r)"

definition capitalize_first :: "unicode \<Rightarrow> string \<Rightarrow> string" where
  "capitalize_first U s =
     (case s of
        [] \<Rightarrow> []
      | _ \<Rightarrow> to_uppercase U (first_char s) @ drop (length (first_char s)) s)"

section \<open>Slices\<close>

text \<open>\<open>str::is_char_boundary\<close>, and the slices up to and from a byte; \<^term>\<open>None\<close> is the panic.\<close>

definition is_char_boundary :: "string \<Rightarrow> nat \<Rightarrow> bool" where
  "is_char_boundary s i \<longleftrightarrow> i = 0 \<or> i = length s \<or> (i < length s \<and> \<not> continuation_byte (s ! i))"

definition slice_to :: "string \<Rightarrow> nat \<Rightarrow> string option" where
  "slice_to s i = (if is_char_boundary s i then Some (take i s) else None)"

definition slice_from :: "string \<Rightarrow> nat \<Rightarrow> string option" where
  "slice_from s i = (if is_char_boundary s i then Some (drop i s) else None)"

text \<open>\<open>str::find\<close> of a pattern: the byte where it first starts.\<close>

fun find_text :: "string \<Rightarrow> string \<Rightarrow> nat option" where
  "find_text p [] = (if p = [] then Some 0 else None)"
| "find_text p (c # s) = (if prefix p (c # s) then Some 0 else map_option Suc (find_text p s))"

definition trim_end_text :: "string \<Rightarrow> string" where
  "trim_end_text s = rev (drop_spaces (map rev white_space) (rev s))"

definition trim_end_char :: "char \<Rightarrow> string \<Rightarrow> string" where
  "trim_end_char c s = rev (dropWhile (\<lambda>d. d = c) (rev s))"

section \<open>Words\<close>

definition kebab_case_to_words :: "string \<Rightarrow> string" where
  "kebab_case_to_words name = str_replace ''-'' '' '' name"

definition uncountable :: "string list" where
  "uncountable = [''qos'', ''iap-oculus'']"

definition filter_option :: "('a \<Rightarrow> bool) \<Rightarrow> 'a option \<Rightarrow> 'a option" where
  "filter_option P x = (case x of Some a \<Rightarrow> if P a then Some a else None | None \<Rightarrow> None)"

definition singularize :: "string \<Rightarrow> string" where
  "singularize name =
     (if list_ex (\<lambda>w. lower_text w = lower_text name) uncountable then name
      else case strip_suffix ''ies'' name of
        Some stem \<Rightarrow> stem @ ''y''
      | None \<Rightarrow>
          (case filter_option (suffix ''s'') (strip_suffix ''es'' name) of
             Some stem \<Rightarrow> stem
           | None \<Rightarrow>
               (case filter_option (\<lambda>s. \<not> suffix ''s'' s) (strip_suffix ''s'' name) of
                  Some stem \<Rightarrow> stem
                | None \<Rightarrow> name)))"

definition pluralize :: "string \<Rightarrow> nat \<Rightarrow> string" where
  "pluralize noun n =
     (if n = 1 then singularize noun
      else if list_ex (\<lambda>e. suffix e noun) [''sh'', ''ch'', ''x'', ''z'', ''ss'', ''us''] then noun @ ''es''
      else if suffix ''s'' noun then noun
      else case strip_suffix ''y'' noun of
        Some stem \<Rightarrow>
          if stem \<noteq> [] \<and> last stem \<notin> set ''aeiou'' then stem @ ''ies'' else noun @ ''s''
      | None \<Rightarrow> noun @ ''s'')"

text \<open>The text after the first hyphen of a method name, if there is one.\<close>

definition after_hyphen :: "string \<Rightarrow> string option" where
  "after_hyphen s = (case from_match (\<lambda>c. c = CHR ''-'') s of [] \<Rightarrow> None | _ # r \<Rightarrow> Some r)"

definition first_word :: "string \<Rightarrow> string" where
  "first_word s = before_match (\<lambda>c. c = CHR ''-'') s"

definition method_noun :: "string \<Rightarrow> string \<Rightarrow> string" where
  "method_noun method fallback =
     (case after_hyphen method of
        None \<Rightarrow> fallback
      | Some after \<Rightarrow>
          if first_word after \<in> set [''by'', ''for'', ''with'', ''from'', ''of''] then fallback
          else if first_word after = ''my'' then
            (let rest = (case strip_prefix ''my'' after of Some r \<Rightarrow> r | None \<Rightarrow> after);
                 rest = (case strip_prefix ''-'' rest of Some r \<Rightarrow> r | None \<Rightarrow> rest)
             in if rest = [] then fallback else kebab_case_to_words rest)
          else kebab_case_to_words after)"

definition derive_noun_from_method :: "string \<Rightarrow> string \<Rightarrow> string" where
  "derive_noun_from_method method_name resource_name =
     method_noun method_name (kebab_case_to_words resource_name)"

section \<open>Display\<close>

definition truncate_summary :: "string \<Rightarrow> nat \<Rightarrow> string option" where
  "truncate_summary s max_len =
     (if length s \<le> max_len then Some s
      else if max_len < 3 then None
      else map_option (\<lambda>t. trim_end_text t @ ''...'') (slice_to s (max_len - 3)))"

fun char_boundary_below :: "string \<Rightarrow> nat \<Rightarrow> nat" where
  "char_boundary_below s 0 = 0"
| "char_boundary_below s (Suc i) = (if is_char_boundary s (Suc i) then Suc i else char_boundary_below s i)"

definition truncate_display_text :: "string \<Rightarrow> nat \<Rightarrow> string option" where
  "truncate_display_text body max_len =
     (if length body \<le> max_len then Some body
      else map_option (\<lambda>t. t @ ''... (truncated)'') (slice_to body (char_boundary_below body max_len)))"

definition draft_resource_description :: "unicode \<Rightarrow> string \<Rightarrow> string list \<Rightarrow> string" where
  "draft_resource_description U resource method_names =
     (let display = str_replace ''-'' '' '' resource;
          crud = [''list'', ''create'', ''get'', ''update'', ''delete''];
          read_only = [''list'', ''get'', ''get-all'', ''list-all'', ''query'']
      in if length (filter (\<lambda>v. v \<in> set method_names) crud) \<ge> 3 then ''Manage '' @ display
         else if list_all (\<lambda>v. v \<in> set read_only) method_names then ''Query '' @ display
         else if suffix ''config'' resource \<or> suffix ''configuration'' resource then ''Configure '' @ display
         else capitalize_first U display @ '' operations'')"

text \<open>\<open>read_line_from\<close>, on the line that was read; \<^term>\<open>None\<close> is \<open>StdinLineError::Empty\<close>.\<close>

definition read_line_from :: "string \<Rightarrow> string option" where
  "read_line_from line =
     (let v = strip_terminal_control_sequences (trim_text line) in if v = [] then None else Some v)"

section \<open>Path segments\<close>

text \<open>The bytes \<open>PATH_SEGMENT_ENCODE\<close> names, and every byte outside ASCII, are written as \<open>%XX\<close>.\<close>

definition path_segment_encode :: "char \<Rightarrow> bool" where
  "path_segment_encode c \<longleftrightarrow>
     (let n = (of_char c :: nat)
      in n < 32 \<or> n \<ge> 127 \<or>
         c \<in> set [CHR 0x20, CHR 0x22, CHR 0x23, CHR 0x25, CHR 0x2F, CHR 0x3C, CHR 0x3E, CHR 0x3F, CHR 0x60, CHR 0x7B, CHR 0x7D])"

definition hex_char :: "nat \<Rightarrow> char" where
  "hex_char d = (if d < 10 then char_of (48 + d) else char_of (55 + d))"

definition percent_encode_byte :: "char \<Rightarrow> string" where
  "percent_encode_byte c =
     (if path_segment_encode c then
        (let n = (of_char c :: nat) in [CHR ''%'', hex_char (n div 16), hex_char (n mod 16)])
      else [c])"

definition utf8_percent_encode :: "string \<Rightarrow> string" where
  "utf8_percent_encode s = concat (map percent_encode_byte s)"

definition segment_error :: "string \<Rightarrow> string option \<Rightarrow> runtime_error" where
  "segment_error msg hint = (validation_error msg)\<lparr>re_hint := hint\<rparr>"

definition encode_url_path_segment :: "string \<Rightarrow> string \<Rightarrow> string rt" where
  "encode_url_path_segment value param_name =
     (if value = [] then
        Inl (segment_error (''Parameter '' @ quoted param_name @ '' cannot be empty'')
          (Some (''Provide a value for --'' @ param_name @ ''. Run with --help to see expected format.'')))
      else if contains_text ''..'' value then
        Inl (segment_error (''Invalid parameter value: path traversal ('' @ quoted ''..'' @ '') is not allowed'') None)
      else if contains_text ''?'' value then
        Inl (segment_error (''Invalid parameter value: '' @ quoted ''?'' @ '' is not allowed'') None)
      else if contains_text ''#'' value then
        Inl (segment_error (''Invalid parameter value: '' @ quoted ''#'' @ '' is not allowed'') None)
      else if list_ex (\<lambda>b. (of_char b :: nat) < 32 \<or> (of_char b :: nat) = 127) value then
        Inl (segment_error ''Invalid parameter value: control characters are not allowed'' None)
      else Inr (utf8_percent_encode value))"

section \<open>Laws\<close>

text \<open>A reader of percent-encoded text, for the specification.\<close>

definition hex_value :: "char \<Rightarrow> nat option" where
  "hex_value c =
     (let n = (of_char c :: nat)
      in if 48 \<le> n \<and> n \<le> 57 then Some (n - 48)
         else if 65 \<le> n \<and> n \<le> 70 then Some (n - 55) else None)"

fun percent_decode :: "string \<Rightarrow> string" where
  "percent_decode (p # a # b # s) =
     (if p = CHR ''%'' then
        (case (hex_value a, hex_value b) of
           (Some x, Some y) \<Rightarrow> char_of (16 * x + y) # percent_decode s
         | _ \<Rightarrow> p # percent_decode (a # b # s))
      else p # percent_decode (a # b # s))"
| "percent_decode s = s"

lemma hex_value_char: "d < 16 \<Longrightarrow> hex_value (hex_char d) = Some d"
  by (auto simp: hex_value_def hex_char_def)

lemma percent_decode_plain: "c \<noteq> CHR ''%'' \<Longrightarrow> percent_decode (c # s) = c # percent_decode s"
  by (cases s rule: percent_decode.cases) (auto split: list.split)

lemma percent_decode_encode_byte:
  "percent_decode (percent_encode_byte c @ s) = c # percent_decode s"
proof (cases "path_segment_encode c")
  case True
  have "(of_char c :: nat) < 256" by simp
  then have "(of_char c :: nat) div 16 < 16" by (simp add: less_mult_imp_div_less)
  then have "hex_value (hex_char (of_char c div 16)) = Some (of_char c div 16)"
    "hex_value (hex_char (of_char c mod 16)) = Some (of_char c mod 16 :: nat)"
    by (auto intro!: hex_value_char)
  with True show ?thesis by (simp add: percent_encode_byte_def Let_def)
next
  case False
  then have "c \<noteq> CHR ''%''" by (auto simp: path_segment_encode_def)
  with False show ?thesis by (simp add: percent_encode_byte_def percent_decode_plain)
qed

lemma percent_decode_encode: "percent_decode (utf8_percent_encode s) = s"
  unfolding utf8_percent_encode_def by (induction s) (simp_all add: percent_decode_encode_byte)

definition unreserved :: "char \<Rightarrow> bool" where
  "unreserved c \<longleftrightarrow> c = CHR ''%'' \<or> \<not> path_segment_encode c"

lemma hex_char_unreserved:
  assumes "d < 16"
  shows "unreserved (hex_char d)"
proof -
  have "list_all (\<lambda>d. unreserved (hex_char d)) [0..<16]" by code_simp
  with assms show ?thesis by (simp add: list_all_iff)
qed

lemma percent_encode_byte_unreserved:
  assumes "c \<in> set (percent_encode_byte b)"
  shows "unreserved c"
proof (cases "path_segment_encode b")
  case True
  have "(of_char b :: nat) div 16 < 16" by (simp add: less_mult_imp_div_less)
  moreover have "(of_char b :: nat) mod 16 < 16" by simp
  ultimately have "unreserved (hex_char (of_char b div 16))" "unreserved (hex_char (of_char b mod 16))"
    by (simp_all only: hex_char_unreserved)
  moreover have "unreserved (CHR ''%'')" by (simp add: unreserved_def)
  ultimately show ?thesis using assms True by (auto simp: percent_encode_byte_def Let_def)
next
  case False
  then show ?thesis using assms by (simp add: percent_encode_byte_def unreserved_def)
qed

lemma percent_encode_unreserved: "c \<in> set (utf8_percent_encode s) \<Longrightarrow> unreserved c"
  by (auto simp: utf8_percent_encode_def dest: percent_encode_byte_unreserved)

lemma percent_encode_byte_nonempty [simp]: "percent_encode_byte c \<noteq> []"
  by (simp add: percent_encode_byte_def Let_def)

lemma percent_encode_eq_Nil [simp]: "utf8_percent_encode s = [] \<longleftrightarrow> s = []"
  by (cases s) (simp_all add: utf8_percent_encode_def)

lemma encode_segment_inr:
  assumes "encode_url_path_segment v p = Inr e"
  shows "e = utf8_percent_encode v" "v \<noteq> []"
proof -
  have *: "(if a then Inl x else y) = Inr z \<longleftrightarrow> \<not> a \<and> y = Inr z" for a x and y :: "string rt" and z by simp
  from assms have "v \<noteq> [] \<and> utf8_percent_encode v = e" unfolding encode_url_path_segment_def * by blast
  then show "e = utf8_percent_encode v" "v \<noteq> []" by simp_all
qed

lemma encode_segment_ok:
  assumes "encode_url_path_segment v p = Inr e"
  shows "v \<noteq> []" "percent_decode e = v" "\<forall>c \<in> set e. unreserved c" "e \<noteq> []"
  using encode_segment_inr [OF assms] by (auto simp: percent_decode_encode percent_encode_unreserved)

text \<open>Display text is cut at a character boundary and so never panics; a summary is cut at a byte.\<close>

lemma char_boundary_below_ok: "is_char_boundary s (char_boundary_below s n)"
  by (induction n) (simp_all add: is_char_boundary_def)

lemma char_boundary_below_le: "char_boundary_below s n \<le> n"
  by (induction n) auto

lemma truncate_display_text_bounded:
  "\<exists>t. truncate_display_text s n = Some t \<and> length t \<le> n + 15"
proof (cases "length s \<le> n")
  case False
  have "length (take (char_boundary_below s n) s) \<le> n"
    using char_boundary_below_le [of s n] by simp
  with False show ?thesis
    by (auto simp: truncate_display_text_def slice_to_def char_boundary_below_ok)
qed (simp add: truncate_display_text_def)

lemma truncate_summary_panics:
  "truncate_summary (replicate 76 (CHR ''a'') @ [CHR 0xC3, CHR 0xA9] @ ''abc'') 80 = None"
  by code_simp

end
