(* ===== verification/ErrorCodes.thy ===== *)
theory ErrorCodes
  imports RustStr
begin

text \<open>
  The curated messages for error codes of the services, \<open>ags-runtime/src/runtime/dispatch/error_codes/\<close>. Each arm of a
  \<open>match\<close> on the code is a row: the codes of the arm and its mapping. A long \<open>match\<close> is split into consecutive tables.
\<close>

record error_mapping =
  em_message :: string
  em_reason :: "string option"
  em_suggestion :: "string option"
  em_tip :: "string option"

definition curated :: "string \<Rightarrow> string option \<Rightarrow> string option \<Rightarrow> string option \<Rightarrow> error_mapping" where
  "curated m r s t = \<lparr>em_message = m, em_reason = r, em_suggestion = s, em_tip = t\<rparr>"

type_synonym code_table = "(int list \<times> error_mapping) list"

definition table_lookup :: "code_table \<Rightarrow> int \<Rightarrow> error_mapping option" where
  "table_lookup t c = map_option snd (find (\<lambda>row. c \<in> set (fst row)) t)"

definition basic_codes :: code_table where
  "basic_codes =
     [([11121], curated ''Category is not valid''
        (Some ''The supplied file category is not recognised.'')
        (Some ''Use one of the supported file categories.'')
        None),
      ([11131], curated ''File type is not supported''
        (Some ''The uploaded file type is not allowed.'')
        (Some ''Use a supported file type.'')
        None),
      ([11132], curated ''File storage limit exceeded''
        (Some ''The user has exceeded the namespace's file storage quota.'')
        (Some ''Delete unused files or contact an administrator to increase the quota.'')
        None),
      ([11233], curated ''Country group not found''
        (Some ''No country group exists with the supplied code.'')
        (Some ''Run 'ags basic country-groups list' to see configured groups.'')
        None),
      ([11234], curated ''Country is already in another country group''
        (Some ''A country cannot belong to more than one country group at a time.'')
        (Some ''Remove the country from its current group before adding it to a new one.'')
        None),
      ([11235], curated ''Country group already exists''
        (Some ''A country group with the supplied code is already configured.'')
        (Some ''Use a different code or update the existing group.'')
        None),
      ([11336], curated ''Namespace already exists''
        (Some ''A namespace with this identifier is already configured.'')
        (Some ''Use a different namespace name.'')
        None),
      ([11337], curated ''Namespace not found''
        (Some ''The specified namespace does not exist.'')
        (Some ''Run 'ags basic namespaces list' to see available namespaces.'')
        None),
      ([11338], curated ''Namespace contains invalid characters''
        (Some ''Namespace names allow only a restricted character set.'')
        (Some ''Use only alphanumeric characters and hyphens.'')
        None),
      ([11339], curated ''Display name contains invalid characters''
        (Some ''The display name uses characters that are not allowed.'')
        (Some ''Remove special characters and retry.'')
        None),
      ([11340], curated ''Game namespace limit reached for this studio''
        (Some ''The studio has hit its maximum number of game namespaces.'')
        (Some ''Delete an unused game namespace, or contact AccelByte to raise the limit.'')
        None),
      ([11440], curated ''User profile not found in this namespace''
        (Some ''The user has no profile in the requested namespace.'')
        (Some ''Create the profile first, or check the userId and namespace.'')
        None),
      ([11441], curated ''User profile already exists''
        (Some ''A profile already exists for this user in this namespace.'')
        (Some ''Update the existing profile instead of creating a new one.'')
        None),
      ([11469], curated ''User profile not found by public ID''
        (Some ''No profile matches the supplied publicId in this namespace.'')
        (Some ''Verify the publicId and namespace, then retry.'')
        None),
      ([11741], curated ''Config not found''
        (Some ''The requested namespace config entry does not exist.'')
        (Some ''Run 'ags basic config list' to see configured entries.'')
        None),
      ([11771], curated ''Config already exists''
        (Some ''A config entry with this key is already set.'')
        (Some ''Update the existing config or use a different key.'')
        None)]"

definition challenge_codes :: code_table where
  "challenge_codes =
     [([99002], curated ''Duplicate key''
        (Some ''A challenge with the same identifier already exists.'')
        (Some ''Use a different code or update the existing challenge.'')
        None),
      ([99003], curated ''Challenge validation failed''
        (Some ''The challenge configuration is invalid.'')
        (Some ''Check the challenge fields against the schema and retry.'')
        None),
      ([99004], curated ''Challenge request could not be processed''
        (Some ''The request is well-formed but cannot be applied in the current challenge state.'')
        (Some ''Check the challenge state and the request payload.'')
        None)]"

definition cloudsave_codes_1 :: code_table where
  "cloudsave_codes_1 =
     [([18003, 18022, 18081, 18122, 18133, 18140, 18152, 18167, 18171, 18177, 18186, 18303, 18313, 18317, 18322, 18325, 18333, 18338, 18340, 18361], curated ''Cloudsave record not found''
        (Some ''No record exists for the supplied key, namespace, or user.'')
        (Some ''Verify the key/namespace/user and retry.'')
        None),
      ([18011, 18030, 18050, 18060, 18083, 18090, 18100, 18113, 18125, 18128, 18134, 18144, 18149, 18150, 18156, 18159, 18168, 18174, 18184, 18304, 18305, 18311, 18316, 18326, 18327, 18332, 18342, 18347, 18350, 18353, 18408], curated ''Cloudsave request is invalid''
        (Some ''The request body or parameters did not pass validation.'')
        (Some ''Check the request payload and retry.'')
        None),
      ([18064, 18102, 18181], curated ''Cloudsave validation failed''
        (Some ''The record contents did not pass schema validation.'')
        (Some ''Check the record against the configured schema and retry.'')
        None),
      ([18015, 18052, 18356], curated ''Request exceeds the allowed size limit''
        (Some ''The total request payload is larger than Cloudsave permits.'')
        (Some ''Reduce the payload size and retry.'')
        None),
      ([18136, 18146], curated ''Record exceeds the allowed size limit''
        (Some ''The individual record payload is larger than Cloudsave permits.'')
        (Some ''Reduce the record size and retry.'')
        None),
      ([18126, 18129, 18169, 18175, 18351], curated ''Record key list exceeds the size limit''
        (Some ''The list of keys in this bulk request is too long.'')
        (Some ''Split the keys across multiple requests.'')
        None),
      ([18354], curated ''Too many records in a single request''
        (Some ''The request exceeds the per-call record limit.'')
        (Some ''Reduce the number of records per request and retry.'')
        None),
      ([18056, 18066, 18103, 18180, 18183], curated ''Cloudsave record changed since you fetched it''
        (Some ''The record was modified concurrently by another caller.'')
        (Some ''Fetch the latest version and retry your update.'')
        None),
      ([18023, 18035, 18063, 18072], curated ''Cannot access another user's record''
        (Some ''This action is not permitted on records belonging to other users.'')
        (Some ''Use a record key that belongs to the requesting user, or use the admin endpoint.'')
        None),
      ([18309, 18330], curated ''Cloudsave key already exists''
        (Some ''A record with this key already exists in this namespace.'')
        (Some ''Use a different key, or update the existing record instead.'')
        None),
      ([18001, 18020, 18080, 18084, 18124, 18130, 18139, 18151, 18170, 18176, 18185, 18301, 18312, 18323, 18339, 18343, 18349], curated ''Cloudsave was unable to read the record''
        (Some ''The server failed to retrieve the requested record.'')
        (Some ''Retry the command.'')
        (Some ''If this persists, contact AccelByte support.'')),
      ([18013, 18033, 18091, 18307, 18328], curated ''Cloudsave was unable to save the record''
        (Some ''The server failed to persist the record.'')
        (Some ''Retry the command.'')
        (Some ''If this persists, contact AccelByte support.'')),
      ([18053, 18061, 18065, 18101, 18147, 18182, 18318, 18334, 18362], curated ''Cloudsave was unable to update the record''
        (Some ''The server failed to apply the update.'')
        (Some ''Retry the command.'')
        (Some ''If this persists, contact AccelByte support.'')),
      ([18040, 18070, 18120, 18142, 18154, 18320, 18336], curated ''Cloudsave was unable to delete the record''
        (Some ''The server failed to delete the record.'')
        (Some ''Retry the command.'')
        (Some ''If this persists, contact AccelByte support.'')),
      ([18012, 18051, 18135, 18145, 18355], curated ''Cloudsave was unable to encode the record''
        (Some ''The server could not serialise the record payload.'')
        (Some ''Check that the record contents are valid JSON and retry.'')
        None),
      ([18005, 18006, 18131, 18138, 18157, 18162, 18163, 18164, 18165, 18172, 18178, 18187], curated ''Cloudsave was unable to decode the record''
        (Some ''The stored record could not be parsed.'')
        (Some (''The record may be corrupt '' @ [CHR 0xE2, CHR 0x80, CHR 0x94] @ '' inspect or re-create it.''))
        (Some ''If this persists, contact AccelByte support.'')),
      ([18004, 18114, 18160, 18345], curated ''Cloudsave was unable to list records''
        (Some ''The server failed to retrieve the record list.'')
        (Some ''Retry the command.'')
        (Some ''If this persists, contact AccelByte support.'')),
      ([18310, 18314, 18331], curated ''Cloudsave was unable to issue a presigned URL''
        (Some ''The server failed to generate a presigned upload/download URL.'')
        (Some ''Retry the command.'')
        (Some ''If this persists, contact AccelByte support.''))]"

definition cloudsave_codes_2 :: code_table where
  "cloudsave_codes_2 =
     [([18401], curated ''Plugin configuration is invalid''
        (Some ''The supplied plugin configuration did not pass validation.'')
        (Some ''Check the plugin payload and retry.'')
        None),
      ([18402], curated ''Plugin already configured''
        (Some ''A plugin configuration already exists for this namespace.'')
        (Some ''Update the existing configuration instead of creating a new one.'')
        None),
      ([18404, 18406, 18409], curated ''Cloudsave plugin configuration not found''
        (Some ''No plugin configuration exists for this namespace.'')
        (Some ''Configure the plugin first, then retry.'')
        None),
      ([18502], curated ''Cloudsave was unable to list tags''
        (Some ''The server failed to retrieve the tag list.'')
        (Some ''Retry the command.'')
        (Some ''If this persists, contact AccelByte support.'')),
      ([18503], curated ''Tag list request is invalid''
        (Some ''The tag listing parameters did not pass validation.'')
        (Some ''Check the request parameters and retry.'')
        None),
      ([18505], curated ''Tag request is invalid''
        (Some ''The supplied tag did not pass validation.'')
        (Some ''Check the tag value and retry.'')
        None),
      ([18506], curated ''Tag already exists''
        (Some ''A tag with this name is already configured.'')
        (Some ''Use a different tag name.'')
        None),
      ([18507], curated ''Cloudsave was unable to create the tag''
        (Some ''The server failed to persist the tag.'')
        (Some ''Retry the command.'')
        (Some ''If this persists, contact AccelByte support.'')),
      ([18509], curated ''Cloudsave was unable to delete the tag''
        (Some ''The server failed to delete the tag.'')
        (Some ''Retry the command.'')
        (Some ''If this persists, contact AccelByte support.'')),
      ([18510], curated ''Tag not found''
        (Some ''No tag exists with the supplied name.'')
        (Some ''Run 'ags cloudsave tags list' to see configured tags.'')
        None),
      ([18201], curated ''Invalid record operator''
        (Some ''The supplied record operator is not recognised.'')
        (Some ''Use a supported operator (e.g., $set, $inc).'')
        None)]"

definition cloudsave_codes :: code_table where
  "cloudsave_codes = cloudsave_codes_1 @ cloudsave_codes_2"

definition group_codes :: code_table where
  "group_codes =
     [([73034], curated ''User does not belong to any group''
        (Some ''The user is not a member of any group in this namespace.'')
        (Some ''Have the user join a group first.'')
        None),
      ([73036], curated ''Insufficient member role permission''
        (Some ''The user's group role does not permit this operation.'')
        (Some ''Have a group admin or higher-privileged role perform this action.'')
        None),
      ([73130], curated ''Global group configuration already exists''
        (Some ''A global configuration is already set for this namespace.'')
        (Some ''Update the existing configuration instead of creating a new one.'')
        None),
      ([73131], curated ''Global group configuration not found''
        (Some ''No global configuration is set for this namespace.'')
        (Some ''Initialise the global configuration first.'')
        None),
      ([73232], curated ''Group member role not found''
        (Some ''The specified member role does not exist.'')
        (Some ''Run 'ags group member-roles list' to see available roles.'')
        None),
      ([73333], curated ''Group not found''
        (Some ''The specified group does not exist in this namespace.'')
        (Some ''Run 'ags group groups list' to see available groups.'')
        None),
      ([73342], curated ''User has already joined this group''
        (Some ''The user is already a member of the group.'')
        None
        (Some ''No further action needed.'')),
      ([73433], curated ''Group member not found''
        (Some ''The user is not a member of the requested group.'')
        (Some ''Verify the user ID and group, then retry.'')
        None),
      ([73437], curated ''User has already been invited''
        (Some ''An invitation for this user is already pending.'')
        None
        (Some ''Wait for the user to accept or decline the existing invitation.'')),
      ([73438], curated ''User has already requested to join''
        (Some ''A join request from this user is already pending.'')
        None
        (Some ''Approve or decline the existing request.'')),
      ([73440], curated ''Group admin cannot leave the group''
        (Some ''Admins must transfer ownership or disband before leaving.'')
        (Some ''Promote another member to admin first, or delete the group.'')
        None),
      ([73442], curated ''User is already a member of another group''
        (Some ''The user can only belong to one group at a time.'')
        (Some ''Have the user leave their current group before joining a new one.'')
        None),
      ([73443], curated ''Group join request not found''
        (Some ''No pending join request matches this user and group.'')
        (Some ''Verify the user ID and group, then retry.'')
        None),
      ([73444], curated ''Group member must have a role''
        (Some ''Members cannot exist without an assigned role.'')
        (Some ''Assign a role when adding the member.'')
        None)]"

definition iam_codes_1 :: code_table where
  "iam_codes_1 =
     [([10130], curated ''User is under the minimum age''
        (Some ''The user does not meet the age requirement for this namespace.'')
        (Some ''Check the namespace age restriction settings.'')
        None),
      ([10131], curated ''Invalid date of birth''
        (Some ''The date of birth format or value is invalid.'')
        (Some ''Provide a valid date of birth.'')
        None),
      ([10132], curated ''Invalid email address''
        (Some ''The email address format is not valid.'')
        (Some ''Provide a valid email address.'')
        None),
      ([10133], curated ''Email address already in use''
        (Some ''Another account is already registered with this email.'')
        (Some ''Use a different email address or recover the existing account.'')
        None),
      ([10136], curated ''Verification code already used or invalid''
        (Some ''The code has been consumed or was never valid.'')
        (Some ''Request a new verification code and retry.'')
        None),
      ([10137], curated ''Verification code expired''
        (Some ''The code is no longer valid.'')
        (Some ''Request a new verification code and retry.'')
        None),
      ([10138], curated ''Verification code does not match''
        (Some ''The provided code does not match the expected value.'')
        (Some ''Check the code and retry, or request a new one.'')
        None),
      ([10139], curated ''Platform account not found''
        (Some ''The specified platform account does not exist for this user.'')
        (Some ''Run 'ags iam users get-platform-accounts --userId <id>' to see linked platforms.'')
        None),
      ([10140], curated ''User is already verified''
        (Some ''The user account has already been verified.'')
        None
        (Some ''No further action needed.'')),
      ([10141], curated ''Email is already verified''
        (Some ''The email address has already been verified.'')
        None
        (Some ''No further action needed.'')),
      ([10142], curated ''New password cannot be the same as the current password''
        (Some ''The new password must differ from the existing one.'')
        (Some ''Choose a different password.'')
        None),
      ([10143], curated ''Password does not match''
        (Some ''The provided password is incorrect.'')
        (Some ''Check the password and retry.'')
        None),
      ([10144], curated ''User has no bans''
        (Some ''No ban records exist for this user.'')
        None
        None),
      ([10145], curated ''Cannot ban a publisher user from game access''
        (Some ''Publisher users cannot be banned at the game namespace level.'')
        (Some ''Manage publisher user bans in the publisher namespace.'')
        None),
      ([10146], curated ''User ID does not match''
        (Some ''The user ID in the request does not match the authenticated user.'')
        (Some ''Verify the user ID and retry.'')
        None),
      ([10148], curated ''Verification code context does not match''
        (Some ''The verification code was issued for a different context.'')
        (Some ''Request a new code for this specific operation.'')
        None),
      ([10149], curated ''Verification contact type does not match''
        (Some ''The code was sent to a different contact type than expected.'')
        (Some ''Request a new code using the correct contact method.'')
        None),
      ([10152], curated ''Verification code not found''
        (Some ''No verification code exists for this request.'')
        (Some ''Request a new verification code.'')
        None),
      ([10153], curated ''User already exists''
        (Some ''An account with these details already exists.'')
        (Some ''Use a different identifier or recover the existing account.'')
        None),
      ([10154], curated ''Country not found''
        (Some ''The specified country code is not recognized.'')
        (Some ''Check the country code and retry.'')
        (Some ''Use standard ISO 3166-1 alpha-2 country codes.'')),
      ([10155], curated ''Country is not defined''
        (Some ''The country is not configured for this namespace.'')
        (Some ''Check the namespace configuration.'')
        None),
      ([10156], curated ''Role not found''
        (Some ''The specified role does not exist.'')
        (Some ''Run 'ags iam roles list' to see available roles.'')
        None),
      ([10157], curated ''Not an admin role''
        (Some ''The specified role is not an admin role.'')
        (Some ''Use an admin role for this operation.'')
        None)]"

definition iam_codes_2 :: code_table where
  "iam_codes_2 =
     [([10158], curated ''Ban not found''
        (Some ''The specified ban does not exist.'')
        None
        None),
      ([10159], curated ''Not a role manager''
        (Some ''Your account is not a manager of this role.'')
        (Some ''Contact a role manager to perform this operation.'')
        None),
      ([10160], curated ''User already has this role''
        (Some ''The role is already assigned to this user.'')
        None
        (Some ''No further action needed.'')),
      ([10161], curated ''User is already a role member''
        (Some ''The user is already a member of this role.'')
        None
        (Some ''No further action needed.'')),
      ([10162], curated ''Invalid verification''
        (Some ''The verification attempt is invalid.'')
        (Some ''Request a new verification code and retry.'')
        None),
      ([10163], curated ''Platform already linked to this account''
        (Some ''This platform is already associated with the user account.'')
        None
        (Some ''No further action needed.'')),
      ([10169], curated ''Age restriction not found''
        (Some ''No age restriction is configured for this namespace or country.'')
        None
        None),
      ([10170], curated ''Account is already a full account''
        (Some ''This account has already been upgraded from headless.'')
        None
        (Some ''No further action needed.'')),
      ([10171], curated ''Email address not found''
        (Some ''No account is associated with this email address.'')
        (Some ''Check the email address and retry.'')
        None),
      ([10172], curated ''Platform user already linked to this account''
        (Some ''This platform identity is already linked to the account.'')
        None
        (Some ''No further action needed.'')),
      ([10173], curated ''Platform already linked to another account''
        (Some ''This platform identity is linked to a different account.'')
        (Some ''Unlink the platform from the other account first, or use a different platform identity.'')
        None),
      ([10174], curated ''Platform client not found''
        (Some ''The platform client configuration does not exist.'')
        (Some ''Check the platform ID and namespace.'')
        None),
      ([10175], curated ''Third-party credential not found''
        (Some ''The third-party platform credential does not exist.'')
        (Some ''Check the platform ID and configuration.'')
        None),
      ([10177], curated ''Username already in use''
        (Some ''Another account is already using this username.'')
        (Some ''Choose a different username.'')
        None),
      ([10180], curated ''Admin invitation not found or expired''
        (Some ''The invitation does not exist or has expired.'')
        (Some ''Request a new admin invitation.'')
        None),
      ([10182], curated ''Namespace cannot be assigned to this role''
        (Some ''The specified namespace is not allowed for this role.'')
        (Some ''Check the role's allowed namespaces.'')
        None),
      ([10183], curated ''Unprocessable entity''
        (Some ''The request could not be processed.'')
        (Some ''Check the request fields and retry.'')
        None),
      ([10185], curated ''Publisher namespace not allowed''
        (Some ''This operation cannot be performed in a publisher namespace.'')
        (Some ''Use a game namespace instead.'')
        None),
      ([10188], curated ''Input validation field not found''
        (Some ''The validation rule for the specified field does not exist.'')
        (Some ''Check the field name and retry.'')
        None),
      ([10189], curated ''Invalid MFA factor''
        (Some ''The specified MFA factor is not valid.'')
        (Some ''Use a supported factor (e.g., email, authenticator).'')
        None),
      ([10190], curated ''Auth secret key expired''
        (Some ''The authenticator secret key has expired.'')
        (Some ''Generate a new secret key.'')
        None),
      ([10191], curated ''Email address not verified''
        (Some ''This operation requires a verified email address.'')
        (Some ''Verify the email address first, then retry.'')
        (Some ''MFA operations require email verification.'')),
      ([10192], curated ''MFA factor not enabled''
        (Some ''The specified MFA factor is not enabled for this account.'')
        (Some ''Enable the factor first, then retry.'')
        None)]"

definition iam_codes_3 :: code_table where
  "iam_codes_3 =
     [([10193], curated ''MFA not enabled''
        (Some ''Multi-factor authentication is not enabled for this account.'')
        (Some ''Enable MFA first.'')
        None),
      ([10194], curated ''MFA factor already enabled''
        (Some ''The specified MFA factor is already active.'')
        None
        (Some ''No further action needed.'')),
      ([10195], curated ''No valid backup codes found''
        (Some ''All backup codes have been used or none were generated.'')
        (Some ''Generate new backup codes.'')
        None),
      ([10200], curated ''Cannot link to a different platform account''
        (Some ''Changing the linked platform account is not allowed.'')
        None
        (Some ''The previously linked platform account is returned in the response.'')),
      ([10202], curated ''Device ban configuration already exists''
        (Some ''An active device ban config already exists for this combination.'')
        None
        None),
      ([10204], curated ''Device cannot be banned''
        (Some ''This device is not eligible for banning.'')
        None
        None),
      ([10207], curated ''User namespace is not available''
        (Some ''The namespace for this user is not available.'')
        None
        None),
      ([10208], curated ''Platform token expired''
        (Some ''The platform authentication token has expired.'')
        (Some ''Re-authenticate with the platform and retry.'')
        None),
      ([10213], curated ''Country is blocked''
        (Some ''Access from this country is restricted.'')
        None
        None),
      ([10215], curated ''Simultaneous ticket is required''
        (Some ''A simultaneous platform ticket must be provided.'')
        (Some ''Provide both native and simultaneous platform tickets.'')
        None),
      ([10216], curated ''Native ticket is required''
        (Some ''A native platform ticket must be provided.'')
        (Some ''Provide both native and simultaneous platform tickets.'')
        None),
      ([10221], curated ''Platform account linking conflict''
        (Some ''The platform accounts have conflicting linking histories.'')
        (Some ''Check existing platform links before retrying.'')
        None),
      ([10222], curated ''Display name already in use''
        (Some ''Another account is using this unique display name.'')
        (Some ''Choose a different display name.'')
        None),
      ([10226], curated ''Third-party platform not supported''
        (Some ''The specified platform is not supported.'')
        (Some ''Check the list of supported platforms.'')
        None),
      ([10228], curated ''Invalid MFA token''
        (Some ''The MFA token is invalid or expired.'')
        (Some ''Request a new MFA token and retry.'')
        None),
      ([10229], curated ''Request body exceeds size limit''
        (Some ''The request payload is too large.'')
        (Some ''Reduce the request body size and retry.'')
        None),
      ([10235], curated ''Date of birth cannot be updated''
        (Some ''Updating the date of birth is not allowed.'')
        None
        None),
      ([10236], curated ''Username cannot be updated''
        (Some ''Updating the username is not allowed.'')
        None
        None),
      ([10237], curated ''Display name cannot be updated''
        (Some ''Updating the display name is not allowed.'')
        None
        None),
      ([10238], curated ''Country cannot be updated''
        (Some ''Updating the country is not allowed.'')
        None
        None),
      ([10240], curated ''Not a game namespace''
        (Some ''This operation requires a game namespace.'')
        (Some ''Use a game namespace, not a publisher namespace.'')
        None),
      ([10364], curated ''Client already exists''
        (Some ''A client with this ID already exists.'')
        (Some ''Use a different client ID.'')
        None)]"

definition iam_codes_4 :: code_table where
  "iam_codes_4 =
     [([10365], curated ''Client not found''
        (Some ''The specified client does not exist.'')
        (Some ''Check the client ID and retry.'')
        None),
      ([10456], curated ''Role not found''
        (Some ''The specified role does not exist.'')
        (Some ''Run 'ags iam roles list' to see available roles.'')
        None),
      ([10457], curated ''Not an admin role''
        (Some ''The specified role is not an admin role.'')
        (Some ''Use an admin role for this operation.'')
        None),
      ([10459], curated ''Not a role manager''
        (Some ''Your account is not a manager of this role.'')
        (Some ''Contact a role manager to perform this operation.'')
        None),
      ([10466], curated ''Invalid role members''
        (Some ''The role member list is invalid.'')
        (Some ''Check the member list and retry.'')
        None),
      ([10467], curated ''Role has no manager''
        (Some ''The role does not have an assigned manager.'')
        (Some ''Assign a manager to the role first.'')
        None),
      ([10468], curated ''Role manager already exists''
        (Some ''This user is already a manager of the role.'')
        None
        (Some ''No further action needed.'')),
      ([10469], curated ''Role member already exists''
        (Some ''This user is already a member of the role.'')
        None
        (Some ''No further action needed.'')),
      ([10470], curated ''Role is empty''
        (Some ''The role has no members or permissions configured.'')
        (Some ''Add members or permissions to the role.'')
        None),
      ([1014001], curated ''Unable to parse request body''
        (Some ''The request body format is invalid.'')
        (Some ''Check the JSON body and retry.'')
        None),
      ([1014002], curated ''User already exists''
        (Some ''An account with these details already exists.'')
        (Some ''Use a different identifier or recover the existing account.'')
        None),
      ([1014016], curated ''Unable to parse request body''
        (Some ''The request body format is invalid.'')
        (Some ''Check the JSON body and retry.'')
        None),
      ([1014017], curated ''User not found''
        (Some ''The user does not exist or is not accessible in this context.'')
        (Some ''Run 'ags iam users search' to see available users.'')
        None),
      ([1014018], curated ''Verification code not found''
        (Some ''No verification code exists for this request.'')
        (Some ''Request a new verification code.'')
        None),
      ([1014019], curated ''Verification code already used''
        (Some ''The code has already been consumed.'')
        (Some ''Request a new verification code and retry.'')
        None),
      ([1014020], curated ''Verification code invalid''
        (Some ''The provided code is not valid.'')
        (Some ''Check the code and retry, or request a new one.'')
        None),
      ([1014021], curated ''Verification code expired''
        (Some ''The code is no longer valid.'')
        (Some ''Request a new verification code and retry.'')
        None),
      ([1015073], curated ''New password cannot be the same as the old password''
        (Some ''The new password must differ from the existing one.'')
        (Some ''Choose a different password.'')
        None),
      ([1094028], curated ''Invalid user mapping request''
        (Some ''The target namespace is invalid or the user has no mapping.'')
        (Some ''Check that the target namespace exists and the user has a mapping to it.'')
        None)]"

definition iam_codes :: code_table where
  "iam_codes = iam_codes_1 @ iam_codes_2 @ iam_codes_3 @ iam_codes_4"

definition leaderboard_codes :: code_table where
  "leaderboard_codes =
     [([71130], curated ''Leaderboard configuration not found''
        (Some ''No leaderboard configuration matches the request.'')
        (Some ''Run 'ags leaderboard configurations list' to see configured leaderboards.'')
        None),
      ([71132], curated ''Leaderboard configuration already exists''
        (Some ''A leaderboard with this code is already configured.'')
        (Some ''Use a different leaderboard code, or update the existing configuration.'')
        None),
      ([71133], curated ''Leaderboard configuration has been deleted''
        (Some ''The configuration is in a deleted state and cannot be used.'')
        (Some ''Restore the configuration or create a new one.'')
        None),
      ([71230], curated ''Leaderboard configuration not found''
        (Some ''The requested leaderboard configuration does not exist.'')
        (Some ''Run 'ags leaderboard configurations list' to see configured leaderboards.'')
        None),
      ([71233], curated ''User ranking data not found''
        (Some ''No ranking entry exists for this user on the requested leaderboard.'')
        (Some ''Confirm the user has submitted a score for this leaderboard.'')
        None),
      ([71235], curated ''Leaderboard ranking not found''
        (Some ''No ranking data exists for this leaderboard.'')
        (Some ''Verify the leaderboard code and that scores have been submitted.'')
        None),
      ([71236], curated ''Leaderboard ranking count failed''
        (Some ''The server failed to compute the ranking count.'')
        (Some ''Retry the command.'')
        (Some ''If this persists, contact AccelByte support.'')),
      ([71237], curated (''Leaderboard is inactive '' @ [CHR 0xE2, CHR 0x80, CHR 0x94] @ '' no ranking is generated'')
        (Some ''Rankings are not produced for inactive leaderboards.'')
        (Some ''Activate the leaderboard before requesting rankings.'')
        None),
      ([71239], curated ''Leaderboard is not archived''
        (Some ''The operation requires the leaderboard to be in an archived state.'')
        (Some ''Archive the leaderboard first.'')
        None),
      ([71241], curated ''Operation forbidden in this environment''
        (Some ''This action is not allowed for the current environment.'')
        (Some ''Run the command in the correct environment (e.g., dev/staging/live).'')
        None),
      ([71242], curated ''Stat code not found in this namespace''
        (Some ''The leaderboard references a stat code that does not exist.'')
        (Some ''Run 'ags social stat-definitions list' to see configured stats.'')
        None),
      ([71243], curated ''Cycle does not belong to this stat code''
        (Some ''The supplied stat cycle is not associated with the leaderboard's stat code.'')
        (Some ''Use a cycle that matches the leaderboard's stat code.'')
        None),
      ([71244], curated ''Stat cycle is already stopped''
        (Some ''This cycle has already been stopped and cannot be stopped again.'')
        None
        (Some ''No further action needed.''))]"

definition legal_codes :: code_table where
  "legal_codes =
     [([40035], curated ''Legal policy version not found''
        (Some ''The requested policy version does not exist.'')
        (Some ''Run 'ags legal policies list' to see available policies.'')
        None)]"

definition platform_codes_1 :: code_table where
  "platform_codes_1 =
     [([20016], curated ''Action is banned for this user''
        (Some ''This user is banned from performing the action.'')
        (Some ''Check the user's ban status before retrying.'')
        None),
      ([20024], curated ''Insufficient inventory capacity''
        (Some ''The user has reached the maximum number of inventory slots.'')
        (Some ''Free up inventory slots, or raise the per-user slot cap in the namespace config.'')
        None),
      ([20027], curated ''Invalid time range''
        (Some ''The supplied start/end time range is not valid.'')
        (Some ''Ensure the start time precedes the end time and both are in ISO-8601 format.'')
        None),
      ([30021], curated ''Default language is required''
        (Some ''The default language is missing from the catalog configuration.'')
        (Some ''Set a default language and retry.'')
        None),
      ([30022], curated ''Default region is required''
        (Some ''The default region is missing from the catalog configuration.'')
        (Some ''Set a default region and retry.'')
        None),
      ([30023], curated ''Catalog plugin gRPC server address is required''
        (Some ''The plugin endpoint is not configured.'')
        (Some ''Provide a gRPC server address for the catalog plugin.'')
        None),
      ([30024], curated ''Unable to parse CSV cell''
        (Some ''A cell in the imported CSV could not be parsed.'')
        (Some ''Check the offending cell and retry the import.'')
        None),
      ([30025], curated ''Required CSV header is missing''
        (Some ''The CSV import is missing a header required for this catalog type.'')
        (Some ''Add the required header column and retry the import.'')
        None),
      ([30041], curated ''Changelog not found''
        (Some ''The specified changelog does not exist in this namespace.'')
        (Some ''Verify the changelog ID and retry.'')
        None),
      ([30071], curated (''Cannot unselect item '' @ [CHR 0xE2, CHR 0x80, CHR 0x94] @ '' bound item is selected'')
        (Some ''Another item bound to this one is currently selected in the catalog.'')
        (Some ''Unselect the bound item first.'')
        None),
      ([30072], curated (''Cannot unselect category '' @ [CHR 0xE2, CHR 0x80, CHR 0x94] @ '' items in it are selected'')
        (Some ''The category contains selected items.'')
        (Some ''Unselect items in this category before unselecting the category.'')
        None),
      ([30073], curated ''Cannot unselect store change''
        (Some ''This store change is required by other selected changes.'')
        (Some ''Unselect the dependent changes first.'')
        None),
      ([30074], curated ''Cannot unselect subscription content while the subscription is selected''
        (Some ''Subscription content is bound to a selected subscription.'')
        (Some ''Unselect the parent subscription first.'')
        None),
      ([30076], curated ''CSV header is not supported for this catalog type''
        (Some ''The header is not valid for the supplied catalog type.'')
        (Some ''Remove the unsupported header and retry the import.'')
        None),
      ([30121], curated ''Store data is invalid''
        (Some ''The supplied store payload did not pass validation.'')
        (Some ''Check the store payload and retry.'')
        None),
      ([30122], curated ''Item not found''
        (Some ''The specified item does not exist in this namespace.'')
        (Some ''Verify the item ID and retry.'')
        None),
      ([30143], curated ''Published store backup not found''
        (Some ''No backup exists for the requested published store.'')
        (Some ''Verify the store ID and retry.'')
        None),
      ([30171], curated ''Store default language cannot be changed''
        (Some ''Changing the default language is not allowed for this store.'')
        (Some ''Create a new store with the desired default language.'')
        None),
      ([30172], curated ''Store default region cannot be changed''
        (Some ''Changing the default region is not allowed for this store.'')
        (Some ''Create a new store with the desired default region.'')
        None),
      ([30173], curated ''Published store cannot be modified''
        (Some ''The store is in a published state and is immutable.'')
        (Some ''Make changes to the draft store and republish.'')
        None),
      ([30174], curated ''Draft store already exists''
        (Some ''A draft store already exists in this namespace.'')
        (Some ''Edit the existing draft, or publish it before creating a new draft.'')
        None),
      ([30175], curated ''Duplicate currency code in this region''
        (Some ''Two prices use the same currency code for the same region.'')
        (Some ''Remove the duplicate currency entry.'')
        None)]"

definition platform_codes_2 :: code_table where
  "platform_codes_2 =
     [([30241], curated ''Category not found''
        (Some ''The specified category does not exist in this namespace.'')
        (Some ''Run 'ags platform categories list' to see configured categories.'')
        None),
      ([30271], curated ''Category already exists''
        (Some ''A category with this path is already configured.'')
        (Some ''Use a different path, or update the existing category.'')
        None),
      ([30272], curated ''Category is not empty''
        (Some ''The category still contains items.'')
        (Some ''Remove or move all items in the category before deleting it.'')
        None),
      ([30301], curated ''Unsupported item type for box item with expiration''
        (Some ''The contained item type cannot be used inside an expiring box.'')
        (Some ''Remove the unsupported item from the box, or remove the expiration.'')
        None),
      ([30321], curated ''Invalid item discount amount''
        (Some ''The discount value is out of range.'')
        (Some ''Use a non-negative discount that does not exceed the item price.'')
        None),
      ([30322, 30325, 30326, 30334, 30339], curated ''Item cannot be bundled''
        (Some ''This item type is not allowed inside a bundle.'')
        (Some ''Remove the item from the bundle.'')
        None),
      ([30323], curated ''Target namespace is required''
        (Some ''The operation requires a target namespace.'')
        (Some ''Provide a target namespace and retry.'')
        None),
      ([30324], curated ''Invalid namespace''
        (Some ''The supplied namespace is not valid.'')
        (Some ''Use a configured namespace.'')
        None),
      ([30327], curated ''Invalid item trial price''
        (Some ''The trial price configuration is invalid.'')
        (Some ''Check the trial price values and retry.'')
        None),
      ([30329], curated ''Invalid bundled item quantity''
        (Some ''The quantity for a bundled item is not valid.'')
        (Some ''Use a positive integer quantity.'')
        None),
      ([30330], curated ''Invalid currency for region price''
        (Some ''The currency is not allowed for this region price.'')
        (Some ''Use a currency that is configured for the namespace and region.'')
        None),
      ([30331], curated ''Invalid purchase condition''
        (Some ''The purchase condition is not valid.'')
        (Some ''Check the purchase condition fields and retry.'')
        None),
      ([30332], curated ''Invalid option box item quantity''
        (Some ''The option box item quantity is not valid.'')
        (Some ''Use a positive integer quantity.'')
        None),
      ([30333, 30338], curated ''Item cannot be added to this container type''
        (Some ''The item type is not permitted inside this option box or loot box.'')
        (Some ''Remove the unsupported item from the container.'')
        None),
      ([30335], curated ''Published item cannot be deleted in non-forced mode''
        (Some ''Deleting a published item requires the force flag.'')
        (Some ''Use --force to delete a published item, or unpublish it first.'')
        None),
      ([30336], curated ''Item type does not support this operation''
        (Some ''The requested operation is not valid for this item type.'')
        (Some ''Use a supported item type, or perform a different operation.'')
        None),
      ([30337], curated ''Invalid loot box item quantity''
        (Some ''The loot box item quantity is not valid.'')
        (Some ''Use a positive integer quantity.'')
        None),
      ([30342], curated ''Item with this app ID does not exist''
        (Some ''No item maps to the supplied appId.'')
        (Some ''Verify the app ID and retry.'')
        None),
      ([30343], curated ''Item with this SKU does not exist''
        (Some ''No item maps to the supplied SKU.'')
        (Some ''Verify the SKU and retry.'')
        None),
      ([30371], curated ''Item type config already exists''
        (Some ''A config already exists for this item type and class.'')
        (Some ''Update the existing config instead of creating a new one.'')
        None),
      ([30372], curated ''Item type is not updatable''
        (Some ''The item type cannot be modified once created.'')
        None
        None),
      ([30373], curated ''Item type is not allowed in this namespace''
        (Some ''The item type is not enabled for the requested namespace.'')
        (Some ''Enable the item type in the namespace configuration first.'')
        None),
      ([30374], curated ''Item SKU already exists''
        (Some ''Another item already uses this SKU.'')
        (Some ''Choose a unique SKU.'')
        None)]"

definition platform_codes_3 :: code_table where
  "platform_codes_3 =
     [([30375], curated ''Item SKU conflicts with an unpublished deleted item''
        (Some ''A deleted draft item still owns this SKU until the change is published.'')
        (Some ''Publish the deletion before reusing the SKU.'')
        None),
      ([30376], curated ''Sellback is not allowed in publisher namespaces''
        (Some ''Items in a publisher namespace cannot be sold back.'')
        (Some ''Configure sellback in a game namespace.'')
        None),
      ([30377], curated ''Sellback is not allowed for this item type''
        (Some ''This item type does not permit sellback.'')
        None
        None),
      ([30378], curated ''Sale price cannot use real currency''
        (Some ''Sale prices must use virtual currency for this item.'')
        (Some ''Use a virtual currency for the sale price.'')
        None),
      ([30379], curated ''Item SKU is not updatable''
        (Some ''Changing an item's SKU is not allowed.'')
        None
        None),
      ([30380], curated ''Box item cannot have both duration and end date''
        (Some ''Set either a duration or an explicit end date, not both.'')
        (Some ''Use one of duration or endDate.'')
        None),
      ([30381], curated ''Currency is not configured for this region''
        (Some ''The bundle item is missing a price for this currency/region pair.'')
        (Some ''Add the missing region price to the bundle item.'')
        None),
      ([30382], curated ''Duplicate item SKU''
        (Some ''The same SKU is used by more than one item in the request.'')
        (Some ''Ensure SKUs are unique within the payload.'')
        None),
      ([30383], curated ''Item app ID already exists''
        (Some ''Another item already uses this app ID in the namespace.'')
        (Some ''Choose a unique app ID.'')
        None),
      ([30386, 30387], curated ''Item is referenced by other resources''
        (Some ''The item is in use by bundles, rewards, or other items.'')
        (Some ''Remove the references before deleting or disabling the item.'')
        None),
      ([30541], curated ''Item type config not found''
        (Some ''The specified item type config does not exist.'')
        (Some ''Verify the config ID and retry.'')
        None),
      ([30641], curated ''View not found''
        (Some ''The specified view does not exist in this namespace.'')
        (Some ''Run 'ags platform views list' to see configured views.'')
        None),
      ([30741], curated ''Section not found''
        (Some ''The specified section does not exist in this namespace.'')
        (Some ''Run 'ags platform sections list' to see configured sections.'')
        None),
      ([30771], curated ''Item not found in user section''
        (Some ''The item is not part of the user's section.'')
        (Some ''Verify the item, section, and user.'')
        None),
      ([30772], curated ''Section is not available or has expired''
        (Some ''The section is outside its active time window.'')
        (Some ''Use a section that is currently active.'')
        None),
      ([31121], curated ''OptionBox entitlement use count must be 1''
        (Some ''OptionBox entitlements support only a single use.'')
        (Some ''Use a use count of 1 for this entitlement.'')
        None),
      ([31122], curated ''OptionBox entitlement options size must be 1''
        (Some ''OptionBox entitlements support only a single option.'')
        (Some ''Provide exactly one option.'')
        None),
      ([31123], curated ''Box item has expired''
        (Some ''The box item is past its end date and cannot be opened.'')
        None
        None),
      ([31141], curated ''Entitlement not found''
        (Some ''The specified entitlement does not exist.'')
        (Some ''Verify the entitlement ID and retry.'')
        None),
      ([31144], curated ''Entitlement not found''
        (Some ''No entitlement matches the supplied lookup key.'')
        (Some ''Verify the appId, SKU, or itemId and retry.'')
        None),
      ([31145], curated ''Option does not exist in this OptionBox entitlement''
        (Some ''The supplied option is not configured for this entitlement.'')
        (Some ''Use one of the configured options.'')
        None),
      ([31147], curated ''Required platform origin is missing''
        (Some ''The allowed platform origins must include both Steam and System.'')
        (Some ''Update the allowed platform origins to include Steam and System.'')
        None)]"

definition platform_codes_4 :: code_table where
  "platform_codes_4 =
     [([31171], curated ''Entitlement is already revoked''
        (Some ''This entitlement has previously been revoked.'')
        None
        (Some ''No further action needed.'')),
      ([31172], curated ''Entitlement is not active''
        (Some ''The entitlement is in an inactive state.'')
        (Some ''Activate the entitlement before retrying.'')
        None),
      ([31173], curated ''Entitlement is not consumable''
        (Some ''This entitlement type cannot be consumed.'')
        None
        None),
      ([31174], curated ''Entitlement is already consumed''
        (Some ''This entitlement has previously been consumed.'')
        None
        None),
      ([31176], curated ''Entitlement use count is insufficient''
        (Some ''Not enough uses remain on this entitlement.'')
        (Some ''Use fewer units, or grant additional uses.'')
        None),
      ([31177], curated ''Permanent item is already owned''
        (Some ''The user already owns this permanent item.'')
        None
        (Some ''No further action needed.'')),
      ([31178], curated ''Entitlement is out of its valid time range''
        (Some ''The entitlement is outside its activation window.'')
        None
        None),
      ([31179], curated ''Duplicate entitlement''
        (Some ''An equivalent entitlement already exists for this user.'')
        None
        None),
      ([31180], curated ''Duplicate request ID''
        (Some ''A request with this ID has already been processed.'')
        (Some ''Use a fresh request ID for new operations.'')
        None),
      ([31181], curated ''Entitlement is not sellable''
        (Some ''This entitlement cannot be sold back.'')
        None
        None),
      ([31182], curated ''Entitlement is already sold''
        (Some ''The entitlement has previously been sold back.'')
        None
        None),
      ([31183], curated ''Entitlement origin operation not allowed on this platform''
        (Some ''The operation is not permitted for the entitlement's platform of origin.'')
        None
        None),
      ([31184], curated ''Source and target entitlements must match''
        (Some ''Source and target entitlements must share the same collectionId, time range, origin, and itemId.'')
        (Some ''Choose entitlements that share these attributes.'')
        None),
      ([31185], curated ''Source and target entitlements cannot be the same''
        (Some ''The source and target must be different entitlements.'')
        None
        None),
      ([32121], curated ''Order price mismatch''
        (Some ''The supplied price does not match the catalog price.'')
        (Some ''Refresh the catalog and retry with the current price.'')
        None),
      ([32122], curated ''Item type does not support this operation''
        (Some ''This order operation is not valid for the item type.'')
        None
        None),
      ([32123], curated ''Item is not purchasable''
        (Some ''The item is configured as non-purchasable.'')
        None
        None),
      ([32124], curated ''Invalid currency namespace''
        (Some ''The currency is not configured for this namespace.'')
        (Some ''Use a currency configured for the namespace.'')
        None),
      ([32125], curated ''User does not meet purchase conditions''
        (Some ''The user fails one or more configured purchase conditions.'')
        (Some ''Check the item's purchase conditions against the user's state.'')
        None),
      ([32126], curated ''Section ID is required''
        (Some ''Placing this order requires a section ID.'')
        (Some ''Include the section ID and retry.'')
        None),
      ([32127], curated ''Discount code cannot be used on this item''
        (Some ''This discount code is not applicable to the supplied item.'')
        (Some ''Check the code's eligibility rules, or use a different code.'')
        None),
      ([32128], curated ''Discount code cannot be combined''
        (Some ''This code is not stackable with other discount codes.'')
        (Some ''Use this code on its own, or use a different combinable code.'')
        None)]"

definition platform_codes_5 :: code_table where
  "platform_codes_5 =
     [([32129], curated ''Discount code cannot be applied to a free order''
        (Some ''Free orders are not eligible for discount codes.'')
        None
        None),
      ([32130], curated ''Total discount exceeds the order price''
        (Some ''The combined discounts would push the order below zero.'')
        (Some ''Reduce the discount amount or remove a discount.'')
        None),
      ([32141], curated ''Order not found''
        (Some ''The specified order does not exist.'')
        (Some ''Verify the order number and retry.'')
        None),
      ([32171], curated ''Order is not refundable''
        (Some ''The order is in a state that does not permit refund.'')
        None
        None),
      ([32172], curated ''Invalid order status for this operation''
        (Some ''The order's current status does not permit this action.'')
        (Some ''Check the order status before retrying.'')
        None),
      ([32173], curated ''Order receipt is not downloadable''
        (Some ''The receipt is not available for this order.'')
        None
        None),
      ([32175, 32176], curated ''Item purchase limit reached''
        (Some ''The maximum purchase count for this item has been reached.'')
        None
        None),
      ([32177], curated ''Order cannot be cancelled''
        (Some ''The order's current state does not permit cancellation.'')
        None
        None),
      ([32178], curated ''All durable items in this bundle are already owned''
        (Some ''The user already owns every durable item in this flexible bundle.'')
        None
        None),
      ([33045], curated ''Payment merchant config not found''
        (Some ''No merchant config is set for this namespace.'')
        (Some ''Configure the payment merchant first.'')
        None),
      ([33121], curated ''Recurring payment failed at the provider''
        (Some ''The payment provider returned an error during the recurring charge.'')
        (Some ''Check the provider's response and retry the payment.'')
        None),
      ([33122], curated ''Subscription mismatch when creating payment order''
        (Some ''The supplied subscription does not match the payment order.'')
        (Some ''Use the matching subscription ID.'')
        None),
      ([33123], curated ''Invalid zip code''
        (Some ''The supplied billing zip code is not valid.'')
        (Some ''Provide a valid zip/postal code and retry.'')
        None),
      ([33141], curated ''Payment order not found''
        (Some ''The specified payment order does not exist.'')
        (Some ''Verify the payment order number and retry.'')
        None),
      ([33145], curated ''Recurring token not found''
        (Some ''No recurring token exists for this subscription.'')
        (Some ''Configure a recurring token for the subscription.'')
        None),
      ([33171], curated ''Invalid payment order status for this operation''
        (Some ''The payment order's current status does not permit this action.'')
        None
        None),
      ([33172], curated ''Payment order is not refundable''
        (Some ''The payment order is in a state that does not permit refund.'')
        None
        None),
      ([33173], curated ''External order number already exists''
        (Some ''Another payment order already uses this extOrderNo in this namespace.'')
        (Some ''Use a unique external order number.'')
        None),
      ([33221], curated ''Failed to update payment provider config''
        (Some ''The provider rejected the updated configuration.'')
        (Some ''Inspect the error message and retry with corrected values.'')
        None),
      ([33241], curated ''Payment provider config not found''
        (Some ''No payment provider config exists with this ID.'')
        (Some ''Verify the provider config ID and retry.'')
        None),
      ([33242], curated ''Payment merchant config not found''
        (Some ''No merchant config exists with this ID.'')
        (Some ''Verify the merchant config ID and retry.'')
        None),
      ([33243], curated ''Payment callback config not found''
        (Some ''No callback config is set for this namespace.'')
        (Some ''Configure a payment callback for this namespace.'')
        None),
      ([33271], curated ''Payment provider config already exists''
        (Some ''A provider config already exists for this namespace and region.'')
        (Some ''Update the existing config or remove it before creating a new one.'')
        None)]"

definition platform_codes_6 :: code_table where
  "platform_codes_6 =
     [([33321], curated ''Payment provider does not support this currency''
        (Some ''The provider has no support for the requested currency.'')
        (Some ''Use a supported currency or a different provider.'')
        None),
      ([33322], curated ''Payment provider is not supported''
        (Some ''The supplied provider is not configured.'')
        (Some ''Use one of the configured payment providers.'')
        None),
      ([33332], curated ''Payment amount is too small''
        (Some ''The amount is below the provider's minimum.'')
        (Some ''Increase the amount, or contact the administrator to lower the minimum.'')
        None),
      ([33333], curated ''Neon Pay checkout failed''
        (Some ''The Neon Pay provider rejected the checkout.'')
        (Some ''Inspect the provider error message and retry.'')
        None),
      ([34021], curated ''Reward data is invalid''
        (Some ''The supplied reward payload did not pass validation.'')
        (Some ''Check the reward fields and retry.'')
        None),
      ([34023, 34027], curated ''Reward item type does not support duration or endDate''
        (Some ''This item type cannot be granted with a duration or end date.'')
        (Some ''Remove the duration/endDate, or use a supported item type.'')
        None),
      ([34041], curated ''Reward not found''
        (Some ''The specified reward does not exist in this namespace.'')
        (Some ''Run 'ags platform rewards list' to see configured rewards.'')
        None),
      ([34042, 34044], curated ''Reward item not found''
        (Some ''The reward references an item that does not exist.'')
        (Some ''Verify the item ID/SKU and retry.'')
        None),
      ([34043], curated ''Reward not found by code''
        (Some ''No reward exists with the supplied code.'')
        (Some ''Verify the reward code and retry.'')
        None),
      ([34071], curated ''Reward code already exists''
        (Some ''Another reward already uses this code.'')
        (Some ''Choose a unique reward code.'')
        None),
      ([34072], curated ''Duplicate reward condition''
        (Some ''The reward already has a condition with this name.'')
        (Some ''Use a unique condition name.'')
        None),
      ([34074, 34076], curated ''Reward item cannot have both duration and end date''
        (Some ''Set either a duration or an explicit end date, not both.'')
        (Some ''Use one of duration or endDate.'')
        None),
      ([35123], curated ''Wallet is inactive''
        (Some ''The wallet is currently disabled.'')
        (Some ''Activate the wallet before performing this operation.'')
        None),
      ([35124], curated ''Wallet has insufficient balance''
        (Some ''The wallet does not have enough balance for this operation.'')
        (Some ''Top up the wallet or reduce the requested amount.'')
        None),
      ([35141], curated ''Wallet not found''
        (Some ''The specified wallet does not exist.'')
        (Some ''Verify the wallet ID and retry.'')
        None),
      ([36171], curated ''Currency already exists''
        (Some ''A currency with this code is already configured for this namespace.'')
        (Some ''Use a different code, or update the existing currency.'')
        None),
      ([36172], curated ''Real currency is not allowed in this game namespace''
        (Some ''The game namespace is configured to disallow real currencies.'')
        (Some ''Use a virtual currency, or change the namespace configuration.'')
        None),
      ([37041], curated ''Ticket booth not found''
        (Some ''No ticket booth exists with the supplied name in this namespace.'')
        (Some ''Verify the booth name and namespace.'')
        None),
      ([37071], curated ''Insufficient tickets in booth''
        (Some ''The booth does not have enough tickets remaining.'')
        (Some ''Refill the booth or reduce the requested ticket count.'')
        None),
      ([37121], curated ''Invalid currency namespace in discount config''
        (Some ''The discount config references a currency that is not configured for the namespace.'')
        (Some ''Use a configured currency.'')
        None),
      ([37141], curated ''Campaign not found''
        (Some ''The specified campaign does not exist.'')
        (Some ''Run 'ags platform campaigns list' to see configured campaigns.'')
        None)]"

definition platform_codes_7 :: code_table where
  "platform_codes_7 =
     [([37142], curated ''Code not found''
        (Some ''The specified code does not exist in this namespace.'')
        (Some ''Verify the code and retry.'')
        None),
      ([37143, 37144], curated ''Campaign batch not found''
        (Some ''No batch matches the supplied name or number for this campaign.'')
        (Some ''Verify the batch name/number and retry.'')
        None),
      ([37171], curated ''Campaign already exists''
        (Some ''A campaign with this name is already configured.'')
        (Some ''Use a different campaign name.'')
        None),
      ([37172], curated ''Campaign is inactive''
        (Some ''The campaign is not currently active.'')
        (Some ''Activate the campaign before redeeming codes.'')
        None),
      ([37173], curated ''Code is inactive''
        (Some ''The code is currently disabled.'')
        None
        None),
      ([37174, 37175, 37179], curated ''Code redemption limit reached''
        (Some ''The configured redemption count for this code or campaign has been reached.'')
        None
        None),
      ([37176], curated ''Code has already been redeemed''
        (Some ''This code was previously redeemed.'')
        None
        None),
      ([37177], curated ''Code redemption has not started''
        (Some ''The code is not yet within its redeemable window.'')
        (Some ''Wait until the campaign's start time before redeeming.'')
        None),
      ([37178], curated ''Code redemption has ended''
        (Some ''The code's redemption window has closed.'')
        None
        None),
      ([37180], curated ''Code already exists''
        (Some ''Another code with this value already exists in the namespace.'')
        (Some ''Use a different code value.'')
        None),
      ([37221], curated ''Invalid key file''
        (Some ''The supplied key file did not pass validation.'')
        (Some ''Check the key file format and retry.'')
        None),
      ([37241], curated ''Key group not found''
        (Some ''The specified key group does not exist.'')
        (Some ''Run 'ags platform key-groups list' to see configured groups.'')
        None),
      ([37271], curated ''Key group already exists''
        (Some ''A key group with this name is already configured.'')
        (Some ''Use a different key group name.'')
        None),
      ([38121], curated ''Duplicate permanent item''
        (Some ''The fulfillment payload contains a permanent item the user already owns.'')
        (Some ''Remove the duplicate from the payload.'')
        None),
      ([38122], curated ''Subscription end date is required''
        (Some ''Subscription fulfillments must include an end date.'')
        (Some ''Provide a subscription end date and retry.'')
        None),
      ([38128], curated ''Cannot retry fulfillment with a different payload''
        (Some ''Retried fulfillments must keep the same items list.'')
        (Some ''Resubmit with the original items list, or use a fresh transaction ID.'')
        None),
      ([38129], curated ''Cannot combine the same item with conflicting fields''
        (Some ''Two entries reference the same item but disagree on a field.'')
        (Some ''Reconcile the field values or split into separate fulfillments.'')
        None),
      ([38130], curated ''Item type cannot be fulfilled''
        (Some ''This item type does not support fulfillment.'')
        None
        None),
      ([38141], curated ''Fulfillment script not found''
        (Some ''No fulfillment script is configured for this namespace.'')
        (Some ''Configure a fulfillment script before retrying.'')
        None),
      ([38145], curated ''Fulfillment transaction not found''
        (Some ''No fulfillment matches the supplied transaction ID.'')
        (Some ''Verify the transaction ID and retry.'')
        None),
      ([38171], curated ''Fulfillment script already exists''
        (Some ''A fulfillment script is already configured for this namespace.'')
        (Some ''Update the existing script instead of creating a new one.'')
        None),
      ([39121], curated ''Apple IAP receipt verification failed''
        (Some ''Apple's verification service rejected the receipt.'')
        (Some ''Check the receipt and retry.'')
        None)]"

definition platform_codes_8 :: code_table where
  "platform_codes_8 =
     [([39122], curated ''Google IAP receipt is invalid''
        (Some ''Google's verification service rejected the receipt.'')
        (Some ''Check the receipt and retry.'')
        None),
      ([39123], curated ''IAP request is not for a valid application''
        (Some ''The application identifier in the IAP request is not registered.'')
        (Some ''Verify the application ID matches the configured IAP app.'')
        None),
      ([39124], curated ''IAP platform user is not linked to this user''
        (Some ''The platform user ID does not match the requesting user.'')
        (Some ''Link the platform account first, then retry.'')
        None),
      ([39125], curated ''Invalid platform user token''
        (Some ''The supplied platform token is invalid.'')
        (Some ''Re-authenticate with the platform and retry.'')
        None),
      ([39126], curated ''User is not linked to this platform''
        (Some ''The user has no link to the requested platform.'')
        (Some ''Link the platform account first, then retry.'')
        None),
      ([39127], curated ''Invalid service label''
        (Some ''The supplied service label is not configured.'')
        (Some ''Use one of the configured service labels.'')
        None),
      ([39128], curated ''Steam publisher key is invalid''
        (Some ''Steam rejected the configured publisher key.'')
        (Some ''Update the Steam publisher key in the IAP configuration.'')
        None),
      ([39129], curated ''Steam app ID is invalid''
        (Some ''Steam rejected the configured app ID.'')
        (Some ''Update the Steam app ID in the IAP configuration.'')
        None),
      ([39130, 39131, 39134, 39135], curated ''Invalid IAP configuration''
        (Some ''The platform's IAP configuration did not pass validation.'')
        (Some ''Check the configuration values and retry.'')
        None),
      ([39132, 39133], curated ''Bad request to platform IAP service''
        (Some ''The platform IAP service rejected the request.'')
        (Some ''Check the request payload and retry.'')
        None),
      ([39136, 39137], curated ''Apple API request failed''
        (Some ''Apple's API returned an error.'')
        (Some ''Inspect the response message and retry.'')
        None),
      ([39138], curated ''Apple IAP version mismatch''
        (Some ''The configuration and API versions do not match.'')
        (Some ''Align the IAP configuration version with the API version.'')
        None),
      ([39141], curated ''Apple IAP receipt not found''
        (Some ''No Apple IAP receipt exists for the supplied transaction.'')
        (Some ''Verify the transaction ID and product ID.'')
        None),
      ([39148], curated ''Platform IAP config not found in this namespace''
        (Some ''The platform's IAP configuration is missing.'')
        (Some ''Configure the platform IAP for this namespace.'')
        None),
      ([39149], curated ''Third-party subscription transaction not found''
        (Some ''No third-party subscription transaction matches the request.'')
        (Some ''Verify the transaction ID and user.'')
        None),
      ([39150], curated ''Third-party user subscription not found''
        (Some ''No third-party subscription matches the request.'')
        (Some ''Verify the subscription ID and user.'')
        None),
      ([39151], curated ''IAP order not found''
        (Some ''No IAP order matches the supplied number in this namespace.'')
        (Some ''Verify the IAP order number and retry.'')
        None),
      ([39152], curated ''Third-party subscription group not found''
        (Some ''No subscription group matches the supplied SKU in this namespace.'')
        (Some ''Configure the subscription group, or verify the SKU.'')
        None),
      ([39154], curated ''Meta Quest subscription SKU not found in config''
        (Some ''The SKU is not configured in the namespace's subscription group.'')
        (Some ''Add the SKU to the subscription group configuration.'')
        None),
      ([39171], curated ''Bundle ID does not match expected value''
        (Some ''The verified bundle ID differs from the configured one.'')
        (Some ''Align the configured bundle ID with the platform's value.'')
        None),
      ([39172], curated ''Order ID mismatch''
        (Some ''The order ID returned by the platform does not match the request.'')
        None
        None),
      ([39173], curated ''Google Play order has unexpected purchase status''
        (Some ''The purchase status reported by Google Play is not one we can process.'')
        (Some ''Inspect the order status and retry once it stabilises.'')
        None),
      ([39174], curated ''Google IAP purchase time is out of range''
        (Some ''The purchase time falls outside the accepted window.'')
        None
        None)]"

definition platform_codes_9 :: code_table where
  "platform_codes_9 =
     [([39175], curated ''Duplicate IAP item mapping''
        (Some ''Another mapping already exists for this IAP type and ID.'')
        (Some ''Remove the duplicate mapping.'')
        None),
      ([39183], curated ''Steam transaction is pending or failed''
        (Some ''Steam reported the transaction as pending or failed.'')
        (Some ''Retry the operation later.'')
        None),
      ([39184], curated ''Steam API exception''
        (Some ''Steam returned an error while processing the request.'')
        (Some ''Inspect the response and retry.'')
        None),
      ([39185], curated ''Steam IAP sync mode mismatch''
        (Some ''The operation requires a different sync mode than is configured.'')
        (Some ''Update the Steam IAP sync mode in the configuration.'')
        None),
      ([39187], curated ''Duplicate subscription group SKU on this platform''
        (Some ''Another subscription group already uses this SKU on the platform.'')
        (Some ''Use a unique SKU.'')
        None),
      ([39188], curated ''Subscription group is already linked to the user''
        (Some ''The user already has this subscription group linked on this platform.'')
        None
        (Some ''No further action needed.'')),
      ([39221], curated ''Invalid Xbox Business Partner Certificate or password''
        (Some ''The certificate or password did not pass validation.'')
        (Some ''Update the Xbox certificate and/or password and retry.'')
        None),
      ([39244], curated ''Steam config not found''
        (Some ''No Steam configuration is set.'')
        (Some ''Configure Steam IAP first.'')
        None),
      ([39245], curated ''Steam app ID not found''
        (Some ''The supplied Steam app ID is not configured.'')
        (Some ''Verify the Steam app ID and retry.'')
        None),
      ([39321], curated ''Invalid IAP item config namespace''
        (Some ''The IAP item config references an invalid namespace.'')
        (Some ''Use a configured namespace.'')
        None),
      ([39341, 39441], curated ''Platform DLC config not found''
        (Some ''No DLC config is set for this namespace.'')
        (Some ''Configure the platform DLC for this namespace.'')
        None),
      ([39442], curated ''DLC item config not found''
        (Some ''No DLC item config is set for this namespace.'')
        (Some ''Configure DLC items for this namespace.'')
        None),
      ([39471], curated ''Duplicate DLC reward ID''
        (Some ''Another DLC reward already uses this ID in the namespace.'')
        (Some ''Use a unique DLC reward ID.'')
        None),
      ([39621], curated ''Steam API exception''
        (Some ''Steam returned an error while processing the request.'')
        (Some ''Inspect the response and retry.'')
        None),
      ([40121], curated ''Item type does not support subscriptions''
        (Some ''This item type cannot be subscribed to.'')
        None
        None),
      ([40122], curated ''User is already subscribed''
        (Some ''An active subscription already exists for this user and item.'')
        None
        (Some ''No further action needed.'')),
      ([40123], curated ''Currency is not supported for subscriptions''
        (Some ''The supplied currency cannot be used for subscriptions.'')
        (Some ''Use a currency that supports recurring billing.'')
        None),
      ([40125], curated ''Subscription has no real currency billing account''
        (Some ''Real-currency billing is not configured for this subscription.'')
        (Some ''Configure a real-currency billing account.'')
        None),
      ([40141], curated ''Subscription not found''
        (Some ''The specified subscription does not exist.'')
        (Some ''Verify the subscription ID and retry.'')
        None),
      ([40171], curated ''Subscription is not active''
        (Some ''The subscription is in an inactive state.'')
        None
        None),
      ([40172], curated ''Subscription is awaiting payment notification''
        (Some ''A charge is in flight for this subscription.'')
        (Some ''Wait for the payment notification before retrying.'')
        None),
      ([40173], curated ''Subscription currency does not match request''
        (Some ''The subscription's current currency differs from the request currency.'')
        (Some ''Use the subscription's current currency.'')
        None)]"

definition platform_codes_10 :: code_table where
  "platform_codes_10 =
     [([41171], curated ''Request body differs from a previous call with the same idempotency key''
        (Some ''Idempotent requests must keep the same body across retries.'')
        (Some ''Use a fresh idempotency key, or resubmit with the original body.'')
        None),
      ([41172], curated ''User ID differs from a previous call with the same idempotency key''
        (Some ''Idempotent requests must keep the same user across retries.'')
        (Some ''Use a fresh idempotency key for a different user.'')
        None)]"

definition platform_codes :: code_table where
  "platform_codes = platform_codes_1 @ platform_codes_2 @ platform_codes_3 @ platform_codes_4 @ platform_codes_5 @ platform_codes_6 @ platform_codes_7 @ platform_codes_8 @ platform_codes_9 @ platform_codes_10"

definition seasonpass_codes_1 :: code_table where
  "seasonpass_codes_1 =
     [([49121], curated ''Default language is required in localizations''
        (Some ''The default language is missing from the supplied localization map.'')
        (Some ''Include the namespace's default language in the localizations field.'')
        None),
      ([49122], curated ''Invalid time range''
        (Some ''The supplied start/end time range is not valid.'')
        (Some ''Ensure the start time precedes the end time and both are in ISO-8601 format.'')
        None),
      ([49124], curated ''Manual claim is not supported for this configuration''
        (Some ''The season pass is configured to use automatic claims.'')
        (Some ''Reconfigure the pass to support manual claims, or use the auto-claim flow.'')
        None),
      ([49141], curated ''Tier item not found in the store''
        (Some ''The referenced tier item does not exist in this namespace's store.'')
        (Some ''Verify the tier item ID, or create the item in the store first.'')
        None),
      ([49142], curated ''Pass item not found in the store''
        (Some ''The referenced pass item does not exist in this namespace's store.'')
        (Some ''Verify the pass item ID, or create the item in the store first.'')
        None),
      ([49143], curated ''Season not found''
        (Some ''The specified season does not exist in this namespace.'')
        (Some ''Run 'ags seasonpass seasons list' to see configured seasons.'')
        None),
      ([49144], curated ''Reward not found''
        (Some ''No reward exists with the supplied code.'')
        (Some ''Verify the reward code and retry.'')
        None),
      ([49145], curated ''Pass not found''
        (Some ''No pass exists with the supplied code.'')
        (Some ''Verify the pass code and retry.'')
        None),
      ([49146], curated ''Tier not found''
        (Some ''The specified tier does not exist in this season.'')
        (Some ''Verify the tier ID and retry.'')
        None),
      ([49147], curated ''Published season not found''
        (Some ''No published season exists in this namespace.'')
        (Some ''Publish a season first, then retry.'')
        None),
      ([49148], curated ''User season not found''
        (Some ''The user has no record for this season.'')
        (Some ''Confirm the user has been granted the pass or has earned tier progress.'')
        None),
      ([49171], curated ''Season is not updatable in its current status''
        (Some ''The season's lifecycle state does not permit updates.'')
        (Some ''Wait for the season to reach a draft or paused state before updating.'')
        None),
      ([49172], curated ''Season has already ended''
        (Some ''The season is past its configured end time.'')
        (Some ''Use a different season, or extend this season's end time before retrying.'')
        None),
      ([49173], curated ''Reward already exists in the season''
        (Some ''A reward with this code is already configured for the season.'')
        (Some ''Use a different code, or update the existing reward.'')
        None),
      ([49174], curated ''Pass already exists in the season''
        (Some ''A pass with this code is already configured for the season.'')
        (Some ''Use a different code, or update the existing pass.'')
        None),
      ([49175], curated ''Published season already exists''
        (Some ''A season is already published in this namespace.'')
        (Some ''Unpublish the existing season before publishing a new one.'')
        None),
      ([49176], curated ''Season has no rewards configured''
        (Some ''Rewards must be defined before the season can be published.'')
        (Some ''Add at least one reward to the season.'')
        None),
      ([49177], curated ''Season has no passes configured''
        (Some ''Passes must be defined before the season can be published.'')
        (Some ''Add at least one pass to the season.'')
        None),
      ([49178], curated ''Season has no tiers configured''
        (Some ''Tiers must be defined before the season can be published.'')
        (Some ''Add at least one tier to the season.'')
        None),
      ([49179], curated ''Reward is in use and cannot be removed''
        (Some ''The reward is referenced by one or more tiers.'')
        (Some ''Remove the reward from all tiers before deleting it.'')
        None),
      ([49180], curated ''Season has already started''
        (Some ''The season is past its configured start time.'')
        (Some ''Some changes are not permitted once a season is live; consider creating a new season.'')
        None),
      ([49181], curated ''Season has not ended''
        (Some ''This operation requires the season to be ended.'')
        (Some ''Wait for the season to end, or end it manually before retrying.'')
        None)]"

definition seasonpass_codes_2 :: code_table where
  "seasonpass_codes_2 =
     [([49182], curated ''Reward has already been claimed''
        (Some ''This reward is already in the user's inventory.'')
        None
        (Some ''No further action needed.'')),
      ([49183], curated ''Pass item does not match the published season pass''
        (Some ''The supplied pass item differs from the one published for this season.'')
        (Some ''Use the pass item that was configured at publish time.'')
        None),
      ([49184], curated ''Tier item does not match the published season tier''
        (Some ''The supplied tier item differs from the one published for this season.'')
        (Some ''Use the tier item that was configured at publish time.'')
        None),
      ([49185], curated ''Season has not started''
        (Some ''This operation requires the season to be active.'')
        (Some ''Wait until the season's start time, or adjust the start time.'')
        None),
      ([49186], curated ''Pass is already owned''
        (Some ''The user already owns this pass for the current season.'')
        None
        (Some ''No further action needed.'')),
      ([49187], curated ''Maximum tier count exceeded''
        (Some ''Adding this tier would push the season past its tier limit.'')
        (Some ''Reduce the tier count, or contact AccelByte to raise the limit.'')
        None),
      ([49188], curated ''Reward is currently being claimed''
        (Some ''Another claim operation for this reward is in progress.'')
        (Some ''Wait for the in-flight claim to complete, then retry.'')
        None),
      ([49189], curated ''Duplicate season name in this namespace''
        (Some ''Another published season already uses this name.'')
        (Some ''Choose a unique season name.'')
        None)]"

definition seasonpass_codes :: code_table where
  "seasonpass_codes = seasonpass_codes_1 @ seasonpass_codes_2"

definition social_codes_1 :: code_table where
  "social_codes_1 =
     [([12021], curated ''Too many users in a single bulk request''
        (Some ''The request exceeds the per-call user limit.'')
        (Some ''Reduce the number of users per request and retry.'')
        None),
      ([12022], curated ''Game profile attribute name mismatch''
        (Some ''The attribute name in the URL does not match the body.'')
        (Some ''Use the same attribute name in the URL and the request body.'')
        None),
      ([12041], curated ''Game profile not found''
        (Some ''No game profile exists with the supplied ID.'')
        (Some ''Verify the profile ID and retry.'')
        None),
      ([12121], curated ''Slot file checksum mismatch''
        (Some ''The uploaded file did not match the expected checksum.'')
        (Some ''Re-upload the file to ensure data integrity.'')
        None),
      ([12122], curated ''Slot file exceeds the upload size limit''
        (Some ''The file is larger than the configured slot limit.'')
        (Some ''Reduce the file size, or contact an administrator to raise the limit.'')
        None),
      ([12141], curated ''Slot not found''
        (Some ''The specified slot does not exist in this namespace.'')
        (Some ''Verify the slot ID and namespace, then retry.'')
        None),
      ([12171], curated ''User slot count limit exceeded''
        (Some ''The user has reached the maximum number of slots allowed.'')
        (Some ''Delete an unused slot, or raise the per-user slot limit in the namespace config.'')
        None),
      ([12221], curated ''Invalid stat operator''
        (Some ''The stat operator is not valid for this stat configuration.'')
        (Some ''Use an operator that matches the stat's configured update strategy.'')
        None),
      ([12222], curated ''Invalid stats data for namespace''
        (Some ''The supplied stats data does not match the namespace configuration.'')
        (Some ''Check the stat codes and value types against the namespace configuration.'')
        None),
      ([12223], curated ''Invalid stat codes for namespace''
        (Some ''One or more stat codes are not configured in this namespace.'')
        (Some ''Run 'ags social stat-definitions list' to see configured stat codes.'')
        None),
      ([12225], curated ''Invalid time range''
        (Some ''The supplied time range is invalid.'')
        (Some ''Ensure the start time precedes the end time and both are in ISO-8601 format.'')
        None),
      ([12226], curated ''Invalid date for the specified month''
        (Some ''The day-of-month is out of range for the supplied month.'')
        (Some ''Provide a valid calendar date and retry.'')
        None),
      ([12241], curated ''Stat not found in this namespace''
        (Some ''The specified stat is not configured.'')
        (Some ''Run 'ags social stat-definitions list' to see configured stats.'')
        None),
      ([12242], curated ''Stat item not found for this user''
        (Some ''The user has no recorded value for the requested stat.'')
        (Some ''Submit an initial value for the stat first.'')
        None),
      ([12243], curated ''Stats not found in this namespace''
        (Some ''No stats are configured in this namespace.'')
        (Some ''Configure stats for this namespace before querying them.'')
        None),
      ([12244], curated ''Global stat item not found''
        (Some ''The requested global stat item does not exist in this namespace.'')
        (Some ''Verify the stat code and namespace, then retry.'')
        None),
      ([12245], curated ''Stat cycle not found''
        (Some ''The specified stat cycle does not exist.'')
        (Some ''Run 'ags social stat-cycles list' to see configured cycles.'')
        None),
      ([12271], curated ''Stat template already exists''
        (Some ''A stat template with this code is already configured.'')
        (Some ''Use a different code, or update the existing template.'')
        None),
      ([12273], curated ''Stat is not decreasable''
        (Some ''This stat is configured as monotonically increasing.'')
        (Some ''Use an operator that does not decrease the value, or reconfigure the stat.'')
        None),
      ([12274], curated ''Stat item already exists for this user''
        (Some ''The user already has a recorded value for this stat.'')
        (Some ''Update the existing stat item instead of creating a new one.'')
        None),
      ([12275], curated ''Stat value is out of allowed range''
        (Some ''The supplied value is below the minimum or above the maximum configured for this stat.'')
        (Some ''Submit a value within the configured min/max bounds.'')
        None),
      ([12276], curated ''Stat cannot be deleted while in INIT status''
        (Some ''Stats in the INIT lifecycle state cannot be deleted.'')
        (Some ''Advance the stat past INIT before attempting to delete.'')
        None)]"

definition social_codes_2 :: code_table where
  "social_codes_2 =
     [([12277], curated ''Stat cycle cannot be updated in its current status''
        (Some ''The cycle's lifecycle state does not permit updates.'')
        (Some ''Wait for the cycle to reach an updatable state, or use a different cycle.'')
        None),
      ([12279], curated ''Invalid stat cycle status for this operation''
        (Some ''The cycle is not in a state that permits this operation.'')
        (Some ''Check the cycle's current status before retrying.'')
        None)]"

definition social_codes :: code_table where
  "social_codes = social_codes_1 @ social_codes_2"

definition standard_codes :: code_table where
  "standard_codes =
     [([20000], curated ''Internal server error''
        (Some ''An unexpected error occurred on the server.'')
        None
        (Some ''If this persists, contact AccelByte support.'')),
      ([20001], curated ''Request was not authorized''
        (Some ''Your access token is invalid or expired.'')
        (Some ''Run 'ags auth login'.'')
        None),
      ([20002], curated (''Invalid request '' @ [CHR 0xE2, CHR 0x80, CHR 0x94] @ '' validation failed'')
        (Some ''One or more parameter values are invalid.'')
        (Some ''Check the parameter values and retry.'')
        None),
      ([20003], curated ''Forbidden''
        (Some ''Your account does not have the required access.'')
        (Some ''Check that your account has the required role and permissions.'')
        (Some ''This operation may require admin or publisher-level access.'')),
      ([20006], curated ''Resource has changed since you fetched it''
        (Some ''Another process updated this resource concurrently.'')
        (Some ''Fetch the latest version and retry.'')
        None),
      ([20007], curated ''Too many requests''
        (Some ''You have exceeded the rate limit.'')
        (Some ''Wait a moment and retry.'')
        None),
      ([20008], curated ''User not found''
        (Some ''The user does not exist or is not accessible in this context.'')
        (Some ''Run 'ags iam users search' to see available users.'')
        None),
      ([20009], curated ''Request conflict''
        (Some ''The resource was modified concurrently.'')
        (Some ''Fetch the latest version and retry.'')
        None),
      ([20013], curated ''You do not have permission for this operation''
        (Some ''Your account does not have the required role.'')
        (Some ''Check that your account has the required role and permissions.'')
        (Some ''This operation may require admin or publisher-level access.'')),
      ([20017], curated ''User account is not linked''
        (Some ''The user has no linked account for the requested platform or context.'')
        (Some ''Link the platform account first, then retry.'')
        None),
      ([20018], curated ''Request was rejected''
        (Some ''The server reported that the request is invalid.'')
        (Some ''Check the request fields and retry.'')
        None),
      ([20019], curated ''Request body could not be parsed''
        (Some ''The request body is malformed or does not match the expected format.'')
        (Some ''Check the JSON payload and retry.'')
        None),
      ([20021], curated ''Invalid pagination parameters''
        (Some ''The pagination offset or limit is out of range.'')
        (Some ''Check the --offset and --limit values.'')
        None),
      ([20022], curated ''Token is not a user token''
        (Some ''This operation requires a user token, not a client token.'')
        (Some ''Run 'ags auth login' (browser-based) instead of client credentials.'')
        None),
      ([20024], curated ''Not implemented''
        (Some ''This operation is not yet supported by the API.'')
        None
        (Some ''This endpoint may be available in a future API version.'')),
      ([20025], curated ''Not a publisher account''
        (Some ''This operation requires a publisher namespace.'')
        (Some ''Ensure you are using a publisher namespace, not a game namespace.'')
        (Some ''Justice platform operations are only available in publisher namespaces.'')),
      ([20026], curated ''Publisher namespace not allowed for this operation''
        (Some ''This operation must be performed in a game namespace, not the publisher namespace.'')
        (Some ''Switch to a game namespace and retry.'')
        None),
      ([20029], curated ''Resource not found''
        (Some ''The requested resource does not exist.'')
        (Some ''Check the identifier and retry.'')
        None)]"

end
