(* ===== verification/DispatchClassify.thy ===== *)
theory DispatchClassify
  imports DispatchText ErrorCodes Json
begin

text \<open>
  Classification of API error responses, \<open>ags-runtime/src/runtime/dispatch/classify.rs\<close>, with the look-up of curated
  messages (\<open>error_codes/mod.rs\<close>) and the service names of \<open>catalogue/manifest.rs\<close>. A validation message is cut at a
  byte position found in its lower-case copy; where that is no character boundary of the message itself the
  program panics, which is the value \<^term>\<open>None\<close>.
\<close>

section \<open>Services\<close>

record service_manifest =
  sm_internal :: string
  sm_display :: string
  sm_description :: string

definition service_entry :: "string \<Rightarrow> string \<Rightarrow> string \<Rightarrow> service_manifest" where
  "service_entry internal displayed description =
     \<lparr>sm_internal = internal, sm_display = displayed, sm_description = description\<rparr>"

definition services :: "service_manifest list" where
  "services =
     [service_entry ''achievement'' ''achievement''
        ''Player achievements, badges, and progression tracking'',
      service_entry ''ams'' ''ams''
        ''Multiplayer server fleet management and orchestration'',
      service_entry ''basic'' ''basic''
        ''User profiles, namespaces, and file uploads'',
      service_entry ''challenge'' ''challenge''
        ''Challenge definitions, goals, schedules, and player progression'',
      service_entry ''chat'' ''chat''
        ''Chat messaging, moderation, inbox, and profanity filtering'',
      service_entry ''cloudsave'' ''cloud-save''
        ''Cloud save records for games and players (binary and JSON)'',
      service_entry ''csm'' ''csm''
        ''Custom service management, deployments, and container images'',
      service_entry ''ehs'' ''ehs''
        ''Extend helper container image registry credentials and gRPC reflection'',
      service_entry ''gametelemetry'' ''game-telemetry''
        ''Game telemetry event ingestion and querying'',
      service_entry ''gdpr'' ''gdpr''
        ''GDPR data deletion, retrieval, and platform account closure'',
      service_entry ''group'' ''group''
        ''Player groups, memberships, roles, and join requests'',
      service_entry ''iam'' ''iam''
        ''Identity, authentication, authorization, and user management'',
      service_entry ''inventory'' ''inventory''
        ''Player inventories, items, item types, and tags'',
      service_entry ''leaderboard'' ''leaderboard''
        ''Leaderboard configuration, data, and user rankings'',
      service_entry ''legal'' ''legal''
        ''Legal agreements, policies, eligibility, and consent tracking'',
      service_entry ''lobby'' ''lobby''
        ''Lobby connections, friends, presence, party, and notifications'',
      service_entry ''loginqueue'' ''login-queue''
        ''Login queue management and ticket processing'',
      service_entry ''match2'' ''matchmaking''
        ''Matchmaking pools, rulesets, tickets, and backfill'',
      service_entry ''platform'' ''platform''
        ''Store, items, entitlements, wallets, payments, and IAP'',
      service_entry ''reporting'' ''reporting''
        ''Player reporting, moderation rules, reasons, and tickets'',
      service_entry ''seasonpass'' ''season-pass''
        ''Season passes, tiers, rewards, and seasonal content'',
      service_entry ''session'' ''session''
        ''Game sessions, parties, matchmaking templates, and DS config'',
      service_entry ''sessionhistory'' ''session-history''
        ''Session analytics and X-Ray diagnostics'',
      service_entry ''social'' ''social''
        ''Stats, stat cycles, game profiles, and social slots'',
      service_entry ''ugc'' ''ugc''
        ''User-generated content: uploads, moderation, and discovery'']"

definition find_service :: "string \<Rightarrow> service_manifest option" where
  "find_service internal = find (\<lambda>e. sm_internal e = internal) services"

definition display_name :: "string \<Rightarrow> string option" where
  "display_name internal = map_option sm_display (find_service internal)"

definition internal_name :: "string \<Rightarrow> string option" where
  "internal_name name = map_option sm_internal (find (\<lambda>e. sm_display e = name \<or> sm_internal e = name) services)"

definition service_description :: "string \<Rightarrow> string" where
  "service_description internal = (case find_service internal of Some e \<Rightarrow> sm_description e | None \<Rightarrow> [])"

section \<open>Curated messages\<close>

definition or_else_lookup :: "error_mapping option \<Rightarrow> error_mapping option \<Rightarrow> error_mapping option" where
  "or_else_lookup a b = (case a of Some x \<Rightarrow> Some x | None \<Rightarrow> b)"

definition service_lookup :: "string \<Rightarrow> int \<Rightarrow> error_mapping option" where
  "service_lookup service code =
     (if service = ''iam'' then table_lookup iam_codes code
      else if service = ''basic'' then table_lookup basic_codes code
      else if service = ''social'' then table_lookup social_codes code
      else if service = ''cloudsave'' then table_lookup cloudsave_codes code
      else if service = ''leaderboard'' then table_lookup leaderboard_codes code
      else if service = ''group'' then table_lookup group_codes code
      else if service = ''platform'' then
        or_else_lookup (table_lookup platform_codes code) (table_lookup seasonpass_codes code)
      else if service = ''seasonpass'' then
        or_else_lookup (table_lookup seasonpass_codes code) (table_lookup platform_codes code)
      else if service = ''legal'' then table_lookup legal_codes code
      else if service = ''challenge'' then table_lookup challenge_codes code
      else None)"

definition lookup_error :: "string \<Rightarrow> int \<Rightarrow> error_mapping option" where
  "lookup_error service code =
     or_else_lookup
       (service_lookup (case internal_name service of Some n \<Rightarrow> n | None \<Rightarrow> service) code)
       (table_lookup standard_codes code)"

section \<open>Messages\<close>

record error_metadata =
  md_reason :: "string option"
  md_detail :: "string option"
  md_suggestion :: "string option"
  md_suggestion_kind :: suggestion_kind
  md_tip :: "string option"

definition metadata :: "string option \<Rightarrow> string option \<Rightarrow> string option \<Rightarrow> error_metadata" where
  "metadata reason detail suggestion =
     \<lparr>md_reason = reason, md_detail = detail, md_suggestion = suggestion, md_suggestion_kind = Fix, md_tip = None\<rparr>"

definition strip_user_id_suffix :: "string \<Rightarrow> string" where
  "strip_user_id_suffix message =
     (case find_text '', userID: '' message of
        None \<Rightarrow> message
      | Some pos \<Rightarrow>
          (let cleaned = trim_end_char CHR ''.'' (take pos message) in if cleaned = [] then message else cleaned))"

definition operation_failed_headline :: "unicode \<Rightarrow> string \<Rightarrow> string \<Rightarrow> string" where
  "operation_failed_headline U method resource =
     (let noun = method_noun method (kebab_case_to_words (singularize resource))
      in capitalize_first U (first_word method @ '' '' @ noun) @ '' failed'')"

definition normalized_message :: "unicode \<Rightarrow> string \<Rightarrow> string" where
  "normalized_message U s = to_lowercase U (trim_end_char CHR ''.'' (trim_text s))"

definition generic_placeholders :: "string list" where
  "generic_placeholders =
     [''error'', ''internal error'', ''bad request'', ''unknown error'', ''validation error'']"

definition is_informative_server_message :: "unicode \<Rightarrow> string \<Rightarrow> string \<Rightarrow> string option \<Rightarrow> bool" where
  "is_informative_server_message U clean curated_message curated_reason =
     (let c = normalized_message U clean
      in c \<noteq> [] \<and> c \<notin> set generic_placeholders \<and> c \<noteq> normalized_message U curated_message \<and>
         (case curated_reason of Some r \<Rightarrow> c \<noteq> normalized_message U r | None \<Rightarrow> True))"

definition with_full_stop :: "string \<Rightarrow> string" where
  "with_full_stop s = (if suffix ''.'' s then s else s @ ''.'')"

definition split_at_separator :: "unicode \<Rightarrow> string \<Rightarrow> nat \<Rightarrow> nat \<Rightarrow> (string \<times> string option) option" where
  "split_at_separator U raw pos len =
     (case (slice_to raw pos, slice_from raw (pos + len)) of
        (Some b, Some a) \<Rightarrow>
          (let before = trim_text (trim_end_char CHR '','' (trim_text b));
               after = trim_text a
           in Some
                (if before = [] then ''Validation error'' else trim_end_char CHR ''.'' (capitalize_first U before),
                 if after = [] then None else Some (with_full_stop (capitalize_first U after))))
      | _ \<Rightarrow> None)"

definition split_validation_error_message :: "unicode \<Rightarrow> string \<Rightarrow> (string \<times> string option) option" where
  "split_validation_error_message U raw =
     (let lower = to_lowercase U raw
      in case find_text ''details:'' lower of
           Some pos \<Rightarrow> split_at_separator U raw pos (length ''details:'')
         | None \<Rightarrow>
             (case find_text ''detail:'' lower of
                Some pos \<Rightarrow> split_at_separator U raw pos (length ''detail:'')
              | None \<Rightarrow>
                  if contains_text ''validation error'' lower
                  then Some (''Validation error'', Some (with_full_stop (capitalize_first U raw)))
                  else Some (trim_end_char CHR ''.'' (capitalize_first U raw), None)))"

section \<open>Classification\<close>

definition error_code_of :: "json \<Rightarrow> int" where
  "error_code_of body = (case Option.bind (json_key body ''errorCode'') as_i64 of Some c \<Rightarrow> c | None \<Rightarrow> 0)"

definition code_text :: "json \<Rightarrow> string option" where
  "code_text body = (if error_code_of body = 0 then None else Some (show_int (error_code_of body)))"

definition error_message_of :: "json \<Rightarrow> string option" where
  "error_message_of body = Option.bind (json_key body ''errorMessage'') as_str"

definition raw_message :: "json \<Rightarrow> string" where
  "raw_message body =
     strip_terminal_control_sequences (case error_message_of body of Some m \<Rightarrow> m | None \<Rightarrow> [])"

definition derive_runtime_error_kind :: "nat \<Rightarrow> json \<Rightarrow> runtime_error_kind" where
  "derive_runtime_error_kind status body =
     (if status = 401 then NotAuthenticated
      else if status = 403 then Forbidden
      else if status = 404 then NotFound
      else if status = 400 \<or> status = 422 then Rejected
      else Upstream status (code_text body))"

type_synonym classified = "string \<times> error_metadata option"

definition check_fields :: string where
  "check_fields = ''Check the request fields and retry.''"

definition with_em_dash :: "string \<Rightarrow> string \<Rightarrow> string" where
  "with_em_dash a b = a @ '' '' @ [CHR 0xE2, CHR 0x80, CHR 0x94] @ '' '' @ b"

definition classify_by_http_status ::
  "unicode \<Rightarrow> nat \<Rightarrow> json \<Rightarrow> string \<Rightarrow> string \<Rightarrow> string option \<Rightarrow> string option \<Rightarrow> classified option" where
  "classify_by_http_status U status body service resource clean detail =
     (let plain = (\<lambda>msg fix. Some (msg, Some (metadata clean detail (Some fix))))
      in if status = 401 then plain ''Request was not authorized'' ''Run 'ags auth login'.''
         else if status = 403 then
           plain ''You do not have permission for this operation''
             ''Check that your account has the required role and permissions.''
         else if status = 404 then
           Some (capitalize_first U (kebab_case_to_words (singularize resource)) @ '' not found'',
             Some ((metadata clean detail
                (Some (''Run 'ags '' @ service @ '' '' @ resource @ '' --help' to see available methods.'')))
                \<lparr>md_suggestion_kind := Next\<rparr>))
         else if status = 409 then
           plain (with_em_dash ''Update rejected'' ''resource has changed'') ''Fetch the latest version and retry.''
         else if status = 429 then plain ''Too many requests'' ''Wait a moment and retry.''
         else if status = 406 then
           plain ''This operation requires a JSON request body''
             (''Pass --json '' @ quoted ''{}'' @ '' (or a filter body) and retry.'')
         else if status = 400 \<or> status = 422 then
           map_option (\<lambda>(msg, reason). (msg, Some (metadata reason detail (Some check_fields))))
             (if raw_message body \<noteq> [] then split_validation_error_message U (raw_message body)
              else Some (''Validation error'', Some ''The request was invalid.''))
         else if status = 501 then
           Some (''Not implemented'',
             Some ((metadata (Some ''This operation is not yet supported by the API.'') detail None)
               \<lparr>md_tip := Some ''This endpoint may be available in a future API version.''\<rparr>))
         else if status \<ge> 500 then plain ''Server error'' ''Retry the command.''
         else Some (case clean of Some m \<Rightarrow> m | None \<Rightarrow> ''HTTP '' @ show_nat status @ '' error'',
                    map_option (\<lambda>d. metadata None (Some d) None) detail))"

definition classify_error_message_and_metadata ::
  "unicode \<Rightarrow> nat \<Rightarrow> json \<Rightarrow> string \<Rightarrow> string \<Rightarrow> string \<Rightarrow> classified option" where
  "classify_error_message_and_metadata U status body service resource method =
     (let code = error_code_of body;
          detail = (if code \<noteq> 0 then Some (''Error code '' @ show_int code) else None);
          raw = raw_message body;
          lower = to_lowercase U raw
      in if (status = 400 \<or> status = 422) \<and> (contains_text ''details:'' lower \<or> contains_text ''detail:'' lower) then
           map_option (\<lambda>(msg, reason). (msg, Some (metadata reason detail (Some check_fields))))
             (split_validation_error_message U raw)
         else
           (let clean = map_option (\<lambda>m. strip_terminal_control_sequences (strip_user_id_suffix m)) (error_message_of body)
            in case lookup_error service code of
                 None \<Rightarrow> classify_by_http_status U status body service resource clean detail
               | Some mapping \<Rightarrow>
                   Some (case filter_option
                                (\<lambda>c. is_informative_server_message U c (em_message mapping) (em_reason mapping)) clean of
                      Some c \<Rightarrow>
                        (operation_failed_headline U method resource,
                         Some (metadata (Some c)
                           (map_option (\<lambda>d. d @ '' ('' @ em_message mapping @ '')'') detail) None))
                    | None \<Rightarrow>
                        (em_message mapping,
                         Some ((metadata (case em_reason mapping of Some r \<Rightarrow> Some r | None \<Rightarrow> clean) detail
                           (em_suggestion mapping))\<lparr>md_tip := em_tip mapping\<rparr>)))))"

definition classify_to_runtime_error ::
  "unicode \<Rightarrow> nat \<Rightarrow> json \<Rightarrow> string \<Rightarrow> string \<Rightarrow> string \<Rightarrow> runtime_error option" where
  "classify_to_runtime_error U status body service resource method =
     map_option (\<lambda>(message, md).
       \<lparr>re_kind = derive_runtime_error_kind status body,
        re_message = message,
        re_details =
          map_option (\<lambda>m. \<lparr>ed_code = code_text body, ed_reason = md_reason m, ed_detail = md_detail m,
                           ed_suggestion_kind = Some (md_suggestion_kind m), ed_tip = md_tip m\<rparr>) md,
        re_hint = Option.bind md md_suggestion\<rparr>)
     (classify_error_message_and_metadata U status body service resource method)"

section \<open>Splitting ASCII messages\<close>

lemma contains_iff_found: "contains_text p s \<longleftrightarrow> find_text p s \<noteq> None"
  by (induction s) auto

lemma found_splits: "find_text p s = Some n \<Longrightarrow> \<exists>b a. s = b @ p @ a \<and> length b = n"
proof (induction s arbitrary: n)
  case (Cons c s)
  show ?case
  proof (cases "prefix p (c # s)")
    case True
    then show ?thesis using Cons.prems by (auto simp: prefix_def)
  next
    case False
    then obtain k where "find_text p s = Some k" "n = Suc k" using Cons.prems by auto
    with Cons.IH obtain b a where "s = b @ p @ a" "length b = k" by blast
    with \<open>n = Suc k\<close> have "c # s = (c # b) @ p @ a" "length (c # b) = n" by simp_all
    then show ?thesis by blast
  qed
qed (auto split: if_splits)

text \<open>The occurrence found is the first: no other starts before it.\<close>

lemma found_first: "find_text p s = Some n \<Longrightarrow> k < n \<Longrightarrow> \<not> prefix p (drop k s)"
proof (induction s arbitrary: n k)
  case (Cons c s)
  then show ?case by (cases k) (auto split: if_splits)
qed (auto split: if_splits)

lemma ascii_boundary:
  assumes "is_ascii s" "i \<le> length s"
  shows "is_char_boundary s i"
proof (cases "i < length s")
  case True
  with assms(1) have "(of_char (s ! i) :: nat) < 128" by (simp add: is_ascii_def list_all_length)
  then have "\<not> continuation_byte (s ! i)" by (simp add: continuation_byte_def Let_def)
  with True show ?thesis by (simp add: is_char_boundary_def)
qed (use assms(2) in \<open>simp add: is_char_boundary_def\<close>)

lemma length_lower_text [simp]: "length (lower_text s) = length s"
  by (simp add: lower_text_def)

definition headline_of :: "unicode \<Rightarrow> string \<Rightarrow> string" where
  "headline_of U b =
     (let before = trim_text (trim_end_char CHR '','' (trim_text b))
      in if before = [] then ''Validation error'' else trim_end_char CHR ''.'' (capitalize_first U before))"

definition sentence_of :: "unicode \<Rightarrow> string \<Rightarrow> string option" where
  "sentence_of U a = (if trim_text a = [] then None else Some (with_full_stop (capitalize_first U (trim_text a))))"

text \<open>A message cut at its first separator, in any case of letters.\<close>

definition cut_at :: "string \<Rightarrow> string \<Rightarrow> string \<Rightarrow> string \<Rightarrow> bool" where
  "cut_at p raw b a \<longleftrightarrow>
     (\<exists>sep. raw = b @ sep @ a \<and> lower_text sep = p) \<and> (\<forall>k < length b. \<not> prefix p (drop k (lower_text raw)))"

lemma split_at_found:
  assumes ascii: "is_ascii raw" and found: "find_text p (lower_text raw) = Some n"
  shows "\<exists>b a. cut_at p raw b a \<and> split_at_separator U raw n (length p) = Some (headline_of U b, sentence_of U a)"
proof -
  from found_splits [OF found] obtain b' a' where l: "lower_text raw = b' @ p @ a'" and n: "length b' = n" by blast
  define b sep a where "b = take n raw" and "sep = take (length p) (drop n raw)" and "a = drop (n + length p) raw"
  have len: "length raw = n + length p + length a'" using arg_cong [OF l, of length] n by simp
  have raw: "raw = b @ sep @ a"
    unfolding b_def sep_def a_def by (metis append_take_drop_id drop_drop add.commute)
  have lb: "length b = n" using len by (simp add: b_def)
  have "lower_text b = b'" "lower_text sep @ lower_text a = p @ a'"
    using l lb n by (simp_all add: raw lower_text_def)
  moreover have "length sep = length p" using len by (simp add: sep_def)
  ultimately have "lower_text sep = p" by (metis append_eq_append_conv length_lower_text)
  with raw found_first [OF found] lb have "cut_at p raw b a" unfolding cut_at_def by blast
  moreover have "slice_to raw n = Some b" "slice_from raw (n + length p) = Some a"
    using len by (simp_all add: slice_to_def slice_from_def ascii_boundary [OF ascii] b_def a_def)
  ultimately show ?thesis by (auto simp: split_at_separator_def headline_of_def sentence_of_def Let_def)
qed

lemma lowercase_ascii: "is_ascii s \<Longrightarrow> to_lowercase U s = lower_text s"
  by (simp add: to_lowercase_def)

definition names_details :: "string \<Rightarrow> bool" where
  "names_details s \<longleftrightarrow> contains_text ''details:'' s \<or> contains_text ''detail:'' s"

definition separator_of :: "string \<Rightarrow> string" where
  "separator_of s = (if contains_text ''details:'' s then ''details:'' else ''detail:'')"

lemma split_with_details:
  assumes ascii: "is_ascii raw" and d: "names_details (lower_text raw)"
  shows "\<exists>b a. cut_at (separator_of (lower_text raw)) raw b a \<and>
    split_validation_error_message U raw = Some (headline_of U b, sentence_of U a)"
proof (cases "find_text ''details:'' (lower_text raw)")
  case (Some n)
  then have "separator_of (lower_text raw) = ''details:''" by (simp add: separator_of_def contains_iff_found)
  with split_at_found [OF ascii Some, of U] Some ascii show ?thesis
    by (simp add: split_validation_error_message_def lowercase_ascii Let_def)
next
  case None
  then have s: "separator_of (lower_text raw) = ''detail:''" by (simp add: separator_of_def contains_iff_found)
  from None d obtain n where n: "find_text ''detail:'' (lower_text raw) = Some n"
    by (auto simp: names_details_def contains_iff_found)
  from split_at_found [OF ascii n, of U] None n ascii s show ?thesis
    by (simp add: split_validation_error_message_def lowercase_ascii Let_def)
qed

lemma split_total: "is_ascii raw \<Longrightarrow> split_validation_error_message U raw \<noteq> None"
proof (cases "names_details (lower_text raw)")
  case False
  then show "is_ascii raw \<Longrightarrow> ?thesis"
    by (auto simp: names_details_def contains_iff_found split_validation_error_message_def lowercase_ascii Let_def)
qed (use split_with_details in fastforce)

section \<open>What a failed request tells\<close>

definition server_words :: "json \<Rightarrow> string option" where
  "server_words body = map_option (\<lambda>m. strip_terminal_control_sequences (strip_user_id_suffix m)) (error_message_of body)"

definition refuses_fields :: "nat \<Rightarrow> json \<Rightarrow> bool" where
  "refuses_fields status body \<longleftrightarrow> (status = 400 \<or> status = 422) \<and> names_details (lower_text (raw_message body))"

definition adds_to :: "unicode \<Rightarrow> json \<Rightarrow> error_mapping \<Rightarrow> bool" where
  "adds_to U body m \<longleftrightarrow>
     (case server_words body of
        Some c \<Rightarrow> is_informative_server_message U c (em_message m) (em_reason m) | None \<Rightarrow> False)"

definition reason_of :: "runtime_error \<Rightarrow> string option" where
  "reason_of e = Option.bind (re_details e) ed_reason"

text \<open>The message, the reason and the hint of the error, as the metadata give them.\<close>

lemma classify_fields:
  assumes "classify_error_message_and_metadata U status body service resource method = Some (msg, Some md)"
  shows "\<exists>e. classify_to_runtime_error U status body service resource method = Some e \<and>
    re_kind e = derive_runtime_error_kind status body \<and> re_message e = msg \<and>
    reason_of e = md_reason md \<and> re_hint e = md_suggestion md"
  using assms by (simp add: classify_to_runtime_error_def reason_of_def)

lemma metadata_simps [simp]:
  "md_reason (metadata r d s) = r" "md_suggestion (metadata r d s) = s"
  by (simp_all add: metadata_def)

lemma classify_refused:
  assumes ascii: "is_ascii (raw_message body)" and r: "refuses_fields status body"
  shows "\<exists>b a md. cut_at (separator_of (lower_text (raw_message body))) (raw_message body) b a \<and>
    classify_error_message_and_metadata U status body service resource method = Some (headline_of U b, Some md) \<and>
    md_reason md = sentence_of U a \<and> md_suggestion md = Some check_fields"
proof -
  from r have st: "status = 400 \<or> status = 422" and d: "names_details (lower_text (raw_message body))"
    by (auto simp: refuses_fields_def)
  from split_with_details [OF ascii d, of U] obtain b a where
    "cut_at (separator_of (lower_text (raw_message body))) (raw_message body) b a"
    "split_validation_error_message U (raw_message body) = Some (headline_of U b, sentence_of U a)" by blast
  moreover from this(2) st d have
    "classify_error_message_and_metadata U status body service resource method =
      Some (headline_of U b, Some (metadata (sentence_of U a)
        (if error_code_of body \<noteq> 0 then Some (''Error code '' @ show_int (error_code_of body)) else None) (Some check_fields)))"
    by (simp add: classify_error_message_and_metadata_def lowercase_ascii [OF ascii] names_details_def Let_def)
  ultimately show ?thesis by (metis metadata_simps)
qed

lemma classify_curated:
  assumes ascii: "is_ascii (raw_message body)" and r: "\<not> refuses_fields status body"
    and m: "lookup_error service (error_code_of body) = Some m"
  shows "\<exists>msg md. classify_error_message_and_metadata U status body service resource method = Some (msg, Some md) \<and>
    (if adds_to U body m
     then msg = operation_failed_headline U method resource \<and> md_reason md = server_words body \<and> md_suggestion md = None
     else msg = em_message m \<and> md_suggestion md = em_suggestion m \<and>
          md_reason md = (case em_reason m of Some x \<Rightarrow> Some x | None \<Rightarrow> server_words body))"
proof -
  let ?detail = "if error_code_of body \<noteq> 0 then Some (''Error code '' @ show_int (error_code_of body)) else None"
  have "classify_error_message_and_metadata U status body service resource method =
      Some (case filter_option (\<lambda>c. is_informative_server_message U c (em_message m) (em_reason m)) (server_words body) of
          Some c \<Rightarrow> (operation_failed_headline U method resource,
            Some (metadata (Some c) (map_option (\<lambda>d. d @ '' ('' @ em_message m @ '')'') ?detail) None))
        | None \<Rightarrow> (em_message m,
            Some ((metadata (case em_reason m of Some r \<Rightarrow> Some r | None \<Rightarrow> server_words body) ?detail (em_suggestion m))
              \<lparr>md_tip := em_tip m\<rparr>)))"
    using r by (auto simp: classify_error_message_and_metadata_def lowercase_ascii [OF ascii] m refuses_fields_def
        names_details_def server_words_def [symmetric] Let_def)
  then show ?thesis
    by (cases "server_words body") (simp_all add: filter_option_def adds_to_def)
qed

lemma classify_by_status:
  assumes ascii: "is_ascii (raw_message body)" and r: "\<not> refuses_fields status body"
    and m: "lookup_error service (error_code_of body) = None"
  shows "\<exists>msg md. classify_error_message_and_metadata U status body service resource method = Some (msg, md) \<and>
    (server_words body = None \<or> status = 400 \<or> status = 422 \<or> status = 501 \<or>
     Option.bind md md_reason = server_words body \<or> Some msg = server_words body)"
proof -
  have by_status: "classify_error_message_and_metadata U status body service resource method =
      classify_by_http_status U status body service resource (server_words body)
        (if error_code_of body \<noteq> 0 then Some (''Error code '' @ show_int (error_code_of body)) else None)"
    using r by (auto simp: classify_error_message_and_metadata_def lowercase_ascii [OF ascii] m refuses_fields_def
        names_details_def server_words_def [symmetric] Let_def)
  show ?thesis
  proof (cases "status = 400 \<or> status = 422")
    case True
    then show ?thesis
      unfolding by_status using split_total [OF ascii, of U]
      by (auto simp: classify_by_http_status_def Let_def)
  next
    case False
    then show ?thesis
      unfolding by_status by (auto simp: classify_by_http_status_def Let_def split: option.split)
  qed
qed

text \<open>C38. Classification of a failed request whose message is ASCII never panics, and keeps what the service said. The kind
  is decided by the status alone. A message of a refused body that names its details is cut at the first separator:
  what stands before it is the headline and what stands behind it is the reason. Otherwise, when the code has a
  curated message: if the words of the service add to it they are the reason, under a headline made of the
  operation, and the curated advice is withheld; if not, the curated texts stand. With no curated message the words of the
  service are the reason or the message, except for a refused body and for 501.\<close>

theorem classification_on_ascii:
  assumes ascii: "is_ascii (raw_message body)"
  shows "\<exists>e. classify_to_runtime_error U status body service resource method = Some e \<and>
    (re_kind e = Rejected \<longleftrightarrow> status \<in> {400, 422}) \<and> (re_kind e = NotAuthenticated \<longleftrightarrow> status = 401) \<and>
    (re_kind e = Forbidden \<longleftrightarrow> status = 403) \<and> (re_kind e = NotFound \<longleftrightarrow> status = 404) \<and>
    (if refuses_fields status body then
       (\<exists>b a. cut_at (separator_of (lower_text (raw_message body))) (raw_message body) b a \<and>
         re_message e = headline_of U b \<and> reason_of e = sentence_of U a \<and> re_hint e = Some check_fields)
     else case lookup_error service (error_code_of body) of
       Some m \<Rightarrow>
         if adds_to U body m
         then re_message e = operation_failed_headline U method resource \<and> reason_of e = server_words body \<and> re_hint e = None
         else re_message e = em_message m \<and> re_hint e = em_suggestion m \<and>
              reason_of e = (case em_reason m of Some r \<Rightarrow> Some r | None \<Rightarrow> server_words body)
     | None \<Rightarrow>
         server_words body = None \<or> status \<in> {400, 422, 501} \<or>
         reason_of e = server_words body \<or> Some (re_message e) = server_words body)"
proof -
  have kind: "(derive_runtime_error_kind status body = Rejected \<longleftrightarrow> status \<in> {400, 422}) \<and>
      (derive_runtime_error_kind status body = NotAuthenticated \<longleftrightarrow> status = 401) \<and>
      (derive_runtime_error_kind status body = Forbidden \<longleftrightarrow> status = 403) \<and>
      (derive_runtime_error_kind status body = NotFound \<longleftrightarrow> status = 404)"
    by (auto simp: derive_runtime_error_kind_def)
  show ?thesis
  proof (cases "refuses_fields status body")
    case True
    from classify_refused [OF ascii True] obtain b a md where
      r: "cut_at (separator_of (lower_text (raw_message body))) (raw_message body) b a"
        "md_reason md = sentence_of U a" "md_suggestion md = Some check_fields"
      and c: "classify_error_message_and_metadata U status body service resource method = Some (headline_of U b, Some md)"
      by blast
    from classify_fields [OF c] r kind show ?thesis unfolding if_P [OF True] by metis
  next
    case False
    show ?thesis
    proof (cases "lookup_error service (error_code_of body)")
      case (Some m)
      from classify_curated [OF ascii False Some] obtain msg md where
        c: "classify_error_message_and_metadata U status body service resource method = Some (msg, Some md)"
        and r: "if adds_to U body m
          then msg = operation_failed_headline U method resource \<and> md_reason md = server_words body \<and> md_suggestion md = None
          else msg = em_message m \<and> md_suggestion md = em_suggestion m \<and>
               md_reason md = (case em_reason m of Some x \<Rightarrow> Some x | None \<Rightarrow> server_words body)"
        by blast
      from classify_fields [OF c] obtain e where
        "classify_to_runtime_error U status body service resource method = Some e"
        "re_kind e = derive_runtime_error_kind status body" "re_message e = msg" "reason_of e = md_reason md"
        "re_hint e = md_suggestion md" by blast
      with r kind show ?thesis
        unfolding if_not_P [OF False] Some option.case
        by (intro exI [of _ e], cases "adds_to U body m") simp_all
    next
      case None
      from classify_by_status [OF ascii False None] obtain msg md where
        "classify_error_message_and_metadata U status body service resource method = Some (msg, md)"
        "server_words body = None \<or> status = 400 \<or> status = 422 \<or> status = 501 \<or>
          Option.bind md md_reason = server_words body \<or> Some msg = server_words body" by blast
      then show ?thesis
        unfolding if_not_P [OF False] None option.case using kind
        by (cases md) (auto simp: classify_to_runtime_error_def reason_of_def)
    qed
  qed
qed

text \<open>A code of a service with a curated message, an echo of it and a message that says more, and a refused body.\<close>

definition error_body :: "int \<Rightarrow> string \<Rightarrow> json" where
  "error_body code msg = JObj [(''errorCode'', JInt code), (''errorMessage'', JStr msg)]"

lemma legal_code:
  "lookup_error ''legal'' 40035 = Some (curated ''Legal policy version not found''
     (Some ''The requested policy version does not exist.'')
     (Some ''Run 'ags legal policies list' to see available policies.'') None)"
  by code_simp

theorem classification_on_ascii_witness:
  "(\<exists>e. classify_to_runtime_error ascii_only 404 (error_body 40035 ''Version 7 was retired.'') ''legal'' ''policies'' ''get'' = Some e \<and>
      re_kind e = NotFound \<and> re_message e = ''Get policy failed'' \<and>
      reason_of e = Some ''Version 7 was retired.'' \<and> re_hint e = None) \<and>
   (\<exists>e. classify_to_runtime_error ascii_only 404 (error_body 40035 ''legal policy version not found.'') ''legal'' ''policies'' ''get'' = Some e \<and>
      re_message e = ''Legal policy version not found'' \<and>
      re_hint e = Some ''Run 'ags legal policies list' to see available policies.'')"
proof -
  let ?m = "curated ''Legal policy version not found'' (Some ''The requested policy version does not exist.'')
     (Some ''Run 'ags legal policies list' to see available policies.'') None"
  let ?more = "error_body 40035 ''Version 7 was retired.''" and ?echo = "error_body 40035 ''legal policy version not found.''"
  have ascii: "is_ascii (raw_message ?more)" "is_ascii (raw_message ?echo)" by code_simp+
  have code: "error_code_of ?more = 40035" "error_code_of ?echo = 40035" by code_simp+
  have calm: "\<not> refuses_fields 404 b" for b by (simp add: refuses_fields_def)
  have adds: "adds_to ascii_only ?more ?m" "\<not> adds_to ascii_only ?echo ?m" by code_simp+
  have texts: "operation_failed_headline ascii_only ''get'' ''policies'' = ''Get policy failed''"
    "server_words ?more = Some ''Version 7 was retired.''"
    "em_message ?m = ''Legal policy version not found''"
    "em_suggestion ?m = Some ''Run 'ags legal policies list' to see available policies.''" by code_simp+
  note run = classification_on_ascii [of _ ascii_only 404 "''legal''" "''policies''" "''get''"]
  have "\<exists>e. classify_to_runtime_error ascii_only 404 ?more ''legal'' ''policies'' ''get'' = Some e \<and>
      re_kind e = NotFound \<and> re_message e = ''Get policy failed'' \<and>
      reason_of e = Some ''Version 7 was retired.'' \<and> re_hint e = None"
    using run [OF ascii(1)] unfolding if_not_P [OF calm] code legal_code option.case if_P [OF adds(1)] texts by blast
  moreover have "\<exists>e. classify_to_runtime_error ascii_only 404 ?echo ''legal'' ''policies'' ''get'' = Some e \<and>
      re_message e = ''Legal policy version not found'' \<and>
      re_hint e = Some ''Run 'ags legal policies list' to see available policies.''"
    using run [OF ascii(2)] unfolding if_not_P [OF calm] code legal_code option.case if_not_P [OF adds(2)] texts by blast
  ultimately show ?thesis by (rule conjI)
qed

section \<open>Beyond the property\<close>

text \<open>Outside ASCII the byte position belongs to another text: the lower case of a capital I with a dot is one byte longer,
  so \<open>details:\<close> is cut one byte late, and next to a character of two bytes the program panics.\<close>

definition dotted_i :: string where "dotted_i = [CHR 0xC4, CHR 0xB0]"

definition turkish :: unicode where
  "turkish = \<lparr>un_lower = (\<lambda>s. concat (map (\<lambda>c. if c = CHR 0xC4 then ''i'' @ [CHR 0xCC] else if c = CHR 0xB0 then [CHR 0x87] else [c]) s)),
     un_upper = id, un_is_upper = (\<lambda>_. False)\<rparr>"

lemma split_is_misplaced:
  "split_validation_error_message turkish (dotted_i @ ''d field details: too long'') =
      Some (dotted_i @ ''d field d'', Some ''Too long.'')"
  by code_simp

lemma split_panics:
  "split_validation_error_message turkish (dotted_i @ ''details:'' @ dotted_i) = None"
  by code_simp

end
