(* ===== verification/TimeText.thy ===== *)
theory TimeText
  imports RustStr
begin

text \<open>
  Human-readable timestamps, \<open>ags-runtime/src/support/time.rs\<close>: reading an RFC 3339 text, converting it to UTC by
  the count of days since 1970-01-01 and back, and printing it. An \<open>i64\<close> is an integer whose arithmetic wraps as in a
  release build; \<open>/\<close> of Rust truncates. The reference is the proleptic Gregorian calendar as a rule for the next day.
\<close>

section \<open>Numbers\<close>

definition wrap64 :: "int \<Rightarrow> int" where
  "wrap64 i = (i + 2 ^ 63) mod 2 ^ 64 - 2 ^ 63"

text \<open>Division that truncates towards zero.\<close>

definition quotient :: "int \<Rightarrow> int \<Rightarrow> int" where
  "quotient a b = (if a < 0 then - ((- a) div b) else a div b)"

definition parse_digits :: "string \<Rightarrow> nat option" where
  "parse_digits s = (if s = [] then None else digits_value 0 s)"

definition parse_i64 :: "string \<Rightarrow> int option" where
  "parse_i64 s =
     (let signed = (\<lambda>g ds. case parse_digits ds of
                       None \<Rightarrow> None
                     | Some n \<Rightarrow> if - (2 ^ 63) \<le> g * int n \<and> g * int n < 2 ^ 63 then Some (g * int n) else None)
      in case s of
           [] \<Rightarrow> None
         | c # cs \<Rightarrow> if c = CHR ''-'' then signed (- 1) cs
                     else if c = CHR ''+'' then signed 1 cs else signed 1 s)"

definition parse_u32 :: "string \<Rightarrow> int option" where
  "parse_u32 s =
     (let ds = (case s of c # cs \<Rightarrow> if c = CHR ''+'' then cs else s | [] \<Rightarrow> [])
      in case parse_digits ds of Some n \<Rightarrow> if int n < 2 ^ 32 then Some (int n) else None | None \<Rightarrow> None)"

definition split_once :: "char \<Rightarrow> string \<Rightarrow> (string \<times> string) option" where
  "split_once d s =
     (case from_match (\<lambda>c. c = d) s of [] \<Rightarrow> None | _ # r \<Rightarrow> Some (before_match (\<lambda>c. c = d) s, r))"

text \<open>The three pieces of \<open>splitn(3, d)\<close>, when there are three.\<close>

definition split_three :: "char \<Rightarrow> string \<Rightarrow> (string \<times> string \<times> string) option" where
  "split_three d s =
     (case split_once d s of
        None \<Rightarrow> None
      | Some (a, r) \<Rightarrow> (case split_once d r of None \<Rightarrow> None | Some (b, c) \<Rightarrow> Some (a, b, c)))"

section \<open>Dates\<close>

definition days_from_civil :: "int \<Rightarrow> int \<Rightarrow> int \<Rightarrow> int" where
  "days_from_civil year m d =
     (let y = (if m \<le> 2 then wrap64 (year - 1) else year);
          era = quotient (if y \<ge> 0 then y else wrap64 (y - 399)) 400;
          yoe = wrap64 (y - era * 400);
          mp = (m + 9) mod 12;
          doy = quotient (153 * mp + 2) 5 + d - 1;
          doe = wrap64 (yoe * 365 + quotient yoe 4 - quotient yoe 100 + doy)
      in wrap64 (era * 146097 + doe - 719468))"

definition civil_from_days :: "int \<Rightarrow> int \<times> int \<times> int" where
  "civil_from_days days =
     (let z = days + 719468;
          era = quotient (if z \<ge> 0 then z else z - 146096) 146097;
          doe = z - era * 146097;
          yoe = (doe - doe div 1460 + doe div 36524 - doe div 146096) div 365;
          y = yoe + era * 400;
          doy = doe - (365 * yoe + yoe div 4 - yoe div 100);
          mp = (5 * doy + 2) div 153;
          d = doy - (153 * mp + 2) div 5 + 1;
          m = (if mp < 10 then mp + 3 else mp - 9)
      in (if m \<le> 2 then y + 1 else y, m, d))"

section \<open>Timestamps\<close>

text \<open>The text before the last sign, the sign and the text after it.\<close>

definition rsplit_sign :: "string \<Rightarrow> (string \<times> char \<times> string) option" where
  "rsplit_sign s =
     (let is_sign = (\<lambda>c. c = CHR ''+'' \<or> c = CHR ''-'')
      in case from_match is_sign (rev s) of
           [] \<Rightarrow> None
         | c # r \<Rightarrow> Some (rev r, c, rev (before_match is_sign (rev s))))"

definition split_offset :: "string \<Rightarrow> (string \<times> int) option" where
  "split_offset time =
     (case strip_suffix ''Z'' time of
        Some t \<Rightarrow> Some (t, 0)
      | None \<Rightarrow>
          (case rsplit_sign time of
             None \<Rightarrow> None
           | Some (t, c, offset) \<Rightarrow>
               (case split_once CHR '':'' offset of
                  None \<Rightarrow> None
                | Some (oh_str, om_str) \<Rightarrow>
                    (case (parse_i64 oh_str, parse_i64 om_str) of
                       (Some oh, Some om) \<Rightarrow>
                         Some (t, wrap64 ((if c = CHR ''-'' then - 1 else 1) * (oh * 3600 + om * 60)))
                     | _ \<Rightarrow> None))))"

definition month_names :: "string list" where
  "month_names =
     [''Jan'', ''Feb'', ''Mar'', ''Apr'', ''May'', ''Jun'', ''Jul'', ''Aug'', ''Sep'', ''Oct'', ''Nov'', ''Dec'']"

definition two_digits :: "int \<Rightarrow> string" where
  "two_digits i = (if 0 \<le> i \<and> i < 10 then ''0'' @ show_int i else show_int i)"

definition utc_text :: "int \<Rightarrow> string" where
  "utc_text total_seconds =
     (let days_utc = total_seconds div 86400;
          sec_of_day = total_seconds mod 86400;
          (y, m, d) = civil_from_days days_utc;
          h = sec_of_day div 3600;
          rest = sec_of_day mod 3600
      in month_names ! nat (m - 1) @ '' '' @ show_int d @ '', '' @ show_int y @ '', '' @
         two_digits h @ '':'' @ two_digits (rest div 60) @ '':'' @ two_digits (rest mod 60) @ '' UTC'')"

definition parse_rfc3339_utc :: "string \<Rightarrow> string option" where
  "parse_rfc3339_utc raw =
     Option.bind (split_once CHR ''T'' raw) (\<lambda>(date, rest).
     Option.bind (split_three CHR ''-'' date) (\<lambda>(ys, ms, ds).
     Option.bind (parse_i64 ys) (\<lambda>year.
     Option.bind (parse_u32 ms) (\<lambda>month.
     Option.bind (parse_u32 ds) (\<lambda>day.
     Option.bind (split_offset rest) (\<lambda>(time, offset_seconds).
     Option.bind (split_three CHR '':'' (before_match (\<lambda>c. c = CHR ''.'') time)) (\<lambda>(hs, mins, ss).
     Option.bind (parse_i64 hs) (\<lambda>hour.
     Option.bind (parse_i64 mins) (\<lambda>minute.
     Option.bind (parse_i64 ss) (\<lambda>second.
       Some (utc_text (wrap64
         (days_from_civil year month day * 86400 + hour * 3600 + minute * 60 + second - offset_seconds)))))))))))))"

definition format_rfc3339_human :: "string \<Rightarrow> string" where
  "format_rfc3339_human raw = (case parse_rfc3339_utc raw of Some t \<Rightarrow> t | None \<Rightarrow> raw)"

section \<open>The calendar\<close>

definition leap_year :: "int \<Rightarrow> bool" where
  "leap_year y \<longleftrightarrow> 4 dvd y \<and> (\<not> 100 dvd y \<or> 400 dvd y)"

definition days_in_month :: "int \<Rightarrow> int \<Rightarrow> int" where
  "days_in_month y m =
     (if m = 2 then if leap_year y then 29 else 28
      else if m \<in> {4, 6, 9, 11} then 30 else 31)"

definition valid_date :: "int \<times> int \<times> int \<Rightarrow> bool" where
  "valid_date = (\<lambda>(y, m, d). 1 \<le> m \<and> m \<le> 12 \<and> 1 \<le> d \<and> d \<le> days_in_month y m)"

definition next_day :: "int \<times> int \<times> int \<Rightarrow> int \<times> int \<times> int" where
  "next_day = (\<lambda>(y, m, d).
     if d < days_in_month y m then (y, m, d + 1)
     else if m < 12 then (y, m + 1, 1)
     else (y + 1, 1, 1))"

text \<open>Years whose day count fits in 64 bits.\<close>

definition usual_year :: "int \<Rightarrow> bool" where
  "usual_year y \<longleftrightarrow> - 1000000000000000 \<le> y \<and> y \<le> 1000000000000000"

lemma wrap64_id: "- (2 ^ 63) \<le> i \<Longrightarrow> i < 2 ^ 63 \<Longrightarrow> wrap64 i = i"
  by (simp add: wrap64_def)

lemma quotient_div: "quotient a b = a div b" if "0 \<le> a"
  using that by (simp add: quotient_def)

text \<open>The floor of a quotient, as the code computes it with a truncating division.\<close>

lemma quotient_floor:
  assumes "0 < b"
  shows "quotient (if y \<ge> 0 then y else y - (b - 1)) b = y div b"
proof (cases "y \<ge> 0")
  case False
  have "- ((b - 1 - y) div b) = y div b"
  proof -
    have "(b - 1 - y) div b = - (y div b)"
    proof (rule int_div_pos_eq [where r = "b - 1 - y mod b", symmetric, THEN sym])
      show "b - 1 - y = b * - (y div b) + (b - 1 - y mod b)"
        using mult_div_mod_eq [of b y] by (simp only: mult_minus_right)
      show "0 \<le> b - 1 - y mod b" "b - 1 - y mod b < b" using assms pos_mod_bound [of b y] pos_mod_sign [of b y] by linarith+
    qed
    then show ?thesis by simp
  qed
  with False assms show ?thesis by (simp add: quotient_def algebra_simps)
qed (simp add: quotient_def)

text \<open>The day a March-based year starts on, counted from the first of March of year zero.\<close>

definition year_start :: "int \<Rightarrow> int" where
  "year_start y = 365 * y + y div 4 - y div 100 + y div 400"

definition day_of_year :: "int \<Rightarrow> int \<Rightarrow> int" where
  "day_of_year m d = (153 * ((m + 9) mod 12) + 2) div 5 + d - 1"

lemma era_days:
  fixes y :: int
  defines "e \<equiv> y div 400" and "r \<equiv> y - y div 400 * 400"
  shows "e * 146097 + (r * 365 + r div 4 - r div 100) = year_start y"
proof -
  have y: "y = 400 * e + r" by (simp add: e_def r_def)
  have r: "0 \<le> r" "r < 400" by (simp_all add: r_def minus_div_mult_eq_mod)
  have "y div 4 = 100 * e + r div 4" "y div 100 = 4 * e + r div 100" using r unfolding y by linarith+
  moreover have "y div 400 = e" by (simp add: e_def)
  ultimately show ?thesis unfolding year_start_def by (simp add: y)
qed

definition march_year :: "int \<Rightarrow> int \<Rightarrow> int" where
  "march_year y m = (if m \<le> 2 then y - 1 else y)"

lemma month_bounds:
  assumes "1 \<le> m" "m \<le> 12"
  shows "m \<in> {1, 2, 3, 4, 5, 6, 7, 8, 9, 10, 11, 12 :: int}"
  using assms by (simp add: numeral_eq_Suc) presburger

lemma days_from_civil_eq:
  assumes y: "usual_year y" and m: "1 \<le> m" "m \<le> 12" and d: "1 \<le> d" "d \<le> 31"
  shows "days_from_civil y m d = year_start (march_year y m) + day_of_year m d - 719468"
proof -
  define Y where "Y = march_year y m"
  define e where "e = Y div 400"
  define r where "r = Y - e * 400"
  have Y: "- 1000000000000001 \<le> Y" "Y \<le> 1000000000000000" using y by (auto simp: Y_def march_year_def usual_year_def)
  have e: "- 10000000000000 \<le> e" "e \<le> 10000000000000" using Y unfolding e_def by linarith+
  have r: "0 \<le> r" "r < 400" by (simp_all add: r_def e_def minus_div_mult_eq_mod)
  have mp: "0 \<le> (m + 9) mod 12" "(m + 9) mod 12 < 12" by simp_all
  then have doy: "0 \<le> day_of_year m d" "day_of_year m d \<le> 400"
    using d unfolding day_of_year_def by linarith+
  have w1: "(if m \<le> 2 then wrap64 (y - 1) else y) = Y"
    using y by (simp add: Y_def march_year_def wrap64_id usual_year_def)
  have w2: "quotient (if Y \<ge> 0 then Y else wrap64 (Y - 399)) 400 = e"
    using quotient_floor [of 400 Y] Y by (cases "Y \<ge> 0") (simp_all add: e_def wrap64_id)
  have w3: "wrap64 (Y - e * 400) = r" using r by (simp add: r_def wrap64_id)
  have q: "quotient (153 * ((m + 9) mod 12) + 2) 5 + d - 1 = day_of_year m d"
    using mp by (simp add: quotient_div day_of_year_def)
  have q2: "quotient r 4 = r div 4" "quotient r 100 = r div 100" using r by (simp_all add: quotient_div)
  have doe: "0 \<le> r * 365 + r div 4 - r div 100 + day_of_year m d" "r * 365 + r div 4 - r div 100 + day_of_year m d \<le> 200000"
    using r doy by linarith+
  have "days_from_civil y m d = e * 146097 + (r * 365 + r div 4 - r div 100 + day_of_year m d) - 719468"
    using e doe unfolding days_from_civil_def Let_def w1 w2 w3 q q2 by (simp add: wrap64_id)
  also have "\<dots> = year_start Y + day_of_year m d - 719468"
    using era_days [of Y] unfolding e_def [symmetric] r_def [symmetric] by simp
  finally show ?thesis by (simp add: Y_def)
qed

lemma div_succ:
  fixes k :: int
  assumes "0 < k"
  shows "(y + 1) div k = y div k + (if k dvd y + 1 then 1 else 0)"
proof (cases "k dvd y + 1")
  case True
  then obtain t where t: "y + 1 = k * t" by blast
  then have "y = k * (t - 1) + (k - 1)" by (simp add: right_diff_distrib)
  then have "y div k = t - 1" using assms by (intro int_div_pos_eq [of y k "t - 1" "k - 1"]) auto
  with True t assms show ?thesis by simp
next
  case False
  have y: "y + 1 = k * (y div k) + (y mod k + 1)" by simp
  have "y mod k + 1 \<noteq> k"
  proof
    assume "y mod k + 1 = k"
    with y have "y + 1 = k * (y div k + 1)" by (simp add: distrib_left)
    then show False using False by simp
  qed
  moreover have "0 \<le> y mod k" "y mod k < k" using assms by simp_all
  ultimately have "(y + 1) div k = y div k" by (intro int_div_pos_eq [OF y]) auto
  with False show ?thesis by simp
qed

lemma year_start_leap: "year_start (y + 1) = year_start y + (if leap_year (y + 1) then 366 else 365)"
proof -
  have d: "400 dvd y + 1 \<Longrightarrow> 100 dvd y + 1" "100 dvd y + 1 \<Longrightarrow> 4 dvd y + 1"
    by (rule dvd_trans [rotated], assumption, simp)+
  have "(y + 1) div 4 = y div 4 + (if 4 dvd y + 1 then 1 else 0)"
    "(y + 1) div 100 = y div 100 + (if 100 dvd y + 1 then 1 else 0)"
    "(y + 1) div 400 = y div 400 + (if 400 dvd y + 1 then 1 else 0)"
    by (rule div_succ, simp)+
  then show ?thesis
    using d unfolding year_start_def leap_year_def by (cases "4 dvd y + 1"; cases "100 dvd y + 1"; cases "400 dvd y + 1"; simp only: if_True if_False; simp)
qed

lemma next_day_counts:
  assumes "valid_date (y, m, d)" "usual_year y" "usual_year (y + 1)"
  shows "(case next_day (y, m, d) of (y', m', d') \<Rightarrow> days_from_civil y' m' d') = days_from_civil y m d + 1"
proof -
  from assms(1) have m: "1 \<le> m" "m \<le> 12" and d: "1 \<le> d" "d \<le> days_in_month y m" by (auto simp: valid_date_def)
  have "days_in_month y m \<le> 31" by (simp add: days_in_month_def)
  with d have d31: "d \<le> 31" by simp
  show ?thesis
  proof (cases "d < days_in_month y m")
    case True
    with m d d31 assms show ?thesis
      using \<open>days_in_month y m \<le> 31\<close> by (simp add: next_day_def days_from_civil_eq day_of_year_def)
  next
    case False
    with d have dm: "d = days_in_month y m" by simp
    show ?thesis
      using month_bounds [OF m] dm d31 d(1) assms(2,3) year_start_leap [of "y - 1"]
      by (auto simp: next_day_def days_from_civil_eq day_of_year_def march_year_def days_in_month_def)
  qed
qed

lemma civil_from_days_eq:
  assumes doy: "0 \<le> D" "D \<le> 365" "D = 365 \<Longrightarrow> leap_year (Y + 1)"
  shows "civil_from_days (year_start Y + D - 719468) =
    (let mp = (5 * D + 2) div 153; m = (if mp < 10 then mp + 3 else mp - 9)
     in (if m \<le> 2 then Y + 1 else Y, m, D - (153 * mp + 2) div 5 + 1))"
proof -
  define e where "e = Y div 400"
  define r where "r = Y - e * 400"
  have r: "0 \<le> r" "r < 400" by (simp_all add: r_def e_def minus_div_mult_eq_mod)
  define c where "c = r div 100"
  define q where "q = (r - 100 * c) div 4"
  define s where "s = r - 100 * c - 4 * q"
  have c: "0 \<le> c" "c \<le> 3" using r unfolding c_def by linarith+
  have rc: "0 \<le> r - 100 * c" "r - 100 * c < 100" using r unfolding c_def by linarith+
  have q: "0 \<le> q" "q \<le> 24" using rc unfolding q_def by linarith+
  have s: "0 \<le> s" "s \<le> 3" using rc unfolding s_def q_def by linarith+
  have rr: "r = 100 * c + 4 * q + s" by (simp add: s_def)
  have r4: "r div 4 = 25 * c + q" using s unfolding rr by linarith
  have r100: "r div 100 = c" by (simp add: c_def)
  have Ye: "Y + 1 = 400 * e + (100 * c + 4 * q + s + 1)" using rr by (simp add: r_def)
  have last: "s = 3 \<and> (q = 24 \<longrightarrow> c = 3)" if "D = 365"
  proof -
    from doy(3) [OF that] have leap: "4 dvd Y + 1" "100 dvd Y + 1 \<longrightarrow> 400 dvd Y + 1" by (auto simp: leap_year_def)
    have "Y + 1 = 4 * (100 * e + 25 * c + q) + (s + 1)" unfolding Ye by simp
    with leap(1) have "4 dvd s + 1" by (metis dvd_add_right_iff dvd_triv_left)
    with s have "s = 3" by presburger
    moreover have "c = 3" if "q = 24"
    proof -
      have Y100: "Y + 1 = 100 * (4 * e + (c + 1))" using \<open>s = 3\<close> \<open>q = 24\<close> unfolding Ye by simp
      have "100 dvd Y + 1" unfolding Y100 by (rule dvd_triv_left)
      with leap(2) have "400 dvd Y + 1" by blast
      then have "100 * 4 dvd 100 * (4 * e + (c + 1))" unfolding Y100 by simp
      then have "4 dvd 4 * e + (c + 1)" by (simp only: dvd_mult_cancel_left) simp
      then have "4 dvd c + 1" by (metis dvd_add_right_iff dvd_triv_left)
      with c show ?thesis by presburger
    qed
    ultimately show ?thesis by simp
  qed
  define doe where "doe = r * 365 + r div 4 - r div 100 + D"
  have doe: "doe = 36524 * c + 1461 * q + 365 * s + D" unfolding doe_def r4 r100 by (simp add: rr)
  have doe_bounds: "doe \<le> 146096" "0 \<le> doe"
    unfolding doe using c q s doy last by (cases "D = 365"; cases "q = 24"; linarith)+
  define E where "E = 24 * c + q + 365 * s + D"
  have E: "0 \<le> E" "E < 2920" "D = 365 \<Longrightarrow> 1460 \<le> E" "D = 0 \<Longrightarrow> E < 1460"
    using c q s doy last unfolding E_def by linarith+
  have late: "0 \<le> D - E div 1460" "D - E div 1460 < 365" using E doy by (cases "D = 365"; cases "D = 0"; linarith)+
  have "doe = E + 1460 * (25 * c + q)" unfolding doe E_def by simp
  then have d1: "doe div 1460 = 25 * c + q + E div 1460" by simp
  have d2: "doe div 36524 - doe div 146096 = c"
  proof (cases "doe = 146096")
    case True
    then have "c = 3" using c q s doy(2) unfolding doe by linarith
    with True show ?thesis by simp
  next
    case False
    have "1461 * q + 365 * s + D < 36524"
    proof (cases "D = 365 \<and> q = 24")
      case True
      with last have "doe = 146096" unfolding doe by simp
      with False show ?thesis ..
    next
      case no: False
      show ?thesis
      proof (cases "D = 365")
        case True
        with no q have "q \<le> 23" by simp
        with True s show ?thesis by simp
      next
        case False
        with doy q s show ?thesis by linarith
      qed
    qed
    then have "doe div 36524 = c"
      using q s doy by (intro int_div_pos_eq [of doe 36524 c "1461 * q + 365 * s + D"]) (auto simp: doe)
    moreover have "doe div 146096 = 0" using False doe_bounds by simp
    ultimately show ?thesis by simp
  qed
  have "doe - doe div 1460 + doe div 36524 - doe div 146096 = 365 * r + (D - E div 1460)"
  proof -
    have "doe - doe div 1460 + doe div 36524 - doe div 146096 =
        doe - doe div 1460 + (doe div 36524 - doe div 146096)" by simp
    also have "\<dots> = doe - (25 * c + q + E div 1460) + c" unfolding d1 d2 ..
    also have "\<dots> = 365 * r + (D - E div 1460)" unfolding doe rr by simp
    finally show ?thesis .
  qed
  then have yoe: "(doe - doe div 1460 + doe div 36524 - doe div 146096) div 365 = r"
    using late by (intro int_div_pos_eq) auto
  have start: "year_start Y = e * 146097 + (r * 365 + r div 4 - r div 100)"
    using era_days [of Y] unfolding e_def [symmetric] r_def [symmetric] by simp
  define z where "z = year_start Y + D"
  have z: "z = 146097 * e + doe" by (simp add: z_def start doe_def)
  have "z div 146097 = e" using doe_bounds by (intro int_div_pos_eq [OF z]) auto
  then have era: "quotient (if z \<ge> 0 then z else z - 146096) 146097 = e"
    using quotient_floor [of 146097 z] by (cases "z \<ge> 0") simp_all
  have doe': "z - e * 146097 = doe" by (simp add: z)
  have doy': "doe - (365 * r + r div 4 - r div 100) = D" by (simp add: doe_def)
  have year: "r + e * 400 = Y" by (simp add: r_def)
  have zz: "year_start Y + D - 719468 + 719468 = z" by (simp add: z_def)
  show ?thesis
    unfolding civil_from_days_def zz Let_def era doe' yoe doy' year ..
qed

lemma month_day_inverse:
  assumes m: "1 \<le> m" "m \<le> 12" and d: "1 \<le> d" "d \<le> days_in_month y m"
  shows "(let mp = (5 * day_of_year m d + 2) div 153; m' = (if mp < 10 then mp + 3 else mp - 9)
     in (if m' \<le> 2 then march_year y m + 1 else march_year y m, m', day_of_year m d - (153 * mp + 2) div 5 + 1)) = (y, m, d)"
proof -
  have mp: "(5 * day_of_year m d + 2) div 153 = (m + 9) mod 12"
    using month_bounds [OF m] d
    by (elim insertE emptyE; simp add: day_of_year_def days_in_month_def split: if_splits; linarith)
  show ?thesis
    unfolding mp using month_bounds [OF m]
    by (elim insertE emptyE) (simp_all add: day_of_year_def march_year_def)
qed

lemma day_of_year_bounds:
  assumes m: "1 \<le> m" "m \<le> 12" and d: "1 \<le> d" "d \<le> days_in_month y m"
  shows "0 \<le> day_of_year m d" "day_of_year m d \<le> 365" "day_of_year m d = 365 \<Longrightarrow> leap_year (march_year y m + 1)"
  using month_bounds [OF m] d
  by (elim insertE emptyE; simp add: day_of_year_def days_in_month_def march_year_def split: if_splits)+

lemma civil_days_inverse:
  assumes "valid_date (y, m, d)" "usual_year y"
  shows "civil_from_days (days_from_civil y m d) = (y, m, d)"
proof -
  from assms(1) have m: "1 \<le> m" "m \<le> 12" and d: "1 \<le> d" "d \<le> days_in_month y m" by (auto simp: valid_date_def)
  have "days_in_month y m \<le> 31" by (simp add: days_in_month_def)
  with d have d31: "d \<le> 31" by simp
  show ?thesis
    unfolding days_from_civil_eq [OF assms(2) m d(1) d31]
    by (subst civil_from_days_eq) (simp_all only: day_of_year_bounds [OF m d] month_day_inverse [OF m d])
qed

text \<open>Every day falls in some year, so the month of a day always has a name.\<close>

lemma day_in_some_year: "\<exists>Y D. z = year_start Y + D \<and> 0 \<le> D \<and> D \<le> 365 \<and> (D = 365 \<longrightarrow> leap_year (Y + 1))"
proof (induction z rule: int_induct [of _ 0])
  case base
  have "0 = year_start 0 + 0" by (simp add: year_start_def)
  then show ?case by (intro exI [of _ 0]) simp
next
  case (step1 i)
  then obtain Y D where i: "i = year_start Y + D" and D: "0 \<le> D" "D \<le> 365" "D = 365 \<longrightarrow> leap_year (Y + 1)" by blast
  show ?case
  proof (cases "D + 1 < (if leap_year (Y + 1) then 366 else 365)")
    case True
    with i D show ?thesis by (intro exI [of _ Y] exI [of _ "D + 1"]) (auto split: if_splits)
  next
    case False
    with D have "D + 1 = (if leap_year (Y + 1) then 366 else 365)" by (auto split: if_splits)
    with i have "i + 1 = year_start (Y + 1) + 0" using year_start_leap [of Y] by simp
    then show ?thesis by (intro exI [of _ "Y + 1"] exI [of _ 0]) simp
  qed
next
  case (step2 i)
  then obtain Y D where i: "i = year_start Y + D" and D: "0 \<le> D" "D \<le> 365" "D = 365 \<longrightarrow> leap_year (Y + 1)" by blast
  show ?case
  proof (cases "D = 0")
    case False
    with i D show ?thesis by (intro exI [of _ Y] exI [of _ "D - 1"]) auto
  next
    case True
    with i have "i - 1 = year_start (Y - 1) + (if leap_year Y then 365 else 364)" using year_start_leap [of "Y - 1"] by simp
    then show ?thesis by (intro exI [of _ "Y - 1"] exI [of _ "if leap_year Y then 365 else 364"]) simp
  qed
qed

lemma month_in_range:
  assumes "civil_from_days z = (y, m, d)"
  shows "1 \<le> m" "m \<le> 12"
proof -
  obtain Y D where z: "z + 719468 = year_start Y + D" and D: "0 \<le> D" "D \<le> 365" "D = 365 \<longrightarrow> leap_year (Y + 1)"
    using day_in_some_year [of "z + 719468"] by blast
  from z have "z = year_start Y + D - 719468" by simp
  with assms civil_from_days_eq [OF D(1,2), of Y] D(3)
  have m: "m = (if (5 * D + 2) div 153 < 10 then (5 * D + 2) div 153 + 3 else (5 * D + 2) div 153 - 9)"
    by (simp add: Let_def)
  have "0 \<le> (5 * D + 2) div 153" "(5 * D + 2) div 153 < 12" using D(1,2) by linarith+
  then show "1 \<le> m" "m \<le> 12" unfolding m by (auto split: if_splits)
qed

lemma utc_text_parts:
  assumes date: "valid_date (y, m, d)" "usual_year y" and s: "0 \<le> s" "s < 86400"
  shows "utc_text (days_from_civil y m d * 86400 + s) =
    month_names ! nat (m - 1) @ '' '' @ show_int d @ '', '' @ show_int y @ '', '' @
    two_digits (s div 3600) @ '':'' @ two_digits (s mod 3600 div 60) @ '':'' @ two_digits (s mod 3600 mod 60) @ '' UTC''"
proof -
  have "(days_from_civil y m d * 86400 + s) div 86400 = days_from_civil y m d"
    "(days_from_civil y m d * 86400 + s) mod 86400 = s" using s by (simp_all add: mod_pos_pos_trivial)
  then show ?thesis unfolding utc_text_def Let_def using civil_days_inverse [OF date] by simp
qed

text \<open>C40. The dates shown are those of the Gregorian calendar: the day number is zero on 1970-01-01 and grows by one
  from each day to the next, reading it back gives the date, a time of day is shown with its hours, minutes and
  seconds, and the month of any day number has a name, so the display cannot panic there.\<close>

theorem timestamps_exact:
  assumes "valid_date (y, m, d)" "usual_year y" "usual_year (y + 1)" "0 \<le> s" "s < 86400"
  shows "days_from_civil 1970 1 1 = 0 \<and>
    (case next_day (y, m, d) of (y', m', d') \<Rightarrow> days_from_civil y' m' d') = days_from_civil y m d + 1 \<and>
    civil_from_days (days_from_civil y m d) = (y, m, d) \<and>
    utc_text (days_from_civil y m d * 86400 + s) =
      month_names ! nat (m - 1) @ '' '' @ show_int d @ '', '' @ show_int y @ '', '' @
      two_digits (s div 3600) @ '':'' @ two_digits (s mod 3600 div 60) @ '':'' @ two_digits (s mod 3600 mod 60) @ '' UTC'' \<and>
    (\<forall>days. case civil_from_days days of (_, m', _) \<Rightarrow> nat (m' - 1) < length month_names)"
proof (intro conjI)
  show "days_from_civil 1970 1 1 = 0" by code_simp
  show "(case next_day (y, m, d) of (y', m', d') \<Rightarrow> days_from_civil y' m' d') = days_from_civil y m d + 1"
    by (rule next_day_counts [OF assms(1,2,3)])
  show "civil_from_days (days_from_civil y m d) = (y, m, d)" by (rule civil_days_inverse [OF assms(1,2)])
  show "utc_text (days_from_civil y m d * 86400 + s) =
      month_names ! nat (m - 1) @ '' '' @ show_int d @ '', '' @ show_int y @ '', '' @
      two_digits (s div 3600) @ '':'' @ two_digits (s mod 3600 div 60) @ '':'' @ two_digits (s mod 3600 mod 60) @ '' UTC''"
    by (rule utc_text_parts [OF assms(1,2,4,5)])
  show "\<forall>days. case civil_from_days days of (_, m', _) \<Rightarrow> nat (m' - 1) < length month_names"
  proof
    fix days
    obtain y' m' d' where c: "civil_from_days days = (y', m', d')" by (cases "civil_from_days days") auto
    with month_in_range [OF c] show "case civil_from_days days of (_, m', _) \<Rightarrow> nat (m' - 1) < length month_names"
      by (simp add: month_names_def)
  qed
qed

theorem timestamps_exact_witness:
  "next_day (2024, 2, 29) = (2024, 3, 1) \<and> days_from_civil 2024 3 1 = days_from_civil 2024 2 29 + 1 \<and>
   utc_text (days_from_civil 2024 2 29 * 86400 + 37076) = ''Feb 29, 2024, 10:17:56 UTC''"
proof -
  have date: "valid_date (2024, 2, 29)" "usual_year 2024" "usual_year (2024 + 1)"
    by (simp_all add: valid_date_def days_in_month_def leap_year_def usual_year_def)
  have succ: "next_day (2024, 2, 29) = (2024, 3, 1)" by (simp add: next_day_def days_in_month_def leap_year_def)
  from timestamps_exact [OF date, of 37076] succ show ?thesis
    by (simp add: month_names_def two_digits_def show_int_def show_nat.simps digit_char_eval digit_char_eval [simplified])
qed

lemma impossible_date_is_shifted:
  "parse_rfc3339_utc ''2026-02-31T00:00:00Z'' = Some ''Mar 3, 2026, 00:00:00 UTC''"
  by code_simp

end
