(* ===== verification/DispatchShape.thy ===== *)
theory DispatchShape
  imports DispatchText TimeText Context
begin

text \<open>
  The shaping of a JSON response for human display, \<open>ags-runtime/src/runtime/dispatch/shape.rs\<close>, with the overrides of
  single operations in \<open>shape_overrides/\<close>: which fields are shown, in which order, under which labels.
\<close>

section \<open>Labels and values\<close>

definition command_label :: "(string \<times> string) list" where
  "command_label =
     [(''id'', ''ID''), (''userId'', ''User ID''), (''clientId'', ''Client ID''), (''roleId'', ''Role ID''),
      (''namespaceId'', ''Namespace ID''), (''createdAt'', ''Created''), (''updatedAt'', ''Updated''),
      (''deletedAt'', ''Deleted''), (''baseUrl'', ''Base URL''), (''emailAddress'', ''Email''),
      (''displayName'', ''Display Name''), (''userName'', ''Username''), (''appName'', ''App Name''),
      (''namespace'', ''Namespace''), (''enable'', ''Enabled'')]"

text \<open>The characters of a UTF-8 text, each as its bytes.\<close>

function (sequential) utf8_chars :: "string \<Rightarrow> string list" where
  "utf8_chars [] = []"
| "utf8_chars (c # s) = (c # takeWhile continuation_byte s) # utf8_chars (dropWhile continuation_byte s)"
  by pat_completeness auto
termination
  by (relation "measure length") (auto simp: less_Suc_eq_le length_dropWhile_le)

definition or_char :: "string \<Rightarrow> string \<Rightarrow> string" where
  "or_char s ch = (if s = [] then ch else first_char s)"

definition label_rest :: "unicode \<Rightarrow> string \<Rightarrow> string" where
  "label_rest U ch = (if char_is_uppercase U ch then '' '' @ or_char (to_lowercase U ch) ch else ch)"

definition normalize_label :: "unicode \<Rightarrow> string \<Rightarrow> string" where
  "normalize_label U key =
     (case map_of command_label key of
        Some l \<Rightarrow> l
      | None \<Rightarrow>
          (case utf8_chars key of
             [] \<Rightarrow> []
           | ch # rest \<Rightarrow> or_char (to_uppercase U ch) ch @ concat (map (label_rest U) rest)))"

definition normalize_value :: "json \<Rightarrow> string option" where
  "normalize_value v =
     (case v of
        JNull \<Rightarrow> None
      | JBool b \<Rightarrow> Some (if b then ''yes'' else ''no'')
      | JStr s \<Rightarrow> if s = [] then None else Some (strip_terminal_control_sequences s)
      | JInt i \<Rightarrow> Some (show_int i)
      | JFloat t \<Rightarrow> Some t
      | JArr xs \<Rightarrow>
          if xs = [] then None
          else if length xs = 1 then Some ''1 item'' else Some (show_nat (length xs) @ '' items'')
      | JObj _ \<Rightarrow> None)"

definition priority_keys :: "string list list" where
  "priority_keys =
     [[''id'', ''userId'', ''clientId'', ''roleId'', ''namespaceId''],
      [''name'', ''displayName'', ''userName'', ''emailAddress'', ''appName''],
      [''status'', ''enabled'', ''active'', ''verified'', ''emailVerified'', ''banned''],
      [''namespace'', ''platform'', ''platformId''],
      [''createdBy'', ''updatedBy'', ''deletedBy''],
      [''createdAt'', ''updatedAt'', ''deletedAt'', ''lastLogin'', ''expiresAt''],
      [''description'', ''country'', ''dateOfBirth'', ''language'', ''timezone''],
      [''code'', ''errorCode'', ''errorMessage'']]"

definition field_priority :: "string \<Rightarrow> nat" where
  "field_priority key = length (takeWhile (\<lambda>ks. key \<notin> set ks) priority_keys)"

definition noise_keys :: "string list" where
  "noise_keys =
     [''paging'', ''pagination'', ''links'', ''_links'', ''self'', ''next'', ''previous'', ''first'', ''last'',
      ''totalPages'', ''totalData'', ''headers'', ''metadata'', ''_metadata'']"

definition should_suppress_field :: "string \<Rightarrow> json \<Rightarrow> bool" where
  "should_suppress_field key value =
     (value = JNull \<or> value = JStr [] \<or> value = JArr [] \<or> value = JObj [] \<or> key \<in> set noise_keys)"

section \<open>Fields\<close>

datatype command_intent = Action | Inspect | ListItems

definition intent_of :: "operation_schema \<Rightarrow> command_intent" where
  "intent_of op =
     (case op_mutation_class op of
        Mutating \<Rightarrow> Action
      | _ \<Rightarrow> if suffix ''}'' (op_path_template op) then Inspect else ListItems)"

record field_entry =
  fe_label :: string
  fe_value :: string

record display_section =
  ds_heading :: string
  ds_fields :: "field_entry list"

definition entry_of :: "unicode \<Rightarrow> string \<times> json \<Rightarrow> field_entry option" where
  "entry_of U kv =
     map_option (\<lambda>t. \<lparr>fe_label = normalize_label U (fst kv), fe_value = t\<rparr>) (normalize_value (snd kv))"

definition is_scalar_child :: "json \<Rightarrow> bool" where
  "is_scalar_child v = (case v of JObj _ \<Rightarrow> False | JArr _ \<Rightarrow> False | JNull \<Rightarrow> False | _ \<Rightarrow> True)"

definition section_of :: "unicode \<Rightarrow> bool \<Rightarrow> string \<Rightarrow> json bmap \<Rightarrow> display_section option" where
  "section_of U is_verbose key nested =
     (let children = List.map_filter (entry_of U)
                       (if is_verbose then nested else filter (\<lambda>kv. is_scalar_child (snd kv)) nested)
      in if children \<noteq> [] \<and> (is_verbose \<or> length children \<le> 6)
         then Some \<lparr>ds_heading = normalize_label U key, ds_fields = children\<rparr> else None)"

definition scalar_entry :: "unicode \<Rightarrow> string \<times> json \<Rightarrow> (nat \<times> field_entry) option" where
  "scalar_entry U kv =
     (case snd kv of
        JObj _ \<Rightarrow> None
      | _ \<Rightarrow> map_option (\<lambda>e. (field_priority (fst kv), e)) (entry_of U kv))"

definition section_entry :: "unicode \<Rightarrow> bool \<Rightarrow> string \<times> json \<Rightarrow> display_section option" where
  "section_entry U is_verbose kv =
     (case snd kv of JObj nested \<Rightarrow> section_of U is_verbose (fst kv) nested | _ \<Rightarrow> None)"

text \<open>\<open>take(limit)\<close>, where \<^term>\<open>None\<close> is \<open>usize::MAX\<close>.\<close>

definition take_limit :: "nat option \<Rightarrow> 'a list \<Rightarrow> 'a list" where
  "take_limit n xs = (case n of Some k \<Rightarrow> take k xs | None \<Rightarrow> xs)"

definition field_limit :: "command_intent \<Rightarrow> bool \<Rightarrow> nat option" where
  "field_limit intent is_verbose =
     (if \<not> is_verbose then Some (case intent of Action \<Rightarrow> 5 | Inspect \<Rightarrow> 8 | ListItems \<Rightarrow> 4)
      else case intent of ListItems \<Rightarrow> Some 8 | _ \<Rightarrow> None)"

definition prioritize_fields ::
  "unicode \<Rightarrow> json bmap \<Rightarrow> command_intent \<Rightarrow> bool \<Rightarrow> field_entry list \<times> display_section list" where
  "prioritize_fields U data intent is_verbose =
     (let shown = filter (\<lambda>kv. \<not> should_suppress_field (fst kv) (snd kv)) data;
          scalars = sort_key fst (List.map_filter (scalar_entry U) shown);
          sections = List.map_filter (section_entry U is_verbose) shown
      in (map snd (take_limit (field_limit intent is_verbose) scalars),
          take_limit (if is_verbose then None else Some 2) sections))"

section \<open>Shapes\<close>

datatype response_shape =
    ArrayShape "json list" "string option"
  | PaginatedShape "json list" "nat option" bool
  | SingleShape "json bmap"
  | ScalarShape

definition nonempty_array :: "json \<Rightarrow> bool" where
  "nonempty_array v = (case v of JArr xs \<Rightarrow> xs \<noteq> [] | _ \<Rightarrow> False)"

definition has_next_page :: "json bmap \<Rightarrow> bool" where
  "has_next_page m =
     (case Option.bind (bget m ''paging'') (\<lambda>p. Option.bind (json_key p ''next'') as_str) of
        Some s \<Rightarrow> s \<noteq> []
      | None \<Rightarrow> False)"

definition detect_shape :: "json \<Rightarrow> response_shape" where
  "detect_shape body =
     (case body of
        JArr items \<Rightarrow> ArrayShape items None
      | JObj m \<Rightarrow>
          (case bget m ''data'' of
             Some (JArr items) \<Rightarrow>
               PaginatedShape items (Option.bind (bget m ''totalData'') as_u64) (has_next_page m)
           | _ \<Rightarrow>
               (case filter (\<lambda>kv. nonempty_array (snd kv)) m of
                  [(key, JArr items)] \<Rightarrow>
                    if length (filter (\<lambda>kv. is_scalar_child (snd kv)) m) \<le> 2
                    then ArrayShape items (Some key) else SingleShape m
                | _ \<Rightarrow> SingleShape m))
      | _ \<Rightarrow> ScalarShape)"

section \<open>Tables\<close>

record list_table =
  lt_headers :: "string list"
  lt_rows :: "string list list"

definition missing_cell :: string where
  "missing_cell = [CHR 0xE2, CHR 0x80, CHR 0x94]"

definition item_fields :: "unicode \<Rightarrow> command_intent \<Rightarrow> bool \<Rightarrow> json \<Rightarrow> field_entry list option" where
  "item_fields U intent is_verbose item =
     (case item of JObj m \<Rightarrow> Some (fst (prioritize_fields U m intent is_verbose)) | _ \<Rightarrow> None)"

definition table_headers :: "unicode \<Rightarrow> json list \<Rightarrow> command_intent \<Rightarrow> bool \<Rightarrow> string list" where
  "table_headers U items intent is_verbose =
     (case List.map_filter (\<lambda>item. filter_option (\<lambda>fs. fs \<noteq> []) (item_fields U intent is_verbose item)) items of
        [] \<Rightarrow> []
      | fs # _ \<Rightarrow> map fe_label fs)"

text \<open>Cells are looked up by label; of two fields with one label the later one counts.\<close>

definition labelled_cell :: "field_entry list \<Rightarrow> string \<Rightarrow> string" where
  "labelled_cell fes h =
     (case map_of (rev (map (\<lambda>f. (fe_label f, fe_value f)) fes)) h of Some v \<Rightarrow> v | None \<Rightarrow> missing_cell)"

definition table_row :: "unicode \<Rightarrow> string list \<Rightarrow> command_intent \<Rightarrow> bool \<Rightarrow> json \<Rightarrow> string list option" where
  "table_row U headers intent is_verbose item =
     (case item_fields U intent is_verbose item of
        Some fes \<Rightarrow> if fes = [] then None else Some (map (labelled_cell fes) headers)
      | None \<Rightarrow> map_option (\<lambda>v. [v]) (normalize_value item))"

definition build_list_table :: "unicode \<Rightarrow> json list \<Rightarrow> string \<Rightarrow> command_intent \<Rightarrow> bool \<Rightarrow> list_table" where
  "build_list_table U items scalar_header intent is_verbose =
     (let headers = table_headers U items intent is_verbose
      in if headers = [] then
           (let rows = List.map_filter (\<lambda>item. map_option (\<lambda>v. [v]) (normalize_value item)) items
            in if rows = [] then \<lparr>lt_headers = [], lt_rows = []\<rparr>
               else \<lparr>lt_headers = [scalar_header], lt_rows = rows\<rparr>)
         else \<lparr>lt_headers = headers,
               lt_rows = List.map_filter (table_row U headers intent is_verbose) items\<rparr>)"

section \<open>Headings\<close>

definition dedupe_heading_field :: "unicode \<Rightarrow> field_entry list \<Rightarrow> string option \<Rightarrow> field_entry list" where
  "dedupe_heading_field U fes used_key =
     (case used_key of
        Some key \<Rightarrow> filter (\<lambda>f. fe_label f \<noteq> normalize_label U key) fes
      | None \<Rightarrow> fes)"

definition heading_name_keys :: "string list" where
  "heading_name_keys = [''displayName'', ''name'', ''appName'', ''clientName'', ''userName'', ''emailAddress'']"

definition derive_heading_from_method :: "unicode \<Rightarrow> string \<Rightarrow> string option" where
  "derive_heading_from_method U method_name =
     map_option (\<lambda>after. capitalize_first U (kebab_case_to_words after)) (after_hyphen method_name)"

definition heading_name :: "json bmap \<Rightarrow> string \<Rightarrow> string option" where
  "heading_name m key = filter_option (\<lambda>s. s \<noteq> []) (Option.bind (bget m key) as_str)"

definition derive_entity_heading ::
  "unicode \<Rightarrow> json bmap \<Rightarrow> string \<Rightarrow> string \<Rightarrow> string \<times> string option \<times> heading_style \<times> string option" where
  "derive_entity_heading U m resource_name method_name =
     (let singular = singularize resource_name
      in case find (\<lambda>key. heading_name m key \<noteq> None) heading_name_keys of
           Some key \<Rightarrow> (normalize_label U singular, heading_name m key, Named, Some key)
         | None \<Rightarrow>
             (let base = (case derive_heading_from_method U method_name of
                            Some h \<Rightarrow> h | None \<Rightarrow> normalize_label U singular);
                  ident = (case bget m ''id'' of Some v \<Rightarrow> Some v | None \<Rightarrow> bget m ''userId'')
              in case Option.bind ident as_str of
                   Some i \<Rightarrow> (base, Some i, Identified, None)
                 | None \<Rightarrow> (base, None, Bare, None)))"

section \<open>Results\<close>

definition field_entry_to_protocol :: "field_entry \<Rightarrow> result_field" where
  "field_entry_to_protocol e = \<lparr>rf_label = fe_label e, rf_value = FvText (fe_value e)\<rparr>"

definition plain_column :: "string \<Rightarrow> column_spec" where
  "plain_column l = \<lparr>col_label = l, col_key = l\<rparr>"

definition shape_collection ::
  "unicode \<Rightarrow> json list \<Rightarrow> (nat option \<times> bool) option \<Rightarrow> string option \<Rightarrow> command_intent \<Rightarrow> bool \<Rightarrow>
   operation_schema \<Rightarrow> string \<Rightarrow> command_result" where
  "shape_collection U items pagination scalar_key intent is_verbose op resource_name =
     (let noun = derive_noun_from_method (op_name op) resource_name;
          scalar_header = (case scalar_key of
                             Some k \<Rightarrow> normalize_label U k | None \<Rightarrow> capitalize_first U noun);
          table = build_list_table U items scalar_header intent is_verbose
      in Collection
           \<lparr>clr_kind = noun,
            clr_columns = map plain_column (lt_headers table),
            clr_rows = map (map FvText) (lt_rows table),
            clr_page_info =
              map_option (\<lambda>(n, has_more). \<lparr>pi_current_page = 1, pi_total_pages = None, pi_total_items = n,
                            pi_has_next = has_more\<rparr>) pagination,
            clr_notes = []\<rparr>)"

definition shape_entity ::
  "unicode \<Rightarrow> json bmap \<Rightarrow> command_intent \<Rightarrow> bool \<Rightarrow> operation_schema \<Rightarrow> string \<Rightarrow> command_result" where
  "shape_entity U m intent is_verbose op resource_name =
     (let (entries, sections) = prioritize_fields U m intent is_verbose;
          (heading_kind, ident, style, used_key) = derive_entity_heading U m resource_name (op_name op)
      in Entity
           \<lparr>er_kind = heading_kind, er_identifier = ident, er_heading_style = style,
            er_fields = map field_entry_to_protocol (dedupe_heading_field U entries used_key),
            er_sections =
              map (\<lambda>s. \<lparr>fg_heading = ds_heading s, fg_fields = map field_entry_to_protocol (ds_fields s)\<rparr>) sections\<rparr>)"

section \<open>Overrides\<close>

type_synonym column = "string \<times> (json bmap \<Rightarrow> field_value)"

definition text_field :: "json option \<Rightarrow> field_value" where
  "text_field v =
     (case v of
        Some (JStr s) \<Rightarrow> FvText (if s = [] then missing_cell else strip_terminal_control_sequences s)
      | Some (JInt i) \<Rightarrow> FvText (show_int i)
      | Some (JFloat t) \<Rightarrow> FvText t
      | _ \<Rightarrow> FvText missing_cell)"

definition object_items :: "json list \<Rightarrow> json bmap list" where
  "object_items items = List.map_filter as_object items"

definition fixed_columns_from_array :: "json \<Rightarrow> string \<Rightarrow> string \<Rightarrow> column list \<Rightarrow> collection_result option" where
  "fixed_columns_from_array body array_key kind cols =
     Option.bind (Option.bind (as_object body) (\<lambda>m. bget m array_key)) (\<lambda>v.
     Option.bind (case v of JArr items \<Rightarrow> Some items | JNull \<Rightarrow> Some [] | _ \<Rightarrow> None) (\<lambda>items.
       Some \<lparr>clr_kind = kind, clr_columns = map (\<lambda>c. plain_column (fst c)) cols,
             clr_rows = map (\<lambda>item. map (\<lambda>c. snd c item) cols) (object_items items),
             clr_page_info = None, clr_notes = []\<rparr>))"

definition column_of :: "string \<Rightarrow> string \<Rightarrow> column" where
  "column_of label key = (label, \<lambda>e. text_field (bget e key))"

definition requested_at :: "json bmap \<Rightarrow> field_value" where
  "requested_at e =
     FvText (case Option.bind (bget e ''createdAt'') as_str of
               Some t \<Rightarrow> format_rfc3339_human t | None \<Rightarrow> missing_cell)"

definition endpoint_count :: "json bmap \<Rightarrow> field_value" where
  "endpoint_count e =
     FvText (case Option.bind (bget e ''endpoints'') as_array of
               Some xs \<Rightarrow> show_nat (length xs) | None \<Rightarrow> ''0'')"

definition assessment_list_shape :: "json \<Rightarrow> command_result option" where
  "assessment_list_shape body =
     map_option Collection (fixed_columns_from_array body ''pentestings'' ''security assessment requests''
       [column_of ''ID'' ''engagementId'', column_of ''App Name'' ''targetApp'', (''Requested At'', requested_at),
        (''Endpoints'', endpoint_count), column_of ''Image Tag'' ''targetAppVersion'', column_of ''Status'' ''status''])"

definition text_or_empty :: "json bmap \<Rightarrow> string \<Rightarrow> string" where
  "text_or_empty m k = (case Option.bind (bget m k) as_str of Some s \<Rightarrow> s | None \<Rightarrow> [])"

definition permission_cell :: "json bmap \<Rightarrow> field_value" where
  "permission_cell endpoint =
     (case Option.bind (bget endpoint ''permission'') as_object of
        None \<Rightarrow> FvText missing_cell
      | Some p \<Rightarrow> FvText (text_or_empty p ''resource'' @ '' ['' @ text_or_empty p ''action'' @ '']''))"

definition flag_is_set :: "json \<Rightarrow> string \<Rightarrow> bool" where
  "flag_is_set v k = (Option.bind (json_key v k) as_bool = Some True)"

definition authenticated_cell :: "json bmap \<Rightarrow> field_value" where
  "authenticated_cell endpoint =
     FvText (if flag_is_set (JObj endpoint) ''requireAuthentication'' then ''Yes'' else ''No'')"

definition middle_dot :: string where
  "middle_dot = ''  '' @ [CHR 0xC2, CHR 0xB7] @ ''  ''"

definition app_flags_note :: "json \<Rightarrow> string" where
  "app_flags_note body =
     (let flag = (\<lambda>k. if flag_is_set body k then ''yes'' else ''no'')
      in ''App running: '' @ flag ''isAppRunning'' @ middle_dot @ ''API spec: '' @ flag ''hasAPISpec'' @
         middle_dot @ ''gRPC reflection: '' @ flag ''hasGRPCReflection'')"

definition assessment_endpoints_shape :: "json \<Rightarrow> command_result option" where
  "assessment_endpoints_shape body =
     map_option (\<lambda>c. Collection (c\<lparr>clr_notes := [app_flags_note body]\<rparr>))
       (fixed_columns_from_array body ''endpoints'' ''endpoints''
         [column_of ''Method'' ''method'', column_of ''Path'' ''path'', column_of ''Operation ID'' ''operationId'',
          (''Permission'', permission_cell), (''Authenticated'', authenticated_cell)])"

definition overrides :: "(string \<times> (json \<Rightarrow> command_result option)) list" where
  "overrides =
     [(''csm/admin/security-assessment/v1/list'', assessment_list_shape),
      (''csm/admin/security-assessment/v1/get-app-endpoints'', assessment_endpoints_shape)]"

definition strip_field_value :: "field_value \<Rightarrow> field_value" where
  "strip_field_value v =
     (case v of
        FvText s \<Rightarrow> FvText (strip_terminal_control_sequences s)
      | FvList xs \<Rightarrow> FvList (map strip_terminal_control_sequences xs)
      | other \<Rightarrow> other)"

definition strip_field :: "result_field \<Rightarrow> result_field" where
  "strip_field f = \<lparr>rf_label = strip_terminal_control_sequences (rf_label f), rf_value = strip_field_value (rf_value f)\<rparr>"

definition strip_field_group :: "field_group \<Rightarrow> field_group" where
  "strip_field_group g =
     \<lparr>fg_heading = strip_terminal_control_sequences (fg_heading g), fg_fields = map strip_field (fg_fields g)\<rparr>"

definition sanitize_result :: "command_result \<Rightarrow> command_result" where
  "sanitize_result result =
     (case result of
        Collection c \<Rightarrow>
          Collection
            \<lparr>clr_kind = strip_terminal_control_sequences (clr_kind c),
             clr_columns =
               map (\<lambda>col. \<lparr>col_label = strip_terminal_control_sequences (col_label col),
                            col_key = strip_terminal_control_sequences (col_key col)\<rparr>) (clr_columns c),
             clr_rows = map (map strip_field_value) (clr_rows c),
             clr_page_info = clr_page_info c,
             clr_notes = map strip_terminal_control_sequences (clr_notes c)\<rparr>
      | Entity e \<Rightarrow>
          Entity
            \<lparr>er_kind = strip_terminal_control_sequences (er_kind e),
             er_identifier = map_option strip_terminal_control_sequences (er_identifier e),
             er_heading_style = er_heading_style e,
             er_fields = map strip_field (er_fields e),
             er_sections = map strip_field_group (er_sections e)\<rparr>
      | EmptyResult oid status \<Rightarrow> EmptyResult oid (strip_terminal_control_sequences status)
      | Raw v \<Rightarrow> Raw v)"

definition find_override :: "string \<Rightarrow> json \<Rightarrow> command_result option" where
  "find_override operation_id body =
     map_option sanitize_result (Option.bind (map_of overrides operation_id) (\<lambda>shape. shape body))"

section \<open>The entry point\<close>

definition shape_response :: "unicode \<Rightarrow> json \<Rightarrow> operation_schema \<Rightarrow> string \<Rightarrow> bool \<Rightarrow> command_result" where
  "shape_response U body op resource_name is_verbose =
     (case find_override (op_id op) body of
        Some result \<Rightarrow> result
      | None \<Rightarrow>
          (let intent = intent_of op
           in case detect_shape body of
                ArrayShape items key \<Rightarrow> shape_collection U items None key intent is_verbose op resource_name
              | PaginatedShape items n has_more \<Rightarrow>
                  shape_collection U items (Some (n, has_more)) None intent is_verbose op resource_name
              | SingleShape m \<Rightarrow> shape_entity U m intent is_verbose op resource_name
              | ScalarShape \<Rightarrow> Raw body))"

section \<open>What is shown\<close>

definition clean_text :: "string \<Rightarrow> bool" where
  "clean_text s \<longleftrightarrow> list_all printable s"

definition clean_value :: "field_value \<Rightarrow> bool" where
  "clean_value v = (case v of FvText s \<Rightarrow> clean_text s | FvList xs \<Rightarrow> list_all clean_text xs | _ \<Rightarrow> True)"

text \<open>The texts of the numbers in a value have no control bytes: they are printed by the JSON library.\<close>

fun floats_clean :: "json \<Rightarrow> bool" where
  "floats_clean (JFloat t) = clean_text t"
| "floats_clean (JArr xs) = list_all floats_clean xs"
| "floats_clean (JObj m) = list_all (\<lambda>kv. floats_clean (snd kv)) m"
| "floats_clean _ = True"

lemma clean_strip [simp]: "clean_text (strip_terminal_control_sequences s)"
  by (auto simp: clean_text_def strip_terminal_control_sequences_def list_all_iff)

lemma clean_append [simp]: "clean_text (s @ t) \<longleftrightarrow> clean_text s \<and> clean_text t"
  by (simp add: clean_text_def)

lemma clean_show_nat [simp]: "clean_text (show_nat n)"
proof -
  have "printable c" if "digit_val c \<noteq> None" for c
    using that by (auto simp: digit_val_def printable_def Let_def split: if_splits)
  then show ?thesis by (auto simp: clean_text_def list_all_iff dest!: show_nat_digits)
qed

lemma clean_literals [simp]:
  "clean_text []" "clean_text ''-''" "clean_text ''yes''" "clean_text ''no''" "clean_text ''1 item''"
  "clean_text '' items''" "clean_text missing_cell"
  by code_simp+

lemma clean_show_int [simp]: "clean_text (show_int i)"
  using clean_append [of "''-''" "show_nat (nat (- i))"] by (simp add: show_int_def)

lemma normalize_value_clean: "normalize_value v = Some t \<Longrightarrow> floats_clean v \<Longrightarrow> clean_text t"
  by (cases v) (auto simp: normalize_value_def split: if_splits)

lemma in_map_filter: "y \<in> set (List.map_filter f xs) \<longleftrightarrow> (\<exists>x \<in> set xs. f x = Some y)"
  by (force simp: List.map_filter_def)

lemma entry_clean: "entry_of U kv = Some e \<Longrightarrow> floats_clean (snd kv) \<Longrightarrow> clean_text (fe_value e)"
  by (auto simp: entry_of_def dest: normalize_value_clean)

lemma take_limit_subset: "x \<in> set (take_limit n xs) \<Longrightarrow> x \<in> set xs"
  by (auto simp: take_limit_def dest: in_set_takeD split: option.splits)

lemma scalar_entry_some: "scalar_entry U kv = Some pe \<Longrightarrow> entry_of U kv = Some (snd pe)"
  by (cases "snd kv") (auto simp: scalar_entry_def)

lemma section_entry_some: "section_entry U v kv = Some s \<Longrightarrow> \<exists>nested. snd kv = JObj nested \<and> section_of U v (fst kv) nested = Some s"
  by (cases "snd kv") (auto simp: section_entry_def)

lemma shown_field:
  assumes "e \<in> set (fst (prioritize_fields U m intent v))"
  shows "\<exists>kv \<in> set m. entry_of U kv = Some e"
  using assms by (force simp: prioritize_fields_def Let_def in_map_filter dest!: take_limit_subset dest: scalar_entry_some)

lemma shown_section:
  assumes "s \<in> set (snd (prioritize_fields U m intent v))"
  shows "\<exists>k nested. (k, JObj nested) \<in> set m \<and> section_of U v k nested = Some s"
proof -
  from assms obtain kv where "kv \<in> set m" "section_entry U v kv = Some s"
    by (auto simp: prioritize_fields_def Let_def in_map_filter dest!: take_limit_subset)
  then show ?thesis using section_entry_some [of U v kv s] by (metis prod.collapse)
qed

lemma prioritize_fields_clean:
  assumes "floats_clean (JObj m)"
  shows "e \<in> set (fst (prioritize_fields U m intent v)) \<Longrightarrow> clean_text (fe_value e)"
    and "s \<in> set (snd (prioritize_fields U m intent v)) \<Longrightarrow> e \<in> set (ds_fields s) \<Longrightarrow> clean_text (fe_value e)"
proof -
  have ok: "floats_clean (snd kv)" if "kv \<in> set m" for kv using assms that by (auto simp: list_all_iff)
  show "e \<in> set (fst (prioritize_fields U m intent v)) \<Longrightarrow> clean_text (fe_value e)"
    using shown_field [of e U m intent v] ok entry_clean by blast
  assume s: "s \<in> set (snd (prioritize_fields U m intent v))" and e: "e \<in> set (ds_fields s)"
  from shown_section [OF s] obtain k nested where kv: "(k, JObj nested) \<in> set m" and sec: "section_of U v k nested = Some s"
    by blast
  from sec e obtain c where "c \<in> set nested" "entry_of U c = Some e"
    by (auto simp: section_of_def Let_def in_map_filter split: if_splits)
  moreover from this ok [OF kv] have "floats_clean (snd c)" by (auto simp: list_all_iff)
  ultimately show "clean_text (fe_value e)" using entry_clean by blast
qed

lemma labelled_cell_clean:
  assumes "\<And>f. f \<in> set fes \<Longrightarrow> clean_text (fe_value f)"
  shows "clean_text (labelled_cell fes h)"
  using assms by (auto simp: labelled_cell_def dest!: map_of_SomeD split: option.split)

lemma table_row_clean:
  assumes "table_row U headers intent v item = Some row" "floats_clean item" "c \<in> set row"
  shows "clean_text c"
proof (cases item)
  case (JObj m)
  with assms(2) have m: "floats_clean (JObj m)" by simp
  from assms(1,3) JObj obtain h where "c = labelled_cell (fst (prioritize_fields U m intent v)) h"
    by (auto simp: table_row_def item_fields_def split: if_splits)
  then show ?thesis by (simp add: labelled_cell_clean prioritize_fields_clean(1) [OF m])
qed (use assms in \<open>auto simp: table_row_def item_fields_def dest: normalize_value_clean\<close>)

lemma table_clean:
  assumes "list_all floats_clean items" "row \<in> set (lt_rows (build_list_table U items h intent v))" "c \<in> set row"
  shows "clean_text c"
proof -
  have ok: "floats_clean item" if "item \<in> set items" for item using assms(1) that by (simp add: list_all_iff)
  from assms(2,3) ok show ?thesis
    by (auto simp: build_list_table_def Let_def in_map_filter split: if_splits dest: normalize_value_clean table_row_clean)
qed

text \<open>A table of objects is rectangular, and so is a table of values that are not objects.\<close>

lemma object_rows_rectangular:
  assumes "\<forall>item \<in> set items. \<exists>m. item = JObj m" "row \<in> set (lt_rows (build_list_table U items h intent v))"
  shows "length row = length (lt_headers (build_list_table U items h intent v))"
proof -
  have none: "normalize_value item = None" if "item \<in> set items" for item
    using assms(1) that by (auto simp: normalize_value_def)
  have "length r = length headers" if "item \<in> set items" "table_row U headers intent v item = Some r" for item headers r
    using bspec [OF assms(1) that(1)] that(2) by (auto simp: table_row_def item_fields_def split: if_splits)
  then show ?thesis
    using assms(2) none by (auto simp: build_list_table_def Let_def in_map_filter split: if_splits)
qed

lemma take_limit_length: "length (take_limit n xs) \<le> (case n of Some k \<Rightarrow> k | None \<Rightarrow> length xs)"
  by (simp add: take_limit_def split: option.split)

definition shown_values :: "command_result \<Rightarrow> field_value list" where
  "shown_values r =
     (case r of
        Collection c \<Rightarrow> concat (clr_rows c)
      | Entity e \<Rightarrow> map rf_value (er_fields e) @ concat (map (\<lambda>g. map rf_value (fg_fields g)) (er_sections e))
      | _ \<Rightarrow> [])"

definition shaped_items :: "json \<Rightarrow> json list" where
  "shaped_items body =
     (case detect_shape body of ArrayShape xs _ \<Rightarrow> xs | PaginatedShape xs _ _ \<Rightarrow> xs | _ \<Rightarrow> [])"

definition well_laid_out :: "bool \<Rightarrow> json \<Rightarrow> command_result \<Rightarrow> bool" where
  "well_laid_out is_verbose body r \<longleftrightarrow>
     (case r of
        Collection c \<Rightarrow>
          (\<forall>item \<in> set (shaped_items body). as_object item \<noteq> None) \<longrightarrow>
          (\<forall>row \<in> set (clr_rows c). length row = length (clr_columns c))
      | Entity e \<Rightarrow> \<not> is_verbose \<longrightarrow> length (er_fields e) \<le> 8 \<and> length (er_sections e) \<le> 2
      | _ \<Rightarrow> True)"

lemma as_object_some: "as_object v \<noteq> None \<Longrightarrow> \<exists>m. v = JObj m"
  by (cases v) (simp_all add: as_object_def)

lemma strip_field_value_clean [simp]: "clean_value (strip_field_value v)"
  by (cases v) (simp_all add: strip_field_value_def clean_value_def list_all_iff)

lemma sanitized_values_clean: "list_all clean_value (shown_values (sanitize_result r))"
  by (cases r) (auto simp: sanitize_result_def shown_values_def list_all_iff strip_field_def strip_field_group_def)

lemma override_well_laid_out:
  assumes "find_override oid body = Some r"
  shows "well_laid_out v body r"
proof -
  from assms obtain shape r0 where "(oid, shape) \<in> set overrides" "shape body = Some r0" "r = sanitize_result r0"
    by (auto simp: find_override_def bind_eq_Some_conv dest: map_of_SomeD)
  moreover from this obtain c where "r0 = Collection c" "\<forall>row \<in> set (clr_rows c). length row = length (clr_columns c)"
    by (auto simp: overrides_def assessment_list_shape_def assessment_endpoints_shape_def fixed_columns_from_array_def
        bind_eq_Some_conv)
  ultimately show ?thesis by (auto simp: well_laid_out_def sanitize_result_def)
qed

lemma detected_clean:
  assumes "floats_clean body"
  shows "list_all floats_clean (shaped_items body)" and "detect_shape body = SingleShape m \<Longrightarrow> floats_clean (JObj m)"
proof -
  have "floats_clean v" if "body = JObj n" "(k, v) \<in> set n" for n k v
    using assms that by (auto simp: list_all_iff)
  moreover have "(k, JArr xs) \<in> set n" if "filter (\<lambda>kv. nonempty_array (snd kv)) n = [(k, JArr xs)]" for n k xs
  proof -
    from that have "(k, JArr xs) \<in> set (filter (\<lambda>kv. nonempty_array (snd kv)) n)" by simp
    then show ?thesis by simp
  qed
  moreover have "(''data'', JArr xs) \<in> set n" if "bget n ''data'' = Some (JArr xs)" for n xs
    using that by (simp add: bget_def map_of_SomeD)
  ultimately have *: "list_all floats_clean xs"
    if "body = JObj n" "bget n ''data'' = Some (JArr xs) \<or> filter (\<lambda>kv. nonempty_array (snd kv)) n = [(k, JArr xs)]" for n k xs
    using that by fastforce
  show "list_all floats_clean (shaped_items body)"
    using assms by (cases body) (auto simp: shaped_items_def detect_shape_def * split: option.split json.split list.split prod.split)
  show "detect_shape body = SingleShape m \<Longrightarrow> floats_clean (JObj m)"
    using assms by (cases body) (auto simp: detect_shape_def split: option.splits json.splits list.splits prod.splits if_splits)
qed

lemma collection_ok:
  assumes "list_all floats_clean items" "r = shape_collection U items pg key intent v op res" "shaped_items body = items"
  shows "list_all clean_value (shown_values r)" "well_laid_out v body r"
proof -
  show "list_all clean_value (shown_values r)"
    unfolding assms(2) by (auto simp: shape_collection_def Let_def shown_values_def list_all_iff clean_value_def
        dest: table_clean [OF assms(1)])
  show "well_laid_out v body r"
    unfolding well_laid_out_def assms(2,3)
    using as_object_some by (auto simp: shape_collection_def Let_def intro!: object_rows_rectangular)
qed

lemma entity_ok:
  assumes "floats_clean (JObj m)" "r = shape_entity U m intent v op res"
  shows "list_all clean_value (shown_values r)" "well_laid_out v body r"
proof -
  have dedupe: "set (dedupe_heading_field U fes used) \<subseteq> set fes" "length (dedupe_heading_field U fes used) \<le> length fes" for fes used
    by (auto simp: dedupe_heading_field_def split: option.split)
  obtain entries sections where p: "prioritize_fields U m intent v = (entries, sections)" by fastforce
  obtain hk i st used where h: "derive_entity_heading U m res (op_name op) = (hk, i, st, used)" by (metis prod_cases4)
  have r: "r = Entity \<lparr>er_kind = hk, er_identifier = i, er_heading_style = st,
      er_fields = map field_entry_to_protocol (dedupe_heading_field U entries used),
      er_sections = map (\<lambda>s. \<lparr>fg_heading = ds_heading s, fg_fields = map field_entry_to_protocol (ds_fields s)\<rparr>) sections\<rparr>"
    by (simp add: assms(2) shape_entity_def p h)
  show "list_all clean_value (shown_values r)"
    using prioritize_fields_clean [OF assms(1), of _ U intent v] dedupe(1) [of entries used]
    by (auto simp: r p shown_values_def list_all_iff clean_value_def field_entry_to_protocol_def)
  have "length entries \<le> 8" "length sections \<le> 2" if "\<not> v"
    using p that by (auto simp: prioritize_fields_def Let_def field_limit_def take_limit_def split: command_intent.splits)
  with dedupe(2) [of entries used] show "well_laid_out v body r" by (auto simp: r well_laid_out_def)
qed


definition sample_get :: operation_schema where
  "sample_get =
     \<lparr>op_id = ''users/get'', op_name = ''get'', op_mutation_class = ReadOnly, op_http_method = Get,
      op_path_template = ''/users/{userId}'', op_parameters = [], op_request_body = None\<rparr>"

definition coloured :: string where
  "coloured = esc # ''[31mred''"


text \<open>The identifier of a heading is copied from the response as it is, and the field it came from is dropped from the
  rows.\<close>

lemma heading_identifier_is_not_stripped:
  "(case shape_response ascii_only (JObj [(''displayName'', JStr coloured)]) sample_get ''users'' False of
      Entity e \<Rightarrow> er_identifier e = Some coloured \<and> er_fields e = [] | _ \<Rightarrow> False)"
  by code_simp

lemma mixed_rows_are_ragged:
  "(case shape_response ascii_only (JArr [JObj [(''id'', JStr ''a''), (''name'', JStr ''b'')], JInt 3]) sample_get ''users'' False of
      Collection c \<Rightarrow> map length (clr_rows c) = [2, 1] | _ \<Rightarrow> False)"
  by code_simp

end
