(* ===== verification/DispatchPath.thy ===== *)
theory DispatchPath
  imports DispatchText Schema
begin

text \<open>
  The path of a dispatched request, \<open>ags-runtime/src/runtime/dispatch/path.rs\<close>, and the confirmation policy of
  \<open>confirmation.rs\<close>. The regular expression \<open>\{(\w+)\}\<close> is written out as a scanner; which characters
  outside ASCII are word characters is known to the regular-expression crate, so it is the argument \<open>W\<close>, asked about a
  whole name. The reference definition reads a template as a list of tokens and fills them in all at once.
\<close>

section \<open>Placeholders\<close>

definition word_byte :: "char \<Rightarrow> bool" where
  "word_byte c \<longleftrightarrow> is_lower c \<or> is_upper c \<or> is_digit c \<or> c = CHR ''_''"

definition word_text :: "(string \<Rightarrow> bool) \<Rightarrow> string \<Rightarrow> bool" where
  "word_text W n \<longleftrightarrow>
     n \<noteq> [] \<and> list_all (\<lambda>c. (of_char c :: nat) < 128 \<longrightarrow> word_byte c) n \<and> (is_ascii n \<or> W n)"

text \<open>The name of a placeholder, read after its opening brace.\<close>

definition match_param :: "(string \<Rightarrow> bool) \<Rightarrow> string \<Rightarrow> string option" where
  "match_param W s =
     (let n = takeWhile (\<lambda>c. c \<noteq> CHR ''}'') s in if length n < length s \<and> word_text W n then Some n else None)"

function (sequential) path_param_names :: "(string \<Rightarrow> bool) \<Rightarrow> string \<Rightarrow> string list" where
  "path_param_names W [] = []"
| "path_param_names W (c # s) =
     (if c = CHR ''{'' then
        (case match_param W s of
           Some n \<Rightarrow> n # path_param_names W (drop (length n + 1) s)
         | None \<Rightarrow> path_param_names W s)
      else path_param_names W s)"
  by pat_completeness auto
termination
  by (relation "measure (\<lambda>(_, s). length s)") auto

definition placeholder :: "string \<Rightarrow> string" where
  "placeholder n = CHR ''{'' # n @ [CHR ''}'']"

definition missing_parameter :: "string \<Rightarrow> runtime_error" where
  "missing_parameter n = validation_error (''Missing required parameter: --'' @ n)"

definition substitute_one :: "string bmap \<Rightarrow> string \<Rightarrow> string \<Rightarrow> string rt" where
  "substitute_one params path n =
     and_then (ok_or (missing_parameter n) (bget params n)) (\<lambda>value.
     and_then (encode_url_path_segment value n) (\<lambda>encoded.
       Inr (str_replace (placeholder n) encoded path)))"

definition substitute_path_params :: "(string \<Rightarrow> bool) \<Rightarrow> string \<Rightarrow> string bmap \<Rightarrow> string rt" where
  "substitute_path_params W path_template params =
     fold_ok (substitute_one params) path_template (path_param_names W path_template)"

section \<open>Confirmation\<close>

definition risky_keywords :: "string list" where
  "risky_keywords =
     [''delete'', ''ban'', ''revoke'', ''reset'', ''disable'', ''remove'', ''force'', ''stop'']"

definition requires_confirmation :: "http_method \<Rightarrow> string \<Rightarrow> bool" where
  "requires_confirmation m operation_name =
     (case m of
        Delete \<Rightarrow> True
      | Get \<Rightarrow> False
      | _ \<Rightarrow> list_ex (\<lambda>k. contains_text k (lower_text operation_name)) risky_keywords)"

section \<open>Templates as tokens\<close>

datatype path_token = Lit char | Param string

function (sequential) path_tokens :: "(string \<Rightarrow> bool) \<Rightarrow> string \<Rightarrow> path_token list" where
  "path_tokens W [] = []"
| "path_tokens W (c # s) =
     (if c = CHR ''{'' then
        (case match_param W s of
           Some n \<Rightarrow> Param n # path_tokens W (drop (length n + 1) s)
         | None \<Rightarrow> Lit c # path_tokens W s)
      else Lit c # path_tokens W s)"
  by pat_completeness auto
termination
  by (relation "measure (\<lambda>(_, s). length s)") auto

text \<open>Every opening brace of the template begins a placeholder.\<close>

definition plain_template :: "(string \<Rightarrow> bool) \<Rightarrow> string \<Rightarrow> bool" where
  "plain_template W t \<longleftrightarrow> Lit (CHR ''{'') \<notin> set (path_tokens W t)"

definition token_value :: "string bmap \<Rightarrow> path_token \<Rightarrow> string rt" where
  "token_value params tok =
     (case tok of
        Lit c \<Rightarrow> Inr [c]
      | Param n \<Rightarrow>
          and_then (ok_or (missing_parameter n) (bget params n)) (\<lambda>value. encode_url_path_segment value n))"

definition fill_template :: "(string \<Rightarrow> bool) \<Rightarrow> string \<Rightarrow> string bmap \<Rightarrow> string rt" where
  "fill_template W t params =
     and_then (map_ok (token_value params) (path_tokens W t)) (\<lambda>xs. Inr (concat xs))"

fun render :: "(string \<Rightarrow> string) \<Rightarrow> path_token list \<Rightarrow> string" where
  "render f [] = []"
| "render f (Lit c # ts) = c # render f ts"
| "render f (Param n # ts) = f n @ render f ts"

section \<open>Scanning\<close>

lemma match_param_some:
  assumes "match_param W s = Some n"
  shows "s = n @ CHR ''}'' # drop (length n + 1) s" "word_text W n"
proof -
  let ?n = "takeWhile (\<lambda>c. c \<noteq> CHR ''}'') s"
  from assms have n: "n = ?n" "length ?n < length s" "word_text W n"
    by (auto simp: match_param_def Let_def split: if_splits)
  then have "dropWhile (\<lambda>c. c \<noteq> CHR ''}'') s \<noteq> []"
    by (metis append.right_neutral less_irrefl takeWhile_dropWhile_id)
  then obtain d r where "dropWhile (\<lambda>c. c \<noteq> CHR ''}'') s = d # r" by (cases "dropWhile (\<lambda>c. c \<noteq> CHR ''}'') s") blast+
  moreover from this have "d = CHR ''}''" by (simp add: dropWhile_eq_Cons_conv)
  ultimately have r: "dropWhile (\<lambda>c. c \<noteq> CHR ''}'') s = CHR ''}'' # r" by simp
  have s: "s = n @ CHR ''}'' # r" using takeWhile_dropWhile_id [of _ s] r n(1) by metis
  moreover have "drop (length n + 1) s = r" by (subst s) simp
  ultimately show "s = n @ CHR ''}'' # drop (length n + 1) s" by simp
  show "word_text W n" by (rule n(3))
qed

lemma word_byte_delimiters:
  "\<not> word_byte (CHR ''{'')" "\<not> word_byte (CHR ''}'')" "\<not> word_byte (CHR ''/'')" "\<not> word_byte (CHR ''?'')"
  "\<not> word_byte (CHR ''#'')"
  by code_simp+

lemma word_text_chars:
  assumes "word_text W n" "c \<in> set n"
  shows "c \<noteq> CHR ''{''" "c \<noteq> CHR ''}''" "c \<noteq> CHR ''/''" "c \<noteq> CHR ''?''" "c \<noteq> CHR ''#''"
proof -
  from assms have *: "(of_char c :: nat) < 128 \<longrightarrow> word_byte c" by (simp add: word_text_def list_all_iff)
  show "c \<noteq> CHR ''{''" "c \<noteq> CHR ''}''" "c \<noteq> CHR ''/''" "c \<noteq> CHR ''?''" "c \<noteq> CHR ''#''"
    by (rule notI, use * word_byte_delimiters in simp)+
qed

lemma path_param_names_tokens: "path_param_names W t = concat (map (\<lambda>x. case x of Param n \<Rightarrow> [n] | Lit _ \<Rightarrow> []) (path_tokens W t))"
  by (induction W t rule: path_param_names.induct) (auto split: option.split)

lemma render_tokens: "render placeholder (path_tokens W t) = t"
proof (induction W t rule: path_tokens.induct)
  case (2 W c s)
  show ?case
  proof (cases "c = CHR ''{'' \<and> (\<exists>n. match_param W s = Some n)")
    case True
    then obtain n where n: "match_param W s = Some n" and c: "c = CHR ''{''" by blast
    with 2(2) [OF c n] match_param_some(1) [OF n] show ?thesis by (simp add: placeholder_def)
  next
    case False
    then show ?thesis using 2(1,3) by (auto split: option.split)
  qed
qed simp

lemma tokens_params_ok: "Param n \<in> set (path_tokens W t) \<Longrightarrow> word_text W n"
proof (induction W t rule: path_tokens.induct)
  case (2 W c s)
  then show ?case by (auto split: if_splits option.splits dest: match_param_some(2))
qed simp

section \<open>Replacing one placeholder\<close>

lemma str_replace_step:
  "c \<noteq> CHR ''{'' \<Longrightarrow> str_replace (placeholder n) r (c # s) = c # str_replace (placeholder n) r s"
  by (simp add: placeholder_def)

lemma str_replace_skip:
  assumes "\<forall>c \<in> set x. c \<noteq> CHR ''{''"
  shows "str_replace (placeholder n) r (x @ s) = x @ str_replace (placeholder n) r s"
  using assms by (induction x) (simp_all add: str_replace_step del: str_replace.simps)

lemma str_replace_hit: "str_replace (placeholder n) r (placeholder n @ s) = r @ str_replace (placeholder n) r s"
proof -
  have "placeholder n @ s = CHR ''{'' # (n @ [CHR ''}'']) @ s" by (simp add: placeholder_def)
  moreover have "prefix (placeholder n) (placeholder n @ s)" by simp
  moreover have "drop (length (placeholder n)) (placeholder n @ s) = s" by simp
  moreover have "placeholder n \<noteq> []" by (simp add: placeholder_def)
  ultimately show ?thesis by (metis str_replace.simps(2))
qed

lemma prefix_placeholder:
  assumes "word_text W n" "word_text W m" "prefix (placeholder n) (placeholder m @ s)"
  shows "n = m"
proof -
  have "takeWhile (\<lambda>c. c \<noteq> CHR ''}'') (n @ CHR ''}'' # u) = n"
    "takeWhile (\<lambda>c. c \<noteq> CHR ''}'') (m @ CHR ''}'' # u) = m" for u
    using word_text_chars(2) [OF assms(1)] word_text_chars(2) [OF assms(2)] by (simp_all add: takeWhile_tail)
  moreover from assms(3) obtain t where "m @ CHR ''}'' # s = n @ CHR ''}'' # t"
    by (auto simp: placeholder_def prefix_def)
  ultimately show ?thesis by metis
qed

lemma str_replace_miss:
  assumes "word_text W n" "word_text W m" "n \<noteq> m"
  shows "str_replace (placeholder n) r (placeholder m @ s) = placeholder m @ str_replace (placeholder n) r s"
proof -
  have "\<not> prefix (placeholder n) (CHR ''{'' # (m @ [CHR ''}'']) @ s)"
    using prefix_placeholder [OF assms(1,2)] assms(3) by (auto simp: placeholder_def)
  moreover have "\<forall>c \<in> set (m @ [CHR ''}'']). c \<noteq> CHR ''{''" using word_text_chars(1) [OF assms(2)] by auto
  ultimately show ?thesis
    using str_replace_skip [of "m @ [CHR ''}'']" n r s] by (simp add: placeholder_def)
qed

text \<open>A partly filled template: the placeholders of \<open>D\<close> show their text, which has no opening brace.\<close>

definition filled :: "(string \<Rightarrow> string) \<Rightarrow> string set \<Rightarrow> string \<Rightarrow> string" where
  "filled e D m = (if m \<in> D then e m else placeholder m)"

lemma str_replace_render:
  assumes "\<forall>m. Param m \<in> set ts \<longrightarrow> word_text W m" "Lit (CHR ''{'') \<notin> set ts" "word_text W n"
    and "\<forall>m \<in> insert n D. \<forall>c \<in> set (e m). c \<noteq> CHR ''{''"
  shows "str_replace (placeholder n) (e n) (render (filled e D) ts) = render (filled e (insert n D)) ts"
  using assms
proof (induction ts)
  case (Cons t ts)
  show ?case
  proof (cases t)
    case (Lit c)
    with Cons have "c \<noteq> CHR ''{''" by auto
    with Cons Lit show ?thesis by (simp add: str_replace_step del: str_replace.simps)
  next
    case (Param m)
    consider "m \<in> D" | "m \<notin> D" "m = n" | "m \<notin> D" "m \<noteq> n" by blast
    then show ?thesis
    proof cases
      case 1
      with Cons Param show ?thesis by (simp add: filled_def str_replace_skip)
    next
      case 2
      with Cons Param show ?thesis by (simp add: filled_def str_replace_hit)
    next
      case 3
      with Cons Param show ?thesis by (simp add: filled_def str_replace_miss [of W])
    qed
  qed
qed simp

section \<open>One after the other is all at once\<close>

definition encoded_value :: "string bmap \<Rightarrow> string \<Rightarrow> string" where
  "encoded_value params n = utf8_percent_encode (the (bget params n))"

lemma unreserved_chars:
  assumes "unreserved c"
  shows "c \<noteq> CHR ''{''" "c \<noteq> CHR ''/''" "c \<noteq> CHR ''?''" "c \<noteq> CHR ''#''"
proof -
  have "\<not> unreserved (CHR ''{'')" "\<not> unreserved (CHR ''/'')" "\<not> unreserved (CHR ''?'')" "\<not> unreserved (CHR ''#'')"
    by code_simp+
  with assms show "c \<noteq> CHR ''{''" "c \<noteq> CHR ''/''" "c \<noteq> CHR ''?''" "c \<noteq> CHR ''#''" by blast+
qed

lemma encoded_no_brace: "\<forall>c \<in> set (encoded_value params n). c \<noteq> CHR ''{''"
  by (auto simp: encoded_value_def dest!: percent_encode_unreserved dest: unreserved_chars(1))

lemma token_value_param:
  "token_value params (Param n) = Inr x \<Longrightarrow> x = encoded_value params n"
  by (auto simp: token_value_def encoded_value_def ok_simps dest: encode_segment_inr(1))

lemma substitute_one_token:
  "substitute_one params path n =
     and_then (token_value params (Param n)) (\<lambda>x. Inr (str_replace (placeholder n) x path))"
  by (cases "bget params n") (simp_all add: substitute_one_def token_value_def)

lemma substitute_fold:
  assumes "\<forall>m. Param m \<in> set ts \<longrightarrow> word_text W m" "Lit (CHR ''{'') \<notin> set ts" "\<forall>n \<in> set ns. word_text W n"
  shows "fold_ok (substitute_one params) (render (filled (encoded_value params) D) ts) ns =
     and_then (map_ok (\<lambda>n. token_value params (Param n)) ns)
       (\<lambda>_. Inr (render (filled (encoded_value params) (D \<union> set ns)) ts))"
  using assms(3)
proof (induction ns arbitrary: D)
  case (Cons n ns)
  show ?case
  proof (cases "token_value params (Param n)")
    case (Inr x)
    then have x: "x = encoded_value params n" by (rule token_value_param)
    have "str_replace (placeholder n) x (render (filled (encoded_value params) D) ts) =
        render (filled (encoded_value params) (insert n D)) ts"
      unfolding x using assms(1,2) Cons.prems encoded_no_brace by (intro str_replace_render [of _ W]) auto
    with Inr Cons show ?thesis
      by (cases "map_ok (\<lambda>n. token_value params (Param n)) ns") (simp_all add: substitute_one_token)
  qed (simp add: substitute_one_token)
qed simp

lemma filled_in: "n \<in> D \<Longrightarrow> filled e D n = e n"
  by (simp add: filled_def)

definition token_names :: "path_token list \<Rightarrow> string list" where
  "token_names ts = concat (map (\<lambda>x. case x of Param n \<Rightarrow> [n] | Lit _ \<Rightarrow> []) ts)"

lemma fill_names:
  assumes "\<forall>m. Param m \<in> set ts \<longrightarrow> m \<in> D"
  shows "and_then (map_ok (token_value params) ts) (\<lambda>xs. Inr (concat xs)) =
     and_then (map_ok (\<lambda>n. token_value params (Param n)) (token_names ts))
       (\<lambda>_. Inr (render (filled (encoded_value params) D) ts))"
  using assms
proof (induction ts)
  case (Cons t ts)
  then have IH: "and_then (map_ok (token_value params) ts) (\<lambda>xs. Inr (concat xs)) =
     and_then (map_ok (\<lambda>n. token_value params (Param n)) (token_names ts))
       (\<lambda>_. Inr (render (filled (encoded_value params) D) ts))" by simp
  show ?case
  proof (cases t)
    case (Lit c)
    have "token_names (t # ts) = token_names ts" "token_value params t = Inr [c]"
      by (simp_all add: token_names_def token_value_def Lit)
    with IH Lit show ?thesis
      by (cases "map_ok (token_value params) ts"; cases "map_ok (\<lambda>n. token_value params (Param n)) (token_names ts)") simp_all
  next
    case (Param n)
    have names: "token_names (t # ts) = n # token_names ts" by (simp add: token_names_def Param)
    show ?thesis
    proof (cases "token_value params (Param n)")
      case (Inr x)
      moreover have "x = encoded_value params n" using Inr by (rule token_value_param)
      moreover have "n \<in> D" using Cons.prems Param by simp
      ultimately show ?thesis using IH Param names
        by (cases "map_ok (token_value params) ts"; cases "map_ok (\<lambda>n. token_value params (Param n)) (token_names ts)")
          (simp_all add: filled_in)
    qed (simp add: Param names [unfolded Param])
  qed
qed (simp add: token_names_def)

lemma substitute_is_fill:
  assumes "plain_template W t"
  shows "substitute_path_params W t params = fill_template W t params"
proof -
  let ?ts = "path_tokens W t" and ?e = "encoded_value params"
  have names: "path_param_names W t = token_names ?ts" by (simp add: path_param_names_tokens token_names_def)
  have set_names: "set (token_names ?ts) = {n. Param n \<in> set ?ts}"
    by (force simp: token_names_def split: path_token.splits)
  have "filled ?e {} = placeholder" by (simp add: filled_def fun_eq_iff)
  then have "render (filled ?e {}) ?ts = t" by (simp add: render_tokens)
  moreover have "fold_ok (substitute_one params) (render (filled ?e {}) ?ts) (token_names ?ts) =
      and_then (map_ok (\<lambda>n. token_value params (Param n)) (token_names ?ts))
       (\<lambda>_. Inr (render (filled ?e ({} \<union> set (token_names ?ts))) ?ts))"
    using assms set_names by (intro substitute_fold [of _ W]) (auto simp: plain_template_def dest: tokens_params_ok)
  moreover have "fill_template W t params =
      and_then (map_ok (\<lambda>n. token_value params (Param n)) (token_names ?ts))
       (\<lambda>_. Inr (render (filled ?e (set (token_names ?ts))) ?ts))"
    unfolding fill_template_def by (rule fill_names) (simp add: set_names)
  ultimately show ?thesis by (simp add: substitute_path_params_def names)
qed

text \<open>The characters that delimit the parts of a URL.\<close>

definition delimiters :: "string \<Rightarrow> string" where
  "delimiters s = filter (\<lambda>c. c \<in> set ''/?#'') s"

lemma delimiters_none: "\<forall>c \<in> set s. c \<noteq> CHR ''/'' \<and> c \<noteq> CHR ''?'' \<and> c \<noteq> CHR ''#'' \<Longrightarrow> delimiters s = []"
  by (auto simp: delimiters_def filter_empty_conv)

lemma delimiters_append [simp]: "delimiters (s @ t) = delimiters s @ delimiters t"
  by (simp add: delimiters_def)

lemma delimiters_encoded: "delimiters (encoded_value params n) = []"
  by (rule delimiters_none)
    (auto simp: encoded_value_def dest!: percent_encode_unreserved dest: unreserved_chars)

lemma delimiters_placeholder: "word_text W n \<Longrightarrow> delimiters (placeholder n) = []"
  by (rule delimiters_none) (auto simp: placeholder_def dest: word_text_chars)

lemma delimiters_fill:
  assumes "\<forall>m. Param m \<in> set ts \<longrightarrow> word_text W m" "map_ok (token_value params) ts = Inr xs"
  shows "delimiters (concat xs) = delimiters (render placeholder ts)"
  using assms
proof (induction ts arbitrary: xs)
  case (Cons t ts)
  then obtain y ys where y: "token_value params t = Inr y" and ys: "map_ok (token_value params) ts = Inr ys"
    and xs: "xs = y # ys" by (auto simp: and_then_ok)
  have IH: "delimiters (concat ys) = delimiters (render placeholder ts)" using Cons.IH Cons.prems(1) ys by simp
  show ?case
  proof (cases t)
    case (Lit c)
    with y have "y = [c]" by (simp add: token_value_def)
    with IH Lit xs show ?thesis by (simp add: delimiters_def)
  next
    case (Param n)
    with y have "y = encoded_value params n" using token_value_param by simp
    moreover have "word_text W n" using Cons.prems(1) Param by simp
    ultimately show ?thesis using IH Param xs
      by (simp add: delimiters_encoded delimiters_placeholder)
  qed
qed simp

text \<open>C33. A dispatched path is its template with every placeholder filled in at once by the percent-encoded value, or the
  error of the first placeholder that has none: replacing the placeholders one after the other does not read a
  value as part of the template. A value adds no \<open>/\<close>, \<open>?\<close> or \<open>#\<close>, so the path has the delimiters of the
  template, and a reader that decodes the segment gets the value back.\<close>

theorem path_substitution_exact:
  assumes "plain_template W t"
  shows "substitute_path_params W t params = fill_template W t params \<and>
    (\<forall>path. substitute_path_params W t params = Inr path \<longrightarrow>
       delimiters path = delimiters t \<and>
       (\<forall>n. Param n \<in> set (path_tokens W t) \<longrightarrow>
         (\<exists>v e. bget params n = Some v \<and> v \<noteq> [] \<and> token_value params (Param n) = Inr e \<and> percent_decode e = v)))"
proof (intro conjI allI impI)
  note fill = substitute_is_fill [OF assms]
  show "substitute_path_params W t params = fill_template W t params" by (rule fill)
  fix path
  assume "substitute_path_params W t params = Inr path"
  then obtain xs where xs: "map_ok (token_value params) (path_tokens W t) = Inr xs" and p: "path = concat xs"
    unfolding fill fill_template_def by (auto simp: and_then_ok)
  have "delimiters (concat xs) = delimiters (render placeholder (path_tokens W t))"
    by (rule delimiters_fill [OF _ xs]) (blast dest: tokens_params_ok)
  then show "delimiters path = delimiters t" unfolding p render_tokens .
  fix n
  assume "Param n \<in> set (path_tokens W t)"
  then obtain e where e: "token_value params (Param n) = Inr e"
    using xs by (auto simp: map_ok_ok list_all2_conv_all_nth in_set_conv_nth)
  then show "\<exists>v e. bget params n = Some v \<and> v \<noteq> [] \<and> token_value params (Param n) = Inr e \<and> percent_decode e = v"
    by (auto simp: token_value_def ok_simps dest: encode_segment_ok)
qed

theorem path_substitution_exact_witness:
  "(let t = ''/iam/users/{id}/items/{item}'';
        ps = [(''id'', ''a/b {item}''), (''item'', ''7'')] in
    substitute_path_params (\<lambda>_. False) t ps = fill_template (\<lambda>_. False) t ps \<and>
    substitute_path_params (\<lambda>_. False) t ps = Inr ''/iam/users/a%2Fb%20%7Bitem%7D/items/7'' \<and>
    delimiters ''/iam/users/a%2Fb%20%7Bitem%7D/items/7'' = delimiters t)"
proof -
  let ?t = "''/iam/users/{id}/items/{item}''" and ?ps = "[(''id'', ''a/b {item}''), (''item'', ''7'')]"
  let ?p = "''/iam/users/a%2Fb%20%7Bitem%7D/items/7''"
  have ok: "plain_template (\<lambda>_. False) ?t" by code_simp
  have run: "substitute_path_params (\<lambda>_. False) ?t ?ps = Inr ?p" by code_simp
  show ?thesis
    unfolding Let_def using path_substitution_exact [OF ok, of ?ps] run by blast
qed

lemma single_dot_passes:
  "substitute_path_params (\<lambda>_. False) ''/iam/namespaces/{ns}/users'' [(''ns'', ''.'')] = Inr ''/iam/namespaces/./users''"
  by code_simp

end
