(* ===== verification/DispatchHttp.thy ===== *)
theory DispatchHttp
  imports DispatchText ExecTypes
begin

text \<open>
  The transport of \<open>ags-runtime/src/runtime/dispatch/http.rs\<close>: requests and responses, the decision whether a body
  is text, the size limit, and the upload of a file range with its retries. The HTTP library is a function on
  a world: it is given the request as the code builds it and answers with the status, the headers the code
  reads and the bytes, or with the text of its error. Times are in nanoseconds.
\<close>

section \<open>Requests and responses\<close>

record http_request =
  hr_method :: http_method
  hr_url :: string
  hr_headers :: "(string \<times> string) list"
  hr_query :: "(string \<times> string) list"
  hr_body :: "request_body option"

datatype http_body = TextContent string | BinaryContent string string

record http_response =
  hs_status :: nat
  hs_body :: http_body

record raw_response =
  raw_status :: nat
  raw_content_type :: "string option"
  raw_content_length :: "nat option"
  raw_bytes :: "string + string"

definition max_response_bytes :: nat where
  "max_response_bytes = 10 * 1024 * 1024"

definition transport_error :: "string \<Rightarrow> runtime_error" where
  "transport_error e = network_error (''Network error: '' @ e)"

definition is_text_content_type :: "string \<Rightarrow> bool" where
  "is_text_content_type content_type =
     (let media = lower_text (trim_text (before_match (\<lambda>c. c = CHR '';'') (trim_text content_type)))
      in if media = [] then False
         else if media = ''application/json'' \<or> prefix ''text/'' media then True
         else case strip_prefix ''application/'' media of
           Some rest \<Rightarrow> length rest > length ''+json'' \<and> suffix ''+json'' rest
         | None \<Rightarrow> False)"

definition too_large :: "nat \<Rightarrow> runtime_error" where
  "too_large n =
     \<lparr>re_kind = ResponseTooLarge,
      re_message = ''Response too large ('' @ show_nat n @ '' bytes, limit is '' @ show_nat max_response_bytes @ '' bytes).'',
      re_details = None,
      re_hint = Some ''Narrow the query (e.g. --page-limit or filters) to reduce the response size.''\<rparr>"

definition read_response_bytes_capped :: "raw_response \<Rightarrow> string rt" where
  "read_response_bytes_capped r =
     (let n = (case raw_content_length r of Some n \<Rightarrow> n | None \<Rightarrow> 0)
      in if n > max_response_bytes then Inl (too_large n)
         else case raw_bytes r of
           Inl e \<Rightarrow> Inl (transport_error e)
         | Inr bs \<Rightarrow> if length bs > max_response_bytes then Inl (too_large (length bs)) else Inr bs)"

text \<open>\<open>String::from_utf8\<close>: the well-formed byte sequences of UTF-8.\<close>

definition byte_in :: "nat \<Rightarrow> nat \<Rightarrow> char \<Rightarrow> bool" where
  "byte_in a b c \<longleftrightarrow> a \<le> (of_char c :: nat) \<and> (of_char c :: nat) \<le> b"

definition utf8_second :: "char \<Rightarrow> char \<Rightarrow> bool" where
  "utf8_second a b \<longleftrightarrow>
     (let n = (of_char a :: nat)
      in if n = 0xE0 then byte_in 0xA0 0xBF b
         else if n = 0xED then byte_in 0x80 0x9F b
         else if n = 0xF0 then byte_in 0x90 0xBF b
         else if n = 0xF4 then byte_in 0x80 0x8F b
         else byte_in 0x80 0xBF b)"

function (sequential) valid_utf8 :: "string \<Rightarrow> bool" where
  "valid_utf8 [] = True"
| "valid_utf8 (a # s) =
     (if byte_in 0 0x7F a then valid_utf8 s
      else if byte_in 0xC2 0xDF a then
        (case s of b # t \<Rightarrow> utf8_second a b \<and> valid_utf8 t | _ \<Rightarrow> False)
      else if byte_in 0xE0 0xEF a then
        (case s of b # c # t \<Rightarrow> utf8_second a b \<and> byte_in 0x80 0xBF c \<and> valid_utf8 t | _ \<Rightarrow> False)
      else if byte_in 0xF0 0xF4 a then
        (case s of
           b # c # d # t \<Rightarrow> utf8_second a b \<and> byte_in 0x80 0xBF c \<and> byte_in 0x80 0xBF d \<and> valid_utf8 t
         | _ \<Rightarrow> False)
      else False)"
  by pat_completeness auto
termination
  by (relation "measure length") auto

definition read_response_body :: "raw_response \<Rightarrow> string rt" where
  "read_response_body r =
     and_then (read_response_bytes_capped r) (\<lambda>bs.
       if valid_utf8 bs then Inr bs else Inl (internal_error ''Response body is not valid UTF-8''))"

definition read_response_body_tagged :: "raw_response \<Rightarrow> http_body rt" where
  "read_response_body_tagged r =
     (let content_type = (case raw_content_type r of Some t \<Rightarrow> t | None \<Rightarrow> [])
      in and_then (read_response_bytes_capped r) (\<lambda>bs.
           if bs = [] \<or> raw_status r \<ge> 400 \<or> is_text_content_type content_type then
             if valid_utf8 bs then Inr (TextContent bs)
             else Inl \<lparr>re_kind = Upstream (raw_status r) None,
                       re_message = ''Server said text but body is not valid UTF-8'',
                       re_details = None, re_hint = None\<rparr>
           else Inr (BinaryContent content_type bs)))"

text \<open>\<open>ReqwestHttpClient::send\<close>. Opening the file of a multipart part may fail, with a text.\<close>

record 'w transport =
  tr_open_part :: "string \<Rightarrow> 'w \<Rightarrow> string option"
  tr_exchange :: "http_request \<Rightarrow> 'w \<Rightarrow> (string + raw_response) \<times> 'w"

fun open_parts :: "'w transport \<Rightarrow> form_part list \<Rightarrow> 'w \<Rightarrow> unit rt" where
  "open_parts T [] w = Inr ()"
| "open_parts T (TextPart _ _ # ps) w = open_parts T ps w"
| "open_parts T (FilePart _ path _ # ps) w =
     (case tr_open_part T path w of
        Some e \<Rightarrow> Inl (internal_error (''failed to open file '' @ quoted path @ '' for upload: '' @ e))
      | None \<Rightarrow> open_parts T ps w)"

definition http_send :: "'w transport \<Rightarrow> http_request \<Rightarrow> 'w \<Rightarrow> http_response rt \<times> 'w" where
  "http_send T req w =
     (let req' = (case hr_body req of
                    Some (JsonBody _) \<Rightarrow> req\<lparr>hr_headers := hr_headers req @ [(''Content-Type'', ''application/json'')]\<rparr>
                  | _ \<Rightarrow> req)
      in case (case hr_body req of Some (Multipart ps) \<Rightarrow> open_parts T ps w | _ \<Rightarrow> Inr ()) of
           Inl e \<Rightarrow> (Inl e, w)
         | Inr _ \<Rightarrow>
             (case tr_exchange T req' w of
                (Inl e, w') \<Rightarrow> (Inl (transport_error e), w')
              | (Inr r, w') \<Rightarrow>
                  (and_then (read_response_body_tagged r) (\<lambda>b. Inr \<lparr>hs_status = raw_status r, hs_body = b\<rparr>), w')))"

section \<open>Uploads\<close>

record file_range =
  fr_path :: string
  fr_offset :: nat
  fr_length :: nat

definition whole_file :: "string \<Rightarrow> nat \<Rightarrow> file_range" where
  "whole_file path n = \<lparr>fr_path = path, fr_offset = 0, fr_length = n\<rparr>"

datatype binary_put_error = PutUnauthorized nat | PutFailed runtime_error

definition into_runtime_error :: "binary_put_error \<Rightarrow> runtime_error" where
  "into_runtime_error e =
     (case e of
        PutUnauthorized status \<Rightarrow>
          \<lparr>re_kind = (if status = 401 then NotAuthenticated else Forbidden),
           re_message = ''The storage service rejected the upload (HTTP '' @ show_nat status @ '')'',
           re_details = None,
           re_hint = Some ''The pre-signed URL may have expired; retry the upload.''\<rparr>
      | PutFailed err \<Rightarrow> err)"

definition seconds :: "nat \<Rightarrow> nat" where
  "seconds n = n * 10 ^ 9"

definition upload_retry_base_delay :: nat where
  "upload_retry_base_delay = 500 * 10 ^ 6"

definition upload_max_retry_elapsed :: nat where
  "upload_max_retry_elapsed = seconds 120"

definition next_retry_delay :: "nat \<Rightarrow> nat \<Rightarrow> nat option" where
  "next_retry_delay attempt elapsed =
     (if elapsed \<ge> upload_max_retry_elapsed then None
      else Some (min (upload_retry_base_delay * 2 ^ min attempt 6) (upload_max_retry_elapsed - elapsed)))"

definition upload_status_error :: "nat \<Rightarrow> string option \<Rightarrow> runtime_error option" where
  "upload_status_error status body =
     (let err = (\<lambda>msg. \<lparr>re_kind = Upstream status None, re_message = msg, re_details = None, re_hint = None\<rparr>);
          msg = ''The storage service rejected the upload (HTTP '' @ show_nat status @ '')''
      in case body of
           None \<Rightarrow> Some (err msg)
         | Some b \<Rightarrow>
             map_option (\<lambda>detail. err (if detail = [] then msg else msg @ '': '' @ detail))
               (truncate_display_text (trim_text b) 500))"

text \<open>One \<open>PUT\<close>: an error with the mark of a timeout, or the status with the body text and the ETag.\<close>

datatype put_reply =
    PutError bool string
  | PutStatus nat "string option" "string option"

record 'w put_env =
  pe_open :: "file_range \<Rightarrow> 'w \<Rightarrow> string option \<times> 'w"
  pe_put :: "string \<Rightarrow> file_range \<Rightarrow> 'w \<Rightarrow> put_reply \<times> 'w"
  pe_elapsed :: "'w \<Rightarrow> nat"
  pe_sleep :: "nat \<Rightarrow> 'w \<Rightarrow> 'w"

definition is_retryable :: "put_reply \<Rightarrow> bool" where
  "is_retryable r =
     (case r of PutError timeout _ \<Rightarrow> timeout | PutStatus s _ _ \<Rightarrow> 500 \<le> s \<and> s < 600)"

definition put_outcome :: "put_reply \<Rightarrow> (binary_put_error + string option) option" where
  "put_outcome r =
     (case r of
        PutError _ e \<Rightarrow> Some (Inl (PutFailed (transport_error e)))
      | PutStatus s body etag \<Rightarrow>
          if s = 401 \<or> s = 403 then Some (Inl (PutUnauthorized s))
          else if \<not> (200 \<le> s \<and> s < 300) then map_option (\<lambda>e. Inl (PutFailed e)) (upload_status_error s body)
          else Some (Inr etag))"

text \<open>The loop takes fuel, one unit for each attempt; \<^term>\<open>None\<close> is fuel that ran out. Besides the outcome it
  returns the number of attempts that were sent.\<close>

fun put_loop ::
  "'w put_env \<Rightarrow> nat \<Rightarrow> string \<Rightarrow> file_range \<Rightarrow> nat \<Rightarrow> 'w \<Rightarrow> ((binary_put_error + string option) \<times> nat \<times> 'w) option" where
  "put_loop E 0 url rng attempt w = None"
| "put_loop E (Suc fuel) url rng attempt w =
     (case pe_open E rng w of
        (Some e, w1) \<Rightarrow>
          Some (Inl (PutFailed (internal_error (''Failed to read '' @ fr_path rng @ '': '' @ e))), attempt, w1)
      | (None, w1) \<Rightarrow>
          (case pe_put E url rng w1 of
             (r, w2) \<Rightarrow>
               (case (if is_retryable r then next_retry_delay attempt (pe_elapsed E w2) else None) of
                  Some delay \<Rightarrow> put_loop E fuel url rng (Suc attempt) (pe_sleep E delay w2)
                | None \<Rightarrow> map_option (\<lambda>out. (out, Suc attempt, w2)) (put_outcome r))))"

definition put_file_range ::
  "'w put_env \<Rightarrow> nat \<Rightarrow> string \<Rightarrow> file_range \<Rightarrow> 'w \<Rightarrow> ((binary_put_error + string option) \<times> nat \<times> 'w) option" where
  "put_file_range E fuel url rng w = put_loop E fuel url rng 0 w"

section \<open>An upload ends\<close>

lemma put_outcome_some: "\<exists>out. put_outcome r = Some out"
proof (cases r)
  case (PutStatus s body etag)
  show ?thesis
    using truncate_display_text_bounded [of "trim_text (the body)" 500]
    by (auto simp: PutStatus put_outcome_def upload_status_error_def Let_def split: option.split)
qed (simp add: put_outcome_def)

text \<open>A clock that does not go back, under which a sleep lasts at least as long as it was asked to.\<close>

definition steady_clock :: "'w put_env \<Rightarrow> bool" where
  "steady_clock E \<longleftrightarrow>
     (\<forall>d w. pe_elapsed E w + d \<le> pe_elapsed E (pe_sleep E d w)) \<and>
     (\<forall>rng w. pe_elapsed E w \<le> pe_elapsed E (snd (pe_open E rng w))) \<and>
     (\<forall>url rng w. pe_elapsed E w \<le> pe_elapsed E (snd (pe_put E url rng w)))"

text \<open>The least time spent waiting before attempt \<open>k\<close>.\<close>

definition waited :: "nat \<Rightarrow> nat" where
  "waited k = [0, 5, 15, 35, 75, 155, 315, 635, 955, 1200] ! k * 10 ^ 8"

lemmas upload_numbers =
  waited_def upload_retry_base_delay_def upload_max_retry_elapsed_def seconds_def

lemma waited_table:
  assumes "k < 9"
  shows "waited (Suc k) \<le> waited k + upload_retry_base_delay * 2 ^ min k 6 \<and>
    waited (Suc k) \<le> upload_max_retry_elapsed"
proof -
  consider "k = 0" | "k = 1" | "k = 2" | "k = 3" | "k = 4" | "k = 5" | "k = 6" | "k = 7" | "k = 8"
    using assms by linarith
  then show ?thesis by cases (simp_all add: upload_numbers)
qed

lemma waited_step:
  assumes "k < 9" "waited k \<le> e" "next_retry_delay k e = Some d"
  shows "waited (Suc k) \<le> e + d"
proof -
  let ?b = "upload_retry_base_delay * 2 ^ min k 6"
  from assms(3) have "e < upload_max_retry_elapsed" and d: "d = min ?b (upload_max_retry_elapsed - e)"
    by (auto simp: next_retry_delay_def split: if_splits)
  then show ?thesis using waited_table [OF assms(1)] assms(2) by (cases "?b \<le> upload_max_retry_elapsed - e") auto
qed

lemma waited_last: "waited 9 = upload_max_retry_elapsed"
  by (simp add: upload_numbers)

lemma put_loop_ends:
  assumes clock: "steady_clock E"
  shows "k \<le> 9 \<Longrightarrow> waited k \<le> pe_elapsed E w \<Longrightarrow>
    \<exists>out n w'. put_loop E (10 - k) url rng k w = Some (out, n, w') \<and> n \<le> 10"
proof (induction "9 - k" arbitrary: k w)
  case 0
  then have k: "k = 9" by simp
  obtain o1 w1 where o: "pe_open E rng w = (o1, w1)" by fastforce
  obtain r w2 where r: "pe_put E url rng w1 = (r, w2)" by fastforce
  have "pe_elapsed E w \<le> pe_elapsed E w1" "pe_elapsed E w1 \<le> pe_elapsed E w2"
    using clock o r unfolding steady_clock_def by (metis snd_conv)+
  with 0 k have "next_retry_delay k (pe_elapsed E w2) = None" by (simp add: next_retry_delay_def waited_last)
  with o r k put_outcome_some [of r] show ?case by (cases o1) auto
next
  case (Suc j)
  then have k: "k < 9" and fuel: "10 - k = Suc (10 - Suc k)" by auto
  obtain o1 w1 where o: "pe_open E rng w = (o1, w1)" by fastforce
  obtain r w2 where r: "pe_put E url rng w1 = (r, w2)" by fastforce
  have le: "pe_elapsed E w \<le> pe_elapsed E w1" "pe_elapsed E w1 \<le> pe_elapsed E w2"
    using clock o r unfolding steady_clock_def by (metis snd_conv)+
  show ?case
  proof (cases "o1 = None \<and> is_retryable r \<and> next_retry_delay k (pe_elapsed E w2) \<noteq> None")
    case True
    then obtain d where d: "next_retry_delay k (pe_elapsed E w2) = Some d" by blast
    have "waited (Suc k) \<le> pe_elapsed E w2 + d"
      using waited_step [OF k _ d] Suc.prems(2) le by simp
    also have "\<dots> \<le> pe_elapsed E (pe_sleep E d w2)" using clock by (simp add: steady_clock_def)
    finally have "\<exists>out n w'. put_loop E (10 - Suc k) url rng (Suc k) (pe_sleep E d w2) = Some (out, n, w') \<and> n \<le> 10"
      using Suc.hyps(1) [of "Suc k"] Suc.hyps(2) k by simp
    with True d o r show ?thesis unfolding fuel by simp
  next
    case False
    with o r k put_outcome_some [of r] show ?thesis unfolding fuel by (cases o1) auto
  qed
qed

text \<open>C35. An upload ends: on a clock that does not go back, ten attempts are enough for \<open>put_file_range\<close>, whatever the
  storage service answers, because the waiting doubles from half a second up to half a minute within a budget of two
  minutes; and the delay it asks for never exceeds what is left of the budget.\<close>

theorem upload_ends:
  assumes "steady_clock E"
  shows "(\<exists>out n w'. put_file_range E 10 url rng w = Some (out, n, w') \<and> n \<le> 10) \<and>
    (\<forall>attempt elapsed d. next_retry_delay attempt elapsed = Some d \<longrightarrow>
       0 < d \<and> elapsed + d \<le> upload_max_retry_elapsed)"
proof (intro conjI allI impI)
  show "\<exists>out n w'. put_file_range E 10 url rng w = Some (out, n, w') \<and> n \<le> 10"
    using put_loop_ends [OF assms, of 0 w url rng] by (simp add: put_file_range_def waited_def)
  fix attempt elapsed d
  assume "next_retry_delay attempt elapsed = Some d"
  then show "0 < d" "elapsed + d \<le> upload_max_retry_elapsed"
    by (auto simp: next_retry_delay_def upload_retry_base_delay_def split: if_splits)
qed

text \<open>A service that is down for good: every attempt answers 503 at once.\<close>

definition dead_service :: "nat put_env" where
  "dead_service =
     \<lparr>pe_open = \<lambda>_ w. (None, w), pe_put = \<lambda>_ _ w. (PutStatus 503 None None, w), pe_elapsed = id, pe_sleep = (+)\<rparr>"

theorem upload_ends_witness:
  "(\<exists>out n w'. put_file_range dead_service 10 ''http://s/x'' (whole_file ''a.zip'' 5) 0 = Some (out, n, w') \<and> n \<le> 10) \<and>
   seconds 1 + upload_retry_base_delay \<le> upload_max_retry_elapsed"
proof -
  have ok: "steady_clock dead_service" by (simp add: steady_clock_def dead_service_def)
  have "next_retry_delay 0 (seconds 1) = Some upload_retry_base_delay"
    by (simp add: next_retry_delay_def upload_numbers)
  then show ?thesis
    using upload_ends [OF ok, of "''http://s/x''" "whole_file ''a.zip'' 5" 0] by blast
qed

end
