(* ===== verification/DispatchPaging.thy ===== *)
theory DispatchPaging
  imports DispatchHttp
begin

text \<open>
  Automatic pagination, \<open>ags-runtime/src/runtime/dispatch/pagination.rs\<close>. The HTTP client is a function on a world and
  \<open>serde_json::from_str\<close> is the field \<open>pg_parse\<close>, which gives the value or the text of its error. A fetch returns
  the progress events it emitted, its result and the world. The two copies of the loop in the code differ in where a page
  has its items and in what they keep of the last page; both are instances of \<open>page_loop\<close>.
\<close>

section \<open>Limits\<close>

definition hard_page_cap :: nat where "hard_page_cap = 100"
definition default_page_size :: nat where "default_page_size = 100"

definition effective_page_limit :: "nat \<Rightarrow> nat" where
  "effective_page_limit user_limit =
     (if user_limit = 0 then hard_page_cap else min user_limit hard_page_cap)"

definition limit_message_text :: "nat \<Rightarrow> nat \<Rightarrow> nat \<Rightarrow> string" where
  "limit_message_text page_limit pages_fetched item_count =
     (if page_limit = 0 then
        ''Stopped after '' @ show_nat hard_page_cap @ '' '' @ pluralize ''page'' hard_page_cap @
        ''. For larger datasets, use the API directly or process in batches''
      else
        ''Stopped after '' @ show_nat pages_fetched @ '' '' @ pluralize ''page'' pages_fetched @ '' ('' @
        show_nat item_count @ '' '' @ pluralize ''item'' item_count @ ''). Use --page-limit to increase'')"

section \<open>Strategies and queries\<close>

datatype pagination_strategy = Offset | Cursor

definition has_query_parameter :: "string \<Rightarrow> operation_schema \<Rightarrow> bool" where
  "has_query_parameter n op = list_ex (\<lambda>p. p_name p = n \<and> p_location p = QueryParam) (op_parameters op)"

definition detect_strategy :: "operation_schema \<Rightarrow> pagination_strategy option" where
  "detect_strategy op =
     (if has_query_parameter ''after'' op then Some Cursor
      else if has_query_parameter ''offset'' op then Some Offset
      else None)"

type_synonym query = "(string \<times> string) list"

definition replace_query :: "string \<Rightarrow> string \<Rightarrow> query \<Rightarrow> query" where
  "replace_query k v q = filter (\<lambda>p. fst p \<noteq> k) q @ [(k, v)]"

text \<open>The offset is computed in \<open>u64\<close>; a release build wraps.\<close>

definition next_offset :: "nat \<Rightarrow> nat \<Rightarrow> nat" where
  "next_offset pages_fetched page_size = (pages_fetched * page_size) mod 2 ^ 64"

definition build_next_query :: "query \<Rightarrow> pagination_strategy \<Rightarrow> string \<Rightarrow> nat \<Rightarrow> nat \<Rightarrow> query" where
  "build_next_query base_query strategy cursor pages_fetched page_size =
     (case strategy of
        Cursor \<Rightarrow> replace_query ''after'' cursor base_query
      | Offset \<Rightarrow> replace_query ''offset'' (show_nat (next_offset pages_fetched page_size)) base_query)"

definition query_number :: "string \<Rightarrow> query \<Rightarrow> nat option" where
  "query_number k q = Option.bind (find (\<lambda>p. fst p = k) q) (\<lambda>p. parse_usize (snd p))"

definition page_size_from_query :: "query \<Rightarrow> nat" where
  "page_size_from_query q = (case query_number ''limit'' q of Some n \<Rightarrow> n | None \<Rightarrow> default_page_size)"

definition options_page_size :: "query \<Rightarrow> nat" where
  "options_page_size q = (case query_number ''count'' q of Some n \<Rightarrow> n | None \<Rightarrow> page_size_from_query q)"

section \<open>Responses\<close>

definition extract_next_cursor :: "json \<Rightarrow> string option" where
  "extract_next_cursor response =
     filter_option (\<lambda>s. s \<noteq> [])
       (Option.bind (json_key response ''paging'') (\<lambda>p. Option.bind (json_key p ''next'') as_str))"

definition array_at :: "string \<Rightarrow> json \<Rightarrow> json list option" where
  "array_at k response = Option.bind (json_key response k) as_array"

definition extract_data_array :: "json \<Rightarrow> json list option" where
  "extract_data_array response = array_at ''data'' response"

definition paging_of :: "json \<Rightarrow> json" where
  "paging_of response = (case json_key response ''paging'' of Some p \<Rightarrow> p | None \<Rightarrow> JObj [])"

definition build_merged_response :: "json list \<Rightarrow> json \<Rightarrow> json" where
  "build_merged_response all_items last_paging =
     json_obj [(''data'', JArr all_items), (''paging'', last_paging)]"

section \<open>Fetching\<close>

type_synonym 'w http_client = "http_request \<Rightarrow> 'w \<Rightarrow> http_response rt \<times> 'w"

record 'w paging =
  pg_client :: "'w http_client"
  pg_parse :: "string \<Rightarrow> string + json"
  pg_url :: string
  pg_token :: string
  pg_strategy :: pagination_strategy
  pg_query :: query
  pg_size :: nat
  pg_limit :: nat

type_synonym ('w, 'a) fetch = "progress_event list \<times> 'a rt \<times> 'w"

definition bearer :: "string \<Rightarrow> (string \<times> string) list" where
  "bearer token = [(''Authorization'', ''Bearer '' @ token)]"

definition page_request :: "'w paging \<Rightarrow> query \<Rightarrow> http_request" where
  "page_request P q =
     \<lparr>hr_method = Get, hr_url = pg_url P, hr_headers = bearer (pg_token P), hr_query = q, hr_body = None\<rparr>"

definition upstream_error :: "nat \<Rightarrow> string \<Rightarrow> runtime_error" where
  "upstream_error status msg =
     \<lparr>re_kind = Upstream status None, re_message = msg, re_details = None, re_hint = None\<rparr>"

definition success_status :: "nat \<Rightarrow> bool" where
  "success_status s \<longleftrightarrow> 200 \<le> s \<and> s < 300"

definition em_dash_text :: string where
  "em_dash_text = [CHR 0xE2, CHR 0x80, CHR 0x94]"

definition read_page :: "(string \<Rightarrow> string + json) \<Rightarrow> nat \<Rightarrow> http_response \<Rightarrow> json rt" where
  "read_page parse n r =
     (case hs_body r of
        BinaryContent ct bs \<Rightarrow>
          Inl (upstream_error (hs_status r)
            (''Paginated endpoint returned binary body ('' @ ct @ '', '' @ show_nat (length bs) @ '' bytes) '' @
             em_dash_text @ '' unsupported.''))
      | TextContent body \<Rightarrow>
          if \<not> success_status (hs_status r) then
            Inl (upstream_error (hs_status r)
              (''HTTP '' @ show_nat (hs_status r) @ '' error on page '' @ show_nat n))
          else case parse body of
            Inl e \<Rightarrow> Inl (internal_error (''Failed to parse page '' @ show_nat n @ '' response: '' @ e))
          | Inr v \<Rightarrow> Inr v)"

definition fetch_next_page :: "'w paging \<Rightarrow> query \<Rightarrow> nat \<Rightarrow> 'w \<Rightarrow> json rt \<times> 'w" where
  "fetch_next_page P q page_number w =
     (case pg_client P (page_request P q) w of
        (Inl e, w') \<Rightarrow> (Inl e, w')
      | (Inr r, w') \<Rightarrow> (read_page (pg_parse P) page_number r, w'))"

text \<open>
  \<open>items_of\<close> finds the items of a page and \<open>keep\<close> is what is remembered of it. A page without items ends the loop
  and is not remembered.
\<close>

function page_loop ::
  "(json \<Rightarrow> json list option) \<Rightarrow> (json \<Rightarrow> json) \<Rightarrow> 'w paging \<Rightarrow> nat \<Rightarrow> string \<Rightarrow> json list \<Rightarrow> json \<Rightarrow> 'w \<Rightarrow>
   ('w, json list \<times> json) fetch" where
  "page_loop items_of keep P pages_fetched cursor items kept w =
     (if pages_fetched \<ge> effective_page_limit (pg_limit P) then
        ([ProgressMessage (limit_message_text (pg_limit P) pages_fetched (length items))], Inr (items, kept), w)
      else
        let q = build_next_query (pg_query P) (pg_strategy P) cursor pages_fetched (pg_size P);
            page_event = ProgressPage (pages_fetched + 1) None
        in case fetch_next_page P q (pages_fetched + 1) w of
             (Inl e, w') \<Rightarrow> ([page_event], Inl e, w')
           | (Inr page, w') \<Rightarrow>
               (case items_of page of
                  None \<Rightarrow> ([page_event], Inr (items, kept), w')
                | Some [] \<Rightarrow> ([page_event], Inr (items, kept), w')
                | Some data \<Rightarrow>
                    (case extract_next_cursor page of
                       None \<Rightarrow> ([page_event], Inr (items @ data, keep page), w')
                     | Some c \<Rightarrow>
                         (case page_loop items_of keep P (pages_fetched + 1) c (items @ data) (keep page) w' of
                            (evs, r, w'') \<Rightarrow> (page_event # evs, r, w'')))))"
  by pat_completeness auto
termination
  by (relation "measure (\<lambda>(_, _, P, n, _). effective_page_limit (pg_limit P) - n)") auto

declare page_loop.simps [simp del]

definition paginate_loop :: "'w paging \<Rightarrow> string \<Rightarrow> json list \<Rightarrow> json \<Rightarrow> 'w \<Rightarrow> ('w, json) fetch" where
  "paginate_loop P first_cursor first_page_items first_page_paging w =
     (case page_loop extract_data_array paging_of P 1 first_cursor first_page_items first_page_paging w of
        (evs, r, w') \<Rightarrow> (evs, and_then r (\<lambda>(items, kept). Inr (build_merged_response items kept)), w'))"

text \<open>The arguments both entry points share.\<close>

record 'w page_source =
  ps_client :: "'w http_client"
  ps_parse :: "string \<Rightarrow> string + json"
  ps_url :: string
  ps_token :: string
  ps_operation :: operation_schema
  ps_query :: query
  ps_limit :: nat

definition paging_with :: "'w page_source \<Rightarrow> pagination_strategy \<Rightarrow> nat \<Rightarrow> 'w paging" where
  "paging_with S strategy n =
     \<lparr>pg_client = ps_client S, pg_parse = ps_parse S, pg_url = ps_url S, pg_token = ps_token S,
      pg_strategy = strategy, pg_query = ps_query S, pg_size = n, pg_limit = ps_limit S\<rparr>"

definition fetch_all_pages :: "'w page_source \<Rightarrow> json \<Rightarrow> 'w \<Rightarrow> ('w, json) fetch" where
  "fetch_all_pages S initial_response w =
     (case extract_next_cursor initial_response of
        None \<Rightarrow> ([], Inr initial_response, w)
      | Some cursor \<Rightarrow>
          (case detect_strategy (ps_operation S) of
             None \<Rightarrow> ([], Inr initial_response, w)
           | Some strategy \<Rightarrow>
               paginate_loop (paging_with S strategy (page_size_from_query (ps_query S))) cursor
                 (case extract_data_array initial_response of Some xs \<Rightarrow> xs | None \<Rightarrow> [])
                 (paging_of initial_response) w))"

definition single_segment_key :: "string \<Rightarrow> string option" where
  "single_segment_key items_path =
     filter_option (\<lambda>k. k \<noteq> [] \<and> list_all (\<lambda>c. c \<noteq> CHR ''.'' \<and> c \<noteq> CHR ''['') k)
       (strip_prefix ''$.'' items_path)"

definition insert_array :: "string \<Rightarrow> json list \<Rightarrow> json \<Rightarrow> json" where
  "insert_array key items response =
     (case response of JObj m \<Rightarrow> JObj (binsert key (JArr items) m) | _ \<Rightarrow> response)"

definition fetch_all_pages_at_path :: "'w page_source \<Rightarrow> string \<Rightarrow> json \<Rightarrow> 'w \<Rightarrow> ('w, json) fetch" where
  "fetch_all_pages_at_path S items_path initial_response w =
     (case single_segment_key items_path of
        None \<Rightarrow> ([], Inr initial_response, w)
      | Some key \<Rightarrow>
          (case extract_next_cursor initial_response of
             None \<Rightarrow> ([], Inr initial_response, w)
           | Some cursor \<Rightarrow>
               (case detect_strategy (ps_operation S) of
                  None \<Rightarrow> ([], Inr initial_response, w)
                | Some strategy \<Rightarrow>
                    (case page_loop (array_at key) id (paging_with S strategy (options_page_size (ps_query S))) 1 cursor
                            (case array_at key initial_response of Some xs \<Rightarrow> xs | None \<Rightarrow> []) initial_response w of
                       (evs, r, w') \<Rightarrow> (evs, and_then r (\<lambda>(items, kept). Inr (insert_array key items kept)), w')))))"

section \<open>What a fetch collects\<close>

text \<open>
  A service holds a list of pages: it answers the request for page \<open>k\<close> with that page, every page but the first has
  items, and a page names a next one exactly when there is one.
\<close>

definition next_query :: "'w paging \<Rightarrow> json \<Rightarrow> nat \<Rightarrow> query" where
  "next_query P previous k =
     build_next_query (pg_query P) (pg_strategy P) (the (extract_next_cursor previous)) k (pg_size P)"

definition serves :: "(json \<Rightarrow> json list option) \<Rightarrow> 'w paging \<Rightarrow> json list \<Rightarrow> bool" where
  "serves items_of P pages \<longleftrightarrow>
     (\<forall>k < length pages.
        (extract_next_cursor (pages ! k) \<noteq> None \<longleftrightarrow> k + 1 < length pages) \<and>
        (0 < k \<longrightarrow>
           items_of (pages ! k) \<noteq> None \<and> items_of (pages ! k) \<noteq> Some [] \<and>
           (\<forall>w. \<exists>w'. fetch_next_page P (next_query P (pages ! (k - 1)) k) (k + 1) w = (Inr (pages ! k), w'))))"

definition items_on :: "(json \<Rightarrow> json list option) \<Rightarrow> json \<Rightarrow> json list" where
  "items_on items_of page = (case items_of page of Some xs \<Rightarrow> xs | None \<Rightarrow> [])"

lemma serves_more:
  assumes "serves items_of P pages" "k < length pages"
  shows "extract_next_cursor (pages ! k) \<noteq> None \<longleftrightarrow> k + 1 < length pages"
  using assms unfolding serves_def by blast

lemma serves_page:
  assumes "serves items_of P pages" "k < length pages" "0 < k"
  obtains d ds w' where "items_of (pages ! k) = Some (d # ds)"
    "fetch_next_page P (next_query P (pages ! (k - 1)) k) (k + 1) w = (Inr (pages ! k), w')"
proof -
  from assms have "items_of (pages ! k) \<noteq> None" "items_of (pages ! k) \<noteq> Some []"
    and "\<exists>w'. fetch_next_page P (next_query P (pages ! (k - 1)) k) (k + 1) w = (Inr (pages ! k), w')"
    unfolding serves_def by blast+
  with that show thesis by (cases "items_of (pages ! k)") (auto simp: neq_Nil_conv)
qed

text \<open>The number of pages a fetch takes, and the events it emits from page \<open>k\<close> on.\<close>

definition pages_taken :: "'w paging \<Rightarrow> json list \<Rightarrow> nat" where
  "pages_taken P pages = min (length pages) (effective_page_limit (pg_limit P))"

definition stop_message :: "'w paging \<Rightarrow> json list \<Rightarrow> json list \<Rightarrow> progress_event list" where
  "stop_message P pages items =
     (if pages_taken P pages < length pages
      then [ProgressMessage (limit_message_text (pg_limit P) (pages_taken P pages) (length items))] else [])"

definition page_events :: "nat \<Rightarrow> nat \<Rightarrow> progress_event list" where
  "page_events k m = map (\<lambda>n. ProgressPage (n + 1) None) [k..<m]"

lemma effective_page_limit_bounds: "1 \<le> effective_page_limit n" "effective_page_limit n \<le> 100"
  by (auto simp: effective_page_limit_def hard_page_cap_def)

lemma page_loop_collects:
  assumes srv: "serves items_of P pages"
  shows "0 < k \<Longrightarrow> k < length pages \<Longrightarrow> k \<le> effective_page_limit (pg_limit P) \<Longrightarrow>
    \<exists>w'. page_loop items_of keep P k (the (extract_next_cursor (pages ! (k - 1)))) items kept w =
      (let m = pages_taken P pages;
           all_items = items @ concat (map (items_on items_of) (drop k (take m pages)))
       in (page_events k m @ stop_message P pages all_items,
           Inr (all_items, if k < m then keep (pages ! (m - 1)) else kept), w'))"
proof (induction "effective_page_limit (pg_limit P) - k" arbitrary: k items kept w)
  case 0
  then have k: "k = effective_page_limit (pg_limit P)" by simp
  then have "pages_taken P pages = k" using 0 by (simp add: pages_taken_def)
  then show ?case using k 0
    by (subst page_loop.simps) (simp add: page_events_def stop_message_def)
next
  case (Suc j)
  let ?eff = "effective_page_limit (pg_limit P)" and ?m = "pages_taken P pages" and ?page = "pages ! k"
  from Suc.hyps(2) have k: "k < ?eff" by simp
  obtain d ds w1 where d: "items_of ?page = Some (d # ds)"
    and f: "fetch_next_page P (next_query P (pages ! (k - 1)) k) (k + 1) w = (Inr ?page, w1)"
    by (rule serves_page [OF srv Suc.prems(2,1)])
  note more = serves_more [OF srv Suc.prems(2)]
  have step: "page_loop items_of keep P k (the (extract_next_cursor (pages ! (k - 1)))) items kept w =
      (case extract_next_cursor ?page of
         None \<Rightarrow> ([ProgressPage (k + 1) None], Inr (items @ d # ds, keep ?page), w1)
       | Some c \<Rightarrow>
           (case page_loop items_of keep P (k + 1) c (items @ d # ds) (keep ?page) w1 of
              (evs, r, w'') \<Rightarrow> (ProgressPage (k + 1) None # evs, r, w'')))"
    using k f d by (subst page_loop.simps) (simp add: next_query_def Let_def split: option.split)
  have km: "k < ?m" using k Suc.prems by (simp add: pages_taken_def)
  have mle: "?m \<le> length pages" by (simp add: pages_taken_def)
  have dropk: "drop k (take ?m pages) = ?page # drop (k + 1) (take ?m pages)"
    using km mle by (metis Cons_nth_drop_Suc Suc_eq_plus1 length_take min.absorb2 nth_take)
  have evk: "page_events k ?m = ProgressPage (k + 1) None # page_events (k + 1) ?m"
    using km by (simp add: page_events_def upt_conv_Cons)
  show ?case
  proof (cases "k + 1 < length pages")
    case False
    then have "?m = k + 1" using km mle by simp
    moreover from False more have "extract_next_cursor ?page = None" by simp
    ultimately show ?thesis
      unfolding step dropk evk Let_def using False by (simp add: page_events_def stop_message_def items_on_def d)
  next
    case True
    with more obtain c where c: "extract_next_cursor ?page = Some c" by blast
    from Suc.hyps(2) have j: "j = effective_page_limit (pg_limit P) - (k + 1)" by simp
    have "the (extract_next_cursor (pages ! (k + 1 - 1))) = c" "0 < k + 1" "k + 1 \<le> ?eff" using c k by simp_all
    from Suc.hyps(1) [OF j this(2) True this(3), of "items @ d # ds" "keep ?page" w1, unfolded this(1)]
    obtain w' where ih: "page_loop items_of keep P (k + 1) c (items @ d # ds) (keep ?page) w1 =
      (let all_items = (items @ d # ds) @ concat (map (items_on items_of) (drop (k + 1) (take ?m pages)))
       in (page_events (k + 1) ?m @ stop_message P pages all_items,
           Inr (all_items, if k + 1 < ?m then keep (pages ! (?m - 1)) else keep ?page), w'))"
      by (auto simp: Let_def)
    have "(if k + 1 < ?m then keep (pages ! (?m - 1)) else keep ?page) = keep (pages ! (?m - 1))"
      using km by (cases "k + 1 < ?m") (simp_all add: not_less le_Suc_eq)
    with ih step c km show ?thesis
      by (simp add: dropk evk Let_def items_on_def d)
  qed
qed

lemma paging_with_simps [simp]:
  "pg_limit (paging_with S strategy n) = ps_limit S"
  by (simp add: paging_with_def)


text \<open>A list of five items in pages of two; the service answers with the offset it was asked for.\<close>

definition sample_page :: "json list \<Rightarrow> json list \<Rightarrow> json" where
  "sample_page xs next =
     JObj [(''data'', JArr xs), (''paging'', JObj (map (\<lambda>n. (''next'', n)) next))]"

definition sample_pages :: "json list" where
  "sample_pages =
     [sample_page [JInt 1, JInt 2] [JStr ''more''], sample_page [JInt 3, JInt 4] [JStr ''more''],
      sample_page [JInt 5] []]"

definition sample_parse :: "string \<Rightarrow> string + json" where
  "sample_parse t =
     (if t = ''2'' then Inr (sample_pages ! 1) else if t = ''4'' then Inr (sample_pages ! 2) else Inl ''EOF'')"

definition sample_list_operation :: operation_schema where
  "sample_list_operation =
     \<lparr>op_id = ''list'', op_name = ''list'', op_mutation_class = ReadOnly, op_http_method = Get,
      op_path_template = ''/items'',
      op_parameters =
        [\<lparr>p_name = ''offset'', p_location = QueryParam, p_required = False, p_value_type = VInteger,
          p_is_file = False, p_description = None, p_default = None\<rparr>],
      op_request_body = None\<rparr>"

definition sample_source :: "nat \<Rightarrow> nat page_source" where
  "sample_source limit =
     \<lparr>ps_client = \<lambda>req w.
        (Inr \<lparr>hs_status = 200,
              hs_body = TextContent (case map_of (hr_query req) ''offset'' of Some o1 \<Rightarrow> o1 | None \<Rightarrow> [])\<rparr>, Suc w),
      ps_parse = sample_parse, ps_url = ''http://h/items'', ps_token = ''t'', ps_operation = sample_list_operation,
      ps_query = [(''limit'', ''2'')], ps_limit = limit\<rparr>"

lemma sample_size: "page_size_from_query [(''limit'', ''2'')] = 2"
  by (simp add: page_size_from_query_def query_number_def parse_usize_def digit_val_def)

lemma sample_offsets: "show_nat (next_offset 1 2) = ''2''" "show_nat (next_offset 2 2) = ''4''"
  by (simp_all add: next_offset_def show_nat.simps digit_char_eval)

lemma sample_cursors:
  "extract_next_cursor (sample_pages ! 0) = Some ''more''" "extract_next_cursor (sample_pages ! 1) = Some ''more''"
  "extract_next_cursor (sample_pages ! 2) = None"
  by code_simp+

lemma sample_served:
  "serves extract_data_array (paging_with (sample_source limit) Offset 2) sample_pages"
proof -
  let ?P = "paging_with (sample_source limit) Offset 2"
  have "fetch_next_page ?P (next_query ?P (sample_pages ! 0) 1) 2 w = (Inr (sample_pages ! 1), Suc w)"
    "fetch_next_page ?P (next_query ?P (sample_pages ! 1) 2) 3 w = (Inr (sample_pages ! 2), Suc w)" for w
    by (simp_all add: fetch_next_page_def next_query_def build_next_query_def replace_query_def sample_offsets
        paging_with_def sample_source_def page_request_def read_page_def success_status_def sample_parse_def
        sample_offsets [simplified])
  moreover have "extract_data_array (sample_pages ! 1) = Some [JInt 3, JInt 4]"
    "extract_data_array (sample_pages ! 2) = Some [JInt 5]" by code_simp+
  moreover have "length sample_pages = 3" by (simp add: sample_pages_def)
  ultimately show ?thesis
    using sample_cursors by (auto simp: serves_def less_Suc_eq numeral_eq_Suc)
qed


section \<open>Beyond the property\<close>

lemma fetch_error_ends_paging:
  assumes "pages < effective_page_limit (pg_limit P)"
    and "fetch_next_page P (build_next_query (pg_query P) (pg_strategy P) c pages (pg_size P)) (pages + 1) w = (Inl e, w')"
  shows "page_loop items_of keep P pages c items kept w = ([ProgressPage (pages + 1) None], Inl e, w')"
  using assms by (subst page_loop.simps) (simp add: Let_def)

text \<open>The offset a caller starts from does not reach the later requests: the second page is asked for at the page size,
  not at the starting offset plus the page size.\<close>

lemma next_query_ignores_start:
  "build_next_query (replace_query ''offset'' start q) Offset c n k = build_next_query q Offset c n k"
  by (simp add: build_next_query_def replace_query_def)

end
