(* ===== verification/DispatchExecute.thy ===== *)
theory DispatchExecute
  imports DispatchClassify DispatchShape DispatchPath DispatchPaging Compiler
begin

text \<open>
  Execution of an operation, \<open>ags-runtime/src/runtime/dispatch/execute.rs\<close>, the destinations of a response body,
  \<open>support/output_sink.rs\<close>, and the commands of the runtime that rest on them, \<open>runtime/facade/service.rs\<close>. Execution
  returns the progress events, the result, or \<^term>\<open>None\<close> where the classification of an error panics, and the world.
  What a verbose run traces is left out.
\<close>

section \<open>Destinations\<close>

datatype output_sink = SinkStdout | SinkFile string

datatype output_sink_error = SinkUsage string | SinkInternal string

datatype write_error = BrokenPipe | WriteError string

record 'w dispatch_env =
  dx_word :: "string \<Rightarrow> bool"
  dx_unicode :: unicode
  dx_parse :: "string \<Rightarrow> string + json"
  dx_content_type :: "operation_schema \<Rightarrow> string option"
  dx_stdout_tty :: bool
  dx_write_stdout :: "string \<Rightarrow> 'w \<Rightarrow> write_error option \<times> 'w"
  dx_flush_stdout :: "'w \<Rightarrow> write_error option \<times> 'w"
  dx_write_file :: "string \<Rightarrow> string \<Rightarrow> 'w \<Rightarrow> string option \<times> 'w"

definition resolve_output_sink :: "output_destination option \<Rightarrow> bool \<Rightarrow> bool \<Rightarrow> output_sink_error + output_sink" where
  "resolve_output_sink destination is_binary_body is_stdout_tty =
     (case destination of
        Some Stdout \<Rightarrow> Inr SinkStdout
      | Some (ToFile path) \<Rightarrow> Inr (SinkFile path)
      | None \<Rightarrow>
          if is_binary_body \<and> is_stdout_tty then
            Inl (SinkUsage (''Response body is binary. Use --output <path> to '' @
              ''write it to a file, or redirect stdout.''))
          else Inr SinkStdout)"

definition map_stdout_write_error :: "write_error option \<Rightarrow> string \<Rightarrow> output_sink_error option" where
  "map_stdout_write_error error op =
     (case error of
        Some (WriteError e) \<Rightarrow> Some (SinkUsage (''Cannot '' @ op @ '' stdout: '' @ e @ ''.''))
      | _ \<Rightarrow> None)"

definition sink_write :: "'w dispatch_env \<Rightarrow> output_sink \<Rightarrow> string \<Rightarrow> 'w \<Rightarrow> output_sink_error option \<times> 'w" where
  "sink_write D s bytes w =
     (case s of
        SinkStdout \<Rightarrow>
          (case dx_write_stdout D bytes w of
             (e, w1) \<Rightarrow>
               (case map_stdout_write_error e ''write to'' of
                  Some err \<Rightarrow> (Some err, w1)
                | None \<Rightarrow> (case dx_flush_stdout D w1 of (e', w2) \<Rightarrow> (map_stdout_write_error e' ''flush'', w2))))
      | SinkFile path \<Rightarrow>
          (case dx_write_file D path bytes w of
             (e, w1) \<Rightarrow> (map_option (\<lambda>_. SinkInternal (''Cannot write to '' @ quoted path)) e, w1)))"

definition map_output_sink_error_to_runtime_error :: "output_sink_error \<Rightarrow> runtime_error" where
  "map_output_sink_error_to_runtime_error e =
     (case e of SinkUsage msg \<Rightarrow> validation_error msg | SinkInternal msg \<Rightarrow> internal_error msg)"

definition sink_destination :: "output_sink \<Rightarrow> output_destination" where
  "sink_destination s = (case s of SinkStdout \<Rightarrow> Stdout | SinkFile path \<Rightarrow> ToFile path)"

section \<open>Requests\<close>

record 'w api_call_context =
  ac_client :: "'w http_client"
  ac_base_url :: string
  ac_token :: string
  ac_service_name :: string
  ac_resource_name :: string

definition joined_url :: "string \<Rightarrow> string \<Rightarrow> string" where
  "joined_url base path = trim_end_char CHR ''/'' base @ path"

definition build_base_request ::
  "'w dispatch_env \<Rightarrow> 'w api_call_context \<Rightarrow> operation_schema \<Rightarrow> command_request \<Rightarrow> (string \<times> query \<times> http_request) rt" where
  "build_base_request D ctx op req =
     and_then (substitute_path_params (dx_word D) (op_path_template op) (rq_path_params req)) (\<lambda>path.
       (let url = joined_url (ac_base_url ctx) path;
            query_params = rq_query_params req
        in Inr (url, query_params,
             \<lparr>hr_method = op_http_method op, hr_url = url, hr_headers = bearer (ac_token ctx),
              hr_query = query_params, hr_body = None\<rparr>)))"

section \<open>Responses\<close>

definition progress_verb_for_operation :: "string \<Rightarrow> mutation_class \<Rightarrow> string" where
  "progress_verb_for_operation method cls =
     (if cls = ReadOnly \<or> cls = Diagnostic then ''Fetching''
      else if method \<in> {''GET'', ''HEAD'', ''OPTIONS''} then ''Fetching''
      else if method = ''POST'' then ''Creating''
      else if method = ''PUT'' \<or> method = ''PATCH'' then ''Updating''
      else if method = ''DELETE'' then ''Deleting''
      else ''Requesting'')"

definition derive_success_noun :: "string \<Rightarrow> string \<Rightarrow> string" where
  "derive_success_noun method_name resource_name =
     (case after_hyphen method_name of
        Some after \<Rightarrow> kebab_case_to_words after
      | None \<Rightarrow> singularize resource_name)"

definition success_verb :: "http_method \<Rightarrow> string" where
  "success_verb m =
     (case m of Post \<Rightarrow> ''Created'' | Put \<Rightarrow> ''Updated'' | Patch \<Rightarrow> ''Updated'' | Delete \<Rightarrow> ''Deleted''
      | Get \<Rightarrow> ''Completed'')"

definition success_summary :: "'w api_call_context \<Rightarrow> operation_schema \<Rightarrow> command_request \<Rightarrow> string option" where
  "success_summary ctx op req =
     (if op_mutation_class op = Mutating \<and> rq_verbosity req \<noteq> Quiet
      then Some (success_verb (op_http_method op) @ '' '' @ derive_success_noun (op_name op) (ac_resource_name ctx))
      else None)"

definition error_object :: "(string \<Rightarrow> string + json) \<Rightarrow> string \<Rightarrow> json" where
  "error_object parse body_text =
     (case parse body_text of
        Inr v \<Rightarrow> v
      | Inl _ \<Rightarrow>
          (let cleaned = strip_terminal_control_sequences body_text
           in if cleaned = [] then JNull else JObj [(''errorMessage'', JStr cleaned)]))"

definition classify_error_body ::
  "'w dispatch_env \<Rightarrow> nat \<Rightarrow> string \<Rightarrow> string \<Rightarrow> string \<Rightarrow> string \<Rightarrow> runtime_error option" where
  "classify_error_body D status body_text service_name resource_name method_name =
     classify_to_runtime_error (dx_unicode D) status (error_object (dx_parse D) body_text) service_name resource_name
       method_name"

record service_output = api_output +
  so_success :: "string option"

datatype exec_output = ServiceOutput service_output | WrittenOutput binary_written_output

definition command_output_of :: "exec_output \<Rightarrow> command_output" where
  "command_output_of x =
     (case x of
        ServiceOutput s \<Rightarrow> OutService (api_output.truncate s)
      | WrittenOutput b \<Rightarrow> OutBinaryWritten b)"

type_synonym ('w, 'a) execution = "progress_event list \<times> 'a rt option \<times> 'w"

definition write_to_sink ::
  "'w dispatch_env \<Rightarrow> command_request \<Rightarrow> bool \<Rightarrow> string \<Rightarrow> string \<Rightarrow> 'w \<Rightarrow> exec_output rt \<times> 'w" where
  "write_to_sink D req is_binary content_type bytes w =
     (case resolve_output_sink (rq_output req) is_binary (dx_stdout_tty D) of
        Inl e \<Rightarrow> (Inl (map_output_sink_error_to_runtime_error e), w)
      | Inr s \<Rightarrow>
          (case sink_write D s bytes w of
             (Some e, w') \<Rightarrow> (Inl (map_output_sink_error_to_runtime_error e), w')
           | (None, w') \<Rightarrow>
               (Inr (WrittenOutput
                  \<lparr>bw_destination = sink_destination s, bw_bytes_written = length bytes,
                   bw_content_type = content_type\<rparr>), w')))"

definition write_binary_response ::
  "'w dispatch_env \<Rightarrow> nat \<Rightarrow> string \<Rightarrow> string \<Rightarrow> command_request \<Rightarrow> 'w \<Rightarrow> exec_output rt \<times> 'w" where
  "write_binary_response D status content_type bytes req w =
     (if \<not> success_status status then
        (Inl (upstream_error status
           (''HTTP '' @ show_nat status @ '' with binary body ('' @ content_type @ '', '' @
            show_nat (length bytes) @ '' bytes).'')), w)
      else write_to_sink D req True content_type bytes w)"

definition write_text_response ::
  "'w dispatch_env \<Rightarrow> string \<Rightarrow> operation_schema \<Rightarrow> command_request \<Rightarrow> 'w \<Rightarrow> exec_output rt \<times> 'w" where
  "write_text_response D body_text op req w =
     write_to_sink D req False
       (case dx_content_type D op of Some t \<Rightarrow> t | None \<Rightarrow> ''application/json'') body_text w"

section \<open>Execution\<close>

definition source_of ::
  "'w dispatch_env \<Rightarrow> 'w api_call_context \<Rightarrow> operation_schema \<Rightarrow> string \<Rightarrow> query \<Rightarrow> nat \<Rightarrow> 'w page_source" where
  "source_of D ctx op url query_params limit =
     \<lparr>ps_client = ac_client ctx, ps_parse = dx_parse D, ps_url = url, ps_token = ac_token ctx,
      ps_operation = op, ps_query = query_params, ps_limit = limit\<rparr>"

definition final_value ::
  "'w dispatch_env \<Rightarrow> 'w api_call_context \<Rightarrow> operation_schema \<Rightarrow> command_request \<Rightarrow> string \<Rightarrow> query \<Rightarrow> json \<Rightarrow> 'w \<Rightarrow>
   ('w, json) fetch" where
  "final_value D ctx op req url query_params v w =
     (case rq_pagination req of
        AllPages \<Rightarrow> fetch_all_pages (source_of D ctx op url query_params 0) v w
      | LimitItems limit \<Rightarrow> fetch_all_pages (source_of D ctx op url query_params limit) v w
      | _ \<Rightarrow> ([], Inr v, w))"

definition service_result ::
  "'w api_call_context \<Rightarrow> operation_schema \<Rightarrow> command_request \<Rightarrow> api_body \<Rightarrow> json option \<Rightarrow> exec_output" where
  "service_result ctx op req body raw =
     ServiceOutput
       \<lparr>ao_operation = op, ao_resource_name = ac_resource_name ctx, ao_body = body, ao_raw_body = raw,
        so_success = success_summary ctx op req\<rparr>"

definition shaped_body ::
  "'w dispatch_env \<Rightarrow> 'w api_call_context \<Rightarrow> operation_schema \<Rightarrow> command_request \<Rightarrow> json \<Rightarrow> api_body" where
  "shaped_body D ctx op req v =
     ShapedBody
       (if rq_output_format req = JsonFormat then Raw v
        else shape_response (dx_unicode D) v op (ac_resource_name ctx) (rq_verbosity req = Verbose))"

definition service_response ::
  "'w dispatch_env \<Rightarrow> 'w api_call_context \<Rightarrow> operation_schema \<Rightarrow> command_request \<Rightarrow> string \<Rightarrow> query \<Rightarrow> string \<Rightarrow> 'w \<Rightarrow>
   ('w, exec_output) fetch" where
  "service_response D ctx op req url query_params body_text w =
     (case dx_parse D body_text of
        Inr v \<Rightarrow>
          (case final_value D ctx op req url query_params v w of
             (evs, Inl e, w') \<Rightarrow> (evs, Inl e, w')
           | (evs, Inr v', w') \<Rightarrow>
               (evs @ [ProgressFinished], Inr (service_result ctx op req (shaped_body D ctx op req v') (Some v')), w'))
      | Inl _ \<Rightarrow>
          ([ProgressFinished],
           Inr (service_result ctx op req
             (if body_text \<noteq> [] then TextBody (strip_terminal_control_sequences body_text) else EmptyBody) None), w))"

definition execute_operation ::
  "'w dispatch_env \<Rightarrow> 'w api_call_context \<Rightarrow> operation_schema \<Rightarrow> command_request \<Rightarrow> 'w \<Rightarrow> ('w, exec_output) execution" where
  "execute_operation D ctx op req w =
     (case build_base_request D ctx op req of
        Inl e \<Rightarrow> ([], Some (Inl e), w)
      | Inr (url, query_params, http) \<Rightarrow>
          (let started = ProgressStarted
                 (progress_verb_for_operation (http_method_text (op_http_method op)) (op_mutation_class op) @ ''...'')
           in case ac_client ctx (http\<lparr>hr_body := rq_body req\<rparr>) w of
                (Inl e, w1) \<Rightarrow> ([started], Some (Inl e), w1)
              | (Inr r, w1) \<Rightarrow>
                  (case hs_body r of
                     BinaryContent content_type bytes \<Rightarrow>
                       (case write_binary_response D (hs_status r) content_type bytes req w1 of
                          (out, w2) \<Rightarrow> ([started, ProgressFinished], Some out, w2))
                   | TextContent body_text \<Rightarrow>
                       if \<not> success_status (hs_status r) then
                         ([started, ProgressFinished],
                          map_option Inl (classify_error_body D (hs_status r) body_text (ac_service_name ctx)
                            (ac_resource_name ctx) (op_name op)), w1)
                       else if rq_output req \<noteq> None \<and> rq_output_format req = Human then
                         (case write_text_response D body_text op req w1 of
                            (out, w2) \<Rightarrow> ([started, ProgressFinished], Some out, w2))
                       else
                         (case service_response D ctx op req url query_params body_text w1 of
                            (evs, out, w2) \<Rightarrow> (started # evs, Some out, w2)))))"

definition fetch_raw_body ::
  "'w dispatch_env \<Rightarrow> 'w api_call_context \<Rightarrow> operation_schema \<Rightarrow> command_request \<Rightarrow> string \<Rightarrow> 'w \<Rightarrow> ('w, json) execution" where
  "fetch_raw_body D ctx op req items_path w =
     (case build_base_request D ctx op req of
        Inl e \<Rightarrow> ([], Some (Inl e), w)
      | Inr (url, query_params, http) \<Rightarrow>
          (case ac_client ctx http w of
             (Inl e, w1) \<Rightarrow> ([], Some (Inl e), w1)
           | (Inr r, w1) \<Rightarrow>
               (case hs_body r of
                  BinaryContent content_type bytes \<Rightarrow>
                    ([], Some (Inl (upstream_error (hs_status r)
                       (''options fetch returned a binary body ('' @ content_type @ '', '' @
                        show_nat (length bytes) @ '' bytes)''))), w1)
                | TextContent body_text \<Rightarrow>
                    if \<not> success_status (hs_status r) then
                      ([], map_option Inl (classify_error_body D (hs_status r) body_text (ac_service_name ctx)
                         (ac_resource_name ctx) (op_name op)), w1)
                    else
                      (case dx_parse D body_text of
                         Inl e \<Rightarrow> ([], Some (Inl (internal_error (''options fetch returned a non-JSON body: '' @ e))), w1)
                       | Inr v \<Rightarrow>
                           (case fetch_all_pages_at_path (source_of D ctx op url query_params 0) items_path v w1 of
                              (evs, out, w2) \<Rightarrow> (evs, Some out, w2))))))"

section \<open>Commands of the runtime\<close>

record 'w runtime =
  rt_dispatch :: "'w dispatch_env"
  rt_client :: "'w http_client"
  rt_catalogue :: catalogue
  rt_base_url :: string
  rt_access_token :: string

primrec find_map :: "('a \<Rightarrow> 'b option) \<Rightarrow> 'a list \<Rightarrow> 'b option" where
  "find_map f [] = None"
| "find_map f (x # xs) = (case f x of Some y \<Rightarrow> Some y | None \<Rightarrow> find_map f xs)"

definition lookup_operation :: "service_schema \<Rightarrow> string \<Rightarrow> (string \<times> operation_schema \<times> bool) option" where
  "lookup_operation schema operation_id =
     find_map (\<lambda>r. find_map (\<lambda>m. find_map (\<lambda>s. map_option
         (\<lambda>c. (rs_name r, c, length (se_contracts s) > 1)) (find (\<lambda>c. op_id c = operation_id) (se_contracts s)))
       (ms_scopes m)) (rs_methods r)) (sv_resources schema)"

definition find_command_operation :: "'w runtime \<Rightarrow> command_request \<Rightarrow> (string \<times> operation_schema \<times> bool) rt" where
  "find_command_operation R req =
     and_then (rt_catalogue R (rq_service req)) (\<lambda>schema.
       ok_or (validation_error (''Operation '' @ quoted (rq_operation_id req) @ '' not found in service '' @
                quoted (rq_service req)))
         (lookup_operation schema (rq_operation_id req)))"

definition call_context :: "'w runtime \<Rightarrow> command_request \<Rightarrow> string \<Rightarrow> 'w api_call_context" where
  "call_context R req resource_name =
     \<lparr>ac_client = rt_client R, ac_base_url = rt_base_url R, ac_token = rt_access_token R,
      ac_service_name = (case display_name (rq_service req) of Some n \<Rightarrow> n | None \<Rightarrow> rq_service req),
      ac_resource_name = resource_name\<rparr>"

definition run_command :: "'w runtime \<Rightarrow> command_request \<Rightarrow> 'w \<Rightarrow> ('w, exec_output) execution" where
  "run_command R req w =
     (case find_command_operation R req of
        Inl e \<Rightarrow> ([], Some (Inl e), w)
      | Inr (resource_name, op, _) \<Rightarrow> execute_operation (rt_dispatch R) (call_context R req resource_name) op req w)"

definition build_request_url :: "'w runtime \<Rightarrow> string \<Rightarrow> string" where
  "build_request_url R path = joined_url (rt_base_url R) path"

definition preview_path :: "string \<Rightarrow> string bmap \<Rightarrow> string" where
  "preview_path template params =
     fold (\<lambda>(name, value) path. str_replace (placeholder name) (strip_terminal_control_sequences value) path)
       params template"

definition preview_command :: "'w runtime \<Rightarrow> command_request \<Rightarrow> command_preview rt" where
  "preview_command R req =
     and_then (find_command_operation R req) (\<lambda>(_, op, _).
       Inr \<lparr>cp_service = rq_service req, cp_operation_id = rq_operation_id req,
            cp_summary = ''This will issue a '' @ http_method_text (op_http_method op) @ '' request'',
            cp_http_method = op_http_method op,
            cp_url = build_request_url R (preview_path (op_path_template op) (rq_path_params req)),
            cp_mutation_class = op_mutation_class op,
            cp_confirmation_required = requires_confirmation (op_http_method op) (op_name op),
            cp_warnings = []\<rparr>)"

definition dry_run_command :: "'w runtime \<Rightarrow> command_request \<Rightarrow> dry_run_result rt" where
  "dry_run_command R req =
     and_then (find_command_operation R req) (\<lambda>(_, op, _).
     and_then (substitute_path_params (dx_word (rt_dispatch R)) (op_path_template op) (rq_path_params req)) (\<lambda>path.
       Inr \<lparr>dr_http_method = op_http_method op, dr_url = build_request_url R path,
            dr_headers = [(''Authorization'', ''Bearer <token>'')],
            dr_query = rq_query_params req, dr_body = rq_body req\<rparr>))"

definition fetch_options_body :: "'w runtime \<Rightarrow> command_request \<Rightarrow> string \<Rightarrow> 'w \<Rightarrow> ('w, json) execution" where
  "fetch_options_body R req items_path w =
     (case find_command_operation R req of
        Inl e \<Rightarrow> ([], Some (Inl e), w)
      | Inr (resource_name, op, _) \<Rightarrow>
          fetch_raw_body (rt_dispatch R) (call_context R req resource_name) op req items_path w)"

section \<open>What is sent\<close>

text \<open>A world that keeps the requests it was sent.\<close>

definition records_requests :: "('w \<Rightarrow> http_request list) \<Rightarrow> 'w http_client \<Rightarrow> 'w dispatch_env \<Rightarrow> bool" where
  "records_requests sent client D \<longleftrightarrow>
     (\<forall>q w. sent (snd (client q w)) = sent w @ [q]) \<and>
     (\<forall>bs w. sent (snd (dx_write_stdout D bs w)) = sent w) \<and>
     (\<forall>w. sent (snd (dx_flush_stdout D w)) = sent w) \<and>
     (\<forall>path bs w. sent (snd (dx_write_file D path bs w)) = sent w)"

definition page_requests :: "string \<Rightarrow> string \<Rightarrow> http_request list \<Rightarrow> bool" where
  "page_requests url token qs \<longleftrightarrow>
     (\<forall>q \<in> set qs. hr_method q = Get \<and> hr_url q = url \<and> hr_headers q = bearer token \<and> hr_body q = None)"

lemma page_requests_simps [simp]:
  "page_requests url token []"
  "page_requests url token (q # qs) \<longleftrightarrow>
     hr_method q = Get \<and> hr_url q = url \<and> hr_headers q = bearer token \<and> hr_body q = None \<and> page_requests url token qs"
  by (auto simp: page_requests_def)

lemma client_records: "records_requests sent client D \<Longrightarrow> sent (snd (client q w)) = sent w @ [q]"
  by (simp add: records_requests_def)

lemma sink_write_silent: "records_requests sent client D \<Longrightarrow> sent (snd (sink_write D s bs w)) = sent w"
  unfolding records_requests_def
  by (auto simp: sink_write_def split: output_sink.split prod.split option.split) (metis snd_conv)+

lemma write_to_sink_silent:
  assumes "records_requests sent client D"
  shows "sent (snd (write_to_sink D req b ct bs w)) = sent w"
proof (cases "resolve_output_sink (rq_output req) b (dx_stdout_tty D)")
  case (Inr s)
  then show ?thesis using sink_write_silent [OF assms, of s bs w]
    by (auto simp: write_to_sink_def split: prod.split option.split)
qed (simp add: write_to_sink_def)

lemma page_loop_sends:
  "records_requests sent (pg_client P) D \<Longrightarrow>
   \<exists>qs. sent (snd (snd (page_loop items_of keep P n c items kept w))) = sent w @ qs \<and>
    length qs \<le> effective_page_limit (pg_limit P) - n \<and> page_requests (pg_url P) (pg_token P) qs"
proof (induction items_of keep P n c items kept w rule: page_loop.induct)
  case (1 items_of keep P n c items kept w)
  let ?eff = "effective_page_limit (pg_limit P)"
  let ?q = "build_next_query (pg_query P) (pg_strategy P) c n (pg_size P)"
  show ?case
  proof (cases "n \<ge> ?eff")
    case True
    then show ?thesis by (subst page_loop.simps) simp
  next
    case False
    obtain r w1 where r: "pg_client P (page_request P ?q) w = (r, w1)" by fastforce
    with client_records [OF "1.prems"] have log: "sent w1 = sent w @ [page_request P ?q]" by (metis snd_conv)
    have own: "page_requests (pg_url P) (pg_token P) [page_request P ?q]" by (simp add: page_request_def)
    have f: "fetch_next_page P ?q (n + 1) w = (case r of Inl e \<Rightarrow> (Inl e, w1) | Inr x \<Rightarrow> (read_page (pg_parse P) (n + 1) x, w1))"
      by (simp add: fetch_next_page_def r split: sum.split)
    then obtain page where page: "fetch_next_page P ?q (n + 1) w = (page, w1)" by (cases r) auto
    have stop: ?thesis if "snd (snd (page_loop items_of keep P n c items kept w)) = w1"
      using that log own False by (intro exI [of _ "[page_request P ?q]"]) simp
    show ?thesis
    proof (cases "\<exists>v d ds c'. page = Inr v \<and> items_of v = Some (d # ds) \<and> extract_next_cursor v = Some c'")
      case True
      then obtain v d ds c' where v: "page = Inr v" "items_of v = Some (d # ds)" "extract_next_cursor v = Some c'" by blast
      have "page_loop items_of keep P n c items kept w =
          (case page_loop items_of keep P (n + 1) c' (items @ d # ds) (keep v) w1 of
             (evs, r, w'') \<Rightarrow> (ProgressPage (n + 1) None # evs, r, w''))"
        using False page v by (subst page_loop.simps) (simp add: Let_def)
      then have same: "snd (snd (page_loop items_of keep P n c items kept w)) =
          snd (snd (page_loop items_of keep P (n + 1) c' (items @ d # ds) (keep v) w1))"
        by (simp split: prod.split)
      from "1.IH" [OF False refl refl page [symmetric] v(1) v(2) refl v(3) "1.prems"] obtain qs where
        "sent (snd (snd (page_loop items_of keep P (n + 1) c' (items @ d # ds) (keep v) w1))) = sent w1 @ qs"
        "length qs \<le> ?eff - (n + 1)" "page_requests (pg_url P) (pg_token P) qs" by blast
      with same log own False show ?thesis
        by (intro exI [of _ "page_request P ?q # qs"]) auto
    next
      case False
      then show ?thesis
        using page \<open>\<not> n \<ge> ?eff\<close>
        by (intro stop, subst page_loop.simps) (auto simp: Let_def split: sum.splits option.splits list.splits)
    qed
  qed
qed

lemma fetch_all_pages_sends:
  assumes "records_requests sent (ps_client S) D"
  shows "\<exists>qs. sent (snd (snd (fetch_all_pages S v w))) = sent w @ qs \<and>
    length qs < 100 \<and> page_requests (ps_url S) (ps_token S) qs"
proof -
  define P where "P strategy = paging_with S strategy (page_size_from_query (ps_query S))" for strategy
  have P: "pg_client (P s) = ps_client S" "pg_url (P s) = ps_url S" "pg_token (P s) = ps_token S" for s
    by (simp_all add: P_def paging_with_def)
  have loop: "\<exists>qs. sent (snd (snd (paginate_loop (P s) c items kept w))) = sent w @ qs \<and>
    length qs < 100 \<and> page_requests (ps_url S) (ps_token S) qs" for s c items kept
  proof -
    obtain evs r w' where run: "page_loop extract_data_array paging_of (P s) 1 c items kept w = (evs, r, w')"
      by (metis prod_cases3)
    have "records_requests sent (pg_client (P s)) D" using assms by (simp add: P)
    from page_loop_sends [OF this, of extract_data_array paging_of 1 c items kept w] run obtain qs where
      "sent w' = sent w @ qs" "length qs \<le> effective_page_limit (pg_limit (P s)) - 1"
      "page_requests (ps_url S) (ps_token S) qs" by (auto simp: P)
    moreover have "snd (snd (paginate_loop (P s) c items kept w)) = w'"
      unfolding paginate_loop_def run by simp
    ultimately show ?thesis using effective_page_limit_bounds(2) [of "pg_limit (P s)"] by auto
  qed
  show ?thesis
    using loop by (auto simp: fetch_all_pages_def P_def [symmetric] split: option.split intro: exI [of _ "[]"])
qed

lemma final_value_sends:
  assumes "records_requests sent (ac_client ctx) D"
  shows "\<exists>qs. sent (snd (snd (final_value D ctx op req url q v w))) = sent w @ qs \<and>
    length qs < 100 \<and> page_requests url (ac_token ctx) qs"
proof -
  have "records_requests sent (ps_client (source_of D ctx op url q n)) D"
    "ps_url (source_of D ctx op url q n) = url" "ps_token (source_of D ctx op url q n) = ac_token ctx" for n
    using assms by (simp_all add: source_of_def)
  from fetch_all_pages_sends [OF this(1)] this show ?thesis
    by (simp add: final_value_def split: pagination_hint.split)
qed

lemma service_response_sends:
  assumes "records_requests sent (ac_client ctx) D"
  shows "\<exists>qs. sent (snd (snd (service_response D ctx op req url q body w))) = sent w @ qs \<and>
    length qs < 100 \<and> page_requests url (ac_token ctx) qs"
proof (cases "dx_parse D body")
  case (Inr v)
  from final_value_sends [OF assms, of op req url q v w] show ?thesis
    by (auto simp: service_response_def Inr split: prod.split sum.split)
qed (simp add: service_response_def)

lemma execute_operation_sends:
  assumes log: "records_requests sent (ac_client ctx) D"
    and base: "build_base_request D ctx op req = Inr (url, q, http)"
  shows "\<exists>qs. sent (snd (snd (execute_operation D ctx op req w))) = sent w @ http\<lparr>hr_body := rq_body req\<rparr> # qs \<and>
    length qs < 100 \<and> page_requests url (ac_token ctx) qs"
proof -
  obtain r w1 where r: "ac_client ctx (http\<lparr>hr_body := rq_body req\<rparr>) w = (r, w1)" by fastforce
  with client_records [OF log] have first: "sent w1 = sent w @ [http\<lparr>hr_body := rq_body req\<rparr>]" by (metis snd_conv)
  have "\<exists>qs. sent (snd (snd (execute_operation D ctx op req w))) = sent w1 @ qs \<and>
    length qs < 100 \<and> page_requests url (ac_token ctx) qs"
  proof (cases r)
    case (Inl e)
    then show ?thesis by (simp add: execute_operation_def base r Let_def)
  next
    case (Inr x)
    have silent: "sent (snd (write_to_sink D req b ct bs w1)) = sent w1" for b ct bs
      using write_to_sink_silent [OF log] .
    show ?thesis
    proof (cases "hs_body x")
      case (BinaryContent ct bs)
      have "sent (snd (write_binary_response D (hs_status x) ct bs req w1)) = sent w1"
        by (simp add: write_binary_response_def silent)
      then show ?thesis
        by (auto simp: execute_operation_def base r Inr BinaryContent Let_def split: prod.split intro: exI [of _ "[]"])
    next
      case (TextContent body)
      have "sent (snd (write_text_response D body op req w1)) = sent w1"
        by (simp add: write_text_response_def silent)
      then show ?thesis using service_response_sends [OF log, of op req url q body w1]
        by (auto simp: execute_operation_def base r Inr TextContent Let_def split: prod.split)
    qed
  qed
  with first show ?thesis by auto
qed

text \<open>C7. What the dry run reports is what the run sends. Where \<open>dry_run_command\<close> fails, \<open>run_command\<close> fails with the same
  error and sends nothing. Where it succeeds, the first request of the run has the method, the URL, the query
  and the body of the report, with the bearer token of the session in place of the masked one; whatever follows
  are \<open>GET\<close> requests for further pages to that same URL with that token and no body, and there are fewer than a hundred.\<close>

theorem run_sends_what_dry_run_reports:
  assumes log: "records_requests sent (rt_client R) (rt_dispatch R)"
  shows "case dry_run_command R req of
      Inl e \<Rightarrow> run_command R req w = ([], Some (Inl e), w)
    | Inr d \<Rightarrow>
        \<exists>pages. sent (snd (snd (run_command R req w))) = sent w @
            \<lparr>hr_method = dr_http_method d, hr_url = dr_url d, hr_headers = bearer (rt_access_token R),
             hr_query = dr_query d, hr_body = dr_body d\<rparr> # pages \<and>
          length pages < 100 \<and>
          (\<forall>q \<in> set pages. hr_method q = Get \<and> hr_url q = dr_url d \<and>
             hr_headers q = bearer (rt_access_token R) \<and> hr_body q = None)"
proof (cases "find_command_operation R req")
  case (Inl e)
  then show ?thesis by (simp add: dry_run_command_def run_command_def and_then_def)
next
  case (Inr found)
  obtain resource op alt where f: "found = (resource, op, alt)" by (metis prod_cases3)
  let ?ctx = "call_context R req resource"
  have ctx: "ac_client ?ctx = rt_client R" "ac_token ?ctx = rt_access_token R" "ac_base_url ?ctx = rt_base_url R"
    by (simp_all add: call_context_def)
  have run: "run_command R req w = execute_operation (rt_dispatch R) ?ctx op req w"
    by (simp add: run_command_def Inr f)
  show ?thesis
  proof (cases "substitute_path_params (dx_word (rt_dispatch R)) (op_path_template op) (rq_path_params req)")
    case (Inl e)
    then show ?thesis
      by (simp add: dry_run_command_def run Inr f execute_operation_def build_base_request_def and_then_def)
  next
    case path: (Inr path)
    let ?http = "\<lparr>hr_method = op_http_method op, hr_url = joined_url (rt_base_url R) path,
      hr_headers = bearer (rt_access_token R), hr_query = rq_query_params req, hr_body = None\<rparr>"
    have base: "build_base_request (rt_dispatch R) ?ctx op req =
        Inr (joined_url (rt_base_url R) path, rq_query_params req, ?http)"
      by (simp add: build_base_request_def path and_then_def Let_def ctx)
    have "records_requests sent (ac_client ?ctx) (rt_dispatch R)" using log by (simp add: ctx)
    from execute_operation_sends [OF this base, of w] show ?thesis
      by (simp add: dry_run_command_def run Inr f path and_then_def build_request_url_def ctx page_requests_def)
  qed
qed

text \<open>A service that keeps what it is sent and answers with an empty object, and one operation on it.\<close>

definition sample_dispatch :: "http_request list dispatch_env" where
  "sample_dispatch =
     \<lparr>dx_word = (\<lambda>_. False), dx_unicode = ascii_only, dx_parse = (\<lambda>_. Inr (JObj [])), dx_content_type = (\<lambda>_. None),
      dx_stdout_tty = False, dx_write_stdout = (\<lambda>_ w. (None, w)), dx_flush_stdout = (\<lambda>w. (None, w)),
      dx_write_file = (\<lambda>_ _ w. (None, w))\<rparr>"

definition sample_ban :: operation_schema where
  "sample_ban =
     \<lparr>op_id = ''ban'', op_name = ''ban'', op_mutation_class = Mutating, op_http_method = Post,
      op_path_template = ''/users/{id}/ban'', op_parameters = [], op_request_body = None\<rparr>"

definition sample_runtime :: "http_request list runtime" where
  "sample_runtime =
     \<lparr>rt_dispatch = sample_dispatch,
      rt_client = (\<lambda>q w. (Inr \<lparr>hs_status = 200, hs_body = TextContent ''x''\<rparr>, w @ [q])),
      rt_catalogue = (\<lambda>_. Inr \<lparr>sv_name = ''iam'',
        sv_resources = [\<lparr>rs_name = ''users'',
          rs_methods = [\<lparr>ms_name = ''ban'', ms_default_scope = None,
            ms_scopes = [\<lparr>se_scope = ''admin'', se_contracts = [sample_ban]\<rparr>]\<rparr>]\<rparr>]\<rparr>),
      rt_base_url = ''https://h/'', rt_access_token = ''T''\<rparr>"

definition sample_request :: "string \<Rightarrow> command_request" where
  "sample_request i =
     \<lparr>rq_service = ''iam'', rq_operation_id = ''ban'', rq_namespace = None, rq_path_params = [(''id'', i)],
      rq_query_params = [], rq_header_params = [], rq_form_params = [], rq_body = Some (JsonBody (JObj [])),
      rq_output_format = Human, rq_pagination = AllPages, rq_verbosity = Normal, rq_output = None\<rparr>"

definition sample_dry_run :: dry_run_result where
  "sample_dry_run =
     \<lparr>dr_http_method = Post, dr_url = ''https://h/users/a%2Fb/ban'',
      dr_headers = [(''Authorization'', ''Bearer <token>'')], dr_query = [], dr_body = Some (JsonBody (JObj []))\<rparr>"

lemma sample_dry_runs:
  "dry_run_command sample_runtime (sample_request ''a/b'') = Inr sample_dry_run"
  by code_simp

theorem run_sends_what_dry_run_reports_witness:
  "\<exists>pages. snd (snd (run_command sample_runtime (sample_request ''a/b'') [])) =
      \<lparr>hr_method = Post, hr_url = ''https://h/users/a%2Fb/ban'', hr_headers = [(''Authorization'', ''Bearer T'')],
       hr_query = [], hr_body = Some (JsonBody (JObj []))\<rparr> # pages"
proof -
  have "records_requests id (rt_client sample_runtime) (rt_dispatch sample_runtime)"
    by (simp add: records_requests_def sample_runtime_def sample_dispatch_def)
  from run_sends_what_dry_run_reports [OF this, of "sample_request ''a/b''" "[]"] show ?thesis
    unfolding sample_dry_runs by (auto simp: sample_dry_run_def sample_runtime_def bearer_def)
qed

section \<open>Beyond the property\<close>

text \<open>The preview fills the template one value after the other and does not encode: a value that reads like a later
  placeholder is filled again, so the card shows another URL than the one that is sent.\<close>

lemma preview_can_differ:
  "preview_path ''/x/{a}/{b}'' [(''a'', ''{b}''), (''b'', ''1'')] = ''/x/1/1'' \<and>
   substitute_path_params (\<lambda>_. False) ''/x/{a}/{b}'' [(''a'', ''{b}''), (''b'', ''1'')] = Inr ''/x/%7Bb%7D/1''"
  by (rule conjI; code_simp)

text \<open>Header parameters do not reach the request.\<close>

lemma header_parameters_not_sent:
  "build_base_request D ctx op (req\<lparr>rq_header_params := h, rq_form_params := p\<rparr>) = build_base_request D ctx op req"
  by (simp add: build_base_request_def)

end
