(* ===== verification/WorkflowFiles.thy ===== *)
theory WorkflowFiles
  imports CompileLaws DispatchText
begin

text \<open>
  Workflows in files: the registry (\<open>workflows/mod.rs\<close>), the files of the user's workflows directory
  (\<open>workflows/external.rs\<close>), the comparison of protocol versions (\<open>workflows/version_check.rs\<close>), and the commands
  that install and remove a workflow (\<open>runtime/facade/workflow.rs\<close>). The file system, the YAML parser and the parser
  of versions are parameters. Paths are those of Unix.
\<close>

section \<open>Paths\<close>

fun path_pieces :: "string \<Rightarrow> string list" where
  "path_pieces [] = [[]]"
| "path_pieces (c # s) =
     (if c = CHR ''/'' then [] # path_pieces s
      else case path_pieces s of p # ps \<Rightarrow> (c # p) # ps | [] \<Rightarrow> [[c]])"

text \<open>\<open>Path::components\<close>: empty and current-directory pieces vanish, but for a leading one.\<close>

definition path_components :: "string \<Rightarrow> string list" where
  "path_components s =
     (if prefix ''/'' s then [''/''] else if hd (path_pieces s) = ''.'' then [''.''] else []) @
     filter (\<lambda>p. p \<noteq> [] \<and> p \<noteq> ''.'') (path_pieces s)"

definition path_join :: "string \<Rightarrow> string \<Rightarrow> string" where
  "path_join dir name =
     (if prefix ''/'' name then name
      else if dir = [] \<or> suffix ''/'' dir then dir @ name
      else dir @ ''/'' @ name)"

definition path_parent_is :: "string \<Rightarrow> string \<Rightarrow> bool" where
  "path_parent_is path dir \<longleftrightarrow>
     path_components path \<noteq> [] \<and> path_components path \<noteq> [''/''] \<and>
     butlast (path_components path) = path_components dir"

definition path_extension :: "string \<Rightarrow> string option" where
  "path_extension path =
     (case rev (path_components path) of
        [] \<Rightarrow> None
      | name # _ \<Rightarrow>
          if name \<in> {''/'', ''.'', ''..''} then None
          else case from_match (\<lambda>c. c = CHR ''.'') (rev name) of
            [] \<Rightarrow> None
          | _ # stem \<Rightarrow> if stem = [] then None else Some (rev (before_match (\<lambda>c. c = CHR ''.'') (rev name))))"

definition render_components :: "string list \<Rightarrow> string" where
  "render_components cs =
     (case cs of
        [] \<Rightarrow> []
      | c # r \<Rightarrow> if c = ''/'' then c @ join_with ''/'' r else join_with ''/'' cs)"

definition path_parent :: "string \<Rightarrow> string option" where
  "path_parent path =
     (let cs = path_components path
      in if cs = [] \<or> cs = [''/''] then None else Some (render_components (butlast cs)))"

definition eq_ignore_ascii_case :: "string \<Rightarrow> string \<Rightarrow> bool" where
  "eq_ignore_ascii_case a b \<longleftrightarrow> lower_text a = lower_text b"

section \<open>Versions\<close>

definition workflow_protocol_version :: string where
  "workflow_protocol_version = ''1.0.0''"

definition is_unparsable :: "(string \<Rightarrow> 'v option) \<Rightarrow> string \<Rightarrow> bool" where
  "is_unparsable parse_version declared \<longleftrightarrow> parse_version declared = None"

definition is_mismatched :: "(string \<Rightarrow> 'v option) \<Rightarrow> string option \<Rightarrow> bool" where
  "is_mismatched parse_version declared =
     (case Option.bind declared parse_version of
        None \<Rightarrow> False
      | Some v \<Rightarrow> (case parse_version workflow_protocol_version of None \<Rightarrow> False | Some current \<Rightarrow> v \<noteq> current))"

section \<open>The registry\<close>

datatype workflow_origin = Bundled | External

type_synonym registry = "(workflow_definition \<times> workflow_origin) bmap"

definition register :: "workflow_definition \<Rightarrow> registry \<Rightarrow> registry" where
  "register def reg = binsert (wd_id def) (def, Bundled) reg"

definition register_external :: "workflow_definition \<Rightarrow> registry \<Rightarrow> registry" where
  "register_external def reg = binsert (wd_id def) (def, External) reg"

definition resolve_workflow :: "registry \<Rightarrow> string \<Rightarrow> workflow_definition option" where
  "resolve_workflow reg wid = map_option fst (bget reg wid)"

definition origin :: "registry \<Rightarrow> string \<Rightarrow> workflow_origin option" where
  "origin reg wid = map_option snd (bget reg wid)"

definition is_bundled :: "registry \<Rightarrow> string \<Rightarrow> bool" where
  "is_bundled reg wid \<longleftrightarrow> origin reg wid = Some Bundled"

definition workflow_ids :: "registry \<Rightarrow> string list" where
  "workflow_ids reg = bkeys reg"

definition workflow_entries :: "registry \<Rightarrow> (string \<times> string) list" where
  "workflow_entries reg = map (\<lambda>(_, def, _). (wd_id def, wd_name def)) reg"

section \<open>Files of workflows\<close>

text \<open>What the code sees of the outside. \<open>fl_list\<close> gives the paths of the readable entries of a directory in its order.\<close>

record 'w files =
  fl_dir :: "string rt"
  fl_builtins :: "workflow_definition list"
  fl_yaml :: "string \<Rightarrow> string + workflow_definition"
  fl_version_ok :: "string \<Rightarrow> bool"
  fl_skeleton :: string
  fl_read :: "string \<Rightarrow> 'w \<Rightarrow> string + string"
  fl_list :: "string \<Rightarrow> 'w \<Rightarrow> string list option"
  fl_create_dir :: "string \<Rightarrow> 'w \<Rightarrow> string option \<times> 'w"
  fl_write :: "string \<Rightarrow> string \<Rightarrow> 'w \<Rightarrow> string option \<times> 'w"
  fl_remove :: "string \<Rightarrow> 'w \<Rightarrow> string option \<times> 'w"

definition load_external_workflow_file :: "'w files \<Rightarrow> string \<Rightarrow> 'w \<Rightarrow> workflow_definition rt" where
  "load_external_workflow_file F path w =
     (case fl_read F path w of
        Inl e \<Rightarrow> Inl (internal_error (''Failed to read '' @ quoted path @ '': '' @ e))
      | Inr yaml \<Rightarrow>
          (case fl_yaml F yaml of
             Inl e \<Rightarrow> Inl (internal_error (''Failed to parse '' @ quoted path @ '': '' @ e))
           | Inr def \<Rightarrow> Inr def))"

definition is_yaml :: "string \<Rightarrow> bool" where
  "is_yaml path \<longleftrightarrow>
     (case path_extension path of
        Some e \<Rightarrow> eq_ignore_ascii_case e ''yaml'' \<or> eq_ignore_ascii_case e ''yml''
      | None \<Rightarrow> False)"

definition load_entry :: "'w files \<Rightarrow> 'w \<Rightarrow> string \<Rightarrow> registry \<Rightarrow> registry" where
  "load_entry F w path reg =
     (if \<not> is_yaml path then reg
      else case load_external_workflow_file F path w of
        Inl _ \<Rightarrow> reg
      | Inr def \<Rightarrow> if resolve_workflow reg (wd_id def) \<noteq> None then reg else register_external def reg)"

definition load_external_workflows :: "'w files \<Rightarrow> 'w \<Rightarrow> registry \<Rightarrow> registry" where
  "load_external_workflows F w reg =
     (case fl_dir F of
        Inl _ \<Rightarrow> reg
      | Inr dir \<Rightarrow>
          (case fl_list F dir w of
             None \<Rightarrow> reg
           | Some paths \<Rightarrow> fold (load_entry F w) paths reg))"

text \<open>\<open>registry()\<close>, when it is accessed first.\<close>

definition registry_of :: "'w files \<Rightarrow> 'w \<Rightarrow> registry" where
  "registry_of F w = load_external_workflows F w (fold register (fl_builtins F) [])"

definition find_external_workflow_by_id :: "'w files \<Rightarrow> string \<Rightarrow> 'w \<Rightarrow> string option rt" where
  "find_external_workflow_by_id F wid w =
     (case fl_dir F of
        Inl e \<Rightarrow> Inl e
      | Inr dir \<Rightarrow>
          (case fl_list F dir w of
             None \<Rightarrow> Inr None
           | Some paths \<Rightarrow>
               Inr (find (\<lambda>path. is_yaml path \<and>
                      (case load_external_workflow_file F path w of
                         Inl _ \<Rightarrow> False
                       | Inr def \<Rightarrow> eq_ignore_ascii_case (wd_id def) wid)) paths)))"

section \<open>Installing and removing\<close>

definition windows_reserved_device_names :: "string list" where
  "windows_reserved_device_names =
     [''CON'', ''PRN'', ''AUX'', ''NUL'', ''COM1'', ''COM2'', ''COM3'', ''COM4'', ''COM5'', ''COM6'', ''COM7'', ''COM8'',
      ''COM9'', ''LPT1'', ''LPT2'', ''LPT3'', ''LPT4'', ''LPT5'', ''LPT6'', ''LPT7'', ''LPT8'', ''LPT9'']"

definition allowed_id_char :: "char \<Rightarrow> bool" where
  "allowed_id_char c \<longleftrightarrow> is_upper c \<or> is_lower c \<or> is_digit c \<or> c = CHR ''.'' \<or> c = CHR ''_'' \<or> c = CHR ''-''"

definition with_hint :: "runtime_error \<Rightarrow> string \<Rightarrow> runtime_error" where
  "with_hint e h = e\<lparr>re_hint := Some h\<rparr>"

definition validate_workflow_id :: "string \<Rightarrow> unit rt" where
  "validate_workflow_id wid =
     (if \<not> (wid \<noteq> [] \<and> list_all allowed_id_char wid) then
        Inl (with_hint (validation_error (''Invalid workflow id '' @ quoted wid @ ''.''))
          (''Workflow ids may only contain letters, digits, '' @ quoted ''.'' @ '', '' @ quoted ''_'' @ '', and '' @
           quoted ''-'' @ '' (e.g. '' @ quoted ''competitive-multiplayer'' @ '').''))
      else if list_ex (\<lambda>r. eq_ignore_ascii_case r (before_match (\<lambda>c. c = CHR ''.'') wid)) windows_reserved_device_names then
        Inl (with_hint (validation_error (''Invalid workflow id '' @ quoted wid @ '': reserved by Windows.''))
          (''Workflow ids may not use Windows-reserved device names (CON, PRN, AUX, NUL, '' @
           ''COM1-9, LPT1-9), even as a prefix before '' @ quoted ''.'' @ ''.''))
      else Inr ())"

record workflow_add_output =
  wao_id :: string
  wao_validated_only :: bool
  wao_path :: "string option"

record workflow_remove_output =
  wro_id :: string
  wro_path :: string
  wro_builtin_still_registered :: bool

definition check_declared_version :: "'w files \<Rightarrow> string \<Rightarrow> workflow_definition \<Rightarrow> unit rt" where
  "check_declared_version F path def =
     (case wd_protocol_version def of
        None \<Rightarrow>
          Inl (with_hint
            (validation_error (quoted path @ '' is missing a required `workflow_protocol_version` field.''))
            (''Declare `workflow_protocol_version: '' @ CHR 0x22 # ''<version>'' @ CHR 0x22 # ''`, or run `ags '' @
             ''workflow template` for a starter file with one already filled in.''))
      | Some declared \<Rightarrow>
          if \<not> fl_version_ok F declared then
            Inl (with_hint
              (validation_error (quoted path @ '' has an invalid `workflow_protocol_version`: '' @ quoted declared @
                 '' is not a valid semver version.''))
              (''Declare `workflow_protocol_version` as a semver string (e.g. '' @ CHR 0x22 # ''1.0.0'' @ CHR 0x22 #
               ''), or run `ags workflow template` for a starter file with one already filled in.''))
          else Inr ())"

definition check_unregistered :: "registry \<Rightarrow> string \<Rightarrow> unit rt" where
  "check_unregistered reg wid =
     (case find (\<lambda>existing. eq_ignore_ascii_case existing wid) (workflow_ids reg) of
        None \<Rightarrow> Inr ()
      | Some existing \<Rightarrow>
          Inl (with_hint
            (validation_error
              (if existing = wid then ''A workflow with id '' @ quoted wid @ '' is already registered.''
               else ''A workflow with id '' @ quoted wid @ '' is already registered as '' @ quoted existing @
                    ''; ids are compared case-insensitively.''))
            (''Choose a different id, or run `ags workflow remove <id>` to remove the '' @
             ''existing workflow first (built-in workflows cannot be removed this way).'')))"

definition install_file :: "'w files \<Rightarrow> string \<Rightarrow> string \<Rightarrow> 'w \<Rightarrow> string rt \<times> 'w" where
  "install_file F wid yaml w =
     (case fl_dir F of
        Inl e \<Rightarrow> (Inl e, w)
      | Inr dir \<Rightarrow>
          (case fl_create_dir F dir w of
             (Some e, w1) \<Rightarrow> (Inl (internal_error (''Cannot create workflows directory: '' @ e)), w1)
           | (None, w1) \<Rightarrow>
               (let target = path_join dir (wid @ ''.yaml'')
                in if \<not> path_parent_is target dir then
                     (Inl (internal_error (''Refusing to write workflow file outside the workflows directory: '' @
                        quoted target)), w1)
                   else case fl_write F target yaml w1 of
                     (Some e, w2) \<Rightarrow> (Inl (internal_error (''Failed to write '' @ quoted target @ '': '' @ e)), w2)
                   | (None, w2) \<Rightarrow> (Inr target, w2))))"

definition read_definition :: "'w files \<Rightarrow> string \<Rightarrow> 'w \<Rightarrow> (string \<times> workflow_definition) rt" where
  "read_definition F path w =
     (case fl_read F path w of
        Inl e \<Rightarrow> Inl (validation_error (''Cannot read '' @ quoted path @ '': '' @ e))
      | Inr yaml \<Rightarrow>
          (case fl_yaml F yaml of
             Inl e \<Rightarrow> Inl (validation_error (quoted path @ '' is not a valid workflow YAML: '' @ e))
           | Inr def \<Rightarrow> Inr (yaml, def)))"

definition checked_definition :: "'w files \<Rightarrow> catalogue \<Rightarrow> string \<Rightarrow> 'w \<Rightarrow> (string \<times> workflow_definition) rt" where
  "checked_definition F cat path w =
     and_then (read_definition F path w) (\<lambda>(yaml, def).
     and_then (check_declared_version F path def) (\<lambda>_.
     and_then (validate_workflow_id (wd_id def)) (\<lambda>_.
     and_then (compile_workflow def cat) (\<lambda>_.
     and_then (check_unregistered (registry_of F w) (wd_id def)) (\<lambda>_.
       Inr (yaml, def))))))"

definition workflow_add :: "'w files \<Rightarrow> catalogue \<Rightarrow> string \<Rightarrow> bool \<Rightarrow> 'w \<Rightarrow> workflow_add_output rt \<times> 'w" where
  "workflow_add F cat path validate_only w =
     (case checked_definition F cat path w of
        Inl e \<Rightarrow> (Inl e, w)
      | Inr (yaml, def) \<Rightarrow>
          (let done = (\<lambda>installed. \<lparr>wao_id = wd_id def, wao_validated_only = validate_only, wao_path = installed\<rparr>)
           in if validate_only then (Inr (done None), w)
              else case install_file F (wd_id def) yaml w of
                (Inl e, w') \<Rightarrow> (Inl e, w')
              | (Inr target, w') \<Rightarrow> (Inr (done (Some target)), w')))"

definition workflow_remove :: "'w files \<Rightarrow> string \<Rightarrow> 'w \<Rightarrow> workflow_remove_output rt \<times> 'w" where
  "workflow_remove F wid w =
     (case find_external_workflow_by_id F wid w of
        Inl e \<Rightarrow> (Inl e, w)
      | Inr (Some path) \<Rightarrow>
          (case fl_remove F path w of
             (Some e, w') \<Rightarrow> (Inl (internal_error (''Failed to remove '' @ quoted path @ '': '' @ e)), w')
           | (None, w') \<Rightarrow>
               (Inr \<lparr>wro_id = wid, wro_path = path,
                     wro_builtin_still_registered = (resolve_workflow (registry_of F w') wid \<noteq> None)\<rparr>, w'))
      | Inr None \<Rightarrow>
          (if list_ex (\<lambda>existing. eq_ignore_ascii_case existing wid) (workflow_ids (registry_of F w)) then
             (Inl (with_hint (validation_error (quoted wid @ '' is a built-in workflow and cannot be removed.''))
                ''Only workflows installed via `ags workflow add` can be removed.''), w)
           else
             (Inl (with_hint (validation_error (''Unknown workflow: '' @ quoted wid @ ''.''))
                ''Run `ags workflow list` to see available workflows.''), w)))"

definition replace_first :: "string \<Rightarrow> string \<Rightarrow> string \<Rightarrow> string" where
  "replace_first p r s = (case find_text p s of Some n \<Rightarrow> take n s @ r @ drop (n + length p) s | None \<Rightarrow> s)"

definition workflow_template :: "'w files \<Rightarrow> string option \<Rightarrow> 'w \<Rightarrow> (string \<times> output_destination) rt \<times> 'w" where
  "workflow_template F out_path w =
     (let yaml = replace_first ''{{WORKFLOW_PROTOCOL_VERSION}}'' workflow_protocol_version (fl_skeleton F)
      in case out_path of
           None \<Rightarrow> (Inr (yaml, Stdout), w)
         | Some path \<Rightarrow>
             (case fl_write F path yaml w of
                (Some e, w') \<Rightarrow> (Inl (internal_error (''Failed to write '' @ quoted path @ '': '' @ e)), w')
              | (None, w') \<Rightarrow> (Inr (yaml, ToFile path), w')))"

section \<open>Paths of installed files\<close>

lemma path_pieces_nonempty [simp]: "path_pieces s \<noteq> []"
  by (cases s) (auto split: list.split)

lemma path_pieces_plain: "\<forall>c \<in> set s. c \<noteq> CHR ''/'' \<Longrightarrow> path_pieces s = [s]"
  by (induction s) auto

lemma path_pieces_slash: "path_pieces (a @ CHR ''/'' # b) = path_pieces a @ path_pieces b"
proof (induction a)
  case (Cons c a)
  then show ?case by (cases "path_pieces a") auto
qed simp

lemma path_pieces_hd_slash: "hd (path_pieces (a @ CHR ''/'' # b)) = hd (path_pieces a)"
  by (simp add: path_pieces_slash)

lemma slash_first: "prefix ''/'' (a @ CHR ''/'' # b) \<longleftrightarrow> a = [] \<or> prefix ''/'' a"
  by (cases a) auto

lemma components_slash:
  "path_components (a @ CHR ''/'' # b) =
     (if a = [] \<or> prefix ''/'' a then [''/''] else if hd (path_pieces a) = ''.'' then [''.''] else []) @
     filter (\<lambda>p. p \<noteq> [] \<and> p \<noteq> ''.'') (path_pieces a) @ filter (\<lambda>p. p \<noteq> [] \<and> p \<noteq> ''.'') (path_pieces b)"
  unfolding path_components_def slash_first path_pieces_hd_slash by (simp add: path_pieces_slash)

lemma components_join:
  assumes n: "\<forall>c \<in> set n. c \<noteq> CHR ''/''" "n \<noteq> []" "n \<noteq> ''.''"
  shows "path_components (path_join dir n) = path_components dir @ [n]"
proof -
  have np: "\<not> prefix ''/'' n" using n(1,2) by (cases n) auto
  have pn: "path_pieces n = [n]" by (rule path_pieces_plain [OF n(1)])
  consider "dir = []" | d where "dir = d @ ''/''" | "dir \<noteq> []" "\<not> suffix ''/'' dir" by (auto simp: suffix_def)
  then show ?thesis
  proof cases
    case 1
    then show ?thesis using np n pn by (simp add: path_join_def path_components_def)
  next
    case (2 d)
    have j: "path_join dir n = d @ CHR ''/'' # n" using np by (simp add: path_join_def 2)
    have "path_components dir = path_components (d @ CHR ''/'' # [])" by (simp add: 2)
    then show ?thesis unfolding j components_slash pn using n(2,3) by simp
  next
    case 3
    have j: "path_join dir n = dir @ CHR ''/'' # n" using np 3 by (simp add: path_join_def)
    show ?thesis unfolding j components_slash pn using n(2,3) 3(1) by (simp add: path_components_def)
  qed
qed

lemma joined_parent:
  assumes "\<forall>c \<in> set n. c \<noteq> CHR ''/''" "n \<noteq> []" "n \<noteq> ''.''"
  shows "path_parent_is (path_join dir n) dir"
proof -
  have "n \<noteq> ''/''"
  proof
    assume "n = ''/''"
    with assms(1) show False by simp
  qed
  then show ?thesis
    unfolding path_parent_is_def components_join [OF assms] by (cases "path_components dir") simp_all
qed

lemma allowed_name:
  assumes "wid \<noteq> []" "list_all allowed_id_char wid"
  shows "\<forall>c \<in> set (wid @ ''.yaml''). c \<noteq> CHR ''/''"
proof -
  have "\<not> allowed_id_char CHR ''/''" by code_simp
  with assms(2) have "CHR ''/'' \<notin> set wid" by (auto simp: list_all_iff)
  then show ?thesis by auto
qed

lemma installed_components:
  assumes "wid \<noteq> []" "list_all allowed_id_char wid"
  shows "path_components (path_join dir (wid @ ''.yaml'')) = path_components dir @ [wid @ ''.yaml'']"
proof (rule components_join)
  show "\<forall>c \<in> set (wid @ ''.yaml''). c \<noteq> CHR ''/''" by (rule allowed_name [OF assms])
  show "wid @ ''.yaml'' \<noteq> ''.''" by (cases wid) auto
qed simp

text \<open>The check of the parent directory never fires.\<close>

lemma parent_check_unreachable:
  assumes "wid \<noteq> []" "list_all allowed_id_char wid"
  shows "path_parent_is (path_join dir (wid @ ''.yaml'')) dir"
  using assms(1) by (intro joined_parent allowed_name [OF assms]; cases wid) auto

lemma installed_is_yaml:
  assumes "wid \<noteq> []" "list_all allowed_id_char wid"
  shows "is_yaml (path_join dir (wid @ ''.yaml''))"
proof -
  have r: "rev (wid @ ''.yaml'') = ''lmay'' @ CHR ''.'' # rev wid" by simp
  have plain: "\<forall>c \<in> set ''lmay''. \<not> c = CHR ''.''" by simp
  have "wid @ ''.yaml'' \<notin> {''/'', ''.'', ''..''}" using assms(1) by (cases wid) auto
  then have "path_extension (path_join dir (wid @ ''.yaml'')) = Some ''yaml''"
    unfolding path_extension_def installed_components [OF assms] rev_append r
    using assms(1) from_match_append [OF plain, of "CHR ''.''" "rev wid"] before_match_append [OF plain, of "CHR ''.''" "rev wid"]
    by (simp add: r)
  then show ?thesis by (simp add: is_yaml_def eq_ignore_ascii_case_def)
qed

section \<open>What the registry holds\<close>

definition loaded :: "'w files \<Rightarrow> 'w \<Rightarrow> string \<Rightarrow> workflow_definition option" where
  "loaded F w path =
     (if is_yaml path then case load_external_workflow_file F path w of Inl _ \<Rightarrow> None | Inr d \<Rightarrow> Some d else None)"

lemma load_entry_loaded:
  "load_entry F w path reg =
     (case loaded F w path of
        None \<Rightarrow> reg
      | Some d \<Rightarrow> if bget reg (wd_id d) \<noteq> None then reg else binsert (wd_id d) (d, External) reg)"
  by (simp add: load_entry_def loaded_def resolve_workflow_def register_external_def split: sum.split)

text \<open>Of several files with one identifier the first that loads is registered, unless a built-in has it.\<close>

lemma load_all:
  "bget (fold (load_entry F w) paths reg) i =
     (case bget reg i of
        Some x \<Rightarrow> Some x
      | None \<Rightarrow> map_option (\<lambda>d. (d, External)) (find (\<lambda>d. wd_id d = i) (List.map_filter (loaded F w) paths)))"
proof (induction paths arbitrary: reg)
  case (Cons p paths)
  show ?case
  proof (cases "loaded F w p")
    case (Some d)
    then show ?thesis
      by (auto simp: load_entry_loaded [of F w p] Cons.IH bget_binsert List.map_filter_simps split: option.splits)
  qed (auto simp: load_entry_loaded [of F w p] Cons.IH List.map_filter_simps split: option.splits)
qed (simp add: List.map_filter_simps split: option.split)

definition listed :: "'w files \<Rightarrow> string \<Rightarrow> 'w \<Rightarrow> string list" where
  "listed F dir w = (case fl_list F dir w of Some paths \<Rightarrow> paths | None \<Rightarrow> [])"

lemma registry_bget:
  assumes "fl_dir F = Inr dir"
  shows "bget (registry_of F w) i =
     (case bget (fold register (fl_builtins F) []) i of
        Some x \<Rightarrow> Some x
      | None \<Rightarrow> map_option (\<lambda>d. (d, External)) (find (\<lambda>d. wd_id d = i) (List.map_filter (loaded F w) (listed F dir w))))"
  unfolding registry_of_def load_external_workflows_def assms listed_def sum.case
  by (cases "fl_list F dir w")
    (simp_all add: load_all List.map_filter_simps split: option.split)

lemma in_workflow_ids: "i \<in> set (workflow_ids reg) \<longleftrightarrow> bget reg i \<noteq> None"
  by (simp add: workflow_ids_def bkeys_def bget_def map_of_eq_None_iff)

lemma in_loaded: "d \<in> set (List.map_filter (loaded F w) paths) \<longleftrightarrow> (\<exists>p \<in> set paths. loaded F w p = Some d)"
  by (induction paths) (auto simp: List.map_filter_simps split: option.splits)

definition id_taken :: "'w files \<Rightarrow> 'w \<Rightarrow> string \<Rightarrow> bool" where
  "id_taken F w wid \<longleftrightarrow> (\<exists>i \<in> set (workflow_ids (registry_of F w)). eq_ignore_ascii_case i wid)"

lemma id_taken_iff:
  assumes "fl_dir F = Inr dir"
  shows "id_taken F w wid \<longleftrightarrow>
    (\<exists>i. bget (fold register (fl_builtins F) []) i \<noteq> None \<and> eq_ignore_ascii_case i wid) \<or>
    (\<exists>p \<in> set (listed F dir w). \<exists>d. loaded F w p = Some d \<and> eq_ignore_ascii_case (wd_id d) wid)"
    (is "_ \<longleftrightarrow> ?builtin \<or> ?file")
proof -
  have "bget (registry_of F w) i \<noteq> None \<longleftrightarrow>
      bget (fold register (fl_builtins F) []) i \<noteq> None \<or>
      (\<exists>p \<in> set (listed F dir w). \<exists>d. loaded F w p = Some d \<and> wd_id d = i)" for i
  proof -
    have "find (\<lambda>d. wd_id d = i) (List.map_filter (loaded F w) (listed F dir w)) \<noteq> None \<longleftrightarrow>
        (\<exists>p \<in> set (listed F dir w). \<exists>d. loaded F w p = Some d \<and> wd_id d = i)"
      unfolding find_None_iff in_loaded by blast
    then show ?thesis by (simp add: registry_bget [OF assms] split: option.split)
  qed
  then show ?thesis unfolding id_taken_def Bex_def in_workflow_ids by blast
qed

section \<open>Installing and removing\<close>

text \<open>A file system that does what it reports: creating a directory changes no file, a written file is listed and reads
  back, a removed one is gone, and other files are not touched.\<close>

definition create_keeps :: "'w files \<Rightarrow> bool" where
  "create_keeps F \<longleftrightarrow>
     (\<forall>dir w d p. listed F d (snd (fl_create_dir F dir w)) = listed F d w \<and>
        fl_read F p (snd (fl_create_dir F dir w)) = fl_read F p w)"

definition write_reads_back :: "'w files \<Rightarrow> bool" where
  "write_reads_back F \<longleftrightarrow>
     (\<forall>dir name yaml w w'.
        (\<forall>c \<in> set name. c \<noteq> CHR ''/'') \<and> name \<noteq> [] \<and> name \<noteq> ''.'' \<and>
        fl_write F (path_join dir name) yaml w = (None, w') \<longrightarrow>
          fl_read F (path_join dir name) w' = Inr yaml \<and>
          (\<forall>p. p \<noteq> path_join dir name \<longrightarrow> fl_read F p w' = fl_read F p w) \<and>
          path_join dir name \<in> set (listed F dir w') \<and>
          set (listed F dir w') \<subseteq> insert (path_join dir name) (set (listed F dir w)))"

definition remove_forgets :: "'w files \<Rightarrow> bool" where
  "remove_forgets F \<longleftrightarrow>
     (\<forall>path w w'. fl_remove F path w = (None, w') \<longrightarrow>
          (\<forall>p. p \<noteq> path \<longrightarrow> fl_read F p w' = fl_read F p w) \<and>
          (\<forall>d. set (listed F d w') = set (listed F d w) - {path}))"

definition honest_files :: "'w files \<Rightarrow> bool" where
  "honest_files F \<longleftrightarrow> create_keeps F \<and> write_reads_back F \<and> remove_forgets F"

lemma written_file:
  assumes "write_reads_back F" "\<forall>c \<in> set name. c \<noteq> CHR ''/''" "name \<noteq> []" "name \<noteq> ''.''"
    "fl_write F (path_join dir name) yaml w = (None, w')"
  shows "fl_read F (path_join dir name) w' = Inr yaml \<and>
    (\<forall>p. p \<noteq> path_join dir name \<longrightarrow> fl_read F p w' = fl_read F p w) \<and>
    path_join dir name \<in> set (listed F dir w') \<and>
    set (listed F dir w') \<subseteq> insert (path_join dir name) (set (listed F dir w))"
  by (rule assms(1) [unfolded write_reads_back_def, THEN spec [of _ dir], THEN spec [of _ name], THEN spec [of _ yaml],
      THEN spec [of _ w], THEN spec [of _ w'], THEN mp]) (use assms(2-) in \<open>intro conjI\<close>)

lemma removed_file:
  assumes "remove_forgets F" "fl_remove F path w = (None, w')"
  shows "(\<forall>p. p \<noteq> path \<longrightarrow> fl_read F p w' = fl_read F p w) \<and> (\<forall>d. set (listed F d w') = set (listed F d w) - {path})"
  by (rule assms(1) [unfolded remove_forgets_def, THEN spec [of _ path], THEN spec [of _ w], THEN spec [of _ w'],
      THEN mp, OF assms(2)])

lemma loaded_cong: "fl_read F p w' = fl_read F p w \<Longrightarrow> loaded F w' p = loaded F w p"
  by (simp add: loaded_def load_external_workflow_file_def)

lemma validated_id:
  assumes "validate_workflow_id wid = Inr ()"
  shows "wid \<noteq> [] \<and> list_all allowed_id_char wid"
  using assms by (auto simp: validate_workflow_id_def split: if_splits)

lemma checked_definition_ok:
  assumes "checked_definition F cat path w = Inr (yaml, def)"
  shows "fl_read F path w = Inr yaml \<and> fl_yaml F yaml = Inr def \<and> wd_id def \<noteq> [] \<and>
    list_all allowed_id_char (wd_id def) \<and> compile_workflow def cat \<noteq> Inl e \<and>
    \<not> id_taken F w (wd_id def)"
  using assms validated_id [of "wd_id def"]
  by (auto simp: checked_definition_def read_definition_def and_then_def check_unregistered_def id_taken_def
      find_None_iff split: sum.splits option.splits)

lemma find_external_loaded:
  assumes "fl_dir F = Inr dir"
  shows "find_external_workflow_by_id F wid w =
    Inr (find (\<lambda>p. case loaded F w p of None \<Rightarrow> False | Some d \<Rightarrow> eq_ignore_ascii_case (wd_id d) wid) (listed F dir w))"
proof -
  have "(\<lambda>p. is_yaml p \<and> (case load_external_workflow_file F p w of
        Inl _ \<Rightarrow> False | Inr d \<Rightarrow> eq_ignore_ascii_case (wd_id d) wid)) =
      (\<lambda>p. case loaded F w p of None \<Rightarrow> False | Some d \<Rightarrow> eq_ignore_ascii_case (wd_id d) wid)"
    by (auto simp: loaded_def fun_eq_iff split: sum.split)
  then show ?thesis
    by (simp add: find_external_workflow_by_id_def assms listed_def split: option.split)
qed

lemma find_unique:
  assumes "x \<in> set xs" "P x" "\<And>y. y \<in> set xs \<Longrightarrow> P y \<Longrightarrow> y = x"
  shows "find P xs = Some x"
proof (cases "find P xs")
  case None
  with assms(1,2) show ?thesis by (auto simp: find_None_iff)
next
  case (Some y)
  then have "y \<in> set xs" "P y" by (auto simp: find_Some_iff)
  with assms(3) Some show ?thesis by simp
qed

text \<open>A file written as the only one with its identifier.\<close>

lemma install_file_ok:
  assumes honest: "honest_files F" and run: "install_file F wid yaml w = (Inr target, w1)"
    and wid: "wid \<noteq> []" "list_all allowed_id_char wid"
  shows "\<exists>dir. fl_dir F = Inr dir \<and> target = path_join dir (wid @ ''.yaml'') \<and> fl_read F target w1 = Inr yaml \<and>
    target \<in> set (listed F dir w1) \<and>
    (\<forall>p \<in> set (listed F dir w1). p \<noteq> target \<longrightarrow> p \<in> set (listed F dir w) \<and> loaded F w1 p = loaded F w p)"
proof -
  from run obtain dir where dir: "fl_dir F = Inr dir" by (auto simp: install_file_def split: sum.splits)
  define w0 where "w0 = snd (fl_create_dir F dir w)"
  from run dir have target: "target = path_join dir (wid @ ''.yaml'')" and wr: "fl_write F target yaml w0 = (None, w1)"
    by (auto simp: install_file_def w0_def Let_def split: prod.splits option.splits if_splits)
  have name: "wid @ ''.yaml'' \<noteq> []" "wid @ ''.yaml'' \<noteq> ''.''" using wid(1) by (cases wid; simp)+
  from honest have before: "listed F dir w0 = listed F dir w" "fl_read F p w0 = fl_read F p w" for p
    by (simp_all add: honest_files_def create_keeps_def w0_def)
  from honest have "write_reads_back F" by (simp add: honest_files_def)
  from written_file [OF this allowed_name [OF wid] name wr [unfolded target]]
  have "fl_read F target w1 = Inr yaml \<and> (\<forall>p. p \<noteq> target \<longrightarrow> fl_read F p w1 = fl_read F p w0) \<and>
      target \<in> set (listed F dir w1) \<and> set (listed F dir w1) \<subseteq> insert target (set (listed F dir w0))"
    unfolding target .
  then show ?thesis
    using dir target before loaded_cong [of F _ w1 w] by (intro exI [of _ dir]) auto
qed

text \<open>The only file, and not a built-in, with the identifier of a definition in any spelling.\<close>

definition sole_file :: "'w files \<Rightarrow> 'w \<Rightarrow> string \<Rightarrow> string \<Rightarrow> workflow_definition \<Rightarrow> bool" where
  "sole_file F w dir target def \<longleftrightarrow>
     fl_dir F = Inr dir \<and> target \<in> set (listed F dir w) \<and> loaded F w target = Some def \<and>
     (\<forall>i. bget (fold register (fl_builtins F) []) i \<noteq> None \<longrightarrow> \<not> eq_ignore_ascii_case i (wd_id def)) \<and>
     (\<forall>p \<in> set (listed F dir w). \<forall>d. loaded F w p = Some d \<longrightarrow> eq_ignore_ascii_case (wd_id d) (wd_id def) \<longrightarrow> p = target)"

lemma same_spelling [simp]: "eq_ignore_ascii_case i i"
  by (simp add: eq_ignore_ascii_case_def)

lemma sole_file_registered:
  assumes sole: "sole_file F w dir target def"
  shows "bget (registry_of F w) (wd_id def) = Some (def, External)"
proof -
  let ?loaded = "List.map_filter (loaded F w) (listed F dir w)"
  from sole have dir: "fl_dir F = Inr dir" and mine: "target \<in> set (listed F dir w)" "loaded F w target = Some def"
    by (auto simp: sole_file_def)
  have free: "bget (fold register (fl_builtins F) []) (wd_id def) = None"
    using sole same_spelling unfolding sole_file_def by blast
  have "find (\<lambda>d. wd_id d = wd_id def) ?loaded = Some def"
  proof (rule find_unique)
    show "def \<in> set ?loaded" unfolding in_loaded using mine by blast
    fix d assume "d \<in> set ?loaded" "wd_id d = wd_id def"
    then obtain p where "p \<in> set (listed F dir w)" "loaded F w p = Some d" "eq_ignore_ascii_case (wd_id d) (wd_id def)"
      unfolding in_loaded by auto
    with sole mine show "d = def" unfolding sole_file_def by (metis option.inject)
  qed simp
  with free show ?thesis by (simp add: registry_bget [OF dir])
qed

lemma sole_file_removed:
  assumes honest: "honest_files F" and sole: "sole_file F w dir target def"
    and rem: "fl_remove F target w = (None, w')"
  shows "workflow_remove F (wd_id def) w =
      (Inr \<lparr>wro_id = wd_id def, wro_path = target, wro_builtin_still_registered = False\<rparr>, w') \<and>
    \<not> id_taken F w' (wd_id def)"
proof -
  from sole have dir: "fl_dir F = Inr dir" and mine: "target \<in> set (listed F dir w)" "loaded F w target = Some def"
    by (auto simp: sole_file_def)
  from honest have "remove_forgets F" by (simp add: honest_files_def)
  from removed_file [OF this rem] have gone: "set (listed F dir w') = set (listed F dir w) - {target}"
    "\<And>p. p \<noteq> target \<Longrightarrow> loaded F w' p = loaded F w p"
    using loaded_cong [of F _ w' w] by simp_all
  have free: "\<not> id_taken F w' (wd_id def)"
  proof
    assume "id_taken F w' (wd_id def)"
    with sole obtain p d where p: "p \<in> set (listed F dir w')" "loaded F w' p = Some d"
      "eq_ignore_ascii_case (wd_id d) (wd_id def)"
      unfolding id_taken_iff [OF dir] sole_file_def by blast
    from p(1) gone(1) have "p \<in> set (listed F dir w)" "p \<noteq> target" by auto
    with p(2,3) gone(2) sole show False unfolding sole_file_def by metis
  qed
  then have "wd_id def \<notin> set (workflow_ids (registry_of F w'))" unfolding id_taken_def using same_spelling by blast
  then have "resolve_workflow (registry_of F w') (wd_id def) = None"
    unfolding in_workflow_ids not_not by (simp add: resolve_workflow_def)
  moreover have "find_external_workflow_by_id F (wd_id def) w = Inr (Some target)"
    unfolding find_external_loaded [OF dir]
  proof (rule arg_cong [of _ _ Inr], rule find_unique [OF mine(1)])
    fix p assume "p \<in> set (listed F dir w)"
      and "case loaded F w p of None \<Rightarrow> False | Some d \<Rightarrow> eq_ignore_ascii_case (wd_id d) (wd_id def)"
    then obtain d where "p \<in> set (listed F dir w)" "loaded F w p = Some d" "eq_ignore_ascii_case (wd_id d) (wd_id def)"
      by (auto split: option.splits)
    with sole show "p = target" unfolding sole_file_def by blast
  qed (simp add: mine(2))
  ultimately show ?thesis using rem free by (simp add: workflow_remove_def)
qed

lemma install_makes_sole_file:
  assumes honest: "honest_files F" and ins: "install_file F (wd_id def) yaml w = (Inr target, w')"
    and yaml: "fl_yaml F yaml = Inr def" and wid: "wd_id def \<noteq> []" "list_all allowed_id_char (wd_id def)"
    and free: "\<not> id_taken F w (wd_id def)"
  shows "\<exists>dir. sole_file F w' dir target def \<and> target = path_join dir (wd_id def @ ''.yaml'') \<and> fl_read F target w' = Inr yaml"
proof -
  from install_file_ok [OF honest ins wid] obtain dir where
    dir: "fl_dir F = Inr dir" and target: "target = path_join dir (wd_id def @ ''.yaml'')"
    and written: "fl_read F target w' = Inr yaml" and there: "target \<in> set (listed F dir w')"
    and others: "\<forall>p \<in> set (listed F dir w'). p \<noteq> target \<longrightarrow> p \<in> set (listed F dir w) \<and> loaded F w' p = loaded F w p"
    by blast
  have mine: "loaded F w' target = Some def"
    using installed_is_yaml [OF wid, of dir] written yaml
    by (simp add: loaded_def load_external_workflow_file_def target)
  from free others have "\<forall>p \<in> set (listed F dir w'). \<forall>d. loaded F w' p = Some d \<longrightarrow>
      eq_ignore_ascii_case (wd_id d) (wd_id def) \<longrightarrow> p = target"
    unfolding id_taken_iff [OF dir] by metis
  moreover from free have "\<forall>i. bget (fold register (fl_builtins F) []) i \<noteq> None \<longrightarrow> \<not> eq_ignore_ascii_case i (wd_id def)"
    unfolding id_taken_iff [OF dir] by blast
  ultimately have "sole_file F w' dir target def" unfolding sole_file_def using dir there mine by blast
  with target written show ?thesis by blast
qed

text \<open>C24. What \<open>workflow add\<close> installs, the next run finds and \<open>workflow remove\<close> takes away. On a file system that does what it
  reports, a successful installation has written the text it read to the file named after the identifier, directly in
  the directory of the workflows; the registry then resolves the identifier to that definition, as a workflow that
  is not bundled; and removing the identifier deletes that very file, after which no workflow is registered under
  it in any spelling.\<close>

theorem added_workflow_is_found_and_removed:
  assumes honest: "honest_files F" and add: "workflow_add F cat path False w = (Inr out, w1)"
  shows "\<exists>dir yaml def target.
    fl_dir F = Inr dir \<and> fl_read F path w = Inr yaml \<and> fl_yaml F yaml = Inr def \<and> wao_id out = wd_id def \<and>
    wao_path out = Some target \<and> path_components target = path_components dir @ [wd_id def @ ''.yaml''] \<and>
    fl_read F target w1 = Inr yaml \<and>
    resolve_workflow (registry_of F w1) (wd_id def) = Some def \<and> \<not> is_bundled (registry_of F w1) (wd_id def) \<and>
    (\<forall>w2. fl_remove F target w1 = (None, w2) \<longrightarrow>
       workflow_remove F (wd_id def) w1 =
         (Inr \<lparr>wro_id = wd_id def, wro_path = target, wro_builtin_still_registered = False\<rparr>, w2) \<and>
       (\<forall>i \<in> set (workflow_ids (registry_of F w2)). \<not> eq_ignore_ascii_case i (wd_id def)))"
proof -
  from add obtain yaml def target where
    chk: "checked_definition F cat path w = Inr (yaml, def)"
    and ins: "install_file F (wd_id def) yaml w = (Inr target, w1)"
    and out: "wao_id out = wd_id def" "wao_path out = Some target"
    by (auto simp: workflow_add_def Let_def split: sum.splits prod.splits)
  from checked_definition_ok [OF chk] have read: "fl_read F path w = Inr yaml" "fl_yaml F yaml = Inr def"
    and wid: "wd_id def \<noteq> []" "list_all allowed_id_char (wd_id def)" and free: "\<not> id_taken F w (wd_id def)" by auto
  from install_makes_sole_file [OF honest ins read(2) wid free] obtain dir where sole: "sole_file F w1 dir target def"
    and target: "target = path_join dir (wd_id def @ ''.yaml'')" "fl_read F target w1 = Inr yaml" by blast
  from sole have dir: "fl_dir F = Inr dir" by (simp add: sole_file_def)
  have "workflow_remove F (wd_id def) w1 =
        (Inr \<lparr>wro_id = wd_id def, wro_path = target, wro_builtin_still_registered = False\<rparr>, w2) \<and>
      (\<forall>i \<in> set (workflow_ids (registry_of F w2)). \<not> eq_ignore_ascii_case i (wd_id def))"
    if "fl_remove F target w1 = (None, w2)" for w2
    using sole_file_removed [OF honest sole that] by (auto simp: id_taken_def)
  then show ?thesis
    using dir read out target(2) sole_file_registered [OF sole] installed_components [OF wid, of dir]
    by (intro exI [of _ dir] exI [of _ yaml] exI [of _ def] exI [of _ target])
      (simp add: resolve_workflow_def is_bundled_def origin_def target(1))
qed

text \<open>A file system as a table from paths to texts, and one text that is a workflow.\<close>

definition versioned_definition :: workflow_definition where
  "versioned_definition = sample_definition\<lparr>wd_protocol_version := Some ''1.0.0''\<rparr>"

definition table_files :: "(string \<times> string) list files" where
  "table_files =
     \<lparr>fl_dir = Inr ''d'', fl_builtins = [],
      fl_yaml = (\<lambda>t. if t = ''yaml'' then Inr versioned_definition else Inl ''not a mapping''),
      fl_version_ok = (\<lambda>v. v = ''1.0.0''), fl_skeleton = [],
      fl_read = (\<lambda>p w. case map_of w p of Some t \<Rightarrow> Inr t | None \<Rightarrow> Inl ''not found''),
      fl_list = (\<lambda>d w. Some (filter (\<lambda>p. path_parent_is p d) (map fst w))),
      fl_create_dir = (\<lambda>_ w. (None, w)),
      fl_write = (\<lambda>p t w. (None, (p, t) # filter (\<lambda>(q, _). q \<noteq> p) w)),
      fl_remove = (\<lambda>p w. (None, filter (\<lambda>(q, _). q \<noteq> p) w))\<rparr>"

lemma map_of_filter_other: "p \<noteq> q \<Longrightarrow> map_of (filter (\<lambda>(k, _). k \<noteq> q) w) p = map_of w p"
  by (induction w) auto

lemma table_files_honest: "honest_files table_files"
  unfolding honest_files_def
proof (intro conjI)
  show "create_keeps table_files" by (simp add: create_keeps_def table_files_def)
  show "write_reads_back table_files"
    unfolding write_reads_back_def
    by (auto simp: table_files_def listed_def joined_parent map_of_filter_other split: option.split)
  show "remove_forgets table_files"
    unfolding remove_forgets_def
    by (auto simp: table_files_def listed_def map_of_filter_other split: option.split)
qed

lemma sample_added:
  "workflow_add table_files sample_catalogue ''in'' False [(''in'', ''yaml'')] =
     (Inr \<lparr>wao_id = ''w'', wao_validated_only = False, wao_path = Some ''d/w.yaml''\<rparr>,
      [(''d/w.yaml'', ''yaml''), (''in'', ''yaml'')])"
  by code_simp

theorem added_workflow_is_found_and_removed_witness:
  "resolve_workflow (registry_of table_files [(''d/w.yaml'', ''yaml''), (''in'', ''yaml'')]) ''w'' = Some versioned_definition \<and>
   workflow_remove table_files ''w'' [(''d/w.yaml'', ''yaml''), (''in'', ''yaml'')] =
     (Inr \<lparr>wro_id = ''w'', wro_path = ''d/w.yaml'', wro_builtin_still_registered = False\<rparr>, [(''in'', ''yaml'')])"
proof -
  have w: "wd_id versioned_definition = ''w''" by (simp add: versioned_definition_def sample_definition_def)
  have rem: "fl_remove table_files ''d/w.yaml'' [(''d/w.yaml'', ''yaml''), (''in'', ''yaml'')] = (None, [(''in'', ''yaml'')])"
    and read: "fl_read table_files ''in'' [(''in'', ''yaml'')] = Inr ''yaml''"
    and yaml: "fl_yaml table_files ''yaml'' = Inr versioned_definition"
    by (simp_all add: table_files_def)
  let ?w1 = "[(''d/w.yaml'', ''yaml''), (''in'', ''yaml'')]"
  from added_workflow_is_found_and_removed [OF table_files_honest sample_added] obtain yaml def target where
    t: "fl_read table_files ''in'' [(''in'', ''yaml'')] = Inr yaml" "fl_yaml table_files yaml = Inr def"
      "Some ''d/w.yaml'' = Some target"
    and found: "resolve_workflow (registry_of table_files ?w1) (wd_id def) = Some def"
    and removed: "\<forall>w2. fl_remove table_files target ?w1 = (None, w2) \<longrightarrow>
      workflow_remove table_files (wd_id def) ?w1 =
        (Inr \<lparr>wro_id = wd_id def, wro_path = target, wro_builtin_still_registered = False\<rparr>, w2)"
    by (simp only: workflow_add_output.simps) blast
  from t(1) have "yaml = ''yaml''" unfolding read by simp
  with t(2) yaml have d: "def = versioned_definition" by simp
  from t(3) have target: "target = ''d/w.yaml''" by simp
  from removed rem have "workflow_remove table_files (wd_id def) ?w1 =
      (Inr \<lparr>wro_id = wd_id def, wro_path = target, wro_builtin_still_registered = False\<rparr>, [(''in'', ''yaml'')])"
    unfolding target by blast
  with found show ?thesis unfolding d w target by blast
qed

section \<open>Beyond the property\<close>

text \<open>Installation looks at the identifiers that are registered, not at the file it writes: a file of that name with
  another identifier, or one that does not parse, is overwritten.\<close>

lemma add_overwrites_other_file:
  "snd (workflow_add table_files sample_catalogue ''in'' False [(''in'', ''yaml''), (''d/w.yaml'', ''notes'')]) =
     [(''d/w.yaml'', ''yaml''), (''in'', ''yaml'')]"
  by code_simp

end
