(* ===== verification/Choices.thy ===== *)
theory Choices
  imports DispatchExecute WorkflowFiles "HOL-Library.Product_Lexorder" "HOL-Library.Multiset"
begin

text \<open>
  The choices offered for an input: those projected from the response of a list operation,
  \<open>ags-runtime/src/runtime/workflows/options.rs\<close>, and the entries of a directory for a file picker,
  \<open>workflows/file_picker.rs\<close>. Refreshing the token and reading the directory are parameters.
\<close>

section \<open>Projection\<close>

record option_choice =
  oc_label :: string
  oc_value :: string

record resolved_options =
  ro_choices :: "option_choice list"
  ro_truncated :: bool

definition option_item_cap :: nat where
  "option_item_cap = 500"

definition scalar_to_string :: "json \<Rightarrow> string option" where
  "scalar_to_string v =
     (case v of
        JStr s \<Rightarrow> Some s
      | JInt i \<Rightarrow> Some (show_int i)
      | JFloat t \<Rightarrow> Some t
      | JBool b \<Rightarrow> Some (if b then ''true'' else ''false'')
      | _ \<Rightarrow> None)"

definition not_blank :: "string \<Rightarrow> bool" where
  "not_blank s \<longleftrightarrow> trim_text s \<noteq> []"

definition text_at :: "json \<Rightarrow> string option \<Rightarrow> string option" where
  "text_at elem path =
     filter_option not_blank (Option.bind (Option.bind path (apply_jsonpath_subset elem)) scalar_to_string)"

definition detail_path :: "options_source \<Rightarrow> json bmap \<Rightarrow> string option" where
  "detail_path source inputs =
     (case os_label_detail source of
        None \<Rightarrow> None
      | Some (LdPath p) \<Rightarrow> Some p
      | Some (LdByInput i paths) \<Rightarrow> Option.bind (Option.bind (bget inputs i) as_str) (bget paths))"

definition passes_filter :: "options_source \<Rightarrow> json \<Rightarrow> bool" where
  "passes_filter source elem \<longleftrightarrow>
     (case os_filter source of
        None \<Rightarrow> True
      | Some f \<Rightarrow> apply_jsonpath_subset elem (of_path f) = Some (of_equals f))"

definition project_choice :: "options_source \<Rightarrow> string option \<Rightarrow> json \<Rightarrow> option_choice option" where
  "project_choice source detail elem =
     (if \<not> passes_filter source elem then None
      else case Option.bind (apply_jsonpath_subset elem (os_value source)) scalar_to_string of
        None \<Rightarrow> None
      | Some v \<Rightarrow>
          (let label = (case text_at elem (os_label source) of Some l \<Rightarrow> l | None \<Rightarrow> v)
           in Some \<lparr>oc_label = (case text_at elem detail of
                                  Some d \<Rightarrow> label @ '' ('' @ d @ '')'' | None \<Rightarrow> label),
                    oc_value = v\<rparr>))"

definition choice_key :: "unicode \<Rightarrow> option_choice \<Rightarrow> string \<times> string" where
  "choice_key U c = (to_lowercase U (oc_label c), oc_value c)"

definition option_items :: "options_source \<Rightarrow> json \<Rightarrow> json list" where
  "option_items source body =
     (case Option.bind (apply_jsonpath_subset body (os_items_path source)) as_array of Some xs \<Rightarrow> xs | None \<Rightarrow> [])"

definition all_choices :: "options_source \<Rightarrow> json bmap \<Rightarrow> json \<Rightarrow> option_choice list" where
  "all_choices source inputs body =
     List.map_filter (project_choice source (detail_path source inputs)) (option_items source body)"

definition choices_of :: "unicode \<Rightarrow> options_source \<Rightarrow> json bmap \<Rightarrow> json \<Rightarrow> resolved_options" where
  "choices_of U source inputs body =
     (let choices = sort_key (choice_key U) (all_choices source inputs body)
      in \<lparr>ro_choices = take option_item_cap choices, ro_truncated = (length choices > option_item_cap)\<rparr>)"

section \<open>The request\<close>

definition option_parameter :: "json bmap \<Rightarrow> option_parameter_binding \<Rightarrow> json option" where
  "option_parameter inputs binding =
     (case binding of
        FromInput i \<Rightarrow> bget inputs i
      | FromInputOptional i \<Rightarrow> bget inputs i
      | OptLiteral v \<Rightarrow> Some v)"

definition parameter_location_of :: "operation_schema \<Rightarrow> string \<Rightarrow> parameter_location" where
  "parameter_location_of op name =
     (case find (\<lambda>p. p_name p = name) (op_parameters op) of Some p \<Rightarrow> p_location p | None \<Rightarrow> QueryParam)"

definition place_parameter ::
  "externs \<Rightarrow> operation_schema \<Rightarrow> json bmap \<Rightarrow> string \<times> option_parameter_binding \<Rightarrow>
   string bmap \<times> string bmap \<times> string bmap \<Rightarrow> string bmap \<times> string bmap \<times> string bmap" where
  "place_parameter X op inputs = (\<lambda>(name, binding) (path, qry, headers).
     (case option_parameter inputs binding of
        None \<Rightarrow> (path, qry, headers)
      | Some v \<Rightarrow>
          (let t = json_to_param_string (ex_object_text X) v
           in case parameter_location_of op name of
                PathParam \<Rightarrow> (binsert name t path, qry, headers)
              | HeaderParam \<Rightarrow> (path, qry, binsert name t headers)
              | _ \<Rightarrow> (path, binsert name t qry, headers))))"

definition build_options_request ::
  "externs \<Rightarrow> operation_schema \<Rightarrow> options_source \<Rightarrow> json bmap \<Rightarrow> command_request" where
  "build_options_request X op source inputs =
     (case fold (place_parameter X op inputs) (os_parameters source) ([], [], []) of
        (path, qry, headers) \<Rightarrow>
          \<lparr>rq_service = or_service (os_operation source), rq_operation_id = or_operation (os_operation source),
           rq_namespace = Option.bind (bget inputs ''namespace'') as_str,
           rq_path_params = path, rq_query_params = qry, rq_header_params = headers, rq_form_params = [],
           rq_body = None, rq_output_format = JsonFormat, rq_pagination = AllPages, rq_verbosity = Quiet,
           rq_output = None\<rparr>)"

section \<open>Resolution\<close>

record 'w option_env =
  oe_externs :: externs
  oe_refresh :: "'w runtime \<Rightarrow> 'w \<Rightarrow> 'w runtime \<times> 'w"
  oe_profile :: string
  oe_token_source :: "'w runtime \<Rightarrow> string"

definition fetch_failure :: "'w option_env \<Rightarrow> 'w runtime \<Rightarrow> operation_schema \<Rightarrow> json bmap \<Rightarrow> runtime_error \<Rightarrow> runtime_error" where
  "fetch_failure E R op inputs err =
     (let ns = (case Option.bind (bget inputs ''namespace'') as_str of Some n \<Rightarrow> n | None \<Rightarrow> ''?'');
          display_path = str_replace ''{namespace}'' ns (op_path_template op)
      in internal_error (''profile='' @ oe_profile E @ '' token='' @ oe_token_source E R @ '' GET '' @
           trim_end_char CHR ''/'' (rt_base_url R) @ display_path @ '' :: '' @ re_message err))"

definition resolve_options ::
  "'w option_env \<Rightarrow> 'w runtime \<Rightarrow> options_source \<Rightarrow> json bmap \<Rightarrow> 'w \<Rightarrow> resolved_options rt option \<times> 'w" where
  "resolve_options E R0 source inputs w =
     (case oe_refresh E R0 w of
        (R, w1) \<Rightarrow>
          (case and_then (rt_catalogue R (or_service (os_operation source)))
                  (\<lambda>schema. find_operation_or_error schema (os_operation source) ''options_source'') of
             Inl e \<Rightarrow> (Some (Inl e), w1)
           | Inr op \<Rightarrow>
               (case fetch_options_body R (build_options_request (oe_externs E) op source inputs)
                       (os_items_path source) w1 of
                  (_, None, w2) \<Rightarrow> (None, w2)
                | (_, Some (Inl err), w2) \<Rightarrow> (Some (Inl (fetch_failure E R op inputs err)), w2)
                | (_, Some (Inr body), w2) \<Rightarrow>
                    (Some (Inr (choices_of (dx_unicode (rt_dispatch R)) source inputs body)), w2))))"

section \<open>Directories\<close>

record file_entry =
  fe_name :: string
  fe_path :: string
  fe_is_dir :: bool

datatype entry_kind = KindDir | KindFile | KindOther

text \<open>An entry of a directory: its name where it is UTF-8, and its kind where its metadata can be read.\<close>

type_synonym dir_entry = "string option \<times> entry_kind option"

definition extension_allowed :: "string \<Rightarrow> string list option \<Rightarrow> bool" where
  "extension_allowed path extensions =
     (case extensions of
        None \<Rightarrow> True
      | Some es \<Rightarrow>
          es = [] \<or>
          (case path_extension path of
             None \<Rightarrow> False
           | Some ext \<Rightarrow> list_ex (\<lambda>allowed. eq_ignore_ascii_case allowed ext) es))"

definition visible_entry :: "entry_kind \<Rightarrow> dir_entry \<Rightarrow> string option" where
  "visible_entry kind entry =
     (case entry of
        (Some name, Some k) \<Rightarrow> if prefix ''.'' name \<or> k \<noteq> kind then None else Some name
      | _ \<Rightarrow> None)"

definition list_directory ::
  "unicode \<Rightarrow> string \<Rightarrow> string list option \<Rightarrow> (string + dir_entry list) \<Rightarrow> string + file_entry list" where
  "list_directory U dir extensions entries =
     (case entries of
        Inl e \<Rightarrow> Inl e
      | Inr es \<Rightarrow>
          (let entry = (\<lambda>is_dir name. \<lparr>fe_name = name, fe_path = path_join dir name, fe_is_dir = is_dir\<rparr>);
               dirs = map (entry True) (List.map_filter (visible_entry KindDir) es);
               files = filter (\<lambda>f. extension_allowed (fe_path f) extensions)
                         (map (entry False) (List.map_filter (visible_entry KindFile) es));
               by_name = sort_key (\<lambda>f. to_lowercase U (fe_name f))
           in Inr ((case path_parent dir of
                      Some p \<Rightarrow> [\<lparr>fe_name = ''..'', fe_path = p, fe_is_dir = True\<rparr>] | None \<Rightarrow> []) @
                   by_name dirs @ by_name files)))"

section \<open>What is offered\<close>

lemma kept_by_drop_spaces:
  "c \<in> set s \<Longrightarrow> \<forall>w \<in> set ws. c \<notin> set w \<Longrightarrow> c \<in> set (drop_spaces ws s)"
proof (induction ws s rule: drop_spaces.induct)
  case (1 ws s)
  show ?case
  proof (cases "find (\<lambda>w. w \<noteq> [] \<and> prefix w s) ws")
    case None
    with "1.prems" show ?thesis by (subst drop_spaces.simps) simp
  next
    case (Some w)
    then have w: "w \<in> set ws" "prefix w s" by (auto simp: find_Some_iff)
    then have "c \<in> set (drop (length w) s)" using "1.prems" by (auto simp: prefix_def)
    from "1.IH" [OF Some this "1.prems"(2)] Some show ?thesis by (subst drop_spaces.simps) simp
  qed
qed

lemma not_blank_paren: "CHR '')'' \<in> set s \<Longrightarrow> not_blank s"
proof -
  assume s: "CHR '')'' \<in> set s"
  have ws: "\<forall>w \<in> set white_space. CHR '')'' \<notin> set w" "\<forall>w \<in> set (map rev white_space). CHR '')'' \<notin> set w"
    by code_simp+
  have "CHR '')'' \<in> set (trim_text s)"
    unfolding trim_text_def set_rev
    by (intro kept_by_drop_spaces ws) (simp add: kept_by_drop_spaces [OF s ws(1)])
  then show ?thesis by (auto simp: not_blank_def)
qed

lemma text_at_not_blank: "text_at elem path = Some t \<Longrightarrow> not_blank t"
  by (auto simp: text_at_def filter_option_def split: option.splits if_splits)

lemma project_choice_some:
  assumes "project_choice source detail elem = Some c"
  shows "passes_filter source elem \<and>
    Option.bind (apply_jsonpath_subset elem (os_value source)) scalar_to_string = Some (oc_value c) \<and>
    (not_blank (oc_value c) \<longrightarrow> not_blank (oc_label c))"
  using assms
  by (auto simp: project_choice_def Let_def split: if_splits option.splits intro: not_blank_paren text_at_not_blank)

lemma sorted_take:
  assumes "xs = sort_key f ys"
  shows "sorted (map f (take n xs)) \<and> (\<forall>c \<in> set (take n xs). \<forall>d \<in> set (drop n xs). f c \<le> f d)"
proof -
  have "sorted (map f (take n xs @ drop n xs))" unfolding append_take_drop_id assms by simp
  then show ?thesis unfolding map_append sorted_append by auto
qed

text \<open>C25. The choices offered are the projections of the items, at most five hundred of them, in the order of their
  labels without regard to case and then of their values. The list says that it is cut exactly when it is, and then what
  is left out comes after what is shown; a list that is not cut has lost and repeated nothing. Every choice is
  of an item that passes the filter, with the scalar found at the value path, and its label is not blank unless the value is.\<close>

theorem choices_are_the_projections:
  "(let r = choices_of U source inputs body; all = all_choices source inputs body
    in length (ro_choices r) \<le> 500 \<and> sorted (map (choice_key U) (ro_choices r)) \<and>
       (ro_truncated r \<longleftrightarrow> length all > 500) \<and>
       (\<exists>rest. mset all = mset (ro_choices r) + mset rest \<and> (rest = [] \<longleftrightarrow> \<not> ro_truncated r) \<and>
          (\<forall>c \<in> set (ro_choices r). \<forall>d \<in> set rest. choice_key U c \<le> choice_key U d)) \<and>
       (\<forall>c \<in> set (ro_choices r). \<exists>item \<in> set (option_items source body).
          passes_filter source item \<and>
          Option.bind (apply_jsonpath_subset item (os_value source)) scalar_to_string = Some (oc_value c) \<and>
          (not_blank (oc_value c) \<longrightarrow> not_blank (oc_label c))))"
proof -
  let ?all = "all_choices source inputs body" and ?xs = "sort_key (choice_key U) (all_choices source inputs body)"
  have cut: "mset ?all = mset (take 500 ?xs) + mset (drop 500 ?xs)"
    unfolding mset_append [symmetric] append_take_drop_id by simp
  have left: "drop 500 ?xs = [] \<longleftrightarrow> \<not> length ?all > 500" by (simp add: not_less)
  have from_items: "\<forall>c \<in> set (take 500 ?xs). \<exists>item \<in> set (option_items source body).
      project_choice source (detail_path source inputs) item = Some c"
    using set_take_subset [of 500 ?xs] by (auto simp: all_choices_def in_map_filter)
  show ?thesis
    unfolding choices_of_def Let_def option_item_cap_def resolved_options.simps length_sort
    using sorted_take [OF refl, where n = 500 and f = "choice_key U" and ys = ?all] cut left from_items project_choice_some
    by (intro conjI exI [of _ "drop 500 ?xs"]) (auto dest!: project_choice_some bspec)
qed

text \<open>Two stores of three are drafts; one has no title.\<close>

definition store_source :: options_source where
  "store_source =
     \<lparr>os_operation = \<lparr>or_service = ''platform'', or_operation = ''list''\<rparr>, os_parameters = [], os_items_path = ''$'',
      os_value = ''$.id'', os_label = Some ''$.title'', os_label_detail = None, os_fallback_description = None,
      os_filter = Some \<lparr>of_path = ''$.published'', of_equals = JBool False\<rparr>\<rparr>"

definition stores :: json where
  "stores =
     JArr [JObj [(''id'', JStr ''s1''), (''published'', JBool False), (''title'', JStr ''Zeta'')],
           JObj [(''id'', JStr ''s2''), (''published'', JBool True), (''title'', JStr ''Mine'')],
           JObj [(''id'', JStr ''s3''), (''published'', JBool False), (''title'', JStr '' '')]]"

theorem choices_are_the_projections_witness:
  "(let r = choices_of ascii_only store_source [] stores
    in r = \<lparr>ro_choices = [\<lparr>oc_label = ''s3'', oc_value = ''s3''\<rparr>, \<lparr>oc_label = ''Zeta'', oc_value = ''s1''\<rparr>],
            ro_truncated = False\<rparr> \<and>
       (\<exists>item \<in> set (option_items store_source stores). passes_filter store_source item \<and>
          Option.bind (apply_jsonpath_subset item ''$.id'') scalar_to_string = Some ''s1''))"
proof -
  let ?r = "\<lparr>ro_choices = [\<lparr>oc_label = ''s3'', oc_value = ''s3''\<rparr>, \<lparr>oc_label = ''Zeta'', oc_value = ''s1''\<rparr>],
            ro_truncated = False\<rparr>"
  have r: "choices_of ascii_only store_source [] stores = ?r" by code_simp
  have "\<lparr>oc_label = ''Zeta'', oc_value = ''s1''\<rparr> \<in> set (ro_choices ?r)" by simp
  with choices_are_the_projections [of ascii_only store_source "[]" stores]
  have "\<exists>item \<in> set (option_items store_source stores). passes_filter store_source item \<and>
      Option.bind (apply_jsonpath_subset item (os_value store_source)) scalar_to_string = Some ''s1''"
    unfolding Let_def r by fastforce
  then show ?thesis unfolding Let_def r by (simp add: store_source_def)
qed

section \<open>Beyond the property\<close>

text \<open>A listing: the parent, then directories, then files, no name with a leading dot, files with an allowed extension.\<close>

lemma visible_entry_iff: "visible_entry k e = Some n \<longleftrightarrow> e = (Some n, Some k) \<and> \<not> prefix ''.'' n"
  by (cases e; cases "fst e"; cases "snd e") (auto simp: visible_entry_def)

lemma list_directory_layout:
  assumes "list_directory U dir extensions (Inr es) = Inr out"
  shows "\<exists>up dirs files. out = up @ dirs @ files \<and> length up \<le> 1 \<and>
    (\<forall>d \<in> set dirs. fe_is_dir d \<and> \<not> prefix ''.'' (fe_name d) \<and> (Some (fe_name d), Some KindDir) \<in> set es) \<and>
    (\<forall>f \<in> set files. \<not> fe_is_dir f \<and> \<not> prefix ''.'' (fe_name f) \<and> (Some (fe_name f), Some KindFile) \<in> set es \<and>
       extension_allowed (fe_path f) extensions) \<and>
    sorted (map (\<lambda>f. to_lowercase U (fe_name f)) dirs) \<and> sorted (map (\<lambda>f. to_lowercase U (fe_name f)) files)"
proof -
  let ?by_name = "sort_key (\<lambda>f. to_lowercase U (fe_name f))"
  let ?entry = "\<lambda>is_dir name. \<lparr>fe_name = name, fe_path = path_join dir name, fe_is_dir = is_dir\<rparr>"
  let ?dirs = "map (?entry True) (List.map_filter (visible_entry KindDir) es)"
  let ?files = "filter (\<lambda>f. extension_allowed (fe_path f) extensions)
    (map (?entry False) (List.map_filter (visible_entry KindFile) es))"
  from assms have out: "out = (case path_parent dir of
      Some p \<Rightarrow> [\<lparr>fe_name = ''..'', fe_path = p, fe_is_dir = True\<rparr>] | None \<Rightarrow> []) @ ?by_name ?dirs @ ?by_name ?files"
    by (simp add: list_directory_def Let_def)
  show ?thesis
    by (rule exI, rule exI, rule exI, rule conjI, rule out)
      (auto simp: in_map_filter visible_entry_iff split: option.split)
qed

end
