(* ===== verification/JsonCode.thy ===== *)
theory JsonCode
  imports Json
begin

text \<open>
  A printer and a parser of JSON values that agree. The texts of the program are those of \<open>serde_json\<close>, which is a
  parameter of the theories that read and write files; these functions instantiate it where one is needed, to show
  that what is assumed of it can hold.
\<close>

fun text_code :: "string \<Rightarrow> string" where
  "text_code [] = ''.''"
| "text_code (c # s) = CHR '':'' # c # text_code s"

fun code_text :: "string \<Rightarrow> (string \<times> string) option" where
  "code_text [] = None"
| "code_text (a # s) =
     (if a = CHR ''.'' then Some ([], s)
      else case s of [] \<Rightarrow> None | c # r \<Rightarrow> map_option (apfst (Cons c)) (code_text r))"

lemma code_text_inverse [simp]: "code_text (text_code t @ s) = Some (t, s)"
  by (induction t) simp_all

definition text_int :: "string \<Rightarrow> int" where
  "text_int s =
     (case s of
        [] \<Rightarrow> 0
      | c # ds \<Rightarrow>
          if c = CHR ''-'' then - int (the (digits_value 0 ds)) else int (the (digits_value 0 s)))"

lemma text_int_show [simp]: "text_int (show_int i) = i"
proof (cases "i < 0")
  case False
  then obtain c s where s: "show_nat (nat i) = c # s" by (cases "show_nat (nat i)") auto
  with show_nat_digits [of c "nat i"] have "c \<noteq> CHR ''-''" by (auto simp: digit_val_def Let_def split: if_splits)
  with False s digits_value_show [of "nat i"] show ?thesis by (simp add: show_int_def text_int_def)
qed (simp add: show_int_def text_int_def)

fun json_code :: "json \<Rightarrow> string" where
  "json_code JNull = ''n''"
| "json_code (JBool b) = (if b then ''t'' else ''f'')"
| "json_code (JInt i) = CHR ''i'' # text_code (show_int i)"
| "json_code (JFloat t) = CHR ''d'' # text_code t"
| "json_code (JStr s) = CHR ''s'' # text_code s"
| "json_code (JArr xs) = CHR ''['' # concat (map (\<lambda>x. CHR '','' # json_code x) xs) @ '']''"
| "json_code (JObj m) = CHR ''{'' # concat (map (\<lambda>p. CHR '','' # text_code (fst p) @ json_code (snd p)) m) @ ''}''"

fun code_json :: "nat \<Rightarrow> string \<Rightarrow> (json \<times> string) option"
  and code_items :: "nat \<Rightarrow> string \<Rightarrow> (json list \<times> string) option"
  and code_fields :: "nat \<Rightarrow> string \<Rightarrow> ((string \<times> json) list \<times> string) option" where
  "code_json (Suc n) (c # s) =
     (if c = CHR ''n'' then Some (JNull, s)
      else if c = CHR ''t'' then Some (JBool True, s)
      else if c = CHR ''f'' then Some (JBool False, s)
      else if c = CHR ''i'' then map_option (apfst (\<lambda>t. JInt (text_int t))) (code_text s)
      else if c = CHR ''d'' then map_option (apfst JFloat) (code_text s)
      else if c = CHR ''s'' then map_option (apfst JStr) (code_text s)
      else if c = CHR ''['' then map_option (apfst JArr) (code_items n s)
      else if c = CHR ''{'' then map_option (apfst JObj) (code_fields n s)
      else None)"
| "code_json _ _ = None"
| "code_items (Suc n) (c # s) =
     (if c = CHR '']'' then Some ([], s)
      else case code_json n s of
        None \<Rightarrow> None
      | Some (v, r) \<Rightarrow> map_option (apfst (Cons v)) (code_items n r))"
| "code_items _ _ = None"
| "code_fields (Suc n) (c # s) =
     (if c = CHR ''}'' then Some ([], s)
      else case code_text s of
        None \<Rightarrow> None
      | Some (k, r) \<Rightarrow>
          (case code_json n r of
             None \<Rightarrow> None
           | Some (v, r') \<Rightarrow> map_option (apfst (Cons (k, v))) (code_fields n r')))"
| "code_fields _ _ = None"

lemma code_items_inverse:
  assumes "\<And>x n s. x \<in> set xs \<Longrightarrow> length (json_code x) \<le> n \<Longrightarrow> code_json n (json_code x @ s) = Some (x, s)"
    and "length (concat (map (\<lambda>x. CHR '','' # json_code x) xs)) < n"
  shows "code_items n (concat (map (\<lambda>x. CHR '','' # json_code x) xs) @ CHR '']'' # s) = Some (xs, s)"
  using assms
proof (induction xs arbitrary: n)
  case Nil
  then show ?case by (cases n) simp_all
next
  case (Cons x xs)
  then show ?case by (cases n) simp_all
qed

lemma code_fields_inverse:
  assumes "\<And>p n s. p \<in> set m \<Longrightarrow> length (json_code (snd p)) \<le> n \<Longrightarrow> code_json n (json_code (snd p) @ s) = Some (snd p, s)"
    and "length (concat (map (\<lambda>p. CHR '','' # text_code (fst p) @ json_code (snd p)) m)) < n"
  shows "code_fields n (concat (map (\<lambda>p. CHR '','' # text_code (fst p) @ json_code (snd p)) m) @ CHR ''}'' # s) = Some (m, s)"
  using assms
proof (induction m arbitrary: n)
  case Nil
  then show ?case by (cases n) simp_all
next
  case (Cons p m)
  then show ?case by (cases n) simp_all
qed

lemma code_scalar_inverse:
  assumes "length (json_code v) \<le> n" and "\<And>xs. v \<noteq> JArr xs" "\<And>m. v \<noteq> JObj m"
  shows "code_json n (json_code v @ s) = Some (v, s)"
proof -
  from assms(1) obtain k where "n = Suc k" by (cases n; cases v) (auto split: if_splits)
  with assms(2,3) show ?thesis by (cases v) (simp_all, blast+)
qed

lemma code_json_inverse: "length (json_code v) \<le> n \<Longrightarrow> code_json n (json_code v @ s) = Some (v, s)"
proof (induction v arbitrary: n s)
  case (JArr xs)
  then obtain k where "n = Suc k" by (cases n) auto
  with JArr code_items_inverse [of xs k s] show ?case by simp
next
  case (JObj m)
  then obtain k where k: "n = Suc k" by (cases n) auto
  have "code_json n' (json_code (snd p) @ s') = Some (snd p, s')"
    if "p \<in> set m" "length (json_code (snd p)) \<le> n'" for p n' s'
    using JObj.IH [of p "snd p" n' s'] that by (simp add: snds.simps)
  with JObj.prems k code_fields_inverse [of m k s] show ?case by simp
qed (rule code_scalar_inverse; simp)+

definition parse_code :: "string \<Rightarrow> string + json" where
  "parse_code t = (case code_json (length t) t of Some (v, []) \<Rightarrow> if json_ok v then Inr v else Inl ''out of range'' | _ \<Rightarrow> Inl ''malformed'')"

lemma parse_code_inverse [simp]: "json_ok v \<Longrightarrow> parse_code (json_code v) = Inr v"
  using code_json_inverse [of v "length (json_code v)" "[]"] by (simp add: parse_code_def)

lemma parse_code_ok: "parse_code t = Inr v \<Longrightarrow> json_ok v"
  by (auto simp: parse_code_def split: option.splits prod.splits list.splits if_splits)

end
