(* ===== verification/Config.thy ===== *)
theory Config
  imports WorkflowFiles JsonCode
begin

text \<open>
  Configuration, \<open>ags-runtime/src/runtime/config\<close>: the environment variables that matter, the paths of the state of
  the program, the registry of keys with the checks on their values, the two stores \<open>GlobalConfig\<close> and
  \<open>ProfileConfig\<close> as typed and as raw JSON files, and the choice of the active profile.

  The outside is a record of functions on a world. An operation gets the world and returns the next one. Waiting for a
  lock is a step of the world: what other processes do in the meantime is in the world that the lock returns.
\<close>

section \<open>Runs\<close>

text \<open>Sequencing with \<open>?\<close>: an error ends the run with the world as it is.\<close>

definition and_run :: "('e + 'a) \<times> 'w \<Rightarrow> ('a \<Rightarrow> 'w \<Rightarrow> ('e + 'b) \<times> 'w) \<Rightarrow> ('e + 'b) \<times> 'w" where
  "and_run m f = (case m of (Inl e, w) \<Rightarrow> (Inl e, w) | (Inr a, w) \<Rightarrow> f a w)"

lemma and_run_simps [simp]:
  "and_run (Inl e, w) f = (Inl e, w)"
  "and_run (Inr a, w) f = f a w"
  by (simp_all add: and_run_def)

lemma and_run_ok_iff:
  "and_run m f = (Inr b, w') \<longleftrightarrow> (\<exists>a w1. m = (Inr a, w1) \<and> f a w1 = (Inr b, w'))"
  by (cases m; cases "fst m") (auto simp: and_run_def)

lemma and_run_okE:
  assumes "and_run m f = (Inr b, w')"
  obtains a w1 where "m = (Inr a, w1)" "f a w1 = (Inr b, w')"
  using assms by (auto simp: and_run_ok_iff)

text \<open>An operation that reports the text of an I/O error, or nothing.\<close>

definition io_run :: "(string \<Rightarrow> runtime_error) \<Rightarrow> string option \<times> 'w \<Rightarrow> unit rt \<times> 'w" where
  "io_run err r = (case r of (Some e, w) \<Rightarrow> (Inl (err e), w) | (None, w) \<Rightarrow> (Inr (), w))"

lemma io_run_ok_iff: "io_run err r = (Inr u, w') \<longleftrightarrow> r = (None, w')"
  by (auto simp: io_run_def split: prod.splits option.splits)

section \<open>The host\<close>

datatype platform = MacOs | WindowsOs | OtherOs

text \<open>\<open>ho_env\<close> is \<open>std::env::var\<close> with its errors as \<open>None\<close>; \<open>ho_subdirs\<close> names the directories in a directory;
  \<open>ho_misfit\<close> is the message for a JSON text that does not fit the type it is read as; \<open>ho_url_scheme\<close> is the
  scheme of a text that parses as a URL.\<close>

record 'w host =
  ho_platform :: platform
  ho_env :: "string \<Rightarrow> string option"
  ho_config_root :: "string option"
  ho_home :: "string option"
  ho_cache_root :: "string option"
  ho_unicode :: unicode
  ho_url_scheme :: "string \<Rightarrow> string option"
  ho_parse :: "string \<Rightarrow> string + json"
  ho_print :: "json \<Rightarrow> string"
  ho_pretty :: "json \<Rightarrow> string"
  ho_misfit :: "string \<Rightarrow> string"
  ho_exists :: "string \<Rightarrow> 'w \<Rightarrow> bool"
  ho_is_dir :: "string \<Rightarrow> 'w \<Rightarrow> bool"
  ho_read :: "string \<Rightarrow> 'w \<Rightarrow> string + string"
  ho_subdirs :: "string \<Rightarrow> 'w \<Rightarrow> string + string list"
  ho_create_dir :: "string \<Rightarrow> 'w \<Rightarrow> string option \<times> 'w"
  ho_write :: "string \<Rightarrow> string \<Rightarrow> 'w \<Rightarrow> string option \<times> 'w"
  ho_remove_file :: "string \<Rightarrow> 'w \<Rightarrow> string option \<times> 'w"
  ho_remove_tree :: "string \<Rightarrow> 'w \<Rightarrow> string option \<times> 'w"
  ho_rename :: "string \<Rightarrow> string \<Rightarrow> 'w \<Rightarrow> string option \<times> 'w"
  ho_lock :: "string \<Rightarrow> string \<Rightarrow> 'w \<Rightarrow> string option \<times> 'w"

section \<open>Environment\<close>

definition env_access_token :: string where "env_access_token = ''AGS_ACCESS_TOKEN''"
definition env_base_url :: string where "env_base_url = ''AGS_BASE_URL''"
definition env_client_id :: string where "env_client_id = ''AGS_CLIENT_ID''"
definition env_client_secret :: string where "env_client_secret = ''AGS_CLIENT_SECRET''"
definition env_home :: string where "env_home = ''AGS_HOME''"
definition env_namespace :: string where "env_namespace = ''AGS_NAMESPACE''"
definition env_no_keychain :: string where "env_no_keychain = ''AGS_NO_KEYCHAIN''"
definition env_profile :: string where "env_profile = ''AGS_PROFILE''"
definition env_no_update_check :: string where "env_no_update_check = ''AGS_NO_UPDATE_CHECK''"
definition env_update_check_url :: string where "env_update_check_url = ''AGS_UPDATE_CHECK_URL''"
definition env_update_installer_url :: string where "env_update_installer_url = ''AGS_UPDATE_INSTALLER_URL''"
definition env_update_health_timeout_secs :: string where
  "env_update_health_timeout_secs = ''AGS_UPDATE_HEALTH_TIMEOUT_SECS''"
definition default_profile :: string where "default_profile = ''default''"

definition is_keychain_disabled :: "('w, 'm) host_scheme \<Rightarrow> bool" where
  "is_keychain_disabled H \<longleftrightarrow> ho_env H env_no_keychain = Some ''1''"

definition is_env_var_set :: "('w, 'm) host_scheme \<Rightarrow> string \<Rightarrow> bool" where
  "is_env_var_set H name \<longleftrightarrow> (case ho_env H name of Some v \<Rightarrow> v \<noteq> [] | None \<Rightarrow> False)"

definition is_update_check_disabled :: "('w, 'm) host_scheme \<Rightarrow> bool" where
  "is_update_check_disabled H \<longleftrightarrow> ho_env H env_no_update_check = Some ''1''"

definition update_check_url_override :: "('w, 'm) host_scheme \<Rightarrow> string option" where
  "update_check_url_override H = filter_option (\<lambda>s. s \<noteq> []) (ho_env H env_update_check_url)"

definition update_installer_url_override :: "('w, 'm) host_scheme \<Rightarrow> string option" where
  "update_installer_url_override H = filter_option (\<lambda>s. s \<noteq> []) (ho_env H env_update_installer_url)"

definition update_health_timeout_override :: "('w, 'm) host_scheme \<Rightarrow> nat option" where
  "update_health_timeout_override H =
     Option.bind (filter_option (\<lambda>s. s \<noteq> []) (ho_env H env_update_health_timeout_secs)) parse_usize"

definition is_ci :: "('w, 'm) host_scheme \<Rightarrow> bool" where
  "is_ci H \<longleftrightarrow> is_env_var_set H ''CI''"

section \<open>Paths\<close>

definition app_path :: "platform \<Rightarrow> string" where
  "app_path p =
     (case p of MacOs \<Rightarrow> ''com.accelbyte.ags'' | WindowsOs \<Rightarrow> path_join ''AccelByte'' ''AGS'' | OtherOs \<Rightarrow> ''ags'')"

definition resolve_platform_config_root :: "platform \<Rightarrow> string option \<Rightarrow> string option \<Rightarrow> string rt" where
  "resolve_platform_config_root p config_root home =
     (case config_root of
        Some d \<Rightarrow> Inr (path_join d (app_path p))
      | None \<Rightarrow>
          (case home of
             Some h \<Rightarrow> Inr (path_join h (app_path p))
           | None \<Rightarrow> Inl (internal_error ''Cannot determine config directory.'')))"

definition platform_config_root :: "('w, 'm) host_scheme \<Rightarrow> string rt" where
  "platform_config_root H = resolve_platform_config_root (ho_platform H) (ho_config_root H) (ho_home H)"

definition config_dir :: "('w, 'm) host_scheme \<Rightarrow> string rt" where
  "config_dir H = (case ho_env H env_home of Some h \<Rightarrow> Inr h | None \<Rightarrow> platform_config_root H)"

definition cache_dir :: "('w, 'm) host_scheme \<Rightarrow> string rt" where
  "cache_dir H =
     (case ho_env H env_home of
        Some h \<Rightarrow> Inr (path_join h ''cache'')
      | None \<Rightarrow>
          (case ho_cache_root H of
             None \<Rightarrow> Inl (internal_error ''Cannot determine cache directory.'')
           | Some d \<Rightarrow> Inr (path_join d (app_path (ho_platform H)))))"

definition subpath :: "string rt \<Rightarrow> string \<Rightarrow> string rt" where
  "subpath base name = and_then base (\<lambda>d. Inr (path_join d name))"

definition shared_lock_dir :: "('w, 'm) host_scheme \<Rightarrow> string rt" where
  "shared_lock_dir H = subpath (platform_config_root H) ''locks''"

definition global_config_lock_path :: "('w, 'm) host_scheme \<Rightarrow> string rt" where
  "global_config_lock_path H = subpath (config_dir H) ''.config.lock''"

definition profiles_dir :: "('w, 'm) host_scheme \<Rightarrow> string rt" where
  "profiles_dir H = subpath (config_dir H) ''profiles''"

definition workflows_dir :: "('w, 'm) host_scheme \<Rightarrow> string rt" where
  "workflows_dir H = subpath (config_dir H) ''workflows''"

definition profile_dir :: "('w, 'm) host_scheme \<Rightarrow> string \<Rightarrow> string rt" where
  "profile_dir H name = subpath (profiles_dir H) name"

definition profile_config_lock_path :: "('w, 'm) host_scheme \<Rightarrow> string \<Rightarrow> string rt" where
  "profile_config_lock_path H name = subpath (profile_dir H name) ''.config.lock''"

definition profile_config_path :: "('w, 'm) host_scheme \<Rightarrow> string \<Rightarrow> string rt" where
  "profile_config_path H name = subpath (profile_dir H name) ''config.json''"

section \<open>Keys\<close>

datatype config_scope = GlobalScope | ProfileScope

record config_key_def =
  ck_cli_name :: string
  ck_json_name :: string
  ck_scope :: config_scope

definition known_keys :: "config_key_def list" where
  "known_keys = map (\<lambda>(c, j, s). \<lparr>ck_cli_name = c, ck_json_name = j, ck_scope = s\<rparr>)
     [(''active-profile'', ''active_profile'', GlobalScope),
      (''format'', ''format'', GlobalScope),
      (''no-color'', ''no_color'', GlobalScope),
      (''timeout'', ''timeout'', GlobalScope),
      (''page-limit'', ''page_limit'', GlobalScope),
      (''first-run-hint-seen'', ''first_run_hint_seen'', GlobalScope),
      (''base-url'', ''base_url'', ProfileScope),
      (''client-id'', ''client_id'', ProfileScope),
      (''namespace'', ''namespace'', ProfileScope),
      (''grant-type'', ''grant_type'', ProfileScope),
      (''update-check'', ''update_check'', GlobalScope)]"

definition client_secret_aliases :: "string list" where
  "client_secret_aliases = [''client-secret'', ''secret'']"

definition is_client_secret_key :: "string \<Rightarrow> bool" where
  "is_client_secret_key name \<longleftrightarrow> list_ex (\<lambda>alias. eq_ignore_ascii_case alias name) client_secret_aliases"

definition find_key :: "string \<Rightarrow> config_key_def option" where
  "find_key name = find (\<lambda>k. ck_cli_name k = name) known_keys"

definition env_var_name_for_key :: "string \<Rightarrow> string option" where
  "env_var_name_for_key name =
     (if name = ''base-url'' then Some env_base_url
      else if name = ''client-id'' then Some env_client_id
      else if name = ''namespace'' then Some env_namespace
      else if name = ''active-profile'' then Some env_profile
      else None)"

definition is_valid_base_url :: "('w, 'm) host_scheme \<Rightarrow> string \<Rightarrow> bool" where
  "is_valid_base_url H v \<longleftrightarrow>
     (case ho_url_scheme H v of Some s \<Rightarrow> s = ''https'' \<or> s = ''http'' | None \<Rightarrow> False)"

definition is_hex_digit :: "char \<Rightarrow> bool" where
  "is_hex_digit c \<longleftrightarrow>
     (let n = (of_char c :: nat) in 48 \<le> n \<and> n \<le> 57 \<or> 65 \<le> n \<and> n \<le> 70 \<or> 97 \<le> n \<and> n \<le> 102)"

definition strip_hyphens :: "string \<Rightarrow> string" where
  "strip_hyphens v = filter (\<lambda>c. c \<noteq> CHR ''-'') v"

text \<open>The length counts bytes; a text of another length in characters has a character that is no hexadecimal digit.\<close>

definition is_valid_client_id :: "string \<Rightarrow> bool" where
  "is_valid_client_id v \<longleftrightarrow> length (strip_hyphens v) = 32 \<and> list_all is_hex_digit (strip_hyphens v)"

definition normalise_client_id :: "string \<Rightarrow> string" where
  "normalise_client_id v = lower_text (strip_hyphens v)"

definition client_ids_match :: "string \<Rightarrow> string \<Rightarrow> bool" where
  "client_ids_match a b \<longleftrightarrow> normalise_client_id a = normalise_client_id b"

definition is_valid_namespace :: "string \<Rightarrow> bool" where
  "is_valid_namespace v \<longleftrightarrow>
     v \<noteq> [] \<and> length v \<le> 48 \<and> \<not> prefix ''-'' v \<and> \<not> suffix ''-'' v \<and>
     list_all (\<lambda>c. is_lower c \<or> is_digit c \<or> c = CHR ''-'') v"

section \<open>JSON forms of the stores\<close>

text \<open>The fields of a struct in a document: by name in an object; an array holds them in order, and fields that have a
  default may be missing at its end.\<close>

definition struct_fields :: "string list \<Rightarrow> string list \<Rightarrow> json \<Rightarrow> (string \<Rightarrow> json option) option" where
  "struct_fields names defaulted v =
     (case v of
        JObj m \<Rightarrow> Some (bget m)
      | JArr xs \<Rightarrow>
          if length names \<le> length xs \<and> length xs \<le> length (names @ defaulted)
          then Some (map_of (zip (names @ defaulted) xs)) else None
      | _ \<Rightarrow> None)"

definition required_field :: "(json \<Rightarrow> 'a option) \<Rightarrow> json option \<Rightarrow> 'a option" where
  "required_field read v = Option.bind v read"

definition default_field :: "'a \<Rightarrow> (json \<Rightarrow> 'a option) \<Rightarrow> json option \<Rightarrow> 'a option" where
  "default_field d read v = (case v of None \<Rightarrow> Some d | Some x \<Rightarrow> read x)"

text \<open>An \<open>Option\<close> field: absent and \<open>null\<close> are \<open>None\<close>, another value must have the type.\<close>

definition optional_field :: "(json \<Rightarrow> 'a option) \<Rightarrow> json option \<Rightarrow> 'a option option" where
  "optional_field read v =
     (case v of None \<Rightarrow> Some None | Some JNull \<Rightarrow> Some None | Some x \<Rightarrow> map_option Some (read x))"

text \<open>A unit variant: its name, or an object with that one key and \<open>null\<close>.\<close>

definition unit_variant :: "(string \<times> 'a) list \<Rightarrow> json \<Rightarrow> 'a option" where
  "unit_variant names v =
     (case v of
        JStr s \<Rightarrow> map_of names s
      | JObj [(k, JNull)] \<Rightarrow> map_of names k
      | _ \<Rightarrow> None)"

datatype grant_type = AuthorizationCode | ClientCredentials

definition as_kebab :: "grant_type \<Rightarrow> string" where
  "as_kebab g = (case g of AuthorizationCode \<Rightarrow> ''authorization-code'' | ClientCredentials \<Rightarrow> ''client-credentials'')"

definition as_oauth_param :: "grant_type \<Rightarrow> string" where
  "as_oauth_param g =
     (case g of AuthorizationCode \<Rightarrow> ''authorization_code'' | ClientCredentials \<Rightarrow> ''client_credentials'')"

definition grant_type_names :: "(string \<times> grant_type) list" where
  "grant_type_names = map (\<lambda>g. (as_kebab g, g)) [AuthorizationCode, ClientCredentials]"

definition output_format_names :: "(string \<times> output_format) list" where
  "output_format_names = [(''human'', Human), (''json'', JsonFormat)]"

record global_config =
  gc_active_profile :: "string option"
  gc_format :: "output_format option"
  gc_no_color :: "bool option"
  gc_timeout :: "nat option"
  gc_page_limit :: "nat option"
  gc_update_check :: "bool option"
  gc_first_run_hint_seen :: "bool option"

record profile_config =
  pc_base_url :: "string option"
  pc_client_id :: "string option"
  pc_namespace :: "string option"
  pc_grant_type :: "grant_type option"

definition default_global_config :: global_config where
  "default_global_config =
     \<lparr>gc_active_profile = None, gc_format = None, gc_no_color = None, gc_timeout = None, gc_page_limit = None,
      gc_update_check = None, gc_first_run_hint_seen = None\<rparr>"

definition default_profile_config :: profile_config where
  "default_profile_config =
     \<lparr>pc_base_url = None, pc_client_id = None, pc_namespace = None, pc_grant_type = None\<rparr>"

text \<open>Fields that are \<open>None\<close> are not written.\<close>

definition json_fields :: "(string \<times> json option) list \<Rightarrow> json" where
  "json_fields fs = json_obj (List.map_filter (\<lambda>(k, v). map_option (Pair k) v) fs)"

definition global_config_json :: "global_config \<Rightarrow> json" where
  "global_config_json c =
     json_fields
       [(''active_profile'', map_option JStr (gc_active_profile c)),
        (''format'', map_option (\<lambda>f. JStr (case f of Human \<Rightarrow> ''human'' | JsonFormat \<Rightarrow> ''json'')) (gc_format c)),
        (''no_color'', map_option JBool (gc_no_color c)),
        (''timeout'', map_option (\<lambda>n. JInt (int n)) (gc_timeout c)),
        (''page_limit'', map_option (\<lambda>n. JInt (int n)) (gc_page_limit c)),
        (''update_check'', map_option JBool (gc_update_check c)),
        (''first_run_hint_seen'', map_option JBool (gc_first_run_hint_seen c))]"

definition profile_config_json :: "profile_config \<Rightarrow> json" where
  "profile_config_json c =
     json_fields
       [(''base_url'', map_option JStr (pc_base_url c)),
        (''client_id'', map_option JStr (pc_client_id c)),
        (''namespace'', map_option JStr (pc_namespace c)),
        (''grant_type'', map_option (\<lambda>g. JStr (as_kebab g)) (pc_grant_type c))]"

definition json_global_config :: "json \<Rightarrow> global_config option" where
  "json_global_config v =
     Option.bind (struct_fields [''active_profile'', ''format'', ''no_color'', ''timeout'', ''page_limit'',
                                 ''update_check'', ''first_run_hint_seen''] [] v) (\<lambda>f.
     Option.bind (optional_field as_str (f ''active_profile'')) (\<lambda>active.
     Option.bind (optional_field (unit_variant output_format_names) (f ''format'')) (\<lambda>fmt.
     Option.bind (optional_field as_bool (f ''no_color'')) (\<lambda>no_color.
     Option.bind (optional_field as_u64 (f ''timeout'')) (\<lambda>timeout.
     Option.bind (optional_field as_u64 (f ''page_limit'')) (\<lambda>page_limit.
     Option.bind (optional_field as_bool (f ''update_check'')) (\<lambda>update_check.
     Option.bind (optional_field as_bool (f ''first_run_hint_seen'')) (\<lambda>hint_seen.
       Some \<lparr>gc_active_profile = active, gc_format = fmt, gc_no_color = no_color, gc_timeout = timeout,
             gc_page_limit = page_limit, gc_update_check = update_check, gc_first_run_hint_seen = hint_seen\<rparr>))))))))"

definition json_profile_config :: "json \<Rightarrow> profile_config option" where
  "json_profile_config v =
     Option.bind (struct_fields [''base_url'', ''client_id'', ''namespace'', ''grant_type''] [] v) (\<lambda>f.
     Option.bind (optional_field as_str (f ''base_url'')) (\<lambda>base_url.
     Option.bind (optional_field as_str (f ''client_id'')) (\<lambda>client_id.
     Option.bind (optional_field as_str (f ''namespace'')) (\<lambda>namespace.
     Option.bind (optional_field (unit_variant grant_type_names) (f ''grant_type'')) (\<lambda>grant_type.
       Some \<lparr>pc_base_url = base_url, pc_client_id = client_id, pc_namespace = namespace,
             pc_grant_type = grant_type\<rparr>)))))"

section \<open>Stores\<close>

record config_store =
  cs_path :: string
  cs_lock_path :: string
  cs_label :: string

definition global_store :: "('w, 'm) host_scheme \<Rightarrow> config_store rt" where
  "global_store H =
     and_then (subpath (config_dir H) ''config.json'') (\<lambda>path.
     and_then (global_config_lock_path H) (\<lambda>lock.
       Inr \<lparr>cs_path = path, cs_lock_path = lock, cs_label = ''global config''\<rparr>))"

definition profile_store :: "('w, 'm) host_scheme \<Rightarrow> string \<Rightarrow> config_store rt" where
  "profile_store H profile =
     and_then (profile_config_path H profile) (\<lambda>path.
     and_then (profile_config_lock_path H profile) (\<lambda>lock.
       Inr \<lparr>cs_path = path, cs_lock_path = lock, cs_label = ''profile config for '' @ quoted profile\<rparr>))"

definition store_directory :: "config_store \<Rightarrow> string rt" where
  "store_directory S =
     ok_or (internal_error (''No parent directory for config file '' @ quoted (cs_path S))) (path_parent (cs_path S))"

definition create_dir_restricted :: "('w, 'm) host_scheme \<Rightarrow> string \<Rightarrow> 'w \<Rightarrow> unit rt \<times> 'w" where
  "create_dir_restricted H dir w =
     io_run (\<lambda>e. internal_error (''Failed to create directory '' @ quoted dir @ '': '' @ e)) (ho_create_dir H dir w)"

definition write_file_restricted :: "('w, 'm) host_scheme \<Rightarrow> string \<Rightarrow> string \<Rightarrow> 'w \<Rightarrow> unit rt \<times> 'w" where
  "write_file_restricted H path data w =
     io_run (\<lambda>e. internal_error (''Failed to write '' @ quoted path @ '': '' @ e)) (ho_write H path data w)"

definition lock_store :: "('w, 'm) host_scheme \<Rightarrow> config_store \<Rightarrow> 'w \<Rightarrow> unit rt \<times> 'w" where
  "lock_store H S w =
     and_run (store_directory S, w) (\<lambda>dir w.
     and_run (create_dir_restricted H dir w) (\<lambda>_ w.
       io_run internal_error (ho_lock H (cs_lock_path S) (cs_label S) w)))"

definition read_failed :: "config_store \<Rightarrow> string \<Rightarrow> runtime_error" where
  "read_failed S e = internal_error (''Failed to read '' @ cs_label S @ '': '' @ e)"

definition parse_failed :: "config_store \<Rightarrow> string \<Rightarrow> runtime_error" where
  "parse_failed S e = internal_error (''Failed to parse '' @ cs_label S @ '': '' @ e)"

definition load_struct_unlocked ::
  "('w, 'm) host_scheme \<Rightarrow> config_store \<Rightarrow> (json \<Rightarrow> 'a option) \<Rightarrow> 'a \<Rightarrow> 'w \<Rightarrow> 'a rt" where
  "load_struct_unlocked H S read_json def w =
     (if \<not> ho_exists H (cs_path S) w then Inr def
      else case ho_read H (cs_path S) w of
        Inl e \<Rightarrow> Inl (read_failed S e)
      | Inr data \<Rightarrow>
          (case ho_parse H data of
             Inl e \<Rightarrow> Inl (parse_failed S e)
           | Inr v \<Rightarrow> ok_or (parse_failed S (ho_misfit H data)) (read_json v)))"

definition save_struct_unlocked :: "('w, 'm) host_scheme \<Rightarrow> config_store \<Rightarrow> json \<Rightarrow> 'w \<Rightarrow> unit rt \<times> 'w" where
  "save_struct_unlocked H S v w = write_file_restricted H (cs_path S) (ho_pretty H v) w"

definition save_struct :: "('w, 'm) host_scheme \<Rightarrow> config_store \<Rightarrow> json \<Rightarrow> 'w \<Rightarrow> unit rt \<times> 'w" where
  "save_struct H S v w = and_run (lock_store H S w) (\<lambda>_ w. save_struct_unlocked H S v w)"

definition update_struct ::
  "('w, 'm) host_scheme \<Rightarrow> config_store \<Rightarrow> (json \<Rightarrow> 'a option) \<Rightarrow> ('a \<Rightarrow> json) \<Rightarrow> 'a \<Rightarrow>
   ('a \<Rightarrow> ('r \<times> 'a) rt) \<Rightarrow> 'w \<Rightarrow> 'r rt \<times> 'w" where
  "update_struct H S read_json json_of def f w =
     and_run (lock_store H S w) (\<lambda>_ w.
     and_run (load_struct_unlocked H S read_json def w, w) (\<lambda>c w.
     and_run (f c, w) (\<lambda>(r, c') w.
     and_run (save_struct_unlocked H S (json_of c') w) (\<lambda>_ w.
       (Inr r, w)))))"

section \<open>Raw fields\<close>

definition value_to_string :: "('w, 'm) host_scheme \<Rightarrow> json \<Rightarrow> string option" where
  "value_to_string H v =
     (case v of
        JStr s \<Rightarrow> Some s
      | JBool b \<Rightarrow> Some (if b then ''true'' else ''false'')
      | JInt i \<Rightarrow> Some (show_int i)
      | JFloat t \<Rightarrow> Some t
      | JNull \<Rightarrow> None
      | _ \<Rightarrow> Some (ho_print H v))"

definition parse_json_value :: "string \<Rightarrow> json" where
  "parse_json_value v =
     (if v = ''true'' then JBool True
      else if v = ''false'' then JBool False
      else case parse_usize v of Some n \<Rightarrow> JInt (int n) | None \<Rightarrow> JStr v)"

definition load_json_value :: "('w, 'm) host_scheme \<Rightarrow> config_store \<Rightarrow> string \<Rightarrow> 'w \<Rightarrow> string option rt" where
  "load_json_value H S name w =
     (if \<not> ho_exists H (cs_path S) w then Inr None
      else case ho_read H (cs_path S) w of
        Inl e \<Rightarrow> Inl (read_failed S e)
      | Inr data \<Rightarrow>
          (case ho_parse H data of
             Inl e \<Rightarrow> Inl (parse_failed S e)
           | Inr v \<Rightarrow> Inr (Option.bind (json_key v name) (value_to_string H))))"

text \<open>\<open>object[json_name] = v\<close>: \<open>null\<close> becomes an object, anything else that is no object panics.\<close>

definition assign_field :: "json \<Rightarrow> string \<Rightarrow> json \<Rightarrow> json option" where
  "assign_field object name v =
     (case object of
        JObj m \<Rightarrow> Some (JObj (binsert name v m))
      | JNull \<Rightarrow> Some (JObj [(name, v)])
      | _ \<Rightarrow> None)"

definition remove_field :: "json \<Rightarrow> string \<Rightarrow> json" where
  "remove_field object name = (case object of JObj m \<Rightarrow> JObj (bremove name m) | v \<Rightarrow> v)"

definition current_object :: "('w, 'm) host_scheme \<Rightarrow> config_store \<Rightarrow> 'w \<Rightarrow> json rt" where
  "current_object H S w =
     (if \<not> ho_exists H (cs_path S) w then Inr (JObj [])
      else case ho_read H (cs_path S) w of
        Inl e \<Rightarrow> Inl (read_failed S e)
      | Inr data \<Rightarrow> Inr (case ho_parse H data of Inl _ \<Rightarrow> JObj [] | Inr v \<Rightarrow> v))"

text \<open>A panic is the outcome \<open>None\<close>.\<close>

definition update_json_file_field ::
  "('w, 'm) host_scheme \<Rightarrow> config_store \<Rightarrow> string \<Rightarrow> string option \<Rightarrow> 'w \<Rightarrow> unit rt option \<times> 'w" where
  "update_json_file_field H S name new w =
     (case current_object H S w of
        Inl e \<Rightarrow> (Some (Inl e), w)
      | Inr object \<Rightarrow>
          (case (case new of Some v \<Rightarrow> assign_field object name (parse_json_value v)
                          | None \<Rightarrow> Some (remove_field object name)) of
             None \<Rightarrow> (None, w)
           | Some object' \<Rightarrow> apfst Some (save_struct_unlocked H S object' w)))"

definition change_json_value ::
  "('w, 'm) host_scheme \<Rightarrow> config_store rt \<Rightarrow> string \<Rightarrow> string option \<Rightarrow> 'w \<Rightarrow> unit rt option \<times> 'w" where
  "change_json_value H S name new w =
     (case S of
        Inl e \<Rightarrow> (Some (Inl e), w)
      | Inr S \<Rightarrow>
          (case lock_store H S w of
             (Inl e, w) \<Rightarrow> (Some (Inl e), w)
           | (Inr _, w) \<Rightarrow> update_json_file_field H S name new w))"

definition store_of_scope :: "('w, 'm) host_scheme \<Rightarrow> string \<Rightarrow> config_scope \<Rightarrow> config_store rt" where
  "store_of_scope H profile scope = (case scope of GlobalScope \<Rightarrow> global_store H | ProfileScope \<Rightarrow> profile_store H profile)"

definition get_config_value :: "('w, 'm) host_scheme \<Rightarrow> config_store rt \<Rightarrow> string \<Rightarrow> 'w \<Rightarrow> string option rt" where
  "get_config_value H S name w = and_then S (\<lambda>S. load_json_value H S name w)"

section \<open>Global and profile configuration\<close>

definition load_global :: "('w, 'm) host_scheme \<Rightarrow> 'w \<Rightarrow> global_config rt" where
  "load_global H w =
     and_then (global_store H) (\<lambda>S. load_struct_unlocked H S json_global_config default_global_config w)"

definition update_global ::
  "('w, 'm) host_scheme \<Rightarrow> (global_config \<Rightarrow> ('r \<times> global_config) rt) \<Rightarrow> 'w \<Rightarrow> 'r rt \<times> 'w" where
  "update_global H f w =
     and_run (global_store H, w) (\<lambda>S w.
       update_struct H S json_global_config global_config_json default_global_config f w)"

definition load_profile :: "('w, 'm) host_scheme \<Rightarrow> string \<Rightarrow> 'w \<Rightarrow> profile_config rt" where
  "load_profile H profile w =
     and_then (profile_store H profile) (\<lambda>S. load_struct_unlocked H S json_profile_config default_profile_config w)"

definition save_profile :: "('w, 'm) host_scheme \<Rightarrow> string \<Rightarrow> profile_config \<Rightarrow> 'w \<Rightarrow> unit rt \<times> 'w" where
  "save_profile H profile c w =
     and_run (profile_store H profile, w) (\<lambda>S w. save_struct H S (profile_config_json c) w)"

definition update_profile ::
  "('w, 'm) host_scheme \<Rightarrow> string \<Rightarrow> (profile_config \<Rightarrow> ('r \<times> profile_config) rt) \<Rightarrow> 'w \<Rightarrow> 'r rt \<times> 'w" where
  "update_profile H profile f w =
     and_run (profile_store H profile, w) (\<lambda>S w.
       update_struct H S json_profile_config profile_config_json default_profile_config f w)"

datatype config_source = EnvironmentSource | ProfileSource string | GlobalSource | KeychainSource | NotSet

record resolved_entry =
  re_key :: string
  re_value :: "string option"
  re_source :: config_source
  re_read_only :: bool

definition resolve_key :: "('w, 'm) host_scheme \<Rightarrow> string \<Rightarrow> config_key_def \<Rightarrow> 'w \<Rightarrow> string option \<times> config_source" where
  "resolve_key H profile key w =
     (case filter_option (\<lambda>v. v \<noteq> []) (Option.bind (env_var_name_for_key (ck_cli_name key)) (ho_env H)) of
        Some v \<Rightarrow> (Some v, EnvironmentSource)
      | None \<Rightarrow>
          (case get_config_value H (store_of_scope H profile (ck_scope key)) (ck_json_name key) w of
             Inr (Some v) \<Rightarrow>
               (Some v, (case ck_scope key of ProfileScope \<Rightarrow> ProfileSource profile | GlobalScope \<Rightarrow> GlobalSource))
           | _ \<Rightarrow> (None, NotSet)))"

definition resolved_config_entries :: "('w, 'm) host_scheme \<Rightarrow> string \<Rightarrow> 'w \<Rightarrow> resolved_entry list" where
  "resolved_config_entries H profile w =
     map (\<lambda>key. case resolve_key H profile key w of
                  (v, src) \<Rightarrow> \<lparr>re_key = ck_cli_name key, re_value = v, re_source = src, re_read_only = False\<rparr>)
       known_keys"

section \<open>Profiles\<close>

definition profile_exists :: "('w, 'm) host_scheme \<Rightarrow> string \<Rightarrow> 'w \<Rightarrow> bool rt" where
  "profile_exists H name w = and_then (profile_dir H name) (\<lambda>d. Inr (ho_is_dir H d w))"

definition list_profiles :: "('w, 'm) host_scheme \<Rightarrow> 'w \<Rightarrow> string list rt" where
  "list_profiles H w =
     and_then (profiles_dir H) (\<lambda>dir.
       if \<not> ho_is_dir H dir w then Inr []
       else case ho_subdirs H dir w of
         Inl e \<Rightarrow> Inl (internal_error (''Failed to read profiles directory: '' @ e))
       | Inr names \<Rightarrow> Inr (sort names))"

definition profile_char :: "char \<Rightarrow> bool" where
  "profile_char c \<longleftrightarrow> is_lower c \<or> is_digit c \<or> c = CHR ''-''"

definition validate_profile_name :: "unicode \<Rightarrow> string \<Rightarrow> string rt" where
  "validate_profile_name U name =
     (let n = to_lowercase U name
      in if n = [] then
           Inl (with_hint (validation_error ''Profile name cannot be empty'')
             (''Use a name like '' @ quoted ''default'' @ '', '' @ quoted ''staging'' @ '', or '' @ quoted ''prod-us'' @ ''.''))
         else if \<not> list_all profile_char n \<or> \<not> (is_upper (hd n) \<or> is_lower (hd n) \<or> is_digit (hd n)) then
           Inl (with_hint (validation_error (''Invalid profile name '' @ quoted name @ ''.''))
             (''Profile names must start with a letter or digit and contain only lowercase letters, digits, '' @
              ''and hyphens.''))
         else Inr n)"

definition ensure_profile_exists :: "('w, 'm) host_scheme \<Rightarrow> string \<Rightarrow> 'w \<Rightarrow> unit rt \<times> 'w" where
  "ensure_profile_exists H name w =
     and_run (profile_dir H name, w) (\<lambda>dir w.
       if ho_is_dir H dir w then (Inr (), w)
       else and_run (create_dir_restricted H dir w) (\<lambda>_ w. save_profile H name default_profile_config w))"

definition no_active_profile :: runtime_error where
  "no_active_profile = with_hint (validation_error ''No active profile'')
     (''Run '' @ quoted ''ags profile create <name>'' @ '' and '' @ quoted ''ags profile use <name>'' @ '' to get started.'')"

definition resolve_profile_name :: "('w, 'm) host_scheme \<Rightarrow> string option \<Rightarrow> 'w \<Rightarrow> string rt \<times> 'w" where
  "resolve_profile_name H flag w =
     (case flag of
        Some name \<Rightarrow> (validate_profile_name (ho_unicode H) name, w)
      | None \<Rightarrow>
          (case filter_option (\<lambda>n. n \<noteq> []) (ho_env H env_profile) of
             Some name \<Rightarrow> (validate_profile_name (ho_unicode H) name, w)
           | None \<Rightarrow>
               and_run (load_global H w, w) (\<lambda>global w.
                 case filter_option (\<lambda>n. n \<noteq> []) (gc_active_profile global) of
                   Some name \<Rightarrow> (validate_profile_name (ho_unicode H) name, w)
                 | None \<Rightarrow>
                     and_run (profiles_dir H, w) (\<lambda>dir w.
                       if ho_exists H dir w then (Inl no_active_profile, w)
                       else
                         and_run (ensure_profile_exists H default_profile w) (\<lambda>_ w.
                         and_run (update_global H (\<lambda>g. Inr ((), g\<lparr>gc_active_profile := Some default_profile\<rparr>)) w) (\<lambda>_ w.
                           (Inr default_profile, w)))))))"

section \<open>Documents of the stores\<close>

lemma map_of_present:
  "distinct (map fst fs) \<Longrightarrow>
   map_of (List.map_filter (\<lambda>(k, v). map_option (Pair k) v) fs) k = Option.bind (map_of fs k) id"
  by (induction fs) (auto simp: List.map_filter_simps map_of_eq_None_iff[symmetric] split: option.splits)

lemma distinct_present:
  "distinct (map fst fs) \<Longrightarrow> distinct (map fst (List.map_filter (\<lambda>(k, v). map_option (Pair k) v) fs))"
proof (induction fs)
  case (Cons f fs)
  have "fst ` set (List.map_filter (\<lambda>(k, v). map_option (Pair k) v) fs) \<subseteq> fst ` set fs"
    by (induction fs) (auto simp: List.map_filter_simps split: option.splits)
  with Cons show ?case by (cases f) (auto simp: List.map_filter_simps split: option.split)
qed (simp add: List.map_filter_simps)

lemma json_fields_object:
  assumes "distinct (map fst fs)"
  shows "\<exists>m. json_fields fs = JObj m \<and> bmap_ok m \<and> (\<forall>k. bget m k = Option.bind (map_of fs k) id)"
  using btree.lookup_store_all [OF bmap_ok_empty distinct_present [OF assms]] btree.store_all_keeps [OF bmap_ok_empty]
  by (auto simp: json_fields_def json_obj_def map_of_present [OF assms] split: option.split)

lemma bget_of_member: "bmap_ok m \<Longrightarrow> (k, v) \<in> set m \<Longrightarrow> bget m k = Some v"
  by (simp add: bget_def bmap_ok_distinct)

lemma json_fields_ok:
  assumes "distinct (map fst fs)" and "\<forall>(k, v) \<in> set fs. pred_option json_ok v"
  shows "json_ok (json_fields fs)"
proof -
  from json_fields_object [OF assms(1)] obtain m where m: "json_fields fs = JObj m" "bmap_ok m"
    "\<forall>k. bget m k = Option.bind (map_of fs k) id" by blast
  have "json_ok v" if "(k, v) \<in> set m" for k v
  proof -
    from bget_of_member [OF m(2) that] m(3) have "map_of fs k = Some (Some v)" by (cases "map_of fs k") auto
    with assms(2) show ?thesis by (auto dest!: map_of_SomeD)
  qed
  with m show ?thesis by (auto simp: list_all_iff)
qed

lemma optional_field_map: 
  "(\<forall>x. v = Some x \<longrightarrow> j x \<noteq> JNull \<and> read (j x) = Some x) \<Longrightarrow> optional_field read (map_option j v) = Some v"
  by (cases v; cases "j (the v)") (auto simp: optional_field_def)

lemma unit_variant_kebab [simp]: "unit_variant grant_type_names (JStr (as_kebab g)) = Some g"
  by (cases g) (simp_all add: unit_variant_def grant_type_names_def as_kebab_def)

lemma as_u64_int [simp]: "as_u64 (JInt (int n)) = (if n < 2 ^ 64 then Some n else None)"
  by (auto simp: as_u64_def)

lemma as_str_JStr [simp]: "as_str (JStr s) = Some s" by (simp add: as_str_def)

text \<open>What the code relies on: the JSON crate reads what it prints, and a file system does what it reports.\<close>

definition texts_read_back :: "('w, 'm) host_scheme \<Rightarrow> bool" where
  "texts_read_back H \<longleftrightarrow>
     (\<forall>v. json_ok v \<longrightarrow> ho_parse H (ho_print H v) = Inr v \<and> ho_parse H (ho_pretty H v) = Inr v) \<and>
     (\<forall>t v. ho_parse H t = Inr v \<longrightarrow> json_ok v)"

definition files_read_back :: "('w, 'm) host_scheme \<Rightarrow> bool" where
  "files_read_back H \<longleftrightarrow>
     (\<forall>p t w w'. ho_write H p t w = (None, w') \<longrightarrow> ho_exists H p w' \<and> ho_read H p w' = Inr t) \<and>
     (\<forall>p w w'. ho_remove_file H p w = (None, w') \<longrightarrow> \<not> ho_exists H p w')"

text \<open>A host whose state is a table of files, with a second table for what else there is.\<close>

type_synonym tables = "(string \<times> string) list \<times> (string \<times> string) list"

definition put_entry :: "string \<Rightarrow> string \<Rightarrow> (string \<times> string) list \<Rightarrow> (string \<times> string) list" where
  "put_entry k v t = (k, v) # filter (\<lambda>(k', _). k' \<noteq> k) t"

definition drop_entry :: "string \<Rightarrow> (string \<times> string) list \<Rightarrow> (string \<times> string) list" where
  "drop_entry k t = filter (\<lambda>(k', _). k' \<noteq> k) t"

lemma map_of_put [simp]: "map_of (put_entry k v t) k' = (if k' = k then Some v else map_of t k')"
  by (auto simp: put_entry_def map_of_filter_other)

lemma map_of_drop [simp]: "map_of (drop_entry k t) k' = (if k' = k then None else map_of t k')"
  by (auto simp: drop_entry_def map_of_filter_other map_of_eq_None_iff)

lemma no_new_entry: "\<not> list_ex P t \<Longrightarrow> list_ex P (drop_entry k t) \<longleftrightarrow> False"
  by (auto simp: drop_entry_def list_ex_iff)

definition under :: "string \<Rightarrow> string \<Rightarrow> string option" where
  "under d p = strip_prefix (d @ ''/'') p"

definition table_host :: "(string \<times> string) list \<Rightarrow> tables host" where
  "table_host env =
     \<lparr>ho_platform = OtherOs, ho_env = map_of env, ho_config_root = Some ''c'', ho_home = None, ho_cache_root = None,
      ho_unicode = ascii_only,
      ho_url_scheme = (\<lambda>t. map_option (\<lambda>_. ''https'') (strip_prefix ''https://'' t)),
      ho_parse = parse_code, ho_print = json_code, ho_pretty = json_code, ho_misfit = (\<lambda>_. ''misfit''),
      ho_exists = (\<lambda>p w. map_of (fst w) p \<noteq> None \<or> list_ex (\<lambda>(q, _). under p q \<noteq> None) (fst w)),
      ho_is_dir = (\<lambda>d w. list_ex (\<lambda>(q, _). under d q \<noteq> None) (fst w)),
      ho_read = (\<lambda>p w. case map_of (fst w) p of Some t \<Rightarrow> Inr t | None \<Rightarrow> Inl ''not found''),
      ho_subdirs = (\<lambda>d w. Inr (remdups (List.map_filter
        (\<lambda>(q, _). Option.bind (under d q) (\<lambda>r. if CHR ''/'' \<in> set r then Some (before_match (\<lambda>c. c = CHR ''/'') r) else None))
        (fst w)))),
      ho_create_dir = (\<lambda>_ w. (None, w)),
      ho_write = (\<lambda>p t w. (None, (put_entry p t (fst w), snd w))),
      ho_remove_file = (\<lambda>p w. if list_ex (\<lambda>(q, _). under p q \<noteq> None) (fst w) then (Some ''is a directory'', w)
                              else (None, (drop_entry p (fst w), snd w))),
      ho_remove_tree = (\<lambda>d w. (None, (filter (\<lambda>(q, _). under d q = None) (fst w), snd w))),
      ho_rename = (\<lambda>a b w. (None, (map (\<lambda>(q, t). (case under a q of Some r \<Rightarrow> b @ ''/'' @ r | None \<Rightarrow> q, t)) (fst w), snd w))),
      ho_lock = (\<lambda>_ _ w. (None, w))\<rparr>"

lemma table_host_honest: "texts_read_back (table_host env)" "files_read_back (table_host env)"
  by (auto simp: texts_read_back_def files_read_back_def table_host_def no_new_entry parse_code_ok split: if_splits)

end
