(* ===== verification/AuthStore.thy ===== *)
theory AuthStore
  imports Config DispatchHttp
begin

text \<open>
  Credentials at rest, \<open>ags-runtime/src/runtime/auth\<close>: the errors of authentication (\<open>errors.rs\<close>), tokens and their
  JSON form, the token endpoint (\<open>tokens.rs\<close>), the lock of a profile (\<open>locking.rs\<close>), and the storage of secrets and
  tokens in the keychain of the system with files as the fallback (\<open>store.rs\<close>).
\<close>

section \<open>The host\<close>

datatype keyring_kind = NoEntry | NoStorageAccess | PlatformFailure | OtherKeyringError

record keyring_error =
  kr_kind :: keyring_kind
  kr_text :: string

text \<open>A request to the token endpoint: its URL, the Basic credentials, further headers and the body.\<close>

datatype token_body = RawBody string | FormBody "(string \<times> string) list"

record token_http =
  th_url :: string
  th_basic_auth :: "(string \<times> string) option"
  th_headers :: "(string \<times> string) list"
  th_body :: token_body

text \<open>\<open>au_entry\<close> is \<open>Entry::new\<close>; \<open>au_base64\<close> is URL-safe base64 without padding; \<open>au_wait\<close> is the wait for the lock of
  a profile within the process.\<close>

record 'w auth_host = "'w host" +
  au_entry :: "string \<Rightarrow> string \<Rightarrow> 'w \<Rightarrow> keyring_error option"
  au_get_password :: "string \<Rightarrow> string \<Rightarrow> 'w \<Rightarrow> keyring_error + string"
  au_set_password :: "string \<Rightarrow> string \<Rightarrow> string \<Rightarrow> 'w \<Rightarrow> keyring_error option \<times> 'w"
  au_delete_credential :: "string \<Rightarrow> string \<Rightarrow> 'w \<Rightarrow> keyring_error option \<times> 'w"
  au_base64 :: "string \<Rightarrow> string"
  au_wait :: "string \<Rightarrow> 'w \<Rightarrow> 'w"
  au_now :: "'w \<Rightarrow> nat"
  au_post :: "token_http \<Rightarrow> 'w \<Rightarrow> (string + raw_response) \<times> 'w"

section \<open>Errors\<close>

datatype auth_resource = SecretResource | TokenResource

datatype storage_operation = ReadOp | WriteOp | DeleteOp

definition keychain_operation_message :: "auth_resource \<Rightarrow> storage_operation \<Rightarrow> string" where
  "keychain_operation_message r op =
     (case (r, op) of
        (SecretResource, WriteOp) \<Rightarrow> ''Failed to store client secret in OS keychain''
      | (SecretResource, ReadOp) \<Rightarrow> ''Failed to read client secret from OS keychain''
      | (SecretResource, DeleteOp) \<Rightarrow> ''Failed to delete client secret from OS keychain''
      | (TokenResource, WriteOp) \<Rightarrow> ''Failed to store tokens in OS keychain''
      | (TokenResource, ReadOp) \<Rightarrow> ''Failed to read tokens from OS keychain''
      | (TokenResource, DeleteOp) \<Rightarrow> ''Failed to delete tokens from OS keychain'')"

definition file_operation_message :: "auth_resource \<Rightarrow> storage_operation \<Rightarrow> string" where
  "file_operation_message r op =
     (case (r, op) of
        (SecretResource, WriteOp) \<Rightarrow> ''Failed to write secret file''
      | (SecretResource, ReadOp) \<Rightarrow> ''Failed to read secret file''
      | (SecretResource, DeleteOp) \<Rightarrow> ''Failed to delete secret file''
      | (TokenResource, WriteOp) \<Rightarrow> ''Failed to write token file''
      | (TokenResource, ReadOp) \<Rightarrow> ''Failed to read token file''
      | (TokenResource, DeleteOp) \<Rightarrow> ''Failed to delete token file'')"

definition dir_message :: "auth_resource \<Rightarrow> string" where
  "dir_message r =
     (case r of
        SecretResource \<Rightarrow> ''Cannot determine secret file directory''
      | TokenResource \<Rightarrow> ''Cannot determine token file directory'')"

definition keychain_runtime_suggestion :: "storage_operation \<Rightarrow> string" where
  "keychain_runtime_suggestion op =
     (case op of
        DeleteOp \<Rightarrow> ''Check OS keychain access and retry '' @ quoted ''ags auth logout'' @ ''.''
      | _ \<Rightarrow> ''Check OS keychain access or set AGS_NO_KEYCHAIN=1 to use file storage.'')"

datatype auth_error =
    BaseUrlMissing
  | InvalidBaseUrl string
  | ClientIdMissing
  | ClientSecretMissing
  | SessionExpiredRefreshFailed string
  | SessionExpiredRefreshTokenExpired
  | SessionExpiredNoRefreshToken
  | StoredSessionClientMismatch string string string
  | RefreshRejected string
  | RefreshNoRefreshToken
  | RefreshTokenExpired
  | TokenRequestFailed nat string
  | TokenRefreshFailed nat string
  | TokenExchangeFailed nat string
  | TokenParseFailed string
  | CallbackAcceptFailed string
  | CallbackReadFailed string
  | CallbackEmpty
  | CallbackMalformed
  | CallbackMissingQuery
  | CallbackMissingCode
  | CallbackMissingState
  | AuthorizationFailed string string
  | CallbackServerError string
  | OAuthStateMismatch
  | PortInUse nat
  | CallbackTimeout nat
  | KeychainOperationFailed auth_resource storage_operation string
  | KeychainTokenParseFailed string
  | FileOperationFailed auth_resource storage_operation string
  | TokenSerializeFailed string
  | TokenFileParseFailed string
  | CannotDetermineDir auth_resource

definition auth_error_text :: "auth_error \<Rightarrow> string" where
  "auth_error_text e =
     (case e of
        BaseUrlMissing \<Rightarrow> ''Not authenticated''
      | InvalidBaseUrl u \<Rightarrow> ''Invalid base URL: '' @ quoted u
      | ClientIdMissing \<Rightarrow> ''Not authenticated''
      | ClientSecretMissing \<Rightarrow> ''Not authenticated''
      | SessionExpiredRefreshFailed _ \<Rightarrow> ''Session expired and token refresh failed''
      | SessionExpiredRefreshTokenExpired \<Rightarrow> ''Session expired '' @ em_dash @ '' refresh token expired''
      | SessionExpiredNoRefreshToken \<Rightarrow> ''Session expired '' @ em_dash @ '' no refresh token''
      | StoredSessionClientMismatch profile _ _ \<Rightarrow>
          ''Stored session for profile '' @ quoted profile @ '' was created with a different client''
      | RefreshRejected _ \<Rightarrow> ''Token refresh was rejected by the server''
      | RefreshNoRefreshToken \<Rightarrow> ''No refresh token stored for this profile''
      | RefreshTokenExpired \<Rightarrow> ''The stored refresh token has expired''
      | TokenRequestFailed _ _ \<Rightarrow> ''Token request failed''
      | TokenRefreshFailed _ _ \<Rightarrow> ''Token refresh failed''
      | TokenExchangeFailed _ _ \<Rightarrow> ''Token exchange failed''
      | TokenParseFailed t \<Rightarrow> ''Failed to parse token response: '' @ t
      | CallbackAcceptFailed t \<Rightarrow> ''Failed to accept callback connection: '' @ t
      | CallbackReadFailed t \<Rightarrow> ''Failed to read callback request: '' @ t
      | CallbackEmpty \<Rightarrow> ''Empty callback request''
      | CallbackMalformed \<Rightarrow> ''Malformed callback request''
      | CallbackMissingQuery \<Rightarrow> ''Callback URL missing query parameters''
      | CallbackMissingCode \<Rightarrow> ''Callback URL missing '' @ quoted ''code'' @ '' parameter''
      | CallbackMissingState \<Rightarrow> ''Callback URL missing '' @ quoted ''state'' @ '' parameter''
      | AuthorizationFailed t _ \<Rightarrow> ''Authorization failed: '' @ t
      | CallbackServerError t \<Rightarrow> ''Callback server error: '' @ t
      | OAuthStateMismatch \<Rightarrow> ''State mismatch in OAuth callback''
      | PortInUse p \<Rightarrow> ''Port '' @ show_nat p @ '' is already in use''
      | CallbackTimeout _ \<Rightarrow> ''Authentication error''
      | KeychainOperationFailed r op t \<Rightarrow> keychain_operation_message r op @ '': '' @ t
      | KeychainTokenParseFailed _ \<Rightarrow> ''Stored credentials in the OS keychain are corrupted''
      | FileOperationFailed r op t \<Rightarrow> file_operation_message r op @ '': '' @ t
      | TokenSerializeFailed t \<Rightarrow> ''Failed to serialize token data: '' @ t
      | TokenFileParseFailed t \<Rightarrow> ''Failed to parse token file: '' @ t
      | CannotDetermineDir r \<Rightarrow> dir_message r)"

definition build_auth_runtime_error ::
  "string \<Rightarrow> string option \<Rightarrow> string option \<Rightarrow> string option \<Rightarrow> string option \<Rightarrow> runtime_error" where
  "build_auth_runtime_error message reason suggestion detail tip =
     \<lparr>re_kind = NotAuthenticated, re_message = message,
      re_details =
        (if reason \<noteq> None \<or> detail \<noteq> None \<or> tip \<noteq> None then
           Some \<lparr>ed_code = None, ed_reason = reason, ed_detail = detail,
                 ed_suggestion_kind = map_option (\<lambda>_. Fix) suggestion, ed_tip = tip\<rparr>
         else None),
      re_hint = suggestion\<rparr>"

definition login_again :: string where
  "login_again = ''Run '' @ quoted ''ags auth login'' @ '' to re-authenticate.''"

definition login_or_administrator :: string where
  "login_or_administrator = ''Run `ags auth login` again, or contact your administrator if this persists.''"

definition auth_failure :: "auth_error \<Rightarrow> runtime_error" where
  "auth_failure e =
     (let err = build_auth_runtime_error (auth_error_text e);
          missing = (\<lambda>what var. err (Some (''No '' @ what @ '' configured.''))
            (Some (''Run '' @ quoted ''ags auth login'' @ '' or set '' @ var @ ''.'')) None None)
      in case e of
        BaseUrlMissing \<Rightarrow> missing ''base_url'' ''AGS_BASE_URL''
      | InvalidBaseUrl _ \<Rightarrow>
          err (Some ''Base URL must be an absolute http(s) URL.'')
            (Some ''Provide a URL like https://development.accelbyte.io.'') None None
      | ClientIdMissing \<Rightarrow> missing ''client_id'' ''AGS_CLIENT_ID''
      | ClientSecretMissing \<Rightarrow> missing ''client_secret'' ''AGS_CLIENT_SECRET''
      | SessionExpiredRefreshFailed reason \<Rightarrow> err (Some reason) (Some login_again) None None
      | SessionExpiredRefreshTokenExpired \<Rightarrow> err None (Some login_again) None None
      | SessionExpiredNoRefreshToken \<Rightarrow> err None (Some login_again) None None
      | StoredSessionClientMismatch _ stored current \<Rightarrow>
          err (Some (''The cached token belongs to client '' @ quoted stored @ '', but '' @ quoted current @
                 '' is configured now.''))
            (Some (''Run '' @ quoted ''ags auth login'' @
                 '' for this client, or select the matching profile with --profile/AGS_PROFILE.'')) None None
      | RefreshRejected reason \<Rightarrow> err (Some reason) (Some login_again) None None
      | RefreshNoRefreshToken \<Rightarrow> err None (Some login_again) None None
      | RefreshTokenExpired \<Rightarrow> err None (Some login_again) None None
      | TokenRequestFailed status body \<Rightarrow> err (Some body) None (Some (''HTTP '' @ show_nat status)) None
      | TokenRefreshFailed status body \<Rightarrow> err (Some body) (Some login_again) (Some (''HTTP '' @ show_nat status)) None
      | TokenExchangeFailed status body \<Rightarrow> err (Some body) None (Some (''HTTP '' @ show_nat status)) None
      | AuthorizationFailed _ description \<Rightarrow> err (Some description) (Some login_or_administrator) None None
      | OAuthStateMismatch \<Rightarrow> err (Some ''Possible CSRF attack.'') (Some login_or_administrator) None None
      | PortInUse _ \<Rightarrow>
          err None (Some (''Use --port to specify a different port, and update the redirect URI in the '' @
            ''AccelByte Admin Portal to match.'')) None None
      | CallbackTimeout secs \<Rightarrow>
          err (Some (''Timed out waiting for browser callback ('' @ show_nat secs @ ''s).''))
            (Some (''Run '' @ quoted ''ags auth login'' @ '' again.'')) None
            (Some ''Set AGS_AUTH_TIMEOUT to change the timeout duration (default: 120s).'')
      | KeychainOperationFailed _ op _ \<Rightarrow> err None (Some (keychain_runtime_suggestion op)) None None
      | KeychainTokenParseFailed t \<Rightarrow>
          err (Some (''Token data could not be parsed: '' @ t))
            (Some (''Run '' @ quoted ''ags auth logout'' @ '' and '' @ quoted ''ags auth login'' @
              '' to restore valid credentials.'')) None None
      | _ \<Rightarrow> err None None None None)"

lemma auth_failure_kind [simp]: "re_kind (auth_failure e) = NotAuthenticated"
  by (cases e) (simp_all add: auth_failure_def build_auth_runtime_error_def Let_def)

section \<open>Tokens\<close>

text \<open>Sums of times saturate at the largest 64-bit number.\<close>

definition u64_saturating_add :: "nat \<Rightarrow> nat \<Rightarrow> nat" where
  "u64_saturating_add a b = min (a + b) (2 ^ 64 - 1)"

record token_data =
  td_access_token :: string
  td_expires_at :: nat
  td_refresh_token :: "string option"
  td_refresh_expires_at :: "nat option"
  td_grant_type :: "grant_type option"
  td_client_id :: "string option"

definition token_data_json :: "token_data \<Rightarrow> json" where
  "token_data_json t =
     json_fields
       [(''access_token'', Some (JStr (td_access_token t))),
        (''expires_at'', Some (JInt (int (td_expires_at t)))),
        (''refresh_token'', map_option JStr (td_refresh_token t)),
        (''refresh_expires_at'', map_option (\<lambda>n. JInt (int n)) (td_refresh_expires_at t)),
        (''grant_type'', map_option (\<lambda>g. JStr (as_kebab g)) (td_grant_type t)),
        (''client_id'', map_option JStr (td_client_id t))]"

definition json_token_data :: "json \<Rightarrow> token_data option" where
  "json_token_data v =
     Option.bind (struct_fields [''access_token'', ''expires_at'', ''refresh_token'', ''refresh_expires_at'',
                                 ''grant_type'', ''client_id''] [] v) (\<lambda>f.
     Option.bind (required_field as_str (f ''access_token'')) (\<lambda>access.
     Option.bind (required_field as_u64 (f ''expires_at'')) (\<lambda>expires.
     Option.bind (optional_field as_str (f ''refresh_token'')) (\<lambda>refresh.
     Option.bind (optional_field as_u64 (f ''refresh_expires_at'')) (\<lambda>refresh_expires.
     Option.bind (optional_field (unit_variant grant_type_names) (f ''grant_type'')) (\<lambda>grant.
     Option.bind (optional_field as_str (f ''client_id'')) (\<lambda>client.
       Some \<lparr>td_access_token = access, td_expires_at = expires, td_refresh_token = refresh,
             td_refresh_expires_at = refresh_expires, td_grant_type = grant, td_client_id = client\<rparr>)))))))"

definition default_expires_in :: nat where
  "default_expires_in = 3600"

definition token_error_body_limit :: nat where
  "token_error_body_limit = 200"

record normalized_expires_in =
  ne_value :: nat
  ne_warning :: "string option"

record token_response =
  tk_access_token :: string
  tk_expires_in :: nat
  tk_token_type :: string
  tk_refresh_token :: "string option"
  tk_refresh_expires_in :: "nat option"

record token_result =
  tr_access_token :: string
  tr_expires_in :: nat
  tr_refresh_token :: "string option"
  tr_refresh_expires_in :: "nat option"
  tr_expires_in_warning :: "string option"

definition normalize_expires_in :: "nat \<Rightarrow> normalized_expires_in" where
  "normalize_expires_in n =
     (if n = 0 then
        \<lparr>ne_value = default_expires_in,
         ne_warning = Some (''Server did not return an expiry '' @ em_dash @ '' assuming '' @
           show_nat default_expires_in @ ''s'')\<rparr>
      else \<lparr>ne_value = n, ne_warning = None\<rparr>)"

definition json_token_response :: "json \<Rightarrow> token_response option" where
  "json_token_response v =
     Option.bind (struct_fields [''access_token''] [''expires_in'', ''token_type'', ''refresh_token'',
                                 ''refresh_expires_in''] v) (\<lambda>f.
     Option.bind (required_field as_str (f ''access_token'')) (\<lambda>access.
     Option.bind (default_field 0 as_u64 (f ''expires_in'')) (\<lambda>expires.
     Option.bind (default_field [] as_str (f ''token_type'')) (\<lambda>kind.
     Option.bind (optional_field as_str (f ''refresh_token'')) (\<lambda>refresh.
     Option.bind (optional_field as_u64 (f ''refresh_expires_in'')) (\<lambda>refresh_expires.
       Some \<lparr>tk_access_token = access, tk_expires_in = expires, tk_token_type = kind, tk_refresh_token = refresh,
             tk_refresh_expires_in = refresh_expires\<rparr>))))))"

definition parse_token_result :: "('w, 'm) host_scheme \<Rightarrow> string \<Rightarrow> token_result rt" where
  "parse_token_result H body =
     (case ho_parse H body of
        Inl e \<Rightarrow> Inl (auth_failure (TokenParseFailed e))
      | Inr v \<Rightarrow>
          (case json_token_response v of
             None \<Rightarrow> Inl (auth_failure (TokenParseFailed (ho_misfit H body)))
           | Some r \<Rightarrow>
               (let n = normalize_expires_in (tk_expires_in r)
                in Inr \<lparr>tr_access_token = tk_access_token r, tr_expires_in = ne_value n,
                        tr_refresh_token = tk_refresh_token r, tr_refresh_expires_in = tk_refresh_expires_in r,
                        tr_expires_in_warning = ne_warning n\<rparr>)))"

text \<open>The cut of a text never fails (\<open>truncate_display_text_bounded\<close>).\<close>

definition truncate_token_error_body :: "string \<Rightarrow> string" where
  "truncate_token_error_body body =
     (case truncate_display_text body token_error_body_limit of Some t \<Rightarrow> t | None \<Rightarrow> [])"

definition token_url :: "('w, 'm) host_scheme \<Rightarrow> string \<Rightarrow> auth_error + string" where
  "token_url H base_url =
     (let url = trim_end_char CHR ''/'' base_url @ ''/iam/v3/oauth/token''
      in if ho_url_scheme H base_url = None \<or> ho_url_scheme H url = None then Inl (InvalidBaseUrl base_url) else Inr url)"

definition is_success :: "nat \<Rightarrow> bool" where
  "is_success status \<longleftrightarrow> 200 \<le> status \<and> status \<le> 299"

definition post_token ::
  "('w, 'm) auth_host_scheme \<Rightarrow> (nat \<Rightarrow> string \<Rightarrow> auth_error) \<Rightarrow> token_http \<Rightarrow> 'w \<Rightarrow> token_result rt \<times> 'w" where
  "post_token H failed req w =
     (case au_post H req w of
        (Inl e, w') \<Rightarrow> (Inl (transport_error e), w')
      | (Inr r, w') \<Rightarrow>
          (and_then (read_response_body r) (\<lambda>body.
             if is_success (raw_status r) then parse_token_result H body
             else Inl (auth_failure (failed (raw_status r) (truncate_token_error_body body)))), w'))"

definition fetch_client_credentials_token ::
  "('w, 'm) auth_host_scheme \<Rightarrow> string \<Rightarrow> string \<Rightarrow> string \<Rightarrow> 'w \<Rightarrow> token_result rt \<times> 'w" where
  "fetch_client_credentials_token H base_url client_id client_secret w =
     (case token_url H base_url of
        Inl e \<Rightarrow> (Inl (auth_failure e), w)
      | Inr url \<Rightarrow>
          post_token H TokenRequestFailed
            \<lparr>th_url = url, th_basic_auth = Some (client_id, client_secret),
             th_headers = [(''Content-Type'', ''application/x-www-form-urlencoded'')],
             th_body = RawBody ''grant_type=client_credentials''\<rparr> w)"

definition fetch_refresh_token ::
  "('w, 'm) auth_host_scheme \<Rightarrow> string \<Rightarrow> string \<Rightarrow> string option \<Rightarrow> string \<Rightarrow> 'w \<Rightarrow> token_result rt \<times> 'w" where
  "fetch_refresh_token H base_url client_id client_secret refresh_token w =
     (case token_url H base_url of
        Inl e \<Rightarrow> (Inl (auth_failure e), w)
      | Inr url \<Rightarrow>
          post_token H TokenRefreshFailed
            \<lparr>th_url = url,
             th_basic_auth = Some (client_id, case client_secret of Some s \<Rightarrow> s | None \<Rightarrow> []),
             th_headers = [],
             th_body = FormBody [(''grant_type'', ''refresh_token''), (''refresh_token'', refresh_token)]\<rparr> w)"

definition exchange_authorization_code ::
  "('w, 'm) auth_host_scheme \<Rightarrow> string \<Rightarrow> string \<Rightarrow> string option \<Rightarrow> string \<Rightarrow> string \<Rightarrow> 'w \<Rightarrow> token_result rt \<times> 'w" where
  "exchange_authorization_code H base_url client_id client_secret code verifier w =
     (case token_url H base_url of
        Inl e \<Rightarrow> (Inl (auth_failure e), w)
      | Inr url \<Rightarrow>
          post_token H TokenExchangeFailed
            \<lparr>th_url = url, th_basic_auth = map_option (Pair client_id) client_secret, th_headers = [],
             th_body = FormBody
               ([(''grant_type'', ''authorization_code''), (''code'', code), (''code_verifier'', verifier)] @
                (if client_secret = None then [(''client_id'', client_id)] else []))\<rparr> w)"

definition token_result_to_token_data :: "token_result \<Rightarrow> grant_type \<Rightarrow> nat \<Rightarrow> string \<Rightarrow> token_data" where
  "token_result_to_token_data r g now client_id =
     \<lparr>td_access_token = tr_access_token r, td_expires_at = u64_saturating_add now (tr_expires_in r),
      td_refresh_token = tr_refresh_token r,
      td_refresh_expires_at = map_option (u64_saturating_add now) (tr_refresh_expires_in r),
      td_grant_type = Some g, td_client_id = Some client_id\<rparr>"

section \<open>Locks\<close>

definition token_lock_path :: "('w, 'm) auth_host_scheme \<Rightarrow> string \<Rightarrow> string rt" where
  "token_lock_path H profile =
     and_then (if is_keychain_disabled H then subpath (config_dir H) ''locks'' else shared_lock_dir H) (\<lambda>dir.
       Inr (path_join dir (au_base64 H profile @ ''.token.lock'')))"

definition lock_from_path :: "('w, 'm) auth_host_scheme \<Rightarrow> string \<Rightarrow> 'w \<Rightarrow> unit rt \<times> 'w" where
  "lock_from_path H path w = io_run internal_error (ho_lock H path ''token store'' w)"

definition acquire_token_lock :: "('w, 'm) auth_host_scheme \<Rightarrow> string \<Rightarrow> 'w \<Rightarrow> unit rt \<times> 'w" where
  "acquire_token_lock H profile w = and_run (token_lock_path H profile, w) (\<lambda>path w. lock_from_path H path w)"

definition with_token_lock ::
  "('w, 'm) auth_host_scheme \<Rightarrow> string \<Rightarrow> ('w \<Rightarrow> 'a rt \<times> 'w) \<Rightarrow> 'w \<Rightarrow> 'a rt \<times> 'w" where
  "with_token_lock H profile f w = and_run (acquire_token_lock H profile w) (\<lambda>_ w. f w)"

fun lock_all :: "('w, 'm) auth_host_scheme \<Rightarrow> string list \<Rightarrow> 'w \<Rightarrow> unit rt \<times> 'w" where
  "lock_all H [] w = (Inr (), w)"
| "lock_all H (p # ps) w = and_run (lock_from_path H p w) (\<lambda>_ w. lock_all H ps w)"

definition lock_order :: "('w, 'm) auth_host_scheme \<Rightarrow> string list \<Rightarrow> string list rt" where
  "lock_order H profiles =
     and_then (map_ok (token_lock_path H) profiles) (\<lambda>paths. Inr (remdups_adj (sort paths)))"

definition with_token_locks ::
  "('w, 'm) auth_host_scheme \<Rightarrow> string list \<Rightarrow> ('w \<Rightarrow> 'a rt \<times> 'w) \<Rightarrow> 'w \<Rightarrow> 'a rt \<times> 'w" where
  "with_token_locks H profiles f w =
     and_run (lock_order H profiles, w) (\<lambda>paths w. and_run (lock_all H paths w) (\<lambda>_ w. f w))"

section \<open>Keychain and files\<close>

definition keyring_user :: string where "keyring_user = ''client-secret''"
definition keyring_token_user :: string where "keyring_token_user = ''token-data''"
definition windows_credman_password_limit_bytes :: nat where "windows_credman_password_limit_bytes = 2560"

text \<open>UTF-16 code units of a UTF-8 text: two for a character of four bytes, one for any other.\<close>

definition utf16_units :: "string \<Rightarrow> nat" where
  "utf16_units s =
     sum_list (map (\<lambda>c. let n = (of_char c :: nat) in if 128 \<le> n \<and> n < 192 then 0 else if 240 \<le> n then 2 else 1) s)"

definition credman_blob_bytes :: "string \<Rightarrow> nat" where
  "credman_blob_bytes s = utf16_units s * 2"

definition exceeds_windows_credman_limit :: "('w, 'm) host_scheme \<Rightarrow> string \<Rightarrow> bool" where
  "exceeds_windows_credman_limit H text \<longleftrightarrow>
     ho_platform H = WindowsOs \<and> credman_blob_bytes text > windows_credman_password_limit_bytes"

definition keyring_service :: "string \<Rightarrow> string" where
  "keyring_service profile = ''ags:accelbyte.io:'' @ profile"

definition is_keychain_unavailable :: "keyring_error \<Rightarrow> bool" where
  "is_keychain_unavailable e \<longleftrightarrow> kr_kind e = NoStorageAccess"

definition is_keychain_init_unavailable :: "keyring_error \<Rightarrow> bool" where
  "is_keychain_init_unavailable e \<longleftrightarrow> kr_kind e = NoStorageAccess \<or> kr_kind e = PlatformFailure"

text \<open>Whether there is an entry to work on.\<close>

definition keychain_entry_opt :: "('w, 'm) auth_host_scheme \<Rightarrow> string \<Rightarrow> string \<Rightarrow> 'w \<Rightarrow> bool rt" where
  "keychain_entry_opt H profile user w =
     (case au_entry H (keyring_service profile) user w of
        None \<Rightarrow> Inr True
      | Some e \<Rightarrow>
          if is_keychain_init_unavailable e then Inr False
          else Inl (internal_error (''Failed to initialize OS keychain entry for '' @ quoted user @ '' (profile '' @
                 quoted profile @ ''): '' @ kr_text e)))"

text \<open>What the keychain holds: \<open>None\<close> sends the caller to the file.\<close>

definition keychain_read :: "('w, 'm) auth_host_scheme \<Rightarrow> auth_resource \<Rightarrow> string \<Rightarrow> string \<Rightarrow> 'w \<Rightarrow> string option rt" where
  "keychain_read H res profile user w =
     (if is_keychain_disabled H then Inr None
      else and_then (keychain_entry_opt H profile user w) (\<lambda>entry.
        if \<not> entry then Inr None
        else case au_get_password H (keyring_service profile) user w of
          Inr text \<Rightarrow> Inr (Some text)
        | Inl e \<Rightarrow>
            if kr_kind e = NoEntry \<or> is_keychain_unavailable e then Inr None
            else Inl (auth_failure (KeychainOperationFailed res ReadOp (kr_text e)))))"

definition keychain_delete :: "('w, 'm) auth_host_scheme \<Rightarrow> auth_resource \<Rightarrow> string \<Rightarrow> string \<Rightarrow> 'w \<Rightarrow> unit rt \<times> 'w" where
  "keychain_delete H res profile user w =
     (if is_keychain_disabled H then (Inr (), w)
      else case keychain_entry_opt H profile user w of
        Inl e \<Rightarrow> (Inl e, w)
      | Inr False \<Rightarrow> (Inr (), w)
      | Inr True \<Rightarrow>
          (case au_delete_credential H (keyring_service profile) user w of
             (None, w') \<Rightarrow> (Inr (), w')
           | (Some e, w') \<Rightarrow>
               if kr_kind e = NoEntry \<or> is_keychain_unavailable e then (Inr (), w')
               else (Inl (auth_failure (KeychainOperationFailed res DeleteOp (kr_text e))), w')))"

definition write_fallback ::
  "('w, 'm) auth_host_scheme \<Rightarrow> auth_resource \<Rightarrow> string \<Rightarrow> string \<Rightarrow> 'w \<Rightarrow> unit rt \<times> 'w" where
  "write_fallback H res path text w =
     and_run (ok_or (auth_failure (CannotDetermineDir res)) (path_parent path), w) (\<lambda>dir w.
     and_run (io_run (\<lambda>e. auth_failure (FileOperationFailed res WriteOp e)) (ho_create_dir H dir w)) (\<lambda>_ w.
       io_run (\<lambda>e. auth_failure (FileOperationFailed res WriteOp e)) (ho_write H path text w)))"

definition read_fallback :: "('w, 'm) auth_host_scheme \<Rightarrow> auth_resource \<Rightarrow> string \<Rightarrow> 'w \<Rightarrow> string option rt" where
  "read_fallback H res path w =
     (if \<not> ho_exists H path w then Inr None
      else case ho_read H path w of
        Inl e \<Rightarrow> Inl (auth_failure (FileOperationFailed res ReadOp e))
      | Inr text \<Rightarrow> Inr (Some text))"

definition remove_fallback :: "('w, 'm) auth_host_scheme \<Rightarrow> auth_resource \<Rightarrow> string \<Rightarrow> 'w \<Rightarrow> unit rt \<times> 'w" where
  "remove_fallback H res path w =
     (if ho_exists H path w
      then io_run (\<lambda>e. auth_failure (FileOperationFailed res DeleteOp e)) (ho_remove_file H path w)
      else (Inr (), w))"

definition secret_file_path :: "('w, 'm) host_scheme \<Rightarrow> string \<Rightarrow> string rt" where
  "secret_file_path H profile = subpath (profile_dir H profile) ''credentials.json''"

definition token_file_path :: "('w, 'm) host_scheme \<Rightarrow> string \<Rightarrow> string rt" where
  "token_file_path H profile = subpath (profile_dir H profile) ''token.json''"

subsection \<open>Client secrets\<close>

definition store_secret :: "('w, 'm) auth_host_scheme \<Rightarrow> string \<Rightarrow> string \<Rightarrow> 'w \<Rightarrow> unit rt \<times> 'w" where
  "store_secret H profile secret w =
     (let to_file = (\<lambda>w. and_run (secret_file_path H profile, w) (\<lambda>path w.
                      write_fallback H SecretResource path secret w))
      in if is_keychain_disabled H then to_file w
         else and_run (keychain_entry_opt H profile keyring_user w, w) (\<lambda>entry w.
           if \<not> entry then to_file w
           else case au_set_password H (keyring_service profile) keyring_user secret w of
             (None, w') \<Rightarrow> (Inr (), w')
           | (Some e, w') \<Rightarrow>
               if is_keychain_unavailable e then to_file w'
               else (Inl (auth_failure (KeychainOperationFailed SecretResource WriteOp (kr_text e))), w')))"

definition get_secret :: "('w, 'm) auth_host_scheme \<Rightarrow> string \<Rightarrow> 'w \<Rightarrow> string option rt" where
  "get_secret H profile w =
     and_then (keychain_read H SecretResource profile keyring_user w) (\<lambda>held.
       case held of
         Some s \<Rightarrow> Inr (Some s)
       | None \<Rightarrow> and_then (secret_file_path H profile) (\<lambda>path. read_fallback H SecretResource path w))"

definition delete_secret :: "('w, 'm) auth_host_scheme \<Rightarrow> string \<Rightarrow> 'w \<Rightarrow> unit rt \<times> 'w" where
  "delete_secret H profile w =
     and_run (keychain_delete H SecretResource profile keyring_user w) (\<lambda>_ w.
     and_run (secret_file_path H profile, w) (\<lambda>path w. remove_fallback H SecretResource path w))"

subsection \<open>Tokens\<close>

definition clear_keychain_token_entry :: "('w, 'm) auth_host_scheme \<Rightarrow> string \<Rightarrow> 'w \<Rightarrow> 'w" where
  "clear_keychain_token_entry H profile w =
     (if is_keychain_disabled H then w
      else if keychain_entry_opt H profile keyring_token_user w = Inr True
      then snd (au_delete_credential H (keyring_service profile) keyring_token_user w)
      else w)"

definition suppress_hint :: string where
  "suppress_hint = CHR 0x0A # ''Set AGS_NO_KEYCHAIN=1 to skip keychain and suppress this warning.''"

text \<open>The attempt at the keychain: either the token is stored, or the file is to take it with a warning.\<close>

definition keychain_store ::
  "('w, 'm) auth_host_scheme \<Rightarrow> string \<Rightarrow> string \<Rightarrow> 'w \<Rightarrow> (unit + string option) rt \<times> 'w" where
  "keychain_store H profile text w =
     (if exceeds_windows_credman_limit H text then
        (Inr (Inr (Some (''Token exceeds the Windows Credential Manager limit ('' @
           show_nat windows_credman_password_limit_bytes @ '' bytes); storing in file fallback.'' @ suppress_hint))), w)
      else if is_keychain_disabled H then (Inr (Inr None), w)
      else case keychain_entry_opt H profile keyring_token_user w of
        Inl e \<Rightarrow> (Inl e, w)
      | Inr False \<Rightarrow>
          (Inr (Inr (Some (''OS keychain unavailable, storing token in file fallback.'' @ suppress_hint))), w)
      | Inr True \<Rightarrow>
          (case au_set_password H (keyring_service profile) keyring_token_user text w of
             (None, w') \<Rightarrow> (Inr (Inl ()), w')
           | (Some e, w') \<Rightarrow>
               (Inr (Inr (if is_keychain_unavailable e then None
                          else Some (''OS keychain write failed, falling back to file storage: '' @ kr_text e @
                                     suppress_hint))), w')))"

text \<open>The outcome is the warning, if any.\<close>

definition store_token_data_unlocked ::
  "('w, 'm) auth_host_scheme \<Rightarrow> string \<Rightarrow> token_data \<Rightarrow> 'w \<Rightarrow> string option rt \<times> 'w" where
  "store_token_data_unlocked H profile t w =
     (let text = ho_print H (token_data_json t)
      in and_run (keychain_store H profile text w) (\<lambda>outcome w.
           case outcome of
             Inl _ \<Rightarrow> (Inr None, w)
           | Inr warning \<Rightarrow>
               and_run (token_file_path H profile, clear_keychain_token_entry H profile w) (\<lambda>path w.
               and_run (write_fallback H TokenResource path text w) (\<lambda>_ w.
                 (Inr warning, w)))))"

definition store_token_data ::
  "('w, 'm) auth_host_scheme \<Rightarrow> string \<Rightarrow> token_data \<Rightarrow> 'w \<Rightarrow> string option rt \<times> 'w" where
  "store_token_data H profile t w = with_token_lock H profile (store_token_data_unlocked H profile t) w"

definition read_token_text :: "('w, 'm) host_scheme \<Rightarrow> (string \<Rightarrow> auth_error) \<Rightarrow> string \<Rightarrow> token_data rt" where
  "read_token_text H failed text =
     (case ho_parse H text of
        Inl e \<Rightarrow> Inl (auth_failure (failed e))
      | Inr v \<Rightarrow> ok_or (auth_failure (failed (ho_misfit H text))) (json_token_data v))"

definition get_token_data :: "('w, 'm) auth_host_scheme \<Rightarrow> string \<Rightarrow> 'w \<Rightarrow> token_data option rt" where
  "get_token_data H profile w =
     and_then (keychain_read H TokenResource profile keyring_token_user w) (\<lambda>held.
       case held of
         Some text \<Rightarrow> map_sum id Some (read_token_text H KeychainTokenParseFailed text)
       | None \<Rightarrow>
           and_then (token_file_path H profile) (\<lambda>path.
           and_then (read_fallback H TokenResource path w) (\<lambda>held.
             case held of
               None \<Rightarrow> Inr None
             | Some text \<Rightarrow> map_sum id Some (read_token_text H TokenFileParseFailed text))))"

definition delete_token_data_unlocked :: "('w, 'm) auth_host_scheme \<Rightarrow> string \<Rightarrow> 'w \<Rightarrow> unit rt \<times> 'w" where
  "delete_token_data_unlocked H profile w =
     and_run (keychain_delete H TokenResource profile keyring_token_user w) (\<lambda>_ w.
     and_run (token_file_path H profile, w) (\<lambda>path w. remove_fallback H TokenResource path w))"

definition delete_token_data :: "('w, 'm) auth_host_scheme \<Rightarrow> string \<Rightarrow> 'w \<Rightarrow> unit rt \<times> 'w" where
  "delete_token_data H profile w = with_token_lock H profile (delete_token_data_unlocked H profile) w"

section \<open>The form of a token\<close>

definition token_ok :: "token_data \<Rightarrow> bool" where
  "token_ok t \<longleftrightarrow> td_expires_at t < 2 ^ 64 \<and> pred_option (\<lambda>n. n < 2 ^ 64) (td_refresh_expires_at t)"

lemma json_token_data_inverse: 
  assumes "token_ok t" shows "json_token_data (token_data_json t) = Some t" "json_ok (token_data_json t)"
proof -
  have d: "distinct (map fst
       [(''access_token'', Some (JStr (td_access_token t))),
        (''expires_at'', Some (JInt (int (td_expires_at t)))),
        (''refresh_token'', map_option JStr (td_refresh_token t)),
        (''refresh_expires_at'', map_option (\<lambda>n. JInt (int n)) (td_refresh_expires_at t)),
        (''grant_type'', map_option (\<lambda>g. JStr (as_kebab g)) (td_grant_type t)),
        (''client_id'', map_option JStr (td_client_id t))])" by simp
  from json_fields_object [OF d] obtain m where m: "token_data_json t = JObj m" 
    "bget m ''access_token'' = Some (JStr (td_access_token t))"
    "bget m ''expires_at'' = Some (JInt (int (td_expires_at t)))"
    "bget m ''refresh_token'' = map_option JStr (td_refresh_token t)"
    "bget m ''refresh_expires_at'' = map_option (\<lambda>n. JInt (int n)) (td_refresh_expires_at t)"
    "bget m ''grant_type'' = map_option (\<lambda>g. JStr (as_kebab g)) (td_grant_type t)"
    "bget m ''client_id'' = map_option JStr (td_client_id t)"
    unfolding token_data_json_def by auto
  from assms have u: "td_expires_at t < 2 ^ 64" "\<And>n. td_refresh_expires_at t = Some n \<Longrightarrow> n < 2 ^ 64"
    by (auto simp: token_ok_def)
  have u64: "optional_field as_u64 (map_option (\<lambda>n. JInt (int n)) (td_refresh_expires_at t)) = Some (td_refresh_expires_at t)"
    using u(2) by (intro optional_field_map) simp
  show "json_token_data (token_data_json t) = Some t"
    using u(1) u64 by (simp add: json_token_data_def struct_fields_def m required_field_def optional_field_map)
  show "json_ok (token_data_json t)"
    unfolding token_data_json_def using u by (intro json_fields_ok [OF d]) (auto simp: option.pred_set)
qed
section \<open>The promises of the host\<close>

definition keychain_reads_back :: "('w, 'm) auth_host_scheme \<Rightarrow> bool" where
  "keychain_reads_back H \<longleftrightarrow>
     (\<forall>s u w w'. au_entry H s u w = au_entry H s u w') \<and>
     (\<forall>s u w e. au_entry H s u w = Some e \<longrightarrow> is_keychain_init_unavailable e) \<and>
     (\<forall>s u t w w'. au_set_password H s u t w = (None, w') \<longrightarrow> au_get_password H s u w' = Inr t)"

text \<open>A deletion leaves no entry that can be read.\<close>

definition keychain_forgets :: "('w, 'm) auth_host_scheme \<Rightarrow> bool" where
  "keychain_forgets H \<longleftrightarrow>
     (\<forall>s u w. \<exists>e. au_get_password H s u (snd (au_delete_credential H s u w)) = Inl e \<and>
                 (kr_kind e = NoEntry \<or> kr_kind e = NoStorageAccess))"

definition files_apart :: "('w, 'm) auth_host_scheme \<Rightarrow> bool" where
  "files_apart H \<longleftrightarrow>
     (\<forall>s u w d p t. au_get_password H s u (snd (ho_create_dir H d w)) = au_get_password H s u w \<and>
        au_get_password H s u (snd (ho_write H p t w)) = au_get_password H s u w \<and>
        au_get_password H s u (snd (ho_remove_file H p w)) = au_get_password H s u w)"

definition honest_storage :: "('w, 'm) auth_host_scheme \<Rightarrow> bool" where
  "honest_storage H \<longleftrightarrow>
     texts_read_back H \<and> files_read_back H \<and> keychain_reads_back H \<and> keychain_forgets H \<and> files_apart H"

lemma write_fallback_ok:
  assumes honest: "honest_storage H" and run: "write_fallback H res path text w = (Inr u, w')"
  shows "ho_exists H path w'" "ho_read H path w' = Inr text" "au_get_password H s us w' = au_get_password H s us w"
proof -
  from run obtain dir w1 where mk: "ho_create_dir H dir w = (None, w1)" and wr: "ho_write H path text w1 = (None, w')"
    by (auto simp: write_fallback_def and_run_ok_iff io_run_ok_iff)
  from honest wr show "ho_exists H path w'" "ho_read H path w' = Inr text"
    unfolding honest_storage_def files_read_back_def by blast+
  from honest have "files_apart H" by (simp add: honest_storage_def)
  then have "au_get_password H s us (snd (ho_write H path text w1)) = au_get_password H s us w1"
    "au_get_password H s us (snd (ho_create_dir H dir w)) = au_get_password H s us w"
    unfolding files_apart_def by blast+
  with mk wr show "au_get_password H s us w' = au_get_password H s us w" by simp
qed

lemma remove_fallback_ok:
  assumes honest: "honest_storage H" and run: "remove_fallback H res path w = (Inr u, w')"
  shows "\<not> ho_exists H path w'" "au_get_password H s us w' = au_get_password H s us w"
proof -
  from honest have apart: "files_apart H" and rb: "files_read_back H" by (simp_all add: honest_storage_def)
  show "\<not> ho_exists H path w'"
    using run rb unfolding files_read_back_def by (auto simp: remove_fallback_def io_run_ok_iff split: if_splits)
  have "au_get_password H s us (snd (ho_remove_file H path w)) = au_get_password H s us w"
    using apart unfolding files_apart_def by blast
  with run show "au_get_password H s us w' = au_get_password H s us w"
    by (auto simp: remove_fallback_def io_run_ok_iff split: if_splits)
qed

lemma read_stored_text:
  assumes "honest_storage H" "token_ok t"
  shows "read_token_text H failed (ho_print H (token_data_json t)) = Inr t"
  using assms json_token_data_inverse [OF assms(2)]
  by (simp add: read_token_text_def honest_storage_def texts_read_back_def ok_or_def)

lemma entry_steady: "honest_storage H \<Longrightarrow> keychain_entry_opt H profile user w = keychain_entry_opt H profile user w'"
proof -
  assume "honest_storage H"
  then have "au_entry H (keyring_service profile) user w = au_entry H (keyring_service profile) user w'"
    unfolding honest_storage_def keychain_reads_back_def by blast
  then show ?thesis by (simp add: keychain_entry_opt_def)
qed

lemma entry_decided: "honest_storage H \<Longrightarrow> \<exists>b. keychain_entry_opt H profile user w = Inr b"
  unfolding honest_storage_def keychain_reads_back_def
  by (cases "au_entry H (keyring_service profile) user w") (auto simp: keychain_entry_opt_def)

lemma keychain_read_cong:
  assumes "honest_storage H" 
    and "au_get_password H (keyring_service profile) user w' = au_get_password H (keyring_service profile) user w"
  shows "keychain_read H res profile user w' = keychain_read H res profile user w"
  unfolding keychain_read_def assms(2) entry_steady [OF assms(1), of profile user w' w] ..

lemma deleted_unread:
  assumes "honest_storage H" "keychain_entry_opt H profile user w = Inr True"
    "au_delete_credential H (keyring_service profile) user w = (r, w')"
  shows "keychain_read H res profile user w' = Inr None"
proof -
  from assms(1) have "keychain_forgets H" by (simp add: honest_storage_def)
  then obtain e where "au_get_password H (keyring_service profile) user w' = Inl e" "kr_kind e = NoEntry \<or> kr_kind e = NoStorageAccess"
    using assms(3) unfolding keychain_forgets_def by (metis snd_conv)
  with assms entry_steady [OF assms(1), of profile user w' w] show ?thesis
    by (simp add: keychain_read_def and_then_def is_keychain_unavailable_def)
qed

lemma cleared_unread:
  assumes "honest_storage H"
  shows "keychain_read H res profile keyring_token_user (clear_keychain_token_entry H profile w) = Inr None"
proof (cases "is_keychain_disabled H \<or> keychain_entry_opt H profile keyring_token_user w \<noteq> Inr True")
  case True
  then show ?thesis using entry_decided [OF assms, of profile keyring_token_user w] by (auto simp: clear_keychain_token_entry_def keychain_read_def and_then_def)
next
  case False
  obtain r w' where d: "au_delete_credential H (keyring_service profile) keyring_token_user w = (r, w')" by force
  with False deleted_unread [OF assms _ d] show ?thesis by (simp add: clear_keychain_token_entry_def)
qed

lemma keychain_delete_unread:
  assumes honest: "honest_storage H" and run: "keychain_delete H res profile user w = (Inr u, w')"
  shows "keychain_read H res' profile user w' = Inr None"
proof (cases "is_keychain_disabled H")
  case False
  with run obtain b where b: "keychain_entry_opt H profile user w = Inr b"
    by (auto simp: keychain_delete_def split: sum.splits)
  obtain r w1 where d: "au_delete_credential H (keyring_service profile) user w = (r, w1)" by force
  show ?thesis
  proof (cases b)
    case True
    with run False b d have "w1 = w'" by (auto simp: keychain_delete_def split: option.splits if_splits)
    with deleted_unread [OF honest _ d] b True show ?thesis by simp
  next
    case f: False
    with run False b have "w' = w" by (auto simp: keychain_delete_def)
    with b f False show ?thesis by (simp add: keychain_read_def and_then_def)
  qed
qed (simp add: keychain_read_def)

lemma keychain_store_ok:
  assumes honest: "honest_storage H" and run: "keychain_store H profile text w = (Inr outcome, w')"
    and kept: "outcome = Inl ()"
  shows "keychain_read H res profile keyring_token_user w' = Inr (Some text)"
proof -
  from run kept have "\<not> is_keychain_disabled H" "keychain_entry_opt H profile keyring_token_user w = Inr True"
      and set: "au_set_password H (keyring_service profile) keyring_token_user text w = (None, w')"
      by (auto simp: keychain_store_def split: if_splits sum.splits bool.splits option.splits prod.splits)
    moreover from honest set have "au_get_password H (keyring_service profile) keyring_token_user w' = Inr text"
      unfolding honest_storage_def keychain_reads_back_def by blast
  ultimately show ?thesis
    using entry_steady [OF honest, of profile keyring_token_user w' w] by (simp add: keychain_read_def)
qed

lemma stored_then_read:
  assumes honest: "honest_storage H" and ok: "token_ok t"
    and run: "store_token_data_unlocked H profile t w = (Inr warning, w')"
  shows "get_token_data H profile w' = Inr (Some t)"
proof -
  let ?text = "ho_print H (token_data_json t)"
  from run obtain outcome w1 where ks: "keychain_store H profile ?text w = (Inr outcome, w1)"
    and rest: "(case outcome of Inl _ \<Rightarrow> (Inr None, w1)
           | Inr warning \<Rightarrow>
               and_run (token_file_path H profile, clear_keychain_token_entry H profile w1) (\<lambda>path w.
               and_run (write_fallback H TokenResource path ?text w) (\<lambda>_ w. (Inr warning, w)))) = (Inr warning, w')"
    by (auto simp: store_token_data_unlocked_def Let_def and_run_ok_iff)
  show ?thesis
  proof (cases outcome)
    case (Inl u)
    with rest have "w' = w1" by simp
    with keychain_store_ok [OF honest ks] Inl show ?thesis
      by (simp add: get_token_data_def read_stored_text [OF honest ok])
  next
    case (Inr warn)
    let ?w2 = "clear_keychain_token_entry H profile w1"
    from rest Inr obtain path u where path: "token_file_path H profile = Inr path"
      and wr: "write_fallback H TokenResource path ?text ?w2 = (Inr u, w')"
      by (auto simp: and_run_ok_iff)
    have "keychain_read H TokenResource profile keyring_token_user w' = Inr None"
      using keychain_read_cong [OF honest write_fallback_ok(3) [OF honest wr]] cleared_unread [OF honest] by simp
    with write_fallback_ok(1,2) [OF honest wr] show ?thesis
      by (simp add: get_token_data_def path read_fallback_def read_stored_text [OF honest ok])
  qed
qed

lemma deleted_then_missing:
  assumes honest: "honest_storage H" and run: "delete_token_data_unlocked H profile w = (Inr u, w')"
  shows "get_token_data H profile w' = Inr None"
proof -
  from run obtain u1 w1 path where kd: "keychain_delete H TokenResource profile keyring_token_user w = (Inr u1, w1)"
    and path: "token_file_path H profile = Inr path" and rm: "remove_fallback H TokenResource path w1 = (Inr u, w')"
    by (auto simp: delete_token_data_unlocked_def and_run_ok_iff)
  have "keychain_read H TokenResource profile keyring_token_user w' = Inr None"
    using keychain_read_cong [OF honest remove_fallback_ok(2) [OF honest rm]] keychain_delete_unread [OF honest kd] by simp
  with remove_fallback_ok(1) [OF honest rm] show ?thesis
    by (simp add: get_token_data_def path read_fallback_def)
qed


text \<open>The tables as keychain and files. The keychain may refuse to take anything.\<close>

definition table_auth_host ::
  "(string \<times> string) list \<Rightarrow> bool \<Rightarrow> (token_http \<Rightarrow> raw_response) \<Rightarrow> tables auth_host" where
  "table_auth_host env takes answer =
     host.extend (table_host env)
       \<lparr>au_entry = (\<lambda>_ _ _. None),
        au_get_password = (\<lambda>s u w. case map_of (snd w) (s @ u) of
           Some t \<Rightarrow> Inr t | None \<Rightarrow> Inl \<lparr>kr_kind = NoEntry, kr_text = ''no entry''\<rparr>),
        au_set_password = (\<lambda>s u t w. if takes then (None, (fst w, put_entry (s @ u) t (snd w)))
           else (Some \<lparr>kr_kind = PlatformFailure, kr_text = ''refused''\<rparr>, w)),
        au_delete_credential = (\<lambda>s u w. (None, (fst w, drop_entry (s @ u) (snd w)))),
        au_base64 = (\<lambda>p. p), au_wait = (\<lambda>_ w. w), au_now = (\<lambda>_. 3),
        au_post = (\<lambda>req w. (Inr (answer req), w))\<rparr>"

lemma table_auth_host_honest: "honest_storage (table_auth_host env takes answer)"
proof -
  have "texts_read_back (table_auth_host env takes answer)" "files_read_back (table_auth_host env takes answer)"
    using table_host_honest [of env]
    by (simp_all add: texts_read_back_def files_read_back_def table_auth_host_def host.defs)
  moreover have "keychain_reads_back (table_auth_host env takes answer)"
    by (auto simp: keychain_reads_back_def table_auth_host_def host.defs split: if_splits)
  moreover have "keychain_forgets (table_auth_host env takes answer)"
    by (auto simp: keychain_forgets_def table_auth_host_def host.defs)
  moreover have "files_apart (table_auth_host env takes answer)"
    by (auto simp: files_apart_def table_auth_host_def table_host_def host.defs)
  ultimately show ?thesis by (simp add: honest_storage_def)
qed

definition no_answer :: raw_response where
  "no_answer = \<lparr>raw_status = 500, raw_content_type = None, raw_content_length = None, raw_bytes = Inr []\<rparr>"

definition fresh_token :: token_data where
  "fresh_token =
     \<lparr>td_access_token = ''new'', td_expires_at = 70, td_refresh_token = Some ''r2'', td_refresh_expires_at = Some 90,
      td_grant_type = Some AuthorizationCode, td_client_id = Some ''app''\<rparr>"

text \<open>A keychain that holds an old token and refuses the new one.\<close>

definition stale_keychain :: tables where
  "stale_keychain = ([], [(''ags:accelbyte.io:p'' @ ''token-data'', ''old'')])"


section \<open>Beyond the property\<close>

text \<open>The other way round nothing is cleared: a token that the keychain takes leaves the file with an older token behind, and
  that one is read as soon as the keychain is not used.\<close>

definition old_file :: tables where
  "old_file = ([(''c/ags/profiles/p/token.json'', json_code (token_data_json (fresh_token\<lparr>td_access_token := ''old''\<rparr>)))], [])"

lemma old_file_is_read_again:
  "get_token_data (table_auth_host [] True (\<lambda>_. no_answer)) ''p''
     (snd (store_token_data_unlocked (table_auth_host [] True (\<lambda>_. no_answer)) ''p'' fresh_token old_file)) =
   Inr (Some fresh_token)"
  "get_token_data (table_auth_host [(env_no_keychain, ''1'')] True (\<lambda>_. no_answer)) ''p''
     (snd (store_token_data_unlocked (table_auth_host [] True (\<lambda>_. no_answer)) ''p'' fresh_token old_file)) =
   Inr (Some (fresh_token\<lparr>td_access_token := ''old''\<rparr>))"
  by code_simp+

section \<open>Credentials\<close>

datatype credential_source = FromEnvironment | FromConfiguration | FromKeystore

record credentials =
  cr_base_url :: "string option"
  cr_base_url_source :: "credential_source option"
  cr_client_id :: "string option"
  cr_client_id_source :: "credential_source option"
  cr_client_secret :: "string option"
  cr_client_secret_source :: "credential_source option"

definition resolve_setting ::
  "('w, 'm) host_scheme \<Rightarrow> string \<Rightarrow> (profile_config \<Rightarrow> string option) \<Rightarrow> string \<Rightarrow> 'w \<Rightarrow>
   (string \<times> credential_source) option" where
  "resolve_setting H var field profile w =
     (case ho_env H var of
        Some v \<Rightarrow> Some (v, FromEnvironment)
      | None \<Rightarrow>
          (case load_profile H profile w of
             Inl _ \<Rightarrow> None
           | Inr c \<Rightarrow> map_option (\<lambda>v. (v, FromConfiguration)) (field c)))"

definition resolve_client_id :: "('w, 'm) host_scheme \<Rightarrow> string \<Rightarrow> 'w \<Rightarrow> (string \<times> credential_source) option" where
  "resolve_client_id H profile w = resolve_setting H env_client_id pc_client_id profile w"

definition resolve_base_url :: "('w, 'm) host_scheme \<Rightarrow> string \<Rightarrow> 'w \<Rightarrow> (string \<times> credential_source) option" where
  "resolve_base_url H profile w = resolve_setting H env_base_url pc_base_url profile w"

definition resolve_stored_client_secret :: "('w, 'm) auth_host_scheme \<Rightarrow> string \<Rightarrow> 'w \<Rightarrow> string option" where
  "resolve_stored_client_secret H profile w = (case get_secret H profile w of Inr s \<Rightarrow> s | Inl _ \<Rightarrow> None)"

definition resolve_client_secret :: "('w, 'm) auth_host_scheme \<Rightarrow> string \<Rightarrow> 'w \<Rightarrow> (string \<times> credential_source) option" where
  "resolve_client_secret H profile w =
     (case ho_env H env_client_secret of
        Some s \<Rightarrow> Some (s, FromEnvironment)
      | None \<Rightarrow> map_option (\<lambda>s. (s, FromKeystore)) (resolve_stored_client_secret H profile w))"

definition resolve_credentials :: "('w, 'm) auth_host_scheme \<Rightarrow> string \<Rightarrow> 'w \<Rightarrow> credentials" where
  "resolve_credentials H profile w =
     (let base = resolve_base_url H profile w;
          cid = resolve_client_id H profile w;
          secret = resolve_client_secret H profile w
      in \<lparr>cr_base_url = map_option fst base, cr_base_url_source = map_option snd base,
          cr_client_id = map_option fst cid, cr_client_id_source = map_option snd cid,
          cr_client_secret = map_option fst secret, cr_client_secret_source = map_option snd secret\<rparr>)"

definition resolve_base_url_value :: "('w, 'm) host_scheme \<Rightarrow> string \<Rightarrow> 'w \<Rightarrow> string option" where
  "resolve_base_url_value H profile w = map_option fst (resolve_base_url H profile w)"

definition resolve_client_id_value :: "('w, 'm) host_scheme \<Rightarrow> string \<Rightarrow> 'w \<Rightarrow> string option" where
  "resolve_client_id_value H profile w = map_option fst (resolve_client_id H profile w)"

end
