(* ===== verification/ConfigCommands.thy ===== *)
theory ConfigCommands
  imports AuthStore
begin

text \<open>
  The commands on the configuration, \<open>ags-runtime/src/runtime/facade/config.rs\<close>: reading one key or all of them with
  their sources, setting a key after its checks, and removing it. A panic is the outcome \<open>None\<close>.
\<close>

section \<open>Views\<close>

datatype config_view =
    GetAll string "resolved_entry list"
  | GetOne string "string option" config_source bool
  | SetView string string
  | UnsetView string

definition secret_managed_error :: runtime_error where
  "secret_managed_error =
     with_hint
       (validation_error (''client-secret is stored in your OS keychain, not the config file, so it '' @
          ''cannot be managed with '' @ quoted ''ags config''))
       (''Set it with '' @ quoted ''ags auth login --client-secret <value>'' @ '' or the AGS_CLIENT_SECRET '' @
        ''environment variable; '' @ quoted ''ags config get'' @ '' shows whether it is set'')"

definition client_secret_entry :: "('w, 'm) auth_host_scheme \<Rightarrow> string \<Rightarrow> 'w \<Rightarrow> resolved_entry" where
  "client_secret_entry H profile w =
     \<lparr>re_key = ''client-secret'', re_value = None,
      re_source = (case resolve_client_secret H profile w of
                     Some (_, FromEnvironment) \<Rightarrow> EnvironmentSource
                   | Some _ \<Rightarrow> KeychainSource
                   | None \<Rightarrow> NotSet),
      re_read_only = True\<rparr>"

definition unknown_key_error :: "string \<Rightarrow> runtime_error" where
  "unknown_key_error name =
     with_hint (validation_error (''Unknown config key '' @ quoted name @ ''.''))
       (''Valid keys: '' @ join_with '', '' (map ck_cli_name known_keys) @ ''.'')"

definition config_get :: "('w, 'm) auth_host_scheme \<Rightarrow> string \<Rightarrow> string option \<Rightarrow> 'w \<Rightarrow> config_view rt" where
  "config_get H profile key w =
     (case key of
        None \<Rightarrow> Inr (GetAll profile (resolved_config_entries H profile w @ [client_secret_entry H profile w]))
      | Some name \<Rightarrow>
          if is_client_secret_key name then
            (let e = client_secret_entry H profile w in Inr (GetOne (re_key e) (re_value e) (re_source e) True))
          else and_then (ok_or (unknown_key_error name) (find_key name)) (\<lambda>k.
               and_then (get_config_value H (store_of_scope H profile (ck_scope k)) (ck_json_name k) w) (\<lambda>v.
                 Inr (GetOne name v
                   (if v = None then NotSet
                    else case ck_scope k of GlobalScope \<Rightarrow> GlobalSource | ProfileScope \<Rightarrow> ProfileSource profile)
                   False))))"

section \<open>Checks of values\<close>

definition timeout_min_secs :: nat where "timeout_min_secs = 1"
definition timeout_max_secs :: nat where "timeout_max_secs = 3600"
definition page_limit_max :: nat where "page_limit_max = 100"

definition refuse :: "string \<Rightarrow> string option \<Rightarrow> 'a rt" where
  "refuse message hint = Inl ((validation_error message)\<lparr>re_hint := hint\<rparr>)"

definition validate_base_url :: "('w, 'm) host_scheme \<Rightarrow> string \<Rightarrow> string option rt" where
  "validate_base_url H v =
     (if \<not> is_valid_base_url H v then
        refuse (''Invalid URL: '' @ v) (Some ''base-url must be a valid URL (e.g. https://demo.accelbyte.io)'')
      else let n = trim_end_char CHR ''/'' v in Inr (if n \<noteq> v then Some n else None))"

definition validate_client_id :: "string \<Rightarrow> string option rt" where
  "validate_client_id v =
     (if \<not> is_valid_client_id v then
        refuse (''Invalid client-id: '' @ v)
          (Some ''client-id must be a 32-character hex string (e.g. d39a8bb104e545a7a4b1ef6ec3d55a3c)'')
      else let n = normalise_client_id v in Inr (if n \<noteq> v then Some n else None))"

definition validate_namespace :: "string \<Rightarrow> string option rt" where
  "validate_namespace v =
     (if \<not> is_valid_namespace v then
        refuse (''Invalid namespace: '' @ v)
          (Some (''namespace must be lowercase alphanumeric or hyphens, max 48 chars (e.g. my-game-name)''))
      else Inr None)"

definition validate_format :: "string \<Rightarrow> string option rt" where
  "validate_format v =
     (if v \<noteq> ''json'' then refuse (''Invalid format '' @ quoted v) (Some ''Valid formats: json'') else Inr None)"

definition validate_boolean :: "string \<Rightarrow> string \<Rightarrow> string option rt" where
  "validate_boolean v key =
     (if v \<noteq> ''true'' \<and> v \<noteq> ''false'' then
        refuse (''Invalid value '' @ quoted v @ '' for '' @ key)
          (Some (''Use '' @ quoted ''true'' @ '' or '' @ quoted ''false''))
      else Inr None)"

definition validate_first_run_hint_seen :: "string \<Rightarrow> string option rt" where
  "validate_first_run_hint_seen v = validate_boolean v ''first-run-hint-seen''"

definition validate_timeout :: "string \<Rightarrow> string option rt" where
  "validate_timeout v =
     (case parse_usize v of
        Some n \<Rightarrow>
          if n < timeout_min_secs then
            refuse (''Timeout must be at least '' @ show_nat timeout_min_secs @ '' second (minimum)'') None
          else if n > timeout_max_secs then
            refuse (''Timeout must not exceed '' @ show_nat timeout_max_secs @ '' seconds (maximum)'') None
          else Inr None
      | None \<Rightarrow>
          refuse (''Invalid timeout '' @ quoted v)
            (Some (''Provide a number of seconds ('' @ show_nat timeout_min_secs @ ''-'' @ show_nat timeout_max_secs @ '')'')))"

definition validate_page_limit :: "string \<Rightarrow> string option rt" where
  "validate_page_limit v =
     (case parse_usize v of
        Some n \<Rightarrow>
          if 1 \<le> n \<and> n \<le> page_limit_max then Inr None
          else refuse (''Invalid page limit '' @ quoted v) (Some (''Use a value between 1 and '' @ show_nat page_limit_max))
      | None \<Rightarrow>
          refuse (''Invalid page limit '' @ quoted v) (Some (''Use a value between 1 and '' @ show_nat page_limit_max)))"

definition validate_grant_type :: "string \<Rightarrow> string option rt" where
  "validate_grant_type v =
     (if v \<noteq> ''authorization-code'' \<and> v \<noteq> ''client-credentials'' then
        refuse (''Invalid grant type '' @ quoted v) (Some ''Valid grant types: authorization-code, client-credentials'')
      else Inr None)"

definition validate_active_profile :: "('w, 'm) host_scheme \<Rightarrow> string \<Rightarrow> 'w \<Rightarrow> string option rt" where
  "validate_active_profile H v w =
     (if v \<notin> set (case list_profiles H w of Inr ps \<Rightarrow> ps | Inl _ \<Rightarrow> []) then
        refuse (''Profile '' @ quoted v @ '' does not exist'')
          (Some (''Run '' @ quoted ''ags profile list'' @ '' to see available profiles, or '' @ quoted ''ags profile create'' @
             '' to create one''))
      else Inr None)"

definition validate_config_value :: "('w, 'm) host_scheme \<Rightarrow> config_key_def \<Rightarrow> string \<Rightarrow> 'w \<Rightarrow> string option rt" where
  "validate_config_value H key v w =
     (let name = ck_cli_name key
      in if name = ''base-url'' then validate_base_url H v
         else if name = ''client-id'' then validate_client_id v
         else if name = ''namespace'' then validate_namespace v
         else if name = ''format'' then validate_format v
         else if name = ''no-color'' then validate_boolean v ''no-color''
         else if name = ''first-run-hint-seen'' then validate_first_run_hint_seen v
         else if name = ''timeout'' then validate_timeout v
         else if name = ''page-limit'' then validate_page_limit v
         else if name = ''grant-type'' then validate_grant_type v
         else if name = ''active-profile'' then validate_active_profile H v w
         else if name = ''update-check'' then validate_boolean v ''update-check''
         else Inr None)"

section \<open>Changes\<close>

text \<open>The key and the value to store, once both are accepted.\<close>

definition accepted_setting :: "('w, 'm) host_scheme \<Rightarrow> string \<Rightarrow> string \<Rightarrow> 'w \<Rightarrow> (config_key_def \<times> string) rt" where
  "accepted_setting H name v w =
     (if is_client_secret_key name then Inl secret_managed_error
      else and_then (ok_or (unknown_key_error name) (find_key name)) (\<lambda>key.
           and_then (validate_config_value H key v w) (\<lambda>normalised.
             Inr (key, case normalised of Some n \<Rightarrow> n | None \<Rightarrow> v))))"

definition config_set :: "('w, 'm) host_scheme \<Rightarrow> string \<Rightarrow> string \<Rightarrow> string \<Rightarrow> 'w \<Rightarrow> config_view rt option \<times> 'w" where
  "config_set H profile name v w =
     (case accepted_setting H name v w of
        Inl e \<Rightarrow> (Some (Inl e), w)
      | Inr (key, saved) \<Rightarrow>
          (case (case ck_scope key of
                   GlobalScope \<Rightarrow> (Inr (), w)
                 | ProfileScope \<Rightarrow> ensure_profile_exists H profile w) of
             (Inl e, w) \<Rightarrow> (Some (Inl e), w)
           | (Inr _, w) \<Rightarrow>
               apfst (map_option (map_sum id (\<lambda>_. SetView name saved)))
                 (change_json_value H (store_of_scope H profile (ck_scope key)) (ck_json_name key) (Some saved) w)))"

definition config_unset :: "('w, 'm) host_scheme \<Rightarrow> string \<Rightarrow> string \<Rightarrow> 'w \<Rightarrow> config_view rt option \<times> 'w" where
  "config_unset H profile name w =
     (if is_client_secret_key name then (Some (Inl secret_managed_error), w)
      else case find_key name of
        None \<Rightarrow> (Some (Inl (unknown_key_error name)), w)
      | Some key \<Rightarrow>
          apfst (map_option (map_sum id (\<lambda>_. UnsetView name)))
            (change_json_value H (store_of_scope H profile (ck_scope key)) (ck_json_name key) None w))"

section \<open>What a setting does\<close>

lemma json_ok_binsert: "json_ok (JObj m) \<Longrightarrow> json_ok v \<Longrightarrow> json_ok (JObj (binsert k v m))"
proof -
  assume m: "json_ok (JObj m)" and v: "json_ok v"
  have "set (binsert k v m) \<subseteq> insert (k, v) (set m)" by (induction m) (auto split: if_splits)
  with m v show ?thesis by (auto simp: list_all_iff bmap_simps)
qed

lemma parse_json_value_ok [simp]: "json_ok (parse_json_value v)"
  by (auto simp: parse_json_value_def parse_usize_def Let_def split: option.splits if_splits)

text \<open>How a stored text is shown.\<close>

definition shown_setting :: "string \<Rightarrow> string" where
  "shown_setting v = (case parse_usize v of Some n \<Rightarrow> show_nat n | None \<Rightarrow> v)"

lemma not_a_number: "parse_usize ''true'' = None" "parse_usize ''false'' = None"
  by code_simp+

lemma value_shown: "value_to_string H (parse_json_value v) = Some (shown_setting v)"
  by (auto simp: value_to_string_def parse_json_value_def shown_setting_def not_a_number show_int_def split: option.split)

lemma save_struct_ok:
  assumes texts: "texts_read_back H" and files: "files_read_back H" and v: "json_ok v"
    and run: "save_struct_unlocked H S v w = (Inr u, w')"
  shows "ho_exists H (cs_path S) w'" "ho_read H (cs_path S) w' = Inr (ho_pretty H v)" "ho_parse H (ho_pretty H v) = Inr v"
proof -
  from run have "ho_write H (cs_path S) (ho_pretty H v) w = (None, w')"
    by (simp add: save_struct_unlocked_def write_file_restricted_def io_run_ok_iff)
  with files show "ho_exists H (cs_path S) w'" "ho_read H (cs_path S) w' = Inr (ho_pretty H v)"
    unfolding files_read_back_def by blast+
  from texts v show "ho_parse H (ho_pretty H v) = Inr v" by (simp add: texts_read_back_def)
qed

lemma current_object_ok: "texts_read_back H \<Longrightarrow> current_object H S w = Inr v \<Longrightarrow> json_ok v"
  by (auto simp: current_object_def texts_read_back_def split: if_splits sum.splits)

lemma assigned_ok: "assign_field v k x = Some v' \<Longrightarrow> json_ok v \<Longrightarrow> json_ok x \<Longrightarrow>
   json_ok v' \<and> (\<exists>m. v' = JObj (binsert k x m) \<and> (v = JObj m \<or> v = JNull \<and> m = []))"
  using json_ok_binsert by (cases v) (auto simp: assign_field_def bmap_ok_def)

text \<open>A change of a raw field, from the object that was there when the lock was held.\<close>

lemma change_ok:
  assumes texts: "texts_read_back H" and files: "files_read_back H"
    and run: "change_json_value H (Inr S) name (Some v) w = (Some (Inr u), w')"
  shows "\<exists>w1 m. lock_store H S w = (Inr (), w1) \<and>
    (current_object H S w1 = Inr (JObj m) \<or> current_object H S w1 = Inr JNull \<and> m = []) \<and>
    ho_exists H (cs_path S) w' \<and> (\<exists>t. ho_read H (cs_path S) w' = Inr t \<and>
      ho_parse H t = Inr (JObj (binsert name (parse_json_value v) m)))"
proof -
  from run obtain w1 where lock: "lock_store H S w = (Inr (), w1)"
    and upd: "update_json_file_field H S name (Some v) w1 = (Some (Inr u), w')"
    by (auto simp: change_json_value_def split: prod.splits sum.splits)
  from upd obtain object object' where now: "current_object H S w1 = Inr object"
    and as: "assign_field object name (parse_json_value v) = Some object'"
    and sv: "save_struct_unlocked H S object' w1 = (Inr u, w')"
    by (auto simp: update_json_file_field_def apfst_def map_prod_def split: sum.splits option.splits prod.splits)
  from assigned_ok [OF as current_object_ok [OF texts now] parse_json_value_ok] obtain m where
    ok: "json_ok object'" and m: "object' = JObj (binsert name (parse_json_value v) m)" "object = JObj m \<or> object = JNull \<and> m = []"
    by blast
  from save_struct_ok [OF texts files ok sv] lock now m show ?thesis by blast
qed

section \<open>Typed reading\<close>

text \<open>The fields of a store and their types.\<close>

definition field_fits :: "string \<Rightarrow> json option \<Rightarrow> bool" where
  "field_fits name v \<longleftrightarrow>
     (if name \<in> {''active_profile'', ''base_url'', ''client_id'', ''namespace''} then optional_field as_str v \<noteq> None
      else if name = ''format'' then optional_field (unit_variant output_format_names) v \<noteq> None
      else if name = ''grant_type'' then optional_field (unit_variant grant_type_names) v \<noteq> None
      else if name \<in> {''timeout'', ''page_limit''} then optional_field as_u64 v \<noteq> None
      else optional_field as_bool v \<noteq> None)"

definition scope_fields :: "config_scope \<Rightarrow> string list" where
  "scope_fields scope =
     (case scope of
        GlobalScope \<Rightarrow> [''active_profile'', ''format'', ''no_color'', ''timeout'', ''page_limit'', ''update_check'',
                        ''first_run_hint_seen'']
      | ProfileScope \<Rightarrow> [''base_url'', ''client_id'', ''namespace'', ''grant_type''])"

definition store_fits :: "config_scope \<Rightarrow> json bmap \<Rightarrow> bool" where
  "store_fits scope m \<longleftrightarrow> (\<forall>f \<in> set (scope_fields scope). field_fits f (bget m f))"

lemma bind_defined: "Option.bind x f \<noteq> None \<longleftrightarrow> (\<exists>y. x = Some y \<and> f y \<noteq> None)"
  by (cases x) simp_all

lemma global_fits: "json_global_config (JObj m) \<noteq> None \<longleftrightarrow> store_fits GlobalScope m"
  by (simp add: json_global_config_def struct_fields_def bind_defined store_fits_def scope_fields_def field_fits_def del: not_None_eq)
    (simp add: not_None_eq)

lemma profile_fits: "json_profile_config (JObj m) \<noteq> None \<longleftrightarrow> store_fits ProfileScope m"
  by (simp add: json_profile_config_def struct_fields_def bind_defined store_fits_def scope_fields_def field_fits_def del: not_None_eq)
    (simp add: not_None_eq)

text \<open>Whether the program can load the store.\<close>

definition loads :: "('w, 'm) host_scheme \<Rightarrow> string \<Rightarrow> config_scope \<Rightarrow> 'w \<Rightarrow> bool" where
  "loads H profile scope w \<longleftrightarrow>
     (case scope of GlobalScope \<Rightarrow> is_ok (load_global H w) | ProfileScope \<Rightarrow> is_ok (load_profile H profile w))"

lemma loads_iff:
  assumes "store_of_scope H profile scope = Inr S" "ho_exists H (cs_path S) w" "ho_read H (cs_path S) w = Inr t"
    and "ho_parse H t = Inr (JObj m)"
  shows "loads H profile scope w \<longleftrightarrow> store_fits scope m"
  using assms global_fits [of m] profile_fits [of m]
  by (cases scope) (auto simp: loads_def load_global_def load_profile_def load_struct_unlocked_def store_of_scope_def
      is_ok_def ok_or_def and_then_def split: option.splits)


text \<open>The keys whose values are texts.\<close>

definition text_key :: "string \<Rightarrow> bool" where
  "text_key name \<longleftrightarrow> name \<in> {''base-url'', ''client-id'', ''namespace'', ''active-profile''}"

text \<open>A text that \<open>config set\<close> stores as a number or a boolean.\<close>

definition literal :: "string \<Rightarrow> bool" where
  "literal v \<longleftrightarrow> v = ''true'' \<or> v = ''false'' \<or> parse_usize v \<noteq> None"

lemma literal_parsed: "optional_field as_str (Some (parse_json_value v)) \<noteq> None \<longleftrightarrow> \<not> literal v"
  by (auto simp: parse_json_value_def literal_def optional_field_def as_str_def split: option.split)

lemma find_key_known: "find_key name = Some key \<Longrightarrow> key \<in> set known_keys \<and> ck_cli_name key = name"
  by (auto simp: find_key_def find_Some_iff)

lemma boolean_fits: "validate_boolean v k = Inr n \<Longrightarrow> n = None \<and> optional_field as_bool (Some (parse_json_value v)) \<noteq> None"
  by (auto simp: validate_boolean_def refuse_def parse_json_value_def optional_field_def as_bool_def split: if_splits)

lemma number_fits:
  assumes "parse_usize v = Some n" shows "optional_field as_u64 (Some (parse_json_value v)) \<noteq> None"
proof -
  from assms have "v \<noteq> ''true''" "v \<noteq> ''false''" by (auto simp: not_a_number)
  moreover from assms have "n < 2 ^ 64" by (auto simp: parse_usize_def Let_def split: option.splits if_splits)
  ultimately show ?thesis using assms by (simp add: parse_json_value_def optional_field_def)
qed

lemma fixed_texts_fit:
  "optional_field (unit_variant output_format_names) (Some (parse_json_value ''json'')) \<noteq> None"
  "optional_field (unit_variant grant_type_names) (Some (parse_json_value ''authorization-code'')) \<noteq> None"
  "optional_field (unit_variant grant_type_names) (Some (parse_json_value ''client-credentials'')) \<noteq> None"
  by code_simp+

lemma known_key_table:
  "list_all (\<lambda>k. if text_key (ck_cli_name k)
     then ck_json_name k \<in> {''active_profile'', ''base_url'', ''client_id'', ''namespace''}
     else (ck_json_name k, ck_cli_name k) \<in> {(''format'', ''format''), (''no_color'', ''no-color''), (''timeout'', ''timeout''),
       (''page_limit'', ''page-limit''), (''first_run_hint_seen'', ''first-run-hint-seen''), (''grant_type'', ''grant-type''),
       (''update_check'', ''update-check'')}) known_keys"
  by code_simp

text \<open>A value that passed its check fits the type of its field, but for texts that read as numbers or booleans.\<close>

lemma accepted_fits:
  assumes acc: "accepted_setting H name v w = Inr (key, saved)"
  shows "find_key name = Some key \<and>
    (field_fits (ck_json_name key) (Some (parse_json_value saved)) \<longleftrightarrow> \<not> (text_key name \<and> literal saved))"
proof -
  from acc obtain n where k: "find_key name = Some key" and val: "validate_config_value H key v w = Inr n"
    and saved: "saved = (case n of Some s \<Rightarrow> s | None \<Rightarrow> v)"
    by (auto simp: accepted_setting_def ok_or_def and_then_def split: if_splits option.splits sum.splits)
  have "field_fits (ck_json_name key) (Some (parse_json_value saved)) \<longleftrightarrow> \<not> (text_key name \<and> literal saved)"
  proof (cases "text_key name")
    case True
    with find_key_known [OF k] known_key_table have "ck_json_name key \<in> {''active_profile'', ''base_url'', ''client_id'', ''namespace''}"
      by (auto simp: list_all_iff simp del: insert_iff)
    then show ?thesis using True literal_parsed [of saved] by (simp add: field_fits_def)
  next
    case False
    with find_key_known [OF k] known_key_table have
      "(ck_json_name key, name) \<in> {(''format'', ''format''), (''no_color'', ''no-color''), (''timeout'', ''timeout''),
         (''page_limit'', ''page-limit''), (''first_run_hint_seen'', ''first-run-hint-seen''), (''grant_type'', ''grant-type''),
         (''update_check'', ''update-check'')}"
      by (auto simp: list_all_iff simp del: insert_iff)
    then consider (fmt) "ck_json_name key = ''format''" "validate_format v = Inr n"
      | (flag) c where "ck_json_name key \<in> {''no_color'', ''first_run_hint_seen'', ''update_check''}" "validate_boolean v c = Inr n"
      | (timeout) "ck_json_name key = ''timeout''" "validate_timeout v = Inr n"
      | (limit) "ck_json_name key = ''page_limit''" "validate_page_limit v = Inr n"
      | (grant) "ck_json_name key = ''grant_type''" "validate_grant_type v = Inr n"
      using val find_key_known [OF k]
      by (elim insertE; simp add: validate_config_value_def Let_def validate_first_run_hint_seen_def)
    then have "field_fits (ck_json_name key) (Some (parse_json_value saved))"
    proof cases
      case fmt
      then have "n = None" "v = ''json''" by (auto simp: validate_format_def refuse_def split: if_splits)
      with fmt saved fixed_texts_fit(1) show ?thesis by (simp add: field_fits_def)
    next
      case (flag c)
      with boolean_fits [OF flag(2)] saved show ?thesis by (auto simp: field_fits_def)
    next
      case timeout
      then have "n = None" "\<exists>k. parse_usize v = Some k"
        by (auto simp: validate_timeout_def refuse_def split: if_splits option.splits)
      with timeout saved number_fits [of v] show ?thesis by (auto simp: field_fits_def)
    next
      case limit
      then have "n = None" "\<exists>k. parse_usize v = Some k"
        by (auto simp: validate_page_limit_def refuse_def split: if_splits option.splits)
      with limit saved number_fits [of v] show ?thesis by (auto simp: field_fits_def)
    next
      case grant
      then have "n = None" "v = ''authorization-code'' \<or> v = ''client-credentials''"
        by (auto simp: validate_grant_type_def refuse_def split: if_splits)
      with grant saved fixed_texts_fit(2,3) show ?thesis by (auto simp: field_fits_def)
    qed
    with False show ?thesis by blast
  qed
  with k show ?thesis by blast
qed

lemma known_key_in_scope: "find_key name = Some key \<Longrightarrow> ck_json_name key \<in> set (scope_fields (ck_scope key))"
proof -
  assume "find_key name = Some key"
  moreover have "list_all (\<lambda>k. ck_json_name k \<in> set (scope_fields (ck_scope k))) known_keys" by code_simp
  ultimately show ?thesis using find_key_known by (auto simp: list_all_iff)
qed

lemma store_fits_binsert:
  "store_fits scope m \<Longrightarrow> f \<in> set (scope_fields scope) \<Longrightarrow>
   store_fits scope (binsert f v m) \<longleftrightarrow> field_fits f (Some v)"
  by (auto simp: store_fits_def bmap_simps)

lemma config_set_ok:
  assumes "config_set H profile name v w = (Some (Inr out), w')"
  shows "\<exists>key saved S w1. accepted_setting H name v w = Inr (key, saved) \<and> \<not> is_client_secret_key name \<and>
    out = SetView name saved \<and> store_of_scope H profile (ck_scope key) = Inr S \<and>
    (\<exists>u. change_json_value H (Inr S) (ck_json_name key) (Some saved) w1 = (Some (Inr u), w'))"
proof -
  from assms obtain key saved where acc: "accepted_setting H name v w = Inr (key, saved)"
    by (auto simp: config_set_def split: sum.splits)
  then have secret: "\<not> is_client_secret_key name" by (auto simp: accepted_setting_def split: if_splits)
  from assms acc obtain w1 where run: "apfst (map_option (map_sum id (\<lambda>_. SetView name saved)))
      (change_json_value H (store_of_scope H profile (ck_scope key)) (ck_json_name key) (Some saved) w1) = (Some (Inr out), w')"
    by (auto simp: config_set_def split: sum.splits prod.splits)
  obtain res w2 where ch: "change_json_value H (store_of_scope H profile (ck_scope key)) (ck_json_name key) (Some saved) w1 = (res, w2)"
    by (cases "change_json_value H (store_of_scope H profile (ck_scope key)) (ck_json_name key) (Some saved) w1")
  with run obtain u where "res = Some (Inr u)" "w2 = w'" "out = SetView name saved"
    by (cases res; cases "the res") auto
  moreover from ch this obtain S where "store_of_scope H profile (ck_scope key) = Inr S"
    by (cases "store_of_scope H profile (ck_scope key)") (auto simp: change_json_value_def)
  ultimately show ?thesis using acc secret ch by fastforce
qed

section \<open>Properties\<close>

text \<open>C28. A setting that \<open>config set\<close> accepts is the one that \<open>config get\<close> shows, read back as the text of its JSON value (numbers
  lose leading zeros and a plus sign), and every other field of the file is the one that was there when the lock was held.
  The program can load the file afterwards, if it could before, exactly when the key is not one of the text keys or the
  value does not read as a number or a boolean: a namespace of digits is accepted and shown, and the profile can no
  longer be loaded.\<close>

theorem config_set_reads_back:
  assumes texts: "texts_read_back H" and files: "files_read_back H"
    and run: "config_set H profile name v w = (Some (Inr out), w')"
  shows "\<exists>key saved S w0 w1 m.
    accepted_setting H name v w = Inr (key, saved) \<and> out = SetView name saved \<and>
    store_of_scope H profile (ck_scope key) = Inr S \<and> lock_store H S w0 = (Inr (), w1) \<and>
    (current_object H S w1 = Inr (JObj m) \<or> current_object H S w1 = Inr JNull \<and> m = []) \<and>
    config_get H profile (Some name) w' = Inr (GetOne name (Some (shown_setting saved))
      (case ck_scope key of GlobalScope \<Rightarrow> GlobalSource | ProfileScope \<Rightarrow> ProfileSource profile) False) \<and>
    (\<forall>f. f \<noteq> ck_json_name key \<longrightarrow> load_json_value H S f w' = Inr (Option.bind (bget m f) (value_to_string H))) \<and>
    (store_fits (ck_scope key) m \<longrightarrow>
       (loads H profile (ck_scope key) w' \<longleftrightarrow> \<not> (text_key name \<and> literal saved)))"
proof -
  from config_set_ok [OF run] obtain key saved S w0 u where acc: "accepted_setting H name v w = Inr (key, saved)"
    and secret: "\<not> is_client_secret_key name" and out: "out = SetView name saved"
    and S: "store_of_scope H profile (ck_scope key) = Inr S"
    and ch: "change_json_value H (Inr S) (ck_json_name key) (Some saved) w0 = (Some (Inr u), w')" by blast
  from change_ok [OF texts files ch] obtain w1 m t where lock: "lock_store H S w0 = (Inr (), w1)"
    and m: "current_object H S w1 = Inr (JObj m) \<or> current_object H S w1 = Inr JNull \<and> m = []"
    and there: "ho_exists H (cs_path S) w'" "ho_read H (cs_path S) w' = Inr t"
      "ho_parse H t = Inr (JObj (binsert (ck_json_name key) (parse_json_value saved) m))" by blast
  from accepted_fits [OF acc] have key: "find_key name = Some key"
    and fits: "field_fits (ck_json_name key) (Some (parse_json_value saved)) \<longleftrightarrow> \<not> (text_key name \<and> literal saved)"
    by blast+
  have field: "load_json_value H S f w' =
      Inr (Option.bind (if f = ck_json_name key then Some (parse_json_value saved) else bget m f) (value_to_string H))" for f
    using there by (simp add: load_json_value_def bmap_simps)
  have "config_get H profile (Some name) w' = Inr (GetOne name (Some (shown_setting saved))
      (case ck_scope key of GlobalScope \<Rightarrow> GlobalSource | ProfileScope \<Rightarrow> ProfileSource profile) False)"
    using secret key S field by (simp add: config_get_def get_config_value_def ok_or_def and_then_def value_shown)
  moreover have "store_fits (ck_scope key) m \<longrightarrow>
       (loads H profile (ck_scope key) w' \<longleftrightarrow> \<not> (text_key name \<and> literal saved))"
    using loads_iff [OF S there] store_fits_binsert known_key_in_scope [OF key] fits by blast
  ultimately show ?thesis using acc out S lock m field by fastforce
qed

definition configured :: tables where
  "configured = ([(''c/ags/profiles/p/config.json'', json_code (JObj [(''base_url'', JStr ''https://b'')]))], [])"

abbreviation config_host :: "tables auth_host" where
  "config_host \<equiv> table_auth_host [] True (\<lambda>_. no_answer)"

theorem config_set_reads_back_witness:
  "(let (r, w) = config_set config_host ''p'' ''namespace'' ''my-game'' configured
    in r = Some (Inr (SetView ''namespace'' ''my-game'')) \<and>
       config_get config_host ''p'' (Some ''namespace'') w =
         Inr (GetOne ''namespace'' (Some ''my-game'') (ProfileSource ''p'') False))"
proof -
  let ?H = config_host
  obtain r w where run: "config_set ?H ''p'' ''namespace'' ''my-game'' configured = (r, w)"
    by (cases "config_set ?H ''p'' ''namespace'' ''my-game'' configured")
  have r: "fst (config_set ?H ''p'' ''namespace'' ''my-game'' configured) = Some (Inr (SetView ''namespace'' ''my-game''))"
    by code_simp
  have acc: "accepted_setting ?H ''namespace'' ''my-game'' configured =
      Inr (\<lparr>ck_cli_name = ''namespace'', ck_json_name = ''namespace'', ck_scope = ProfileScope\<rparr>, ''my-game'')"
    and shown: "shown_setting ''my-game'' = ''my-game''" by code_simp+
  have "texts_read_back ?H" "files_read_back ?H"
    using table_auth_host_honest by (auto simp: honest_storage_def)
  from config_set_reads_back [OF this run [unfolded r [unfolded run fst_conv]]] acc shown run r
  show ?thesis by (auto simp: Let_def)
qed

section \<open>Beyond the property\<close>

text \<open>A namespace that consists of digits is accepted as it is, and so is a profile named by a number: both read as numbers,
  so that their files can no longer be loaded.\<close>

lemma digits_are_accepted:
  "map_sum id snd (accepted_setting config_host ''namespace'' ''42'' configured) = Inr ''42''"
  "map_sum id snd (accepted_setting config_host ''active-profile'' ''7''
     ([(''c/ags/profiles/7/config.json'', json_code (JObj []))], [])) = Inr ''7''"
  by code_simp+

lemma digits_are_literal: "literal ''42''" "literal ''7''" "text_key ''namespace''" "text_key ''active-profile''"
  by (simp_all add: literal_def parse_usize_def digit_val_def text_key_def)

text \<open>A file that is no object makes the command panic.\<close>

lemma array_file_panics:
  "fst (config_set config_host ''p'' ''namespace'' ''x''
     ([(''c/ags/profiles/p/config.json'', json_code (JArr []))], [])) = None"
  by code_simp

end
