(* ===== verification/Sessions.thy ===== *)
theory Sessions
  imports AuthStore
begin

text \<open>
  The life of a session, \<open>ags-runtime/src/runtime/auth/session.rs\<close>: a usable access token from the environment, from
  storage, from the refresh endpoint or from a client-credentials grant. Between the first, unlocked read of the stored
  token and the second one the locks are taken, and the world that they return may hold another token.
\<close>

section \<open>Outcomes\<close>

definition token_expiry_buffer_secs :: nat where
  "token_expiry_buffer_secs = 60"

datatype token_source = SourceEnvironment | SourceStored | SourceRefreshed | SourceClientCredentials

record token_resolution =
  ts_token :: string
  ts_source :: token_source
  ts_expires_in_secs :: "nat option"
  ts_warnings :: "string list"

datatype unavailable_reason = NoStoredToken | NoRefreshToken | RefreshExpired | ClientMismatch string

datatype refresh_outcome =
    Refreshed string token_source nat "string list"
  | Unavailable unavailable_reason
  | Refused string

datatype refresh_mode = Probe | Force

definition merge_warnings :: "string option \<Rightarrow> string option \<Rightarrow> string list" where
  "merge_warnings a b =
     (case (a, b) of
        (Some x, Some y) \<Rightarrow> [x, y]
      | (Some x, None) \<Rightarrow> [x]
      | (None, Some y) \<Rightarrow> [y]
      | (None, None) \<Rightarrow> [])"

section \<open>Checks of a stored token\<close>

definition client_matches :: "string option \<Rightarrow> token_data \<Rightarrow> string + unit" where
  "client_matches expected t =
     (case (expected, td_client_id t) of
        (Some e, Some stored) \<Rightarrow> if client_ids_match e stored then Inr () else Inl stored
      | _ \<Rightarrow> Inr ())"

definition refresh_token_availability :: "token_data \<Rightarrow> nat \<Rightarrow> unavailable_reason + string" where
  "refresh_token_availability t now =
     (case td_refresh_token t of
        None \<Rightarrow> Inl NoRefreshToken
      | Some token \<Rightarrow>
          if (case td_refresh_expires_at t of Some e \<Rightarrow> now < e | None \<Rightarrow> True) then Inr token else Inl RefreshExpired)"

definition refreshed_from_fresh_stored :: "token_data \<Rightarrow> nat \<Rightarrow> refresh_outcome option" where
  "refreshed_from_fresh_stored t now =
     (if now + token_expiry_buffer_secs < td_expires_at t
      then Some (Refreshed (td_access_token t) SourceStored (td_expires_at t - now) [])
      else None)"

text \<open>The sequence of checks made before and again under the locks: an outcome to return, or the refresh token.\<close>

definition stored_check :: "refresh_mode \<Rightarrow> string option \<Rightarrow> token_data \<Rightarrow> nat \<Rightarrow> refresh_outcome + string" where
  "stored_check mode expected t now =
     (case client_matches expected t of
        Inl stored \<Rightarrow> Inl (Unavailable (ClientMismatch stored))
      | Inr _ \<Rightarrow>
          (case (if mode = Probe then refreshed_from_fresh_stored t now else None) of
             Some outcome \<Rightarrow> Inl outcome
           | None \<Rightarrow>
               (case refresh_token_availability t now of
                  Inl reason \<Rightarrow> Inl (Unavailable reason)
                | Inr token \<Rightarrow> Inr token)))"

definition classify_refresh_error :: "runtime_error \<Rightarrow> refresh_outcome rt" where
  "classify_refresh_error e = (if re_kind e = Network then Inl e else Inr (Refused (re_message e)))"

section \<open>Refreshing\<close>

text \<open>A token that cannot be read counts as none.\<close>

definition stored_token :: "('w, 'm) auth_host_scheme \<Rightarrow> string \<Rightarrow> 'w \<Rightarrow> token_data option" where
  "stored_token H profile w = (case get_token_data H profile w of Inr t \<Rightarrow> t | Inl _ \<Rightarrow> None)"

definition required_base_url :: "credentials \<Rightarrow> string rt" where
  "required_base_url c = ok_or (auth_failure BaseUrlMissing) (cr_base_url c)"

definition required_client_id :: "credentials \<Rightarrow> string rt" where
  "required_client_id c = ok_or (auth_failure ClientIdMissing) (cr_client_id c)"

definition required_client_secret :: "credentials \<Rightarrow> string rt" where
  "required_client_secret c = ok_or (auth_failure ClientSecretMissing) (cr_client_secret c)"

text \<open>The exchange of the refresh token, and the storage of what it gives.\<close>

definition send_refresh ::
  "('w, 'm) auth_host_scheme \<Rightarrow> string \<Rightarrow> token_data \<Rightarrow> nat \<Rightarrow> string \<Rightarrow> 'w \<Rightarrow> refresh_outcome rt \<times> 'w" where
  "send_refresh H profile t now token w =
     (let creds = resolve_credentials H profile w
      in and_run (required_base_url creds, w) (\<lambda>base_url w.
         and_run (required_client_id creds, w) (\<lambda>client_id w.
           case fetch_refresh_token H base_url client_id (cr_client_secret creds) token w of
             (Inl e, w) \<Rightarrow> (classify_refresh_error e, w)
           | (Inr r, w) \<Rightarrow>
               and_run (store_token_data_unlocked H profile
                   (token_result_to_token_data r
                     (case td_grant_type t of Some g \<Rightarrow> g | None \<Rightarrow> AuthorizationCode) now client_id) w)
                 (\<lambda>warning w.
                   (Inr (Refreshed (tr_access_token r) SourceRefreshed (tr_expires_in r)
                      (merge_warnings (tr_expires_in_warning r) warning)), w)))))"

definition refresh_locked ::
  "('w, 'm) auth_host_scheme \<Rightarrow> string \<Rightarrow> refresh_mode \<Rightarrow> string option \<Rightarrow> 'w \<Rightarrow> refresh_outcome rt \<times> 'w" where
  "refresh_locked H profile mode expected w =
     (case stored_token H profile w of
        None \<Rightarrow> (Inr (Unavailable NoStoredToken), w)
      | Some t \<Rightarrow>
          (case stored_check mode expected t (au_now H w) of
             Inl outcome \<Rightarrow> (Inr outcome, w)
           | Inr token \<Rightarrow> send_refresh H profile t (au_now H w) token w))"

definition take_locks :: "('w, 'm) auth_host_scheme \<Rightarrow> string \<Rightarrow> 'w \<Rightarrow> unit rt \<times> 'w" where
  "take_locks H profile w = acquire_token_lock H profile (au_wait H profile w)"

definition try_refresh_stored_session ::
  "('w, 'm) auth_host_scheme \<Rightarrow> string \<Rightarrow> refresh_mode \<Rightarrow> string option \<Rightarrow> 'w \<Rightarrow> refresh_outcome rt \<times> 'w" where
  "try_refresh_stored_session H profile mode expected w =
     (case stored_token H profile w of
        None \<Rightarrow> (Inr (Unavailable NoStoredToken), w)
      | Some t \<Rightarrow>
          (case stored_check mode expected t (au_now H w) of
             Inl outcome \<Rightarrow> (Inr outcome, w)
           | Inr _ \<Rightarrow> and_run (take_locks H profile w) (\<lambda>_ w. refresh_locked H profile mode expected w)))"

section \<open>Resolution\<close>

text \<open>What is made of a session that could not be used: an error, or nothing and the next source is tried.\<close>

definition give_up ::
  "('w, 'm) auth_host_scheme \<Rightarrow> string \<Rightarrow> bool \<Rightarrow> string option \<Rightarrow> 'w \<Rightarrow> refresh_outcome \<Rightarrow> auth_error option" where
  "give_up H profile is_authorization_code current w outcome =
     (case outcome of
        Refreshed _ _ _ _ \<Rightarrow> None
      | Refused message \<Rightarrow> if is_authorization_code then Some (SessionExpiredRefreshFailed message) else None
      | Unavailable NoStoredToken \<Rightarrow> None
      | Unavailable NoRefreshToken \<Rightarrow> if is_authorization_code then Some SessionExpiredNoRefreshToken else None
      | Unavailable RefreshExpired \<Rightarrow> if is_authorization_code then Some SessionExpiredRefreshTokenExpired else None
      | Unavailable (ClientMismatch stored) \<Rightarrow>
          if ho_env H env_client_secret \<noteq> None \<or> resolve_stored_client_secret H profile w \<noteq> None then None
          else Some (StoredSessionClientMismatch profile stored (case current of Some c \<Rightarrow> c | None \<Rightarrow> [])))"

definition client_credentials_grant :: "('w, 'm) auth_host_scheme \<Rightarrow> string \<Rightarrow> 'w \<Rightarrow> token_resolution rt \<times> 'w" where
  "client_credentials_grant H profile w =
     (let creds = resolve_credentials H profile w
      in and_run (required_base_url creds, w) (\<lambda>base_url w.
         and_run (required_client_id creds, w) (\<lambda>client_id w.
         and_run (required_client_secret creds, w) (\<lambda>client_secret w.
         and_run (take_locks H profile w) (\<lambda>_ w.
         and_run (fetch_client_credentials_token H base_url client_id client_secret w) (\<lambda>r w.
         and_run (store_token_data_unlocked H profile
             (token_result_to_token_data r ClientCredentials (au_now H w) client_id) w) (\<lambda>warning w.
           (Inr \<lparr>ts_token = tr_access_token r, ts_source = SourceClientCredentials,
                 ts_expires_in_secs = Some (tr_expires_in r),
                 ts_warnings = merge_warnings (tr_expires_in_warning r) warning\<rparr>, w))))))))"

definition resolve_access_token :: "('w, 'm) auth_host_scheme \<Rightarrow> string \<Rightarrow> 'w \<Rightarrow> token_resolution rt \<times> 'w" where
  "resolve_access_token H profile w =
     (case ho_env H env_access_token of
        Some token \<Rightarrow>
          (Inr \<lparr>ts_token = token, ts_source = SourceEnvironment, ts_expires_in_secs = None, ts_warnings = []\<rparr>, w)
      | None \<Rightarrow>
          (let is_authorization_code =
                 (case Option.bind (stored_token H profile w) td_grant_type of
                    None \<Rightarrow> True | Some g \<Rightarrow> g = AuthorizationCode);
               current = resolve_client_id_value H profile w
           in and_run (try_refresh_stored_session H profile Probe current w) (\<lambda>outcome w.
                case outcome of
                  Refreshed token src expires warnings \<Rightarrow>
                    (Inr \<lparr>ts_token = token, ts_source = src, ts_expires_in_secs = Some expires,
                          ts_warnings = warnings\<rparr>, w)
                | _ \<Rightarrow>
                    (case give_up H profile is_authorization_code current w outcome of
                       Some e \<Rightarrow> (Inl (auth_failure e), w)
                     | None \<Rightarrow> client_credentials_grant H profile w))))"

definition force_refresh_session :: "('w, 'm) auth_host_scheme \<Rightarrow> string \<Rightarrow> 'w \<Rightarrow> bool rt \<times> 'w" where
  "force_refresh_session H profile w =
     and_run (try_refresh_stored_session H profile Force None w) (\<lambda>outcome w.
       (Inr (case outcome of Refreshed _ _ _ _ \<Rightarrow> True | _ \<Rightarrow> False), w))"

section \<open>Where a token comes from\<close>

text \<open>A token that may be used for a client and is valid for longer than the buffer.\<close>

definition fresh_for :: "string option \<Rightarrow> nat \<Rightarrow> token_data \<Rightarrow> bool" where
  "fresh_for client now t \<longleftrightarrow>
     client_matches client t = Inr () \<and> now + token_expiry_buffer_secs < td_expires_at t"

text \<open>A token of the client that has to be and can be refreshed.\<close>

definition refreshable_for :: "string option \<Rightarrow> nat \<Rightarrow> token_data \<Rightarrow> string \<Rightarrow> bool" where
  "refreshable_for client now t token \<longleftrightarrow>
     client_matches client t = Inr () \<and> \<not> now + token_expiry_buffer_secs < td_expires_at t \<and>
     td_refresh_token t = Some token \<and> (\<forall>e. td_refresh_expires_at t = Some e \<longrightarrow> now < e)"

lemma stored_check_used:
  "stored_check Probe client t now = Inl (Refreshed a src n ws) \<longleftrightarrow>
   fresh_for client now t \<and> a = td_access_token t \<and> src = SourceStored \<and> n = td_expires_at t - now \<and> ws = []"
  by (auto simp: stored_check_def fresh_for_def refreshed_from_fresh_stored_def split: sum.splits option.splits if_splits)

lemma stored_check_refresh:
  "stored_check Probe client t now = Inr token \<longleftrightarrow> refreshable_for client now t token"
  by (auto simp: stored_check_def refreshable_for_def refreshed_from_fresh_stored_def refresh_token_availability_def
      split: sum.splits option.splits if_splits)

lemma send_refresh_used:
  assumes "send_refresh H profile t now token w = (Inr (Refreshed a src n ws), w')"
  shows "\<exists>base_url client_id r w1 g warning. src = SourceRefreshed \<and>
    fetch_refresh_token H base_url client_id (cr_client_secret (resolve_credentials H profile w)) token w = (Inr r, w1) \<and>
    cr_base_url (resolve_credentials H profile w) = Some base_url \<and>
    cr_client_id (resolve_credentials H profile w) = Some client_id \<and> a = tr_access_token r \<and>
    store_token_data_unlocked H profile (token_result_to_token_data r g now client_id) w1 = (Inr warning, w')"
proof -
  let ?c = "resolve_credentials H profile w"
  from assms obtain base_url client_id where
    c: "cr_base_url ?c = Some base_url" "cr_client_id ?c = Some client_id"
    by (auto simp: send_refresh_def Let_def and_run_ok_iff required_base_url_def required_client_id_def ok_or_def
        split: option.splits)
  obtain x w1 where fetch: "fetch_refresh_token H base_url client_id (cr_client_secret ?c) token w = (x, w1)"
    by (cases "fetch_refresh_token H base_url client_id (cr_client_secret ?c) token w")
  from assms c fetch show ?thesis
    by (cases x) (auto simp: send_refresh_def Let_def required_base_url_def required_client_id_def ok_or_def
        classify_refresh_error_def and_run_ok_iff split: if_splits)
qed

lemma try_refresh_used:
  assumes "try_refresh_stored_session H profile Probe client w = (Inr (Refreshed a src n ws), w')"
  shows "(\<exists>t w0. stored_token H profile w0 = Some t \<and> fresh_for client (au_now H w0) t \<and> a = td_access_token t \<and>
      src = SourceStored \<and> w' = w0 \<and> (w0 = w \<or> take_locks H profile w = (Inr (), w0))) \<or>
    (\<exists>t w0 token. take_locks H profile w = (Inr (), w0) \<and> stored_token H profile w0 = Some t \<and>
      refreshable_for client (au_now H w0) t token \<and>
      send_refresh H profile t (au_now H w0) token w0 = (Inr (Refreshed a src n ws), w'))"
proof -
  from assms obtain t where t: "stored_token H profile w = Some t"
    by (auto simp: try_refresh_stored_session_def split: option.splits)
  show ?thesis
  proof (cases "stored_check Probe client t (au_now H w)")
    case (Inl outcome)
    with assms t have "stored_check Probe client t (au_now H w) = Inl (Refreshed a src n ws)" "w' = w"
      by (simp_all add: try_refresh_stored_session_def)
    with t show ?thesis unfolding stored_check_used by blast
  next
    case (Inr token)
    with assms t obtain w0 where locked: "take_locks H profile w = (Inr (), w0)"
      and run: "refresh_locked H profile Probe client w0 = (Inr (Refreshed a src n ws), w')"
      by (auto simp: try_refresh_stored_session_def and_run_ok_iff)
    from run obtain t0 where t0: "stored_token H profile w0 = Some t0"
      by (auto simp: refresh_locked_def split: option.splits)
    show ?thesis
    proof (cases "stored_check Probe client t0 (au_now H w0)")
      case (Inl outcome)
      with run t0 have "stored_check Probe client t0 (au_now H w0) = Inl (Refreshed a src n ws)" "w' = w0"
        by (simp_all add: refresh_locked_def)
      with t0 locked show ?thesis unfolding stored_check_used by blast
    next
      case (Inr token)
      with run t0 have "send_refresh H profile t0 (au_now H w0) token w0 = (Inr (Refreshed a src n ws), w')"
        by (simp add: refresh_locked_def)
      with Inr t0 locked show ?thesis unfolding stored_check_refresh by blast
    qed
  qed
qed

lemma resolved_cases:
  assumes "resolve_access_token H profile w = (Inr r, w')"
  obtains (env) "ho_env H env_access_token = Some (ts_token r)" "ts_source r = SourceEnvironment" "w' = w"
  | (session) n where
      "try_refresh_stored_session H profile Probe (resolve_client_id_value H profile w) w =
         (Inr (Refreshed (ts_token r) (ts_source r) n (ts_warnings r)), w')" "ts_expires_in_secs r = Some n"
  | (grant) w1 where "client_credentials_grant H profile w1 = (Inr r, w')"
proof (cases "ho_env H env_access_token")
  case (Some token)
  with assms show ?thesis by (intro env) (auto simp: resolve_access_token_def)
next
  case None
  with assms obtain outcome w1 where tried: "try_refresh_stored_session H profile Probe (resolve_client_id_value H profile w) w =
      (Inr outcome, w1)"
    by (auto simp: resolve_access_token_def Let_def and_run_ok_iff)
  show ?thesis
  proof (cases outcome)
    case (Refreshed a src n ws)
    with assms None tried show ?thesis by (intro session) (auto simp: resolve_access_token_def Let_def)
  next
    case (Unavailable reason)
    with assms None tried show ?thesis
      by (intro grant [of w1]) (auto simp: resolve_access_token_def Let_def split: option.splits)
  next
    case (Refused message)
    with assms None tried show ?thesis
      by (intro grant [of w1]) (auto simp: resolve_access_token_def Let_def split: option.splits)
  qed
qed

lemma grant_used:
  assumes "client_credentials_grant H profile w = (Inr r, w')"
  shows "\<exists>base_url client_id secret res w1 w2 warning.
    take_locks H profile w = (Inr (), w1) \<and> cr_base_url (resolve_credentials H profile w) = Some base_url \<and>
    cr_client_id (resolve_credentials H profile w) = Some client_id \<and>
    cr_client_secret (resolve_credentials H profile w) = Some secret \<and>
    fetch_client_credentials_token H base_url client_id secret w1 = (Inr res, w2) \<and>
    ts_token r = tr_access_token res \<and> ts_source r = SourceClientCredentials \<and>
    store_token_data_unlocked H profile (token_result_to_token_data res ClientCredentials (au_now H w2) client_id) w2 =
      (Inr warning, w')"
  using assms
  by (auto simp: client_credentials_grant_def Let_def and_run_ok_iff required_base_url_def required_client_id_def
      required_client_secret_def ok_or_def split: option.splits)

lemma stored_token_after:
  assumes "honest_storage H" "store_token_data_unlocked H profile (token_result_to_token_data r g now c) w = (Inr warning, w')"
  shows "stored_token H profile w' = Some (token_result_to_token_data r g now c)"
proof -
  have "token_ok (token_result_to_token_data r g now c)"
    by (auto simp: token_ok_def token_result_to_token_data_def u64_saturating_add_def option.pred_set)
  from stored_then_read [OF assms(1) this assms(2)] show ?thesis by (simp add: stored_token_def)
qed

lemma fresh_is_used:
  assumes "ho_env H env_access_token = None" "stored_token H profile w = Some t"
    and "fresh_for (resolve_client_id_value H profile w) (au_now H w) t"
  shows "resolve_access_token H profile w =
    (Inr \<lparr>ts_token = td_access_token t, ts_source = SourceStored, ts_expires_in_secs = Some (td_expires_at t - au_now H w),
           ts_warnings = []\<rparr>, w)"
proof -
  have "stored_check Probe (resolve_client_id_value H profile w) t (au_now H w) =
      Inl (Refreshed (td_access_token t) SourceStored (td_expires_at t - au_now H w) [])"
    unfolding stored_check_used using assms(3) by simp
  with assms(1,2) show ?thesis by (simp add: resolve_access_token_def try_refresh_stored_session_def)
qed

section \<open>Properties\<close>

text \<open>C26. Every access token that is handed out is accounted for. It is the one of the environment, and then nothing else
  happens; or the stored one, of the configured client and valid for more than a minute; or the answer to a refresh,
  which was asked for with the refresh token that was stored when the locks were held, of a stored token of the configured
  client that was running out and whose refresh token had not expired, with the credentials of that moment; or the answer
  to a client-credentials grant. A token that was fetched has been stored before it is handed out.\<close>

theorem resolved_token_accounted_for:
  assumes "resolve_access_token H profile w = (Inr r, w')"
  shows "case ts_source r of
      SourceEnvironment \<Rightarrow> ho_env H env_access_token = Some (ts_token r) \<and> w' = w
    | SourceStored \<Rightarrow>
        (w' = w \<or> take_locks H profile w = (Inr (), w')) \<and>
        (\<exists>t. stored_token H profile w' = Some t \<and> ts_token r = td_access_token t \<and>
             fresh_for (resolve_client_id_value H profile w) (au_now H w') t)
    | SourceRefreshed \<Rightarrow>
        (\<exists>w0 t token base_url client_id res w1 g warning.
           take_locks H profile w = (Inr (), w0) \<and> stored_token H profile w0 = Some t \<and>
           refreshable_for (resolve_client_id_value H profile w) (au_now H w0) t token \<and>
           cr_base_url (resolve_credentials H profile w0) = Some base_url \<and>
           cr_client_id (resolve_credentials H profile w0) = Some client_id \<and>
           fetch_refresh_token H base_url client_id (cr_client_secret (resolve_credentials H profile w0)) token w0 =
             (Inr res, w1) \<and>
           ts_token r = tr_access_token res \<and>
           store_token_data_unlocked H profile (token_result_to_token_data res g (au_now H w0) client_id) w1 =
             (Inr warning, w'))
    | SourceClientCredentials \<Rightarrow>
        (\<exists>w0 base_url client_id secret res w1 w2 warning.
           take_locks H profile w0 = (Inr (), w1) \<and>
           cr_base_url (resolve_credentials H profile w0) = Some base_url \<and>
           cr_client_id (resolve_credentials H profile w0) = Some client_id \<and>
           cr_client_secret (resolve_credentials H profile w0) = Some secret \<and>
           fetch_client_credentials_token H base_url client_id secret w1 = (Inr res, w2) \<and>
           ts_token r = tr_access_token res \<and>
           store_token_data_unlocked H profile
             (token_result_to_token_data res ClientCredentials (au_now H w2) client_id) w2 = (Inr warning, w'))"
  using assms
proof (cases rule: resolved_cases)
  case env
  then show ?thesis by simp
next
  case (session n)
  from try_refresh_used [OF session(1)] show ?thesis
  proof (elim disjE exE conjE)
    fix t w0 token
    assume locks: "take_locks H profile w = (Inr (), w0)" and t: "stored_token H profile w0 = Some t"
      and due: "refreshable_for (resolve_client_id_value H profile w) (au_now H w0) t token"
      and sent: "send_refresh H profile t (au_now H w0) token w0 =
        (Inr (Refreshed (ts_token r) (ts_source r) n (ts_warnings r)), w')"
    from send_refresh_used [OF sent] have src: "ts_source r = SourceRefreshed" by blast
    show ?thesis
      unfolding src token_source.case using send_refresh_used [OF sent] locks t due by blast
  qed auto
next
  case (grant w1)
  from grant_used [OF grant] have src: "ts_source r = SourceClientCredentials" by blast
  show ?thesis unfolding src token_source.case using grant_used [OF grant] by blast
qed

text \<open>A token that was fetched is kept: on a host that keeps its promises, after a refresh or a client-credentials grant
  the stored token is the one handed out, and the next resolution hands it out again without a request and without a
  change, as long as it belongs to the configured client and has more than a minute left.\<close>

theorem fetched_token_is_reused:
  assumes honest: "honest_storage H" and run: "resolve_access_token H profile w = (Inr r, w')"
    and fetched: "ts_source r = SourceRefreshed \<or> ts_source r = SourceClientCredentials"
  shows "\<exists>t. stored_token H profile w' = Some t \<and> td_access_token t = ts_token r \<and> td_client_id t \<noteq> None \<and>
    (fresh_for (resolve_client_id_value H profile w') (au_now H w') t \<longrightarrow>
       resolve_access_token H profile w' =
         (Inr \<lparr>ts_token = ts_token r, ts_source = SourceStored,
               ts_expires_in_secs = Some (td_expires_at t - au_now H w'), ts_warnings = []\<rparr>, w'))"
proof -
  have no_env: "ho_env H env_access_token = None"
    using run fetched by (auto simp: resolve_access_token_def split: option.splits)
  have "\<exists>res g now c w1 warning. ts_token r = tr_access_token res \<and>
      store_token_data_unlocked H profile (token_result_to_token_data res g now c) w1 = (Inr warning, w')"
    using run
  proof (cases rule: resolved_cases)
    case (session n)
    from try_refresh_used [OF session(1)] fetched obtain t w0 token where
      "send_refresh H profile t (au_now H w0) token w0 = (Inr (Refreshed (ts_token r) (ts_source r) n (ts_warnings r)), w')"
      by auto
    from send_refresh_used [OF this] show ?thesis by blast
  next
    case (grant w1)
    from grant_used [OF grant] show ?thesis by blast
  qed (use fetched in auto)
  then obtain res g now c w1 warning where token: "ts_token r = tr_access_token res"
    and stored: "store_token_data_unlocked H profile (token_result_to_token_data res g now c) w1 = (Inr warning, w')" by blast
  from stored_token_after [OF honest stored]
  have kept: "stored_token H profile w' = Some (token_result_to_token_data res g now c)" .
  from kept fresh_is_used [OF no_env kept] token show ?thesis
    by (intro exI [of _ "token_result_to_token_data res g now c"]) (simp add: token_result_to_token_data_def)
qed

text \<open>A session that runs out, and an endpoint that answers.\<close>

definition token_answer :: raw_response where
  "token_answer =
     \<lparr>raw_status = 200, raw_content_type = None, raw_content_length = None,
      raw_bytes = Inr (json_code (JObj [(''access_token'', JStr ''a2''), (''expires_in'', JInt 80),
                                        (''refresh_token'', JStr ''r3'')]))\<rparr>"

definition refresh_host :: "tables auth_host" where
  "refresh_host = table_auth_host [(env_base_url, ''https://b''), (env_client_id, ''APP'')] True (\<lambda>_. token_answer)"

definition session_of :: "token_data \<Rightarrow> tables" where
  "session_of t = ([], [(keyring_service ''p'' @ keyring_token_user, json_code (token_data_json t))])"

definition ending_token :: token_data where
  "ending_token = fresh_token\<lparr>td_expires_at := 40\<rparr>"

definition renewed_token :: token_data where
  "renewed_token =
     \<lparr>td_access_token = ''a2'', td_expires_at = 83, td_refresh_token = Some ''r3'', td_refresh_expires_at = None,
      td_grant_type = Some AuthorizationCode, td_client_id = Some ''APP''\<rparr>"

lemma answer_read: "read_response_body token_answer = Inr (json_code (JObj [(''access_token'', JStr ''a2''), (''expires_in'', JInt 80),
                                        (''refresh_token'', JStr ''r3'')]))"
proof -
  let ?t = "json_code (JObj [(''access_token'', JStr ''a2''), (''expires_in'', JInt 80), (''refresh_token'', JStr ''r3'')])"
  have "valid_utf8 ?t" and "length ?t < 100" by code_simp+
  then show ?thesis
    by (simp add: read_response_body_def read_response_bytes_capped_def token_answer_def max_response_bytes_def and_then_def
        del: json_code.simps)
qed

lemma answer_parsed:
  assumes "ho_parse H = parse_code"
  shows "parse_token_result H (json_code (JObj [(''access_token'', JStr ''a2''), (''expires_in'', JInt 80),
        (''refresh_token'', JStr ''r3'')])) =
    Inr \<lparr>tr_access_token = ''a2'', tr_expires_in = 80, tr_refresh_token = Some ''r3'', tr_refresh_expires_in = None,
         tr_expires_in_warning = None\<rparr>"
proof -
  let ?v = "JObj [(''access_token'', JStr ''a2''), (''expires_in'', JInt 80), (''refresh_token'', JStr ''r3'')]"
  have "json_ok ?v" by code_simp
  then have "parse_code (json_code ?v) = Inr ?v" by (rule parse_code_inverse)
  moreover have "json_token_response ?v = Some \<lparr>tk_access_token = ''a2'', tk_expires_in = 80, tk_token_type = [],
      tk_refresh_token = Some ''r3'', tk_refresh_expires_in = None\<rparr>"
    by (simp add: json_token_response_def struct_fields_def required_field_def default_field_def optional_field_def bget_def
        as_u64_def)
  ultimately show ?thesis
    by (simp add: parse_token_result_def assms normalize_expires_in_def del: json_code.simps)
qed

lemma sample_answer:
  "fetch_refresh_token refresh_host ''https://b'' c s t w =
     (Inr \<lparr>tr_access_token = ''a2'', tr_expires_in = 80, tr_refresh_token = Some ''r3'', tr_refresh_expires_in = None,
           tr_expires_in_warning = None\<rparr>, w)"
proof -
  have url: "token_url refresh_host ''https://b'' = Inr ''https://b/iam/v3/oauth/token''" by code_simp
  have parsed: "parse_token_result refresh_host (json_code (JObj [(''access_token'', JStr ''a2''), (''expires_in'', JInt 80),
        (''refresh_token'', JStr ''r3'')])) =
      Inr \<lparr>tr_access_token = ''a2'', tr_expires_in = 80, tr_refresh_token = Some ''r3'', tr_refresh_expires_in = None,
           tr_expires_in_warning = None\<rparr>"
    by (rule answer_parsed) (simp add: refresh_host_def table_auth_host_def table_host_def host.defs)
  have post: "au_post refresh_host req w = (Inr token_answer, w)" for req
    by (simp add: refresh_host_def table_auth_host_def host.defs)
  have "is_success (raw_status token_answer)" by (simp add: is_success_def token_answer_def)
  with url parsed post answer_read show ?thesis by (simp add: fetch_refresh_token_def post_token_def and_then_def)
qed

lemma sample_refresh:
  "resolve_access_token refresh_host ''p'' (session_of ending_token) =
     (Inr \<lparr>ts_token = ''a2'', ts_source = SourceRefreshed, ts_expires_in_secs = Some 80, ts_warnings = []\<rparr>,
      session_of renewed_token)"
proof -
  let ?w = "session_of ending_token"
  have env: "ho_env refresh_host env_access_token = None"
    and client: "resolve_client_id_value refresh_host ''p'' ?w = Some ''APP''"
    and t: "stored_token refresh_host ''p'' ?w = Some ending_token"
    and due: "stored_check Probe (Some ''APP'') ending_token (au_now refresh_host ?w) = Inr ''r2''"
    and locks: "take_locks refresh_host ''p'' ?w = (Inr (), ?w)"
    and creds: "cr_base_url (resolve_credentials refresh_host ''p'' ?w) = Some ''https://b''"
      "cr_client_id (resolve_credentials refresh_host ''p'' ?w) = Some ''APP''"
    and now: "au_now refresh_host ?w = 3"
    by code_simp+
  have data: "token_result_to_token_data
      \<lparr>tr_access_token = ''a2'', tr_expires_in = 80, tr_refresh_token = Some ''r3'', tr_refresh_expires_in = None,
       tr_expires_in_warning = None\<rparr> AuthorizationCode 3 ''APP'' = renewed_token"
    by (simp add: token_result_to_token_data_def renewed_token_def u64_saturating_add_def)
  have stored: "store_token_data_unlocked refresh_host ''p'' renewed_token ?w = (Inr None, session_of renewed_token)"
    by code_simp
  have g: "td_grant_type ending_token = Some AuthorizationCode" by (simp add: ending_token_def fresh_token_def)
  have "send_refresh refresh_host ''p'' ending_token 3 ''r2'' ?w =
      (Inr (Refreshed ''a2'' SourceRefreshed 80 []), session_of renewed_token)"
    by (simp add: send_refresh_def Let_def required_base_url_def required_client_id_def ok_or_def creds sample_answer g data
        stored merge_warnings_def)
  then have "refresh_locked refresh_host ''p'' Probe (Some ''APP'') ?w =
      (Inr (Refreshed ''a2'' SourceRefreshed 80 []), session_of renewed_token)"
    using t due now by (simp add: refresh_locked_def)
  then show ?thesis
    by (simp add: resolve_access_token_def env client Let_def try_refresh_stored_session_def t due locks)
qed

theorem resolved_token_accounted_for_witness:
  "\<exists>w0 t token. take_locks refresh_host ''p'' (session_of ending_token) = (Inr (), w0) \<and>
     stored_token refresh_host ''p'' w0 = Some t \<and> refreshable_for (Some ''APP'') (au_now refresh_host w0) t token"
proof -
  have "resolve_client_id_value refresh_host ''p'' (session_of ending_token) = Some ''APP''" by code_simp
  with resolved_token_accounted_for [OF sample_refresh] show ?thesis by auto
qed

theorem fetched_token_is_reused_witness:
  "resolve_access_token refresh_host ''p'' (session_of renewed_token) =
     (Inr \<lparr>ts_token = ''a2'', ts_source = SourceStored, ts_expires_in_secs = Some 80, ts_warnings = []\<rparr>,
      session_of renewed_token)"
proof -
  have honest: "honest_storage refresh_host" by (simp add: refresh_host_def table_auth_host_honest)
  have t: "stored_token refresh_host ''p'' (session_of renewed_token) = Some renewed_token"
    and c: "resolve_client_id_value refresh_host ''p'' (session_of renewed_token) = Some ''APP''"
    and now: "au_now refresh_host (session_of renewed_token) = 3" by code_simp+
  have f: "fresh_for (Some ''APP'') 3 renewed_token"
    by (simp add: fresh_for_def client_matches_def renewed_token_def client_ids_match_def token_expiry_buffer_secs_def)
  from fetched_token_is_reused [OF honest sample_refresh] t c now f show ?thesis
    by (simp add: renewed_token_def)
qed

section \<open>Beyond the properties\<close>

text \<open>A forced refresh expects no client: the refresh token of another client is sent with the credentials of the configured
  one, and when the server answers, the session is taken over.\<close>

lemma forced_refresh_of_another_client:
  "client_matches (Some ''APP'') (ending_token\<lparr>td_client_id := Some ''other''\<rparr>) = Inl ''other''"
  "stored_check Force None (ending_token\<lparr>td_client_id := Some ''other''\<rparr>) now =
     (if now < 90 then Inr ''r2'' else Inl (Unavailable RefreshExpired))"
  by (simp_all add: client_matches_def client_ids_match_def normalise_client_id_def strip_hyphens_def lower_text_def to_lower_def
      stored_check_def refresh_token_availability_def ending_token_def fresh_token_def)

end
