(* ===== verification/ExecContext.thy ===== *)
theory ExecContext
  imports Sessions
begin

text \<open>
  The context of a call, \<open>ags-runtime/src/runtime/execution.rs\<close>: the profile, the base URL, the access token and the
  namespace, each with its source, resolved once from flags, the environment and the configuration.
\<close>

section \<open>Sources\<close>

datatype profile_source = ProfileFlag | ProfileEnvironment | ProfileGlobalConfig

datatype base_url_source = BaseUrlEnvironment | BaseUrlConfiguration | BaseUrlKeystore | BaseUrlDefault

datatype access_token_source =
    TokenNone | TokenEnvironment | TokenStored | TokenRefreshed | TokenClientCredentials | TokenDryRun

datatype namespace_source = NamespaceFlag | NamespaceEnvironment | NamespaceConfiguration

definition profile_source_label :: "profile_source \<Rightarrow> string" where
  "profile_source_label s =
     (case s of ProfileFlag \<Rightarrow> ''--profile flag'' | ProfileEnvironment \<Rightarrow> ''AGS_PROFILE env''
              | ProfileGlobalConfig \<Rightarrow> ''global config'')"

definition base_url_source_label :: "base_url_source \<Rightarrow> string" where
  "base_url_source_label s =
     (case s of BaseUrlEnvironment \<Rightarrow> ''AGS_BASE_URL env'' | BaseUrlConfiguration \<Rightarrow> ''profile config''
              | BaseUrlKeystore \<Rightarrow> ''keystore'' | BaseUrlDefault \<Rightarrow> ''default'')"

definition access_token_source_label :: "access_token_source \<Rightarrow> string" where
  "access_token_source_label s =
     (case s of TokenNone \<Rightarrow> ''none'' | TokenEnvironment \<Rightarrow> ''AGS_ACCESS_TOKEN env'' | TokenStored \<Rightarrow> ''stored''
              | TokenRefreshed \<Rightarrow> ''refreshed'' | TokenClientCredentials \<Rightarrow> ''client-credentials grant''
              | TokenDryRun \<Rightarrow> ''dry-run'')"

definition namespace_source_label :: "namespace_source \<Rightarrow> string" where
  "namespace_source_label s =
     (case s of NamespaceFlag \<Rightarrow> ''--namespace flag'' | NamespaceEnvironment \<Rightarrow> ''AGS_NAMESPACE env''
              | NamespaceConfiguration \<Rightarrow> ''profile config'')"

section \<open>The context\<close>

record execution_context =
  xc_profile :: string
  xc_profile_source :: profile_source
  xc_namespace :: "string option"
  xc_namespace_source :: "namespace_source option"
  xc_base_url :: string
  xc_base_url_source :: base_url_source
  xc_access_token :: string
  xc_access_token_source :: access_token_source
  xc_access_token_expiry :: "string option"
  xc_access_token_warnings :: "string list"

record resolution_input =
  ri_profile :: "string option"
  ri_namespace :: "string option"
  ri_is_dry_run :: bool

definition format_duration :: "nat \<Rightarrow> string" where
  "format_duration n =
     (let hours = n div 3600; minutes = n mod 3600 div 60; seconds = n mod 60
      in if 0 < hours then show_nat hours @ ''h '' @ show_nat minutes @ ''m''
         else if 0 < minutes then show_nat minutes @ ''m '' @ show_nat seconds @ ''s''
         else show_nat seconds @ ''s'')"

definition credential_base_url_source :: "credential_source \<Rightarrow> base_url_source" where
  "credential_base_url_source s =
     (case s of FromEnvironment \<Rightarrow> BaseUrlEnvironment | FromConfiguration \<Rightarrow> BaseUrlConfiguration
              | FromKeystore \<Rightarrow> BaseUrlKeystore)"

definition token_access_source :: "token_source \<Rightarrow> access_token_source" where
  "token_access_source s =
     (case s of SourceEnvironment \<Rightarrow> TokenEnvironment | SourceStored \<Rightarrow> TokenStored | SourceRefreshed \<Rightarrow> TokenRefreshed
              | SourceClientCredentials \<Rightarrow> TokenClientCredentials)"

definition context_namespace ::
  "('w, 'm) host_scheme \<Rightarrow> string option \<Rightarrow> string \<Rightarrow> 'w \<Rightarrow> (string \<times> namespace_source) option" where
  "context_namespace H namespace profile w =
     (case namespace of
        Some n \<Rightarrow> Some (n, NamespaceFlag)
      | None \<Rightarrow>
          (case ho_env H Config.env_namespace of
             Some n \<Rightarrow> Some (n, NamespaceEnvironment)
           | None \<Rightarrow>
               (case load_profile H profile w of
                  Inl _ \<Rightarrow> None
                | Inr c \<Rightarrow> map_option (\<lambda>n. (n, NamespaceConfiguration)) (pc_namespace c))))"

text \<open>The base URL and the token, with their sources, the remaining time and the warnings.\<close>

definition context_access ::
  "('w, 'm) auth_host_scheme \<Rightarrow> bool \<Rightarrow> string \<Rightarrow> 'w \<Rightarrow>
   (string \<times> base_url_source \<times> string \<times> access_token_source \<times> string option \<times> string list) rt \<times> 'w" where
  "context_access H dry_run profile w =
     (let base = map_option (apsnd credential_base_url_source) (resolve_base_url H profile w)
      in if dry_run then
           (case (case base of Some b \<Rightarrow> b | None \<Rightarrow> (''https://<base-url>'', BaseUrlDefault)) of
              (url, src) \<Rightarrow> (Inr (url, src, ''dry-run-token'', TokenDryRun, None, []), w))
         else
           and_run (ok_or (auth_failure BaseUrlMissing) base, w) (\<lambda>(url, src) w.
           and_run (resolve_access_token H profile w) (\<lambda>r w.
             (Inr (url, src, ts_token r, token_access_source (ts_source r),
                   map_option format_duration (ts_expires_in_secs r), ts_warnings r), w))))"

definition resolve_context ::
  "('w, 'm) auth_host_scheme \<Rightarrow> resolution_input \<Rightarrow> 'w \<Rightarrow> execution_context rt \<times> 'w" where
  "resolve_context H input w =
     and_run (resolve_profile_name H (ri_profile input) w) (\<lambda>profile w.
       let profile_source =
             (if ri_profile input \<noteq> None then ProfileFlag
              else if is_env_var_set H env_profile then ProfileEnvironment else ProfileGlobalConfig)
       in and_run (context_access H (ri_is_dry_run input) profile w)
            (\<lambda>(url, url_src, token, token_src, expiry, warnings) w.
              let namespace = context_namespace H (ri_namespace input) profile w
              in (Inr \<lparr>xc_profile = profile, xc_profile_source = profile_source,
                       xc_namespace = map_option fst namespace, xc_namespace_source = map_option snd namespace,
                       xc_base_url = url, xc_base_url_source = url_src, xc_access_token = token,
                       xc_access_token_source = token_src, xc_access_token_expiry = expiry,
                       xc_access_token_warnings = warnings\<rparr>, w)))"

definition resolve_namespace ::
  "('w, 'm) host_scheme \<Rightarrow> string option \<Rightarrow> string option \<Rightarrow> 'w \<Rightarrow> (string \<times> namespace_source) option \<times> 'w" where
  "resolve_namespace H namespace_flag profile_flag w =
     (case namespace_flag of
        Some n \<Rightarrow> (Some (n, NamespaceFlag), w)
      | None \<Rightarrow>
          (case ho_env H Config.env_namespace of
             Some n \<Rightarrow> (Some (n, NamespaceEnvironment), w)
           | None \<Rightarrow>
               (case resolve_profile_name H profile_flag w of
                  (Inl _, w) \<Rightarrow> (None, w)
                | (Inr profile, w) \<Rightarrow> (context_namespace H None profile w, w))))"

section \<open>What a context holds\<close>

text \<open>A dry run resolves without a token: no lock is taken, nothing is sent, and the world is the one that the choice of the
  profile left.\<close>

lemma dry_run_resolves:
  assumes "resolve_profile_name H (ri_profile input) w = (Inr profile, w1)" "ri_is_dry_run input"
  shows "\<exists>c. resolve_context H input w = (Inr c, w1) \<and> xc_access_token_source c = TokenDryRun \<and>
    xc_access_token c = ''dry-run-token''"
  using assms by (auto simp: resolve_context_def context_access_def Let_def split: option.split)

text \<open>The namespace of a context is the one that the command line parser was given for the same flags, as long as the
  resolution of the token leaves the profile as it is.\<close>

lemma namespaces_agree:
  assumes "resolve_context H input w = (Inr c, w')"
    and profile: "resolve_profile_name H (ri_profile input) w = (Inr (xc_profile c), w1)"
    and "load_profile H (xc_profile c) w' = load_profile H (xc_profile c) w1"
  shows "fst (resolve_namespace H (ri_namespace input) (ri_profile input) w) =
    (case xc_namespace c of None \<Rightarrow> None | Some n \<Rightarrow> map_option (Pair n) (xc_namespace_source c))"
proof -
  from assms(1) profile have
    "xc_namespace c = map_option fst (context_namespace H (ri_namespace input) (xc_profile c) w')"
    "xc_namespace_source c = map_option snd (context_namespace H (ri_namespace input) (xc_profile c) w')"
    by (auto simp: resolve_context_def and_run_ok_iff Let_def dest: arg_cong [of _ _ xc_namespace] arg_cong [of _ _ xc_namespace_source])
  with assms(3) profile show ?thesis
    by (auto simp: resolve_namespace_def context_namespace_def option.map_comp split: option.splits sum.splits)
qed

text \<open>An empty variable counts as set for a request, and as not set where the configuration is shown.\<close>

lemma empty_variable_counts:
  assumes "ho_env H env_base_url = Some []"
  shows "resolve_base_url H profile w = Some ([], FromEnvironment)"
    and "find_key ''base-url'' = Some key \<Longrightarrow> snd (resolve_key H profile key w) \<noteq> EnvironmentSource"
proof -
  show "resolve_base_url H profile w = Some ([], FromEnvironment)"
    using assms by (simp add: resolve_base_url_def resolve_setting_def)
  assume "find_key ''base-url'' = Some key"
  then have "ck_cli_name key = ''base-url''" by (auto simp: find_key_def find_Some_iff)
  with assms show "snd (resolve_key H profile key w) \<noteq> EnvironmentSource"
    by (auto simp: resolve_key_def env_var_name_for_key_def filter_option_def split: option.splits sum.splits config_scope.splits)
qed

end
