(* ===== verification/Usage.thy ===== *)
theory Usage
  imports ExecContext Telemetry TimeText
begin

text \<open>
  Usage events, \<open>ags-runtime/src/runtime/telemetry/mod.rs\<close>: the switch, the identity an event is attributed to and the
  two files behind it, what is kept of the command line, and the events. \<open>posthog_rs\<close> is a parameter: an event is the
  record of the properties and groups that the code puts into it, and to send is a step of the world. Lines for the debug
  reporter are left out.
\<close>

section \<open>The switch\<close>

definition env_posthog_key :: string where "env_posthog_key = ''AGS_TELEMETRY_POSTHOG_KEY''"
definition env_posthog_host :: string where "env_posthog_host = ''AGS_TELEMETRY_POSTHOG_HOST''"
definition env_do_not_track :: string where "env_do_not_track = ''DO_NOT_TRACK''"
definition default_posthog_host :: string where "default_posthog_host = ''https://us.i.posthog.com''"
definition namespace_group :: string where "namespace_group = ''game_namespace''"
definition studio_group :: string where "studio_group = ''studio''"
definition lib_override :: string where "lib_override = ''ags-cli''"

definition resolve_api_key_with :: "('w, 'm) host_scheme \<Rightarrow> string option \<Rightarrow> string option" where
  "resolve_api_key_with H baked =
     (case ho_env H env_posthog_key of
        Some v \<Rightarrow> if v \<noteq> [] then Some v else filter_option (\<lambda>k. k \<noteq> []) baked
      | None \<Rightarrow> filter_option (\<lambda>k. k \<noteq> []) baked)"

definition enabled_api_key_with :: "('w, 'm) host_scheme \<Rightarrow> string option \<Rightarrow> string option" where
  "enabled_api_key_with H baked = (if is_env_var_set H env_do_not_track then None else resolve_api_key_with H baked)"

definition is_enabled_with :: "('w, 'm) host_scheme \<Rightarrow> string option \<Rightarrow> bool" where
  "is_enabled_with H baked \<longleftrightarrow> enabled_api_key_with H baked \<noteq> None"

section \<open>Events and the host\<close>

record usage_event =
  ev_name :: string
  ev_distinct_id :: string
  ev_props :: json
  ev_groups :: "(string \<times> string) list"

text \<open>\<open>ug_baked\<close> is the key of the build; \<open>ug_hash\<close> is \<open>DefaultHasher\<close> on a text; \<open>ug_random\<close> draws sixteen bytes;
  \<open>ug_users_me\<close> is the request with its bearer token, an error for every failure up to the reply; \<open>ug_connect\<close> builds the
  client from a key and a host.\<close>

record 'w usage_host = "'w auth_host" +
  ug_baked :: "string option"
  ug_base64_decode :: "string \<Rightarrow> string option"
  ug_hash :: "string \<Rightarrow> nat"
  ug_random :: "'w \<Rightarrow> string \<times> 'w"
  ug_users_me :: "string \<Rightarrow> string \<Rightarrow> 'w \<Rightarrow> (string + raw_response) \<times> 'w"
  ug_connect :: "string \<Rightarrow> string \<Rightarrow> 'w \<Rightarrow> bool \<times> 'w"
  ug_capture :: "usage_event \<Rightarrow> 'w \<Rightarrow> 'w"
  ug_flush :: "'w \<Rightarrow> 'w"

definition enabled_api_key :: "('w, 'm) usage_host_scheme \<Rightarrow> string option" where
  "enabled_api_key H = enabled_api_key_with H (ug_baked H)"

definition is_enabled_by_env :: "('w, 'm) usage_host_scheme \<Rightarrow> bool" where
  "is_enabled_by_env H \<longleftrightarrow> is_enabled_with H (ug_baked H)"

text \<open>A client is there or not (\<open>TelemetryClient::inner\<close>).\<close>

definition client_from_env :: "('w, 'm) usage_host_scheme \<Rightarrow> 'w \<Rightarrow> bool \<times> 'w" where
  "client_from_env H w =
     (case enabled_api_key H of
        None \<Rightarrow> (False, w)
      | Some key \<Rightarrow>
          ug_connect H key
            (case filter_option (\<lambda>h. trim_text h \<noteq> []) (ho_env H env_posthog_host) of
               Some h \<Rightarrow> h | None \<Rightarrow> default_posthog_host) w)"

definition client_capture :: "('w, 'm) usage_host_scheme \<Rightarrow> bool \<Rightarrow> usage_event \<Rightarrow> 'w \<Rightarrow> 'w" where
  "client_capture H client e w = (if client then ug_capture H e w else w)"

definition client_flush :: "('w, 'm) usage_host_scheme \<Rightarrow> bool \<Rightarrow> 'w \<Rightarrow> 'w" where
  "client_flush H client w = (if client then ug_flush H w else w)"

section \<open>Claims\<close>

text \<open>Exactly three segments; the middle one is decoded.\<close>

definition decode_claims :: "('w, 'm) usage_host_scheme \<Rightarrow> string \<Rightarrow> json option" where
  "decode_claims H token =
     Option.bind (split_once CHR ''.'' token) (\<lambda>(_, r).
     Option.bind (split_once CHR ''.'' r) (\<lambda>(payload, signature).
       if CHR ''.'' \<in> set signature then None
       else Option.bind (ug_base64_decode H payload) (\<lambda>bytes.
         case ho_parse H bytes of Inl _ \<Rightarrow> None | Inr v \<Rightarrow> Some v)))"

definition text_claim :: "string \<Rightarrow> json \<Rightarrow> string option" where
  "text_claim name v =
     (case v of JObj m \<Rightarrow> (case bget m name of Some (JStr s) \<Rightarrow> Some s | _ \<Rightarrow> None) | _ \<Rightarrow> None)"

definition decode_sub :: "('w, 'm) usage_host_scheme \<Rightarrow> string \<Rightarrow> string option" where
  "decode_sub H token = Option.bind (decode_claims H token) (text_claim ''sub'')"

definition decode_parent_namespace :: "('w, 'm) usage_host_scheme \<Rightarrow> string \<Rightarrow> string option" where
  "decode_parent_namespace H token = Option.bind (decode_claims H token) (text_claim ''parent_namespace'')"

definition classify_auth_grant :: "grant_type option \<Rightarrow> string option" where
  "classify_auth_grant g = map_option as_oauth_param g"

section \<open>The cached email\<close>

record email_cache =
  ec_token_fingerprint :: nat
  ec_email :: string

definition email_cache_json :: "email_cache \<Rightarrow> json" where
  "email_cache_json c =
     json_fields [(''token_fingerprint'', Some (JInt (int (ec_token_fingerprint c)))), (''email'', Some (JStr (ec_email c)))]"

definition json_email_cache :: "json \<Rightarrow> email_cache option" where
  "json_email_cache v =
     Option.bind (struct_fields [''token_fingerprint'', ''email''] [] v) (\<lambda>f.
     Option.bind (required_field as_u64 (f ''token_fingerprint'')) (\<lambda>n.
     Option.bind (required_field as_str (f ''email'')) (\<lambda>e.
       Some \<lparr>ec_token_fingerprint = n, ec_email = e\<rparr>)))"

definition profile_file :: "('w, 'm) host_scheme \<Rightarrow> string \<Rightarrow> string \<Rightarrow> string option" where
  "profile_file H profile name = (case subpath (profile_dir H profile) name of Inr p \<Rightarrow> Some p | Inl _ \<Rightarrow> None)"

definition email_cache_path :: "('w, 'm) host_scheme \<Rightarrow> string \<Rightarrow> string option" where
  "email_cache_path H profile = profile_file H profile ''telemetry_email_cache.json''"

definition token_fingerprint :: "('w, 'm) usage_host_scheme \<Rightarrow> string \<Rightarrow> nat" where
  "token_fingerprint H token = ug_hash H token"

text \<open>The value of a file of the profile, when there is one and it fits.\<close>

definition read_profile_file :: "('w, 'm) host_scheme \<Rightarrow> (json \<Rightarrow> 'a option) \<Rightarrow> string \<Rightarrow> 'w \<Rightarrow> 'a option" where
  "read_profile_file H fits path w =
     (case ho_read H path w of
        Inl _ \<Rightarrow> None
      | Inr text \<Rightarrow> (case ho_parse H text of Inl _ \<Rightarrow> None | Inr v \<Rightarrow> fits v))"

definition write_profile_file :: "('w, 'm) host_scheme \<Rightarrow> string option \<Rightarrow> json \<Rightarrow> 'w \<Rightarrow> 'w" where
  "write_profile_file H path v w =
     (case path of
        None \<Rightarrow> w
      | Some p \<Rightarrow>
          (case path_parent p of
             None \<Rightarrow> w
           | Some parent \<Rightarrow>
               (case create_dir_restricted H parent w of
                  (Inl _, w) \<Rightarrow> w
                | (Inr _, w) \<Rightarrow> snd (write_file_restricted H p (ho_print H v) w))))"

definition read_cached_email :: "('w, 'm) usage_host_scheme \<Rightarrow> string \<Rightarrow> string \<Rightarrow> 'w \<Rightarrow> string option" where
  "read_cached_email H profile token w =
     Option.bind (email_cache_path H profile) (\<lambda>path.
     Option.bind (read_profile_file H json_email_cache path w) (\<lambda>c.
       if ec_token_fingerprint c = token_fingerprint H token then Some (ec_email c) else None))"

definition write_cached_email :: "('w, 'm) usage_host_scheme \<Rightarrow> string \<Rightarrow> string \<Rightarrow> string \<Rightarrow> 'w \<Rightarrow> 'w" where
  "write_cached_email H profile token email w =
     write_profile_file H (email_cache_path H profile)
       (email_cache_json \<lparr>ec_token_fingerprint = token_fingerprint H token, ec_email = email\<rparr>) w"

definition clear_cached_email :: "('w, 'm) host_scheme \<Rightarrow> string \<Rightarrow> 'w \<Rightarrow> 'w" where
  "clear_cached_email H profile w =
     (case email_cache_path H profile of None \<Rightarrow> w | Some path \<Rightarrow> snd (ho_remove_file H path w))"

definition fetch_email :: "('w, 'm) usage_host_scheme \<Rightarrow> string \<Rightarrow> string \<Rightarrow> 'w \<Rightarrow> string option \<times> 'w" where
  "fetch_email H profile token w =
     (case resolve_base_url_value H profile w of
        None \<Rightarrow> (None, w)
      | Some base_url \<Rightarrow>
          (case ug_users_me H (trim_end_char CHR ''/'' base_url @ ''/iam/v3/admin/users/me'') token w of
             (Inl _, w) \<Rightarrow> (None, w)
           | (Inr r, w) \<Rightarrow>
               (if \<not> is_success (raw_status r) then None
                else case read_response_body r of
                  Inl _ \<Rightarrow> None
                | Inr body \<Rightarrow> (case ho_parse H body of Inl _ \<Rightarrow> None | Inr v \<Rightarrow> text_claim ''emailAddress'' v), w)))"

section \<open>The identity of an installation\<close>

record install_identity =
  in_install_id :: string
  in_merged_into_sub :: "string option"

definition install_identity_json :: "install_identity \<Rightarrow> json" where
  "install_identity_json i =
     json_fields
       [(''install_id'', Some (JStr (in_install_id i))),
        (''merged_into_sub'', Some (case in_merged_into_sub i of Some s \<Rightarrow> JStr s | None \<Rightarrow> JNull))]"

definition json_install_identity :: "json \<Rightarrow> install_identity option" where
  "json_install_identity v =
     Option.bind (struct_fields [''install_id'', ''merged_into_sub''] [] v) (\<lambda>f.
     Option.bind (required_field as_str (f ''install_id'')) (\<lambda>i.
     Option.bind (optional_field as_str (f ''merged_into_sub'')) (\<lambda>s.
       Some \<lparr>in_install_id = i, in_merged_into_sub = s\<rparr>)))"

definition install_identity_path :: "('w, 'm) host_scheme \<Rightarrow> string \<Rightarrow> string option" where
  "install_identity_path H profile = profile_file H profile ''telemetry_install_id.json''"

definition lower_hex :: "nat \<Rightarrow> char" where
  "lower_hex d = char_of (if d < 10 then 48 + d else 87 + d)"

definition new_install_id :: "('w, 'm) usage_host_scheme \<Rightarrow> 'w \<Rightarrow> string \<times> 'w" where
  "new_install_id H w =
     apfst (\<lambda>bytes. ''anon-'' @
       concat (map (\<lambda>c. let n = (of_char c :: nat) in [lower_hex (n div 16), lower_hex (n mod 16)]) bytes))
       (ug_random H w)"

definition write_install_identity :: "('w, 'm) host_scheme \<Rightarrow> string \<Rightarrow> install_identity \<Rightarrow> 'w \<Rightarrow> 'w" where
  "write_install_identity H profile i w = write_profile_file H (install_identity_path H profile) (install_identity_json i) w"

definition load_or_create_install_identity ::
  "('w, 'm) usage_host_scheme \<Rightarrow> string \<Rightarrow> 'w \<Rightarrow> install_identity option \<times> 'w" where
  "load_or_create_install_identity H profile w =
     (if \<not> is_enabled_by_env H then (None, w)
      else case install_identity_path H profile of
        None \<Rightarrow> (None, w)
      | Some path \<Rightarrow>
          (case read_profile_file H json_install_identity path w of
             Some i \<Rightarrow> (Some i, w)
           | None \<Rightarrow>
               (case new_install_id H w of
                  (anon, w) \<Rightarrow>
                    (let i = \<lparr>in_install_id = anon, in_merged_into_sub = None\<rparr>
                     in (Some i, write_install_identity H profile i w)))))"

definition record_identity_merge :: "('w, 'm) usage_host_scheme \<Rightarrow> string \<Rightarrow> string \<Rightarrow> 'w \<Rightarrow> 'w" where
  "record_identity_merge H profile sub w =
     (case load_or_create_install_identity H profile w of
        (None, w) \<Rightarrow> w
      | (Some current, w) \<Rightarrow>
          (if (case in_merged_into_sub current of Some s \<Rightarrow> s \<noteq> sub | None \<Rightarrow> False) then
             (case new_install_id H w of
                (anon, w) \<Rightarrow> write_install_identity H profile \<lparr>in_install_id = anon, in_merged_into_sub = None\<rparr> w)
           else
             write_install_identity H profile
               \<lparr>in_install_id = in_install_id current, in_merged_into_sub = Some sub\<rparr> w))"

definition build_identify_event :: "string \<Rightarrow> string \<Rightarrow> string option \<Rightarrow> usage_event" where
  "build_identify_event sub anon email =
     \<lparr>ev_name = ''$identify'', ev_distinct_id = sub,
      ev_props = json_fields
        [(''$lib'', Some (JStr lib_override)), (''$anon_distinct_id'', Some (JStr anon)),
         (''$set'', map_option (\<lambda>e. json_fields [(''email'', Some (JStr e))]) email)],
      ev_groups = []\<rparr>"

definition emit_identity_merge ::
  "('w, 'm) usage_host_scheme \<Rightarrow> string \<Rightarrow> string \<Rightarrow> string option \<Rightarrow> 'w \<Rightarrow> 'w" where
  "emit_identity_merge H profile sub email w =
     (case load_or_create_install_identity H profile w of
        (None, w) \<Rightarrow> w
      | (Some i, w) \<Rightarrow>
          (if in_merged_into_sub i \<noteq> None then record_identity_merge H profile sub w
           else case client_from_env H w of
             (client, w) \<Rightarrow>
               record_identity_merge H profile sub
                 (client_flush H client (client_capture H client (build_identify_event sub (in_install_id i) email) w))))"

section \<open>What is kept of a command line\<close>

definition max_routing_depth :: "string list \<Rightarrow> nat" where
  "max_routing_depth path =
     (case path of [] \<Rightarrow> 3 | t # _ \<Rightarrow> if t = ''workflow'' \<or> t = ''profile'' then 2 else 3)"

definition command_path_names :: "string list \<Rightarrow> string" where
  "command_path_names path =
     join_with '' '' (take (max_routing_depth path) (takeWhile (\<lambda>t. \<not> prefix ''-'' t) path))"

definition value_safe_flags :: "string list" where
  "value_safe_flags = [''--namespace'', ''-n'', ''--format'', ''--ui'', ''--user-id'', ''--client-id'']"

definition boolean_flags :: "string list" where
  "boolean_flags =
     [''--all'', ''--global'', ''--offline'', ''--validate-only'', ''--client-secret-stdin'', ''--dry-run'', ''--no-color'',
      ''--no-input'', ''--quiet'', ''-q'', ''--verbose'', ''-v'', ''--yes'', ''-y'', ''--skeleton'', ''--page-all'',
      ''--symbol-files'', ''--skip-script-validation'', ''--help'', ''-h'', ''--version'', ''-V'']"

definition redacted_value :: string where
  "redacted_value = ''<redacted>''"

record flag_capture =
  fc_names :: "string list"
  fc_values :: "string bmap"

definition no_flags :: flag_capture where
  "no_flags = \<lparr>fc_names = [], fc_values = []\<rparr>"

definition looks_like_flag_name :: "string \<Rightarrow> bool" where
  "looks_like_flag_name n \<longleftrightarrow>
     n \<noteq> [] \<and> \<not> prefix ''-'' n \<and> \<not> suffix ''-'' n \<and> \<not> contains_text ''--'' n \<and>
     list_all (\<lambda>c. is_lower c \<or> c = CHR ''-'') n"

definition looks_like_flag :: "string \<Rightarrow> bool" where
  "looks_like_flag tok \<longleftrightarrow>
     (case strip_prefix ''--'' tok of
        Some rest \<Rightarrow> looks_like_flag_name (before_match (\<lambda>c. c = CHR ''='') rest)
      | None \<Rightarrow>
          (case strip_prefix ''-'' tok of
             None \<Rightarrow> False
           | Some rest \<Rightarrow>
               (case before_match (\<lambda>c. c = CHR ''='') rest of [c] \<Rightarrow> is_upper c \<or> is_lower c | _ \<Rightarrow> False)))"

definition add_flag_name :: "string \<Rightarrow> flag_capture \<Rightarrow> flag_capture" where
  "add_flag_name name c = (if name \<in> set (fc_names c) then c else c\<lparr>fc_names := fc_names c @ [name]\<rparr>)"

definition record_flag_value :: "string \<Rightarrow> string \<Rightarrow> flag_capture \<Rightarrow> flag_capture" where
  "record_flag_value name v c =
     c\<lparr>fc_values := binsert name (if name \<in> set value_safe_flags then v else redacted_value) (fc_values c)\<rparr>"

text \<open>A flag with its value after \<open>=\<close>, if it has one.\<close>

definition split_flag :: "string \<Rightarrow> string \<times> string option" where
  "split_flag tok = (case split_once CHR ''='' tok of Some (n, v) \<Rightarrow> (n, Some v) | None \<Rightarrow> (tok, None))"

fun extract_flags_into :: "string list \<Rightarrow> flag_capture \<Rightarrow> flag_capture" where
  "extract_flags_into [] c = c"
| "extract_flags_into (tok # rest) c =
     (if \<not> looks_like_flag tok then extract_flags_into rest c
      else case split_flag tok of
        (name, Some v) \<Rightarrow> extract_flags_into rest (record_flag_value name v (add_flag_name name c))
      | (name, None) \<Rightarrow>
          (if name \<in> set boolean_flags then extract_flags_into rest (add_flag_name name c)
           else case rest of
             [] \<Rightarrow> add_flag_name name c
           | v # rest' \<Rightarrow> extract_flags_into rest' (record_flag_value name v (add_flag_name name c))))"

definition extract_flags :: "string list \<Rightarrow> flag_capture" where
  "extract_flags argv = extract_flags_into argv no_flags"

fun merge_global_flags :: "flag_capture \<Rightarrow> (string \<times> string option) list \<Rightarrow> flag_capture" where
  "merge_global_flags c [] = c"
| "merge_global_flags c ((name, v) # ps) =
     (let c = add_flag_name name c
      in merge_global_flags (case v of Some v \<Rightarrow> record_flag_value name v c | None \<Rightarrow> c) ps)"

section \<open>The context of an invocation\<close>

datatype resolved_identity = Authenticated string | Anonymous string

definition identity_distinct_id :: "resolved_identity \<Rightarrow> string" where
  "identity_distinct_id i = (case i of Authenticated sub \<Rightarrow> sub | Anonymous anon \<Rightarrow> anon)"

definition identity_label :: "resolved_identity \<Rightarrow> string" where
  "identity_label i = (case i of Authenticated _ \<Rightarrow> ''authenticated'' | Anonymous _ \<Rightarrow> ''anonymous'')"

definition resolve_identity ::
  "('w, 'm) usage_host_scheme \<Rightarrow> string option \<Rightarrow> 'w \<Rightarrow> resolved_identity option \<times> 'w" where
  "resolve_identity H profile_flag w =
     (if \<not> is_enabled_by_env H then (None, w)
      else case resolve_profile_name H profile_flag w of
        (Inl _, w) \<Rightarrow> (None, w)
      | (Inr profile, w) \<Rightarrow>
          (case Option.bind (stored_token H profile w) (\<lambda>t. decode_sub H (td_access_token t)) of
             Some sub \<Rightarrow> (Some (Authenticated sub), w)
           | None \<Rightarrow>
               apfst (map_option (\<lambda>i. Anonymous (in_install_id i))) (load_or_create_install_identity H profile w)))"

definition resolve_authenticated_extras ::
  "('w, 'm) usage_host_scheme \<Rightarrow> string option \<Rightarrow> 'w \<Rightarrow> (string option \<times> string option \<times> string option) \<times> 'w" where
  "resolve_authenticated_extras H profile_flag w =
     (case resolve_profile_name H profile_flag w of
        (Inl _, w) \<Rightarrow> ((None, None, None), w)
      | (Inr profile, w) \<Rightarrow>
          (case stored_token H profile w of
             None \<Rightarrow> ((None, None, None), w)
           | Some t \<Rightarrow>
               (let (email, w) =
                      (case read_cached_email H profile (td_access_token t) w of
                         Some e \<Rightarrow> (Some e, w)
                       | None \<Rightarrow>
                           (case fetch_email H profile (td_access_token t) w of
                              (Some e, w) \<Rightarrow> (Some e, write_cached_email H profile (td_access_token t) e w)
                            | (None, w) \<Rightarrow> (None, w)))
                in ((email, decode_parent_namespace H (td_access_token t), classify_auth_grant (td_grant_type t)), w))))"

record command_telemetry =
  ct_distinct_id :: string
  ct_identity :: string
  ct_ui_surface :: string
  ct_email :: "string option"
  ct_namespace :: "string option"
  ct_studio :: "string option"
  ct_command_path :: string
  ct_flags :: flag_capture
  ct_cli_version :: string
  ct_auth_grant :: "string option"
  ct_workflow_run_id :: "string option"
  ct_workflow_id :: "string option"

text \<open>The arguments of \<open>gather_context\<close>.\<close>

record invocation =
  iv_profile_flag :: "string option"
  iv_namespace_flag :: "string option"
  iv_global_flags :: "(string \<times> string option) list"
  iv_command_path :: "string list"
  iv_cli_version :: string
  iv_workflow_run_id :: "string option"
  iv_ui_surface :: string
  iv_workflow_id :: "string option"

definition gather_context ::
  "('w, 'm) usage_host_scheme \<Rightarrow> invocation \<Rightarrow> 'w \<Rightarrow> command_telemetry option \<times> 'w" where
  "gather_context H call w =
     (if \<not> is_enabled_by_env H then (None, w)
      else let names = command_path_names (iv_command_path call) in
        if names = [] then (None, w)
        else case resolve_identity H (iv_profile_flag call) w of
          (None, w) \<Rightarrow> (None, w)
        | (Some identity, w) \<Rightarrow>
            (case resolve_namespace H (iv_namespace_flag call) (iv_profile_flag call) w of
               (namespace, w) \<Rightarrow>
                 (case (case identity of
                          Authenticated _ \<Rightarrow> resolve_authenticated_extras H (iv_profile_flag call) w
                        | Anonymous _ \<Rightarrow> ((None, None, None), w)) of
                    ((email, studio, grant), w) \<Rightarrow>
                      (Some \<lparr>ct_distinct_id = identity_distinct_id identity, ct_identity = identity_label identity,
                             ct_ui_surface = iv_ui_surface call, ct_email = email, ct_namespace = map_option fst namespace,
                             ct_studio = studio, ct_command_path = names,
                             ct_flags = merge_global_flags (extract_flags (iv_command_path call)) (iv_global_flags call),
                             ct_cli_version = iv_cli_version call, ct_auth_grant = grant,
                             ct_workflow_run_id = iv_workflow_run_id call, ct_workflow_id = iv_workflow_id call\<rparr>, w))))"

section \<open>The event of a command\<close>

record usage_outcome =
  uo_status :: string
  uo_exit_code :: int
  uo_error_class :: "string option"
  uo_http_status :: "nat option"
  uo_error_code :: "string option"

definition command_flag_json :: "flag_capture \<Rightarrow> json" where
  "command_flag_json c =
     json_obj (map (\<lambda>n. (n, case bget (fc_values c) n of Some v \<Rightarrow> JStr v | None \<Rightarrow> JNull)) (fc_names c))"

text \<open>\<open>elapsed\<close> is the time since the start, in milliseconds.\<close>

definition build_event :: "command_telemetry \<Rightarrow> usage_outcome \<Rightarrow> nat \<Rightarrow> usage_event" where
  "build_event ctx outcome elapsed =
     \<lparr>ev_name = ''cli.command.invoked'', ev_distinct_id = ct_distinct_id ctx,
      ev_props = json_fields
        [(''$set'', map_option (\<lambda>e. json_fields [(''email'', Some (JStr e))]) (ct_email ctx)),
         (''$lib'', Some (JStr lib_override)),
         (''identity'', Some (JStr (ct_identity ctx))),
         (''ui_surface'', Some (JStr (ct_ui_surface ctx))),
         (''command_path'', Some (JStr (ct_command_path ctx))),
         (''command_flag'', Some (command_flag_json (ct_flags ctx))),
         (''cli_version'', Some (JStr (ct_cli_version ctx))),
         (''duration_ms'', Some (JInt (min (int elapsed) (2 ^ 63 - 1)))),
         (''outcome'', Some (JStr (uo_status outcome))),
         (''exit_code'', Some (JInt (uo_exit_code outcome))),
         (''error_class'', map_option JStr (uo_error_class outcome)),
         (''workflow_run_id'', map_option JStr (ct_workflow_run_id ctx)),
         (''workflow_id'', map_option JStr (ct_workflow_id ctx)),
         (''http_status'', map_option (\<lambda>n. JInt (int n)) (uo_http_status outcome)),
         (''error_code'', map_option JStr (uo_error_code outcome)),
         (''auth_grant'', map_option JStr (ct_auth_grant ctx))],
      ev_groups =
        (case ct_namespace ctx of Some n \<Rightarrow> [(namespace_group, n)] | None \<Rightarrow> []) @
        (case ct_studio ctx of Some s \<Rightarrow> [(studio_group, s)] | None \<Rightarrow> [])\<rparr>"

definition emit_with_outcome ::
  "('w, 'm) usage_host_scheme \<Rightarrow> command_telemetry \<Rightarrow> usage_outcome \<Rightarrow> nat \<Rightarrow> 'w \<Rightarrow> 'w" where
  "emit_with_outcome H ctx outcome elapsed w =
     (case client_from_env H w of
        (client, w) \<Rightarrow> client_flush H client (client_capture H client (build_event ctx outcome elapsed) w))"

section \<open>The events of a workflow run\<close>

record workflow_step_context =
  wx_run_id :: string
  wx_workflow_id :: string
  wx_steps_total :: nat
  wx_cli_version :: string
  wx_is_dry_run :: bool
  wx_ui_surface :: string

record step_completed_facts =
  sc_outcome :: string
  sc_reason :: "string option"
  sc_attempts :: nat
  sc_duration_ms :: nat
  sc_error_class :: "string option"
  sc_http_status :: "nat option"
  sc_error_code :: "string option"
  sc_input_fields :: "step_input_field list"
  sc_service :: string
  sc_operation :: string

record run_completed_facts =
  rc_outcome :: string
  rc_reason :: "string option"
  rc_duration_ms :: nat
  rc_run_mode :: "string option"
  rc_steps_started :: nat
  rc_steps_succeeded :: nat
  rc_steps_failed :: nat
  rc_steps_skipped :: nat
  rc_steps_cancelled :: nat
  rc_last_step_index :: "nat option"
  rc_error_class :: "string option"
  rc_http_status :: "nat option"
  rc_error_code :: "string option"
  rc_inputs_from_flag :: nat
  rc_inputs_from_prompt :: nat
  rc_inputs_from_default :: nat
  rc_inputs_edited_in_form :: nat

text \<open>A count is cast to \<open>i64\<close>; other numbers go as they are.\<close>

definition count_prop :: "nat \<Rightarrow> json option" where
  "count_prop n = Some (JInt (wrap64 (int n)))"

definition number_prop :: "nat \<Rightarrow> json option" where
  "number_prop n = Some (JInt (int n))"

definition text_prop :: "string \<Rightarrow> json option" where
  "text_prop s = Some (JStr s)"

definition step_event :: "string \<Rightarrow> string \<Rightarrow> (string \<times> json option) list \<Rightarrow> usage_event" where
  "step_event name sub props =
     \<lparr>ev_name = name, ev_distinct_id = sub, ev_props = json_fields ((''$lib'', text_prop lib_override) # props), ev_groups = []\<rparr>"

definition location_name :: "step_field_location \<Rightarrow> string" where
  "location_name l =
     (case l of LocPath \<Rightarrow> ''path'' | LocQuery \<Rightarrow> ''query'' | LocHeader \<Rightarrow> ''header'' | LocBody \<Rightarrow> ''body''
              | LocFormData \<Rightarrow> ''form_data'')"

definition step_input_fields_to_json :: "step_input_field list \<Rightarrow> json" where
  "step_input_fields_to_json fs =
     JArr (map (\<lambda>f. json_fields
       [(''field'', text_prop (if_field f)), (''location'', text_prop (location_name (if_location f))),
        (''source'', text_prop (if_source f)), (''required'', Some (JBool (if_required f))),
        (''value'', Some (case if_value f of Some v \<Rightarrow> v | None \<Rightarrow> JNull))]) fs)"

definition build_step_started_event ::
  "string \<Rightarrow> workflow_step_context \<Rightarrow> nat \<Rightarrow> string \<Rightarrow> string \<Rightarrow> string \<Rightarrow> usage_event" where
  "build_step_started_event sub ctx index step_id service op =
     step_event ''cli.workflow.step_started'' sub
       [(''run_id'', text_prop (wx_run_id ctx)), (''workflow_id'', text_prop (wx_workflow_id ctx)),
        (''step_index'', count_prop index), (''step_id'', text_prop step_id),
        (''steps_total'', count_prop (wx_steps_total ctx)), (''cli_version'', text_prop (wx_cli_version ctx)),
        (''is_dry_run'', Some (JBool (wx_is_dry_run ctx))), (''service'', text_prop service),
        (''operation'', text_prop op)]"

definition build_step_completed_event ::
  "string \<Rightarrow> workflow_step_context \<Rightarrow> nat \<Rightarrow> string \<Rightarrow> step_completed_facts \<Rightarrow> usage_event" where
  "build_step_completed_event sub ctx index step_id facts =
     step_event ''cli.workflow.step_completed'' sub
       [(''run_id'', text_prop (wx_run_id ctx)), (''workflow_id'', text_prop (wx_workflow_id ctx)),
        (''step_index'', count_prop index), (''step_id'', text_prop step_id),
        (''steps_total'', count_prop (wx_steps_total ctx)), (''cli_version'', text_prop (wx_cli_version ctx)),
        (''outcome'', text_prop (sc_outcome facts)),
        (''outcome_reason'', Option.bind (sc_reason facts) text_prop),
        (''attempts'', number_prop (sc_attempts facts)), (''duration_ms'', number_prop (sc_duration_ms facts)),
        (''error_class'', Option.bind (sc_error_class facts) text_prop),
        (''http_status'', Option.bind (sc_http_status facts) number_prop),
        (''error_code'', Option.bind (sc_error_code facts) text_prop),
        (''input_fields'', if sc_input_fields facts = [] then None
                           else Some (step_input_fields_to_json (sc_input_fields facts))),
        (''is_dry_run'', Some (JBool (wx_is_dry_run ctx))), (''service'', text_prop (sc_service facts)),
        (''operation'', text_prop (sc_operation facts))]"

text \<open>The properties that the start and the end of a run share.\<close>

definition run_props :: "workflow_step_context \<Rightarrow> bool \<Rightarrow> bool \<Rightarrow> (string \<times> json option) list" where
  "run_props ctx assume_yes no_input =
     [(''run_id'', text_prop (wx_run_id ctx)), (''workflow_id'', text_prop (wx_workflow_id ctx)),
      (''steps_total'', count_prop (wx_steps_total ctx)), (''cli_version'', text_prop (wx_cli_version ctx)),
      (''is_dry_run'', Some (JBool (wx_is_dry_run ctx))), (''ui_surface'', text_prop (wx_ui_surface ctx)),
      (''assume_yes'', Some (JBool assume_yes)), (''no_input'', Some (JBool no_input))]"

definition build_run_started_event :: "string \<Rightarrow> workflow_step_context \<Rightarrow> bool \<Rightarrow> bool \<Rightarrow> usage_event" where
  "build_run_started_event sub ctx assume_yes no_input =
     step_event ''cli.workflow.run_started'' sub (run_props ctx assume_yes no_input)"

definition build_run_completed_event ::
  "string \<Rightarrow> workflow_step_context \<Rightarrow> run_completed_facts \<Rightarrow> bool \<Rightarrow> bool \<Rightarrow> usage_event" where
  "build_run_completed_event sub ctx facts assume_yes no_input =
     step_event ''cli.workflow.run_completed'' sub (run_props ctx assume_yes no_input @
       [(''outcome'', text_prop (rc_outcome facts)),
        (''outcome_reason'', Option.bind (rc_reason facts) text_prop),
        (''duration_ms'', number_prop (rc_duration_ms facts)),
        (''run_mode'', Option.bind (rc_run_mode facts) text_prop),
        (''steps_started'', count_prop (rc_steps_started facts)), (''steps_succeeded'', count_prop (rc_steps_succeeded facts)),
        (''steps_failed'', count_prop (rc_steps_failed facts)), (''steps_skipped'', count_prop (rc_steps_skipped facts)),
        (''steps_cancelled'', count_prop (rc_steps_cancelled facts)),
        (''last_step_index'', Option.bind (rc_last_step_index facts) count_prop),
        (''error_class'', Option.bind (rc_error_class facts) text_prop),
        (''http_status'', Option.bind (rc_http_status facts) number_prop),
        (''error_code'', Option.bind (rc_error_code facts) text_prop),
        (''inputs_from_flag'', count_prop (rc_inputs_from_flag facts)),
        (''inputs_from_prompt'', count_prop (rc_inputs_from_prompt facts)),
        (''inputs_from_default'', count_prop (rc_inputs_from_default facts)),
        (''inputs_edited_in_form'', count_prop (rc_inputs_edited_in_form facts))])"

text \<open>Each event is queued on the client.\<close>

definition capture_workflow_step_started ::
  "('w, 'm) usage_host_scheme \<Rightarrow> bool \<Rightarrow> string \<Rightarrow> workflow_step_context \<Rightarrow> nat \<Rightarrow> string \<Rightarrow> string \<Rightarrow> string \<Rightarrow> 'w \<Rightarrow> 'w" where
  "capture_workflow_step_started H client sub ctx index step_id service op w =
     client_capture H client (build_step_started_event sub ctx index step_id service op) w"

definition capture_workflow_step_completed ::
  "('w, 'm) usage_host_scheme \<Rightarrow> bool \<Rightarrow> string \<Rightarrow> workflow_step_context \<Rightarrow> nat \<Rightarrow> string \<Rightarrow> step_completed_facts \<Rightarrow> 'w \<Rightarrow> 'w" where
  "capture_workflow_step_completed H client sub ctx index step_id facts w =
     client_capture H client (build_step_completed_event sub ctx index step_id facts) w"

definition capture_workflow_run_started ::
  "('w, 'm) usage_host_scheme \<Rightarrow> bool \<Rightarrow> string \<Rightarrow> workflow_step_context \<Rightarrow> bool \<Rightarrow> bool \<Rightarrow> 'w \<Rightarrow> 'w" where
  "capture_workflow_run_started H client sub ctx assume_yes no_input w =
     client_capture H client (build_run_started_event sub ctx assume_yes no_input) w"

definition capture_workflow_run_completed ::
  "('w, 'm) usage_host_scheme \<Rightarrow> bool \<Rightarrow> string \<Rightarrow> workflow_step_context \<Rightarrow> run_completed_facts \<Rightarrow> bool \<Rightarrow> bool \<Rightarrow> 'w \<Rightarrow> 'w" where
  "capture_workflow_run_completed H client sub ctx facts assume_yes no_input w =
     client_capture H client (build_run_completed_event sub ctx facts assume_yes no_input) w"

section \<open>What leaves the machine\<close>

text \<open>Whether the last token of a command line is a flag that waits for its value.\<close>

fun awaits_value :: "string list \<Rightarrow> bool" where
  "awaits_value [] = False"
| "awaits_value (tok # rest) =
     (if \<not> looks_like_flag tok then awaits_value rest
      else case split_flag tok of
        (_, Some _) \<Rightarrow> awaits_value rest
      | (name, None) \<Rightarrow>
          (if name \<in> set boolean_flags then awaits_value rest
           else case rest of [] \<Rightarrow> True | _ # rest' \<Rightarrow> awaits_value rest'))"

lemma extract_append:
  "\<not> awaits_value pre \<Longrightarrow> extract_flags_into (pre @ ts) c = extract_flags_into ts (extract_flags_into pre c)"
proof (induction pre c rule: extract_flags_into.induct)
  case (2 tok rest c)
  then show ?case by (cases "split_flag tok") (auto split: option.splits if_splits list.splits)
qed simp

lemma before_match_all: "(\<And>x. x \<in> set a \<Longrightarrow> \<not> P x) \<Longrightarrow> before_match P a = a"
  by (auto simp: before_match_def takeWhile_eq_all_conv)

lemma split_flag_plain: "CHR ''='' \<notin> set n \<Longrightarrow> split_flag n = (n, None)"
proof -
  assume "CHR ''='' \<notin> set n"
  then have "from_match (\<lambda>c. c = CHR ''='') n = []" by (auto simp: from_match_def dropWhile_eq_Nil_conv)
  then show ?thesis by (simp add: split_flag_def split_once_def)
qed

lemma split_flag_inline: "CHR ''='' \<notin> set n \<Longrightarrow> split_flag (n @ CHR ''='' # v) = (n, Some v)"
proof -
  assume n: "CHR ''='' \<notin> set n"
  then have "from_match (\<lambda>c. c = CHR ''='') (n @ CHR ''='' # v) = CHR ''='' # v"
    unfolding from_match_def by (subst dropWhile_append2) auto
  moreover have "before_match (\<lambda>c. c = CHR ''='') (n @ CHR ''='' # v) = n"
    using n by (intro before_match_append) auto
  ultimately show ?thesis by (simp add: split_flag_def split_once_def)
qed

lemma flag_dash: "looks_like_flag tok \<Longrightarrow> prefix ''-'' tok"
  by (auto simp: looks_like_flag_def strip_prefix_def split: option.splits if_splits elim: prefix_order.trans [rotated])

lemma flag_with_value:
  assumes "looks_like_flag n" "CHR ''='' \<notin> set n"
  shows "looks_like_flag (n @ CHR ''='' # v)"
proof (cases "strip_prefix ''--'' n")
  case (Some r)
  then have n: "n = ''--'' @ r" by (simp add: strip_prefix_some)
  with assms(2) have "before_match (\<lambda>c. c = CHR ''='') (r @ CHR ''='' # v) = r" "before_match (\<lambda>c. c = CHR ''='') r = r"
    by (auto intro!: before_match_append before_match_all)
  with assms(1) n show ?thesis by (simp add: looks_like_flag_def strip_prefix_def)
next
  case None
  with assms(1) obtain r c where r: "strip_prefix ''-'' n = Some r" and c: "before_match (\<lambda>c. c = CHR ''='') r = [c]"
    and letter: "is_upper c \<or> is_lower c"
    by (auto simp: looks_like_flag_def split: option.splits list.splits)
  from r have n: "n = CHR ''-'' # r" by (simp add: strip_prefix_some)
  with assms(2) c have "r = [c]" using before_match_all [of r "\<lambda>c. c = CHR ''=''"] by auto
  moreover have "c \<noteq> CHR ''-''" "c \<noteq> CHR ''=''" using letter by (auto simp: is_upper_def is_lower_def)
  ultimately show ?thesis
    using n letter by (simp add: looks_like_flag_def strip_prefix_def before_match_def)
qed

lemma names_stop_at_flag:
  assumes "prefix ''-'' n" "prefix ''-'' n'"
  shows "command_path_names (pre @ n # x) = command_path_names (pre @ n' # x')"
proof -
  have "takeWhile (\<lambda>t. \<not> prefix ''-'' t) (pre @ n # x) = takeWhile (\<lambda>t. \<not> prefix ''-'' t) (pre @ n' # x')"
    using assms by (induction pre) auto
  moreover have "max_routing_depth (pre @ n # x) = max_routing_depth (pre @ n' # x')"
    using assms by (cases pre) (auto simp: max_routing_depth_def)
  ultimately show ?thesis by (simp add: command_path_names_def)
qed

lemma unsafe_value_recorded:
  "n \<notin> set value_safe_flags \<Longrightarrow> record_flag_value n v c = record_flag_value n v' c"
  by (simp add: record_flag_value_def)

lemma unsafe_value_extracted:
  assumes "\<not> awaits_value pre" "looks_like_flag n" "CHR ''='' \<notin> set n" "n \<notin> set value_safe_flags"
  shows "n \<notin> set boolean_flags \<Longrightarrow> extract_flags (pre @ n # v # post) = extract_flags (pre @ n # v' # post)"
    and "extract_flags (pre @ (n @ CHR ''='' # v) # post) = extract_flags (pre @ (n @ CHR ''='' # v') # post)"
  using assms unsafe_value_recorded [OF assms(4), of v _ v']
  by (simp_all add: extract_flags_def extract_append split_flag_plain split_flag_inline flag_with_value)

lemma unsafe_value_merged:
  "n \<notin> set value_safe_flags \<Longrightarrow>
   merge_global_flags c (before @ (n, Some v) # after) = merge_global_flags c (before @ (n, Some v') # after)"
  by (induction c before rule: merge_global_flags.induct)
    (auto simp: Let_def unsafe_value_recorded [of n v _ v'])

lemma gathered_of_line:
  assumes "command_path_names line = command_path_names line'" "extract_flags line = extract_flags line'"
  shows "gather_context H (call\<lparr>iv_command_path := line\<rparr>) w = gather_context H (call\<lparr>iv_command_path := line'\<rparr>) w"
  by (cases call) (simp only: gather_context_def invocation.update_convs invocation.select_convs assms)


text \<open>A host on tables: the second table is also the list of the identities that were drawn and of those that were merged.\<close>

definition identify_ids :: "usage_event \<Rightarrow> string list" where
  "identify_ids e =
     (if ev_name e = ''$identify'' then (case text_claim ''$anon_distinct_id'' (ev_props e) of Some a \<Rightarrow> [a] | None \<Rightarrow> []) else [])"

definition log_of :: "string \<Rightarrow> tables \<Rightarrow> string list" where
  "log_of k w = map snd (filter (\<lambda>(k', _). k' = k) (snd w))"

definition log_entry :: "string \<Rightarrow> string list \<Rightarrow> tables \<Rightarrow> tables" where
  "log_entry k vs w = (fst w, snd w @ map (Pair k) vs)"

definition table_usage_host :: "(string \<times> string) list \<Rightarrow> tables usage_host" where
  "table_usage_host env =
     auth_host.extend (table_auth_host env True (\<lambda>_. no_answer))
       \<lparr>ug_baked = Some ''key'', ug_base64_decode = Some, ug_hash = length,
        ug_random = (\<lambda>w. let bytes = replicate (sum_list (map length (log_of ''drawn'' w))) (CHR ''x'')
           in (bytes, log_entry ''drawn'' [''anon-'' @
             concat (map (\<lambda>c. let n = (of_char c :: nat) in [lower_hex (n div 16), lower_hex (n mod 16)]) bytes)] w)),
        ug_users_me = (\<lambda>_ _ w. (Inl ''offline'', w)), ug_connect = (\<lambda>_ _ w. (True, w)),
        ug_capture = (\<lambda>e w. log_entry ''merged'' (identify_ids e) w), ug_flush = (\<lambda>w. w)\<rparr>"

abbreviation sample_call :: "string list \<Rightarrow> invocation" where
  "sample_call line \<equiv>
     \<lparr>iv_profile_flag = Some ''p'', iv_namespace_flag = None, iv_global_flags = [], iv_command_path = line,
      iv_cli_version = ''1'', iv_workflow_run_id = None, iv_ui_surface = ''plain'', iv_workflow_id = None\<rparr>"


section \<open>Nobody is merged twice\<close>

text \<open>The world as the transport and the identity file see it: the identities drawn so far, those merged so far, and the
  identity file. To send changes none of them but the list of merges, and an identity is drawn once.\<close>

definition same_view ::
  "('w, 'm) usage_host_scheme \<Rightarrow> string \<Rightarrow> ('w \<Rightarrow> string list) \<Rightarrow> ('w \<Rightarrow> string list) \<Rightarrow> 'w \<Rightarrow> 'w \<Rightarrow> bool" where
  "same_view H path drawn merged w w' \<longleftrightarrow>
     drawn w' = drawn w \<and> merged w' = merged w \<and> ho_read H path w' = ho_read H path w"

definition usage_world ::
  "('w, 'm) usage_host_scheme \<Rightarrow> string \<Rightarrow> string \<Rightarrow> ('w \<Rightarrow> string list) \<Rightarrow> ('w \<Rightarrow> string list) \<Rightarrow> bool" where
  "usage_world H profile path drawn merged \<longleftrightarrow>
     texts_read_back H \<and> install_identity_path H profile = Some path \<and> path_parent path \<noteq> None \<and>
     (\<forall>w anon w'. new_install_id H w = (anon, w') \<longrightarrow>
        anon \<notin> set (drawn w) \<and> drawn w' = anon # drawn w \<and> merged w' = merged w \<and> ho_read H path w' = ho_read H path w) \<and>
     (\<forall>d w. fst (ho_create_dir H d w) = None \<and> same_view H path drawn merged w (snd (ho_create_dir H d w))) \<and>
     (\<forall>t w. \<exists>w'. ho_write H path t w = (None, w') \<and> ho_read H path w' = Inr t \<and> drawn w' = drawn w \<and> merged w' = merged w) \<and>
     (\<forall>key host w. same_view H path drawn merged w (snd (ug_connect H key host w))) \<and>
     (\<forall>e w. let w' = ug_capture H e w in
        drawn w' = drawn w \<and> merged w' = merged w @ identify_ids e \<and> ho_read H path w' = ho_read H path w) \<and>
     (\<forall>w. same_view H path drawn merged w (ug_flush H w))"

text \<open>The uses that touch the identity: a login of a user, and a command without a login.\<close>

datatype usage_step = LoginOf string "string option" | AnonymousUse

fun usage_run :: "('w, 'm) usage_host_scheme \<Rightarrow> string \<Rightarrow> usage_step list \<Rightarrow> 'w \<Rightarrow> 'w" where
  "usage_run H profile [] w = w"
| "usage_run H profile (LoginOf sub email # ss) w = usage_run H profile ss (emit_identity_merge H profile sub email w)"
| "usage_run H profile (AnonymousUse # ss) w =
     usage_run H profile ss (snd (load_or_create_install_identity H profile w))"

abbreviation stored_identity :: "('w, 'm) usage_host_scheme \<Rightarrow> string \<Rightarrow> 'w \<Rightarrow> install_identity option" where
  "stored_identity H path w \<equiv> read_profile_file H json_install_identity path w"

definition merges_ok ::
  "('w, 'm) usage_host_scheme \<Rightarrow> string \<Rightarrow> ('w \<Rightarrow> string list) \<Rightarrow> ('w \<Rightarrow> string list) \<Rightarrow> 'w \<Rightarrow> bool" where
  "merges_ok H path drawn merged w \<longleftrightarrow>
     distinct (merged w) \<and> set (merged w) \<subseteq> set (drawn w) \<and>
     pred_option (\<lambda>i. in_install_id i \<in> set (drawn w)) (stored_identity H path w)"

definition identity_ok ::
  "('w, 'm) usage_host_scheme \<Rightarrow> string \<Rightarrow> ('w \<Rightarrow> string list) \<Rightarrow> ('w \<Rightarrow> string list) \<Rightarrow> 'w \<Rightarrow> bool" where
  "identity_ok H path drawn merged w \<longleftrightarrow>
     merges_ok H path drawn merged w \<and>
     pred_option (\<lambda>i. in_merged_into_sub i = None \<longrightarrow> in_install_id i \<notin> set (merged w)) (stored_identity H path w)"

lemma install_identity_inverse:
  "json_install_identity (install_identity_json i) = Some i" "json_ok (install_identity_json i)"
proof -
  let ?s = "case in_merged_into_sub i of Some s \<Rightarrow> JStr s | None \<Rightarrow> JNull"
  have d: "distinct (map fst [(''install_id'', Some (JStr (in_install_id i))), (''merged_into_sub'', Some ?s)])" by simp
  from json_fields_object [OF d] obtain m where m: "install_identity_json i = JObj m"
    "bget m ''install_id'' = Some (JStr (in_install_id i))" "bget m ''merged_into_sub'' = Some ?s"
    unfolding install_identity_json_def by auto
  show "json_install_identity (install_identity_json i) = Some i"
    by (cases "in_merged_into_sub i")
      (simp_all add: json_install_identity_def struct_fields_def m required_field_def optional_field_def)
  show "json_ok (install_identity_json i)"
    unfolding install_identity_json_def by (rule json_fields_ok [OF d]) (auto split: option.split)
qed

lemma write_identity_ok:
  assumes world: "usage_world H profile path drawn merged"
  shows "stored_identity H path (write_install_identity H profile i w) = Some i"
    and "drawn (write_install_identity H profile i w) = drawn w"
    and "merged (write_install_identity H profile i w) = merged w"
proof -
  from world obtain parent where p: "install_identity_path H profile = Some path" "path_parent path = Some parent"
    by (auto simp: usage_world_def)
  from world obtain w1 where mk: "ho_create_dir H parent w = (None, w1)" and same: "same_view H path drawn merged w w1"
    unfolding usage_world_def by (metis prod.collapse)
  from world obtain w2 where wr: "ho_write H path (ho_print H (install_identity_json i)) w1 = (None, w2)"
    "ho_read H path w2 = Inr (ho_print H (install_identity_json i))" "drawn w2 = drawn w1" "merged w2 = merged w1"
    unfolding usage_world_def by metis
  have w2: "write_install_identity H profile i w = w2"
    by (simp add: write_install_identity_def write_profile_file_def p create_dir_restricted_def write_file_restricted_def
        io_run_def mk wr(1))
  have "texts_read_back H" using world by (simp add: usage_world_def)
  then have "ho_parse H (ho_print H (install_identity_json i)) = Inr (install_identity_json i)"
    using install_identity_inverse(2) by (simp add: texts_read_back_def)
  then show "stored_identity H path (write_install_identity H profile i w) = Some i"
    by (simp add: w2 read_profile_file_def wr(2) install_identity_inverse(1))
  show "drawn (write_install_identity H profile i w) = drawn w"
    "merged (write_install_identity H profile i w) = merged w"
    using same by (simp_all add: w2 wr(3,4) same_view_def)
qed

lemma new_id_ok:
  assumes "usage_world H profile path drawn merged" "new_install_id H w = (anon, w')"
  shows "anon \<notin> set (drawn w)" "drawn w' = anon # drawn w" "merged w' = merged w"
  using assms unfolding usage_world_def by blast+

lemma load_ok:
  assumes world: "usage_world H profile path drawn merged"
    and load: "load_or_create_install_identity H profile w = (r, w')"
    and ok: "merges_ok H path drawn merged w"
  shows "merges_ok H path drawn merged w'" and "r = Some i \<Longrightarrow> stored_identity H path w' = Some i"
    and "identity_ok H path drawn merged w \<Longrightarrow> identity_ok H path drawn merged w'"
proof -
  have p: "install_identity_path H profile = Some path" using world by (simp add: usage_world_def)
  have "merges_ok H path drawn merged w' \<and> (r = Some i \<longrightarrow> stored_identity H path w' = Some i) \<and>
    (identity_ok H path drawn merged w \<longrightarrow> identity_ok H path drawn merged w')"
  proof (cases "is_enabled_by_env H \<and> stored_identity H path w = None")
    case True
    obtain anon w1 where new: "new_install_id H w = (anon, w1)" by force
    let ?i = "\<lparr>in_install_id = anon, in_merged_into_sub = None\<rparr>"
    from load True p new have w': "w' = write_install_identity H profile ?i w1" and r: "r = Some ?i"
      by (auto simp: load_or_create_install_identity_def Let_def)
    show ?thesis
      using ok new_id_ok [OF world new] write_identity_ok [OF world, of ?i w1]
      by (auto simp: w' r merges_ok_def identity_ok_def)
  next
    case False
    with load p ok show ?thesis
      by (auto simp: load_or_create_install_identity_def split: if_splits)
  qed
  then show "merges_ok H path drawn merged w'" "r = Some i \<Longrightarrow> stored_identity H path w' = Some i"
    "identity_ok H path drawn merged w \<Longrightarrow> identity_ok H path drawn merged w'" by simp_all
qed

lemma record_ok:
  assumes world: "usage_world H profile path drawn merged" and ok: "merges_ok H path drawn merged w"
    and enabled: "is_enabled_by_env H"
  shows "identity_ok H path drawn merged (record_identity_merge H profile sub w)"
proof -
  obtain r w1 where load: "load_or_create_install_identity H profile w = (r, w1)" by force
  note loaded = load_ok [OF world load ok]
  have p: "install_identity_path H profile = Some path" using world by (simp add: usage_world_def)
  from enabled p have "fst (load_or_create_install_identity H profile w) \<noteq> None"
    by (simp add: load_or_create_install_identity_def Let_def split: option.split prod.split)
  with load have "r \<noteq> None" by simp
  then obtain i where r: "r = Some i" by blast
  let ?other = "case in_merged_into_sub i of Some s \<Rightarrow> s \<noteq> sub | None \<Rightarrow> False"
  show ?thesis
  proof (cases ?other)
    case True
    obtain anon w2 where new: "new_install_id H w1 = (anon, w2)" by force
    let ?i = "\<lparr>in_install_id = anon, in_merged_into_sub = None\<rparr>"
    have "record_identity_merge H profile sub w = write_install_identity H profile ?i w2"
      using True by (simp add: record_identity_merge_def load r new)
    with loaded(1) new_id_ok [OF world new] write_identity_ok [OF world, of ?i w2] show ?thesis
      by (auto simp: identity_ok_def merges_ok_def)
  next
    case False
    let ?i = "\<lparr>in_install_id = in_install_id i, in_merged_into_sub = Some sub\<rparr>"
    have "record_identity_merge H profile sub w = write_install_identity H profile ?i w1"
      using False by (simp add: record_identity_merge_def load r)
    with loaded(1) loaded(2) [OF r] write_identity_ok [OF world, of ?i w1] show ?thesis
      by (auto simp: identity_ok_def merges_ok_def)
  qed
qed

lemma identified_id: "identify_ids (build_identify_event sub anon email) = [anon]"
proof -
  have "distinct (map fst [(''$lib'', Some (JStr lib_override)), (''$anon_distinct_id'', Some (JStr anon)),
         (''$set'', map_option (\<lambda>e. json_fields [(''email'', Some (JStr e))]) email)])" by simp
  from json_fields_object [OF this] show ?thesis
    by (auto simp: identify_ids_def build_identify_event_def text_claim_def)
qed

lemma emit_ok:
  assumes world: "usage_world H profile path drawn merged" and ok: "identity_ok H path drawn merged w"
  shows "identity_ok H path drawn merged (emit_identity_merge H profile sub email w)"
proof -
  obtain r w1 where load: "load_or_create_install_identity H profile w = (r, w1)" by force
  from ok have m: "merges_ok H path drawn merged w" by (simp add: identity_ok_def)
  note loaded = load_ok [OF world load m]
  show ?thesis
  proof (cases r)
    case None
    with loaded(3) ok show ?thesis by (simp add: emit_identity_merge_def load)
  next
    case (Some i)
    with load have enabled: "is_enabled_by_env H" by (auto simp: load_or_create_install_identity_def split: if_splits)
    show ?thesis
    proof (cases "in_merged_into_sub i")
      case merged: (Some s)
      with record_ok [OF world loaded(1) enabled] Some show ?thesis by (simp add: emit_identity_merge_def load)
    next
      case None
      obtain client w2 where conn: "client_from_env H w1 = (client, w2)" by force
      let ?e = "build_identify_event sub (in_install_id i) email"
      let ?w3 = "client_flush H client (client_capture H client ?e w2)"
      have "same_view H path drawn merged w1 w2"
        using conn world unfolding usage_world_def
        by (auto simp: client_from_env_def same_view_def split: option.splits) (metis snd_conv)+
      moreover have "drawn ?w3 = drawn w2" "ho_read H path ?w3 = ho_read H path w2"
        "merged ?w3 = merged w2 @ (if client then [in_install_id i] else [])"
        using world unfolding usage_world_def
        by (auto simp: client_flush_def client_capture_def same_view_def Let_def identified_id)
      ultimately have view: "drawn ?w3 = drawn w1" "stored_identity H path ?w3 = stored_identity H path w1"
        "merged ?w3 = merged w1 @ (if client then [in_install_id i] else [])"
        by (simp_all add: same_view_def read_profile_file_def)
      from loaded(2) [OF Some] loaded(3) [OF ok] None have
        "in_install_id i \<notin> set (merged w1)" "in_install_id i \<in> set (drawn w1)" "merges_ok H path drawn merged w1"
        by (auto simp: identity_ok_def merges_ok_def)
      then have "merges_ok H path drawn merged ?w3"
        by (auto simp: merges_ok_def view)
      from record_ok [OF world this enabled] Some None conn show ?thesis by (simp add: emit_identity_merge_def load)
    qed
  qed
qed

lemma usage_run_ok:
  "usage_world H profile path drawn merged \<Longrightarrow> identity_ok H path drawn merged w \<Longrightarrow>
   identity_ok H path drawn merged (usage_run H profile ss w)"
proof (induction H profile ss w rule: usage_run.induct)
  case (3 H profile ss w)
  obtain r w1 where load: "load_or_create_install_identity H profile w = (r, w1)" by force
  from 3(3) have "merges_ok H path drawn merged w" by (simp add: identity_ok_def)
  from load_ok(3) [OF 3(2) load this 3(3)] 3 show ?case by (simp add: load)
qed (auto intro: emit_ok)


text \<open>The table host is such a world.\<close>

lemma length_drawn:
  "length (concat (map (\<lambda>c. let n = (of_char c :: nat) in [lower_hex (n div 16), lower_hex (n mod 16)]) bs)) = 2 * length bs"
  by (induction bs) (simp_all add: Let_def)

lemma length_member: "x \<in> set xs \<Longrightarrow> length x \<le> sum_list (map length xs)"
  by (induction xs) auto

lemma log_of_simps [simp]:
  "log_of k (p, q @ r) = log_of k (p, q) @ log_of k (p, r)" "log_of k (log_entry k vs w) = log_of k w @ vs"
  "k \<noteq> k' \<Longrightarrow> log_of k (log_entry k' vs w) = log_of k w" "fst (log_entry k vs w) = fst w"
  by (simp_all add: log_of_def log_entry_def) (induction vs, simp_all)+

lemma log_of_snd [simp]: "NO_MATCH [] p \<Longrightarrow> log_of k (p, q) = log_of k ([], q)"
  by (simp add: log_of_def)

lemma table_usage_world:
  "usage_world (table_usage_host []) ''p'' ''c/ags/profiles/p/telemetry_install_id.json'' (\<lambda>w. rev (log_of ''drawn'' w))
     (log_of ''merged'')"
proof -
  have path: "install_identity_path (table_usage_host []) ''p'' = Some ''c/ags/profiles/p/telemetry_install_id.json''"
    "path_parent ''c/ags/profiles/p/telemetry_install_id.json'' = Some ''c/ags/profiles/p''" by code_simp+
  have "texts_read_back (table_usage_host [])"
    using table_host_honest(1) [of "[]"]
    by (simp add: texts_read_back_def table_usage_host_def table_auth_host_def auth_host.defs host.defs)
  moreover have fresh: "anon \<notin> set (log_of ''drawn'' w)"
    if "anon = ''anon-'' @ concat (map (\<lambda>c. let n = (of_char c :: nat) in [lower_hex (n div 16), lower_hex (n mod 16)])
      (replicate (sum_list (map length (log_of ''drawn'' w))) CHR ''x''))" for anon w
  proof
    assume "anon \<in> set (log_of ''drawn'' w)"
    from length_member [OF this] show False using that by (simp add: length_drawn del: map_replicate)
  qed
  moreover have "anon \<notin> set (log_of ''drawn'' w) \<and> log_of ''drawn'' w' = log_of ''drawn'' w @ [anon] \<and>
      log_of ''merged'' w' = log_of ''merged'' w \<and> fst w' = fst w"
    if "new_install_id (table_usage_host []) w = (anon, w')" for w anon w'
    using that fresh [OF refl, of w]
    by (auto simp: new_install_id_def table_usage_host_def auth_host.defs Let_def simp del: map_replicate)
  moreover have "ho_read (table_usage_host []) p w = (case map_of (fst w) p of Some t \<Rightarrow> Inr t | None \<Rightarrow> Inl ''not found'')"
    "ho_create_dir (table_usage_host []) d w = (None, w)"
    "ho_write (table_usage_host []) p t w = (None, (put_entry p t (fst w), snd w))"
    "ug_connect (table_usage_host []) key host w = (True, w)" "ug_flush (table_usage_host []) w = w"
    "ug_capture (table_usage_host []) e w = log_entry ''merged'' (identify_ids e) w" for p d t w key host e
    by (simp_all add: table_usage_host_def table_auth_host_def table_host_def auth_host.defs host.defs)
  ultimately show ?thesis
    using path by (auto simp: usage_world_def same_view_def Let_def)
qed

lemma first_login_merges:
  assumes world: "usage_world H profile path drawn merged" and enabled: "is_enabled_by_env H"
    and none: "stored_identity H path w = None" and up: "\<And>key host w. fst (ug_connect H key host w)"
  shows "length (merged (emit_identity_merge H profile sub email w)) = Suc (length (merged w))"
proof -
  have p: "install_identity_path H profile = Some path" using world by (simp add: usage_world_def)
  obtain anon w1 where new: "new_install_id H w = (anon, w1)" by force
  let ?i = "\<lparr>in_install_id = anon, in_merged_into_sub = None\<rparr>" and ?j = "\<lparr>in_install_id = anon, in_merged_into_sub = Some sub\<rparr>"
  let ?w2 = "write_install_identity H profile ?i w1"
  have load: "load_or_create_install_identity H profile w = (Some ?i, ?w2)"
    by (simp add: load_or_create_install_identity_def enabled p none new Let_def)
  from enabled obtain key where key: "enabled_api_key H = Some key"
    by (auto simp: is_enabled_by_env_def is_enabled_with_def enabled_api_key_def)
  obtain client w3 where conn: "client_from_env H ?w2 = (client, w3)" by force
  then have client: client using up key by (auto simp: client_from_env_def) (metis fst_conv)
  let ?w4 = "client_flush H client (client_capture H client (build_identify_event sub anon email) w3)"
  have "same_view H path drawn merged ?w2 w3"
    using conn key world unfolding usage_world_def by (auto simp: client_from_env_def) (metis snd_conv)
  moreover have "merged ?w4 = merged w3 @ [anon]" "ho_read H path ?w4 = ho_read H path w3"
    using world client unfolding usage_world_def
    by (auto simp: client_flush_def client_capture_def same_view_def Let_def identified_id)
  ultimately have w4: "merged ?w4 = merged w @ [anon]" "stored_identity H path ?w4 = Some ?i"
    using write_identity_ok [OF world, of ?i w1] new_id_ok(3) [OF world new] by (simp_all add: same_view_def read_profile_file_def)
  have "record_identity_merge H profile sub ?w4 = write_install_identity H profile ?j ?w4"
    using w4(2) by (simp add: record_identity_merge_def load_or_create_install_identity_def enabled p)
  with write_identity_ok(3) [OF world, of ?j ?w4] w4(1) conn show ?thesis
    by (simp add: emit_identity_merge_def load)
qed


section \<open>Beyond the properties\<close>

text \<open>Without a key or with the opt-out nothing is read, written or sent.\<close>

lemma off_is_silent:
  assumes "\<not> is_enabled_by_env H"
  shows "gather_context H call w = (None, w)" "resolve_identity H profile w = (None, w)"
    "emit_identity_merge H p sub email w = w" "emit_with_outcome H ctx outcome elapsed w = w"
  using assms
  by (simp_all add: gather_context_def resolve_identity_def emit_identity_merge_def load_or_create_install_identity_def
      emit_with_outcome_def client_from_env_def client_flush_def client_capture_def is_enabled_by_env_def is_enabled_with_def
      enabled_api_key_def)

text \<open>The identity is renewed by the login of another user, and not before: what is done without a login after a user has
  logged out is still attributed to the identity that was merged into that user.\<close>

lemma merged_identity_is_used_on:
  assumes "is_enabled_by_env H" "install_identity_path H profile = Some path"
    and "read_profile_file H json_install_identity path w = Some i"
  shows "load_or_create_install_identity H profile w = (Some i, w)"
  using assms by (simp add: load_or_create_install_identity_def)

text \<open>Flags without a value that are missing from the list take the flag after them as their value.\<close>

lemma missing_boolean_flag_swallows:
  "fc_names (extract_flags [''extend'', ''setup-env'', ''--force'', ''--namespace'', ''ns'']) = [''--force'']"
  by code_simp

end
