(* ===== verification/Logins.thy ===== *)
theory Logins
  imports Usage ExecTypes
begin

text \<open>
  Login, logout, status and refresh, \<open>ags-runtime/src/runtime/auth/operations.rs\<close>, and the views that the facade makes of
  them (\<open>facade/auth.rs\<close>). A run that reports progress gives its events, its result and the world.
\<close>

section \<open>Runs with progress\<close>

type_synonym ('w, 'a) traced = "progress_event list \<times> 'a rt \<times> 'w"

definition then_run :: "('w, 'a) traced \<Rightarrow> ('a \<Rightarrow> 'w \<Rightarrow> ('w, 'b) traced) \<Rightarrow> ('w, 'b) traced" where
  "then_run m f =
     (case m of
        (es, Inl e, w) \<Rightarrow> (es, Inl e, w)
      | (es, Inr a, w) \<Rightarrow> (case f a w of (es', r) \<Rightarrow> (es @ es', r)))"

definition quiet :: "'a rt \<times> 'w \<Rightarrow> ('w, 'a) traced" where
  "quiet r = ([], r)"

definition report :: "progress_event list \<Rightarrow> 'w \<Rightarrow> ('w, unit) traced" where
  "report es w = (es, Inr (), w)"

definition warn :: "string option \<Rightarrow> progress_event list" where
  "warn m = (case m of Some t \<Rightarrow> [ProgressMessage t] | None \<Rightarrow> [])"

lemma then_run_ok_iff:
  "then_run m f = (es, Inr b, w') \<longleftrightarrow>
   (\<exists>es1 a w1 es2. m = (es1, Inr a, w1) \<and> f a w1 = (es2, Inr b, w') \<and> es = es1 @ es2)"
  by (cases m; cases "fst (snd m)") (auto simp: then_run_def split: prod.splits)

lemma quiet_ok_iff: "quiet r = (es, Inr a, w) \<longleftrightarrow> es = [] \<and> r = (Inr a, w)"
  by (auto simp: quiet_def)

lemma report_ok_iff: "report es w = (es', r, w') \<longleftrightarrow> es' = es \<and> r = Inr () \<and> w' = w"
  by (auto simp: report_def)

section \<open>Inputs and outcomes\<close>

record client_credentials_login =
  cl_profile :: string
  cl_base_url :: string
  cl_client_id :: string
  cl_client_secret :: string

record authorization_code_login =
  al_profile :: string
  al_base_url :: string
  al_client_id :: string
  al_code :: string
  al_code_verifier :: string

datatype login_outcome_kind = LoggedIn | AlreadyAuthenticated string | SessionRefreshed

record login_outcome =
  lo_kind :: login_outcome_kind
  lo_base_url :: string
  lo_client_id :: string
  lo_login_type :: string
  lo_expires_in_secs :: "nat option"

record logout_outcome =
  had_client_id :: bool
  had_client_secret :: bool
  had_access_token :: bool
  had_refresh_token :: bool

datatype refresh_token_state = RtValid nat | RtPresent | RtExpired | RtMissing

datatype stored_token_state =
    StValid nat "string option" refresh_token_state
  | StExpired "string option" refresh_token_state
  | StMissing

datatype auth_snapshot =
    EnvironmentToken
  | EnvironmentCredentials string string
  | StoredSnapshot string string bool stored_token_state "string option"
  | NoCredentials

record token_refresh_outcome =
  ro_grant_type :: grant_type
  ro_base_url :: string
  ro_client_id :: string
  ro_expires_in_secs :: nat
  ro_note :: "string option"

section \<open>Login\<close>

definition keep_login :: "string \<Rightarrow> string \<Rightarrow> grant_type option \<Rightarrow> profile_config \<Rightarrow> (unit \<times> profile_config) rt" where
  "keep_login base_url client_id grant c =
     (let c = c\<lparr>pc_base_url := Some base_url, pc_client_id := Some client_id\<rparr>
      in Inr ((), case grant of Some g \<Rightarrow> c\<lparr>pc_grant_type := Some g\<rparr> | None \<Rightarrow> c))"

definition persist_login ::
  "('w, 'm) auth_host_scheme \<Rightarrow> string \<Rightarrow> string \<Rightarrow> string \<Rightarrow> token_data \<Rightarrow> string option \<Rightarrow> 'w \<Rightarrow> ('w, unit) traced" where
  "persist_login H profile base_url client_id t secret w =
     then_run (quiet (store_token_data H profile t w)) (\<lambda>warning w.
     then_run (report (warn warning) w) (\<lambda>_ w.
     quiet (and_run (update_profile H profile (keep_login base_url client_id (td_grant_type t)) w) (\<lambda>_ w.
       case secret of Some s \<Rightarrow> store_secret H profile s w | None \<Rightarrow> (Inr (), w)))))"

text \<open>A request to the token endpoint between its two events; then a warning about the lifetime.\<close>

definition announced :: "string \<Rightarrow> token_result rt \<times> 'w \<Rightarrow> ('w, token_result) traced" where
  "announced message r =
     (case r of
        (Inl e, w) \<Rightarrow> ([ProgressStarted message, ProgressFinished], Inl e, w)
      | (Inr t, w) \<Rightarrow>
          ([ProgressStarted message, ProgressFinished] @ warn (tr_expires_in_warning t), Inr t, w))"

definition login_with_client_credentials ::
  "('w, 'm) auth_host_scheme \<Rightarrow> client_credentials_login \<Rightarrow> 'w \<Rightarrow> ('w, login_outcome) traced" where
  "login_with_client_credentials H req w =
     then_run (announced ''Authenticating (client credentials)...''
         (fetch_client_credentials_token H (cl_base_url req) (cl_client_id req) (cl_client_secret req) w)) (\<lambda>r w.
     then_run (persist_login H (cl_profile req) (cl_base_url req) (cl_client_id req)
         (token_result_to_token_data r ClientCredentials (au_now H w) (cl_client_id req)) (Some (cl_client_secret req)) w)
       (\<lambda>_ w. ([], Inr \<lparr>lo_kind = LoggedIn, lo_base_url = cl_base_url req, lo_client_id = cl_client_id req,
          lo_login_type = ''client credentials'', lo_expires_in_secs = Some (tr_expires_in r)\<rparr>, w)))"

text \<open>The merge of the anonymous identity into the user of the token, when the token names one.\<close>

definition merge_identity :: "('w, 'm) usage_host_scheme \<Rightarrow> string \<Rightarrow> string \<Rightarrow> 'w \<Rightarrow> 'w" where
  "merge_identity H profile token w =
     (case decode_sub H token of
        None \<Rightarrow> w
      | Some sub \<Rightarrow> emit_identity_merge H profile sub (read_cached_email H profile token w) w)"

definition login_with_authorization_code ::
  "('w, 'm) usage_host_scheme \<Rightarrow> authorization_code_login \<Rightarrow> 'w \<Rightarrow> ('w, login_outcome) traced" where
  "login_with_authorization_code H req w =
     then_run (announced ''Authenticating (authorization code)...''
         (exchange_authorization_code H (al_base_url req) (al_client_id req) None (al_code req) (al_code_verifier req) w))
       (\<lambda>r w.
     let t = token_result_to_token_data r AuthorizationCode (au_now H w) (al_client_id req)
     in then_run (persist_login H (al_profile req) (al_base_url req) (al_client_id req) t None w)
       (\<lambda>_ w. ([], Inr \<lparr>lo_kind = LoggedIn, lo_base_url = al_base_url req, lo_client_id = al_client_id req,
          lo_login_type = ''authorization code'', lo_expires_in_secs = Some (tr_expires_in r)\<rparr>,
          merge_identity H (al_profile req) (td_access_token t) w)))"

section \<open>Existing sessions\<close>

definition stored_identity_matches :: "('w, 'm) host_scheme \<Rightarrow> string \<Rightarrow> string \<Rightarrow> string \<Rightarrow> 'w \<Rightarrow> bool" where
  "stored_identity_matches H profile base_url client_id w \<longleftrightarrow>
     (case load_profile H profile w of
        Inl _ \<Rightarrow> False
      | Inr c \<Rightarrow>
          (case pc_base_url c of Some b \<Rightarrow> b = base_url | None \<Rightarrow> True) \<and>
          (case pc_client_id c of Some i \<Rightarrow> client_ids_match i client_id | None \<Rightarrow> True))"

definition existing_access_token_still_valid ::
  "('w, 'm) auth_host_scheme \<Rightarrow> string \<Rightarrow> string \<Rightarrow> 'w \<Rightarrow> string option" where
  "existing_access_token_still_valid H profile client_id w =
     Option.bind (stored_token H profile w) (\<lambda>t.
       if (case td_client_id t of Some stored \<Rightarrow> \<not> client_ids_match stored client_id | None \<Rightarrow> False) then None
       else if au_now H w + token_expiry_buffer_secs < td_expires_at t then
         Some (''Already authenticated (token expires in '' @ format_duration (td_expires_at t - au_now H w) @
               ''). Run '' @ quoted ''ags auth logout'' @ '' first to re-authenticate.'')
       else None)"

definition probe_existing_session ::
  "('w, 'm) auth_host_scheme \<Rightarrow> string \<Rightarrow> string \<Rightarrow> string \<Rightarrow> string \<Rightarrow> 'w \<Rightarrow> ('w, login_outcome option) traced" where
  "probe_existing_session H profile base_url client_id login_type w =
     (if \<not> stored_identity_matches H profile base_url client_id w then ([], Inr None, w)
      else
        let found = (\<lambda>kind expires. Some \<lparr>lo_kind = kind, lo_base_url = base_url, lo_client_id = client_id,
                       lo_login_type = login_type, lo_expires_in_secs = expires\<rparr>)
        in case existing_access_token_still_valid H profile client_id w of
          Some tip \<Rightarrow> ([], Inr (found (AlreadyAuthenticated tip) None), w)
        | None \<Rightarrow>
            then_run (quiet (try_refresh_stored_session H profile Probe (Some client_id) w)) (\<lambda>outcome w.
              case outcome of
                Refreshed _ _ expires _ \<Rightarrow> ([], Inr (found SessionRefreshed (Some expires)), w)
              | Refused _ \<Rightarrow>
                  (case delete_token_data H profile w of
                     (r, w) \<Rightarrow>
                       (ProgressMessage (''Existing session was invalid '' @ em_dash @ '' starting fresh login...'') #
                        (case r of
                           Inl e \<Rightarrow> [ProgressMessage (''Warning: could not clear stale session data: '' @ re_message e)]
                         | Inr _ \<Rightarrow> []), Inr None, w))
              | Unavailable _ \<Rightarrow> ([], Inr None, w)))"

section \<open>Logout\<close>

definition forget_client_id :: "profile_config \<Rightarrow> (unit \<times> profile_config) rt" where
  "forget_client_id c = Inr ((), c\<lparr>pc_client_id := None\<rparr>)"

text \<open>The secret and the token are deleted, and the results ignored.\<close>

definition drop_credentials :: "('w, 'm) auth_host_scheme \<Rightarrow> string \<Rightarrow> 'w \<Rightarrow> 'w" where
  "drop_credentials H profile w = snd (delete_token_data H profile (snd (delete_secret H profile w)))"

definition logout_profile :: "('w, 'm) auth_host_scheme \<Rightarrow> string \<Rightarrow> 'w \<Rightarrow> logout_outcome rt \<times> 'w" where
  "logout_profile H profile w =
     (let t = stored_token H profile w;
          outcome =
            \<lparr>had_client_id = (case load_profile H profile w of Inr c \<Rightarrow> pc_client_id c \<noteq> None | Inl _ \<Rightarrow> False),
             had_client_secret = (resolve_stored_client_secret H profile w \<noteq> None),
             had_access_token = (t \<noteq> None),
             had_refresh_token = (Option.bind t td_refresh_token \<noteq> None)\<rparr>
      in and_run (update_profile H profile forget_client_id (drop_credentials H profile w)) (\<lambda>_ w.
           (Inr outcome, clear_cached_email H profile w)))"

fun logout_each :: "('w, 'm) auth_host_scheme \<Rightarrow> string list \<Rightarrow> 'w \<Rightarrow> 'w" where
  "logout_each H [] w = w"
| "logout_each H (p # ps) w =
     logout_each H ps
       (clear_cached_email H p (snd (update_profile H p forget_client_id (drop_credentials H p w))))"

definition logout_all_profiles :: "('w, 'm) auth_host_scheme \<Rightarrow> 'w \<Rightarrow> string list rt \<times> 'w" where
  "logout_all_profiles H w =
     and_run (list_profiles H w, w) (\<lambda>profiles w. (Inr profiles, logout_each H profiles w))"

section \<open>Status\<close>

definition refresh_token_state_of :: "bool \<Rightarrow> nat option \<Rightarrow> nat \<Rightarrow> refresh_token_state" where
  "refresh_token_state_of has expires now =
     (if \<not> has then RtMissing
      else case expires of
        Some e \<Rightarrow> if now < e then RtValid (e - now) else RtExpired
      | None \<Rightarrow> RtPresent)"

definition stored_token_state_of :: "token_data option \<Rightarrow> nat \<Rightarrow> stored_token_state" where
  "stored_token_state_of held now =
     (case held of
        None \<Rightarrow> StMissing
      | Some t \<Rightarrow>
          (let login = map_option as_kebab (td_grant_type t);
               refresh = refresh_token_state_of (td_refresh_token t \<noteq> None) (td_refresh_expires_at t) now
           in if now < td_expires_at t then StValid (td_expires_at t - now) login refresh else StExpired login refresh))"

definition auth_snapshot_of :: "('w, 'm) auth_host_scheme \<Rightarrow> string \<Rightarrow> 'w \<Rightarrow> auth_snapshot" where
  "auth_snapshot_of H profile w =
     (if ho_env H env_access_token \<noteq> None then EnvironmentToken
      else let c = resolve_credentials H profile w in
        if cr_client_id_source c = Some FromEnvironment \<and> cr_client_secret_source c = Some FromEnvironment then
          EnvironmentCredentials (case cr_base_url c of Some b \<Rightarrow> b | None \<Rightarrow> ''unset'')
            (case cr_client_id c of Some i \<Rightarrow> i | None \<Rightarrow> [])
        else case (cr_base_url c, cr_client_id c) of
          (Some b, Some i) \<Rightarrow>
            StoredSnapshot b i (cr_client_secret c \<noteq> None) (stored_token_state_of (stored_token H profile w) (au_now H w))
              (case load_profile H profile w of Inr p \<Rightarrow> pc_namespace p | Inl _ \<Rightarrow> None)
        | _ \<Rightarrow> NoCredentials)"

section \<open>Refresh\<close>

definition external_token_error :: runtime_error where
  "external_token_error =
     with_hint (validation_error ''Access token is set via AGS_ACCESS_TOKEN, so there is nothing to refresh'')
       ''Unset AGS_ACCESS_TOKEN to use stored credentials''"

definition nothing_to_refresh_error :: runtime_error where
  "nothing_to_refresh_error =
     \<lparr>re_kind = NotAuthenticated, re_message = ''Nothing to refresh for this profile'', re_details = None,
      re_hint = Some ''Run `ags auth login` to authenticate''\<rparr>"

definition permission_note :: string where
  "permission_note = ''If you added permissions, they may need a full `ags auth login` to take effect''"

text \<open>What a forced refresh that gave no token is reported as.\<close>

definition forced_refresh_error :: "string \<Rightarrow> string \<Rightarrow> unavailable_reason \<Rightarrow> runtime_error" where
  "forced_refresh_error profile client_id reason =
     (case reason of
        NoRefreshToken \<Rightarrow> auth_failure RefreshNoRefreshToken
      | RefreshExpired \<Rightarrow> auth_failure RefreshTokenExpired
      | NoStoredToken \<Rightarrow> nothing_to_refresh_error
      | ClientMismatch stored \<Rightarrow> auth_failure (StoredSessionClientMismatch profile stored client_id))"

definition refresh_by_client_credentials ::
  "('w, 'm) auth_host_scheme \<Rightarrow> string \<Rightarrow> credentials \<Rightarrow> 'w \<Rightarrow> ('w, token_refresh_outcome) traced" where
  "refresh_by_client_credentials H profile creds w =
     then_run (quiet (required_base_url creds, w)) (\<lambda>base_url w.
     then_run (quiet (required_client_id creds, w)) (\<lambda>client_id w.
     then_run (quiet (required_client_secret creds, w)) (\<lambda>secret w.
     then_run (announced ''Refreshing token (client credentials)...''
         (fetch_client_credentials_token H base_url client_id secret w)) (\<lambda>r w.
     then_run (persist_login H profile base_url client_id
         (token_result_to_token_data r ClientCredentials (au_now H w) client_id) (Some secret) w) (\<lambda>_ w.
       ([], Inr \<lparr>ro_grant_type = ClientCredentials, ro_base_url = base_url, ro_client_id = client_id,
                 ro_expires_in_secs = tr_expires_in r, ro_note = None\<rparr>, w))))))"

text \<open>An error of the refresh itself leaves the run before the event that ends the progress.\<close>

definition refresh_by_authorization_code ::
  "('w, 'm) auth_host_scheme \<Rightarrow> string \<Rightarrow> credentials \<Rightarrow> 'w \<Rightarrow> ('w, token_refresh_outcome) traced" where
  "refresh_by_authorization_code H profile creds w =
     then_run (quiet (required_base_url creds, w)) (\<lambda>base_url w.
     then_run (quiet (required_client_id creds, w)) (\<lambda>client_id w.
     then_run (report [ProgressStarted ''Refreshing token (authorization code)...''] w) (\<lambda>_ w.
     then_run (quiet (try_refresh_stored_session H profile Force (Some client_id) w)) (\<lambda>outcome w.
     then_run (report [ProgressFinished] w) (\<lambda>_ w.
       case outcome of
         Refreshed _ _ expires warnings \<Rightarrow>
           (map ProgressMessage warnings,
            Inr \<lparr>ro_grant_type = AuthorizationCode, ro_base_url = base_url, ro_client_id = client_id,
                 ro_expires_in_secs = expires, ro_note = Some permission_note\<rparr>, w)
       | Refused message \<Rightarrow> ([], Inl (auth_failure (RefreshRejected message)), w)
       | Unavailable reason \<Rightarrow> ([], Inl (forced_refresh_error profile client_id reason), w))))))"

definition refresh_profile ::
  "('w, 'm) auth_host_scheme \<Rightarrow> string \<Rightarrow> 'w \<Rightarrow> ('w, token_refresh_outcome) traced" where
  "refresh_profile H profile w =
     (if ho_env H env_access_token \<noteq> None then ([], Inl external_token_error, w)
      else
        let creds = resolve_credentials H profile w;
            grant = (case load_profile H profile w of Inr c \<Rightarrow> pc_grant_type c | Inl _ \<Rightarrow> None);
            has_refresh_token = (Option.bind (stored_token H profile w) td_refresh_token \<noteq> None)
        in if grant = Some ClientCredentials \<or> grant = None \<and> cr_client_secret creds \<noteq> None then
             refresh_by_client_credentials H profile creds w
           else if grant = Some AuthorizationCode \<or> grant = None \<and> cr_client_secret creds = None \<and> has_refresh_token then
             refresh_by_authorization_code H profile creds w
           else ([], Inl nothing_to_refresh_error, w))"

section \<open>Views\<close>

datatype auth_source = FromAccessToken | FromClientCredentials | FromStore

datatype presence = PresenceStored | PresenceCleared | PresenceMissing | PresenceUnknown

datatype token_state = TsValid "nat option" | TsExpired | TsMissing | TsPresent | TsUnknown

record auth_status_data =
  as_source :: auth_source
  as_base_url :: "string option"
  as_login_type :: "string option"
  as_client_id :: "string option"
  as_client_secret :: presence
  as_access_token :: token_state
  as_refresh_token :: token_state
  as_namespace :: "string option"
  as_next_step :: "string option"

datatype auth_action_status = ActionLoggedIn | ActionAlreadyAuthenticated | ActionRefreshed

record auth_action_data =
  aa_status :: auth_action_status
  aa_base_url :: "string option"
  aa_login_type :: "string option"
  aa_client_id :: "string option"
  aa_token_expires_in_secs :: "nat option"
  aa_tip :: "string option"

record auth_token_data =
  at_access_token :: string
  at_expires_at :: "nat option"
  at_source :: token_source
  at_warnings :: "string list"

record logout_data =
  ld_client_id :: presence
  ld_client_secret :: presence
  ld_access_token :: presence
  ld_refresh_token :: presence

datatype auth_view =
    StatusAuthenticated auth_status_data
  | RequiresAttention auth_status_data
  | LoginSuccess auth_action_data
  | RefreshSuccess auth_action_data
  | TokenView auth_token_data
  | LogoutSuccess logout_data
  | LogoutAllSuccess "string list"
  | NotAuthenticatedView "string option" "string option"

definition friendly_grant_type :: "string option \<Rightarrow> string" where
  "friendly_grant_type g =
     (case g of
        None \<Rightarrow> ''unknown''
      | Some s \<Rightarrow>
          if s = ''authorization-code'' then ''authorization code''
          else if s = ''client-credentials'' then ''client credentials'' else s)"

definition refresh_token_to_render :: "refresh_token_state \<Rightarrow> token_state" where
  "refresh_token_to_render s =
     (case s of RtValid n \<Rightarrow> TsValid (Some n) | RtPresent \<Rightarrow> TsPresent | RtExpired \<Rightarrow> TsExpired | RtMissing \<Rightarrow> TsMissing)"

definition login_next_step :: string where
  "login_next_step = ''Run '' @ quoted ''ags auth login'' @ ''.''"

definition stored_snapshot_to_view ::
  "string \<Rightarrow> string \<Rightarrow> bool \<Rightarrow> stored_token_state \<Rightarrow> string option \<Rightarrow> auth_view" where
  "stored_snapshot_to_view base_url client_id has_secret state namespace =
     (let data = (\<lambda>login access refresh step.
            \<lparr>as_source = FromStore, as_base_url = Some base_url, as_login_type = login, as_client_id = Some client_id,
             as_client_secret = (if has_secret then PresenceStored else PresenceMissing), as_access_token = access,
             as_refresh_token = refresh, as_namespace = namespace, as_next_step = step\<rparr>)
      in case state of
        StValid n login refresh \<Rightarrow>
          StatusAuthenticated (data (Some (friendly_grant_type login)) (TsValid (Some n)) (refresh_token_to_render refresh) None)
      | StExpired login refresh \<Rightarrow>
          RequiresAttention (data (Some (friendly_grant_type login)) TsExpired (refresh_token_to_render refresh)
            (Some (case refresh_token_to_render refresh of
               TsValid _ \<Rightarrow> ''Token will auto-refresh on next API call.''
             | TsPresent \<Rightarrow> ''Token will auto-refresh on next API call.''
             | _ \<Rightarrow> login_next_step)))
      | StMissing \<Rightarrow> RequiresAttention (data None TsMissing TsUnknown (Some login_next_step)))"

definition auth_snapshot_to_view :: "auth_snapshot \<Rightarrow> auth_view" where
  "auth_snapshot_to_view s =
     (let environment = (\<lambda>src base client access.
            StatusAuthenticated
              \<lparr>as_source = src, as_base_url = base, as_login_type = None, as_client_id = client,
               as_client_secret = PresenceUnknown, as_access_token = access, as_refresh_token = TsUnknown,
               as_namespace = None, as_next_step = None\<rparr>)
      in case s of
        EnvironmentToken \<Rightarrow> environment FromAccessToken None None TsPresent
      | EnvironmentCredentials b i \<Rightarrow> environment FromClientCredentials (Some b) (Some i) TsUnknown
      | StoredSnapshot b i has_secret state namespace \<Rightarrow> stored_snapshot_to_view b i has_secret state namespace
      | NoCredentials \<Rightarrow>
          NotAuthenticatedView (Some login_next_step)
            (Some (''You can also set AGS_BASE_URL, AGS_CLIENT_ID, AGS_CLIENT_SECRET for non-interactive workflows.'')))"

definition login_outcome_to_view :: "login_outcome \<Rightarrow> auth_view" where
  "login_outcome_to_view out =
     (let finished = (\<lambda>status. LoginSuccess
            \<lparr>aa_status = status, aa_base_url = Some (lo_base_url out), aa_login_type = Some (lo_login_type out),
             aa_client_id = Some (lo_client_id out), aa_token_expires_in_secs = lo_expires_in_secs out, aa_tip = None\<rparr>)
      in case lo_kind out of
        AlreadyAuthenticated tip \<Rightarrow>
          LoginSuccess
            \<lparr>aa_status = ActionAlreadyAuthenticated, aa_base_url = None, aa_login_type = None, aa_client_id = None,
             aa_token_expires_in_secs = None, aa_tip = Some tip\<rparr>
      | LoggedIn \<Rightarrow> finished ActionLoggedIn
      | SessionRefreshed \<Rightarrow> finished ActionRefreshed)"

definition refresh_outcome_to_view :: "token_refresh_outcome \<Rightarrow> auth_view" where
  "refresh_outcome_to_view out =
     RefreshSuccess
       \<lparr>aa_status = ActionRefreshed, aa_base_url = Some (ro_base_url out),
        aa_login_type = Some (case ro_grant_type out of
          ClientCredentials \<Rightarrow> ''client credentials'' | AuthorizationCode \<Rightarrow> ''authorization code''),
        aa_client_id = Some (ro_client_id out), aa_token_expires_in_secs = Some (ro_expires_in_secs out),
        aa_tip = ro_note out\<rparr>"

definition token_resolution_to_view :: "token_resolution \<Rightarrow> nat \<Rightarrow> auth_view" where
  "token_resolution_to_view r now =
     TokenView
       \<lparr>at_access_token = ts_token r, at_expires_at = map_option (u64_saturating_add now) (ts_expires_in_secs r),
        at_source = ts_source r, at_warnings = ts_warnings r\<rparr>"

definition auth_status :: "('w, 'm) auth_host_scheme \<Rightarrow> string \<Rightarrow> 'w \<Rightarrow> auth_view" where
  "auth_status H profile w = auth_snapshot_to_view (auth_snapshot_of H profile w)"

definition auth_token :: "('w, 'm) auth_host_scheme \<Rightarrow> string \<Rightarrow> 'w \<Rightarrow> auth_view rt \<times> 'w" where
  "auth_token H profile w =
     and_run (resolve_access_token H profile w) (\<lambda>r w. (Inr (token_resolution_to_view r (au_now H w)), w))"

definition auth_logout :: "('w, 'm) auth_host_scheme \<Rightarrow> string \<Rightarrow> 'w \<Rightarrow> auth_view rt \<times> 'w" where
  "auth_logout H profile w =
     and_run (logout_profile H profile w) (\<lambda>out w.
       let shown = (\<lambda>had. if had then PresenceCleared else PresenceMissing)
       in (Inr (LogoutSuccess
            \<lparr>ld_client_id = shown (had_client_id out), ld_client_secret = shown (had_client_secret out),
             ld_access_token = shown (had_access_token out), ld_refresh_token = shown (had_refresh_token out)\<rparr>), w))"

definition auth_logout_all :: "('w, 'm) auth_host_scheme \<Rightarrow> 'w \<Rightarrow> auth_view rt \<times> 'w" where
  "auth_logout_all H w = apfst (map_sum id LogoutAllSuccess) (logout_all_profiles H w)"

definition viewed :: "('a \<Rightarrow> 'b) \<Rightarrow> ('w, 'a) traced \<Rightarrow> ('w, 'b) traced" where
  "viewed f r = apsnd (apfst (map_sum id f)) r"

definition auth_probe_existing_session ::
  "('w, 'm) auth_host_scheme \<Rightarrow> string \<Rightarrow> string \<Rightarrow> string \<Rightarrow> string \<Rightarrow> 'w \<Rightarrow> ('w, auth_view option) traced" where
  "auth_probe_existing_session H profile base_url client_id login_type w =
     viewed (map_option login_outcome_to_view) (probe_existing_session H profile base_url client_id login_type w)"

definition auth_login_authorization_code ::
  "('w, 'm) usage_host_scheme \<Rightarrow> authorization_code_login \<Rightarrow> 'w \<Rightarrow> ('w, auth_view) traced" where
  "auth_login_authorization_code H req w = viewed login_outcome_to_view (login_with_authorization_code H req w)"

definition auth_login_client_credentials ::
  "('w, 'm) auth_host_scheme \<Rightarrow> client_credentials_login \<Rightarrow> 'w \<Rightarrow> ('w, auth_view) traced" where
  "auth_login_client_credentials H req w = viewed login_outcome_to_view (login_with_client_credentials H req w)"

definition auth_refresh :: "('w, 'm) auth_host_scheme \<Rightarrow> string \<Rightarrow> 'w \<Rightarrow> ('w, auth_view) traced" where
  "auth_refresh H profile w = viewed refresh_outcome_to_view (refresh_profile H profile w)"

section \<open>What a login leaves behind\<close>

definition holds_file :: "('w, 'm) host_scheme \<Rightarrow> string \<Rightarrow> string \<Rightarrow> 'w \<Rightarrow> bool" where
  "holds_file H p t w \<longleftrightarrow> ho_exists H p w \<and> ho_read H p w = Inr t"

text \<open>A step that leaves the files with the given paths and the entries of the keychain with the given users alone.\<close>

definition leaves_alone :: "('w, 'm) auth_host_scheme \<Rightarrow> (string \<Rightarrow> bool) \<Rightarrow> (string \<Rightarrow> string \<Rightarrow> bool) \<Rightarrow> 'w \<Rightarrow> 'w \<Rightarrow> bool" where
  "leaves_alone H paths entries w w' \<longleftrightarrow>
     (\<forall>p t. paths p \<and> holds_file H p t w \<longrightarrow> holds_file H p t w') \<and>
     (\<forall>s u. entries s u \<longrightarrow> au_get_password H s u w' = au_get_password H s u w)"

text \<open>No other process acts: a step changes what it says, and a lock that is waited for finds everything as it was.\<close>

definition undisturbed :: "('w, 'm) auth_host_scheme \<Rightarrow> bool" where
  "undisturbed H \<longleftrightarrow>
     (\<forall>d w. leaves_alone H (\<lambda>_. True) (\<lambda>_ _. True) w (snd (ho_create_dir H d w))) \<and>
     (\<forall>path label w. leaves_alone H (\<lambda>_. True) (\<lambda>_ _. True) w (snd (ho_lock H path label w))) \<and>
     (\<forall>p t w. leaves_alone H (\<lambda>q. q \<noteq> p) (\<lambda>_ _. True) w (snd (ho_write H p t w))) \<and>
     (\<forall>s u t w. leaves_alone H (\<lambda>_. True) (\<lambda>s' u'. s' = s \<and> u' \<noteq> u) w (snd (au_set_password H s u t w)))"

text \<open>The token is where the next reader looks for it.\<close>

definition token_kept :: "('w, 'm) auth_host_scheme \<Rightarrow> string \<Rightarrow> token_data \<Rightarrow> 'w \<Rightarrow> bool" where
  "token_kept H profile t w \<longleftrightarrow>
     keychain_read H TokenResource profile keyring_token_user w = Inr (Some (ho_print H (token_data_json t))) \<or>
     keychain_read H TokenResource profile keyring_token_user w = Inr None \<and>
       (\<exists>path. token_file_path H profile = Inr path \<and> holds_file H path (ho_print H (token_data_json t)) w)"

definition config_kept :: "('w, 'm) auth_host_scheme \<Rightarrow> string \<Rightarrow> profile_config \<Rightarrow> 'w \<Rightarrow> bool" where
  "config_kept H profile c w \<longleftrightarrow>
     (\<exists>path. profile_config_path H profile = Inr path \<and> holds_file H path (ho_pretty H (profile_config_json c)) w)"

lemma kept_token_read:
  assumes "honest_storage H" "token_ok t" "token_kept H profile t w"
  shows "get_token_data H profile w = Inr (Some t)"
  using assms(3) read_stored_text [OF assms(1,2)]
  by (auto simp: token_kept_def get_token_data_def read_fallback_def holds_file_def)

lemma stored_is_kept:
  assumes honest: "honest_storage H" and run: "store_token_data_unlocked H profile t w = (Inr warning, w')"
  shows "token_kept H profile t w'"
proof -
  let ?text = "ho_print H (token_data_json t)"
  from run obtain outcome w1 where ks: "keychain_store H profile ?text w = (Inr outcome, w1)"
    and rest: "(case outcome of Inl _ \<Rightarrow> (Inr None, w1)
           | Inr warning \<Rightarrow>
               and_run (token_file_path H profile, clear_keychain_token_entry H profile w1) (\<lambda>path w.
               and_run (write_fallback H TokenResource path ?text w) (\<lambda>_ w. (Inr warning, w)))) = (Inr warning, w')"
    by (auto simp: store_token_data_unlocked_def Let_def and_run_ok_iff)
  show ?thesis
  proof (cases outcome)
    case (Inl u)
    with rest keychain_store_ok [OF honest ks] show ?thesis by (simp add: token_kept_def)
  next
    case (Inr warn)
    let ?w2 = "clear_keychain_token_entry H profile w1"
    from rest Inr obtain path u where path: "token_file_path H profile = Inr path"
      and wr: "write_fallback H TokenResource path ?text ?w2 = (Inr u, w')"
      by (auto simp: and_run_ok_iff)
    have "keychain_read H TokenResource profile keyring_token_user w' = Inr None"
      using keychain_read_cong [OF honest write_fallback_ok(3) [OF honest wr]] cleared_unread [OF honest] by simp
    with write_fallback_ok(1,2) [OF honest wr] path show ?thesis by (simp add: token_kept_def holds_file_def)
  qed
qed

lemma kept_token_steps:
  assumes "honest_storage H" "token_kept H profile t w" "leaves_alone H paths entries w w'"
    and "entries (keyring_service profile) keyring_token_user" "\<And>p. token_file_path H profile = Inr p \<Longrightarrow> paths p"
  shows "token_kept H profile t w'"
proof -
  have "keychain_read H TokenResource profile keyring_token_user w' = keychain_read H TokenResource profile keyring_token_user w"
    using assms(3,4) by (intro keychain_read_cong [OF assms(1)]) (simp add: leaves_alone_def)
  with assms(2,3,5) show ?thesis unfolding token_kept_def leaves_alone_def by metis
qed

lemma kept_config_steps:
  assumes "config_kept H profile c w" "leaves_alone H paths entries w w'" "\<And>p. profile_config_path H profile = Inr p \<Longrightarrow> paths p"
  shows "config_kept H profile c w'"
  using assms unfolding config_kept_def leaves_alone_def by blast

lemma profile_config_inverse:
  "json_profile_config (profile_config_json c) = Some c" "json_ok (profile_config_json c)"
proof -
  have d: "distinct (map fst
       [(''base_url'', map_option JStr (pc_base_url c)), (''client_id'', map_option JStr (pc_client_id c)),
        (''namespace'', map_option JStr (pc_namespace c)), (''grant_type'', map_option (\<lambda>g. JStr (as_kebab g)) (pc_grant_type c))])"
    by simp
  from json_fields_object [OF d] obtain m where m: "profile_config_json c = JObj m"
    "bget m ''base_url'' = map_option JStr (pc_base_url c)" "bget m ''client_id'' = map_option JStr (pc_client_id c)"
    "bget m ''namespace'' = map_option JStr (pc_namespace c)"
    "bget m ''grant_type'' = map_option (\<lambda>g. JStr (as_kebab g)) (pc_grant_type c)"
    unfolding profile_config_json_def by auto
  show "json_profile_config (profile_config_json c) = Some c"
    by (simp add: json_profile_config_def struct_fields_def m optional_field_map)
  show "json_ok (profile_config_json c)"
    unfolding profile_config_json_def by (rule json_fields_ok [OF d]) (auto simp: option.pred_set)
qed

lemma kept_config_read:
  assumes "honest_storage H" "config_kept H profile c w" "profile_store H profile = Inr S"
  shows "load_profile H profile w = Inr c"
proof -
  from assms(2,3) have "holds_file H (cs_path S) (ho_pretty H (profile_config_json c)) w"
    by (auto simp: config_kept_def profile_store_def and_then_def split: sum.splits)
  moreover from assms(1) have "ho_parse H (ho_pretty H (profile_config_json c)) = Inr (profile_config_json c)"
    using profile_config_inverse(2) [of c] by (simp add: honest_storage_def texts_read_back_def)
  ultimately show ?thesis
    by (simp add: load_profile_def assms(3) load_struct_unlocked_def holds_file_def profile_config_inverse(1) ok_or_def)
qed

lemma profile_paths_differ:
  assumes "subpath b n = Inr p" "subpath b n' = Inr p'" "n \<noteq> n'" "\<not> prefix ''/'' n" "\<not> prefix ''/'' n'"
  shows "p \<noteq> p'"
  using assms by (auto simp: subpath_def and_then_def path_join_def split: sum.splits if_splits)

lemma profile_files_differ:
  "token_file_path H profile = Inr p \<Longrightarrow> profile_config_path H profile = Inr q \<Longrightarrow> p \<noteq> q"
  "token_file_path H profile = Inr p \<Longrightarrow> secret_file_path H profile = Inr q \<Longrightarrow> p \<noteq> q"
  "profile_config_path H profile = Inr p \<Longrightarrow> secret_file_path H profile = Inr q \<Longrightarrow> p \<noteq> q"
  unfolding token_file_path_def profile_config_path_def secret_file_path_def
  by (erule (1) profile_paths_differ; simp)+

lemma update_profile_kept:
  assumes honest: "honest_storage H" and alone: "undisturbed H"
    and run: "update_profile H profile f w = (Inr r, w')"
    and keep: "token_kept H profile t w"
  shows "\<exists>c c'. f c = Inr (r, c') \<and> config_kept H profile c' w' \<and> token_kept H profile t w' \<and>
    (\<exists>S. profile_store H profile = Inr S)"
proof -
  from run obtain S w1 c c' where S: "profile_store H profile = Inr S" and lock: "lock_store H S w = (Inr (), w1)"
    and f: "f c = Inr (r, c')" and save: "save_struct_unlocked H S (profile_config_json c') w1 = (Inr (), w')"
    by (auto simp: update_profile_def update_struct_def and_run_ok_iff split: prod.splits)
  from lock obtain dir w0 where mk: "ho_create_dir H dir w = (None, w0)"
    and lk: "ho_lock H (cs_lock_path S) (cs_label S) w0 = (None, w1)"
    by (auto simp: lock_store_def and_run_ok_iff create_dir_restricted_def io_run_ok_iff)
  from save have wr: "ho_write H (cs_path S) (ho_pretty H (profile_config_json c')) w1 = (None, w')"
    by (simp add: save_struct_unlocked_def write_file_restricted_def io_run_ok_iff)
  from alone have k: "leaves_alone H (\<lambda>_. True) (\<lambda>_ _. True) w w0" "leaves_alone H (\<lambda>_. True) (\<lambda>_ _. True) w0 w1"
    "leaves_alone H (\<lambda>q. q \<noteq> cs_path S) (\<lambda>_ _. True) w1 w'"
    unfolding undisturbed_def using mk lk wr by (metis snd_conv)+
  from S have path: "profile_config_path H profile = Inr (cs_path S)"
    by (auto simp: profile_store_def and_then_def split: sum.splits)
  have apart: "p \<noteq> cs_path S" if "token_file_path H profile = Inr p" for p
    using profile_files_differ(1) [OF that path] .
  have "token_kept H profile t w'"
    by (rule kept_token_steps [OF honest kept_token_steps [OF honest kept_token_steps [OF honest keep k(1)] k(2)] k(3)])
      (use apart in auto)
  moreover from honest wr have "config_kept H profile c' w'"
    unfolding config_kept_def holds_file_def honest_storage_def files_read_back_def using path by blast
  ultimately show ?thesis using f S by blast
qed

lemma store_secret_keeps:
  assumes alone: "undisturbed H" and run: "store_secret H profile secret w = (Inr (), w')"
  shows "leaves_alone H (\<lambda>q. secret_file_path H profile \<noteq> Inr q) (\<lambda>s u. s = keyring_service profile \<and> u \<noteq> keyring_user) w w'"
proof -
  have in_file: "leaves_alone H (\<lambda>q. secret_file_path H profile \<noteq> Inr q) (\<lambda>s u. s = keyring_service profile \<and> u \<noteq> keyring_user) w w'"
    if before: "leaves_alone H (\<lambda>_. True) (\<lambda>s u. s = keyring_service profile \<and> u \<noteq> keyring_user) w w1"
      and go: "and_run (secret_file_path H profile, w1) (\<lambda>path w. write_fallback H SecretResource path secret w) = (Inr (), w')" for w1
  proof -
    from go obtain path dir w2 where p: "secret_file_path H profile = Inr path"
      and mk: "ho_create_dir H dir w1 = (None, w2)" and wr: "ho_write H path secret w2 = (None, w')"
      by (auto simp: and_run_ok_iff write_fallback_def io_run_ok_iff)
    from alone have "leaves_alone H (\<lambda>_. True) (\<lambda>_ _. True) w1 w2" "leaves_alone H (\<lambda>q. q \<noteq> path) (\<lambda>_ _. True) w2 w'"
      unfolding undisturbed_def using mk wr by (metis snd_conv)+
    with before p show ?thesis unfolding leaves_alone_def by auto
  qed
  have self: "leaves_alone H (\<lambda>_. True) (\<lambda>s u. s = keyring_service profile \<and> u \<noteq> keyring_user) w w" by (simp add: leaves_alone_def)
  obtain e w1 where set: "au_set_password H (keyring_service profile) keyring_user secret w = (e, w1)" by force
  with alone have after: "leaves_alone H (\<lambda>_. True) (\<lambda>s u. s = keyring_service profile \<and> u \<noteq> keyring_user) w w1"
    unfolding undisturbed_def by (metis snd_conv)
  from run consider
      (only_file) "and_run (secret_file_path H profile, w) (\<lambda>path w. write_fallback H SecretResource path secret w) = (Inr (), w')"
    | (keychain) "w' = w1"
    | (then_file) "and_run (secret_file_path H profile, w1) (\<lambda>path w. write_fallback H SecretResource path secret w) = (Inr (), w')"
    by (auto simp: store_secret_def Let_def and_run_ok_iff set split: if_splits option.splits)
  then show ?thesis
  proof cases
    case keychain
    with after show ?thesis by (auto simp: leaves_alone_def)
  next
    case only_file
    then show ?thesis by (rule in_file [OF self])
  next
    case then_file
    then show ?thesis by (rule in_file [OF after])
  qed
qed

lemma login_kept:
  assumes honest: "honest_storage H" and alone: "undisturbed H"
    and run: "login_with_client_credentials H req w = (es, Inr out, w')"
  shows "\<exists>res w1 now c S. fetch_client_credentials_token H (cl_base_url req) (cl_client_id req) (cl_client_secret req) w = (Inr res, w1) \<and>
    token_kept H (cl_profile req) (token_result_to_token_data res ClientCredentials now (cl_client_id req)) w' \<and>
    profile_store H (cl_profile req) = Inr S \<and> config_kept H (cl_profile req) c w' \<and>
    pc_base_url c = Some (cl_base_url req) \<and> pc_client_id c = Some (cl_client_id req) \<and>
    pc_grant_type c = Some ClientCredentials"
proof -
  let ?p = "cl_profile req"
  obtain x w1 where fetch: "fetch_client_credentials_token H (cl_base_url req) (cl_client_id req) (cl_client_secret req) w = (x, w1)"
    by force
  with run obtain res es2 where x: "x = Inr res"
    and persist: "persist_login H ?p (cl_base_url req) (cl_client_id req)
      (token_result_to_token_data res ClientCredentials (au_now H w1) (cl_client_id req)) (Some (cl_client_secret req)) w1 =
      (es2, Inr (), w')"
    by (cases x) (auto simp: login_with_client_credentials_def announced_def then_run_ok_iff)
  let ?t = "token_result_to_token_data res ClientCredentials (au_now H w1) (cl_client_id req)"
  from persist obtain warning w2 w3 where store: "store_token_data H ?p ?t w1 = (Inr warning, w2)"
    and update: "update_profile H ?p (keep_login (cl_base_url req) (cl_client_id req) (td_grant_type ?t)) w2 = (Inr (), w3)"
    and secret: "store_secret H ?p (cl_client_secret req) w3 = (Inr (), w')"
    by (auto simp: persist_login_def then_run_ok_iff quiet_ok_iff report_ok_iff and_run_ok_iff)
  from store obtain w0 where "store_token_data_unlocked H ?p ?t w0 = (Inr warning, w2)"
    by (auto simp: store_token_data_def with_token_lock_def and_run_ok_iff)
  from update_profile_kept [OF honest alone update stored_is_kept [OF honest this]] obtain c c' S where
    kept: "keep_login (cl_base_url req) (cl_client_id req) (td_grant_type ?t) c = Inr ((), c')"
    and c': "config_kept H ?p c' w3" and t: "token_kept H ?p ?t w3" and S: "profile_store H ?p = Inr S" by blast
  note step = store_secret_keeps [OF alone secret]
  have "token_kept H ?p ?t w'"
    by (rule kept_token_steps [OF honest t step])
      (use profile_files_differ(2) in \<open>auto simp: keyring_user_def keyring_token_user_def\<close>)
  moreover have "config_kept H ?p c' w'"
    by (rule kept_config_steps [OF c' step])
      (use profile_files_differ(3) in auto)
  moreover from kept have "pc_base_url c' = Some (cl_base_url req)" "pc_client_id c' = Some (cl_client_id req)"
    "pc_grant_type c' = Some ClientCredentials"
    by (auto simp: keep_login_def Let_def token_result_to_token_data_def)
  ultimately show ?thesis using fetch x S by blast
qed


lemma table_undisturbed: "undisturbed (table_auth_host env takes answer)"
  by (auto simp: undisturbed_def leaves_alone_def holds_file_def table_auth_host_def table_host_def host.defs split: option.splits)

definition login_host :: "tables auth_host" where
  "login_host = table_auth_host [] True (\<lambda>_. token_answer)"

definition sample_login :: client_credentials_login where
  "sample_login = \<lparr>cl_profile = ''p'', cl_base_url = ''https://b'', cl_client_id = ''app'', cl_client_secret = ''s''\<rparr>"

definition login_token :: token_data where
  "login_token =
     \<lparr>td_access_token = ''a2'', td_expires_at = 83, td_refresh_token = Some ''r3'', td_refresh_expires_at = None,
      td_grant_type = Some ClientCredentials, td_client_id = Some ''app''\<rparr>"

definition logged_in :: tables where
  "logged_in =
     ([(''c/ags/profiles/p/config.json'', json_code (profile_config_json
         \<lparr>pc_base_url = Some ''https://b'', pc_client_id = Some ''app'', pc_namespace = None,
          pc_grant_type = Some ClientCredentials\<rparr>))],
      [(keyring_service ''p'' @ keyring_user, ''s''),
       (keyring_service ''p'' @ keyring_token_user, json_code (token_data_json login_token))])"

lemma sample_login_runs:
  "login_with_client_credentials login_host sample_login ([], []) =
     ([ProgressStarted ''Authenticating (client credentials)...'', ProgressFinished],
      Inr \<lparr>lo_kind = LoggedIn, lo_base_url = ''https://b'', lo_client_id = ''app'', lo_login_type = ''client credentials'',
           lo_expires_in_secs = Some 80\<rparr>, logged_in)"
proof -
  let ?r = "\<lparr>tr_access_token = ''a2'', tr_expires_in = 80, tr_refresh_token = Some ''r3'', tr_refresh_expires_in = None,
       tr_expires_in_warning = None\<rparr>"
  have url: "token_url login_host ''https://b'' = Inr ''https://b/iam/v3/oauth/token''" by code_simp
  have parsed: "parse_token_result login_host (json_code (JObj [(''access_token'', JStr ''a2''), (''expires_in'', JInt 80),
        (''refresh_token'', JStr ''r3'')])) = Inr ?r"
    by (rule answer_parsed) (simp add: login_host_def table_auth_host_def table_host_def host.defs)
  have post: "au_post login_host req w = (Inr token_answer, w)" for req w
    by (simp add: login_host_def table_auth_host_def host.defs)
  have "is_success (raw_status token_answer)" by (simp add: is_success_def token_answer_def)
  with url parsed post answer_read have
    fetch: "fetch_client_credentials_token login_host ''https://b'' ''app'' ''s'' ([], []) = (Inr ?r, ([], []))"
    by (simp add: fetch_client_credentials_token_def post_token_def and_then_def)
  have now: "au_now login_host ([], []) = 3" by (simp add: login_host_def table_auth_host_def host.defs)
  have data: "token_result_to_token_data ?r ClientCredentials 3 ''app'' = login_token"
    by (simp add: token_result_to_token_data_def login_token_def u64_saturating_add_def)
  have "persist_login login_host ''p'' ''https://b'' ''app'' login_token (Some ''s'') ([], []) = ([], Inr (), logged_in)"
    by code_simp
  with fetch now data show ?thesis
    by (simp add: login_with_client_credentials_def sample_login_def announced_def warn_def then_run_def)
qed


section \<open>Beyond the property\<close>

text \<open>A logout reports what was there before; whether it could be deleted does not matter to it.\<close>

lemma logout_ignores_failures:
  assumes "logout_profile H profile w = (Inr out, w')"
  shows "had_access_token out \<longleftrightarrow> stored_token H profile w \<noteq> None"
    and "had_client_secret out \<longleftrightarrow> resolve_stored_client_secret H profile w \<noteq> None"
  using assms by (auto simp: logout_profile_def Let_def and_run_ok_iff)

text \<open>An error of a forced refresh leaves the progress open.\<close>

lemma progress_left_open:
  assumes "cr_base_url creds = Some b" "cr_client_id creds = Some i"
    and "try_refresh_stored_session H profile Force (Some i) w = (Inl e, w')"
  shows "refresh_by_authorization_code H profile creds w =
    ([ProgressStarted ''Refreshing token (authorization code)...''], Inl e, w')"
  using assms by (simp add: refresh_by_authorization_code_def required_base_url_def required_client_id_def ok_or_def
      then_run_def quiet_def report_def)

end
