(* ===== verification/Profiles.thy ===== *)
theory Profiles
  imports Logins
begin

text \<open>
  The profile commands, \<open>ags-runtime/src/runtime/facade/profile.rs\<close>: list, create, use, show, delete and rename, with the
  warnings for what goes wrong after the point where the operation counts as done.
\<close>

section \<open>Views\<close>

record operation_warning =
  ow_message :: string
  ow_reason :: "string option"
  ow_fix :: string

record profile_show_data =
  ps_base_url :: "string option"
  ps_client_id :: "string option"
  ps_namespace :: "string option"
  ps_grant_type :: "string option"
  ps_has_secret :: bool
  ps_has_token :: bool

datatype profile_view =
    ProfileList "(string \<times> bool) list" "string option"
  | ProfileCreated string
  | ProfileSwitched string
  | NoActiveProfile
  | ProfileShow string bool profile_show_data
  | ProfileDeleted string "operation_warning list" "string list"
  | ProfileRenamed string string "operation_warning list"

definition warning_of :: "string \<Rightarrow> runtime_error option \<Rightarrow> string \<Rightarrow> operation_warning" where
  "warning_of message reason fixed = \<lparr>ow_message = message, ow_reason = map_option re_message reason, ow_fix = fixed\<rparr>"

text \<open>The warning for a failure, if there is one.\<close>

definition warn_on :: "'a rt \<Rightarrow> string \<Rightarrow> string \<Rightarrow> operation_warning list" where
  "warn_on r message fixed = (case r of Inl e \<Rightarrow> [warning_of message (Some e) fixed] | Inr _ \<Rightarrow> [])"

section \<open>Reading and switching\<close>

definition profile_missing :: "string \<Rightarrow> string option \<Rightarrow> runtime_error" where
  "profile_missing name hint = (validation_error (''Profile '' @ quoted name @ '' does not exist.''))\<lparr>re_hint := hint\<rparr>"

definition profile_taken :: "string \<Rightarrow> string option \<Rightarrow> runtime_error" where
  "profile_taken name hint = (validation_error (''Profile '' @ quoted name @ '' already exists.''))\<lparr>re_hint := hint\<rparr>"

definition create_first :: "string \<Rightarrow> string option" where
  "create_first name = Some (''Run '' @ quoted (''ags profile create '' @ name) @ '' first.'')"

definition require_profile :: "('w, 'm) host_scheme \<Rightarrow> string \<Rightarrow> string option \<Rightarrow> 'w \<Rightarrow> unit rt" where
  "require_profile H name hint w =
     and_then (profile_exists H name w) (\<lambda>there. if there then Inr () else Inl (profile_missing name hint))"

definition refuse_profile :: "('w, 'm) host_scheme \<Rightarrow> string \<Rightarrow> string option \<Rightarrow> 'w \<Rightarrow> unit rt" where
  "refuse_profile H name hint w =
     and_then (profile_exists H name w) (\<lambda>there. if there then Inl (profile_taken name hint) else Inr ())"

definition profile_list :: "('w, 'm) host_scheme \<Rightarrow> 'w \<Rightarrow> profile_view rt" where
  "profile_list H w =
     and_then (load_global H w) (\<lambda>global.
     and_then (list_profiles H w) (\<lambda>names.
       Inr (ProfileList (map (\<lambda>n. (n, gc_active_profile global = Some n)) names) (gc_active_profile global))))"

definition profile_create :: "('w, 'm) host_scheme \<Rightarrow> string \<Rightarrow> 'w \<Rightarrow> profile_view rt \<times> 'w" where
  "profile_create H name w =
     and_run (validate_profile_name (ho_unicode H) name, w) (\<lambda>name w.
     and_run (refuse_profile H name
         (Some (''Use '' @ quoted (''ags profile show '' @ name) @ '' to inspect it or choose a different name.'')) w, w) (\<lambda>_ w.
     and_run (ensure_profile_exists H name w) (\<lambda>_ w. (Inr (ProfileCreated name), w))))"

definition activate :: "string \<Rightarrow> global_config \<Rightarrow> (unit \<times> global_config) rt" where
  "activate name g = Inr ((), g\<lparr>gc_active_profile := Some name\<rparr>)"

definition profile_use :: "('w, 'm) host_scheme \<Rightarrow> string \<Rightarrow> 'w \<Rightarrow> profile_view rt \<times> 'w" where
  "profile_use H name w =
     and_run (validate_profile_name (ho_unicode H) name, w) (\<lambda>name w.
     and_run (require_profile H name (create_first name) w, w) (\<lambda>_ w.
     and_run (update_global H (activate name) w) (\<lambda>_ w. (Inr (ProfileSwitched name), w))))"

definition profile_shown :: "('w, 'm) auth_host_scheme \<Rightarrow> string \<Rightarrow> 'w \<Rightarrow> profile_view rt" where
  "profile_shown H name w =
     and_then (require_profile H name (create_first name) w) (\<lambda>_.
     and_then (load_global H w) (\<lambda>global.
     and_then (load_profile H name w) (\<lambda>c.
       Inr (ProfileShow name (gc_active_profile global = Some name)
         \<lparr>ps_base_url = pc_base_url c, ps_client_id = pc_client_id c, ps_namespace = pc_namespace c,
          ps_grant_type = map_option as_kebab (pc_grant_type c),
          ps_has_secret = (resolve_stored_client_secret H name w \<noteq> None),
          ps_has_token = (stored_token H name w \<noteq> None)\<rparr>))))"

text \<open>Without a name every error of the resolution of the active profile reads as no active profile.\<close>

definition profile_show :: "('w, 'm) auth_host_scheme \<Rightarrow> string option \<Rightarrow> 'w \<Rightarrow> profile_view rt \<times> 'w" where
  "profile_show H name w =
     (case name of
        Some n \<Rightarrow> and_run (validate_profile_name (ho_unicode H) n, w) (\<lambda>n w. (profile_shown H n w, w))
      | None \<Rightarrow>
          (case resolve_profile_name H None w of
             (Inl _, w) \<Rightarrow> (Inr NoActiveProfile, w)
           | (Inr n, w) \<Rightarrow> (profile_shown H n w, w)))"

section \<open>Delete\<close>

text \<open>The closure tells whether the profile was the active one.\<close>

definition deactivate :: "string \<Rightarrow> global_config \<Rightarrow> (bool \<times> global_config) rt" where
  "deactivate name g =
     (if gc_active_profile g = Some name then Inr (True, g\<lparr>gc_active_profile := None\<rparr>) else Inr (False, g))"

definition harmless_entry :: string where
  "harmless_entry = ''The orphaned keychain entry is harmless and can be ignored.''"

definition use_another :: string where
  "use_another = ''Run '' @ quoted ''ags profile use <name>'' @ '' to set a new active profile.''"

definition deleted_view :: "string \<Rightarrow> unit rt \<Rightarrow> unit rt \<Rightarrow> bool rt \<Rightarrow> profile_view" where
  "deleted_view name secret token cleared =
     ProfileDeleted name
       (warn_on secret ''Could not remove stored secret from keychain'' harmless_entry @
        warn_on token ''Could not remove stored tokens from keychain'' harmless_entry @
        (case cleared of
           Inl e \<Rightarrow> [warning_of ''Could not clear active profile reference'' (Some e) use_another]
         | Inr True \<Rightarrow> [warning_of (quoted name @ '' was the active profile'') None use_another]
         | Inr False \<Rightarrow> []))
       (if name = default_profile then
          [''The default profile will not be recreated automatically. Run '' @
           quoted ''ags profile create default'' @ '' if needed.''] else [])"

definition remove_profile :: "('w, 'm) auth_host_scheme \<Rightarrow> string \<Rightarrow> 'w \<Rightarrow> profile_view rt \<times> 'w" where
  "remove_profile H name w =
     (case delete_secret H name w of (secret, w) \<Rightarrow>
     (case delete_token_data H name w of (token, w) \<Rightarrow>
        and_run (profile_dir H name, w) (\<lambda>dir w.
        and_run (io_run (\<lambda>e. internal_error (''Failed to delete profile directory: '' @ e)) (ho_remove_tree H dir w)) (\<lambda>_ w.
          case update_global H (deactivate name) w of (cleared, w) \<Rightarrow>
            (Inr (deleted_view name secret token cleared), w)))))"

definition profile_delete :: "('w, 'm) auth_host_scheme \<Rightarrow> string \<Rightarrow> 'w \<Rightarrow> profile_view rt \<times> 'w" where
  "profile_delete H name w =
     and_run (validate_profile_name (ho_unicode H) name, w) (\<lambda>name w.
     and_run (require_profile H name None w, w) (\<lambda>_ w. remove_profile H name w))"

section \<open>Rename\<close>

definition login_again_as :: "string \<Rightarrow> string" where
  "login_again_as name = ''Run '' @ quoted (''ags auth login --profile '' @ name) @ '' to re-authenticate.''"

definition migrate_secret ::
  "('w, 'm) auth_host_scheme \<Rightarrow> string \<Rightarrow> string \<Rightarrow> 'w \<Rightarrow> operation_warning list \<times> 'w" where
  "migrate_secret H old new w =
     (case resolve_stored_client_secret H old w of
        None \<Rightarrow> ([], w)
      | Some secret \<Rightarrow>
          (case store_secret H new secret w of
             (Inl e, w) \<Rightarrow>
               ([warning_of ''Could not migrate stored secret to new profile'' (Some e) (login_again_as new)], w)
           | (Inr _, w) \<Rightarrow>
               (case delete_secret H old w of
                  (r, w) \<Rightarrow>
                    (warn_on r ''Could not remove old keychain entry for secret''
                       ''The orphaned entry is harmless and can be ignored.'', w))))"

text \<open>The token is read before the locks are taken.\<close>

definition migrate_token ::
  "('w, 'm) auth_host_scheme \<Rightarrow> string \<Rightarrow> string \<Rightarrow> 'w \<Rightarrow> operation_warning list \<times> 'w" where
  "migrate_token H old new w =
     (case stored_token H old w of
        None \<Rightarrow> ([], w)
      | Some t \<Rightarrow>
          (case with_token_locks H [old, new] (\<lambda>w.
                  and_run (store_token_data_unlocked H new t w) (\<lambda>_ w. delete_token_data_unlocked H old w)) w of
             (r, w) \<Rightarrow> (warn_on r ''Could not migrate stored tokens to new profile'' (login_again_as new), w)))"

definition reactivate :: "string \<Rightarrow> string \<Rightarrow> global_config \<Rightarrow> (unit \<times> global_config) rt" where
  "reactivate old new g =
     Inr ((), if gc_active_profile g = Some old then g\<lparr>gc_active_profile := Some new\<rparr> else g)"

text \<open>What follows once the directory has its new name.\<close>

definition migrate_profile :: "('w, 'm) auth_host_scheme \<Rightarrow> string \<Rightarrow> string \<Rightarrow> 'w \<Rightarrow> profile_view rt \<times> 'w" where
  "migrate_profile H old new w =
     (case migrate_secret H old new w of (secret, w) \<Rightarrow>
     (case migrate_token H old new w of (token, w) \<Rightarrow>
     (case update_global H (reactivate old new) w of (moved, w) \<Rightarrow>
       (Inr (ProfileRenamed old new
          (secret @ token @
           warn_on moved ''Could not update active profile reference''
             (''Run '' @ quoted (''ags profile use '' @ new) @ ''.''))), w))))"

definition profile_rename :: "('w, 'm) auth_host_scheme \<Rightarrow> string \<Rightarrow> string \<Rightarrow> 'w \<Rightarrow> profile_view rt \<times> 'w" where
  "profile_rename H old new w =
     and_run (validate_profile_name (ho_unicode H) old, w) (\<lambda>old w.
     and_run (validate_profile_name (ho_unicode H) new, w) (\<lambda>new w.
     and_run (require_profile H old None w, w) (\<lambda>_ w.
     and_run (refuse_profile H new None w, w) (\<lambda>_ w.
     and_run (profile_dir H old, w) (\<lambda>old_dir w.
     and_run (profile_dir H new, w) (\<lambda>new_dir w.
     and_run (io_run (\<lambda>e. internal_error (''Failed to rename profile directory: '' @ e)) (ho_rename H old_dir new_dir w))
       (\<lambda>_ w. migrate_profile H old new w)))))))"

section \<open>The active profile\<close>

definition global_ok :: "global_config \<Rightarrow> bool" where
  "global_ok g \<longleftrightarrow> pred_option (\<lambda>n. n < 2 ^ 64) (gc_timeout g) \<and> pred_option (\<lambda>n. n < 2 ^ 64) (gc_page_limit g)"

lemma read_u64_bound: "optional_field as_u64 v = Some n \<Longrightarrow> pred_option (\<lambda>n. n < 2 ^ 64) n"
  by (auto simp: optional_field_def as_u64_def split: option.splits json.splits if_splits)

lemma read_global_ok: "json_global_config v = Some g \<Longrightarrow> global_ok g"
  by (auto simp: json_global_config_def global_ok_def bind_eq_Some_conv dest: read_u64_bound)

lemma global_config_inverse:
  assumes "global_ok g"
  shows "json_global_config (global_config_json g) = Some g" "json_ok (global_config_json g)"
proof -
  let ?fmt = "\<lambda>f. JStr (case f of Human \<Rightarrow> ''human'' | JsonFormat \<Rightarrow> ''json'')"
  let ?fs = "[(''active_profile'', map_option JStr (gc_active_profile g)), (''format'', map_option ?fmt (gc_format g)),
       (''no_color'', map_option JBool (gc_no_color g)), (''timeout'', map_option (\<lambda>n. JInt (int n)) (gc_timeout g)),
       (''page_limit'', map_option (\<lambda>n. JInt (int n)) (gc_page_limit g)),
       (''update_check'', map_option JBool (gc_update_check g)),
       (''first_run_hint_seen'', map_option JBool (gc_first_run_hint_seen g))]"
  have d: "distinct (map fst ?fs)" by simp
  from json_fields_object [OF d] obtain m where m: "global_config_json g = JObj m" "\<forall>k. bget m k = Option.bind (map_of ?fs k) id"
    unfolding global_config_json_def by blast
  have fmt: "unit_variant output_format_names (?fmt f) = Some f" for f
    by (cases f) (simp_all add: unit_variant_def output_format_names_def)
  have u: "n < 2 ^ 64" if "gc_timeout g = Some n \<or> gc_page_limit g = Some n" for n
    using assms that by (auto simp: global_ok_def)
  have read: "optional_field as_u64 (map_option (\<lambda>n. JInt (int n)) (gc_timeout g)) = Some (gc_timeout g)"
    "optional_field as_u64 (map_option (\<lambda>n. JInt (int n)) (gc_page_limit g)) = Some (gc_page_limit g)"
    "optional_field (unit_variant output_format_names) (map_option ?fmt (gc_format g)) = Some (gc_format g)"
    "\<And>b. optional_field as_bool (map_option JBool b) = Some b"
    using u fmt by (auto intro!: optional_field_map simp: as_bool_def)
  show "json_global_config (global_config_json g) = Some g"
    by (simp add: json_global_config_def struct_fields_def m read optional_field_map)
  show "json_ok (global_config_json g)"
    unfolding global_config_json_def by (rule json_fields_ok [OF d]) (use u in \<open>auto simp: option.pred_set\<close>)
qed

text \<open>A change of the global configuration is what is read next.\<close>

lemma update_global_ok:
  assumes texts: "texts_read_back H" and files: "files_read_back H"
    and run: "update_global H f w = (Inr r, w')"
    and keep: "\<And>g r g'. f g = Inr (r, g') \<Longrightarrow> global_ok g \<Longrightarrow> global_ok g'"
  shows "\<exists>g g'. f g = Inr (r, g') \<and> load_global H w' = Inr g'"
proof -
  from run obtain S w1 g g' where S: "global_store H = Inr S"
    and loaded: "load_struct_unlocked H S json_global_config default_global_config w1 = Inr g"
    and f: "f g = Inr (r, g')" and save: "save_struct_unlocked H S (global_config_json g') w1 = (Inr (), w')"
    by (auto simp: update_global_def update_struct_def and_run_ok_iff split: prod.splits)
  from loaded have "global_ok g"
    by (auto simp: load_struct_unlocked_def ok_or_def default_global_config_def global_ok_def
        split: if_splits sum.splits option.splits dest: read_global_ok [unfolded global_ok_def])
  from global_config_inverse [OF keep [OF f this]] have inverse:
    "json_global_config (global_config_json g') = Some g'" "json_ok (global_config_json g')" .
  from save have "ho_write H (cs_path S) (ho_pretty H (global_config_json g')) w1 = (None, w')"
    by (simp add: save_struct_unlocked_def write_file_restricted_def io_run_ok_iff)
  with files have "ho_exists H (cs_path S) w'" "ho_read H (cs_path S) w' = Inr (ho_pretty H (global_config_json g'))"
    unfolding files_read_back_def by blast+
  moreover from texts inverse(2) have "ho_parse H (ho_pretty H (global_config_json g')) = Inr (global_config_json g')"
    by (simp add: texts_read_back_def)
  ultimately have "load_global H w' = Inr g'"
    by (simp add: load_global_def S load_struct_unlocked_def inverse(1) ok_or_def)
  with f show ?thesis by blast
qed

definition warned :: "string \<Rightarrow> operation_warning list \<Rightarrow> bool" where
  "warned message ws \<longleftrightarrow> message \<in> ow_message ` set ws"

lemma remove_ends:
  assumes "remove_profile H m w = (Inr (ProfileDeleted n ws tips), w')"
  shows "\<exists>r w1. update_global H (deactivate n) w1 = (r, w') \<and>
    (is_ok r \<or> warned ''Could not clear active profile reference'' ws)"
proof -
  obtain secret w1 where secret: "delete_secret H m w = (secret, w1)" by force
  obtain token w2 where token: "delete_token_data H m w1 = (token, w2)" by force
  from assms obtain w3 where
    ending: "(case update_global H (deactivate m) w3 of (cleared, w) \<Rightarrow> (Inr (deleted_view m secret token cleared), w)) =
      (Inr (ProfileDeleted n ws tips) :: profile_view rt, w')"
    by (auto simp: remove_profile_def secret token and_run_ok_iff)
  obtain r w4 where u: "update_global H (deactivate m) w3 = (r, w4)" by force
  from ending u have "w4 = w'" and view: "deleted_view m secret token r = ProfileDeleted n ws tips" by simp_all
  from view have "m = n" by (simp add: deleted_view_def)
  moreover have "is_ok r \<or> warned ''Could not clear active profile reference'' ws"
    using view by (cases r) (auto simp: deleted_view_def warned_def warning_of_def is_ok_def)
  ultimately show ?thesis using u \<open>w4 = w'\<close> by blast
qed

lemma delete_ends:
  assumes "profile_delete H name w = (Inr (ProfileDeleted n ws tips), w')"
  shows "\<exists>r w1. update_global H (deactivate n) w1 = (r, w') \<and>
    (is_ok r \<or> warned ''Could not clear active profile reference'' ws)"
proof -
  from assms obtain m w0 where "remove_profile H m w0 = (Inr (ProfileDeleted n ws tips), w')"
    unfolding profile_delete_def and_run_ok_iff by blast
  then show ?thesis by (rule remove_ends)
qed

lemma rename_ends:
  assumes "profile_rename H name name' w = (Inr (ProfileRenamed old new ws), w')"
  shows "\<exists>r w1. update_global H (reactivate old new) w1 = (r, w') \<and>
    (is_ok r \<or> warned ''Could not update active profile reference'' ws)"
proof -
  from assms obtain m m' w0 where rest: "migrate_profile H m m' w0 = (Inr (ProfileRenamed old new ws), w')"
    unfolding profile_rename_def and_run_ok_iff by blast
  obtain secret w1 where secret: "migrate_secret H m m' w0 = (secret, w1)" by force
  obtain token w2 where token: "migrate_token H m m' w1 = (token, w2)" by force
  obtain r w3 where u: "update_global H (reactivate m m') w2 = (r, w3)" by force
  from rest have "w3 = w'" "m = old" "m' = new"
    and ws: "ws = secret @ token @ warn_on r ''Could not update active profile reference''
               (''Run '' @ quoted (''ags profile use '' @ m') @ ''.'')"
    unfolding migrate_profile_def secret token u prod.case by blast+
  moreover have "is_ok r \<or> warned ''Could not update active profile reference'' ws"
    unfolding ws by (cases r) (simp_all add: warned_def warning_of_def warn_on_def is_ok_def)
  ultimately show ?thesis using u by blast
qed

lemma active_changes_ok:
  "activate n g = Inr (u, g') \<Longrightarrow> global_ok g \<Longrightarrow> global_ok g'"
  "deactivate n g = Inr (b, g') \<Longrightarrow> global_ok g \<Longrightarrow> global_ok g'"
  "reactivate old new g = Inr (u, g') \<Longrightarrow> global_ok g \<Longrightarrow> global_ok g'"
  by (auto simp: activate_def deactivate_def reactivate_def global_ok_def split: if_splits)

lemma active_changes:
  "activate n g = Inr (u, g') \<Longrightarrow> gc_active_profile g' = Some n"
  "deactivate n g = Inr (b, g') \<Longrightarrow> gc_active_profile g' \<noteq> Some n"
  "reactivate old new g = Inr (u, g') \<Longrightarrow> old \<noteq> new \<Longrightarrow> gc_active_profile g' \<noteq> Some old"
  by (auto simp: activate_def deactivate_def reactivate_def split: if_splits)

text \<open>C30. The active profile follows the profile commands. On a host that keeps its promises, after a switch the profile named is
  the active one; and after a deletion or a renaming that does not warn that the reference could not be changed, the name
  that is gone is not the active one.\<close>

theorem active_profile_follows:
  assumes "texts_read_back H" "files_read_back H"
  shows "(\<forall>name n w'. profile_use H name w = (Inr (ProfileSwitched n), w') \<longrightarrow>
       (\<exists>g. load_global H w' = Inr g \<and> gc_active_profile g = Some n)) \<and>
     (\<forall>name n ws tips w'. profile_delete H name w = (Inr (ProfileDeleted n ws tips), w') \<and>
         \<not> warned ''Could not clear active profile reference'' ws \<longrightarrow>
       (\<exists>g. load_global H w' = Inr g \<and> gc_active_profile g \<noteq> Some n)) \<and>
     (\<forall>name name' old new ws w'. profile_rename H name name' w = (Inr (ProfileRenamed old new ws), w') \<and>
         old \<noteq> new \<and> \<not> warned ''Could not update active profile reference'' ws \<longrightarrow>
       (\<exists>g. load_global H w' = Inr g \<and> gc_active_profile g \<noteq> Some old))"
proof (intro conjI allI impI; (elim conjE)?)
  note changed = update_global_ok [OF assms]
  fix name n w' assume "profile_use H name w = (Inr (ProfileSwitched n), w')"
  then obtain w1 where u: "update_global H (activate n) w1 = (Inr (), w')" by (auto simp: profile_use_def and_run_ok_iff)
  have "\<exists>g g'. activate n g = Inr ((), g') \<and> load_global H w' = Inr g'"
    by (rule changed [OF u]) (rule active_changes_ok)
  with active_changes(1)
  show "\<exists>g. load_global H w' = Inr g \<and> gc_active_profile g = Some n" by blast
next
  note changed = update_global_ok [OF assms]
  fix name n ws tips w'
  assume run: "profile_delete H name w = (Inr (ProfileDeleted n ws tips), w')"
    and quiet: "\<not> warned ''Could not clear active profile reference'' ws"
  from delete_ends [OF run] quiet obtain b w1 where u: "update_global H (deactivate n) w1 = (Inr b, w')"
    by (auto simp: is_ok_iff)
  have "\<exists>g g'. deactivate n g = Inr (b, g') \<and> load_global H w' = Inr g'"
    by (rule changed [OF u]) (rule active_changes_ok)
  with active_changes(2)
  show "\<exists>g. load_global H w' = Inr g \<and> gc_active_profile g \<noteq> Some n" by blast
next
  note changed = update_global_ok [OF assms]
  fix name name' old new ws w'
  assume run: "profile_rename H name name' w = (Inr (ProfileRenamed old new ws), w')" and "old \<noteq> new"
    and quiet: "\<not> warned ''Could not update active profile reference'' ws"
  from rename_ends [OF run] quiet obtain b w1 where u: "update_global H (reactivate old new) w1 = (Inr b, w')"
    by (auto simp: is_ok_iff)
  have "\<exists>g g'. reactivate old new g = Inr (b, g') \<and> load_global H w' = Inr g'"
    by (rule changed [OF u]) (rule active_changes_ok)
  with active_changes(3) [OF _ \<open>old \<noteq> new\<close>]
  show "\<exists>g. load_global H w' = Inr g \<and> gc_active_profile g \<noteq> Some old" by blast
qed

text \<open>A switch between two profiles.\<close>

definition two_profiles :: tables where
  "two_profiles =
     ([(''c/ags/config.json'', json_code (global_config_json (default_global_config\<lparr>gc_active_profile := Some ''p''\<rparr>))),
       (''c/ags/profiles/q/config.json'', json_code (profile_config_json default_profile_config))], [])"

abbreviation profile_host :: "tables auth_host" where
  "profile_host \<equiv> table_auth_host [] True (\<lambda>_. no_answer)"

theorem active_profile_follows_witness:
  "\<exists>w g. profile_use profile_host ''q'' two_profiles = (Inr (ProfileSwitched ''q''), w) \<and>
     load_global profile_host w = Inr g \<and> gc_active_profile g = Some ''q''"
proof -
  have "fst (profile_use profile_host ''q'' two_profiles) = Inr (ProfileSwitched ''q'')" by code_simp
  then obtain w where run: "profile_use profile_host ''q'' two_profiles = (Inr (ProfileSwitched ''q''), w)"
    by (metis prod.collapse)
  have "texts_read_back profile_host" "files_read_back profile_host"
    using table_auth_host_honest [of "[]" True "\<lambda>_. no_answer"] by (simp_all add: honest_storage_def)
  from active_profile_follows [OF this, of two_profiles] run show ?thesis by blast
qed

section \<open>Beyond the property\<close>

text \<open>The token that a renaming stores is the one read before the locks: whatever the wait for them brings in, a token that
  another process has refreshed meanwhile included, the old one is put in its place.\<close>

lemma renamed_token_is_the_old_one:
  assumes "stored_token H old w = Some t"
  shows "migrate_token H old new w =
    (case with_token_locks H [old, new]
        (\<lambda>w. and_run (store_token_data_unlocked H new t w) (\<lambda>_ w. delete_token_data_unlocked H old w)) w of
       (r, w) \<Rightarrow> (warn_on r ''Could not migrate stored tokens to new profile'' (login_again_as new), w))"
  using assms by (simp add: migrate_token_def)

text \<open>An entry that the keychain keeps is not harmless: a profile created again under the same name finds the token in it.\<close>

lemma orphaned_token_is_found:
  assumes "keychain_read H TokenResource profile keyring_token_user w = Inr (Some (ho_print H (token_data_json t)))"
    and "texts_read_back H" "token_ok t"
  shows "stored_token H profile w = Some t"
  using assms json_token_data_inverse [OF assms(3)]
  by (simp add: stored_token_def get_token_data_def read_token_text_def texts_read_back_def ok_or_def)

text \<open>Every error of the choice of the active profile is shown as no active profile, a configuration that does not parse
  included.\<close>

lemma broken_configuration_reads_as_none:
  assumes "ho_env H env_profile = None" "load_global H w = Inl e"
  shows "profile_show H None w = (Inr NoActiveProfile, w)"
  using assms by (simp add: profile_show_def resolve_profile_name_def filter_option_def)

end
