(* ===== verification/TunnelFrame.thy ===== *)
theory TunnelFrame
  imports Json "HOL-Library.Word"
begin

text \<open>
  The frames of the extend-proxy tunnel: the frame types, their constructors and protocol checks
  (\<open>protocol/frame.rs\<close>, \<open>error.rs\<close>) and the wire form (\<open>codec.rs\<close>), each field read and written under the
  serde attributes the source gives it. JSON text and base64 are the crates' and come in as a record of
  functions.
\<close>

section \<open>Frames\<close>

datatype frame_type =
    TSessionInit | TSessionAck | TOpen | TOpenAck | TNack | TData | TFin | TRst | TPing | TPong | TCmd | TCmdResponse
  | TUnknown string

definition as_wire_str :: "frame_type \<Rightarrow> string" where
  "as_wire_str t =
     (case t of
        TSessionInit \<Rightarrow> ''SESSION_INIT'' | TSessionAck \<Rightarrow> ''SESSION_ACK'' | TOpen \<Rightarrow> ''OPEN'' | TOpenAck \<Rightarrow> ''OPEN_ACK''
      | TNack \<Rightarrow> ''NACK'' | TData \<Rightarrow> ''DATA'' | TFin \<Rightarrow> ''FIN'' | TRst \<Rightarrow> ''RST'' | TPing \<Rightarrow> ''PING'' | TPong \<Rightarrow> ''PONG''
      | TCmd \<Rightarrow> ''CMD'' | TCmdResponse \<Rightarrow> ''CMD_RESPONSE'' | TUnknown s \<Rightarrow> s)"

definition from_wire_str :: "string \<Rightarrow> frame_type" where
  "from_wire_str s =
     (if s = ''SESSION_INIT'' then TSessionInit else if s = ''SESSION_ACK'' then TSessionAck
      else if s = ''OPEN'' then TOpen else if s = ''OPEN_ACK'' then TOpenAck else if s = ''NACK'' then TNack
      else if s = ''DATA'' then TData else if s = ''FIN'' then TFin else if s = ''RST'' then TRst
      else if s = ''PING'' then TPing else if s = ''PONG'' then TPong else if s = ''CMD'' then TCmd
      else if s = ''CMD_RESPONSE'' then TCmdResponse else TUnknown s)"

record session_init_payload =
  si_client_version :: "64 word"
  si_capabilities :: "string list"
  si_intercept_ports :: "32 word list"

record session_ack_payload =
  sa_server_version :: "64 word"
  sa_session_id :: string
  sa_idle_timeout_sec :: "64 word"

record open_payload =
  op_target_host :: string
  op_target_port :: "32 word"
  op_remote_addr :: string

record nack_payload =
  np_stream_id :: "64 word"
  np_reason_code :: string
  np_retryable :: "bool option"

record cmd_payload =
  cp_cmd_id :: "64 word"
  cp_name :: string
  cp_params :: "json option"

record cmd_response_payload =
  cr_cmd_id :: "64 word"
  cr_response :: "json option"
  cr_error :: string

datatype frame_body =
    SessionInit "session_init_payload option"
  | SessionAck "session_ack_payload option"
  | Open "open_payload option"
  | OpenAck
  | Nack "nack_payload option"
  | Data string
  | Fin
  | Rst string
  | Ping
  | Pong
  | Cmd "cmd_payload option"
  | CmdResponse "cmd_response_payload option"
  | UnknownBody string

record frame =
  fr_stream_id :: "64 word"
  fr_body :: frame_body

definition frame_of :: "64 word \<Rightarrow> frame_body \<Rightarrow> frame" where
  "frame_of sid body = \<lparr>fr_stream_id = sid, fr_body = body\<rparr>"

definition new_session_init :: "64 word \<Rightarrow> string list \<Rightarrow> 32 word list \<Rightarrow> frame" where
  "new_session_init v caps ports =
     frame_of 0 (SessionInit (Some \<lparr>si_client_version = v, si_capabilities = caps, si_intercept_ports = ports\<rparr>))"

definition new_session_ack :: "64 word \<Rightarrow> string \<Rightarrow> 64 word \<Rightarrow> frame" where
  "new_session_ack v sid idle =
     frame_of 0 (SessionAck (Some \<lparr>sa_server_version = v, sa_session_id = sid, sa_idle_timeout_sec = idle\<rparr>))"

definition new_open :: "64 word \<Rightarrow> string \<Rightarrow> 32 word \<Rightarrow> string \<Rightarrow> frame" where
  "new_open sid host port addr =
     frame_of sid (Open (Some \<lparr>op_target_host = host, op_target_port = port, op_remote_addr = addr\<rparr>))"

definition new_open_ack :: "64 word \<Rightarrow> frame" where "new_open_ack sid = frame_of sid OpenAck"

definition new_nack :: "64 word \<Rightarrow> string \<Rightarrow> bool option \<Rightarrow> frame" where
  "new_nack sid code retry =
     frame_of sid (Nack (Some \<lparr>np_stream_id = sid, np_reason_code = code, np_retryable = retry\<rparr>))"

definition new_data :: "64 word \<Rightarrow> string \<Rightarrow> frame" where "new_data sid bytes = frame_of sid (Data bytes)"

definition new_fin :: "64 word \<Rightarrow> frame" where "new_fin sid = frame_of sid Fin"

definition new_rst :: "64 word \<Rightarrow> string \<Rightarrow> frame" where "new_rst sid why = frame_of sid (Rst why)"

definition new_ping :: frame where "new_ping = frame_of 0 Ping"

definition new_pong :: frame where "new_pong = frame_of 0 Pong"

definition new_cmd :: "64 word \<Rightarrow> string \<Rightarrow> json option \<Rightarrow> frame" where
  "new_cmd cid name params = frame_of 0 (Cmd (Some \<lparr>cp_cmd_id = cid, cp_name = name, cp_params = params\<rparr>))"

definition new_cmd_response :: "64 word \<Rightarrow> json option \<Rightarrow> frame" where
  "new_cmd_response cid r = frame_of 0 (CmdResponse (Some \<lparr>cr_cmd_id = cid, cr_response = r, cr_error = []\<rparr>))"

definition new_cmd_error_response :: "64 word \<Rightarrow> string \<Rightarrow> frame" where
  "new_cmd_error_response cid msg =
     frame_of 0 (CmdResponse (Some \<lparr>cr_cmd_id = cid, cr_response = None, cr_error = msg\<rparr>))"

definition frame_type_of :: "frame \<Rightarrow> frame_type" where
  "frame_type_of f =
     (case fr_body f of
        SessionInit _ \<Rightarrow> TSessionInit | SessionAck _ \<Rightarrow> TSessionAck | Open _ \<Rightarrow> TOpen | OpenAck \<Rightarrow> TOpenAck
      | Nack _ \<Rightarrow> TNack | Data _ \<Rightarrow> TData | Fin \<Rightarrow> TFin | Rst _ \<Rightarrow> TRst | Ping \<Rightarrow> TPing | Pong \<Rightarrow> TPong
      | Cmd _ \<Rightarrow> TCmd | CmdResponse _ \<Rightarrow> TCmdResponse | UnknownBody s \<Rightarrow> TUnknown s)"

section \<open>Protocol checks\<close>

datatype validation_error =
    SessionFrameHasStreamId frame_type "64 word"
  | OpenMissingStreamId | OpenMissingPayload | OpenInvalidTargetPort "32 word" | OpenMissingTargetHost
  | OpenAckMissingStreamId
  | NackMissingStreamId | NackMissingPayload
  | DataLikeFrameMissingStreamId frame_type
  | CmdHasStreamId "64 word" | CmdMissingPayload | CmdMissingCmdId | CmdMissingName
  | CmdResponseHasStreamId "64 word" | CmdResponseMissingPayload | CmdResponseMissingCmdId
  | UnknownFrameType string

definition session_frame_check :: "frame \<Rightarrow> validation_error + unit" where
  "session_frame_check f =
     guard_ok (fr_stream_id f = 0) (SessionFrameHasStreamId (frame_type_of f) (fr_stream_id f))"

definition data_like_check :: "frame \<Rightarrow> validation_error + unit" where
  "data_like_check f = guard_ok (fr_stream_id f \<noteq> 0) (DataLikeFrameMissingStreamId (frame_type_of f))"

definition validate_open :: "open_payload option \<Rightarrow> validation_error + unit" where
  "validate_open payload =
     and_then (ok_or OpenMissingPayload payload) (\<lambda>p.
       if sint (op_target_port p) \<le> 0 \<or> sint (op_target_port p) > 65535 then
         Inl (OpenInvalidTargetPort (op_target_port p))
       else guard_ok (op_target_host p \<noteq> []) OpenMissingTargetHost)"

definition validate_cmd :: "cmd_payload option \<Rightarrow> validation_error + unit" where
  "validate_cmd payload =
     and_then (ok_or CmdMissingPayload payload) (\<lambda>p.
       if cp_cmd_id p = 0 then Inl CmdMissingCmdId else guard_ok (cp_name p \<noteq> []) CmdMissingName)"

definition validate_cmd_response :: "cmd_response_payload option \<Rightarrow> validation_error + unit" where
  "validate_cmd_response payload =
     and_then (ok_or CmdResponseMissingPayload payload) (\<lambda>p. guard_ok (cr_cmd_id p \<noteq> 0) CmdResponseMissingCmdId)"

definition validate :: "frame \<Rightarrow> validation_error + unit" where
  "validate f =
     (let sid = fr_stream_id f in
      case fr_body f of
        SessionInit _ \<Rightarrow> session_frame_check f
      | SessionAck _ \<Rightarrow> session_frame_check f
      | Open p \<Rightarrow> if sid = 0 then Inl OpenMissingStreamId else validate_open p
      | OpenAck \<Rightarrow> guard_ok (sid \<noteq> 0) OpenAckMissingStreamId
      | Nack p \<Rightarrow> if sid = 0 then Inl NackMissingStreamId else guard_ok (p \<noteq> None) NackMissingPayload
      | Data _ \<Rightarrow> data_like_check f
      | Fin \<Rightarrow> data_like_check f
      | Rst _ \<Rightarrow> data_like_check f
      | Ping \<Rightarrow> Inr ()
      | Pong \<Rightarrow> Inr ()
      | Cmd p \<Rightarrow> if sid \<noteq> 0 then Inl (CmdHasStreamId sid) else validate_cmd p
      | CmdResponse p \<Rightarrow> if sid \<noteq> 0 then Inl (CmdResponseHasStreamId sid) else validate_cmd_response p
      | UnknownBody s \<Rightarrow> Inl (UnknownFrameType s))"

section \<open>The wire form\<close>

record wire_frame =
  wf_type :: string
  wf_stream_id :: "64 word"
  wf_session_init :: "session_init_payload option"
  wf_session_ack :: "session_ack_payload option"
  wf_open :: "open_payload option"
  wf_open_ack :: "64 word option"
  wf_nack :: "nack_payload option"
  wf_data :: "string option"
  wf_reason :: string
  wf_cmd :: "cmd_payload option"
  wf_cmd_response :: "cmd_response_payload option"

definition empty_wire :: "string \<Rightarrow> 64 word \<Rightarrow> wire_frame" where
  "empty_wire t sid =
     \<lparr>wf_type = t, wf_stream_id = sid, wf_session_init = None, wf_session_ack = None, wf_open = None,
      wf_open_ack = None, wf_nack = None, wf_data = None, wf_reason = [], wf_cmd = None, wf_cmd_response = None\<rparr>"

definition to_wire :: "frame \<Rightarrow> wire_frame" where
  "to_wire f =
     (let wire = empty_wire (as_wire_str (frame_type_of f)) (fr_stream_id f) in
      case fr_body f of
        SessionInit p \<Rightarrow> wire\<lparr>wf_session_init := p\<rparr>
      | SessionAck p \<Rightarrow> wire\<lparr>wf_session_ack := p\<rparr>
      | Open p \<Rightarrow> wire\<lparr>wf_open := p\<rparr>
      | OpenAck \<Rightarrow> wire\<lparr>wf_open_ack := Some (fr_stream_id f)\<rparr>
      | Nack p \<Rightarrow> wire\<lparr>wf_nack := p\<rparr>
      | Data d \<Rightarrow> if d \<noteq> [] then wire\<lparr>wf_data := Some d\<rparr> else wire
      | Fin \<Rightarrow> wire
      | Rst reason \<Rightarrow> wire\<lparr>wf_reason := reason\<rparr>
      | Ping \<Rightarrow> wire
      | Pong \<Rightarrow> wire
      | Cmd p \<Rightarrow> wire\<lparr>wf_cmd := p\<rparr>
      | CmdResponse p \<Rightarrow> wire\<lparr>wf_cmd_response := p\<rparr>
      | UnknownBody _ \<Rightarrow> wire)"

definition from_wire :: "wire_frame \<Rightarrow> frame" where
  "from_wire wire = frame_of (wf_stream_id wire)
     (case from_wire_str (wf_type wire) of
        TSessionInit \<Rightarrow> SessionInit (wf_session_init wire)
      | TSessionAck \<Rightarrow> SessionAck (wf_session_ack wire)
      | TOpen \<Rightarrow> Open (wf_open wire)
      | TOpenAck \<Rightarrow> OpenAck
      | TNack \<Rightarrow> Nack (wf_nack wire)
      | TData \<Rightarrow> Data (case wf_data wire of Some d \<Rightarrow> d | None \<Rightarrow> [])
      | TFin \<Rightarrow> Fin
      | TRst \<Rightarrow> Rst (wf_reason wire)
      | TPing \<Rightarrow> Ping
      | TPong \<Rightarrow> Pong
      | TCmd \<Rightarrow> Cmd (wf_cmd wire)
      | TCmdResponse \<Rightarrow> CmdResponse (wf_cmd_response wire)
      | TUnknown s \<Rightarrow> UnknownBody s)"

end
