(* ===== verification/TunnelStream.thy ===== *)
theory TunnelStream
  imports TunnelFrame
begin

text \<open>
  One logical stream (\<open>session/stream.rs\<close>): its flags, the read pump as a task that is suspended at its await
  points, and the frames addressed to it. The local connection is seen through what its reads return, whether
  its writes succeed, and the bytes it has accepted. The stream refines the usual half-close machine.
\<close>

section \<open>State\<close>

datatype read_result = ReadEof | ReadBytes string | ReadError

text \<open>Where the read pump stands: not spawned, in its loop, FIN handed over, about to close, returned.\<close>

datatype pump = NotStarted | Reading | FinSent | Closing | Stopped

record stream =
  st_id :: "64 word"
  st_pending :: bool
  st_local_eof :: bool
  st_remote_eof :: bool
  st_closed :: bool
  st_read_half :: bool
  st_cancel_fired :: bool
  st_accepted :: string
  st_pump :: pump

definition stream_new :: "64 word \<Rightarrow> stream" where
  "stream_new sid =
     \<lparr>st_id = sid, st_pending = True, st_local_eof = False, st_remote_eof = False, st_closed = False,
      st_read_half = True, st_cancel_fired = False, st_accepted = [], st_pump = NotStarted\<rparr>"

section \<open>Operations\<close>

definition close :: "stream \<Rightarrow> stream" where
  "close st = (if st_closed st then st else st\<lparr>st_closed := True, st_cancel_fired := True\<rparr>)"

definition set_pending :: "bool \<Rightarrow> stream \<Rightarrow> stream" where
  "set_pending v st = st\<lparr>st_pending := v\<rparr>"

definition mark_local_eof :: "stream \<Rightarrow> bool \<times> stream" where
  "mark_local_eof st = (st_remote_eof st, st\<lparr>st_local_eof := True\<rparr>)"

definition mark_remote_eof :: "stream \<Rightarrow> bool \<times> stream" where
  "mark_remote_eof st = (st_local_eof st, st\<lparr>st_remote_eof := True\<rparr>)"

text \<open>An incoming frame: the frame to send back, if any, and the stream. \<open>write_ok\<close> says whether the local
  connection takes the bytes.\<close>

definition dispatch :: "bool \<Rightarrow> frame_body \<Rightarrow> stream \<Rightarrow> frame option \<times> stream" where
  "dispatch write_ok body st =
     (case body of
        Data d \<Rightarrow>
          if write_ok then (None, st\<lparr>st_accepted := st_accepted st @ d\<rparr>)
          else (Some (new_rst (st_id st) ''local_write_error''), close st)
      | Fin \<Rightarrow> let (both, st') = mark_remote_eof st in (None, if both then close st' else st')
      | Rst _ \<Rightarrow> (None, close st)
      | _ \<Rightarrow> (None, st))"

subsection \<open>The read pump\<close>

definition start_pump :: "stream \<Rightarrow> stream" where
  "start_pump st = (if st_read_half st then st\<lparr>st_read_half := False, st_pump := Reading\<rparr> else st)"

definition read_frame :: "read_result \<Rightarrow> stream \<Rightarrow> frame" where
  "read_frame r st =
     (case r of
        ReadEof \<Rightarrow> new_fin (st_id st)
      | ReadBytes b \<Rightarrow> new_data (st_id st) b
      | ReadError \<Rightarrow> new_rst (st_id st) ''local_read_error'')"

definition read_sent :: "read_result \<Rightarrow> bool \<Rightarrow> stream \<Rightarrow> stream" where
  "read_sent r sent st =
     (case r of
        ReadEof \<Rightarrow> st\<lparr>st_pump := FinSent\<rparr>
      | ReadBytes b \<Rightarrow> if sent then st else st\<lparr>st_pump := Closing\<rparr>
      | ReadError \<Rightarrow> st\<lparr>st_pump := Closing\<rparr>)"

datatype pump_step = PumpRead read_result | PumpMark | PumpClose | PumpCancelled

text \<open>One stretch of the pump between two awaits: the frame it sends, and the stream afterwards, which may depend
  on whether the frame was taken. A read returns at most the buffer's 32 KiB, and never an empty block.\<close>

definition read_ok :: "read_result \<Rightarrow> bool" where
  "read_ok r = (case r of ReadBytes b \<Rightarrow> b \<noteq> [] \<and> length b \<le> 32768 | _ \<Rightarrow> True)"

definition pump_run :: "pump_step \<Rightarrow> stream \<Rightarrow> (frame option \<times> (bool \<Rightarrow> stream)) option" where
  "pump_run p st =
     (case (p, st_pump st) of
        (PumpRead r, Reading) \<Rightarrow> if read_ok r then Some (Some (read_frame r st), \<lambda>sent. read_sent r sent st) else None
      | (PumpMark, FinSent) \<Rightarrow>
          let (both, st') = mark_local_eof st
          in Some (None, \<lambda>_. st'\<lparr>st_pump := if both then Closing else Stopped\<rparr>)
      | (PumpClose, Closing) \<Rightarrow> Some (None, \<lambda>_. (close st)\<lparr>st_pump := Stopped\<rparr>)
      | (PumpCancelled, Reading) \<Rightarrow> if st_cancel_fired st then Some (None, \<lambda>_. st\<lparr>st_pump := Stopped\<rparr>) else None
      | _ \<Rightarrow> None)"

section \<open>A stream under any schedule\<close>

datatype stream_event =
    Incoming frame_body bool
  | SpawnPump
  | SetPending bool
  | Pump pump_step bool
  | CloseCalled

text \<open>The frame a schedule step sends on behalf of the pump, and the stream after it.\<close>

definition stream_step :: "stream_event \<Rightarrow> stream \<Rightarrow> (frame option \<times> stream) option" where
  "stream_step e st =
     (case e of
        Incoming body ok \<Rightarrow> Some (None, snd (dispatch ok body st))
      | SpawnPump \<Rightarrow> Some (None, start_pump st)
      | SetPending v \<Rightarrow> Some (None, set_pending v st)
      | Pump p sent \<Rightarrow> map_option (\<lambda>(f, k). (f, k sent)) (pump_run p st)
      | CloseCalled \<Rightarrow> Some (None, close st))"

fun stream_run :: "stream_event list \<Rightarrow> stream \<Rightarrow> (frame list \<times> stream) option" where
  "stream_run [] st = Some ([], st)"
| "stream_run (e # es) st =
     Option.bind (stream_step e st) (\<lambda>(f, st').
       map_option (\<lambda>(fs, st''). ((case f of None \<Rightarrow> fs | Some x \<Rightarrow> x # fs), st'')) (stream_run es st'))"

section \<open>The half-close machine\<close>

datatype half_close = BothOpen | LocalDone | RemoteDone | Finished

datatype half_event = LocalFin | RemoteFin | Abort

fun half_step :: "half_event \<Rightarrow> half_close \<Rightarrow> half_close" where
  "half_step Abort h = Finished"
| "half_step LocalFin BothOpen = LocalDone"
| "half_step LocalFin RemoteDone = Finished"
| "half_step LocalFin h = h"
| "half_step RemoteFin BothOpen = RemoteDone"
| "half_step RemoteFin LocalDone = Finished"
| "half_step RemoteFin h = h"

definition half_of :: "stream \<Rightarrow> half_close" where
  "half_of st =
     (if st_closed st \<or> (st_local_eof st \<and> st_remote_eof st) then Finished
      else if st_local_eof st then LocalDone
      else if st_remote_eof st then RemoteDone
      else BothOpen)"

text \<open>What a schedule step means to the half-close machine.\<close>

definition half_events :: "stream_event \<Rightarrow> half_event list" where
  "half_events e =
     (case e of
        Incoming Fin _ \<Rightarrow> [RemoteFin]
      | Incoming (Rst _) _ \<Rightarrow> [Abort]
      | Incoming (Data _) ok \<Rightarrow> if ok then [] else [Abort]
      | Pump PumpMark _ \<Rightarrow> [LocalFin]
      | Pump PumpClose _ \<Rightarrow> [Abort]
      | CloseCalled \<Rightarrow> [Abort]
      | _ \<Rightarrow> [])"

section \<open>Laws\<close>

lemmas stream_ops = close_def set_pending_def mark_local_eof_def mark_remote_eof_def start_pump_def read_sent_def

text \<open>The flags and the pump agree.\<close>

definition stream_inv :: "stream \<Rightarrow> bool" where
  "stream_inv st \<longleftrightarrow>
     (st_read_half st \<longleftrightarrow> st_pump st = NotStarted) \<and>
     (st_local_eof st \<longrightarrow> st_pump st = Closing \<or> st_pump st = Stopped) \<and>
     (st_local_eof st \<and> st_remote_eof st \<and> \<not> st_closed st \<longrightarrow> st_pump st = Closing) \<and>
     (st_cancel_fired st \<longleftrightarrow> st_closed st)"

lemma stream_new_inv: "stream_inv (stream_new sid)"
  by (simp add: stream_inv_def stream_new_def)

lemma close_inv: "stream_inv st \<Longrightarrow> stream_inv (close st)"
  by (simp add: stream_inv_def close_def)

lemma set_pending_inv: "stream_inv st \<Longrightarrow> stream_inv (set_pending v st)"
  by (simp add: stream_inv_def set_pending_def)

lemma start_pump_inv: "stream_inv st \<Longrightarrow> stream_inv (start_pump st)"
  by (auto simp: stream_inv_def start_pump_def)

lemma dispatch_inv: "stream_inv st \<Longrightarrow> stream_inv (snd (dispatch ok body st))"
  by (cases body) (auto simp: stream_inv_def dispatch_def stream_ops)

lemma pump_run_inv: "pump_run p st = Some (f, k) \<Longrightarrow> stream_inv st \<Longrightarrow> stream_inv (k sent)"
  by (cases p; cases "st_pump st")
    (auto simp: pump_run_def stream_inv_def stream_ops split: if_splits read_result.splits)

lemma stream_step_inv: "stream_step e st = Some (f, st') \<Longrightarrow> stream_inv st \<Longrightarrow> stream_inv st'"
  by (cases e)
    (auto simp: stream_step_def close_inv set_pending_inv start_pump_inv dispatch_inv dest: pump_run_inv)

lemma id_kept:
  "st_id (close st) = st_id st" "st_id (set_pending v st) = st_id st" "st_id (start_pump st) = st_id st"
  "st_id (snd (dispatch ok body st)) = st_id st"
  "pump_run p st = Some (f, k) \<Longrightarrow> st_id (k sent) = st_id st"
proof -
  show "st_id (close st) = st_id st" "st_id (set_pending v st) = st_id st" "st_id (start_pump st) = st_id st"
    by (simp_all add: stream_ops)
  show "st_id (snd (dispatch ok body st)) = st_id st"
    by (cases body) (simp_all add: dispatch_def stream_ops)
  show "st_id (k sent) = st_id st" if "pump_run p st = Some (f, k)"
    using that by (cases p; cases "st_pump st")
      (auto simp: pump_run_def stream_ops split: if_splits read_result.splits)
qed

lemma stream_step_id: "stream_step e st = Some (f, st') \<Longrightarrow> st_id st' = st_id st"
  by (cases e) (auto simp: stream_step_def id_kept)

lemma half_finished: "half_step e Finished = Finished"
  by (cases e) simp_all

lemma stream_step_half:
  assumes "stream_step e st = Some (f, st')" "stream_inv st"
  shows "half_of st' = fold half_step (half_events e) (half_of st)"
proof (cases e)
  case (Incoming body ok)
  then show ?thesis using assms
    by (cases body) (auto simp: stream_step_def dispatch_def stream_ops half_events_def half_of_def split: if_splits)
next
  case (Pump p sent)
  then show ?thesis using assms
    by (cases p; cases "st_pump st")
      (auto simp: stream_step_def pump_run_def stream_ops half_events_def half_of_def stream_inv_def
        split: if_splits read_result.splits)
qed (use assms in \<open>auto simp: stream_step_def stream_ops half_events_def half_of_def split: if_splits\<close>)

text \<open>The bytes a schedule reads from, and writes to, the local connection.\<close>

definition bytes_read :: "stream_event \<Rightarrow> string" where
  "bytes_read e = (case e of Pump (PumpRead (ReadBytes b)) _ \<Rightarrow> b | _ \<Rightarrow> [])"

definition bytes_written :: "stream_event \<Rightarrow> string" where
  "bytes_written e = (case e of Incoming (Data d) True \<Rightarrow> d | _ \<Rightarrow> [])"

lemma stream_step_accepted:
  assumes "stream_step e st = Some (f, st')"
  shows "st_accepted st' = st_accepted st @ bytes_written e"
proof (cases e)
  case (Incoming body ok)
  then show ?thesis using assms
    by (cases body; cases ok) (auto simp: stream_step_def dispatch_def stream_ops bytes_written_def)
next
  case (Pump p sent)
  then show ?thesis using assms
    by (cases p; cases "st_pump st")
      (auto simp: stream_step_def pump_run_def stream_ops bytes_written_def split: if_splits read_result.splits)
qed (use assms in \<open>auto simp: stream_step_def stream_ops bytes_written_def\<close>)

text \<open>What the pump may still send: DATA frames and then at most one FIN or RST while it is in its loop, nothing
  afterwards.\<close>

definition ending :: "64 word \<Rightarrow> frame list \<Rightarrow> bool" where
  "ending sid fs \<longleftrightarrow> fs = [] \<or> fs = [new_fin sid] \<or> fs = [new_rst sid ''local_read_error'']"

definition pump_in_loop :: "stream \<Rightarrow> bool" where
  "pump_in_loop st \<longleftrightarrow> st_pump st = NotStarted \<or> st_pump st = Reading"

lemma stream_step_frame:
  assumes "stream_step e st = Some (f, st')" "stream_inv st"
  shows "(\<not> pump_in_loop st \<longrightarrow> f = None \<and> \<not> pump_in_loop st' \<and> bytes_read e = []) \<and>
    (case f of
       None \<Rightarrow> bytes_read e = []
     | Some x \<Rightarrow> if bytes_read e = [] then ending (st_id st) [x] \<and> \<not> pump_in_loop st' else x = new_data (st_id st) (bytes_read e))"
proof (cases e)
  case (Pump p sent)
  then show ?thesis using assms
    by (cases p; cases "st_pump st")
      (auto simp: stream_step_def pump_run_def stream_ops bytes_read_def pump_in_loop_def ending_def
        read_frame_def read_ok_def split: if_splits read_result.splits)
next
  case (Incoming body ok)
  then show ?thesis using assms
    by (cases body) (auto simp: stream_step_def dispatch_def stream_ops bytes_read_def pump_in_loop_def split: if_splits)
qed (use assms in \<open>auto simp: stream_step_def stream_ops bytes_read_def pump_in_loop_def stream_inv_def split: if_splits\<close>)

lemma stream_run_spec:
  "stream_run es st = Some (fs, st') \<Longrightarrow> stream_inv st \<Longrightarrow>
   stream_inv st' \<and> half_of st' = fold half_step (concat (map half_events es)) (half_of st) \<and>
   st_accepted st' = st_accepted st @ concat (map bytes_written es) \<and>
   (\<exists>bs tail. fs = map (new_data (st_id st)) bs @ tail \<and> ending (st_id st) tail \<and>
      concat bs = concat (map bytes_read es) \<and> (\<not> pump_in_loop st \<longrightarrow> fs = []))"
proof (induction es arbitrary: st fs)
  case Nil
  then show ?case by (auto simp: ending_def)
next
  case (Cons e es)
  from Cons.prems(1) obtain f mid rest where step: "stream_step e st = Some (f, mid)"
    and rest: "stream_run es mid = Some (rest, st')"
    and fs: "fs = (case f of None \<Rightarrow> rest | Some x \<Rightarrow> x # rest)"
    by (auto split: Option.bind_splits)
  note inv = stream_step_inv [OF step Cons.prems(2)]
  note IH = Cons.IH [OF rest inv]
  from IH obtain bs tail where shape: "rest = map (new_data (st_id mid)) bs @ tail" "ending (st_id mid) tail"
    "concat bs = concat (map bytes_read es)" "\<not> pump_in_loop mid \<longrightarrow> rest = []" by blast
  note frame = stream_step_frame [OF step Cons.prems(2)] and sid = stream_step_id [OF step]
  have "\<exists>bs tail. fs = map (new_data (st_id st)) bs @ tail \<and> ending (st_id st) tail \<and>
      concat bs = bytes_read e @ concat (map bytes_read es) \<and> (\<not> pump_in_loop st \<longrightarrow> fs = [])"
  proof (cases f)
    case None
    with fs frame shape sid show ?thesis by auto
  next
    case (Some x)
    show ?thesis
    proof (cases "bytes_read e = []")
      case True
      with Some frame have "ending (st_id st) [x]" "\<not> pump_in_loop mid" "pump_in_loop st" by auto
      moreover from this shape have "rest = []" "bs = []" by auto
      ultimately show ?thesis using Some fs True shape(3) by (intro exI [of _ "[]"] exI [of _ "[x]"]) auto
    next
      case False
      with Some frame have "x = new_data (st_id st) (bytes_read e)" "pump_in_loop st" by auto
      then show ?thesis using Some fs shape sid
        by (intro exI [of _ "bytes_read e # bs"] exI [of _ tail]) auto
    qed
  qed
  then show ?case
    using IH stream_step_half [OF step Cons.prems(2)] stream_step_accepted [OF step] by simp
qed


text \<open>A request and its reply, both directions closed in turn.\<close>

definition sample_events :: "stream_event list" where
  "sample_events =
     [SetPending False, SpawnPump, Incoming (Data ''hi'') True, Pump (PumpRead (ReadBytes ''ok'')) True,
      Pump (PumpRead ReadEof) True, Pump PumpMark True, SpawnPump, Incoming Fin True]"

lemma sample_events_run:
  "stream_run sample_events (stream_new 2) =
     Some ([new_data 2 ''ok'', new_fin 2],
       (stream_new 2)\<lparr>st_pending := False, st_local_eof := True, st_remote_eof := True, st_closed := True,
         st_read_half := False, st_cancel_fired := True, st_accepted := ''hi'', st_pump := Stopped\<rparr>)"
  by (simp add: sample_events_def stream_step_def dispatch_def pump_run_def read_ok_def read_frame_def stream_ops
      stream_new_def)


end
