(* ===== verification/TunnelIds.thy ===== *)
theory TunnelIds
  imports "HOL-Library.Word"
begin

text \<open>
  Stream identifiers (\<open>session/idgen.rs\<close>): the counter of one endpoint, its wrap below \<open>u64::MAX\<close>, and the loop
  that skips the identifiers in use. The loop runs under fuel; one round more than there are identifiers in
  use is enough.
\<close>

datatype id_parity = Odd | Even

record id_generator =
  ig_current :: "64 word"
  ig_start :: "64 word"

definition overflow_threshold :: "64 word" where
  "overflow_threshold = -1 - 1000"

definition new_id_generator :: "id_parity \<Rightarrow> id_generator" where
  "new_id_generator p =
     (let start = (case p of Odd \<Rightarrow> 1 | Even \<Rightarrow> 2) in \<lparr>ig_current = start, ig_start = start\<rparr>)"

fun next_id :: "nat \<Rightarrow> id_generator \<Rightarrow> 64 word list \<Rightarrow> (64 word \<times> id_generator) option" where
  "next_id 0 g active = None"
| "next_id (Suc fuel) g active =
     (let current = (if overflow_threshold \<le> ig_current g then ig_start g else ig_current g);
          g' = g\<lparr>ig_current := current + 2\<rparr>
      in if current \<in> set active then next_id fuel g' active else Some (current, g'))"

section \<open>The cycle of candidates\<close>

definition threshold :: nat where
  "threshold = 2 ^ 64 - 1001"

lemma threshold_word: "unat overflow_threshold = threshold"
  by (simp add: overflow_threshold_def threshold_def)

text \<open>A generator that \<open>new\<close> and \<open>next\<close> can produce.\<close>

definition id_gen_ok :: "id_generator \<Rightarrow> bool" where
  "id_gen_ok g \<longleftrightarrow>
     (ig_start g = 1 \<or> ig_start g = 2) \<and> unat (ig_start g) \<le> unat (ig_current g) \<and>
     unat (ig_current g) < threshold + 2 \<and> even (unat (ig_current g)) = even (unat (ig_start g))"

lemma new_id_gen_ok: "id_gen_ok (new_id_generator p)"
  by (cases p) (simp_all add: id_gen_ok_def new_id_generator_def threshold_def)

definition reset :: "id_generator \<Rightarrow> 64 word" where
  "reset g = (if overflow_threshold \<le> ig_current g then ig_start g else ig_current g)"

lemma reset_ok:
  assumes "id_gen_ok g"
  shows "unat (ig_start g) \<le> unat (reset g)" "unat (reset g) < threshold" "even (unat (reset g)) = even (unat (ig_start g))"
    "unat (reset g + 2) = unat (reset g) + 2" "id_gen_ok (g\<lparr>ig_current := reset g + 2\<rparr>)"
proof -
  have small: "unat (ig_start g) < threshold"
    using assms by (auto simp: id_gen_ok_def threshold_def)
  show a: "unat (ig_start g) \<le> unat (reset g)" "unat (reset g) < threshold" "even (unat (reset g)) = even (unat (ig_start g))"
    using assms small by (auto simp: reset_def id_gen_ok_def word_le_nat_alt threshold_word not_le)
  show b: "unat (reset g + 2) = unat (reset g) + 2"
  proof -
    have "unat (reset g) + unat (2 :: 64 word) < 2 ^ 64" using a(2) by (simp add: threshold_def)
    then show ?thesis by (subst unat_add_lem [THEN iffD1]) simp_all
  qed
  show "id_gen_ok (g\<lparr>ig_current := reset g + 2\<rparr>)"
    using assms a b by (simp add: id_gen_ok_def)
qed

text \<open>The position of a generator in its cycle of \<open>cycle_length\<close> identifiers.\<close>

definition cycle_length :: nat where
  "cycle_length = 2 ^ 63 - 501"

definition position :: "id_generator \<Rightarrow> nat" where
  "position g = (unat (reset g) - unat (ig_start g)) div 2"

definition at_position :: "64 word \<Rightarrow> nat \<Rightarrow> nat" where
  "at_position start p = unat start + 2 * p"

lemma reset_at:
  assumes "id_gen_ok g"
  shows "unat (reset g) = at_position (ig_start g) (position g)" "position g < cycle_length"
proof -
  note r = reset_ok [OF assms]
  have "even (unat (reset g) - unat (ig_start g))" using r(1,3) by simp
  then show "unat (reset g) = at_position (ig_start g) (position g)"
    using r(1) by (simp add: at_position_def position_def)
  moreover have "unat (ig_start g) = 1 \<or> unat (ig_start g) = 2" using assms by (auto simp: id_gen_ok_def)
  ultimately show "position g < cycle_length"
    using r(2) by (auto simp: at_position_def threshold_def cycle_length_def)
qed

lemma position_advances:
  assumes "id_gen_ok g"
  shows "position (g\<lparr>ig_current := reset g + 2\<rparr>) = (position g + 1) mod cycle_length"
proof -
  let ?g = "g\<lparr>ig_current := reset g + 2\<rparr>"
  note r = reset_ok [OF assms] and at = reset_at [OF assms]
  have start: "unat (ig_start g) = 1 \<or> unat (ig_start g) = 2" using assms by (auto simp: id_gen_ok_def)
  have next_value: "unat (reset g + 2) = unat (ig_start g) + 2 * (position g + 1)"
    using r(4) at(1) by (simp add: at_position_def)
  show ?thesis
  proof (cases "threshold \<le> unat (reset g + 2)")
    case True
    then have "reset ?g = ig_start g" by (simp add: reset_def word_le_nat_alt threshold_word)
    then have "position ?g = 0" by (simp add: position_def)
    moreover have "position g + 1 = cycle_length"
      using True next_value at(2) start by (auto simp: threshold_def cycle_length_def)
    ultimately show ?thesis by simp
  next
    case False
    then have "reset ?g = reset g + 2" by (simp add: reset_def word_le_nat_alt threshold_word)
    then have "position ?g = position g + 1" using next_value by (simp add: position_def)
    moreover have "position g + 1 < cycle_length"
      using False next_value start by (auto simp: threshold_def cycle_length_def)
    ultimately show ?thesis by simp
  qed
qed

lemma next_id_unfold:
  "next_id (Suc fuel) g active =
     (if reset g \<in> set active then next_id fuel (g\<lparr>ig_current := reset g + 2\<rparr>) active
      else Some (reset g, g\<lparr>ig_current := reset g + 2\<rparr>))"
  by (simp add: reset_def Let_def)

lemma next_id_busy:
  "next_id fuel g active = None \<Longrightarrow> id_gen_ok g \<Longrightarrow>
   i < fuel \<Longrightarrow> at_position (ig_start g) ((position g + i) mod cycle_length) \<in> unat ` set active"
proof (induction fuel arbitrary: g i)
  case (Suc fuel)
  let ?g = "g\<lparr>ig_current := reset g + 2\<rparr>"
  from Suc.prems(1) have busy: "reset g \<in> set active" and rest: "next_id fuel ?g active = None"
    unfolding next_id_unfold by (auto split: if_splits)
  show ?case
  proof (cases i)
    case 0
    with busy reset_at [OF Suc.prems(2)] show ?thesis by (metis add.right_neutral imageI mod_less)
  next
    case (Suc j)
    with Suc.IH [OF rest reset_ok(5) [OF Suc.prems(2)], of j] Suc.prems(2,3) show ?thesis
      by (simp add: position_advances mod_add_left_eq)
  qed
qed simp

lemma next_id_some:
  "next_id fuel g active = Some (sid, g') \<Longrightarrow> id_gen_ok g \<Longrightarrow>
   sid \<notin> set active \<and> id_gen_ok g' \<and> ig_start g' = ig_start g \<and> 0 < unat sid \<and> unat sid < threshold \<and>
   even (unat sid) = even (unat (ig_start g)) \<and> ig_current g' = sid + 2"
proof (induction fuel arbitrary: g)
  case (Suc fuel)
  note r = reset_ok [OF Suc.prems(2)]
  show ?case
  proof (cases "reset g \<in> set active")
    case True
    with Suc.prems(1) have "next_id fuel (g\<lparr>ig_current := reset g + 2\<rparr>) active = Some (sid, g')"
      unfolding next_id_unfold by simp
    from Suc.IH [OF this r(5)] show ?thesis by simp
  next
    case False
    with Suc.prems(1) have "sid = reset g" "g' = g\<lparr>ig_current := reset g + 2\<rparr>"
      unfolding next_id_unfold by auto
    moreover have "0 < unat (reset g)" using r(1) Suc.prems(2) by (auto simp: id_gen_ok_def)
    ultimately show ?thesis using r False by simp
  qed
qed simp

lemma mod_shift_inj:
  assumes "(p + i) mod n = (p + j) mod n" "i < n" "j < n"
  shows "i = (j :: nat)"
proof -
  have less: "\<not> i < j" if "(p + i) mod n = (p + j) mod n" "j < n" for i j :: nat
  proof
    assume "i < j"
    then have "(p + j) mod n = (p + i) mod n" "p + i \<le> p + j" using that(1) by simp_all
    then have "n dvd (p + j) - (p + i)" by (simp add: mod_eq_dvd_iff_nat)
    then have "n dvd j - i" by simp
    with \<open>i < j\<close> that(2) show False by (auto dest: dvd_imp_le)
  qed
  from less [of i j] less [of j i] assms show ?thesis by (metis linorder_neqE_nat)
qed

text \<open>C37. The next stream identifier: from any generator that \<open>new\<close> and \<open>next\<close> can reach, and with fewer identifiers in use
  than half the number space, the loop ends within one round more than there are identifiers in use, and hands
  out a positive identifier of the endpoint's parity that is not in use, below the wrap threshold; the
  generator stays well formed.\<close>

theorem next_id_fresh:
  assumes "id_gen_ok g" "card (set active) < cycle_length"
  shows "\<exists>sid g'. next_id (Suc (card (set active))) g active = Some (sid, g') \<and>
    sid \<notin> set active \<and> even (unat sid) = even (unat (ig_start g)) \<and> 0 < unat sid \<and> sid < overflow_threshold \<and>
    id_gen_ok g' \<and> ig_start g' = ig_start g"
proof -
  let ?fuel = "Suc (card (set active))"
  let ?at = "\<lambda>i. at_position (ig_start g) ((position g + i) mod cycle_length)"
  have "next_id ?fuel g active \<noteq> None"
  proof
    assume none: "next_id ?fuel g active = None"
    have "?at ` {..<?fuel} \<subseteq> unat ` set active"
      using next_id_busy [OF none assms(1)] by blast
    then have "card (?at ` {..<?fuel}) \<le> card (unat ` set active)" by (rule card_mono [rotated]) simp
    also have "\<dots> = card (set active)" by (rule card_image) (auto intro: inj_onI word_unat_eq_iff [THEN iffD2])
    finally have le: "card (?at ` {..<?fuel}) \<le> card (set active)" .
    have "inj_on ?at {..<?fuel}"
    proof (rule inj_onI)
      fix i j assume ij: "i \<in> {..<?fuel}" "j \<in> {..<?fuel}" and eq: "?at i = ?at j"
      then have "(position g + i) mod cycle_length = (position g + j) mod cycle_length"
        by (simp add: at_position_def)
      moreover have "i < cycle_length" "j < cycle_length" using ij assms(2) by auto
      ultimately show "i = j" by (rule mod_shift_inj)
    qed
    then have "card (?at ` {..<?fuel}) = ?fuel" by (simp add: card_image)
    with le show False by simp
  qed
  then obtain sid g' where "next_id ?fuel g active = Some (sid, g')" by auto
  with next_id_some [OF this assms(1)] show ?thesis
    by (auto simp: word_less_nat_alt threshold_word)
qed

theorem next_id_fresh_witness:
  "\<exists>sid g'. next_id (Suc (card (set [2, 4 :: 64 word]))) (new_id_generator Even) [2, 4] = Some (sid, g') \<and>
     sid \<notin> set [2, 4] \<and> 0 < unat sid"
proof -
  have "card (set [2, 4 :: 64 word]) < cycle_length" by (simp add: cycle_length_def)
  from next_id_fresh [OF new_id_gen_ok [of Even] this] show ?thesis by blast
qed

end
