(* ===== verification/TunnelCodec.thy ===== *)
theory TunnelCodec
  imports TunnelFrame
begin

text \<open>
  The JSON form of a frame (\<open>codec.rs\<close>, \<open>frame.rs\<close>, \<open>serde_helpers.rs\<close>): each field under its serde attributes.
  \<open>skip_serializing_if\<close> leaves a field out, an \<open>Option\<close> reads an absent or null field as \<open>None\<close>, \<open>default\<close> reads an
  absent field as the default, and \<open>null_as_default\<close> a null one too. Unknown fields are ignored.
\<close>

section \<open>Fields\<close>

definition put_opt :: "string \<Rightarrow> json option \<Rightarrow> json bmap \<Rightarrow> json bmap" where
  "put_opt k v m = (case v of None \<Rightarrow> m | Some x \<Rightarrow> binsert k x m)"

definition put_unless :: "bool \<Rightarrow> string \<Rightarrow> json \<Rightarrow> json bmap \<Rightarrow> json bmap" where
  "put_unless skip k v m = (if skip then m else binsert k v m)"

lemma bget_put [simp]:
  "bget (put_opt k v m) k' = (if k' = k then (if v = None then bget m k else v) else bget m k')"
  "bget (put_unless skip k x m) k' = (if k' = k \<and> \<not> skip then Some x else bget m k')"
  "bget (binsert k x m) k' = (if k' = k then Some x else bget m k')"
  by (simp_all add: put_opt_def put_unless_def bget_binsert split: option.split)

lemma bget_Cons [simp]: "bget ((k, v) # m) k' = (if k' = k then Some v else bget m k')"
  by (simp add: bget_def)

definition required :: "string \<Rightarrow> (json \<Rightarrow> 'a option) \<Rightarrow> json bmap \<Rightarrow> 'a option" where
  "required k dec m = Option.bind (bget m k) dec"

definition optional :: "string \<Rightarrow> (json \<Rightarrow> 'a option) \<Rightarrow> json bmap \<Rightarrow> 'a option option" where
  "optional k dec m =
     (case bget m k of
        None \<Rightarrow> Some None
      | Some v \<Rightarrow> if v = JNull then Some None else map_option Some (dec v))"

definition defaulted :: "string \<Rightarrow> 'a \<Rightarrow> (json \<Rightarrow> 'a option) \<Rightarrow> json bmap \<Rightarrow> 'a option" where
  "defaulted k d dec m = (case bget m k of None \<Rightarrow> Some d | Some v \<Rightarrow> dec v)"

definition null_as_default :: "'a \<Rightarrow> (json \<Rightarrow> 'a option) \<Rightarrow> json \<Rightarrow> 'a option" where
  "null_as_default d dec v = (if v = JNull then Some d else dec v)"

definition u64_json :: "64 word \<Rightarrow> json" where "u64_json w = JInt (uint w)"

definition i64_json :: "64 word \<Rightarrow> json" where "i64_json w = JInt (sint w)"

definition i32_json :: "32 word \<Rightarrow> json" where "i32_json w = JInt (sint w)"

definition json_u64 :: "json \<Rightarrow> 64 word option" where
  "json_u64 v = (case v of JInt i \<Rightarrow> if 0 \<le> i \<and> i < 2 ^ 64 then Some (word_of_int i) else None | _ \<Rightarrow> None)"

definition json_i64 :: "json \<Rightarrow> 64 word option" where
  "json_i64 v = (case v of JInt i \<Rightarrow> if - (2 ^ 63) \<le> i \<and> i < 2 ^ 63 then Some (word_of_int i) else None | _ \<Rightarrow> None)"

definition json_i32 :: "json \<Rightarrow> 32 word option" where
  "json_i32 v = (case v of JInt i \<Rightarrow> if - (2 ^ 31) \<le> i \<and> i < 2 ^ 31 then Some (word_of_int i) else None | _ \<Rightarrow> None)"

fun all_some :: "'a option list \<Rightarrow> 'a list option" where
  "all_some [] = Some []"
| "all_some (None # xs) = None"
| "all_some (Some x # xs) = map_option ((#) x) (all_some xs)"

definition json_list :: "(json \<Rightarrow> 'a option) \<Rightarrow> json \<Rightarrow> 'a list option" where
  "json_list dec v = (case v of JArr xs \<Rightarrow> all_some (map dec xs) | _ \<Rightarrow> None)"

definition from_object :: "(json bmap \<Rightarrow> 'a option) \<Rightarrow> json \<Rightarrow> 'a option" where
  "from_object dec v = (case v of JObj m \<Rightarrow> dec m | _ \<Rightarrow> None)"

section \<open>Payloads\<close>

definition session_init_json :: "session_init_payload \<Rightarrow> json" where
  "session_init_json p = JObj
     (binsert ''client_version'' (i64_json (si_client_version p))
     (put_unless (si_capabilities p = []) ''capabilities'' (JArr (map JStr (si_capabilities p)))
     (binsert ''intercept_ports'' (JArr (map i32_json (si_intercept_ports p))) [])))"

definition json_session_init :: "json \<Rightarrow> session_init_payload option" where
  "json_session_init = from_object (\<lambda>m.
     Option.bind (required ''client_version'' json_i64 m) (\<lambda>v.
     Option.bind (defaulted ''capabilities'' [] (null_as_default [] (json_list as_str)) m) (\<lambda>caps.
     Option.bind (defaulted ''intercept_ports'' [] (null_as_default [] (json_list json_i32)) m) (\<lambda>ports.
     Some \<lparr>si_client_version = v, si_capabilities = caps, si_intercept_ports = ports\<rparr>))))"

definition session_ack_json :: "session_ack_payload \<Rightarrow> json" where
  "session_ack_json p = JObj
     (binsert ''server_version'' (i64_json (sa_server_version p))
     (binsert ''session_id'' (JStr (sa_session_id p))
     (binsert ''idle_timeout_sec'' (i64_json (sa_idle_timeout_sec p)) [])))"

definition json_session_ack :: "json \<Rightarrow> session_ack_payload option" where
  "json_session_ack = from_object (\<lambda>m.
     Option.bind (required ''server_version'' json_i64 m) (\<lambda>v.
     Option.bind (required ''session_id'' as_str m) (\<lambda>sid.
     Option.bind (required ''idle_timeout_sec'' json_i64 m) (\<lambda>idle.
     Some \<lparr>sa_server_version = v, sa_session_id = sid, sa_idle_timeout_sec = idle\<rparr>))))"

definition open_json :: "open_payload \<Rightarrow> json" where
  "open_json p = JObj
     (binsert ''target_host'' (JStr (op_target_host p))
     (binsert ''target_port'' (i32_json (op_target_port p))
     (put_unless (op_remote_addr p = []) ''remote_addr'' (JStr (op_remote_addr p)) [])))"

definition json_open :: "json \<Rightarrow> open_payload option" where
  "json_open = from_object (\<lambda>m.
     Option.bind (required ''target_host'' as_str m) (\<lambda>host.
     Option.bind (required ''target_port'' json_i32 m) (\<lambda>port.
     Option.bind (defaulted ''remote_addr'' [] as_str m) (\<lambda>addr.
     Some \<lparr>op_target_host = host, op_target_port = port, op_remote_addr = addr\<rparr>))))"

definition nack_json :: "nack_payload \<Rightarrow> json" where
  "nack_json p = JObj
     (binsert ''stream_id'' (u64_json (np_stream_id p))
     (binsert ''reason_code'' (JStr (np_reason_code p))
     (put_opt ''retryable'' (map_option JBool (np_retryable p)) [])))"

definition json_nack :: "json \<Rightarrow> nack_payload option" where
  "json_nack = from_object (\<lambda>m.
     Option.bind (required ''stream_id'' json_u64 m) (\<lambda>sid.
     Option.bind (required ''reason_code'' as_str m) (\<lambda>code.
     Option.bind (optional ''retryable'' as_bool m) (\<lambda>retry.
     Some \<lparr>np_stream_id = sid, np_reason_code = code, np_retryable = retry\<rparr>))))"

definition cmd_json :: "cmd_payload \<Rightarrow> json" where
  "cmd_json p = JObj
     (binsert ''cmd_id'' (u64_json (cp_cmd_id p))
     (binsert ''name'' (JStr (cp_name p))
     (put_opt ''params'' (cp_params p) [])))"

definition json_cmd :: "json \<Rightarrow> cmd_payload option" where
  "json_cmd = from_object (\<lambda>m.
     Option.bind (required ''cmd_id'' json_u64 m) (\<lambda>cid.
     Option.bind (required ''name'' as_str m) (\<lambda>name.
     Option.bind (optional ''params'' Some m) (\<lambda>params.
     Some \<lparr>cp_cmd_id = cid, cp_name = name, cp_params = params\<rparr>))))"

definition cmd_response_json :: "cmd_response_payload \<Rightarrow> json" where
  "cmd_response_json p = JObj
     (binsert ''cmd_id'' (u64_json (cr_cmd_id p))
     (put_opt ''response'' (cr_response p)
     (put_unless (cr_error p = []) ''error'' (JStr (cr_error p)) [])))"

definition json_cmd_response :: "json \<Rightarrow> cmd_response_payload option" where
  "json_cmd_response = from_object (\<lambda>m.
     Option.bind (required ''cmd_id'' json_u64 m) (\<lambda>cid.
     Option.bind (optional ''response'' Some m) (\<lambda>r.
     Option.bind (defaulted ''error'' [] as_str m) (\<lambda>err.
     Some \<lparr>cr_cmd_id = cid, cr_response = r, cr_error = err\<rparr>))))"

section \<open>Frames\<close>

text \<open>JSON text and base64 are the work of \<open>serde_json\<close> and \<open>base64\<close>.\<close>

record wire_crates =
  wc_print :: "json \<Rightarrow> string"
  wc_parse :: "string \<Rightarrow> json option"
  wc_b64 :: "string \<Rightarrow> string"
  wc_unb64 :: "string \<Rightarrow> string option"

definition wire_json :: "wire_crates \<Rightarrow> wire_frame \<Rightarrow> json" where
  "wire_json X w = JObj
     (binsert ''type'' (JStr (wf_type w))
     (put_unless (wf_stream_id w = 0) ''stream_id'' (u64_json (wf_stream_id w))
     (put_opt ''session_init'' (map_option session_init_json (wf_session_init w))
     (put_opt ''session_ack'' (map_option session_ack_json (wf_session_ack w))
     (put_opt ''open'' (map_option open_json (wf_open w))
     (put_opt ''open_ack'' (map_option (\<lambda>sid. JObj [(''stream_id'', u64_json sid)]) (wf_open_ack w))
     (put_opt ''nack'' (map_option nack_json (wf_nack w))
     (put_opt ''data'' (map_option (\<lambda>d. JStr (wc_b64 X d)) (wf_data w))
     (put_unless (wf_reason w = []) ''reason'' (JStr (wf_reason w))
     (put_opt ''cmd'' (map_option cmd_json (wf_cmd w))
     (put_opt ''cmd_response'' (map_option cmd_response_json (wf_cmd_response w)) [])))))))))))"

definition json_open_ack :: "json \<Rightarrow> 64 word option" where
  "json_open_ack = from_object (required ''stream_id'' json_u64)"

definition json_data :: "wire_crates \<Rightarrow> json \<Rightarrow> string option" where
  "json_data X v = Option.bind (as_str v) (wc_unb64 X)"

definition json_wire :: "wire_crates \<Rightarrow> json \<Rightarrow> wire_frame option" where
  "json_wire X = from_object (\<lambda>m.
     Option.bind (required ''type'' as_str m) (\<lambda>t.
     Option.bind (defaulted ''stream_id'' 0 json_u64 m) (\<lambda>sid.
     Option.bind (optional ''session_init'' json_session_init m) (\<lambda>si.
     Option.bind (optional ''session_ack'' json_session_ack m) (\<lambda>sa.
     Option.bind (optional ''open'' json_open m) (\<lambda>op.
     Option.bind (optional ''open_ack'' json_open_ack m) (\<lambda>oa.
     Option.bind (optional ''nack'' json_nack m) (\<lambda>nack.
     Option.bind (optional ''data'' (json_data X) m) (\<lambda>d.
     Option.bind (defaulted ''reason'' [] (null_as_default [] as_str) m) (\<lambda>why.
     Option.bind (optional ''cmd'' json_cmd m) (\<lambda>cmd.
     Option.bind (optional ''cmd_response'' json_cmd_response m) (\<lambda>resp.
     Some \<lparr>wf_type = t, wf_stream_id = sid, wf_session_init = si, wf_session_ack = sa, wf_open = op,
           wf_open_ack = oa, wf_nack = nack, wf_data = d, wf_reason = why, wf_cmd = cmd,
           wf_cmd_response = resp\<rparr>))))))))))))"

definition encode :: "wire_crates \<Rightarrow> frame \<Rightarrow> string" where
  "encode X f = wc_print X (wire_json X (to_wire f))"

definition decode :: "wire_crates \<Rightarrow> string \<Rightarrow> frame option" where
  "decode X bytes = map_option from_wire (Option.bind (wc_parse X bytes) (json_wire X))"

section \<open>Round trip\<close>

text \<open>What the wire keeps of a frame: a JSON null in an RPC payload reads back as no value.\<close>

definition drop_null :: "json option \<Rightarrow> json option" where
  "drop_null v = (if v = Some JNull then None else v)"

definition received_cmd :: "cmd_payload \<Rightarrow> cmd_payload" where
  "received_cmd p = p\<lparr>cp_params := drop_null (cp_params p)\<rparr>"

definition received_response :: "cmd_response_payload \<Rightarrow> cmd_response_payload" where
  "received_response p = p\<lparr>cr_response := drop_null (cr_response p)\<rparr>"

definition received_body :: "frame_body \<Rightarrow> frame_body" where
  "received_body b =
     (case b of
        Cmd p \<Rightarrow> Cmd (map_option received_cmd p)
      | CmdResponse p \<Rightarrow> CmdResponse (map_option received_response p)
      | UnknownBody s \<Rightarrow> fr_body (from_wire (empty_wire s 0))
      | _ \<Rightarrow> b)"

lemma word_json [simp]:
  "json_u64 (u64_json w) = Some w" "json_i64 (i64_json v) = Some v" "json_i32 (i32_json p) = Some p"
proof -
  show "json_u64 (u64_json w) = Some w"
    using uint_bounded [of w] by (simp add: json_u64_def u64_json_def)
  show "json_i64 (i64_json v) = Some v"
    using sint_greater_eq [of v] sint_less [of v] by (simp add: json_i64_def i64_json_def)
  show "json_i32 (i32_json p) = Some p"
    using sint_greater_eq [of p] sint_less [of p] by (simp add: json_i32_def i32_json_def)
qed

lemma json_values [simp]: "u64_json w \<noteq> JNull" "i64_json v \<noteq> JNull" "i32_json p \<noteq> JNull"
  by (simp_all add: u64_json_def i64_json_def i32_json_def)

lemma all_some_map [simp]: "(\<And>x. dec (enc x) = Some x) \<Longrightarrow> all_some (map (dec \<circ> enc) xs) = Some xs"
  by (induction xs) simp_all

lemmas field_readers = required_def optional_def defaulted_def null_as_default_def from_object_def json_list_def

lemma payloads_back [simp]:
  "json_session_init (session_init_json a) = Some a"
  "json_session_ack (session_ack_json b) = Some b"
  "json_open (open_json c) = Some c"
  "json_nack (nack_json d) = Some d"
  "json_cmd (cmd_json e) = Some (received_cmd e)"
  "json_cmd_response (cmd_response_json f) = Some (received_response f)"
  by (simp_all add: json_session_init_def session_init_json_def json_session_ack_def session_ack_json_def json_open_def
      open_json_def json_nack_def nack_json_def json_cmd_def cmd_json_def json_cmd_response_def cmd_response_json_def
      field_readers as_str_def as_bool_def received_cmd_def received_response_def drop_null_def
      split: option.split)

lemma payloads_present [simp]:
  "session_init_json a \<noteq> JNull" "session_ack_json b \<noteq> JNull" "open_json c \<noteq> JNull" "nack_json d \<noteq> JNull"
  "cmd_json e \<noteq> JNull" "cmd_response_json f \<noteq> JNull"
  by (simp_all add: session_init_json_def session_ack_json_def open_json_def nack_json_def cmd_json_def cmd_response_json_def)

lemma open_ack_back [simp]: "json_open_ack (JObj [(''stream_id'', u64_json sid)]) = Some sid"
  by (simp add: json_open_ack_def field_readers)

definition received_wire :: "wire_frame \<Rightarrow> wire_frame" where
  "received_wire w = w\<lparr>wf_cmd := map_option received_cmd (wf_cmd w),
     wf_cmd_response := map_option received_response (wf_cmd_response w)\<rparr>"

lemma optional_reads:
  assumes "bget m k = map_option enc v" "\<And>x. dec (enc x) = Some (g x)" "\<And>x. enc x \<noteq> JNull"
  shows "optional k dec m = Some (map_option g v)"
  using assms by (cases v) (simp_all add: optional_def)

definition wire_fields :: "wire_crates \<Rightarrow> wire_frame \<Rightarrow> json bmap" where
  "wire_fields X w = (case wire_json X w of JObj m \<Rightarrow> m | _ \<Rightarrow> [])"

lemma wire_fields_get:
  "bget (wire_fields X w) ''type'' = Some (JStr (wf_type w))"
  "bget (wire_fields X w) ''stream_id'' = (if wf_stream_id w = 0 then None else Some (u64_json (wf_stream_id w)))"
  "bget (wire_fields X w) ''session_init'' = map_option session_init_json (wf_session_init w)"
  "bget (wire_fields X w) ''session_ack'' = map_option session_ack_json (wf_session_ack w)"
  "bget (wire_fields X w) ''open'' = map_option open_json (wf_open w)"
  "bget (wire_fields X w) ''open_ack'' = map_option (\<lambda>sid. JObj [(''stream_id'', u64_json sid)]) (wf_open_ack w)"
  "bget (wire_fields X w) ''nack'' = map_option nack_json (wf_nack w)"
  "bget (wire_fields X w) ''data'' = map_option (\<lambda>d. JStr (wc_b64 X d)) (wf_data w)"
  "bget (wire_fields X w) ''reason'' = (if wf_reason w = [] then None else Some (JStr (wf_reason w)))"
  "bget (wire_fields X w) ''cmd'' = map_option cmd_json (wf_cmd w)"
  "bget (wire_fields X w) ''cmd_response'' = map_option cmd_response_json (wf_cmd_response w)"
  by (auto simp: wire_fields_def wire_json_def)

lemma wire_back:
  assumes "\<And>d. wc_unb64 X (wc_b64 X d) = Some d"
  shows "json_wire X (wire_json X w) = Some (received_wire w)"
proof -
  let ?m = "wire_fields X w"
  note get = wire_fields_get [of X w]
  have "required ''type'' as_str ?m = Some (wf_type w)" "defaulted ''stream_id'' 0 json_u64 ?m = Some (wf_stream_id w)"
    "defaulted ''reason'' [] (null_as_default [] as_str) ?m = Some (wf_reason w)"
    by (simp_all add: required_def defaulted_def null_as_default_def as_str_def get)
  moreover have "optional ''session_init'' json_session_init ?m = Some (wf_session_init w)"
      "optional ''session_ack'' json_session_ack ?m = Some (wf_session_ack w)"
      "optional ''open'' json_open ?m = Some (wf_open w)" "optional ''nack'' json_nack ?m = Some (wf_nack w)"
      "optional ''open_ack'' json_open_ack ?m = Some (wf_open_ack w)"
      "optional ''data'' (json_data X) ?m = Some (wf_data w)"
    using optional_reads [OF get(3), of json_session_init "\<lambda>x. x"] optional_reads [OF get(4), of json_session_ack "\<lambda>x. x"]
      optional_reads [OF get(5), of json_open "\<lambda>x. x"] optional_reads [OF get(7), of json_nack "\<lambda>x. x"]
      optional_reads [OF get(6), of json_open_ack "\<lambda>x. x"] optional_reads [OF get(8), of "json_data X" "\<lambda>x. x"]
    by (simp_all add: json_data_def as_str_def assms option.map_ident)
  moreover have "optional ''cmd'' json_cmd ?m = Some (map_option received_cmd (wf_cmd w))"
      "optional ''cmd_response'' json_cmd_response ?m = Some (map_option received_response (wf_cmd_response w))"
    by (rule optional_reads [OF get(10)], simp_all, rule optional_reads [OF get(11)], simp_all)
  moreover have "wire_json X w = JObj ?m" by (simp add: wire_fields_def wire_json_def)
  ultimately show ?thesis
    by (simp add: json_wire_def from_object_def received_wire_def)
qed

lemma from_wire_str_names [simp]:
  "from_wire_str ''SESSION_INIT'' = TSessionInit" "from_wire_str ''SESSION_ACK'' = TSessionAck" "from_wire_str ''OPEN'' = TOpen"
  "from_wire_str ''OPEN_ACK'' = TOpenAck" "from_wire_str ''NACK'' = TNack" "from_wire_str ''DATA'' = TData"
  "from_wire_str ''FIN'' = TFin" "from_wire_str ''RST'' = TRst" "from_wire_str ''PING'' = TPing"
  "from_wire_str ''PONG'' = TPong" "from_wire_str ''CMD'' = TCmd" "from_wire_str ''CMD_RESPONSE'' = TCmdResponse"
  by (simp_all add: from_wire_str_def)

lemma from_empty_wire: "from_wire (empty_wire s sid) = frame_of sid (fr_body (from_wire (empty_wire s 0)))"
  by (cases "from_wire_str s") (simp_all add: from_wire_def empty_wire_def frame_of_def)

lemma from_received_wire:
  "from_wire (received_wire (to_wire f)) = f\<lparr>fr_body := received_body (fr_body f)\<rparr>"
proof (cases "fr_body f")
  case (UnknownBody s)
  then have "received_wire (to_wire f) = empty_wire s (fr_stream_id f)"
    by (simp add: to_wire_def received_wire_def frame_type_of_def as_wire_str_def empty_wire_def)
  then show ?thesis using UnknownBody
    using from_empty_wire [of s "fr_stream_id f"] by (cases f) (simp add: received_body_def frame_of_def)
qed (cases f; simp add: from_wire_def to_wire_def received_wire_def received_body_def frame_type_of_def as_wire_str_def
      empty_wire_def frame_of_def Let_def)+

text \<open>C36. The codec loses nothing but a null: decoding an encoded frame gives the frame back, where an explicit JSON null in
  the parameters or the response of an RPC reads back as absent and an unknown type that spells a known one is read
  as that one.\<close>

theorem codec_roundtrip:
  assumes "wc_parse X (wc_print X (wire_json X (to_wire f))) = Some (wire_json X (to_wire f))"
    and "\<And>d. wc_unb64 X (wc_b64 X d) = Some d"
  shows "decode X (encode X f) = Some (f\<lparr>fr_body := received_body (fr_body f)\<rparr>)"
  by (simp add: decode_def encode_def assms(1) wire_back [OF assms(2)] from_received_wire)

text \<open>A pair of crates for the witness: they know one document, and bytes are their own base64 text.\<close>

definition sample_document :: json where
  "sample_document = JObj [(''cmd'', JObj [(''cmd_id'', JInt 5), (''name'', JStr ''echo''), (''params'', JNull)]),
     (''type'', JStr ''CMD'')]"

definition sample_text :: string where
  "sample_text = ''{cmd:{cmd_id:5,name:echo,params:null},type:CMD}''"

definition sample_crates :: wire_crates where
  "sample_crates = \<lparr>wc_print = \<lambda>_. sample_text,
     wc_parse = \<lambda>s. if s = sample_text then Some sample_document else None, wc_b64 = \<lambda>s. s, wc_unb64 = Some\<rparr>"

theorem codec_roundtrip_witness:
  "decode sample_crates (encode sample_crates (new_cmd 5 ''echo'' (Some JNull))) = Some (new_cmd 5 ''echo'' None)"
proof -
  have doc: "wire_json sample_crates (to_wire (new_cmd 5 ''echo'' (Some JNull))) = sample_document"
    by (simp add: wire_json_def to_wire_def new_cmd_def frame_of_def frame_type_of_def as_wire_str_def empty_wire_def
        put_opt_def put_unless_def cmd_json_def u64_json_def sample_document_def Let_def)
  have received: "received_body (fr_body (new_cmd 5 ''echo'' (Some JNull))) = fr_body (new_cmd 5 ''echo'' None)"
    by (simp add: received_body_def received_cmd_def drop_null_def new_cmd_def frame_of_def)
  show ?thesis
    using codec_roundtrip [of sample_crates "new_cmd 5 ''echo'' (Some JNull)"] doc received
    by (simp add: sample_crates_def new_cmd_def frame_of_def)
qed

section \<open>Valid frames\<close>

text \<open>What the session relies on.\<close>

definition well_formed :: "frame \<Rightarrow> bool" where
  "well_formed f =
     (case fr_body f of
        SessionInit _ \<Rightarrow> fr_stream_id f = 0
      | SessionAck _ \<Rightarrow> fr_stream_id f = 0
      | Open p \<Rightarrow> fr_stream_id f \<noteq> 0 \<and>
          (\<exists>o'. p = Some o' \<and> 1 \<le> sint (op_target_port o') \<and> sint (op_target_port o') \<le> 65535 \<and> op_target_host o' \<noteq> [])
      | Nack p \<Rightarrow> fr_stream_id f \<noteq> 0 \<and> p \<noteq> None
      | Cmd p \<Rightarrow> fr_stream_id f = 0 \<and> (\<exists>c. p = Some c \<and> cp_cmd_id c \<noteq> 0 \<and> cp_name c \<noteq> [])
      | CmdResponse p \<Rightarrow> fr_stream_id f = 0 \<and> (\<exists>c. p = Some c \<and> cr_cmd_id c \<noteq> 0)
      | Ping \<Rightarrow> True
      | Pong \<Rightarrow> True
      | UnknownBody _ \<Rightarrow> False
      | _ \<Rightarrow> fr_stream_id f \<noteq> 0)"

lemma validate_payloads:
  "validate_open p = Inr () \<longleftrightarrow>
     (\<exists>o'. p = Some o' \<and> 1 \<le> sint (op_target_port o') \<and> sint (op_target_port o') \<le> 65535 \<and> op_target_host o' \<noteq> [])"
  "validate_cmd c = Inr () \<longleftrightarrow> (\<exists>c'. c = Some c' \<and> cp_cmd_id c' \<noteq> 0 \<and> cp_name c' \<noteq> [])"
  "validate_cmd_response r = Inr () \<longleftrightarrow> (\<exists>r'. r = Some r' \<and> cr_cmd_id r' \<noteq> 0)"
  by (cases p; cases c; cases r;
      auto simp: validate_open_def validate_cmd_def validate_cmd_response_def guard_ok_ok)+

text \<open>Validation settles what the session relies on: a frame that passes has the payload its type needs and a stream id
  exactly when its type belongs to a stream, an OPEN names a host and a TCP port, and an RPC has an id. Passing the
  wire changes nothing of this.\<close>

theorem validate_iff_well_formed:
  "(validate f = Inr () \<longleftrightarrow> well_formed f) \<and>
   ((\<exists>s. frame_type_of f = TUnknown s) \<or> (validate (f\<lparr>fr_body := received_body (fr_body f)\<rparr>) = Inr () \<longleftrightarrow> well_formed f))"
proof -
  have valid: "validate g = Inr () \<longleftrightarrow> well_formed g" for g
    by (cases "fr_body g")
      (auto simp: validate_def well_formed_def session_frame_check_def data_like_check_def validate_payloads
        guard_ok_ok Let_def)
  show ?thesis
  proof (cases "fr_body f")
    case (UnknownBody s)
    then show ?thesis by (simp add: valid frame_type_of_def)
  next
    case (Cmd p)
    then show ?thesis by (cases p) (simp_all add: valid well_formed_def received_body_def received_cmd_def)
  next
    case (CmdResponse p)
    then show ?thesis by (cases p) (simp_all add: valid well_formed_def received_body_def received_response_def)
  qed (simp_all add: valid well_formed_def received_body_def)
qed

end
