(* ===== verification/TunnelSession.thy ===== *)
theory TunnelSession
  imports TunnelStream TunnelIds TunnelCodec RustStr
begin

text \<open>
  A tunnel session (\<open>session/core.rs\<close>): one state record and the tasks that share it. A task is kept with the point
  it waits at; one step runs one task from an await point to the next. A step that would have to wait (a full
  outbound channel, a read with nothing to read) is not enabled and gives \<open>None\<close>. What the network, the local
  connections, the clocks and the handlers do is part of the action. The heap holds every stream object; its
  addresses stand for the \<open>Arc\<close>s.
\<close>

section \<open>Targets\<close>

datatype dial_config = PortMapping "(32 word \<times> string) list" | TargetAllowlist "string list option"

datatype dial_target = MappedAddress string | HostPort string "16 word"

datatype dial_error = NoMapping "32 word" | NotAllowed string

definition join_host_port :: "string \<Rightarrow> 32 word \<Rightarrow> string" where
  "join_host_port host port =
     (if CHR '':'' \<in> set host then ''['' @ host @ '']:'' @ show_int (sint port) else host @ '':'' @ show_int (sint port))"

definition allows_target :: "string list \<Rightarrow> string \<Rightarrow> 32 word \<Rightarrow> dial_error + unit" where
  "allows_target allowed host port =
     (let target = join_host_port host port in guard_ok (target \<in> set allowed) (NotAllowed target))"

definition parse_u16 :: "string \<Rightarrow> nat option" where
  "parse_u16 s = (case parse_usize s of Some n \<Rightarrow> if n \<le> 65535 then Some n else None | None \<Rightarrow> None)"

text \<open>A bare port number is dialled on loopback.\<close>

definition mapped_address :: "string \<Rightarrow> string" where
  "mapped_address local_addr =
     (case parse_u16 local_addr of Some n \<Rightarrow> ''127.0.0.1:'' @ show_nat n | None \<Rightarrow> local_addr)"

definition dial_via_port_mapping :: "(32 word \<times> string) list \<Rightarrow> 32 word \<Rightarrow> dial_error + dial_target" where
  "dial_via_port_mapping ports port =
     (case map_of ports port of
        None \<Rightarrow> Inl (NoMapping port)
      | Some local_addr \<Rightarrow> Inr (MappedAddress (mapped_address local_addr)))"

definition dial_with_allowlist :: "string list option \<Rightarrow> string \<Rightarrow> 32 word \<Rightarrow> dial_error + dial_target" where
  "dial_with_allowlist allowlist host port =
     and_then (case allowlist of Some allowed \<Rightarrow> allows_target allowed host port | None \<Rightarrow> Inr ())
       (\<lambda>_. Inr (HostPort host (ucast port)))"

definition dial_target_of :: "dial_config \<Rightarrow> open_payload \<Rightarrow> dial_error + dial_target" where
  "dial_target_of cfg p =
     (case cfg of
        PortMapping ports \<Rightarrow> dial_via_port_mapping ports (op_target_port p)
      | TargetAllowlist allowlist \<Rightarrow> dial_with_allowlist allowlist (op_target_host p) (op_target_port p))"

section \<open>State\<close>

datatype session_role = Client | Server

datatype reader = ReaderIdle | ReaderRunning | ReaderResetting "(64 word \<times> nat) list" | ReaderFinished

datatype open_point =
    OpenCheck | OpenDial | OpenRetry | OpenRedial | OpenRefusing string "bool option" | OpenAcking nat

datatype rpc_error = RpcTimeout | RpcSessionClosed | RpcCallee string

record rpc_result =
  rr_response :: "json option"
  rr_error :: "string option"

datatype call_slot = SlotEmpty | SlotFilled rpc_result | SlotDropped

datatype call_point = CallSending | CallWaiting | CallDone "rpc_error + json option"

record rpc_call =
  rc_id :: "64 word"
  rc_frame :: frame
  rc_point :: call_point
  rc_slot :: call_slot

datatype heartbeat = HeartbeatOff | HeartbeatWaiting | HeartbeatPinging

record session =
  se_role :: session_role
  se_dial :: dial_config
  se_expect_odd :: bool
  se_idle_timeout :: nat
  se_ping_interval :: nat
  se_pong_timeout :: nat
  se_heap :: "stream list"
  se_streams :: "(64 word \<times> nat) list"
  se_ids :: id_generator
  se_outbound :: "frame list"
  se_writer :: bool
  se_taken :: "frame list"
  se_wire :: "string list"
  se_cancelled :: bool
  se_reader :: reader
  se_opens :: "(64 word \<times> open_payload \<times> open_point) list"
  se_local_opens :: "(64 word \<times> open_payload \<times> nat) list"
  se_dialled :: "dial_target list"
  se_handlers :: "string list"
  se_running :: "(cmd_payload \<times> bool option) list"
  se_permits :: nat
  se_calls :: "rpc_call list"
  se_in_flight :: "(64 word \<times> nat) list"
  se_next_cmd :: "64 word"
  se_heartbeat :: heartbeat
  se_awaiting_pong :: bool
  se_pong_deadline :: int
  se_last_activity :: int
  se_cleanup :: bool

definition new_session :: "session_role \<Rightarrow> dial_config \<Rightarrow> nat \<Rightarrow> int \<Rightarrow> session" where
  "new_session role cfg idle now =
     \<lparr>se_role = role, se_dial = cfg, se_expect_odd = (role = Client), se_idle_timeout = idle, se_ping_interval = 0,
      se_pong_timeout = 0, se_heap = [], se_streams = [],
      se_ids = new_id_generator (case role of Client \<Rightarrow> Even | Server \<Rightarrow> Odd),
      se_outbound = [], se_writer = True, se_taken = [], se_wire = [], se_cancelled = False, se_reader = ReaderIdle,
      se_opens = [], se_local_opens = [], se_dialled = [], se_handlers = [], se_running = [], se_permits = 32,
      se_calls = [], se_in_flight = [], se_next_cmd = 1, se_heartbeat = HeartbeatOff, se_awaiting_pong = False,
      se_pong_deadline = 0, se_last_activity = now, se_cleanup = False\<rparr>"

section \<open>The outbound channel\<close>

definition outbound_channel_capacity :: nat where "outbound_channel_capacity = 128"

definition max_frame_size_bytes :: nat where "max_frame_size_bytes = 64 * 1024"

text \<open>\<open>write_frame\<close>: false when the writer is gone, \<open>None\<close> while the channel is full.\<close>

definition write_frame :: "frame \<Rightarrow> session \<Rightarrow> (bool \<times> session) option" where
  "write_frame f s =
     (if \<not> se_writer s then Some (False, s)
      else if length (se_outbound s) < outbound_channel_capacity then
        Some (True, s\<lparr>se_outbound := se_outbound s @ [f]\<rparr>)
      else None)"

definition write_ignored :: "frame \<Rightarrow> session \<Rightarrow> session option" where
  "write_ignored f s = map_option snd (write_frame f s)"

text \<open>\<open>writer_task\<close>: one frame from the channel to the WebSocket, dropped when it is too large.\<close>

definition writer_takes :: "wire_crates \<Rightarrow> bool \<Rightarrow> session \<Rightarrow> session option" where
  "writer_takes X sink_ok s =
     (if \<not> se_writer s then None
      else case se_outbound s of
        [] \<Rightarrow> None
      | f # rest \<Rightarrow>
          let s' = s\<lparr>se_outbound := rest, se_taken := se_taken s @ [f]\<rparr>; text = encode X f in
          if max_frame_size_bytes < length text then Some s'
          else if sink_ok then Some (s'\<lparr>se_wire := se_wire s @ [text]\<rparr>)
          else Some (s'\<lparr>se_writer := False, se_outbound := []\<rparr>))"

definition writer_stops :: "session \<Rightarrow> session option" where
  "writer_stops s =
     (if se_writer s \<and> se_cancelled s then Some (s\<lparr>se_writer := False, se_outbound := []\<rparr>) else None)"

section \<open>Streams\<close>

definition on_stream :: "nat \<Rightarrow> (stream \<Rightarrow> stream) \<Rightarrow> session \<Rightarrow> session" where
  "on_stream a f s = s\<lparr>se_heap := (se_heap s)[a := f (se_heap s ! a)]\<rparr>"

definition remove_key :: "'k \<Rightarrow> ('k \<times> 'v) list \<Rightarrow> ('k \<times> 'v) list" where
  "remove_key k xs = filter (\<lambda>(k', _). k' \<noteq> k) xs"

definition remove_nth :: "nat \<Rightarrow> 'a list \<Rightarrow> 'a list" where
  "remove_nth i xs = take i xs @ drop (Suc i) xs"

definition insert_stream :: "64 word \<Rightarrow> session \<Rightarrow> session" where
  "insert_stream sid s =
     s\<lparr>se_heap := se_heap s @ [stream_new sid], se_streams := se_streams s @ [(sid, length (se_heap s))]\<rparr>"

definition drop_stream :: "64 word \<Rightarrow> nat \<Rightarrow> session \<Rightarrow> session" where
  "drop_stream sid a s = on_stream a close (s\<lparr>se_streams := remove_key sid (se_streams s)\<rparr>)"

subsection \<open>Streams opened here\<close>

definition open_remote_stream :: "open_payload \<Rightarrow> session \<Rightarrow> session option" where
  "open_remote_stream p s =
     (case next_id (Suc (length (se_streams s))) (se_ids s) (map fst (se_streams s)) of
        None \<Rightarrow> None
      | Some (sid, g) \<Rightarrow>
          Some ((insert_stream sid s)
            \<lparr>se_ids := g, se_local_opens := se_local_opens s @ [(sid, p, length (se_heap s))]\<rparr>))"

definition open_sends :: "nat \<Rightarrow> session \<Rightarrow> session option" where
  "open_sends i s =
     (if i < length (se_local_opens s) then
        let (sid, p, a) = se_local_opens s ! i in
        map_option (\<lambda>(sent, s').
            let s'' = s'\<lparr>se_local_opens := remove_nth i (se_local_opens s')\<rparr>
            in if sent then s'' else drop_stream sid a s'')
          (write_frame (frame_of sid (Open (Some p))) s)
      else None)"

subsection \<open>Streams opened by the peer\<close>

datatype open_input = OpenProceeds | Connects bool | SleepOver | CancelSeen

definition set_open :: "nat \<Rightarrow> open_point \<Rightarrow> session \<Rightarrow> session" where
  "set_open i pt s = s\<lparr>se_opens := (se_opens s)[i := (\<lambda>(sid, p, _). (sid, p, pt)) (se_opens s ! i)]\<rparr>"

definition end_open :: "nat \<Rightarrow> session \<Rightarrow> session" where
  "end_open i s = s\<lparr>se_opens := remove_nth i (se_opens s)\<rparr>"

definition expected_id :: "session \<Rightarrow> 64 word \<Rightarrow> bool" where
  "expected_id s sid = (if se_expect_odd s then sid mod 2 = 1 else sid mod 2 = 0)"

definition open_checks :: "nat \<Rightarrow> 64 word \<Rightarrow> session \<Rightarrow> session" where
  "open_checks i sid s =
     (if \<not> expected_id s sid then set_open i (OpenRefusing ''invalid_stream_id'' (Some False)) s
      else if sid \<in> fst ` set (se_streams s) then set_open i (OpenRefusing ''stream_id_conflict'' (Some False)) s
      else set_open i OpenDial s)"

text \<open>One dial: whether it gave a connection, with the attempt recorded.\<close>

definition dials :: "bool \<Rightarrow> open_payload \<Rightarrow> session \<Rightarrow> bool \<times> session" where
  "dials connects p s =
     (case dial_target_of (se_dial s) p of
        Inl _ \<Rightarrow> (False, s)
      | Inr target \<Rightarrow> (connects, s\<lparr>se_dialled := se_dialled s @ [target]\<rparr>))"

definition open_inserts :: "nat \<Rightarrow> 64 word \<Rightarrow> session \<Rightarrow> session" where
  "open_inserts i sid s =
     (if sid \<in> fst ` set (se_streams s) then
        set_open i (OpenRefusing ''stream_id_conflict'' (Some False)) (s\<lparr>se_heap := se_heap s @ [close (stream_new sid)]\<rparr>)
      else set_open i (OpenAcking (length (se_heap s))) (insert_stream sid s))"

definition open_acks :: "nat \<Rightarrow> 64 word \<Rightarrow> nat \<Rightarrow> session \<Rightarrow> session option" where
  "open_acks i sid a s =
     map_option (\<lambda>(sent, s').
         if sent then end_open i (on_stream a (start_pump \<circ> set_pending False) s')
         else end_open i (drop_stream sid a s'))
       (write_frame (new_open_ack sid) s)"

definition handle_open_stream :: "open_input \<Rightarrow> nat \<Rightarrow> session \<Rightarrow> session option" where
  "handle_open_stream inp i s =
     (if i < length (se_opens s) then
        let (sid, p, pt) = se_opens s ! i in
        case (pt, inp) of
          (OpenCheck, OpenProceeds) \<Rightarrow> Some (open_checks i sid s)
        | (OpenDial, Connects c) \<Rightarrow>
            let (ok, s') = dials c p s in Some (if ok then open_inserts i sid s' else set_open i OpenRetry s')
        | (OpenRetry, CancelSeen) \<Rightarrow> if se_cancelled s then Some (end_open i s) else None
        | (OpenRetry, SleepOver) \<Rightarrow> Some (set_open i OpenRedial s)
        | (OpenRedial, Connects c) \<Rightarrow>
            let (ok, s') = dials c p s
            in Some (if ok then open_inserts i sid s' else set_open i (OpenRefusing ''no_local_listener'' None) s')
        | (OpenRefusing why retry, OpenProceeds) \<Rightarrow> map_option (end_open i) (write_ignored (new_nack sid why retry) s)
        | (OpenAcking a, OpenProceeds) \<Rightarrow> open_acks i sid a s
        | _ \<Rightarrow> None
      else None)"

subsection \<open>Frames for a stream\<close>

definition handle_open_ack :: "64 word \<Rightarrow> session \<Rightarrow> session" where
  "handle_open_ack sid s =
     (case map_of (se_streams s) sid of
        None \<Rightarrow> s
      | Some a \<Rightarrow> on_stream a (start_pump \<circ> set_pending False) s)"

definition handle_nack :: "64 word \<Rightarrow> session \<Rightarrow> session" where
  "handle_nack sid s =
     (case map_of (se_streams s) sid of None \<Rightarrow> s | Some a \<Rightarrow> drop_stream sid a s)"

definition stream_frame :: "bool \<Rightarrow> frame \<Rightarrow> session \<Rightarrow> session option" where
  "stream_frame write_ok f s =
     (let sid = fr_stream_id f in
      case map_of (se_streams s) sid of
        Some a \<Rightarrow>
          (let (reply, st) = dispatch write_ok (fr_body f) (se_heap s ! a) in
           case reply of
             None \<Rightarrow> Some (on_stream a (\<lambda>_. st) s)
           | Some r \<Rightarrow> map_option (on_stream a (\<lambda>_. st)) (write_ignored r s))
      | None \<Rightarrow>
          (case fr_body f of
             Rst _ \<Rightarrow> Some s
           | _ \<Rightarrow> write_ignored (new_rst sid ''stream_unknown'') s))"

definition pump_runs :: "nat \<Rightarrow> pump_step \<Rightarrow> session \<Rightarrow> session option" where
  "pump_runs a p s =
     (if a < length (se_heap s) then
        Option.bind (pump_run p (se_heap s ! a)) (\<lambda>(f, k).
          case f of
            None \<Rightarrow> Some (on_stream a (\<lambda>_. k True) s)
          | Some x \<Rightarrow> map_option (\<lambda>(sent, s'). on_stream a (\<lambda>_. k sent) s') (write_frame x s))
      else None)"

definition stream_cleanup :: "session \<Rightarrow> session" where
  "stream_cleanup s = s\<lparr>se_streams := filter (\<lambda>(_, a). \<not> st_closed (se_heap s ! a)) (se_streams s)\<rparr>"

section \<open>Remote calls\<close>

definition call_rpc :: "string \<Rightarrow> json option \<Rightarrow> session \<Rightarrow> session" where
  "call_rpc name params s =
     (let cid = se_next_cmd s + 1;
          old = map_of (se_in_flight s) cid;
          calls = (case old of None \<Rightarrow> se_calls s | Some j \<Rightarrow> (se_calls s)[j := (se_calls s ! j)\<lparr>rc_slot := SlotDropped\<rparr>])
      in s\<lparr>se_next_cmd := cid,
           se_calls := calls @ [\<lparr>rc_id = cid, rc_frame = new_cmd cid name params, rc_point = CallSending, rc_slot = SlotEmpty\<rparr>],
           se_in_flight := remove_key cid (se_in_flight s) @ [(cid, length calls)]\<rparr>)"

definition call_ends :: "nat \<Rightarrow> rpc_error + json option \<Rightarrow> session \<Rightarrow> session" where
  "call_ends j out s = s\<lparr>se_calls := (se_calls s)[j := (se_calls s ! j)\<lparr>rc_point := CallDone out\<rparr>]\<rparr>"

text \<open>Removing an entry of \<open>in_flight_calls\<close> drops its sender.\<close>

definition forget_call :: "nat \<Rightarrow> session \<Rightarrow> session" where
  "forget_call j s =
     (let cid = rc_id (se_calls s ! j) in
      case map_of (se_in_flight s) cid of
        None \<Rightarrow> s
      | Some k \<Rightarrow>
          s\<lparr>se_in_flight := remove_key cid (se_in_flight s),
            se_calls := (se_calls s)[k := (se_calls s ! k)\<lparr>rc_slot := SlotDropped\<rparr>]\<rparr>)"

definition call_sends :: "nat \<Rightarrow> session \<Rightarrow> session option" where
  "call_sends j s =
     (if j < length (se_calls s) \<and> rc_point (se_calls s ! j) = CallSending then
        map_option (\<lambda>(sent, s').
            if sent then s'\<lparr>se_calls := (se_calls s')[j := (se_calls s' ! j)\<lparr>rc_point := CallWaiting\<rparr>]\<rparr>
            else call_ends j (Inl RpcSessionClosed) (forget_call j s'))
          (write_frame (rc_frame (se_calls s ! j)) s)
      else None)"

definition call_returns :: "nat \<Rightarrow> session \<Rightarrow> session option" where
  "call_returns j s =
     (if j < length (se_calls s) \<and> rc_point (se_calls s ! j) = CallWaiting then
        (case rc_slot (se_calls s ! j) of
           SlotEmpty \<Rightarrow> None
         | SlotDropped \<Rightarrow> Some (call_ends j (Inl RpcSessionClosed) s)
         | SlotFilled r \<Rightarrow>
             Some (call_ends j (case rr_error r of Some msg \<Rightarrow> Inl (RpcCallee msg) | None \<Rightarrow> Inr (rr_response r)) s))
      else None)"

definition call_times_out :: "nat \<Rightarrow> session \<Rightarrow> session option" where
  "call_times_out j s =
     (if j < length (se_calls s) \<and> rc_point (se_calls s ! j) = CallWaiting \<and> rc_slot (se_calls s ! j) = SlotEmpty then
        Some (call_ends j (Inl RpcTimeout) (forget_call j s))
      else None)"

definition rpc_result_of :: "cmd_response_payload \<Rightarrow> rpc_result" where
  "rpc_result_of p =
     \<lparr>rr_response = cr_response p, rr_error = if cr_error p = [] then None else Some (cr_error p)\<rparr>"

definition handle_cmd_response :: "cmd_response_payload \<Rightarrow> session \<Rightarrow> session" where
  "handle_cmd_response p s =
     (case map_of (se_in_flight s) (cr_cmd_id p) of
        None \<Rightarrow> s
      | Some j \<Rightarrow>
          s\<lparr>se_in_flight := remove_key (cr_cmd_id p) (se_in_flight s),
            se_calls := (se_calls s)[j := (se_calls s ! j)\<lparr>rc_slot := SlotFilled (rpc_result_of p)\<rparr>]\<rparr>)"

subsection \<open>Calls served here\<close>

datatype handler_outcome = HandlerReturns "json option" | HandlerFails string | HandlerPanics string

definition accept_cmd :: "cmd_payload \<Rightarrow> session \<Rightarrow> session option" where
  "accept_cmd p s =
     (if 0 < se_permits s then Some (s\<lparr>se_permits := se_permits s - 1, se_running := se_running s @ [(p, None)]\<rparr>)
      else write_ignored (new_cmd_error_response (cp_cmd_id p) ''server busy'') s)"

definition handler_starts :: "nat \<Rightarrow> session \<Rightarrow> session option" where
  "handler_starts i s =
     (if i < length (se_running s) then
        (case se_running s ! i of
           (p, None) \<Rightarrow> Some (s\<lparr>se_running := (se_running s)[i := (p, Some (cp_name p \<in> set (se_handlers s)))]\<rparr>)
         | _ \<Rightarrow> None)
      else None)"

definition handler_response :: "cmd_payload \<Rightarrow> bool \<Rightarrow> handler_outcome \<Rightarrow> frame" where
  "handler_response p found out =
     (if found then
        (case out of
           HandlerReturns r \<Rightarrow> new_cmd_response (cp_cmd_id p) r
         | HandlerFails msg \<Rightarrow> new_cmd_error_response (cp_cmd_id p) msg
         | HandlerPanics msg \<Rightarrow> new_cmd_error_response (cp_cmd_id p) (''handler panic: '' @ msg))
      else new_cmd_error_response (cp_cmd_id p) ''command not found'')"

definition handle_cmd :: "nat \<Rightarrow> handler_outcome \<Rightarrow> session \<Rightarrow> session option" where
  "handle_cmd i out s =
     (if i < length (se_running s) then
        (case se_running s ! i of
           (p, Some found) \<Rightarrow>
             map_option (\<lambda>s'. s'\<lparr>se_running := remove_nth i (se_running s'), se_permits := se_permits s' + 1\<rparr>)
               (write_ignored (handler_response p found out) s)
         | _ \<Rightarrow> None)
      else None)"

definition register_command_handler :: "string \<Rightarrow> session \<Rightarrow> session" where
  "register_command_handler name s = s\<lparr>se_handlers := List.insert name (se_handlers s)\<rparr>"

section \<open>Heartbeat\<close>

definition ack_pong :: "session \<Rightarrow> session" where
  "ack_pong s =
     (if se_role s \<noteq> Server then s else if \<not> se_awaiting_pong s then s else s\<lparr>se_awaiting_pong := False\<rparr>)"

definition cancel :: "session \<Rightarrow> session" where
  "cancel s = s\<lparr>se_cancelled := True\<rparr>"

text \<open>\<open>idle_ms\<close> is an \<open>i64\<close> and is compared after the cast to \<open>u64\<close>.\<close>

definition idle_ms :: "int \<Rightarrow> session \<Rightarrow> int" where
  "idle_ms wall s = max (- (2 ^ 63)) (min (2 ^ 63 - 1) (wall - se_last_activity s))"

definition idle_expired :: "int \<Rightarrow> session \<Rightarrow> bool" where
  "idle_expired wall s \<longleftrightarrow>
     se_idle_timeout s \<noteq> 0 \<and> int (se_idle_timeout s) mod 2 ^ 64 < idle_ms wall s mod 2 ^ 64"

definition idle_check :: "int \<Rightarrow> session \<Rightarrow> session" where
  "idle_check wall s =
     (if idle_expired wall s then cancel (s\<lparr>se_heartbeat := HeartbeatOff\<rparr>) else s\<lparr>se_heartbeat := HeartbeatWaiting\<rparr>)"

definition heartbeat_tick :: "int \<Rightarrow> int \<Rightarrow> session \<Rightarrow> session option" where
  "heartbeat_tick now wall s =
     (if se_heartbeat s \<noteq> HeartbeatWaiting then None
      else Some
        (if se_role s = Server \<and> 0 < se_ping_interval s then
           if se_awaiting_pong s \<and> se_pong_deadline s \<le> now then cancel (s\<lparr>se_heartbeat := HeartbeatOff\<rparr>)
           else if se_awaiting_pong s then s
           else s\<lparr>se_awaiting_pong := True,
                  se_pong_deadline := now + int (if se_pong_timeout s = 0 then 5000 else se_pong_timeout s),
                  se_heartbeat := HeartbeatPinging\<rparr>
         else idle_check wall s))"

definition heartbeat_pings :: "int \<Rightarrow> session \<Rightarrow> session option" where
  "heartbeat_pings wall s =
     (if se_heartbeat s \<noteq> HeartbeatPinging then None
      else map_option (\<lambda>(sent, s'). if sent then idle_check wall s' else cancel (s'\<lparr>se_heartbeat := HeartbeatOff\<rparr>))
        (write_frame new_ping s))"

section \<open>The reader\<close>

definition dispatch_frame :: "bool \<Rightarrow> frame \<Rightarrow> session \<Rightarrow> session option" where
  "dispatch_frame write_ok f s =
     (case fr_body f of
        Ping \<Rightarrow> write_ignored new_pong s
      | Pong \<Rightarrow> Some (ack_pong s)
      | OpenAck \<Rightarrow> Some (handle_open_ack (fr_stream_id f) s)
      | Nack (Some _) \<Rightarrow> Some (handle_nack (fr_stream_id f) s)
      | Open (Some p) \<Rightarrow> Some (s\<lparr>se_opens := se_opens s @ [(fr_stream_id f, p, OpenCheck)]\<rparr>)
      | Data _ \<Rightarrow> stream_frame write_ok f s
      | Fin \<Rightarrow> stream_frame write_ok f s
      | Rst _ \<Rightarrow> stream_frame write_ok f s
      | Cmd (Some p) \<Rightarrow> accept_cmd p s
      | CmdResponse (Some p) \<Rightarrow> Some (handle_cmd_response p s)
      | _ \<Rightarrow> Some s)"

datatype ws_message = WsText string | WsBinary string | WsClose | WsOther | WsError | WsEnd

text \<open>The reader returns: \<open>rst_all_streams\<close> takes the map.\<close>

definition reader_returns :: "session \<Rightarrow> session" where
  "reader_returns s = s\<lparr>se_reader := ReaderResetting (se_streams s), se_streams := []\<rparr>"

definition receive_bytes :: "wire_crates \<Rightarrow> string \<Rightarrow> int \<Rightarrow> bool \<Rightarrow> session \<Rightarrow> session option" where
  "receive_bytes X bytes wall write_ok s =
     (case decode X bytes of
        None \<Rightarrow> Some s
      | Some f \<Rightarrow>
          let s' = s\<lparr>se_last_activity := wall\<rparr> in
          case validate f of Inl _ \<Rightarrow> Some s' | Inr _ \<Rightarrow> dispatch_frame write_ok f s')"

definition reader_loop :: "wire_crates \<Rightarrow> ws_message \<Rightarrow> int \<Rightarrow> bool \<Rightarrow> session \<Rightarrow> session option" where
  "reader_loop X msg wall write_ok s =
     (if se_reader s \<noteq> ReaderRunning then None
      else case msg of
        WsText t \<Rightarrow> receive_bytes X t wall write_ok s
      | WsBinary b \<Rightarrow> receive_bytes X b wall write_ok s
      | WsOther \<Rightarrow> Some s
      | _ \<Rightarrow> Some (reader_returns s))"

text \<open>\<open>rst_all_streams\<close>, one stream of the snapshot at a time and in any order, and the end of \<open>run\<close>.\<close>

definition resets :: "nat \<Rightarrow> session \<Rightarrow> session option" where
  "resets i s =
     (case se_reader s of
        ReaderResetting left \<Rightarrow>
          if i < length left then
            let (sid, a) = left ! i in
            map_option (\<lambda>s'. on_stream a close (s'\<lparr>se_reader := ReaderResetting (remove_nth i left)\<rparr>))
              (write_ignored (new_rst sid ''session closed'') s)
          else None
      | _ \<Rightarrow> None)"

definition run_finishes :: "session \<Rightarrow> session option" where
  "run_finishes s =
     (if se_reader s = ReaderResetting [] then Some (cancel (s\<lparr>se_reader := ReaderFinished\<rparr>)) else None)"

definition run_starts :: "nat \<Rightarrow> nat \<Rightarrow> session \<Rightarrow> session" where
  "run_starts ping pong s =
     (if se_reader s \<noteq> ReaderIdle then s
      else s\<lparr>se_reader := ReaderRunning, se_ping_interval := ping, se_pong_timeout := pong,
             se_heartbeat := HeartbeatWaiting, se_cleanup := True\<rparr>)"

section \<open>Steps of a session\<close>

datatype action =
    RunStarts nat nat
  | Receives ws_message int bool
  | ReaderCancelled
  | Resets nat
  | RunEnds
  | WriterTakes bool
  | WriterStops
  | OpensRemote open_payload
  | OpenSends nat
  | OpenRuns nat open_input
  | PumpRuns nat pump_step
  | CleanupTick
  | CleanupStops
  | CallsRpc string "json option"
  | CallSends nat
  | CallReturns nat
  | CallTimesOut nat
  | RegistersHandler string
  | HandlerStarts nat
  | HandlerEnds nat handler_outcome
  | HeartbeatTick int int
  | HeartbeatPings int
  | HeartbeatStops
  | Cancels

definition session_step :: "wire_crates \<Rightarrow> action \<Rightarrow> session \<Rightarrow> session option" where
  "session_step X act s =
     (case act of
        RunStarts ping pong \<Rightarrow> Some (run_starts ping pong s)
      | Receives msg wall write_ok \<Rightarrow> reader_loop X msg wall write_ok s
      | ReaderCancelled \<Rightarrow>
          if se_reader s = ReaderRunning \<and> se_cancelled s then Some (reader_returns s) else None
      | Resets i \<Rightarrow> resets i s
      | RunEnds \<Rightarrow> run_finishes s
      | WriterTakes ok \<Rightarrow> writer_takes X ok s
      | WriterStops \<Rightarrow> writer_stops s
      | OpensRemote p \<Rightarrow> open_remote_stream p s
      | OpenSends i \<Rightarrow> open_sends i s
      | OpenRuns i inp \<Rightarrow> handle_open_stream inp i s
      | PumpRuns a p \<Rightarrow> pump_runs a p s
      | CleanupTick \<Rightarrow> if se_cleanup s then Some (stream_cleanup s) else None
      | CleanupStops \<Rightarrow> if se_cleanup s \<and> se_cancelled s then Some (s\<lparr>se_cleanup := False\<rparr>) else None
      | CallsRpc name params \<Rightarrow> Some (call_rpc name params s)
      | CallSends j \<Rightarrow> call_sends j s
      | CallReturns j \<Rightarrow> call_returns j s
      | CallTimesOut j \<Rightarrow> call_times_out j s
      | RegistersHandler name \<Rightarrow> Some (register_command_handler name s)
      | HandlerStarts i \<Rightarrow> handler_starts i s
      | HandlerEnds i out \<Rightarrow> handle_cmd i out s
      | HeartbeatTick now wall \<Rightarrow> heartbeat_tick now wall s
      | HeartbeatPings wall \<Rightarrow> heartbeat_pings wall s
      | HeartbeatStops \<Rightarrow>
          if se_heartbeat s = HeartbeatWaiting \<and> se_cancelled s then Some (s\<lparr>se_heartbeat := HeartbeatOff\<rparr>) else None
      | Cancels \<Rightarrow> Some (cancel s))"

fun run_all :: "('a \<Rightarrow> 's \<Rightarrow> 's option) \<Rightarrow> 'a list \<Rightarrow> 's \<Rightarrow> 's option" where
  "run_all step [] s = Some s"
| "run_all step (a # acts) s = Option.bind (step a s) (run_all step acts)"

end
