(* ===== verification/TunnelLaws.thy ===== *)
theory TunnelLaws
  imports TunnelSession
begin

text \<open>
  What holds of every session a schedule can reach. An invariant is proved for each step once, as an
  interpretation of the locale of invariants that may mention the schedule so far; the properties are then
  statements about runs.
\<close>

section \<open>Invariants of runs\<close>

locale trace_invariant =
  fixes step :: "'a \<Rightarrow> 's \<Rightarrow> 's option" and good :: "'a list \<Rightarrow> 's \<Rightarrow> bool"
  assumes step_keeps: "step a s = Some s' \<Longrightarrow> good past s \<Longrightarrow> good (past @ [a]) s'"
begin

lemma run_keeps: "run_all step acts s = Some s' \<Longrightarrow> good past s \<Longrightarrow> good (past @ acts) s'"
proof (induction acts arbitrary: s past)
  case (Cons a acts)
  from Cons.prems(1) obtain mid where mid: "step a s = Some mid" "run_all step acts mid = Some s'"
    by (auto split: Option.bind_splits)
  from Cons.IH [OF mid(2) step_keeps [OF mid(1) Cons.prems(2)]] show ?case by simp
qed simp

end

locale state_invariant =
  fixes step :: "'a \<Rightarrow> 's \<Rightarrow> 's option" and good :: "'s \<Rightarrow> bool"
  assumes keeps: "step a s = Some s' \<Longrightarrow> good s \<Longrightarrow> good s'"

sublocale state_invariant \<subseteq> trace: trace_invariant step "\<lambda>_. good"
  by unfold_locales (rule keeps)

context state_invariant begin

lemma run_keeps_state: "run_all step acts s = Some s' \<Longrightarrow> good s \<Longrightarrow> good s'"
  by (rule trace.run_keeps)

end

section \<open>Lists\<close>

lemma set_remove_key: "set (remove_key k xs) = {x \<in> set xs. fst x \<noteq> k}"
  by (auto simp: remove_key_def)

lemma distinct_remove_key: "distinct (map fst xs) \<Longrightarrow> distinct (map fst (remove_key k xs))"
  by (simp add: remove_key_def distinct_map_filter)

lemma set_remove_nth: "set (remove_nth i xs) \<subseteq> set xs"
  by (auto simp: remove_nth_def dest: in_set_takeD in_set_dropD)

lemma length_remove_nth: "i < length xs \<Longrightarrow> length (remove_nth i xs) = length xs - 1"
  by (auto simp: remove_nth_def)

lemma in_remove_nth: "x \<in> set xs \<Longrightarrow> i < length xs \<Longrightarrow> x \<noteq> xs ! i \<Longrightarrow> x \<in> set (remove_nth i xs)"
  by (metis (no_types, lifting) remove_nth_def append_take_drop_id Cons_nth_drop_Suc Un_iff set_ConsD set_append)

section \<open>What one write does\<close>

lemma write_frame_cases:
  assumes "write_frame f s = Some (sent, s')"
  shows "(sent \<and> se_writer s \<and> length (se_outbound s) < 128 \<and> s' = s\<lparr>se_outbound := se_outbound s @ [f]\<rparr>) \<or>
         (\<not> sent \<and> \<not> se_writer s \<and> s' = s)"
  using assms by (auto simp: write_frame_def outbound_channel_capacity_def split: if_splits)

lemma write_ignored_cases:
  assumes "write_ignored f s = Some s'"
  shows "(se_writer s \<and> length (se_outbound s) < 128 \<and> s' = s\<lparr>se_outbound := se_outbound s @ [f]\<rparr>) \<or>
         (\<not> se_writer s \<and> s' = s)"
  using assms write_frame_cases [of f s] by (auto simp: write_ignored_def)

lemmas stream_edits = on_stream_def drop_stream_def insert_stream_def set_open_def end_open_def

lemmas open_task_ops = handle_open_stream_def open_checks_def open_inserts_def open_acks_def dials_def

lemmas call_ops = call_sends_def call_returns_def call_times_out_def forget_call_def call_ends_def

section \<open>Resources\<close>

definition within_bounds :: "session \<Rightarrow> bool" where
  "within_bounds s \<longleftrightarrow>
     length (se_outbound s) \<le> 128 \<and> se_permits s + length (se_running s) = 32 \<and>
     (\<forall>text\<in>set (se_wire s). length text \<le> 65536)"

lemma within_bounds_fields [simp]:
  "within_bounds (s\<lparr>se_heap := heap\<rparr>) = within_bounds s" "within_bounds (s\<lparr>se_streams := m\<rparr>) = within_bounds s"
  "within_bounds (s\<lparr>se_ids := g\<rparr>) = within_bounds s" "within_bounds (s\<lparr>se_opens := ts\<rparr>) = within_bounds s"
  "within_bounds (s\<lparr>se_local_opens := ls\<rparr>) = within_bounds s" "within_bounds (s\<lparr>se_dialled := ds\<rparr>) = within_bounds s"
  "within_bounds (s\<lparr>se_calls := cs\<rparr>) = within_bounds s" "within_bounds (s\<lparr>se_in_flight := fl\<rparr>) = within_bounds s"
  "within_bounds (s\<lparr>se_reader := r\<rparr>) = within_bounds s" "within_bounds (s\<lparr>se_cancelled := b\<rparr>) = within_bounds s"
  "within_bounds (s\<lparr>se_heartbeat := h\<rparr>) = within_bounds s" "within_bounds (s\<lparr>se_last_activity := t\<rparr>) = within_bounds s"
  "within_bounds (s\<lparr>se_awaiting_pong := b\<rparr>) = within_bounds s" "within_bounds (s\<lparr>se_pong_deadline := t\<rparr>) = within_bounds s"
  "within_bounds (s\<lparr>se_cleanup := b\<rparr>) = within_bounds s" "within_bounds (s\<lparr>se_handlers := hs\<rparr>) = within_bounds s"
  by (simp_all add: within_bounds_def)

lemma within_bounds_edits [simp]:
  "within_bounds (on_stream a f s) = within_bounds s" "within_bounds (insert_stream sid s) = within_bounds s"
  "within_bounds (drop_stream sid a s) = within_bounds s" "within_bounds (set_open i pt s) = within_bounds s"
  "within_bounds (end_open i s) = within_bounds s" "within_bounds (reader_returns s) = within_bounds s"
  "within_bounds (stream_cleanup s) = within_bounds s" "within_bounds (call_rpc name params s) = within_bounds s"
  "within_bounds (call_ends j out s) = within_bounds s" "within_bounds (cancel s) = within_bounds s"
  "within_bounds (ack_pong s) = within_bounds s" "within_bounds (run_starts ping pong s) = within_bounds s"
  "within_bounds (handle_cmd_response r s) = within_bounds s" "within_bounds (forget_call j s) = within_bounds s"
  "within_bounds (register_command_handler name s) = within_bounds s" "within_bounds (idle_check wall s) = within_bounds s"
  "within_bounds (handle_open_ack sid s) = within_bounds s" "within_bounds (handle_nack sid s) = within_bounds s"
  by (simp_all add: within_bounds_def on_stream_def insert_stream_def drop_stream_def set_open_def end_open_def
      reader_returns_def stream_cleanup_def call_rpc_def call_ends_def cancel_def ack_pong_def run_starts_def
      handle_cmd_response_def forget_call_def register_command_handler_def idle_check_def handle_open_ack_def
      handle_nack_def Let_def split: option.split)

lemma within_bounds_write:
  "write_frame f s = Some (sent, s') \<Longrightarrow> within_bounds s \<Longrightarrow> within_bounds s'"
  "write_ignored f s = Some s' \<Longrightarrow> within_bounds s \<Longrightarrow> within_bounds s'"
  by (auto simp: within_bounds_def dest!: write_frame_cases write_ignored_cases)

lemma bounds_writer:
  "writer_takes X ok s = Some s' \<Longrightarrow> within_bounds s \<Longrightarrow> within_bounds s'"
  "writer_stops s = Some s' \<Longrightarrow> within_bounds s \<Longrightarrow> within_bounds s'"
  by (auto simp: writer_takes_def writer_stops_def within_bounds_def max_frame_size_bytes_def Let_def
      split: if_splits list.splits)

lemma bounds_opens:
  "open_remote_stream p s = Some s' \<Longrightarrow> within_bounds s \<Longrightarrow> within_bounds s'"
  "open_sends i s = Some s' \<Longrightarrow> within_bounds s \<Longrightarrow> within_bounds s'"
  "handle_open_stream inp i s = Some s' \<Longrightarrow> within_bounds s \<Longrightarrow> within_bounds s'"
  by (auto simp: open_remote_stream_def open_sends_def handle_open_stream_def open_acks_def open_checks_def open_inserts_def dials_def Let_def
      dest!: within_bounds_write split: if_splits prod.splits open_point.splits open_input.splits sum.splits option.splits)

lemma bounds_streams:
  "pump_runs a p s = Some s' \<Longrightarrow> within_bounds s \<Longrightarrow> within_bounds s'"
  "resets i s = Some s' \<Longrightarrow> within_bounds s \<Longrightarrow> within_bounds s'"
  "run_finishes s = Some s' \<Longrightarrow> within_bounds s \<Longrightarrow> within_bounds s'"
  "stream_frame ok f s = Some s' \<Longrightarrow> within_bounds s \<Longrightarrow> within_bounds s'"
  by (auto simp: pump_runs_def resets_def run_finishes_def stream_frame_def Let_def
      dest!: within_bounds_write split: if_splits prod.splits option.splits reader.splits frame_body.splits Option.bind_splits)

lemma bounds_calls:
  "call_sends j s = Some s' \<Longrightarrow> within_bounds s \<Longrightarrow> within_bounds s'"
  "call_returns j s = Some s' \<Longrightarrow> within_bounds s \<Longrightarrow> within_bounds s'"
  "call_times_out j s = Some s' \<Longrightarrow> within_bounds s \<Longrightarrow> within_bounds s'"
  by (auto simp: call_sends_def call_returns_def call_times_out_def
      dest!: within_bounds_write split: if_splits call_slot.splits)

lemma bounds_handlers:
  "accept_cmd p s = Some s' \<Longrightarrow> within_bounds s \<Longrightarrow> within_bounds s'"
  "handler_starts i s = Some s' \<Longrightarrow> within_bounds s \<Longrightarrow> within_bounds s'"
  "handle_cmd i out s = Some s' \<Longrightarrow> within_bounds s \<Longrightarrow> within_bounds s'"
  by (auto simp: accept_cmd_def handler_starts_def handle_cmd_def within_bounds_def length_remove_nth
      dest!: write_ignored_cases split: if_splits prod.splits option.splits)

lemma bounds_heartbeat:
  "heartbeat_tick now wall s = Some s' \<Longrightarrow> within_bounds s \<Longrightarrow> within_bounds s'"
  "heartbeat_pings wall s = Some s' \<Longrightarrow> within_bounds s \<Longrightarrow> within_bounds s'"
  by (auto simp: heartbeat_tick_def heartbeat_pings_def dest!: within_bounds_write split: if_splits)

lemma bounds_reader: "reader_loop X msg wall ok s = Some s' \<Longrightarrow> within_bounds s \<Longrightarrow> within_bounds s'"
  by (auto simp: reader_loop_def receive_bytes_def dispatch_frame_def Let_def
      dest: within_bounds_write bounds_streams bounds_handlers
      split: if_splits ws_message.splits option.splits sum.splits frame_body.splits)

interpretation bounds: state_invariant "session_step X" within_bounds for X
proof
  fix act s s'
  assume "session_step X act s = Some s'" "within_bounds s"
  then show "within_bounds s'"
    by (cases act)
      (auto simp: session_step_def bounds_writer bounds_opens bounds_streams bounds_calls bounds_handlers
        bounds_heartbeat bounds_reader split: if_splits)
qed

section \<open>Streams and their identifiers\<close>

definition entry_ok :: "stream list \<Rightarrow> 64 word \<Rightarrow> nat \<Rightarrow> bool" where
  "entry_ok heap sid a \<longleftrightarrow> a < length heap \<and> st_id (heap ! a) = sid"

text \<open>The map sends each identifier to a stream that carries it, and so does every task that holds a stream; every
  stream object has come about by a run of the single-stream machine.\<close>

definition stream_history :: "stream \<Rightarrow> bool" where
  "stream_history st \<longleftrightarrow> (\<exists>es fs. stream_run es (stream_new (st_id st)) = Some (fs, st))"

definition held_refs :: "session \<Rightarrow> (64 word \<times> nat) set" where
  "held_refs s =
     set (se_streams s) \<union> {(sid, a). \<exists>p. (sid, p, a) \<in> set (se_local_opens s)} \<union>
     {(sid, a). \<exists>p. (sid, p, OpenAcking a) \<in> set (se_opens s)} \<union>
     (case se_reader s of ReaderResetting left \<Rightarrow> set left | _ \<Rightarrow> {})"

definition linked :: "session \<Rightarrow> bool" where
  "linked s \<longleftrightarrow>
     distinct (map fst (se_streams s)) \<and> (\<forall>(sid, a)\<in>held_refs s. entry_ok (se_heap s) sid a) \<and>
     (\<forall>st\<in>set (se_heap s). stream_history st)"

lemma stream_run_append:
  "stream_run es st = Some (fs, mid) \<Longrightarrow> stream_step e mid = Some (f, st') \<Longrightarrow>
   \<exists>fs'. stream_run (es @ [e]) st = Some (fs', st')"
  by (induction es arbitrary: st fs) (auto split: Option.bind_splits)

lemma history_step:
  assumes "stream_history st" "stream_step e st = Some (f, st')"
  shows "stream_history st'"
proof -
  obtain es fs where "stream_run es (stream_new (st_id st)) = Some (fs, st)"
    using assms(1) by (auto simp: stream_history_def)
  with assms(2) stream_step_id [OF assms(2)] show ?thesis
    unfolding stream_history_def by (metis stream_run_append)
qed

lemma history_new: "stream_history (stream_new sid)"
  unfolding stream_history_def by (rule exI [of _ "[]"]) (simp add: stream_new_def)

lemma history_ops:
  assumes "stream_history st"
  shows "stream_history (close st)" "stream_history (set_pending v st)" "stream_history (start_pump st)"
    "stream_history (snd (dispatch ok body st))" "pump_run p st = Some (f, k) \<Longrightarrow> stream_history (k sent)"
proof -
  note step = history_step [OF assms]
  show "stream_history (close st)" by (rule step [of CloseCalled]) (simp add: stream_step_def)
  show "stream_history (set_pending v st)" by (rule step [of "SetPending v"]) (simp add: stream_step_def)
  show "stream_history (start_pump st)" by (rule step [of SpawnPump]) (simp add: stream_step_def)
  show "stream_history (snd (dispatch ok body st))"
    by (rule step [of "Incoming body ok"]) (simp add: stream_step_def)
  show "stream_history (k sent)" if "pump_run p st = Some (f, k)"
    using that by (intro step [of "Pump p sent"]) (simp add: stream_step_def)
qed

lemma linked_fields [simp]:
  "linked (s\<lparr>se_ids := g\<rparr>) = linked s" "linked (s\<lparr>se_dialled := ds\<rparr>) = linked s"
  "linked (s\<lparr>se_calls := cs\<rparr>) = linked s" "linked (s\<lparr>se_in_flight := fl\<rparr>) = linked s"
  "linked (s\<lparr>se_cancelled := b\<rparr>) = linked s" "linked (s\<lparr>se_heartbeat := h\<rparr>) = linked s"
  "linked (s\<lparr>se_last_activity := t\<rparr>) = linked s" "linked (s\<lparr>se_awaiting_pong := b\<rparr>) = linked s"
  "linked (s\<lparr>se_pong_deadline := t\<rparr>) = linked s" "linked (s\<lparr>se_cleanup := b\<rparr>) = linked s"
  "linked (s\<lparr>se_handlers := hs\<rparr>) = linked s" "linked (s\<lparr>se_outbound := q\<rparr>) = linked s"
  "linked (s\<lparr>se_writer := b\<rparr>) = linked s" "linked (s\<lparr>se_taken := tk\<rparr>) = linked s"
  "linked (s\<lparr>se_wire := w\<rparr>) = linked s" "linked (s\<lparr>se_running := rs\<rparr>) = linked s"
  "linked (s\<lparr>se_permits := k\<rparr>) = linked s" "linked (s\<lparr>se_next_cmd := n\<rparr>) = linked s"
  by (simp_all add: linked_def held_refs_def)

text \<open>Changing a stream in place keeps its identifier and its history.\<close>

definition keeps_stream :: "(stream \<Rightarrow> stream) \<Rightarrow> stream \<Rightarrow> bool" where
  "keeps_stream f st \<longleftrightarrow> st_id (f st) = st_id st \<and> (stream_history st \<longrightarrow> stream_history (f st))"

lemma keeps_stream_ops [simp]:
  "keeps_stream close st" "keeps_stream (start_pump \<circ> set_pending v) st" "keeps_stream (set_pending v) st"
  by (simp_all add: keeps_stream_def id_kept history_ops)

lemma entry_ok_update: "st_id st = st_id (heap ! a) \<Longrightarrow> entry_ok (heap[a := st]) sid b = entry_ok heap sid b"
  by (cases "a < length heap") (auto simp: entry_ok_def nth_list_update list_update_beyond)

lemma entry_ok_append: "entry_ok heap sid a \<Longrightarrow> entry_ok (heap @ sts) sid a"
  by (simp add: entry_ok_def nth_append)

lemma entry_ok_new: "entry_ok (heap @ [stream_new sid]) sid (length heap)"
  by (simp add: entry_ok_def stream_new_def)

text \<open>A step that only lets go of streams, or takes hold of streams that carry the right identifier.\<close>

lemma linked_change:
  assumes "linked s" "distinct (map fst (se_streams s'))" "\<And>sid a. entry_ok (se_heap s) sid a \<Longrightarrow> entry_ok (se_heap s') sid a"
    "\<And>sid a. (sid, a) \<in> held_refs s' \<Longrightarrow> (sid, a) \<in> held_refs s \<or> entry_ok (se_heap s') sid a"
    "\<And>st. st \<in> set (se_heap s') \<Longrightarrow> st \<in> set (se_heap s) \<or> stream_history st"
  shows "linked s'"
  using assms unfolding linked_def by blast

lemma linked_distinct: "linked s \<Longrightarrow> distinct (map fst (se_streams s))"
  by (simp add: linked_def)

lemma linked_on_stream:
  assumes "linked s" "keeps_stream f (se_heap s ! a)"
  shows "linked (on_stream a f s)"
proof (cases "a < length (se_heap s)")
  case True
  then have "stream_history (f (se_heap s ! a))" using assms by (auto simp: linked_def keeps_stream_def)
  then show ?thesis using assms(2)
    by (intro linked_change [OF assms(1)])
      (auto simp: on_stream_def keeps_stream_def entry_ok_update linked_distinct [OF assms(1)] held_refs_def
        dest!: set_update_subset_insert [THEN subsetD])
next
  case False
  then show ?thesis using assms(1) by (simp add: on_stream_def list_update_beyond)
qed

lemma in_remove_nthD: "x \<in> set (remove_nth i xs) \<Longrightarrow> x \<in> set xs"
  using set_remove_nth by fast

lemma linked_maps:
  assumes "linked s"
  shows "linked (s\<lparr>se_streams := filter P (se_streams s)\<rparr>)"
    "linked (s\<lparr>se_streams := remove_key sid (se_streams s)\<rparr>)"
    "linked (s\<lparr>se_local_opens := remove_nth i (se_local_opens s)\<rparr>)"
    "linked (end_open i s)"
    "linked (s\<lparr>se_opens := se_opens s @ [(sid, p, OpenCheck)]\<rparr>)"
    "linked (reader_returns s)" "linked (run_starts ping pong s)" "linked (s\<lparr>se_reader := ReaderFinished\<rparr>)"
    "se_reader s = ReaderResetting left \<Longrightarrow> linked (s\<lparr>se_reader := ReaderResetting (remove_nth j left)\<rparr>)"
    "stream_history st \<Longrightarrow> linked (s\<lparr>se_heap := se_heap s @ [st]\<rparr>)"
  by (rule linked_change [OF assms];
      auto simp: held_refs_def linked_distinct [OF assms] distinct_map_filter set_remove_key distinct_remove_key
        end_open_def reader_returns_def run_starts_def entry_ok_append split: if_splits dest!: in_remove_nthD)+

lemma insert_stream_fields [simp]:
  "se_heap (insert_stream sid s) = se_heap s @ [stream_new sid]"
  "se_streams (insert_stream sid s) = se_streams s @ [(sid, length (se_heap s))]"
  "se_opens (insert_stream sid s) = se_opens s" "se_local_opens (insert_stream sid s) = se_local_opens s"
  "se_reader (insert_stream sid s) = se_reader s"
  by (simp_all add: insert_stream_def)

lemma linked_insert:
  assumes "linked s" "sid \<notin> fst ` set (se_streams s)"
  shows "linked (insert_stream sid s)"
  using assms(2)
  by (intro linked_change [OF assms(1)])
    (auto simp: held_refs_def linked_distinct [OF assms(1)] entry_ok_append entry_ok_new history_new)

lemma linked_set_open:
  assumes "linked s" "\<And>a. pt = OpenAcking a \<Longrightarrow> entry_ok (se_heap s) (fst (se_opens s ! i)) a"
  shows "linked (set_open i pt s)"
  using assms(2)
  by (intro linked_change [OF assms(1)])
    (auto simp: held_refs_def set_open_def linked_distinct [OF assms(1)] split: prod.splits
      dest!: set_update_subset_insert [THEN subsetD])

lemma linked_write:
  "write_frame f s = Some (sent, s') \<Longrightarrow> linked s' = linked s" "write_ignored f s = Some s' \<Longrightarrow> linked s' = linked s"
  by (auto dest!: write_frame_cases write_ignored_cases)

lemma write_keeps:
  "write_frame f s = Some (sent, s') \<Longrightarrow> se_heap s' = se_heap s \<and> se_streams s' = se_streams s \<and>
     se_opens s' = se_opens s \<and> se_local_opens s' = se_local_opens s \<and> se_reader s' = se_reader s \<and> se_calls s' = se_calls s"
  "write_ignored f s = Some s' \<Longrightarrow> se_heap s' = se_heap s \<and> se_streams s' = se_streams s \<and>
     se_opens s' = se_opens s \<and> se_local_opens s' = se_local_opens s \<and> se_reader s' = se_reader s \<and> se_calls s' = se_calls s"
  by (auto dest!: write_frame_cases write_ignored_cases)

lemma linked_more_fields [simp]:
  "linked (s\<lparr>se_ping_interval := pi\<rparr>) = linked s" "linked (s\<lparr>se_pong_timeout := pt\<rparr>) = linked s"
  by (simp_all add: linked_def held_refs_def)

lemma linked_edits [simp]:
  "linked (call_rpc name params s) = linked s" "linked (call_ends j out s) = linked s"
  "linked (cancel s) = linked s" "linked (ack_pong s) = linked s" "linked (handle_cmd_response r s) = linked s"
  "linked (forget_call j s) = linked s" "linked (register_command_handler name s) = linked s"
  "linked (idle_check wall s) = linked s"
  by (simp_all add: linked_def held_refs_def call_rpc_def call_ends_def cancel_def ack_pong_def handle_cmd_response_def
      forget_call_def register_command_handler_def idle_check_def Let_def split: option.split)

lemma keeps_stream_const:
  "st' = snd (dispatch ok body st) \<or> (\<exists>p f k sent. pump_run p st = Some (f, k) \<and> st' = k sent) \<Longrightarrow>
   keeps_stream (\<lambda>_. st') st"
  by (auto simp: keeps_stream_def id_kept history_ops)

lemma linked_drop: "linked s \<Longrightarrow> linked (drop_stream sid a s)"
  by (simp add: drop_stream_def linked_on_stream linked_maps)

lemma linked_writer:
  "writer_takes X ok s = Some s' \<Longrightarrow> linked s' = linked s" "writer_stops s = Some s' \<Longrightarrow> linked s' = linked s"
  by (auto simp: writer_takes_def writer_stops_def Let_def split: if_splits list.splits)

lemma fresh_id:
  assumes "next_id fuel g active = Some (sid, g')"
  shows "sid \<notin> set active"
  using assms by (induction fuel arbitrary: g) (auto simp: Let_def split: if_splits)

lemma linked_open_remote:
  assumes "linked s" "open_remote_stream p s = Some s'"
  shows "linked s'"
proof -
  from assms(2) obtain sid g where sid: "next_id (Suc (length (se_streams s))) (se_ids s) (map fst (se_streams s)) = Some (sid, g)"
    and s': "s' = (insert_stream sid s)\<lparr>se_ids := g, se_local_opens := se_local_opens s @ [(sid, p, length (se_heap s))]\<rparr>"
    by (auto simp: open_remote_stream_def split: option.splits)
  have "linked (insert_stream sid s)"
    using fresh_id [OF sid] by (intro linked_insert [OF assms(1)]) simp
  from linked_distinct [OF this] show ?thesis unfolding s'
    by (intro linked_change [OF \<open>linked (insert_stream sid s)\<close>]) (auto simp: held_refs_def entry_ok_new)
qed

lemma linked_open_sends: "linked s \<Longrightarrow> open_sends i s = Some s' \<Longrightarrow> linked s'"
  by (auto simp: open_sends_def Let_def linked_write linked_maps linked_drop split: if_splits prod.splits)

lemma linked_inserts:
  assumes "linked s" "sid = fst (se_opens s ! i)"
  shows "linked (open_inserts i sid s)"
  using assms unfolding open_inserts_def
  by (auto intro!: linked_set_open linked_insert linked_maps history_ops history_new simp: entry_ok_new)

lemma dials_cases:
  assumes "dials c p s = (ok, s')"
  shows "s' = s \<or> (\<exists>t. dial_target_of (se_dial s) p = Inr t \<and> s' = s\<lparr>se_dialled := se_dialled s @ [t]\<rparr>)"
  using assms by (auto simp: dials_def split: sum.splits)

lemma linked_dials:
  "dials c p s = (ok, s') \<Longrightarrow> linked s' = linked s \<and> se_opens s' = se_opens s"
  by (auto dest!: dials_cases)

lemma linked_acks:
  assumes "linked s" "open_acks i sid a s = Some s'"
  shows "linked s'"
  using assms
  by (auto simp: open_acks_def linked_write linked_maps linked_drop linked_on_stream split: if_splits prod.splits)

lemma linked_opens:
  assumes "linked s" "handle_open_stream inp i s = Some s'"
  shows "linked s'"
proof -
  obtain sid p pt where task: "se_opens s ! i = (sid, p, pt)" by (cases "se_opens s ! i")
  have refuse: "linked (set_open i (OpenRefusing why retry) t)" "linked (set_open i OpenRetry t)"
    "linked (set_open i OpenRedial t)" "linked (set_open i OpenDial t)" if "linked t" for why retry t
    using that by (auto intro: linked_set_open)
  have ins: "linked (open_inserts i sid t)" if "linked t" "se_opens t = se_opens s" for t
    using that task by (auto intro: linked_inserts)
  show ?thesis using assms task
    by (cases pt; cases inp)
      (auto simp: handle_open_stream_def Let_def open_checks_def refuse ins linked_write linked_maps
        dest: linked_dials linked_acks split: if_splits prod.splits)
qed

lemma linked_stream_frame:
  assumes "linked s" "stream_frame ok f s = Some s'"
  shows "linked s'"
proof -
  have "keeps_stream (\<lambda>_. st) (se_heap s ! a)" if "dispatch ok (fr_body f) (se_heap s ! a) = (r, st)" for a r st
    using that by (metis keeps_stream_const snd_conv)
  with assms show ?thesis
    by (auto simp: stream_frame_def Let_def linked_write split: option.splits prod.splits frame_body.splits
        intro!: linked_on_stream dest: write_keeps)
qed

lemma linked_pump:
  assumes "linked s" "pump_runs a p s = Some s'"
  shows "linked s'"
proof -
  have "keeps_stream (\<lambda>_. k sent) (se_heap s ! a)" if "pump_run p (se_heap s ! a) = Some (f, k)" for f k sent
    using that by (metis keeps_stream_const)
  with assms show ?thesis
    by (auto simp: pump_runs_def linked_write split: option.splits prod.splits if_splits Option.bind_splits
        intro!: linked_on_stream dest: write_keeps)
qed

lemma linked_resets:
  "linked s \<Longrightarrow> resets i s = Some s' \<Longrightarrow> linked s'" "linked s \<Longrightarrow> run_finishes s = Some s' \<Longrightarrow> linked s'"
  by (auto simp: resets_def run_finishes_def linked_maps intro!: linked_on_stream
      split: reader.splits prod.splits if_splits dest!: write_ignored_cases)

lemma linked_calls:
  "call_sends j s = Some s' \<Longrightarrow> linked s' = linked s" "call_returns j s = Some s' \<Longrightarrow> linked s' = linked s"
  "call_times_out j s = Some s' \<Longrightarrow> linked s' = linked s" "accept_cmd c s = Some s' \<Longrightarrow> linked s' = linked s"
  "handler_starts i s = Some s' \<Longrightarrow> linked s' = linked s" "handle_cmd i out s = Some s' \<Longrightarrow> linked s' = linked s"
  "heartbeat_tick now wall s = Some s' \<Longrightarrow> linked s' = linked s" "heartbeat_pings wall s = Some s' \<Longrightarrow> linked s' = linked s"
  by (auto simp: call_sends_def call_returns_def call_times_out_def accept_cmd_def handler_starts_def handle_cmd_def
      heartbeat_tick_def heartbeat_pings_def linked_write
      split: if_splits call_slot.splits prod.splits option.splits)

lemma linked_dispatch:
  assumes "dispatch_frame ok f s = Some s'" "linked s"
  shows "linked s'"
proof -
  have "linked (handle_open_ack sid s)" "linked (handle_nack sid s)" for sid
    using assms(2) by (auto simp: handle_open_ack_def handle_nack_def linked_on_stream linked_drop split: option.splits)
  with assms show ?thesis
    by (auto simp: dispatch_frame_def linked_write linked_calls linked_maps
        dest: linked_stream_frame split: option.splits frame_body.splits)
qed

lemma linked_reader:
  assumes "reader_loop X msg wall ok s = Some s'" "linked s"
  shows "linked s'"
proof -
  have "linked t \<Longrightarrow> receive_bytes X bytes wall ok t = Some s' \<Longrightarrow> linked s'" for bytes t
    by (auto simp: receive_bytes_def Let_def dest!: linked_dispatch split: option.splits sum.splits)
  with assms show ?thesis
    by (auto simp: reader_loop_def linked_maps split: if_splits ws_message.splits)
qed

interpretation streams: state_invariant "session_step X" linked for X
proof
  fix act s s'
  assume "session_step X act s = Some s'" "linked s"
  then show "linked s'"
    by (cases act)
      (auto simp: session_step_def linked_writer linked_calls linked_maps stream_cleanup_def
        dest: linked_open_remote linked_open_sends linked_opens linked_pump linked_resets linked_reader split: if_splits)
qed

section \<open>Properties\<close>

lemma new_session_good: "within_bounds (new_session role cfg idle now)" "linked (new_session role cfg idle now)"
  by (simp_all add: new_session_def within_bounds_def linked_def held_refs_def)

text \<open>C17. A session never outgrows its bounds, whatever the schedule and the peer: at most 128 frames wait in the
  outbound channel, at most 32 command handlers run and every permit is accounted for, and no message longer
  than 64 KiB is written to the WebSocket.\<close>

theorem session_stays_within_bounds:
  assumes "run_all (session_step X) acts (new_session role cfg idle now) = Some s"
  shows "length (se_outbound s) \<le> outbound_channel_capacity \<and> length (se_running s) \<le> 32 \<and>
    se_permits s + length (se_running s) = 32 \<and> (\<forall>text\<in>set (se_wire s). length text \<le> max_frame_size_bytes)"
  using bounds.run_keeps_state [OF assms new_session_good(1)]
  by (auto simp: within_bounds_def outbound_channel_capacity_def max_frame_size_bytes_def)

text \<open>C16. The stream table of a session, under any schedule: no identifier occurs twice, the identifier of an entry is
  the identifier of the stream it leads to, and every stream object, mapped or not, is in a state the
  single-stream machine reaches, so what is proved of a stream alone holds of the streams of a session.\<close>

theorem session_streams_sound:
  assumes "run_all (session_step X) acts (new_session role cfg idle now) = Some s"
  shows "distinct (map fst (se_streams s)) \<and>
    (\<forall>(sid, a)\<in>set (se_streams s). a < length (se_heap s) \<and> st_id (se_heap s ! a) = sid) \<and>
    (\<forall>st\<in>set (se_heap s). \<exists>es fs. stream_run es (stream_new (st_id st)) = Some (fs, st))"
  using streams.run_keeps_state [OF assms new_session_good(2)]
  by (auto simp: linked_def held_refs_def entry_ok_def stream_history_def)

section \<open>Examples\<close>

text \<open>Each endpoint opens a stream and hands over its OPEN frame.\<close>

definition sample_target :: open_payload where
  "sample_target = \<lparr>op_target_host = ''db'', op_target_port = 5432, op_remote_addr = []\<rparr>"

definition sample_open :: "action list" where
  "sample_open = [OpensRemote sample_target, OpenSends 0]"

definition sample_opened :: "session_role \<Rightarrow> 64 word \<Rightarrow> session" where
  "sample_opened role sid =
     (new_session role (PortMapping []) 0 0)
       \<lparr>se_heap := [stream_new sid], se_streams := [(sid, 0)], se_ids := \<lparr>ig_current = sid + 2, ig_start = sid\<rparr>,
        se_outbound := [frame_of sid (Open (Some sample_target))]\<rparr>"

lemma sample_open_run:
  "run_all (session_step X) sample_open (new_session Client (PortMapping []) 0 0) = Some (sample_opened Client 2)"
  "run_all (session_step X) sample_open (new_session Server (PortMapping []) 0 0) = Some (sample_opened Server 1)"
  by (simp_all add: sample_open_def sample_opened_def new_session_def session_step_def open_remote_stream_def
      open_sends_def new_id_generator_def overflow_threshold_def insert_stream_def write_frame_def
      outbound_channel_capacity_def remove_nth_def)

theorem session_stays_within_bounds_witness:
  "length (se_outbound (sample_opened Server 1)) \<le> outbound_channel_capacity \<and>
   se_permits (sample_opened Server 1) + length (se_running (sample_opened Server 1)) = 32"
  using session_stays_within_bounds [OF sample_open_run(2)] by simp

theorem session_streams_sound_witness:
  "se_streams (sample_opened Client 2) = [(2, 0)] \<and> st_id (se_heap (sample_opened Client 2) ! 0) = 2"
  using session_streams_sound [OF sample_open_run(1)] by (simp add: sample_opened_def)

end
