(* ===== verification/TunnelSafety.thy ===== *)
theory TunnelSafety
  imports TunnelLaws
begin

text \<open>
  What a session promises its peer and its host: whose identifiers it opens and acknowledges, and what it dials.
\<close>

section \<open>Identifiers and targets\<close>

definition own_id :: "session_role \<Rightarrow> 64 word \<Rightarrow> bool" where
  "own_id role sid \<longleftrightarrow> (even (unat sid) \<longleftrightarrow> role = Client)"

definition frame_right :: "session_role \<Rightarrow> frame \<Rightarrow> bool" where
  "frame_right role f =
     (case fr_body f of Open _ \<Rightarrow> own_id role (fr_stream_id f) | OpenAck \<Rightarrow> \<not> own_id role (fr_stream_id f) | _ \<Rightarrow> True)"

definition valid_port :: "32 word \<Rightarrow> bool" where
  "valid_port port \<longleftrightarrow> 0 < sint port \<and> sint port \<le> 65535"

text \<open>The targets a configuration permits.\<close>

definition permitted :: "dial_config \<Rightarrow> dial_target \<Rightarrow> bool" where
  "permitted cfg t =
     (case cfg of
        PortMapping ports \<Rightarrow>
          (\<exists>(port, addr)\<in>set ports. t = MappedAddress (mapped_address addr))
      | TargetAllowlist None \<Rightarrow> True
      | TargetAllowlist (Some allowed) \<Rightarrow>
          (\<exists>host port. t = HostPort host (ucast port) \<and> uint (ucast port :: 16 word) = sint port \<and>
             join_host_port host port \<in> set allowed))"

definition frames_right :: "session_role \<Rightarrow> frame list \<Rightarrow> bool" where
  "frames_right role fs \<longleftrightarrow> (\<forall>f\<in>set fs. frame_right role f)"

definition open_right :: "session_role \<Rightarrow> 64 word \<times> open_payload \<times> open_point \<Rightarrow> bool" where
  "open_right role task =
     (case task of (sid, p, pt) \<Rightarrow> valid_port (op_target_port p) \<and>
        (\<not> own_id role sid \<or> pt = OpenCheck \<or> (\<exists>why retry. pt = OpenRefusing why retry)))"

definition conducts :: "session_role \<Rightarrow> dial_config \<Rightarrow> session \<Rightarrow> bool" where
  "conducts role cfg s \<longleftrightarrow>
     se_role s = role \<and> se_dial s = cfg \<and> (se_expect_odd s \<longleftrightarrow> role = Client) \<and>
     id_gen_ok (se_ids s) \<and> own_id role (ig_start (se_ids s)) \<and>
     frames_right role (se_taken s) \<and> frames_right role (se_outbound s) \<and>
     frames_right role (map rc_frame (se_calls s)) \<and>
     list_all (\<lambda>(sid, p, a). own_id role sid) (se_local_opens s) \<and>
     list_all (open_right role) (se_opens s) \<and>
     list_all (permitted cfg) (se_dialled s)"

lemma frames_right_simps [simp]:
  "frames_right role []" "frames_right role (f # fs) \<longleftrightarrow> frame_right role f \<and> frames_right role fs"
  "frames_right role (fs @ gs) \<longleftrightarrow> frames_right role fs \<and> frames_right role gs"
  by (auto simp: frames_right_def)

lemma frames_right_nth: "frames_right role fs \<Longrightarrow> i < length fs \<Longrightarrow> frame_right role (fs ! i)"
  by (simp add: frames_right_def)

lemma list_all_remove_nth: "list_all P xs \<Longrightarrow> list_all P (remove_nth i xs)"
  using set_remove_nth by (fastforce simp: list_all_iff)

lemma list_all_update: "list_all P xs \<Longrightarrow> P y \<Longrightarrow> list_all P (xs[i := y])"
  by (auto simp: list_all_iff dest!: set_update_subset_insert [THEN subsetD])

lemma map_frame_update [simp]: "rc_frame c = rc_frame (cs ! j) \<Longrightarrow> map rc_frame (cs[j := c]) = map rc_frame cs"
  by (metis list_update_beyond list_update_id map_update not_le)

lemma conducts_fields [simp]:
  "conducts role cfg (s\<lparr>se_heap := heap\<rparr>) = conducts role cfg s" "conducts role cfg (s\<lparr>se_streams := m\<rparr>) = conducts role cfg s"
  "conducts role cfg (s\<lparr>se_in_flight := fl\<rparr>) = conducts role cfg s" "conducts role cfg (s\<lparr>se_cancelled := b\<rparr>) = conducts role cfg s"
  "conducts role cfg (s\<lparr>se_heartbeat := h\<rparr>) = conducts role cfg s" "conducts role cfg (s\<lparr>se_last_activity := t\<rparr>) = conducts role cfg s"
  "conducts role cfg (s\<lparr>se_awaiting_pong := b\<rparr>) = conducts role cfg s" "conducts role cfg (s\<lparr>se_pong_deadline := t\<rparr>) = conducts role cfg s"
  "conducts role cfg (s\<lparr>se_cleanup := b\<rparr>) = conducts role cfg s" "conducts role cfg (s\<lparr>se_handlers := hs\<rparr>) = conducts role cfg s"
  "conducts role cfg (s\<lparr>se_writer := b\<rparr>) = conducts role cfg s" "conducts role cfg (s\<lparr>se_wire := w\<rparr>) = conducts role cfg s"
  "conducts role cfg (s\<lparr>se_running := rs\<rparr>) = conducts role cfg s" "conducts role cfg (s\<lparr>se_permits := k\<rparr>) = conducts role cfg s"
  "conducts role cfg (s\<lparr>se_next_cmd := n\<rparr>) = conducts role cfg s" "conducts role cfg (s\<lparr>se_reader := r\<rparr>) = conducts role cfg s"
  by (simp_all add: conducts_def)

lemma conducts_edits [simp]:
  "conducts role cfg (drop_stream sid a s) = conducts role cfg s" "conducts role cfg (on_stream a f s) = conducts role cfg s"
  "conducts role cfg (insert_stream sid s) = conducts role cfg s" "conducts role cfg (reader_returns s) = conducts role cfg s"
  "conducts role cfg (stream_cleanup s) = conducts role cfg s" "conducts role cfg (cancel s) = conducts role cfg s"
  "conducts role cfg (ack_pong s) = conducts role cfg s" "conducts role cfg (run_starts ping pong s) = conducts role cfg s"
  "conducts role cfg (register_command_handler name s) = conducts role cfg s" "conducts role cfg (idle_check wall s) = conducts role cfg s"
  "conducts role cfg (handle_open_ack sid s) = conducts role cfg s" "conducts role cfg (handle_nack sid s) = conducts role cfg s"
  by (simp_all add: conducts_def on_stream_def insert_stream_def drop_stream_def reader_returns_def stream_cleanup_def
      cancel_def ack_pong_def run_starts_def register_command_handler_def idle_check_def handle_open_ack_def
      handle_nack_def split: option.split)

lemma frame_right_plain [simp]:
  "frame_right role (new_nack sid why retry)" "frame_right role (new_rst sid why)" "frame_right role new_pong"
  "frame_right role new_ping" "frame_right role (new_cmd cid name params)" "frame_right role (new_cmd_response cid r)"
  "frame_right role (new_cmd_error_response cid msg)" "frame_right role (read_frame rd st)"
  by (simp_all add: frame_right_def new_nack_def new_rst_def new_pong_def new_ping_def new_cmd_def new_cmd_response_def
      new_cmd_error_response_def read_frame_def new_fin_def new_data_def frame_of_def split: read_result.split)

lemma handler_response_right [simp]: "frame_right role (handler_response p found out)"
  by (simp add: handler_response_def split: handler_outcome.split)

lemma conducts_write:
  "write_frame f s = Some (sent, s') \<Longrightarrow> conducts role cfg s \<Longrightarrow> frame_right role f \<Longrightarrow> conducts role cfg s'"
  "write_ignored f s = Some s' \<Longrightarrow> conducts role cfg s \<Longrightarrow> frame_right role f \<Longrightarrow> conducts role cfg s'"
  by (auto simp: conducts_def dest!: write_frame_cases write_ignored_cases)

lemma conducts_calls [simp]:
  "conducts role cfg (call_rpc name params s) = conducts role cfg s" "conducts role cfg (call_ends j out s) = conducts role cfg s"
  "conducts role cfg (forget_call j s) = conducts role cfg s" "conducts role cfg (handle_cmd_response r s) = conducts role cfg s"
  "conducts role cfg (s\<lparr>se_calls := (se_calls s)[j := (se_calls s ! j)\<lparr>rc_point := pt\<rparr>]\<rparr>) = conducts role cfg s"
  by (auto simp: conducts_def call_rpc_def call_ends_def forget_call_def handle_cmd_response_def Let_def
      split: option.splits)

lemma conducts_writer:
  "writer_takes X ok s = Some s' \<Longrightarrow> conducts role cfg s \<Longrightarrow> conducts role cfg s'" "writer_stops s = Some s' \<Longrightarrow> conducts role cfg s \<Longrightarrow> conducts role cfg s'"
  by (auto simp: writer_takes_def writer_stops_def conducts_def Let_def split: if_splits list.splits)

lemma conducts_open_remote:
  assumes "open_remote_stream p s = Some s'" "conducts role cfg s"
  shows "conducts role cfg s'"
proof -
  from assms(1) obtain sid g where sid: "next_id (Suc (length (se_streams s))) (se_ids s) (map fst (se_streams s)) = Some (sid, g)"
    and s': "s' = (insert_stream sid s)\<lparr>se_ids := g, se_local_opens := se_local_opens s @ [(sid, p, length (se_heap s))]\<rparr>"
    by (auto simp: open_remote_stream_def split: option.splits)
  from next_id_some [OF sid] assms(2) show ?thesis
    by (auto simp: s' conducts_def insert_stream_def own_id_def)
qed

lemma conducts_open_sends: "open_sends i s = Some s' \<Longrightarrow> conducts role cfg s \<Longrightarrow> conducts role cfg s'"
proof -
  assume sends: "open_sends i s = Some s'" and good: "conducts role cfg s"
  then obtain sid p a sent t where task: "i < length (se_local_opens s)" "se_local_opens s ! i = (sid, p, a)"
    and w: "write_frame (frame_of sid (Open (Some p))) s = Some (sent, t)"
    and s': "s' = (let u = t\<lparr>se_local_opens := remove_nth i (se_local_opens t)\<rparr> in if sent then u else drop_stream sid a u)"
    by (auto simp: open_sends_def split: if_splits prod.splits)
  have "frame_right role (frame_of sid (Open (Some p)))"
    using good task by (auto simp: conducts_def frame_right_def frame_of_def list_all_length)
  from conducts_write(1) [OF w good this] have "conducts role cfg t" .
  moreover from this have "conducts role cfg (t\<lparr>se_local_opens := remove_nth i (se_local_opens t)\<rparr>)"
    by (simp add: conducts_def list_all_remove_nth)
  ultimately show ?thesis by (simp add: s' Let_def)
qed

text \<open>A dial goes only where the configuration permits.\<close>

lemma port_cast:
  assumes "valid_port port"
  shows "uint (ucast port :: 16 word) = sint port"
proof -
  have range: "0 < sint port" "sint port \<le> 65535" using assms by (auto simp: valid_port_def)
  then have "uint port = sint port"
    by (simp add: uint_sint take_bit_int_eq_self)
  then show ?thesis using range by (simp add: unsigned_ucast_eq take_bit_int_eq_self)
qed

lemma dial_permitted:
  assumes "dial_target_of cfg p = Inr t" "valid_port (op_target_port p)"
  shows "permitted cfg t"
proof (cases cfg)
  case (PortMapping ports)
  with assms show ?thesis
    by (auto simp: dial_target_of_def dial_via_port_mapping_def permitted_def split: option.splits dest!: map_of_SomeD)
next
  case (TargetAllowlist allowlist)
  with assms port_cast [OF assms(2)] show ?thesis
    by (cases allowlist)
      (auto simp: dial_target_of_def dial_with_allowlist_def allows_target_def permitted_def Let_def guard_ok_def
        and_then_def split: if_splits)
qed

lemma conducts_dials:
  assumes "dials c p s = (ok, s')" "conducts role cfg s" "valid_port (op_target_port p)"
  shows "conducts role cfg s' \<and> se_opens s' = se_opens s \<and> se_role s' = se_role s"
  using dials_cases [OF assms(1)] assms(2,3) by (auto simp: conducts_def dial_permitted)

text \<open>Where an accepted task may go next.\<close>

lemma conducts_set_open:
  assumes "conducts role cfg s" "i < length (se_opens s)" "open_right role (fst (se_opens s ! i), fst (snd (se_opens s ! i)), pt)"
  shows "conducts role cfg (set_open i pt s)"
  using assms by (auto simp: conducts_def set_open_def split: prod.splits intro!: list_all_update)

lemma conducts_end_open: "conducts role cfg s \<Longrightarrow> conducts role cfg (end_open i s)"
  by (simp add: conducts_def end_open_def list_all_remove_nth)

lemma expected_not_own:
  assumes "conducts role cfg s"
  shows "expected_id s sid \<longleftrightarrow> \<not> own_id role sid"
proof -
  have "odd (unat sid) \<longleftrightarrow> odd sid"
    unfolding bit_0 [symmetric] by (simp add: bit_unsigned_iff)
  then have "sid mod 2 = 0 \<longleftrightarrow> even (unat sid)" "sid mod 2 = 1 \<longleftrightarrow> odd (unat sid)"
    by (simp_all add: even_iff_mod_2_eq_zero [symmetric] odd_iff_mod_2_eq_one [symmetric])
  then show ?thesis using assms by (auto simp: conducts_def expected_id_def own_id_def)
qed

lemma conducts_open_task:
  assumes "handle_open_stream inp i s = Some s'" "conducts role cfg s"
  shows "conducts role cfg s'"
proof -
  obtain sid p pt where task: "se_opens s ! i = (sid, p, pt)" by (cases "se_opens s ! i")
  from assms(1) have i: "i < length (se_opens s)" by (auto simp: handle_open_stream_def split: if_splits)
  have right: "open_right role (sid, p, pt)" using assms(2) i task by (auto simp: conducts_def list_all_length)
  then have port: "valid_port (op_target_port p)" by (simp add: open_right_def)
  have move: "conducts role cfg (set_open i q t)"
    if "conducts role cfg t" "se_opens t = se_opens s" "se_role t = se_role s" "\<not> own_id role sid \<or> (\<exists>why retry. q = OpenRefusing why retry)"
    for q t
    using that i task port by (intro conducts_set_open) (auto simp: open_right_def)
  have ins: "conducts role cfg (open_inserts i sid t)"
    if "conducts role cfg t" "se_opens t = se_opens s" "se_role t = se_role s" "\<not> own_id role sid" for t
    using that by (auto simp: open_inserts_def insert_stream_def intro!: move)
  show ?thesis
  proof (cases pt)
    case OpenCheck
    then show ?thesis using assms task i expected_not_own [OF assms(2)]
      by (cases inp) (auto simp: handle_open_stream_def open_checks_def intro!: move)
  next
    case OpenDial
    then have peer: "\<not> own_id role sid" using right by (simp add: open_right_def)
    with OpenDial show ?thesis using assms task i
      by (cases inp) (auto simp: handle_open_stream_def port dest!: conducts_dials split: prod.splits if_splits intro!: move ins)
  next
    case OpenRetry
    then have peer: "\<not> own_id role sid" using right by (simp add: open_right_def)
    with OpenRetry show ?thesis using assms task i
      by (cases inp) (auto simp: handle_open_stream_def conducts_end_open split: if_splits intro!: move)
  next
    case OpenRedial
    then have peer: "\<not> own_id role sid" using right by (simp add: open_right_def)
    with OpenRedial show ?thesis using assms task i
      by (cases inp) (auto simp: handle_open_stream_def port dest!: conducts_dials split: prod.splits if_splits intro!: move ins)
  next
    case (OpenRefusing why retry)
    then show ?thesis using assms task i
      by (cases inp) (auto simp: handle_open_stream_def dest!: conducts_write intro!: conducts_end_open)
  next
    case (OpenAcking a)
    then have "frame_right role (new_open_ack sid)"
      using right by (simp add: open_right_def frame_right_def new_open_ack_def frame_of_def)
    with OpenAcking show ?thesis using assms task i
      by (cases inp) (auto simp: handle_open_stream_def open_acks_def dest!: conducts_write split: prod.splits if_splits
          intro!: conducts_end_open)
  qed
qed

lemma conducts_streams:
  "stream_frame ok f s = Some s' \<Longrightarrow> conducts role cfg s \<Longrightarrow> conducts role cfg s'"
  "pump_runs a p s = Some s' \<Longrightarrow> conducts role cfg s \<Longrightarrow> conducts role cfg s'"
  "resets i s = Some s' \<Longrightarrow> conducts role cfg s \<Longrightarrow> conducts role cfg s'"
  "run_finishes s = Some s' \<Longrightarrow> conducts role cfg s \<Longrightarrow> conducts role cfg s'"
proof -
  have reply: "frame_right role r" if "dispatch ok body st = (Some r, st')" for role r body st st'
    using that by (cases body) (auto simp: dispatch_def split: if_splits prod.splits)
  show "stream_frame ok f s = Some s' \<Longrightarrow> conducts role cfg s \<Longrightarrow> conducts role cfg s'"
    by (auto simp: stream_frame_def Let_def reply dest!: conducts_write split: option.splits prod.splits frame_body.splits)
  have sent: "frame_right role x" if "pump_run p st = Some (Some x, k)" for role x st k
    using that by (auto simp: pump_run_def split: pump_step.splits pump.splits if_splits prod.splits)
  show "pump_runs a p s = Some s' \<Longrightarrow> conducts role cfg s \<Longrightarrow> conducts role cfg s'"
    by (auto simp: pump_runs_def sent dest!: conducts_write split: option.splits prod.splits if_splits Option.bind_splits)
  show "resets i s = Some s' \<Longrightarrow> conducts role cfg s \<Longrightarrow> conducts role cfg s'"
    by (auto simp: resets_def dest!: conducts_write split: reader.splits prod.splits if_splits)
  show "run_finishes s = Some s' \<Longrightarrow> conducts role cfg s \<Longrightarrow> conducts role cfg s'"
    by (auto simp: run_finishes_def split: if_splits)
qed

lemma conducts_tasks:
  "call_sends j s = Some s' \<Longrightarrow> conducts role cfg s \<Longrightarrow> conducts role cfg s'" "call_returns j s = Some s' \<Longrightarrow> conducts role cfg s \<Longrightarrow> conducts role cfg s'"
  "call_times_out j s = Some s' \<Longrightarrow> conducts role cfg s \<Longrightarrow> conducts role cfg s'" "accept_cmd c s = Some s' \<Longrightarrow> conducts role cfg s \<Longrightarrow> conducts role cfg s'"
  "handler_starts i s = Some s' \<Longrightarrow> conducts role cfg s \<Longrightarrow> conducts role cfg s'" "handle_cmd i out s = Some s' \<Longrightarrow> conducts role cfg s \<Longrightarrow> conducts role cfg s'"
  "heartbeat_tick now wall s = Some s' \<Longrightarrow> conducts role cfg s \<Longrightarrow> conducts role cfg s'"
  "heartbeat_pings wall s = Some s' \<Longrightarrow> conducts role cfg s \<Longrightarrow> conducts role cfg s'"
proof -
  show "call_sends j s = Some s' \<Longrightarrow> conducts role cfg s \<Longrightarrow> conducts role cfg s'"
  proof -
    assume sends: "call_sends j s = Some s'" and good: "conducts role cfg s"
    then have "j < length (se_calls s)" by (auto simp: call_sends_def split: if_splits)
    then have "frame_right role (rc_frame (se_calls s ! j))"
      using good frames_right_nth [of "se_role s" "map rc_frame (se_calls s)" j] by (simp add: conducts_def)
    with sends good show ?thesis
      by (auto simp: call_sends_def dest!: conducts_write split: if_splits prod.splits)
  qed
qed (auto simp: call_returns_def call_times_out_def accept_cmd_def handler_starts_def handle_cmd_def heartbeat_tick_def
    heartbeat_pings_def dest!: conducts_write split: if_splits call_slot.splits prod.splits option.splits)

lemma validate_port:
  assumes "validate f = Inr ()" "fr_body f = Open (Some p)"
  shows "valid_port (op_target_port p)"
  using assms by (auto simp: validate_def validate_open_def valid_port_def Let_def split: if_splits)

lemma conducts_dispatch:
  assumes "dispatch_frame ok f s = Some s'" "validate f = Inr ()" "conducts role cfg s"
  shows "conducts role cfg s'"
proof -
  have "conducts role cfg (s\<lparr>se_opens := se_opens s @ [(sid, p, OpenCheck)]\<rparr>)" if "fr_body f = Open (Some p)" for sid p
    using assms(3) validate_port [OF assms(2) that] by (simp add: conducts_def open_right_def)
  with assms show ?thesis
    by (auto simp: dispatch_frame_def dest: conducts_write conducts_streams conducts_tasks
        split: option.splits frame_body.splits)
qed

lemma conducts_reader:
  assumes "reader_loop X msg wall ok s = Some s'" "conducts role cfg s"
  shows "conducts role cfg s'"
proof -
  have "conducts role cfg t \<Longrightarrow> receive_bytes X bytes wall ok t = Some s' \<Longrightarrow> conducts role cfg s'" for bytes t
    by (auto simp: receive_bytes_def Let_def dest!: conducts_dispatch split: option.splits sum.splits)
  with assms show ?thesis by (auto simp: reader_loop_def split: if_splits ws_message.splits)
qed

interpretation conduct: state_invariant "session_step X" "conducts role cfg" for X role cfg
proof
  fix act s s'
  assume "session_step X act s = Some s'" "conducts role cfg s"
  then show "conducts role cfg s'"
    by (cases act)
      (auto simp: session_step_def dest: conducts_writer conducts_open_remote conducts_open_sends conducts_open_task
        conducts_streams conducts_tasks conducts_reader split: if_splits)
qed

lemma new_session_conducts: "conducts role cfg (new_session role cfg idle now)"
  by (cases role)
    (simp_all add: conducts_def new_session_def new_id_gen_ok own_id_def, simp_all add: new_id_generator_def)

section \<open>Properties\<close>

definition frames_sent :: "session \<Rightarrow> frame list" where
  "frames_sent s = se_taken s @ se_outbound s"

definition opened_ids :: "session \<Rightarrow> 64 word set" where
  "opened_ids s = {fr_stream_id f | f. f \<in> set (frames_sent s) \<and> (\<exists>p. fr_body f = Open p)}"

definition acked_ids :: "session \<Rightarrow> 64 word set" where
  "acked_ids s = {fr_stream_id f | f. f \<in> set (frames_sent s) \<and> fr_body f = OpenAck}"

lemma conducts_ids:
  assumes "conducts role cfg s"
  shows "sid \<in> opened_ids s \<Longrightarrow> own_id role sid" "sid \<in> acked_ids s \<Longrightarrow> \<not> own_id role sid"
  using assms by (auto simp: conducts_def frames_right_def frame_right_def opened_ids_def acked_ids_def frames_sent_def)

text \<open>C18. The two endpoints of a tunnel open streams without talking to each other, yet their identifiers never
  collide: under any schedules of a client session and a server session, the identifiers of the OPEN frames of
  one are none of those of the other, and no endpoint acknowledges an identifier that it could open itself.\<close>

theorem endpoints_never_collide:
  assumes "run_all (session_step X) acts (new_session Client cfg idle now) = Some c"
    and "run_all (session_step Y) acts' (new_session Server cfg' idle' now') = Some s"
  shows "opened_ids c \<inter> opened_ids s = {} \<and> opened_ids c \<inter> acked_ids c = {} \<and> opened_ids s \<inter> acked_ids s = {}"
proof -
  note c = conduct.run_keeps_state [OF assms(1) new_session_conducts]
    and s = conduct.run_keeps_state [OF assms(2) new_session_conducts]
  have "\<not> (own_id Client sid \<and> own_id Server sid)" for sid by (simp add: own_id_def)
  with conducts_ids [OF c] conducts_ids [OF s] show ?thesis by blast
qed

text \<open>C19. A session dials only what its host has configured, whatever frames the peer sends: a client session the
  addresses of its port mapping, a server session with an allowlist a host and port that the list names, the
  port unchanged by the cast to 16 bits.\<close>

theorem session_dials_only_permitted:
  assumes "run_all (session_step X) acts (new_session role cfg idle now) = Some s" "t \<in> set (se_dialled s)"
  shows "permitted cfg t"
  using conduct.run_keeps_state [OF assms(1) new_session_conducts [of role cfg]] assms(2)
  by (auto simp: conducts_def list_all_iff)

section \<open>Examples\<close>

theorem endpoints_never_collide_witness:
  "opened_ids (sample_opened Client 2) \<inter> opened_ids (sample_opened Server 1) = {} \<and>
   2 \<in> opened_ids (sample_opened Client 2)"
  using endpoints_never_collide [OF sample_open_run(1) sample_open_run(2)]
  by (auto simp: opened_ids_def sample_opened_def frames_sent_def frame_of_def new_session_def)

text \<open>A client session is asked for port 5432 and dials the local port that stands for it.\<close>

definition open_crates :: wire_crates where
  "open_crates =
     \<lparr>wc_print = (\<lambda>_. []), wc_parse = (\<lambda>_. Some (JObj [(''open'', JObj [(''target_host'', JStr ''db''), (''target_port'', JInt 5432)]),
        (''stream_id'', JInt 1), (''type'', JStr ''OPEN'')])), wc_b64 = id, wc_unb64 = Some\<rparr>"

definition sample_dial :: "action list" where
  "sample_dial = [RunStarts 0 0, Receives (WsText []) 7 True, OpenRuns 0 OpenProceeds, OpenRuns 0 (Connects True)]"

lemma open_decoded: "decode open_crates bytes = Some (frame_of 1 (Open (Some sample_target)))"
  by (simp add: decode_def open_crates_def json_wire_def from_object_def required_def optional_def defaulted_def
      json_open_def json_u64_def json_i32_def from_wire_def from_wire_str_def sample_target_def as_str_def)

lemma sample_address: "mapped_address ''15432'' = ''127.0.0.1:15432''"
proof -
  have "show_nat 15432 = ''15432''" by (simp add: show_nat.simps digit_char_eval digit_char_eval(2) [simplified])
  with parse_usize_show [of 15432] show ?thesis by (simp add: mapped_address_def parse_u16_def)
qed

lemma sample_dial_run:
  "\<exists>s. run_all (session_step open_crates) sample_dial (new_session Client (PortMapping [(5432, ''15432'')]) 0 0) = Some s \<and>
     se_dialled s = [MappedAddress ''127.0.0.1:15432'']"
  by (simp add: sample_dial_def new_session_def session_step_def run_starts_def reader_loop_def receive_bytes_def
      open_decoded validate_def frame_of_def sample_target_def validate_open_def dispatch_frame_def
      handle_open_stream_def open_checks_def expected_id_def set_open_def dials_def dial_target_of_def
      dial_via_port_mapping_def sample_address open_inserts_def insert_stream_def)

theorem session_dials_only_permitted_witness:
  "permitted (PortMapping [(5432, ''15432'')]) (MappedAddress ''127.0.0.1:15432'')"
  using sample_dial_run session_dials_only_permitted by fastforce

end
