(* ===== verification/TunnelTeardown.thy ===== *)
theory TunnelTeardown
  imports TunnelSafety
begin

text \<open>
  The end of a session: what \<open>rst_all_streams\<close> closes, and the stream it misses.
\<close>

section \<open>Streams in reach\<close>

text \<open>While the reader runs and the writer is alive, a stream that is not closed is in the map.\<close>

definition in_reach :: "session \<Rightarrow> bool" where
  "in_reach s \<longleftrightarrow>
     (se_writer s \<and> (se_reader s = ReaderIdle \<or> se_reader s = ReaderRunning) \<longrightarrow>
       (\<forall>a<length (se_heap s). st_closed (se_heap s ! a) \<or> a \<in> snd ` set (se_streams s)))"

text \<open>After the reader has returned, the first \<open>n\<close> streams are closed or in the snapshot still to be reset.\<close>

definition tearing_down :: "nat \<Rightarrow> session \<Rightarrow> bool" where
  "tearing_down n s \<longleftrightarrow>
     n \<le> length (se_heap s) \<and> se_reader s \<noteq> ReaderIdle \<and> se_reader s \<noteq> ReaderRunning \<and>
     (\<forall>a<n. st_closed (se_heap s ! a) \<or> (\<exists>left. se_reader s = ReaderResetting left \<and> a \<in> snd ` set left))"

lemma in_reach_fields [simp]:
  "in_reach (s\<lparr>se_ids := g\<rparr>) = in_reach s" "in_reach (s\<lparr>se_dialled := ds\<rparr>) = in_reach s"
  "in_reach (s\<lparr>se_calls := cs\<rparr>) = in_reach s" "in_reach (s\<lparr>se_in_flight := fl\<rparr>) = in_reach s"
  "in_reach (s\<lparr>se_cancelled := b\<rparr>) = in_reach s" "in_reach (s\<lparr>se_heartbeat := h\<rparr>) = in_reach s"
  "in_reach (s\<lparr>se_last_activity := t\<rparr>) = in_reach s" "in_reach (s\<lparr>se_awaiting_pong := b\<rparr>) = in_reach s"
  "in_reach (s\<lparr>se_pong_deadline := t\<rparr>) = in_reach s" "in_reach (s\<lparr>se_cleanup := b\<rparr>) = in_reach s"
  "in_reach (s\<lparr>se_handlers := hs\<rparr>) = in_reach s" "in_reach (s\<lparr>se_outbound := q\<rparr>) = in_reach s"
  "in_reach (s\<lparr>se_taken := tk\<rparr>) = in_reach s" "in_reach (s\<lparr>se_wire := w\<rparr>) = in_reach s"
  "in_reach (s\<lparr>se_running := rs\<rparr>) = in_reach s" "in_reach (s\<lparr>se_permits := k\<rparr>) = in_reach s"
  "in_reach (s\<lparr>se_next_cmd := c\<rparr>) = in_reach s" "in_reach (s\<lparr>se_opens := ts\<rparr>) = in_reach s"
  "in_reach (s\<lparr>se_local_opens := ls\<rparr>) = in_reach s"
  by (simp_all add: in_reach_def)

lemma tearing_down_fields [simp]:
  "tearing_down n (s\<lparr>se_ids := g\<rparr>) = tearing_down n s" "tearing_down n (s\<lparr>se_dialled := ds\<rparr>) = tearing_down n s"
  "tearing_down n (s\<lparr>se_calls := cs\<rparr>) = tearing_down n s" "tearing_down n (s\<lparr>se_in_flight := fl\<rparr>) = tearing_down n s"
  "tearing_down n (s\<lparr>se_cancelled := b\<rparr>) = tearing_down n s" "tearing_down n (s\<lparr>se_heartbeat := h\<rparr>) = tearing_down n s"
  "tearing_down n (s\<lparr>se_last_activity := t\<rparr>) = tearing_down n s" "tearing_down n (s\<lparr>se_awaiting_pong := b\<rparr>) = tearing_down n s"
  "tearing_down n (s\<lparr>se_pong_deadline := t\<rparr>) = tearing_down n s" "tearing_down n (s\<lparr>se_cleanup := b\<rparr>) = tearing_down n s"
  "tearing_down n (s\<lparr>se_handlers := hs\<rparr>) = tearing_down n s" "tearing_down n (s\<lparr>se_outbound := q\<rparr>) = tearing_down n s"
  "tearing_down n (s\<lparr>se_taken := tk\<rparr>) = tearing_down n s" "tearing_down n (s\<lparr>se_wire := w\<rparr>) = tearing_down n s"
  "tearing_down n (s\<lparr>se_running := rs\<rparr>) = tearing_down n s" "tearing_down n (s\<lparr>se_permits := k\<rparr>) = tearing_down n s"
  "tearing_down n (s\<lparr>se_next_cmd := c\<rparr>) = tearing_down n s" "tearing_down n (s\<lparr>se_opens := ts\<rparr>) = tearing_down n s"
  "tearing_down n (s\<lparr>se_local_opens := ls\<rparr>) = tearing_down n s" "tearing_down n (s\<lparr>se_writer := b\<rparr>) = tearing_down n s"
  "tearing_down n (s\<lparr>se_streams := m\<rparr>) = tearing_down n s"
  by (simp_all add: tearing_down_def)

lemma in_reach_edits [simp]:
  "in_reach (set_open i pt s) = in_reach s" "in_reach (end_open i s) = in_reach s"
  "in_reach (call_rpc name params s) = in_reach s" "in_reach (call_ends j out s) = in_reach s"
  "in_reach (forget_call j s) = in_reach s" "in_reach (handle_cmd_response r s) = in_reach s"
  "in_reach (cancel s) = in_reach s" "in_reach (ack_pong s) = in_reach s"
  "in_reach (register_command_handler name s) = in_reach s" "in_reach (idle_check wall s) = in_reach s"
  by (simp_all add: in_reach_def set_open_def end_open_def call_rpc_def call_ends_def forget_call_def
      handle_cmd_response_def cancel_def ack_pong_def register_command_handler_def idle_check_def Let_def
      split: option.split)

lemma tearing_down_edits [simp]:
  "tearing_down n (set_open i pt s) = tearing_down n s" "tearing_down n (end_open i s) = tearing_down n s"
  "tearing_down n (call_rpc name params s) = tearing_down n s" "tearing_down n (call_ends j out s) = tearing_down n s"
  "tearing_down n (forget_call j s) = tearing_down n s" "tearing_down n (handle_cmd_response r s) = tearing_down n s"
  "tearing_down n (cancel s) = tearing_down n s" "tearing_down n (ack_pong s) = tearing_down n s"
  "tearing_down n (register_command_handler name s) = tearing_down n s" "tearing_down n (idle_check wall s) = tearing_down n s"
  by (simp_all add: tearing_down_def set_open_def end_open_def call_rpc_def call_ends_def forget_call_def
      handle_cmd_response_def cancel_def ack_pong_def register_command_handler_def idle_check_def Let_def
      split: option.split)

lemma in_reach_no_writer [simp]: "in_reach (s\<lparr>se_writer := False\<rparr>)"
  by (simp add: in_reach_def)

text \<open>A closed stream stays closed.\<close>

lemma closed_kept:
  "st_closed (close st)" "st_closed st \<Longrightarrow> st_closed (set_pending v st)" "st_closed st \<Longrightarrow> st_closed (start_pump st)"
  "st_closed st \<Longrightarrow> st_closed (snd (dispatch ok body st))"
  "pump_run p st = Some (f, k) \<Longrightarrow> st_closed st \<Longrightarrow> st_closed (k sent)"
proof -
  show "st_closed (close st)" "st_closed st \<Longrightarrow> st_closed (set_pending v st)" "st_closed st \<Longrightarrow> st_closed (start_pump st)"
    by (simp_all add: stream_ops)
  show "st_closed (snd (dispatch ok body st))" if "st_closed st"
    using that by (cases body) (simp_all add: dispatch_def stream_ops)
  show "st_closed (k sent)" if "pump_run p st = Some (f, k)" "st_closed st"
    using that by (cases p; cases "st_pump st")
      (auto simp: pump_run_def stream_ops split: if_splits read_result.splits)
qed

definition keeps_closed :: "(stream \<Rightarrow> stream) \<Rightarrow> stream \<Rightarrow> bool" where
  "keeps_closed f st \<longleftrightarrow> (st_closed st \<longrightarrow> st_closed (f st))"

lemma keeps_closed_ops [simp]:
  "keeps_closed close st" "keeps_closed (start_pump \<circ> set_pending v) st"
  by (simp_all add: keeps_closed_def closed_kept)

lemma closed_on_stream:
  assumes "keeps_closed f (se_heap s ! a)" "st_closed (se_heap s ! b)"
  shows "st_closed (se_heap (on_stream a f s) ! b)"
  using assms by (cases "a < length (se_heap s)")
    (auto simp: on_stream_def keeps_closed_def nth_list_update list_update_beyond)

lemma on_stream_fields [simp]:
  "se_streams (on_stream a f s) = se_streams s" "se_reader (on_stream a f s) = se_reader s"
  "se_writer (on_stream a f s) = se_writer s" "length (se_heap (on_stream a f s)) = length (se_heap s)"
  by (simp_all add: on_stream_def)

lemma kept_on_stream:
  assumes "keeps_closed f (se_heap s ! a)"
  shows "in_reach s \<Longrightarrow> in_reach (on_stream a f s)" "tearing_down n s \<Longrightarrow> tearing_down n (on_stream a f s)"
  using closed_on_stream [OF assms] by (fastforce simp: in_reach_def tearing_down_def)+

lemma kept_insert:
  "in_reach s \<Longrightarrow> in_reach (insert_stream sid s)" "tearing_down n s \<Longrightarrow> tearing_down n (insert_stream sid s)"
  by (auto simp: in_reach_def tearing_down_def insert_stream_def nth_append less_Suc_eq)

lemma kept_closed_stream:
  "in_reach s \<Longrightarrow> in_reach (s\<lparr>se_heap := se_heap s @ [close st]\<rparr>)"
  "tearing_down n s \<Longrightarrow> tearing_down n (s\<lparr>se_heap := se_heap s @ [close st]\<rparr>)"
  by (auto simp: in_reach_def tearing_down_def nth_append less_Suc_eq closed_kept)

text \<open>Dropping a stream is harmless when it is the one in the map, or when the writer is gone.\<close>

lemma reach_drop:
  assumes "in_reach s" "\<not> se_writer s \<or> (distinct (map fst (se_streams s)) \<and> map_of (se_streams s) sid = Some a \<and> a < length (se_heap s))"
  shows "in_reach (drop_stream sid a s)"
proof (cases "se_writer s")
  case True
  with assms(2) have a: "distinct (map fst (se_streams s))" "map_of (se_streams s) sid = Some a" "a < length (se_heap s)" by auto
  show ?thesis unfolding in_reach_def
  proof (intro impI allI)
    fix b assume run: "se_writer (drop_stream sid a s) \<and> (se_reader (drop_stream sid a s) = ReaderIdle \<or> se_reader (drop_stream sid a s) = ReaderRunning)"
      and b: "b < length (se_heap (drop_stream sid a s))"
    from run b assms(1) have "st_closed (se_heap s ! b) \<or> b \<in> snd ` set (se_streams s)"
      by (simp add: in_reach_def drop_stream_def)
    then consider "st_closed (se_heap s ! b)" | k where "(k, b) \<in> set (se_streams s)" by force
    then show "st_closed (se_heap (drop_stream sid a s) ! b) \<or> b \<in> snd ` set (se_streams (drop_stream sid a s))"
    proof cases
      case 1
      then show ?thesis by (simp add: drop_stream_def closed_on_stream)
    next
      case 2
      show ?thesis
      proof (cases "k = sid")
        case True
        with a(1,2) 2 have "b = a" by (metis map_of_is_SomeI option.inject)
        then show ?thesis using a(3) by (simp add: drop_stream_def on_stream_def closed_kept)
      next
        case False
        with 2 show ?thesis by (force simp: drop_stream_def set_remove_key)
      qed
    qed
  qed
qed (simp add: in_reach_def drop_stream_def)

lemma tearing_drop: "tearing_down n s \<Longrightarrow> tearing_down n (drop_stream sid a s)"
  by (simp add: drop_stream_def kept_on_stream)

section \<open>Steps\<close>

text \<open>Both invariants are preserved by the same primitives; \<open>upheld\<close> bundles them, given that the map is sound.\<close>

definition upheld :: "nat \<Rightarrow> session \<Rightarrow> session \<Rightarrow> bool" where
  "upheld n s s' \<longleftrightarrow> (in_reach s \<longrightarrow> in_reach s') \<and> (tearing_down n s \<longrightarrow> tearing_down n s')"

lemma upheld_trans: "upheld n s t \<Longrightarrow> upheld n t u \<Longrightarrow> upheld n s u"
  by (simp add: upheld_def)

lemma upheld_same: "in_reach s' = in_reach s \<Longrightarrow> tearing_down n s' = tearing_down n s \<Longrightarrow> upheld n s s'"
  by (simp add: upheld_def)

lemma upheld_write:
  "write_frame f s = Some (sent, s') \<Longrightarrow> upheld n s s' \<and> se_writer s' = sent \<and> se_heap s' = se_heap s"
  "write_ignored f s = Some s' \<Longrightarrow> upheld n s s' \<and> se_heap s' = se_heap s"
  by (auto simp: upheld_def dest!: write_frame_cases write_ignored_cases)

lemma upheld_on_stream: "keeps_closed f (se_heap s ! a) \<Longrightarrow> upheld n s (on_stream a f s)"
  by (simp add: upheld_def kept_on_stream)

lemma upheld_drop:
  "\<not> se_writer s \<or> (distinct (map fst (se_streams s)) \<and> map_of (se_streams s) sid = Some a \<and> a < length (se_heap s)) \<Longrightarrow>
   upheld n s (drop_stream sid a s)"
  by (simp add: upheld_def reach_drop tearing_drop)

lemma upheld_inserts: "upheld n s (open_inserts i sid s)"
  by (simp add: upheld_def open_inserts_def kept_insert kept_closed_stream)

lemma upheld_dials: "dials c p s = (ok, s') \<Longrightarrow> upheld n s s'"
  by (auto simp: upheld_def dest!: dials_cases)

lemma upheld_writer:
  "writer_takes X ok s = Some s' \<Longrightarrow> upheld n s s'" "writer_stops s = Some s' \<Longrightarrow> upheld n s s'"
  by (auto simp: writer_takes_def writer_stops_def upheld_def Let_def split: if_splits list.splits)

lemma upheld_open_remote: "open_remote_stream p s = Some s' \<Longrightarrow> upheld n s s'"
  by (auto simp: open_remote_stream_def upheld_def kept_insert split: option.splits)

lemma upheld_open_sends: "open_sends i s = Some s' \<Longrightarrow> upheld n s s'"
proof -
  assume "open_sends i s = Some s'"
  then obtain sid p a sent t where w: "write_frame (frame_of sid (Open (Some p))) s = Some (sent, t)"
    and s': "s' = (let u = t\<lparr>se_local_opens := remove_nth i (se_local_opens t)\<rparr> in if sent then u else drop_stream sid a u)"
    by (auto simp: open_sends_def split: if_splits prod.splits)
  note t = upheld_write(1) [OF w, of n]
  let ?u = "t\<lparr>se_local_opens := remove_nth i (se_local_opens t)\<rparr>"
  have u: "upheld n s ?u" using t by (simp add: upheld_def)
  have "upheld n ?u (drop_stream sid a ?u)" if "\<not> sent" using that t by (intro upheld_drop) simp
  with u t show ?thesis by (auto simp: s' Let_def intro: upheld_trans)
qed

lemma upheld_acks: "open_acks i sid a s = Some s' \<Longrightarrow> upheld n s s'"
proof -
  assume "open_acks i sid a s = Some s'"
  then obtain sent t where w: "write_frame (new_open_ack sid) s = Some (sent, t)"
    and s': "s' = (if sent then end_open i (on_stream a (start_pump \<circ> set_pending False) t) else end_open i (drop_stream sid a t))"
    by (auto simp: open_acks_def)
  note t = upheld_write(1) [OF w, of n]
  have "upheld n t (drop_stream sid a t)" if "\<not> sent" using that t by (intro upheld_drop) simp
  moreover have "upheld n t (on_stream a (start_pump \<circ> set_pending False) t)" by (rule upheld_on_stream) simp
  ultimately show ?thesis using t by (auto simp: s' upheld_def)
qed

lemma upheld_open_task: "handle_open_stream inp i s = Some s' \<Longrightarrow> upheld n s s'"
proof -
  assume step: "handle_open_stream inp i s = Some s'"
  obtain sid p pt where task: "se_opens s ! i = (sid, p, pt)" by (cases "se_opens s ! i")
  have ins: "upheld n s (open_inserts i sid t)" "upheld n s (set_open i q t)" if "dials c p s = (ok, t)" for c ok t q
    using upheld_dials [OF that, of n] upheld_inserts [of n t i sid] by (auto simp: upheld_def)
  show ?thesis using step task
    by (cases pt; cases inp)
      (auto simp: handle_open_stream_def open_checks_def ins upheld_acks upheld_same upheld_def
        dest!: upheld_write [where n = n] split: if_splits prod.splits dest: ins [unfolded upheld_def] upheld_acks [unfolded upheld_def])
qed

lemma upheld_streams:
  "stream_frame ok f s = Some s' \<Longrightarrow> upheld n s s'" "pump_runs a p s = Some s' \<Longrightarrow> upheld n s s'"
  "run_finishes s = Some s' \<Longrightarrow> upheld n s s'" "upheld n s (stream_cleanup s)"
proof -
  have keep: "upheld n t (on_stream b (\<lambda>_. st) t)" if "st_closed (se_heap t ! b) \<longrightarrow> st_closed st" for t b st
    using that by (intro upheld_on_stream) (simp add: keeps_closed_def)
  show "stream_frame ok f s = Some s' \<Longrightarrow> upheld n s s'"
    using closed_kept(4)
    by (auto simp: stream_frame_def Let_def upheld_same intro!: keep upheld_trans [OF _ keep]
        dest!: upheld_write [where n = n] split: option.splits prod.splits frame_body.splits) (metis snd_conv)+
  show "pump_runs a p s = Some s' \<Longrightarrow> upheld n s s'"
    by (auto simp: pump_runs_def intro!: keep upheld_trans [OF _ keep] dest!: upheld_write [where n = n] dest: closed_kept(5)
        split: option.splits prod.splits if_splits Option.bind_splits)
  show "run_finishes s = Some s' \<Longrightarrow> upheld n s s'"
    by (auto simp: run_finishes_def upheld_def in_reach_def tearing_down_def cancel_def split: if_splits)
  show "upheld n s (stream_cleanup s)"
    by (force simp: upheld_def in_reach_def tearing_down_def stream_cleanup_def)
qed

lemma upheld_tasks:
  "call_sends j s = Some s' \<Longrightarrow> upheld n s s'" "call_returns j s = Some s' \<Longrightarrow> upheld n s s'"
  "call_times_out j s = Some s' \<Longrightarrow> upheld n s s'" "accept_cmd c s = Some s' \<Longrightarrow> upheld n s s'"
  "handler_starts i s = Some s' \<Longrightarrow> upheld n s s'" "handle_cmd i out s = Some s' \<Longrightarrow> upheld n s s'"
  "heartbeat_tick now wall s = Some s' \<Longrightarrow> upheld n s s'" "heartbeat_pings wall s = Some s' \<Longrightarrow> upheld n s s'"
  by (auto simp: call_sends_def call_returns_def call_times_out_def accept_cmd_def handler_starts_def handle_cmd_def
      heartbeat_tick_def heartbeat_pings_def upheld_def dest!: write_frame_cases write_ignored_cases
      split: if_splits call_slot.splits prod.splits option.splits)

lemma upheld_dispatch:
  assumes "dispatch_frame ok f s = Some s'" "linked s"
  shows "upheld n s s'"
proof -
  have "upheld n s (handle_open_ack sid s)" for sid
    by (auto simp: handle_open_ack_def upheld_same upheld_on_stream split: option.split)
  moreover have "upheld n s (handle_nack sid s)" for sid
    using assms(2)
    by (auto simp: handle_nack_def upheld_same linked_def held_refs_def entry_ok_def intro!: upheld_drop
        split: option.split dest!: map_of_SomeD bspec)
  ultimately show ?thesis using assms(1)
    by (auto simp: dispatch_frame_def upheld_same dest: upheld_write upheld_streams(1) upheld_tasks
        split: option.splits frame_body.splits)
qed

lemma reader_returns_reach: "in_reach (reader_returns s)"
  by (simp add: in_reach_def reader_returns_def)

lemma upheld_reader:
  assumes "reader_loop X msg wall ok s = Some s'" "linked s"
  shows "upheld n s s'"
proof -
  have bytes: "upheld n s s'" if "receive_bytes X bytes wall ok s = Some s'" for bytes
  proof -
    let ?t = "s\<lparr>se_last_activity := wall\<rparr>"
    have "upheld n s s'" if "dispatch_frame ok f ?t = Some s'" for f
      using upheld_dispatch [OF that] assms(2) by (simp add: upheld_def)
    then show ?thesis using that
      by (auto simp: receive_bytes_def Let_def upheld_same split: option.splits sum.splits)
  qed
  have running: "\<not> tearing_down n s" using assms(1) by (auto simp: reader_loop_def tearing_down_def split: if_splits)
  show ?thesis using assms(1) bytes running reader_returns_reach
    by (auto simp: reader_loop_def upheld_def split: if_splits ws_message.splits)
qed

lemma upheld_resets: "resets i s = Some s' \<Longrightarrow> upheld n s s'"
proof -
  assume "resets i s = Some s'"
  then obtain left sid a t where left: "se_reader s = ReaderResetting left" "i < length left" "left ! i = (sid, a)"
    and w: "write_ignored (new_rst sid ''session closed'') s = Some t"
    and s': "s' = on_stream a close (t\<lparr>se_reader := ReaderResetting (remove_nth i left)\<rparr>)"
    by (auto simp: resets_def split: reader.splits if_splits prod.splits)
  have heap: "se_heap t = se_heap s" using write_keeps(2) [OF w] by simp
  have "in_reach s'" by (simp add: s' in_reach_def)
  moreover have "tearing_down n s'" if down: "tearing_down n s"
    unfolding tearing_down_def
  proof (intro conjI allI impI)
    fix b assume b: "b < n"
    then have len: "b < length (se_heap s)" using down by (simp add: tearing_down_def)
    from down b left(1) consider "st_closed (se_heap s ! b)" | k where "(k, b) \<in> set left"
      by (force simp: tearing_down_def)
    then show "st_closed (se_heap s' ! b) \<or> (\<exists>left. se_reader s' = ReaderResetting left \<and> b \<in> snd ` set left)"
    proof cases
      case 1
      then show ?thesis by (simp add: s' closed_on_stream heap)
    next
      case 2
      show ?thesis
      proof (cases "b = a")
        case True
        then show ?thesis using len by (simp add: s' on_stream_def heap closed_kept)
      next
        case False
        with 2 left in_remove_nth [OF 2 left(2)] show ?thesis by (force simp: s')
      qed
    qed
  qed (use down heap in \<open>auto simp: s' tearing_down_def\<close>)
  ultimately show ?thesis by (simp add: upheld_def)
qed

lemma upheld_step:
  assumes "session_step X act s = Some s'" "linked s"
  shows "upheld n s s'"
proof -
  have "upheld n s (reader_returns s)" if "se_reader s = ReaderRunning"
    using that reader_returns_reach by (auto simp: upheld_def tearing_down_def)
  moreover have "upheld n s (run_starts ping pong s)" for ping pong
    by (auto simp: upheld_def run_starts_def in_reach_def tearing_down_def)
  ultimately show ?thesis using assms
    by (cases act)
      (auto simp: session_step_def upheld_same dest: upheld_writer upheld_open_remote upheld_open_sends upheld_open_task
        upheld_streams(2,3) upheld_tasks upheld_reader upheld_resets intro: upheld_streams(4) split: if_splits)
qed

interpretation reach: state_invariant "session_step X" "\<lambda>s. linked s \<and> in_reach s" for X
  by unfold_locales (use streams.keeps upheld_step in \<open>auto simp: upheld_def\<close>)

interpretation teardown: state_invariant "session_step X" "\<lambda>s. linked s \<and> tearing_down n s" for X n
  by unfold_locales (use streams.keeps upheld_step in \<open>auto simp: upheld_def\<close>)

section \<open>Properties\<close>

lemma new_session_reach: "in_reach (new_session role cfg idle now)"
  by (simp add: in_reach_def new_session_def)


text \<open>A stream opened here, the reader stopped by a close frame, and the reset.\<close>

definition sample_before :: session where
  "sample_before =
     (sample_opened Client 2)\<lparr>se_reader := ReaderRunning, se_heartbeat := HeartbeatWaiting, se_cleanup := True\<rparr>"

definition sample_after :: session where
  "sample_after = sample_before
     \<lparr>se_heap := [close (stream_new 2)], se_streams := [], se_reader := ReaderFinished, se_cancelled := True,
      se_outbound := [frame_of 2 (Open (Some sample_target)), new_rst 2 ''session closed'']\<rparr>"

lemma sample_teardown_run:
  "run_all (session_step X) (sample_open @ [RunStarts 0 0]) (new_session Client (PortMapping []) 0 0) = Some sample_before"
  "run_all (session_step X) [Resets 0, RunEnds] (reader_returns sample_before) = Some sample_after"
  by (simp_all add: sample_open_def sample_before_def sample_after_def sample_opened_def new_session_def session_step_def
      open_remote_stream_def open_sends_def new_id_generator_def overflow_threshold_def insert_stream_def
      write_frame_def write_ignored_def outbound_channel_capacity_def remove_nth_def run_starts_def reader_returns_def
      resets_def run_finishes_def cancel_def on_stream_def)


text \<open>The reset does not see a stream whose dial is still under way: the dial completes afterwards, the stream enters
  the map of a session that has ended, its pump starts, and no task is left to close it. Cancellation is checked
  only while the retry sleeps.\<close>

lemma late_dial_outlives_session:
  "\<exists>s. run_all (session_step open_crates)
     [RunStarts 0 0, Receives (WsText []) 7 True, OpenRuns 0 OpenProceeds, Cancels, ReaderCancelled, RunEnds,
      OpenRuns 0 (Connects True), OpenRuns 0 OpenProceeds, WriterStops, HeartbeatStops, CleanupStops]
     (new_session Client (PortMapping [(5432, ''15432'')]) 0 0) = Some s \<and>
     se_reader s = ReaderFinished \<and> se_opens s = [] \<and> se_streams s = [(1, 0)] \<and>
     \<not> st_closed (se_heap s ! 0) \<and> st_pump (se_heap s ! 0) = Reading"
  by (simp add: new_session_def session_step_def run_starts_def reader_loop_def receive_bytes_def
      open_decoded validate_def frame_of_def sample_target_def validate_open_def dispatch_frame_def
      handle_open_stream_def open_checks_def expected_id_def set_open_def dials_def dial_target_of_def
      dial_via_port_mapping_def sample_address open_inserts_def insert_stream_def cancel_def reader_returns_def
      run_finishes_def open_acks_def write_frame_def outbound_channel_capacity_def end_open_def on_stream_def remove_nth_def
      writer_stops_def stream_new_def set_pending_def start_pump_def)

end
