(* ===== verification/TunnelCalls.thy ===== *)
theory TunnelCalls
  imports TunnelTeardown "HOL-Library.Multiset"
begin

text \<open>
  Remote calls over a session: the answer a caller sees is the answer to its call, and every command served is
  answered once. Both speak of the frames the schedule has delivered so far.
\<close>

section \<open>Delivered frames\<close>

definition delivered :: "wire_crates \<Rightarrow> action \<Rightarrow> frame list" where
  "delivered X act =
     (let frames = (\<lambda>bytes. case decode X bytes of Some f \<Rightarrow> if validate f = Inr () then [f] else [] | None \<Rightarrow> []) in
      case act of Receives (WsText t) _ _ \<Rightarrow> frames t | Receives (WsBinary b) _ _ \<Rightarrow> frames b | _ \<Rightarrow> [])"

definition responses :: "frame list \<Rightarrow> cmd_response_payload set" where
  "responses fs = {p. \<exists>f\<in>set fs. fr_body f = CmdResponse (Some p)}"

lemma responses_append [simp]: "responses (fs @ gs) = responses fs \<union> responses gs"
  by (auto simp: responses_def)

section \<open>Calls made here\<close>

text \<open>What the caller makes of a response.\<close>

definition rpc_reply :: "cmd_response_payload \<Rightarrow> rpc_error + json option" where
  "rpc_reply p = (if cr_error p = [] then Inr (cr_response p) else Inl (RpcCallee (cr_error p)))"

definition call_ok :: "cmd_response_payload set \<Rightarrow> nat \<Rightarrow> rpc_call \<Rightarrow> bool" where
  "call_ok R j c \<longleftrightarrow>
     rc_id c = of_nat (j + 2) \<and>
     (\<forall>r. rc_slot c = SlotFilled r \<longrightarrow> (\<exists>p\<in>R. cr_cmd_id p = rc_id c \<and> r = rpc_result_of p)) \<and>
     (\<forall>out. rc_point c = CallDone out \<longrightarrow> out = Inl RpcTimeout \<or> out = Inl RpcSessionClosed \<or>
        (\<exists>p\<in>R. cr_cmd_id p = rc_id c \<and> out = rpc_reply p))"

definition calls_ok :: "cmd_response_payload set \<Rightarrow> session \<Rightarrow> bool" where
  "calls_ok R s \<longleftrightarrow>
     se_next_cmd s = of_nat (length (se_calls s) + 1) \<and>
     (\<forall>j<length (se_calls s). call_ok R j (se_calls s ! j)) \<and>
     (\<forall>(cid, j)\<in>set (se_in_flight s). j < length (se_calls s) \<and> rc_id (se_calls s ! j) = cid)"

lemma call_ok_mono: "call_ok R j c \<Longrightarrow> R \<subseteq> R' \<Longrightarrow> call_ok R' j c"
  unfolding call_ok_def by blast

lemma calls_ok_mono: "calls_ok R s \<Longrightarrow> R \<subseteq> R' \<Longrightarrow> calls_ok R' s"
  unfolding calls_ok_def using call_ok_mono by blast

lemma calls_ok_fields [simp]:
  "calls_ok R (s\<lparr>se_heap := heap\<rparr>) = calls_ok R s" "calls_ok R (s\<lparr>se_streams := m\<rparr>) = calls_ok R s"
  "calls_ok R (s\<lparr>se_ids := g\<rparr>) = calls_ok R s" "calls_ok R (s\<lparr>se_dialled := ds\<rparr>) = calls_ok R s"
  "calls_ok R (s\<lparr>se_cancelled := b\<rparr>) = calls_ok R s" "calls_ok R (s\<lparr>se_heartbeat := h\<rparr>) = calls_ok R s"
  "calls_ok R (s\<lparr>se_last_activity := t\<rparr>) = calls_ok R s" "calls_ok R (s\<lparr>se_awaiting_pong := b\<rparr>) = calls_ok R s"
  "calls_ok R (s\<lparr>se_pong_deadline := t\<rparr>) = calls_ok R s" "calls_ok R (s\<lparr>se_cleanup := b\<rparr>) = calls_ok R s"
  "calls_ok R (s\<lparr>se_handlers := hs\<rparr>) = calls_ok R s" "calls_ok R (s\<lparr>se_outbound := q\<rparr>) = calls_ok R s"
  "calls_ok R (s\<lparr>se_writer := b\<rparr>) = calls_ok R s" "calls_ok R (s\<lparr>se_taken := tk\<rparr>) = calls_ok R s"
  "calls_ok R (s\<lparr>se_wire := w\<rparr>) = calls_ok R s" "calls_ok R (s\<lparr>se_running := rs\<rparr>) = calls_ok R s"
  "calls_ok R (s\<lparr>se_permits := k\<rparr>) = calls_ok R s" "calls_ok R (s\<lparr>se_opens := ts\<rparr>) = calls_ok R s"
  "calls_ok R (s\<lparr>se_local_opens := ls\<rparr>) = calls_ok R s" "calls_ok R (s\<lparr>se_reader := r\<rparr>) = calls_ok R s"
  by (simp_all add: calls_ok_def)

lemma calls_ok_edits [simp]:
  "calls_ok R (set_open i pt s) = calls_ok R s" "calls_ok R (end_open i s) = calls_ok R s"
  "calls_ok R (on_stream a f s) = calls_ok R s" "calls_ok R (insert_stream sid s) = calls_ok R s"
  "calls_ok R (drop_stream sid a s) = calls_ok R s" "calls_ok R (stream_cleanup s) = calls_ok R s"
  "calls_ok R (cancel s) = calls_ok R s" "calls_ok R (ack_pong s) = calls_ok R s"
  "calls_ok R (register_command_handler name s) = calls_ok R s" "calls_ok R (idle_check wall s) = calls_ok R s"
  "calls_ok R (handle_open_ack sid s) = calls_ok R s" "calls_ok R (handle_nack sid s) = calls_ok R s"
  "calls_ok R (reader_returns s) = calls_ok R s" "calls_ok R (run_starts ping pong s) = calls_ok R s"
  "calls_ok R (open_inserts i sid s) = calls_ok R s" "calls_ok R (open_checks i sid s) = calls_ok R s"
  by (simp_all add: calls_ok_def set_open_def end_open_def on_stream_def insert_stream_def drop_stream_def stream_cleanup_def
      cancel_def ack_pong_def register_command_handler_def idle_check_def handle_open_ack_def handle_nack_def
      reader_returns_def run_starts_def open_inserts_def open_checks_def split: option.split)

lemma calls_ok_write:
  "write_frame f s = Some (sent, s') \<Longrightarrow> calls_ok R s' = calls_ok R s"
  "write_ignored f s = Some s' \<Longrightarrow> calls_ok R s' = calls_ok R s"
  "dials c p s = (ok, s') \<Longrightarrow> calls_ok R s' = calls_ok R s"
  by (auto dest!: write_frame_cases write_ignored_cases dials_cases)

text \<open>Changing one call, or the table of calls in flight.\<close>

lemma calls_ok_update:
  assumes "calls_ok R s" "j < length (se_calls s) \<Longrightarrow> call_ok R j c"
  shows "calls_ok R (s\<lparr>se_calls := (se_calls s)[j := c]\<rparr>)"
proof (cases "j < length (se_calls s)")
  case True
  with assms have "rc_id c = rc_id (se_calls s ! j)" by (simp add: calls_ok_def call_ok_def)
  with assms True show ?thesis by (auto simp: calls_ok_def nth_list_update dest!: bspec)
qed (use assms in \<open>simp add: list_update_beyond\<close>)

lemma calls_ok_forget: "calls_ok R s \<Longrightarrow> calls_ok R (s\<lparr>se_in_flight := remove_key cid (se_in_flight s)\<rparr>)"
  by (simp add: calls_ok_def set_remove_key)

lemma call_ok_fields:
  "call_ok R j c \<Longrightarrow> call_ok R j (c\<lparr>rc_slot := SlotDropped\<rparr>)"
  "call_ok R j c \<Longrightarrow> call_ok R j (c\<lparr>rc_point := CallWaiting\<rparr>)"
  "call_ok R j c \<Longrightarrow> call_ok R j (c\<lparr>rc_point := CallDone (Inl RpcTimeout)\<rparr>)"
  "call_ok R j c \<Longrightarrow> call_ok R j (c\<lparr>rc_point := CallDone (Inl RpcSessionClosed)\<rparr>)"
  "call_ok R j c \<Longrightarrow> p \<in> R \<Longrightarrow> cr_cmd_id p = rc_id c \<Longrightarrow> call_ok R j (c\<lparr>rc_point := CallDone (rpc_reply p)\<rparr>)"
  "call_ok R j c \<Longrightarrow> p \<in> R \<Longrightarrow> cr_cmd_id p = rc_id c \<Longrightarrow> call_ok R j (c\<lparr>rc_slot := SlotFilled (rpc_result_of p)\<rparr>)"
  by (auto simp: call_ok_def)

lemma calls_ok_nth: "calls_ok R s \<Longrightarrow> j < length (se_calls s) \<Longrightarrow> call_ok R j (se_calls s ! j)"
  by (simp add: calls_ok_def)

lemma calls_ok_rpc:
  assumes "calls_ok R s"
  shows "calls_ok R (call_rpc name params s)" "calls_ok R (forget_call j s)"
    "p \<in> R \<Longrightarrow> calls_ok R (handle_cmd_response p s)"
proof -
  have dropped: "calls_ok R (s\<lparr>se_calls := (se_calls s)[k := (se_calls s ! k)\<lparr>rc_slot := SlotDropped\<rparr>]\<rparr>)" for k
    using assms by (intro calls_ok_update call_ok_fields calls_ok_nth)
  have add: "calls_ok R (t\<lparr>se_next_cmd := se_next_cmd t + 1,
      se_calls := se_calls t @ [\<lparr>rc_id = se_next_cmd t + 1, rc_frame = f, rc_point = CallSending, rc_slot = SlotEmpty\<rparr>],
      se_in_flight := remove_key (se_next_cmd t + 1) (se_in_flight t) @ [(se_next_cmd t + 1, length (se_calls t))]\<rparr>)"
    if "calls_ok R t" for t f
  proof -
    have "call_ok R (length (se_calls t))
        \<lparr>rc_id = se_next_cmd t + 1, rc_frame = f, rc_point = CallSending, rc_slot = SlotEmpty\<rparr>"
      using that by (simp add: calls_ok_def call_ok_def)
    with that show ?thesis
      by (auto simp: calls_ok_def nth_append less_Suc_eq set_remove_key dest: bspec)
  qed
  show "calls_ok R (call_rpc name params s)"
    using add [OF assms] add [OF dropped] by (simp add: call_rpc_def Let_def split: option.split)
  show "calls_ok R (forget_call j s)"
  proof -
    have "calls_ok R (s\<lparr>se_in_flight := remove_key cid (se_in_flight s),
        se_calls := (se_calls s)[k := (se_calls s ! k)\<lparr>rc_slot := SlotDropped\<rparr>]\<rparr>)" for cid k
      using calls_ok_update [OF calls_ok_forget [OF assms, of cid], of k] call_ok_fields(1) [OF calls_ok_nth [OF assms]]
      by simp
    then show ?thesis using assms by (simp add: forget_call_def Let_def split: option.split)
  qed
  show "calls_ok R (handle_cmd_response p s)" if "p \<in> R"
  proof (cases "map_of (se_in_flight s) (cr_cmd_id p)")
    case (Some k)
    then have k: "k < length (se_calls s)" "rc_id (se_calls s ! k) = cr_cmd_id p"
      using assms by (auto simp: calls_ok_def dest!: map_of_SomeD)
    from calls_ok_update [OF calls_ok_forget [OF assms, of "cr_cmd_id p"], of k]
      call_ok_fields(6) [OF calls_ok_nth [OF assms k(1)] that k(2) [symmetric]]
    show ?thesis using Some by (simp add: handle_cmd_response_def)
  qed (simp add: handle_cmd_response_def assms)
qed

lemma calls_ok_ends:
  assumes "calls_ok R s" "out = Inl RpcTimeout \<or> out = Inl RpcSessionClosed"
  shows "calls_ok R (call_ends j out s)"
  using calls_ok_update [OF assms(1), of j] call_ok_fields(3,4) [OF calls_ok_nth [OF assms(1)]] assms(2)
  by (auto simp: call_ends_def)

lemma calls_ok_call_steps:
  assumes "calls_ok R s"
  shows "call_sends j s = Some s' \<Longrightarrow> calls_ok R s'" "call_returns j s = Some s' \<Longrightarrow> calls_ok R s'"
    "call_times_out j s = Some s' \<Longrightarrow> calls_ok R s'"
proof -
  show "calls_ok R s'" if sends: "call_sends j s = Some s'"
  proof -
    from sends obtain sent t where w: "write_frame (rc_frame (se_calls s ! j)) s = Some (sent, t)"
      and s': "s' = (if sent then t\<lparr>se_calls := (se_calls t)[j := (se_calls t ! j)\<lparr>rc_point := CallWaiting\<rparr>]\<rparr>
        else call_ends j (Inl RpcSessionClosed) (forget_call j t))"
      by (auto simp: call_sends_def split: if_splits)
    have t: "calls_ok R t" using calls_ok_write(1) [OF w] assms by simp
    have "calls_ok R (t\<lparr>se_calls := (se_calls t)[j := (se_calls t ! j)\<lparr>rc_point := CallWaiting\<rparr>]\<rparr>)"
      using t by (intro calls_ok_update call_ok_fields calls_ok_nth)
    moreover have "calls_ok R (call_ends j (Inl RpcSessionClosed) (forget_call j t))"
      by (rule calls_ok_ends) (simp_all add: calls_ok_rpc t)
    ultimately show ?thesis by (simp add: s')
  qed
  show "calls_ok R s'" if "call_times_out j s = Some s'"
    using that calls_ok_ends [OF calls_ok_rpc(2) [OF assms]] by (auto simp: call_times_out_def split: if_splits)
  show "calls_ok R s'" if returns: "call_returns j s = Some s'"
  proof -
    from returns have j: "j < length (se_calls s)" by (auto simp: call_returns_def split: if_splits)
    note c = calls_ok_nth [OF assms j]
    from returns consider "s' = call_ends j (Inl RpcSessionClosed) s"
      | r where "rc_slot (se_calls s ! j) = SlotFilled r"
        "s' = call_ends j (case rr_error r of Some msg \<Rightarrow> Inl (RpcCallee msg) | None \<Rightarrow> Inr (rr_response r)) s"
      by (auto simp: call_returns_def split: if_splits call_slot.splits)
    then show ?thesis
    proof cases
      case 1
      then show ?thesis using calls_ok_ends [OF assms] by simp
    next
      case 2
      then obtain p where p: "p \<in> R" "cr_cmd_id p = rc_id (se_calls s ! j)" "r = rpc_result_of p"
        using c by (auto simp: call_ok_def)
      have "s' = s\<lparr>se_calls := (se_calls s)[j := (se_calls s ! j)\<lparr>rc_point := CallDone (rpc_reply p)\<rparr>]\<rparr>"
        using 2 p(3) by (simp add: call_ends_def rpc_result_of_def rpc_reply_def)
      with calls_ok_update [OF assms call_ok_fields(5) [OF c p(1,2)]] show ?thesis by simp
    qed
  qed
qed

lemma calls_ok_steps:
  "writer_takes X ok s = Some s' \<Longrightarrow> calls_ok R s' = calls_ok R s" "writer_stops s = Some s' \<Longrightarrow> calls_ok R s' = calls_ok R s"
  "open_remote_stream p s = Some s' \<Longrightarrow> calls_ok R s' = calls_ok R s" "open_sends i s = Some s' \<Longrightarrow> calls_ok R s' = calls_ok R s"
  "pump_runs a q s = Some s' \<Longrightarrow> calls_ok R s' = calls_ok R s" "resets i s = Some s' \<Longrightarrow> calls_ok R s' = calls_ok R s"
  "run_finishes s = Some s' \<Longrightarrow> calls_ok R s' = calls_ok R s" "stream_frame b f s = Some s' \<Longrightarrow> calls_ok R s' = calls_ok R s"
  "accept_cmd c s = Some s' \<Longrightarrow> calls_ok R s' = calls_ok R s" "handler_starts i s = Some s' \<Longrightarrow> calls_ok R s' = calls_ok R s"
  "handle_cmd i out s = Some s' \<Longrightarrow> calls_ok R s' = calls_ok R s"
  "heartbeat_tick now wall s = Some s' \<Longrightarrow> calls_ok R s' = calls_ok R s"
  "heartbeat_pings wall s = Some s' \<Longrightarrow> calls_ok R s' = calls_ok R s"
  by (auto simp: writer_takes_def writer_stops_def open_remote_stream_def open_sends_def pump_runs_def resets_def
      run_finishes_def stream_frame_def accept_cmd_def handler_starts_def handle_cmd_def heartbeat_tick_def
      heartbeat_pings_def Let_def calls_ok_write
      split: if_splits list.splits option.splits prod.splits reader.splits frame_body.splits Option.bind_splits)

lemma calls_ok_open_task: "handle_open_stream inp i s = Some s' \<Longrightarrow> calls_ok R s' = calls_ok R s"
  by (cases "snd (snd (se_opens s ! i))"; cases inp)
    (auto simp: handle_open_stream_def open_acks_def calls_ok_write split: if_splits prod.splits)

text \<open>A response is looked up among the calls in flight; everything else leaves the calls alone.\<close>

lemma calls_ok_dispatch:
  assumes "dispatch_frame ok f s = Some s'" "calls_ok R s"
  shows "calls_ok (R \<union> responses [f]) s'"
proof -
  have "calls_ok (R \<union> responses [f]) s" using assms(2) by (rule calls_ok_mono) simp
  with assms(1) show ?thesis
    by (auto simp: dispatch_frame_def calls_ok_write calls_ok_steps responses_def intro!: calls_ok_rpc
        split: option.splits frame_body.splits)
qed

lemma calls_ok_reader:
  assumes "reader_loop X msg wall ok s = Some s'" "calls_ok R s"
  shows "calls_ok (R \<union> responses (delivered X (Receives msg wall ok))) s'"
proof -
  have "calls_ok (R \<union> responses (case decode X bytes of Some f \<Rightarrow> if validate f = Inr () then [f] else [] | None \<Rightarrow> [])) s'"
    if "receive_bytes X bytes wall ok s = Some s'" for bytes
    using that assms(2) calls_ok_dispatch [of ok _ "s\<lparr>se_last_activity := wall\<rparr>" s' R]
    by (auto simp: receive_bytes_def Let_def responses_def [of "[]"] split: option.splits sum.splits)
  with assms show ?thesis
    by (auto simp: reader_loop_def delivered_def responses_def [of "[]"] split: if_splits ws_message.splits)
qed

interpretation calls: trace_invariant "session_step X" "\<lambda>past. calls_ok (responses (concat (map (delivered X) past)))" for X
proof
  fix act s s' past
  assume step: "session_step X act s = Some s'" and good: "calls_ok (responses (concat (map (delivered X) past))) s"
  have same: "calls_ok R t \<Longrightarrow> calls_ok (R \<union> R') t" for R R' t by (rule calls_ok_mono) auto
  have "calls_ok (responses (concat (map (delivered X) past)) \<union> responses (delivered X act)) s'"
  proof (cases act)
    case (Receives msg wall ok)
    with step have "reader_loop X msg wall ok s = Some s'" by (simp add: session_step_def)
    from calls_ok_reader [OF this good] show ?thesis by (simp only: Receives)
  qed (use step good in \<open>auto simp: session_step_def calls_ok_steps calls_ok_open_task intro!: calls_ok_rpc same
      dest: calls_ok_call_steps split: if_splits\<close>)
  then show "calls_ok (responses (concat (map (delivered X) (past @ [act])))) s'" by simp
qed

text \<open>C21. Remote calls, under any schedule and any frames from the peer: the calls of a session are numbered 2, 3, ... on
  64-bit words, and a call that has returned either timed out, found the session closed, or reports the response
  of a delivered CMD_RESPONSE with the call's own number: its error when the error text is not empty, its value
  otherwise.\<close>

theorem rpc_answers_match:
  assumes "run_all (session_step X) acts (new_session role cfg idle now) = Some s" "j < length (se_calls s)"
  shows "rc_id (se_calls s ! j) = of_nat (j + 2) \<and>
    (\<forall>out. rc_point (se_calls s ! j) = CallDone out \<longrightarrow> out = Inl RpcTimeout \<or> out = Inl RpcSessionClosed \<or>
      (\<exists>p\<in>responses (concat (map (delivered X) acts)). cr_cmd_id p = rc_id (se_calls s ! j) \<and> out = rpc_reply p))"
proof -
  have "calls_ok (responses (concat (map (delivered X) []))) (new_session role cfg idle now)"
    by (simp add: calls_ok_def new_session_def)
  from calls_ok_nth [OF calls.run_keeps [OF assms(1) this, simplified] assms(2)] show ?thesis
    unfolding call_ok_def by blast
qed

section \<open>Commands served here\<close>

definition response_ids :: "frame list \<Rightarrow> 64 word multiset" where
  "response_ids fs =
     image_mset (\<lambda>f. case fr_body f of CmdResponse (Some p) \<Rightarrow> cr_cmd_id p | _ \<Rightarrow> 0)
       (filter_mset (\<lambda>f. \<exists>p. fr_body f = CmdResponse (Some p)) (mset fs))"

definition command_ids :: "frame list \<Rightarrow> 64 word multiset" where
  "command_ids fs =
     image_mset (\<lambda>f. case fr_body f of Cmd (Some p) \<Rightarrow> cp_cmd_id p | _ \<Rightarrow> 0)
       (filter_mset (\<lambda>f. \<exists>p. fr_body f = Cmd (Some p)) (mset fs))"

lemma ids_append [simp]:
  "response_ids (fs @ gs) = response_ids fs + response_ids gs" "command_ids (fs @ gs) = command_ids fs + command_ids gs"
  "response_ids [] = {#}" "command_ids [] = {#}"
  by (simp_all add: response_ids_def command_ids_def)

text \<open>While the writer is alive, the commands delivered are those answered and those still being served.\<close>

definition commands_ok :: "64 word multiset \<Rightarrow> session \<Rightarrow> bool" where
  "commands_ok D s \<longleftrightarrow>
     (\<forall>c\<in>set (se_calls s). response_ids [rc_frame c] = {#}) \<and>
     (se_writer s \<longrightarrow>
       D = response_ids (se_taken s) + response_ids (se_outbound s) + mset (map (cp_cmd_id \<circ> fst) (se_running s)))"

lemma commands_ok_fields [simp]:
  "commands_ok D (s\<lparr>se_heap := heap\<rparr>) = commands_ok D s" "commands_ok D (s\<lparr>se_streams := m\<rparr>) = commands_ok D s"
  "commands_ok D (s\<lparr>se_ids := g\<rparr>) = commands_ok D s" "commands_ok D (s\<lparr>se_dialled := ds\<rparr>) = commands_ok D s"
  "commands_ok D (s\<lparr>se_cancelled := b\<rparr>) = commands_ok D s" "commands_ok D (s\<lparr>se_heartbeat := h\<rparr>) = commands_ok D s"
  "commands_ok D (s\<lparr>se_last_activity := t\<rparr>) = commands_ok D s" "commands_ok D (s\<lparr>se_awaiting_pong := b\<rparr>) = commands_ok D s"
  "commands_ok D (s\<lparr>se_pong_deadline := t\<rparr>) = commands_ok D s" "commands_ok D (s\<lparr>se_cleanup := b\<rparr>) = commands_ok D s"
  "commands_ok D (s\<lparr>se_handlers := hs\<rparr>) = commands_ok D s" "commands_ok D (s\<lparr>se_wire := w\<rparr>) = commands_ok D s"
  "commands_ok D (s\<lparr>se_permits := k\<rparr>) = commands_ok D s" "commands_ok D (s\<lparr>se_opens := ts\<rparr>) = commands_ok D s"
  "commands_ok D (s\<lparr>se_local_opens := ls\<rparr>) = commands_ok D s" "commands_ok D (s\<lparr>se_reader := r\<rparr>) = commands_ok D s"
  "commands_ok D (s\<lparr>se_in_flight := fl\<rparr>) = commands_ok D s" "commands_ok D (s\<lparr>se_next_cmd := c\<rparr>) = commands_ok D s"
  by (simp_all add: commands_ok_def)

lemma commands_ok_edits [simp]:
  "commands_ok D (set_open i pt s) = commands_ok D s" "commands_ok D (end_open i s) = commands_ok D s"
  "commands_ok D (on_stream a f s) = commands_ok D s" "commands_ok D (insert_stream sid s) = commands_ok D s"
  "commands_ok D (drop_stream sid a s) = commands_ok D s" "commands_ok D (stream_cleanup s) = commands_ok D s"
  "commands_ok D (cancel s) = commands_ok D s" "commands_ok D (ack_pong s) = commands_ok D s"
  "commands_ok D (register_command_handler name s) = commands_ok D s" "commands_ok D (idle_check wall s) = commands_ok D s"
  "commands_ok D (handle_open_ack sid s) = commands_ok D s" "commands_ok D (handle_nack sid s) = commands_ok D s"
  "commands_ok D (reader_returns s) = commands_ok D s" "commands_ok D (run_starts ping pong s) = commands_ok D s"
  "commands_ok D (open_inserts i sid s) = commands_ok D s" "commands_ok D (open_checks i sid s) = commands_ok D s"
  by (simp_all add: commands_ok_def set_open_def end_open_def on_stream_def insert_stream_def drop_stream_def stream_cleanup_def
      cancel_def ack_pong_def register_command_handler_def idle_check_def handle_open_ack_def handle_nack_def
      reader_returns_def run_starts_def open_inserts_def open_checks_def split: option.split)

lemma response_ids_of:
  "response_ids [new_nack sid why retry] = {#}" "response_ids [new_rst sid why] = {#}" "response_ids [new_pong] = {#}"
  "response_ids [new_ping] = {#}" "response_ids [new_open_ack sid] = {#}" "response_ids [frame_of sid (Open op)] = {#}"
  "response_ids [new_cmd cid name params] = {#}" "response_ids [read_frame rd st] = {#}"
  "response_ids [new_cmd_error_response cid msg] = {#cid#}" "response_ids [handler_response p found out] = {#cp_cmd_id p#}"
  by (simp_all add: response_ids_def new_nack_def new_rst_def new_pong_def new_ping_def new_open_ack_def new_cmd_def
      read_frame_def new_fin_def new_data_def new_cmd_error_response_def handler_response_def new_cmd_response_def
      frame_of_def split: read_result.split handler_outcome.split)

lemma response_ids_Cons: "response_ids (f # fs) = response_ids [f] + response_ids fs"
  using ids_append(1) [of "[f]" fs] by simp

lemma mset_remove_nth: "i < length xs \<Longrightarrow> mset xs = mset (remove_nth i xs) + {#xs ! i#}"
  unfolding remove_nth_def by (subst id_take_nth_drop [of i xs]) simp_all

lemma map_remove_nth: "map g (remove_nth i xs) = remove_nth i (map g xs)"
  by (simp add: remove_nth_def take_map drop_map)

lemma map_update_same: "f x = f (xs ! i) \<Longrightarrow> map f (xs[i := x]) = map f xs"
  by (metis list_update_beyond list_update_id map_update not_le)

lemma commands_write:
  "write_frame f s = Some (sent, s') \<Longrightarrow> commands_ok D s \<Longrightarrow> commands_ok (D + response_ids [f]) s'"
  "write_ignored f s = Some s' \<Longrightarrow> commands_ok D s \<Longrightarrow> commands_ok (D + response_ids [f]) s'"
  by (auto simp: commands_ok_def dest!: write_frame_cases write_ignored_cases)

lemma commands_plain_write:
  assumes "response_ids [f] = {#}" "commands_ok D s"
  shows "write_frame f s = Some (sent, s') \<Longrightarrow> commands_ok D s'" "write_ignored f s = Some s' \<Longrightarrow> commands_ok D s'"
  using commands_write [of f s] assms by fastforce+

lemma commands_ok_calls:
  "commands_ok D s \<Longrightarrow> commands_ok D (s\<lparr>se_calls := (se_calls s)[j := (se_calls s ! j)\<lparr>rc_point := pt\<rparr>]\<rparr>)"
  "commands_ok D s \<Longrightarrow> commands_ok D (s\<lparr>se_calls := (se_calls s)[j := (se_calls s ! j)\<lparr>rc_slot := sl\<rparr>]\<rparr>)"
  by (cases "j < length (se_calls s)";
      auto simp: commands_ok_def list_update_beyond dest!: set_update_subset_insert [THEN subsetD])+

lemma commands_rpc:
  assumes "commands_ok D s"
  shows "commands_ok D (call_rpc name params s)" "commands_ok D (forget_call j s)" "commands_ok D (handle_cmd_response p s)"
    "commands_ok D (call_ends j out s)"
proof -
  have add: "commands_ok D (t\<lparr>se_next_cmd := cid, se_calls := se_calls t @ [\<lparr>rc_id = cid, rc_frame = new_cmd cid name params,
      rc_point = CallSending, rc_slot = SlotEmpty\<rparr>], se_in_flight := fl\<rparr>)" if "commands_ok D t" for t cid fl
    using that by (auto simp: commands_ok_def response_ids_of)
  show "commands_ok D (call_rpc name params s)"
    using add [OF assms] add [OF commands_ok_calls(2) [OF assms]] by (simp add: call_rpc_def Let_def split: option.split)
  show "commands_ok D (forget_call j s)" "commands_ok D (handle_cmd_response p s)" "commands_ok D (call_ends j out s)"
    using assms commands_ok_calls(1) [OF assms]
      commands_ok_calls(2) [of D "s\<lparr>se_in_flight := fl\<rparr>" for fl]
    by (simp_all add: forget_call_def handle_cmd_response_def call_ends_def Let_def split: option.split)
qed

lemma commands_call_steps:
  assumes "commands_ok D s"
  shows "call_sends j s = Some s' \<Longrightarrow> commands_ok D s'" "call_returns j s = Some s' \<Longrightarrow> commands_ok D s'"
    "call_times_out j s = Some s' \<Longrightarrow> commands_ok D s'"
proof -
  show "commands_ok D s'" if sends: "call_sends j s = Some s'"
  proof -
    from sends obtain sent t where j: "j < length (se_calls s)" and w: "write_frame (rc_frame (se_calls s ! j)) s = Some (sent, t)"
      and s': "s' = (if sent then t\<lparr>se_calls := (se_calls t)[j := (se_calls t ! j)\<lparr>rc_point := CallWaiting\<rparr>]\<rparr>
        else call_ends j (Inl RpcSessionClosed) (forget_call j t))"
      by (auto simp: call_sends_def split: if_splits)
    have "response_ids [rc_frame (se_calls s ! j)] = {#}" using assms j by (simp add: commands_ok_def)
    from commands_plain_write(1) [OF this assms w] show ?thesis by (auto simp: s' commands_rpc commands_ok_calls)
  qed
  show "call_returns j s = Some s' \<Longrightarrow> commands_ok D s'" "call_times_out j s = Some s' \<Longrightarrow> commands_ok D s'"
    by (auto simp: call_returns_def call_times_out_def commands_rpc assms split: if_splits call_slot.splits)
qed

lemma commands_steps:
  assumes "commands_ok D s"
  shows "writer_takes X ok s = Some s' \<Longrightarrow> commands_ok D s'" "writer_stops s = Some s' \<Longrightarrow> commands_ok D s'"
    "open_remote_stream p s = Some s' \<Longrightarrow> commands_ok D s'" "open_sends i s = Some s' \<Longrightarrow> commands_ok D s'"
    "pump_runs a q s = Some s' \<Longrightarrow> commands_ok D s'" "resets i s = Some s' \<Longrightarrow> commands_ok D s'"
    "run_finishes s = Some s' \<Longrightarrow> commands_ok D s'" "stream_frame b f s = Some s' \<Longrightarrow> commands_ok D s'"
    "heartbeat_tick now wall s = Some s' \<Longrightarrow> commands_ok D s'" "heartbeat_pings wall s = Some s' \<Longrightarrow> commands_ok D s'"
proof -
  note w = commands_plain_write [OF response_ids_of(1) assms] commands_plain_write [OF response_ids_of(2) assms]
    commands_plain_write [OF response_ids_of(4) assms] commands_plain_write [OF response_ids_of(6) assms]
    commands_plain_write [OF response_ids_of(8) assms]
  show "commands_ok D s'" if "writer_takes X ok s = Some s'"
  proof (cases "se_outbound s")
    case (Cons f rest)
    with that assms response_ids_Cons [of f rest] show ?thesis
      by (auto simp: writer_takes_def commands_ok_def Let_def split: if_splits)
  qed (use that in \<open>simp add: writer_takes_def split: if_splits\<close>)
  show "commands_ok D s'" if "writer_stops s = Some s'"
    using that assms by (auto simp: writer_stops_def commands_ok_def split: if_splits)
  show "open_remote_stream p s = Some s' \<Longrightarrow> commands_ok D s'" "open_sends i s = Some s' \<Longrightarrow> commands_ok D s'"
    "resets i s = Some s' \<Longrightarrow> commands_ok D s'"
    "run_finishes s = Some s' \<Longrightarrow> commands_ok D s'" "heartbeat_tick now wall s = Some s' \<Longrightarrow> commands_ok D s'"
    "heartbeat_pings wall s = Some s' \<Longrightarrow> commands_ok D s'"
    using assms
    by (auto simp: open_remote_stream_def open_sends_def resets_def run_finishes_def heartbeat_tick_def
        heartbeat_pings_def Let_def dest: w
        split: if_splits option.splits prod.splits reader.splits)
  have reply: "response_ids [r] = {#}" if "dispatch ok body st = (Some r, st')" for ok r body st st'
    using that by (cases body) (auto simp: dispatch_def response_ids_of split: if_splits prod.splits)
  show "stream_frame b f s = Some s' \<Longrightarrow> commands_ok D s'"
    using assms by (auto simp: stream_frame_def Let_def dest: w commands_plain_write [OF reply assms]
        split: option.splits prod.splits frame_body.splits)
  have sent: "response_ids [x] = {#}" if "pump_run q st = Some (Some x, k)" for x q st k
    using that by (auto simp: pump_run_def response_ids_of split: pump_step.splits pump.splits if_splits prod.splits)
  show "pump_runs a q s = Some s' \<Longrightarrow> commands_ok D s'"
    using assms by (auto simp: pump_runs_def dest: commands_plain_write [OF sent assms]
        split: option.splits prod.splits if_splits Option.bind_splits)
qed

lemma commands_open_task:
  assumes "handle_open_stream inp i s = Some s'" "commands_ok D s"
  shows "commands_ok D s'"
proof -
  note w = commands_plain_write [OF response_ids_of(1) assms(2)] commands_plain_write [OF response_ids_of(5) assms(2)]
  have dials: "commands_ok D t" if "dials c p s = (ok, t)" for c p ok t
    using that assms(2) by (auto dest!: dials_cases)
  show ?thesis using assms
    by (cases "snd (snd (se_opens s ! i))"; cases inp)
      (auto simp: handle_open_stream_def open_acks_def dest: w dials split: if_splits prod.splits)
qed

lemma commands_serve:
  assumes "commands_ok D s"
  shows "accept_cmd p s = Some s' \<Longrightarrow> commands_ok (D + {#cp_cmd_id p#}) s'" "handler_starts i s = Some s' \<Longrightarrow> commands_ok D s'"
    "handle_cmd i out s = Some s' \<Longrightarrow> commands_ok D s'"
proof -
  show "commands_ok (D + {#cp_cmd_id p#}) s'" if "accept_cmd p s = Some s'"
  proof (cases "0 < se_permits s")
    case True
    with that assms show ?thesis by (auto simp: accept_cmd_def commands_ok_def)
  next
    case False
    with that commands_write(2) [OF _ assms, of "new_cmd_error_response (cp_cmd_id p) ''server busy''" s'] show ?thesis
      by (simp add: accept_cmd_def response_ids_of)
  qed
  show "commands_ok D s'" if "handler_starts i s = Some s'"
  proof -
    from that obtain q b where "i < length (se_running s)" "se_running s ! i = (q, None)"
      "s' = s\<lparr>se_running := (se_running s)[i := (q, Some b)]\<rparr>"
      by (auto simp: handler_starts_def split: if_splits prod.splits option.splits)
    moreover from this have "map (cp_cmd_id \<circ> fst) (se_running s') = map (cp_cmd_id \<circ> fst) (se_running s)"
      using map_update_same [of "cp_cmd_id \<circ> fst" "(q, Some b)" "se_running s" i] by simp
    ultimately show ?thesis using assms by (simp add: commands_ok_def)
  qed
  show "commands_ok D s'" if "handle_cmd i out s = Some s'"
  proof -
    from that obtain q b t where i: "i < length (se_running s)" "se_running s ! i = (q, Some b)"
      and w: "write_ignored (handler_response q b out) s = Some t"
      and s': "s' = t\<lparr>se_running := remove_nth i (se_running t), se_permits := se_permits t + 1\<rparr>"
      by (auto simp: handle_cmd_def split: if_splits prod.splits option.splits)
    have run: "se_running t = se_running s" "se_writer t = se_writer s"
      using write_ignored_cases [OF w] by auto
    have "mset (map (cp_cmd_id \<circ> fst) (se_running s)) =
        mset (map (cp_cmd_id \<circ> fst) (remove_nth i (se_running s))) + {#cp_cmd_id q#}"
      using mset_remove_nth [of i "map (cp_cmd_id \<circ> fst) (se_running s)"] i by (simp add: map_remove_nth)
    with commands_write(2) [OF w assms] run show ?thesis
      by (auto simp: s' commands_ok_def response_ids_of)
  qed
qed

lemma commands_dispatch:
  assumes "dispatch_frame ok f s = Some s'" "commands_ok D s"
  shows "commands_ok (D + command_ids [f]) s'"
  using assms commands_plain_write [OF response_ids_of(3) assms(2)] commands_serve(1) [OF assms(2)]
  by (auto simp: dispatch_frame_def command_ids_def commands_rpc dest: commands_steps
      split: option.splits frame_body.splits)

lemma commands_reader:
  assumes "reader_loop X msg wall ok s = Some s'" "commands_ok D s"
  shows "commands_ok (D + command_ids (delivered X (Receives msg wall ok))) s'"
proof -
  have "commands_ok (D + command_ids (case decode X bytes of Some f \<Rightarrow> if validate f = Inr () then [f] else [] | None \<Rightarrow> [])) s'"
    if "receive_bytes X bytes wall ok s = Some s'" for bytes
    using that assms(2) commands_dispatch [of ok _ "s\<lparr>se_last_activity := wall\<rparr>" s' D]
    by (auto simp: receive_bytes_def Let_def split: option.splits sum.splits)
  with assms show ?thesis
    by (auto simp: reader_loop_def delivered_def split: if_splits ws_message.splits)
qed

interpretation commands: trace_invariant "session_step X" "\<lambda>past. commands_ok (command_ids (concat (map (delivered X) past)))" for X
proof
  fix act s s' past
  assume step: "session_step X act s = Some s'" and good: "commands_ok (command_ids (concat (map (delivered X) past))) s"
  have "commands_ok (command_ids (concat (map (delivered X) past)) + command_ids (delivered X act)) s'"
  proof (cases act)
    case (Receives msg wall ok)
    with step have "reader_loop X msg wall ok s = Some s'" by (simp add: session_step_def)
    from commands_reader [OF this good] show ?thesis by (simp only: Receives)
  qed (use step good in \<open>auto simp: session_step_def delivered_def commands_rpc dest: commands_steps commands_call_steps
      commands_serve(2,3) commands_open_task split: if_splits\<close>)
  then show "commands_ok (command_ids (concat (map (delivered X) (past @ [act])))) s'" by simp
qed


section \<open>Examples\<close>

text \<open>A call answered by the peer, and a command whose handler fails.\<close>

definition reply_crates :: wire_crates where
  "reply_crates =
     \<lparr>wc_print = (\<lambda>_. []),
      wc_parse = (\<lambda>t. Some (if t = ''r'' then JObj [(''cmd_response'', JObj [(''cmd_id'', JInt 2), (''response'', JBool True)]), (''type'', JStr ''CMD_RESPONSE'')]
        else JObj [(''cmd'', JObj [(''cmd_id'', JInt 9), (''name'', JStr ''sum'')]), (''type'', JStr ''CMD'')])),
      wc_b64 = id, wc_unb64 = Some\<rparr>"

definition sample_calls :: "action list" where
  "sample_calls =
     [RunStarts 0 0, RegistersHandler ''sum'', CallsRpc ''echo'' None, CallSends 0, Receives (WsText ''r'') 1 True, CallReturns 0,
      Receives (WsText ''c'') 2 True, HandlerStarts 0, HandlerEnds 0 (HandlerFails ''no'')]"

lemma reply_decoded:
  "decode reply_crates ''r'' = Some (new_cmd_response 2 (Some (JBool True)))"
  "decode reply_crates ''c'' = Some (new_cmd 9 ''sum'' None)"
  by (simp_all add: decode_def reply_crates_def json_wire_def from_object_def required_def optional_def defaulted_def
      json_cmd_response_def json_cmd_def json_u64_def from_wire_def from_wire_str_def as_str_def new_cmd_response_def new_cmd_def)

lemma reply_valid:
  "validate (new_cmd_response 2 (Some (JBool True))) = Inr ()" "validate (new_cmd 9 ''sum'' None) = Inr ()"
  by (simp_all add: validate_def validate_cmd_response_def validate_cmd_def new_cmd_response_def new_cmd_def frame_of_def)

lemma reply_dispatched:
  "dispatch_frame b (new_cmd_response cid r) s =
     Some (handle_cmd_response \<lparr>cr_cmd_id = cid, cr_response = r, cr_error = []\<rparr> s)"
  "dispatch_frame b (new_cmd cid name params) s = accept_cmd \<lparr>cp_cmd_id = cid, cp_name = name, cp_params = params\<rparr> s"
  by (simp_all add: dispatch_frame_def new_cmd_response_def new_cmd_def frame_of_def)

definition sample_answered :: session where
  "sample_answered = (new_session Client (PortMapping []) 0 0)
     \<lparr>se_reader := ReaderRunning, se_heartbeat := HeartbeatWaiting, se_cleanup := True, se_last_activity := 2,
      se_handlers := [''sum''], se_next_cmd := 2,
      se_calls := [\<lparr>rc_id = 2, rc_frame = new_cmd 2 ''echo'' None, rc_point = CallDone (Inr (Some (JBool True))),
        rc_slot = SlotFilled \<lparr>rr_response = Some (JBool True), rr_error = None\<rparr>\<rparr>],
      se_outbound := [new_cmd 2 ''echo'' None, new_cmd_error_response 9 ''no'']\<rparr>"

lemma sample_calls_run:
  "run_all (session_step reply_crates) sample_calls (new_session Client (PortMapping []) 0 0) = Some sample_answered"
  by (simp add: sample_calls_def sample_answered_def new_session_def session_step_def run_starts_def
      register_command_handler_def call_rpc_def remove_key_def call_sends_def write_frame_def outbound_channel_capacity_def
      reader_loop_def receive_bytes_def reply_decoded reply_valid reply_dispatched
      handle_cmd_response_def rpc_result_of_def call_returns_def call_ends_def accept_cmd_def
      handler_starts_def handle_cmd_def handler_response_def write_ignored_def remove_nth_def)

theorem rpc_answers_match_witness:
  "\<exists>p\<in>responses (concat (map (delivered reply_crates) sample_calls)). cr_cmd_id p = 2 \<and> rpc_reply p = Inr (Some (JBool True))"
  using rpc_answers_match [OF sample_calls_run, of 0] by (simp add: sample_answered_def) metis


text \<open>A failed call whose error text is empty looks like a call that succeeded without a value.\<close>

lemma empty_error_reads_as_success:
  "rpc_reply \<lparr>cr_cmd_id = cid, cr_response = None, cr_error = []\<rparr> = Inr None"
  by (simp add: rpc_reply_def)

end
