(* ===== verification/TunnelHandshake.thy ===== *)
theory TunnelHandshake
  imports TunnelCalls
begin

text \<open>
  The handshake that sets a session up (\<open>session/core.rs\<close>), from either side, and the idle clock of the session it
  sets up. The answer of the peer is an argument; no answer in time is \<open>None\<close>.
\<close>

section \<open>The two sides\<close>

datatype handshake_error =
    HandshakeTransport | HandshakeDecode | InvalidSessionInit | InvalidSessionAck
  | VersionMismatch "64 word" "64 word" | HandshakeClosed | HandshakeTimeout

definition protocol_version :: "64 word" where "protocol_version = 1"

definition recv_frame :: "wire_crates \<Rightarrow> ws_message option \<Rightarrow> handshake_error + frame" where
  "recv_frame X answer =
     (case answer of
        None \<Rightarrow> Inl HandshakeTimeout
      | Some msg \<Rightarrow>
          (case msg of
             WsText t \<Rightarrow> ok_or HandshakeDecode (decode X t)
           | WsBinary b \<Rightarrow> ok_or HandshakeDecode (decode X b)
           | WsError \<Rightarrow> Inl HandshakeTransport
           | _ \<Rightarrow> Inl HandshakeClosed))"

text \<open>The client: the frame it sends, and its session once the answer is in. A negative timeout counts as zero.\<close>

definition session_init_of :: "(32 word \<times> string) list \<Rightarrow> frame" where
  "session_init_of ports = new_session_init protocol_version [] (map fst ports)"

definition send_session_to_server ::
  "wire_crates \<Rightarrow> (32 word \<times> string) list \<Rightarrow> ws_message option \<Rightarrow> int \<Rightarrow> handshake_error + string \<times> session" where
  "send_session_to_server X ports answer now =
     and_then (recv_frame X answer) (\<lambda>f.
       case fr_body f of
         SessionAck (Some p) \<Rightarrow>
           Inr (sa_session_id p,
             new_session Client (PortMapping ports) (1000 * nat (max 0 (sint (sa_idle_timeout_sec p)))) now)
       | _ \<Rightarrow> Inl InvalidSessionAck)"

text \<open>The server: \<open>sid\<close> is the random identifier it draws.\<close>

definition wait_session_from_client ::
  "wire_crates \<Rightarrow> nat \<Rightarrow> string list option \<Rightarrow> string \<Rightarrow> ws_message option \<Rightarrow> int \<Rightarrow>
   handshake_error + (string \<times> session) \<times> session_init_payload" where
  "wait_session_from_client X idle allowlist sid answer now =
     and_then (recv_frame X answer) (\<lambda>f.
       case fr_body f of
         SessionInit (Some p) \<Rightarrow>
           if si_client_version p \<noteq> protocol_version then Inl (VersionMismatch protocol_version (si_client_version p))
           else Inr ((sid, new_session Server (TargetAllowlist allowlist) idle now), p)
       | _ \<Rightarrow> Inl InvalidSessionInit)"

datatype session_ack_error = AckNotServer | AckSessionClosed

definition send_session_ack :: "string \<Rightarrow> session \<Rightarrow> (session_ack_error + session) option" where
  "send_session_ack sid s =
     (if se_role s \<noteq> Server then Some (Inl AckNotServer)
      else map_option (\<lambda>(sent, s'). if sent then Inr s' else Inl AckSessionClosed)
        (write_frame (new_session_ack protocol_version sid (of_nat (se_idle_timeout s div 1000))) s))"

section \<open>Properties\<close>

lemma sent_frame_received:
  assumes "wc_parse X (wc_print X (wire_json X (to_wire f))) = Some (wire_json X (to_wire f))"
    and "\<And>d. wc_unb64 X (wc_b64 X d) = Some d"
  shows "decode X (encode X f) = Some (f\<lparr>fr_body := received_body (fr_body f)\<rparr>)"
  by (simp add: decode_def encode_def assms(1) wire_back [OF assms(2)] from_received_wire)


text \<open>The idle check of the heartbeat, on the wall clock and with its cast from \<open>i64\<close> to \<open>u64\<close>: with clock readings in
  range, a session is found idle exactly when a timeout is set and either more time than that has passed since
  the last frame, or the clock has been set back behind it.\<close>

theorem idle_check_exact:
  assumes "\<bar>wall - se_last_activity s\<bar> < 2 ^ 63" "se_idle_timeout s < 2 ^ 63"
  shows "idle_expired wall s \<longleftrightarrow>
    se_idle_timeout s \<noteq> 0 \<and>
    (int (se_idle_timeout s) < wall - se_last_activity s \<or> wall < se_last_activity s)"
proof -
  let ?d = "wall - se_last_activity s"
  have ms: "idle_ms wall s = ?d" using assms(1) by (simp add: idle_ms_def)
  have t: "int (se_idle_timeout s) mod 2 ^ 64 = int (se_idle_timeout s)" "int (se_idle_timeout s) < 2 ^ 63"
    using assms(2) by simp_all
  show ?thesis
  proof (cases "0 \<le> ?d")
    case True
    then have "?d mod 2 ^ 64 = ?d" using assms(1) by simp
    with True t show ?thesis by (auto simp: idle_expired_def ms)
  next
    case False
    have "(?d + 2 ^ 64) mod 2 ^ 64 = ?d + 2 ^ 64"
      by (rule mod_pos_pos_trivial) (use False assms(1) in simp_all)
    then have "?d mod 2 ^ 64 = ?d + 2 ^ 64" by (simp only: mod_add_self2)
    with False t assms(1) show ?thesis by (auto simp: idle_expired_def ms)
  qed
qed

section \<open>Examples\<close>

text \<open>Crates that know the two documents of one handshake.\<close>

definition handshake_documents :: "json \<times> json" where
  "handshake_documents =
     (wire_json sample_crates (to_wire (session_init_of [(5432, ''15432'')])),
      wire_json sample_crates (to_wire (new_session_ack protocol_version ''s1'' 30)))"

definition handshake_crates :: wire_crates where
  "handshake_crates = sample_crates
     \<lparr>wc_print := (\<lambda>d. if d = fst handshake_documents then ''i'' else ''a''),
      wc_parse := (\<lambda>t. Some (if t = ''i'' then fst handshake_documents else snd handshake_documents))\<rparr>"

lemma handshake_crates_read:
  assumes "f \<in> {session_init_of [(5432, ''15432'')], new_session_ack protocol_version ''s1'' (of_nat 30)}"
  shows "wc_parse handshake_crates (wc_print handshake_crates (wire_json handshake_crates (to_wire f))) =
    Some (wire_json handshake_crates (to_wire f))"
proof -
  have same: "wire_json handshake_crates w = wire_json sample_crates w" for w
    by (simp add: wire_json_def handshake_crates_def)
  have "wc_print handshake_crates (fst handshake_documents) = ''i''"
    "wc_print handshake_crates d = (if d = fst handshake_documents then ''i'' else ''a'')"
    "wc_parse handshake_crates ''i'' = Some (fst handshake_documents)"
    "wc_parse handshake_crates ''a'' = Some (snd handshake_documents)" for d
    by (simp_all add: handshake_crates_def)
  then show ?thesis using assms unfolding same by (auto simp: handshake_documents_def)
qed


theorem idle_check_exact_witness:
  "idle_expired 4 ((new_session Client (PortMapping []) 1000 0)\<lparr>se_last_activity := 5\<rparr>)"
  using idle_check_exact [of 4 "(new_session Client (PortMapping []) 1000 0)\<lparr>se_last_activity := 5\<rparr>"]
  by (simp add: new_session_def)

end
