(* ===== verification/Spec2Isabelle.thy ===== *)
theory Spec2Isabelle
  imports ExecFlow ResolveLaws Choices ConfigCommands Profiles TunnelHandshake
begin

text \<open>
  A verification library for the AccelByte AGS command line: its workflow engine, the dispatch of service operations,
  authentication, configuration, profiles and usage events (crates \<open>ags-protocol\<close> and \<open>ags-runtime\<close>), and the tunnel of
  its extend proxy (crate \<open>extend-proxy-client\<close>).

  \<^bold>\<open>The program.\<close> A call resolves a profile, a base URL, a token and a namespace from flags, the environment and the
  configuration; a command of a service is then one request whose answer is shaped for display. A workflow is a list of
  steps over such operations and local actions. It is compiled once (\<open>compile_workflow\<close>) and then run
  (\<open>Executor::execute\<close>): for each step the inputs are resolved from flags, defaults, prompts and the outputs of earlier
  steps, a request is assembled, gates ask for consent, the request is dispatched, and the outputs are captured. The
  tunnel multiplexes TCP streams and remote calls over one WebSocket, between a client on the developer's machine and a
  sidecar in the cluster.

  \<^bold>\<open>Foundations.\<close>
  \<^item> \<open>Prelude\<close>, \<open>RustStr\<close>, \<open>Json\<close>: shared lemmas, results as sums, ordered maps (\<open>bmap\<close>, for \<open>BTreeMap\<close>; the locale
    \<open>keyed_store\<close> states what a store promises), the string functions of Rust's library on bytes, \<open>serde_json\<close> values.
  \<^item> \<open>JsonCode\<close>: a text form of JSON values that reads back. The concrete hosts of witnesses print and parse with it.
  \<^item> \<open>DispatchText\<close>, \<open>Kebab\<close> (\<open>support/strings.rs\<close>), \<open>TimeText\<close> (\<open>support/time.rs\<close>): names, display text, the encoding of
    path segments, timestamps.

  \<^bold>\<open>The workflow engine\<close> (\<open>runtime/workflows/\<close>).
  \<^item> \<open>Schema\<close> (\<open>catalogue.rs\<close>), \<open>WfTypes\<close> (\<open>workflow.rs\<close>, \<open>error.rs\<close>, \<open>request.rs\<close>): the data model.
  \<^item> \<open>NestedPath\<close>, \<open>JsonPath\<close>, \<open>Template\<close>, \<open>AutoDerive\<close>, \<open>Telemetry\<close>, \<open>Display\<close>: field paths, capture paths, templates
    and shell quoting, derived fields, redaction, terminal text. Parsers are shown to round-trip or to agree with a
    reference definition, redaction and display to hide what they must.
  \<^item> \<open>Context\<close> (\<open>mod.rs\<close>): the outputs a run has bound, with their provenance.
  \<^item> \<open>Resolve\<close>, \<open>StepFields\<close>, \<open>ResolveLaws\<close> (\<open>resolve.rs\<close>): bindings, requests, the review plan; the value displayed is
    the value dispatched, and what is gathered completes the request.
  \<^item> \<open>Choices\<close> (\<open>options.rs\<close>, \<open>file_picker.rs\<close>): the choices offered for an input.
  \<^item> \<open>Compile\<close>, \<open>Compiler\<close>, \<open>CompileLaws\<close> (\<open>compile.rs\<close>): every validation pass, and what a compiled workflow satisfies.
  \<^item> \<open>WorkflowFiles\<close> (\<open>external.rs\<close>, \<open>version_check.rs\<close>, \<open>facade/workflow.rs\<close>): the registry and the commands that add,
    remove and scaffold a workflow; what is added is found and removed.
  \<^item> \<open>ExecTypes\<close>, \<open>Executor\<close>, \<open>Precheck\<close>, \<open>ExecRun\<close> (\<open>executor.rs\<close>, \<open>dry_run.rs\<close>): the run as a function on a state that
    carries the log of events, questions and dispatches; the frontend and the runtime calls are a record of functions
    on a world of any type.
  \<^item> \<open>ExecLaws\<close>, \<open>ExecProps\<close>, \<open>ExecGates\<close>, \<open>ExecFlow\<close>, \<open>ExecSample\<close>: what holds of every run. \<open>ExecLaws\<close> gives each phase a
    specification (what it may log, how it may end); \<open>ExecProps\<close> derives the life cycle of a run and what the options
    permit; \<open>ExecGates\<close> that consent precedes dispatch, and the meaning of fuel; \<open>ExecFlow\<close> joins compiler and executor:
    a compiled workflow never breaks its own wiring, and an unattended run ends by itself.

  \<^bold>\<open>Dispatch\<close> (\<open>runtime/dispatch/\<close>). One theory per file: \<open>DispatchPath\<close> (substitution of path parameters, confirmation),
  \<open>DispatchHttp\<close> (requests, bodies, uploads with retries), \<open>DispatchPaging\<close> (strategies and the loops over pages),
  \<open>DispatchShape\<close> (what is shown of a response), \<open>ErrorCodes\<close> and \<open>DispatchClassify\<close> (the error shown for a failed request),
  \<open>DispatchExecute\<close> (an operation end to end, its preview and its dry run). The HTTP client, the JSON parser and files are
  parameters; what is sent, fetched and shown is proved about every such client, or about one that serves given pages.

  \<^bold>\<open>Configuration, authentication, usage events\<close> (\<open>runtime/config/\<close>, \<open>runtime/auth/\<close>, \<open>runtime/telemetry/\<close>, \<open>runtime/facade/\<close>).
  The outside is a record \<open>host\<close> of functions on a world, extended by \<open>auth_host\<close> (keychain, token endpoint) and
  \<open>usage_host\<close> (event client). Other processes act through the world that a lock returns.
  \<^item> \<open>Config\<close>, \<open>ConfigCommands\<close>: paths, keys, typed and raw access to the JSON files under their locks, profiles, and
    \<open>config get\<close>, \<open>set\<close>, \<open>unset\<close>; what is set reads back.
  \<^item> \<open>AuthStore\<close> (\<open>store.rs\<close>, \<open>tokens.rs\<close>, \<open>credentials.rs\<close>, \<open>locking.rs\<close>, \<open>errors.rs\<close>): secrets and tokens in the keychain
    or in files, and the three grants; a stored token reads back.
  \<^item> \<open>Sessions\<close> (\<open>session.rs\<close>): the resolution and refresh of an access token; every token handed out is accounted for.
  \<^item> \<open>ExecContext\<close> (\<open>execution.rs\<close>): the context of a call, with the source of each part.
  \<^item> \<open>Usage\<close> (\<open>telemetry/mod.rs\<close>): the switch, the identity of an installation, what is kept of a command line, and the
    events; values of flags stay on the machine, and an anonymous identity stands for one user at most.
  \<^item> \<open>Logins\<close> (\<open>operations.rs\<close>, \<open>facade/auth.rs\<close>): login, logout, status, refresh and their views; a login is what the
    next call works with.
  \<^item> \<open>Profiles\<close> (\<open>facade/profile.rs\<close>): the profile commands; the active profile follows them.

  \<^bold>\<open>The tunnel.\<close>
  \<^item> \<open>TunnelFrame\<close>, \<open>TunnelCodec\<close> (\<open>protocol/\<close>): frames, their checks and their JSON form.
  \<^item> \<open>TunnelIds\<close> (\<open>session/idgen.rs\<close>): stream numbers on 64-bit words.
  \<^item> \<open>TunnelStream\<close> (\<open>session/stream.rs\<close>): one stream under any schedule of its tasks, refining a half-close machine.
  \<^item> \<open>TunnelSession\<close>, \<open>TunnelHandshake\<close> (\<open>session/core.rs\<close>): a session as one state record and the tasks that share it. One
    step runs one task between two awaits, so a list of actions is an interleaving; the streams are addresses in a
    heap, as the tasks share them.
  \<^item> \<open>TunnelLaws\<close>, \<open>TunnelSafety\<close>, \<open>TunnelTeardown\<close>, \<open>TunnelCalls\<close>: what holds of every schedule. The locales
    \<open>trace_invariant\<close> and \<open>state_invariant\<close> turn a law of one step into a law of all runs; each invariant is an
    interpretation of one of them on \<open>session_step\<close>.

  \<^bold>\<open>Bounds and fuel.\<close> The retry loop of a step may go on as long as a person answers Retry, so a run takes fuel: running
  out is a result of its own, and \<open>ExecGates\<close> shows that fuel only bounds retries, \<open>ExecFlow\<close> that one unit is enough
  when nobody is asked. The stream number loop takes fuel too; one round more than there are numbers in use is
  enough (\<open>TunnelIds\<close>). An upload makes at most ten attempts, so its loop takes ten units (\<open>DispatchHttp\<close>). The loop over
  pages recurses on the pages left under the limit of the caller, which the code caps at 100; the list of options
  is cut at 500. Everything else is total.

  \<^bold>\<open>Conventions.\<close> Strings are byte strings. Maps of \<open>serde_json\<close> are ordered by key. Errors are \<open>Inl\<close> values with the
  source's kinds and messages, less their traces. A \<open>?\<close> that leaves \<open>execute\<close> early is the flow \<open>Escape\<close>. A slice inside a
  UTF-8 character is a panic, the value \<open>None\<close>. Clocks, files, the environment, the keychain, sockets, HTTP, handlers and
  answers of people are arguments; where a theorem needs them to be reliable it says so by a named predicate
  (\<open>honest_storage\<close>, \<open>texts_read_back\<close>, \<open>files_read_back\<close>, \<open>undisturbed\<close>), which the witnesses discharge on a table of files.

  \<^bold>\<open>Not modelled.\<close> The loading of the bundled catalogue, the handlers of local actions and the literals of the built-in
  workflows, AMS upload, the extend commands, diagnostics, the update check, the frontends, and the tunnel's listeners and
  reconnect loop: they are data or I/O around third-party crates, and the modelled parts see them through arguments.
  Wall-clock durations, log and debug output and panics of poisoned locks are left out.

  \<^bold>\<open>Plan.\<close> What remains of the program's own logic: the version comparison and cache of the update check, the plan of an
  AMS upload, the reading of OpenAPI documents into the schema types, and the JSON editor of the terminal forms.
\<close>

end
